(* ===== verification/Prelude.thy ===== *)
theory Prelude
  imports Main "HOL-Library.Sublist"
begin

text \<open>
  Shared vocabulary of the development: computations that may raise, the collections of
  rewrite rules the component proofs use, generic facts about lists and association lists,
  and the interface of a guarded transition system, which the state machines of the
  components (agent lifecycle, authorization requests, delegations, the gateway) instantiate.
\<close>

section \<open>Proof collections\<close>

named_theorems py_eval \<open>equations that evaluate the embedded Python primitives\<close>
named_theorems apl_simps \<open>equations of the policy language functions\<close>
named_theorems db_simps \<open>equations of table lookups and updates\<close>

section \<open>Computations that may raise\<close>

text \<open>
  A Python call that may raise is a value of \<open>'e + 'a\<close>: \<^const>\<open>Inl\<close> carries the exception.
  \<open>rbind\<close> sequences two calls, the second one being skipped when the first raises.
\<close>

definition rbind :: "'e + 'a \<Rightarrow> ('a \<Rightarrow> 'e + 'b) \<Rightarrow> 'e + 'b" where
  "rbind r f = (case r of Inl e \<Rightarrow> Inl e | Inr x \<Rightarrow> f x)"

definition raises :: "'e + 'a \<Rightarrow> bool" where
  "raises r = (case r of Inl _ \<Rightarrow> True | Inr _ \<Rightarrow> False)"

lemma rbind_simps [simp]:
  "rbind (Inl e) f = Inl e"
  "rbind (Inr x) f = f x"
  by (simp_all add: rbind_def)

lemma raises_simps [simp]: "raises (Inl e)" "\<not> raises (Inr x)"
  by (simp_all add: raises_def)

lemma rbind_Inr_iff: "rbind r f = Inr y \<longleftrightarrow> (\<exists>x. r = Inr x \<and> f x = Inr y)"
  by (cases r) auto

lemma rbind_Inl_iff: "rbind r f = Inl e \<longleftrightarrow> r = Inl e \<or> (\<exists>x. r = Inr x \<and> f x = Inl e)"
  by (cases r) auto

lemma rbind_cong [fundef_cong]:
  "r = r' \<Longrightarrow> (\<And>x. r' = Inr x \<Longrightarrow> f x = g x) \<Longrightarrow> rbind r f = rbind r' g"
  by (cases r') auto

lemma not_raises_iff: "\<not> raises r \<longleftrightarrow> (\<exists>x. r = Inr x)"
  by (cases r) auto

text \<open>A loop over a list whose body may raise, collecting the results in order.\<close>

fun rmap :: "('a \<Rightarrow> 'e + 'b) \<Rightarrow> 'a list \<Rightarrow> 'e + 'b list" where
  "rmap f [] = Inr []"
| "rmap f (x # xs) = rbind (f x) (\<lambda>y. rbind (rmap f xs) (\<lambda>ys. Inr (y # ys)))"

lemma rmap_Inr:
  "(\<And>x. x \<in> set xs \<Longrightarrow> f x = Inr (g x)) \<Longrightarrow> rmap f xs = Inr (map g xs)"
  by (induction xs) auto

lemma rmap_InrD: "rmap f xs = Inr ys \<Longrightarrow> list_all2 (\<lambda>x y. f x = Inr y) xs ys"
  by (induction xs arbitrary: ys) (auto simp: rbind_Inr_iff)

lemma rmap_Inl: "rmap f xs = Inl e \<Longrightarrow> \<exists>x\<in>set xs. f x = Inl e"
  by (induction xs) (auto simp: rbind_Inl_iff)

lemma rmap_total:
  "(\<And>x. x \<in> set xs \<Longrightarrow> \<not> raises (f x)) \<Longrightarrow> \<not> raises (rmap f xs)"
proof (induction xs)
  case (Cons x xs)
  then obtain y ys where "f x = Inr y" "rmap f xs = Inr ys"
    by (metis list.set_intros not_raises_iff)
  then show ?case by simp
qed simp

section \<open>Lists and association lists\<close>

lemma map_of_SomeD_set: "map_of xs k = Some v \<Longrightarrow> v \<in> snd ` set xs"
  by (induction xs) (auto split: if_splits)

text \<open>The first element that satisfies a predicate: Python's \<open>next((x for x in xs if p x), None)\<close>.\<close>

lemma find_SomeD: "List.find P xs = Some x \<Longrightarrow> P x \<and> x \<in> set xs"
  by (induction xs) (auto split: if_splits)

lemma find_None: "List.find P xs = None \<longleftrightarrow> (\<forall>x \<in> set xs. \<not> P x)"
  by (induction xs) auto

lemma find_Some_exists: "x \<in> set xs \<Longrightarrow> P x \<Longrightarrow> \<exists>y. List.find P xs = Some y"
  by (induction xs) auto

text \<open>Update every element that satisfies a predicate: an SQL \<open>UPDATE ... WHERE\<close>.\<close>

definition update_where :: "('a \<Rightarrow> bool) \<Rightarrow> ('a \<Rightarrow> 'a) \<Rightarrow> 'a list \<Rightarrow> 'a list" where
  "update_where P f xs = map (\<lambda>x. if P x then f x else x) xs"

lemma length_update_where [simp]: "length (update_where P f xs) = length xs"
  by (simp add: update_where_def)

lemma update_where_simps [simp]:
  "update_where P f [] = []"
  "update_where P f (x # xs) = (if P x then f x else x) # update_where P f xs"
  by (simp_all add: update_where_def)

lemma set_update_where:
  "set (update_where P f xs) = {f x |x. x \<in> set xs \<and> P x} \<union> {x \<in> set xs. \<not> P x}"
  by (induction xs) auto

lemma map_update_where_same:
  "(\<And>x. x \<in> set xs \<Longrightarrow> P x \<Longrightarrow> g (f x) = g x) \<Longrightarrow> map g (update_where P f xs) = map g xs"
  by (induction xs) auto

lemma find_update_where_key:
  assumes "\<And>x. key (f x) = key x"
  shows "List.find (\<lambda>x. key x = k) (update_where P f xs) =
           map_option (\<lambda>x. if P x then f x else x) (List.find (\<lambda>x. key x = k) xs)"
  using assms by (induction xs) auto

lemma find_distinct_key:
  "distinct (map key xs) \<Longrightarrow> x \<in> set xs \<Longrightarrow> List.find (\<lambda>y. key y = key x) xs = Some x"
  by (induction xs) (auto simp: image_iff)

lemma find_append:
  "List.find P (xs @ ys) = (case List.find P xs of None \<Rightarrow> List.find P ys | Some x \<Rightarrow> Some x)"
  by (induction xs) auto

section \<open>Tables of keyed rows\<close>

text \<open>
  A table is a list of rows with distinct keys below a supply of fresh ones. The contract of
  its rows is a relation that says how one row may change; the table evolves when every old
  row is kept up to that relation and every row with an old key comes from one.
\<close>

definition rows_ok :: "('r \<Rightarrow> nat) \<Rightarrow> nat \<Rightarrow> 'r list \<Rightarrow> bool" where
  "rows_ok key n rs = (distinct (map key rs) \<and> list_all (\<lambda>k. k < n) (map key rs))"

definition rows_evolve :: "('r \<Rightarrow> nat) \<Rightarrow> ('r \<Rightarrow> 'r \<Rightarrow> bool) \<Rightarrow> nat \<Rightarrow> 'r list \<Rightarrow> nat \<Rightarrow> 'r list \<Rightarrow> bool" where
  "rows_evolve key keep n rs n' rs' =
     (n \<le> n' \<and> rows_ok key n' rs' \<and> (\<forall>r\<in>set rs. \<exists>r'\<in>set rs'. keep r r') \<and>
      (\<forall>r'\<in>set rs'. key r' < n \<longrightarrow> (\<exists>r\<in>set rs. keep r r')))"

lemma rows_ok_find:
  "rows_ok key n rs \<Longrightarrow> List.find (\<lambda>r. key r = k) rs = Some r \<longleftrightarrow> r \<in> set rs \<and> key r = k"
  using find_distinct_key [of key rs r] by (auto simp: rows_ok_def dest: find_SomeD)

lemma rows_ok_same_key:
  "rows_ok key n rs \<Longrightarrow> r \<in> set rs \<Longrightarrow> r' \<in> set rs \<Longrightarrow> key r = key r' \<Longrightarrow> r = r'"
  by (auto simp: rows_ok_def distinct_map dest: inj_onD)

lemma rows_ok_snoc:
  "rows_ok key n rs \<Longrightarrow> n \<le> key r \<Longrightarrow> key r < n' \<Longrightarrow> rows_ok key n' (rs @ [r])"
  by (force simp: rows_ok_def list_all_iff)

lemma rows_ok_mono: "rows_ok key n rs \<Longrightarrow> n \<le> n' \<Longrightarrow> rows_ok key n' rs"
  by (auto simp: rows_ok_def list_all_iff)

lemma rows_ok_update_where:
  "(\<And>r. r \<in> set rs \<Longrightarrow> P r \<Longrightarrow> key (f r) = key r) \<Longrightarrow> rows_ok key n (update_where P f rs) = rows_ok key n rs"
  by (simp add: rows_ok_def map_update_where_same)

lemma rows_evolve_fwd: "rows_evolve key keep n rs n' rs' \<Longrightarrow> r \<in> set rs \<Longrightarrow> \<exists>r'\<in>set rs'. keep r r'"
  by (simp add: rows_evolve_def)

lemma rows_evolve_back:
  "rows_evolve key keep n rs n' rs' \<Longrightarrow> r' \<in> set rs' \<Longrightarrow> key r' < n \<Longrightarrow> \<exists>r\<in>set rs. keep r r'"
  by (simp add: rows_evolve_def)

lemma rows_evolve_le: "rows_evolve key keep n rs n' rs' \<Longrightarrow> n \<le> n' \<and> rows_ok key n' rs'"
  by (simp add: rows_evolve_def)

locale keyed_rows =
  fixes key :: "'r \<Rightarrow> nat"
    and keep :: "'r \<Rightarrow> 'r \<Rightarrow> bool"
  assumes keep_refl: "keep r r"
    and keep_trans: "keep r r' \<Longrightarrow> keep r' r'' \<Longrightarrow> keep r r''"
    and keep_key: "keep r r' \<Longrightarrow> key r' = key r"
begin

lemma evolve_refl: "rows_ok key n rs \<Longrightarrow> n \<le> n' \<Longrightarrow> rows_evolve key keep n rs n' rs"
  using keep_refl by (auto simp: rows_evolve_def intro: rows_ok_mono)

lemma evolve_trans:
  assumes "rows_evolve key keep n rs n' rs'" "rows_evolve key keep n' rs' n'' rs''"
  shows "rows_evolve key keep n rs n'' rs''"
  unfolding rows_evolve_def
proof (intro conjI ballI impI)
  show "n \<le> n''" "rows_ok key n'' rs''" using assms [THEN rows_evolve_le] by simp_all
next
  fix r assume "r \<in> set rs"
  then obtain r' where "r' \<in> set rs'" "keep r r'" using rows_evolve_fwd [OF assms(1)] by blast
  then show "\<exists>r'\<in>set rs''. keep r r'" using rows_evolve_fwd [OF assms(2)] keep_trans by blast
next
  fix r'' assume r: "r'' \<in> set rs''" "key r'' < n"
  then have "key r'' < n'" using rows_evolve_le [OF assms(1)] by simp
  with r obtain r' where r': "r' \<in> set rs'" "keep r' r''" using rows_evolve_back [OF assms(2)] by blast
  with r(2) have "key r' < n" using keep_key by simp
  with r' show "\<exists>r\<in>set rs. keep r r''" using rows_evolve_back [OF assms(1)] keep_trans by blast
qed

lemma evolve_update_where:
  assumes "rows_ok key n rs" "\<And>r. r \<in> set rs \<Longrightarrow> P r \<Longrightarrow> keep r (f r)"
  shows "rows_evolve key keep n rs n (update_where P f rs)"
  unfolding rows_evolve_def
proof (intro conjI ballI impI)
  show "rows_ok key n (update_where P f rs)"
    using assms rows_ok_update_where [of rs P key f n] keep_key by blast
next
  fix r assume "r \<in> set rs"
  then show "\<exists>r'\<in>set (update_where P f rs). keep r r'"
    using assms(2) keep_refl unfolding set_update_where by (cases "P r") blast+
next
  fix r' assume "r' \<in> set (update_where P f rs)"
  then show "\<exists>r\<in>set rs. keep r r'" using assms(2) keep_refl unfolding set_update_where by blast
qed simp

lemma evolve_snoc:
  assumes "rows_ok key n rs" "n \<le> key r" "key r < n'"
  shows "rows_evolve key keep n rs n' (rs @ [r])"
  unfolding rows_evolve_def
proof (intro conjI ballI impI)
  show "rows_ok key n' (rs @ [r])" using assms by (rule rows_ok_snoc)
  show "n \<le> n'" using assms by simp
next
  fix q assume "q \<in> set rs" then show "\<exists>r'\<in>set (rs @ [r]). keep q r'" using keep_refl by auto
next
  fix q assume "q \<in> set (rs @ [r])" "key q < n"
  then show "\<exists>p\<in>set rs. keep p q" using assms(2) keep_refl by auto
qed

lemma evolve_ok: "rows_evolve key keep n rs n' rs' \<Longrightarrow> rows_ok key n' rs'"
  by (simp add: rows_evolve_def)

lemma evolve_row: "rows_evolve key keep n rs n' rs' \<Longrightarrow> r \<in> set rs \<Longrightarrow> \<exists>r'\<in>set rs'. keep r r' \<and> key r' = key r"
  by (drule (1) rows_evolve_fwd) (blast dest: keep_key)

lemma evolve_steps:
  assumes "step\<^sup>*\<^sup>* s t" "rows_ok key (n s) (rs s)"
    and "\<And>u v. rows_ok key (n u) (rs u) \<Longrightarrow> step u v \<Longrightarrow> rows_evolve key keep (n u) (rs u) (n v) (rs v)"
  shows "rows_evolve key keep (n s) (rs s) (n t) (rs t)"
  using assms(1)
proof (induction rule: rtranclp_induct)
  case base
  then show ?case using assms(2) by (rule evolve_refl) simp
next
  case (step u v)
  then show ?case using assms(3) evolve_ok evolve_trans by blast
qed

end

section \<open>Guarded transition systems\<close>

text \<open>
  The contract a state machine offers to its clients: a set of initial states, a step
  relation and an invariant that the initial states have and every step keeps. The client
  facts (the invariant in every reachable state, stability of absorbing states) are proved
  once here.
\<close>

locale transition_system =
  fixes init :: "'s \<Rightarrow> bool"
    and step :: "'s \<Rightarrow> 's \<Rightarrow> bool"
    and inv :: "'s \<Rightarrow> bool"
  assumes inv_init: "init s \<Longrightarrow> inv s"
    and inv_step: "inv s \<Longrightarrow> step s t \<Longrightarrow> inv t"
begin

lemma inv_steps: "step\<^sup>*\<^sup>* s t \<Longrightarrow> inv s \<Longrightarrow> inv t"
  by (induction rule: rtranclp_induct) (auto intro: inv_step)

lemma inv_reachable: "init s \<Longrightarrow> step\<^sup>*\<^sup>* s t \<Longrightarrow> inv t"
  using inv_steps inv_init by blast

lemma absorbing_steps:
  assumes "step\<^sup>*\<^sup>* s t" "inv s" "P s" "\<And>u v. inv u \<Longrightarrow> P u \<Longrightarrow> step u v \<Longrightarrow> P v"
  shows "P t"
  using assms(1) inv_steps assms(2-4) by (induction rule: rtranclp_induct) blast+

end

end
