(* ===== verification/PyValues.thy ===== *)
theory PyValues
  imports Prelude Complex_Main "HOL-Library.Char_ord" "HOL-Library.List_Lexorder"
begin

text \<open>
  The fragment of Python's object model that the sources rely on: the values a decoded JSON
  document may hold, truth testing, equality, conversion to text and to floating point,
  indexing and iteration, and the string methods the services call.

  Conventions. Text is a list of ASCII characters, so case mapping and white space are
  those of ASCII. A float is a finite double, given by its exact rational value, an infinity
  or a NaN; the sign of a zero is not represented. Rounding to 53 binary digits and to the
  28 decimal digits of the default decimal context is written out.
\<close>

section \<open>Exceptions\<close>

datatype pyexn = AttributeError | TypeError | ValueError | OverflowError | KeyError | ZeroDivisionError

section \<open>Text\<close>

definition is_space :: "char \<Rightarrow> bool" where
  "is_space c = (let n = (of_char c :: nat) in n = 32 \<or> (9 \<le> n \<and> n \<le> 13) \<or> (28 \<le> n \<and> n \<le> 31))"

definition is_digit :: "char \<Rightarrow> bool" where
  "is_digit c = (let n = (of_char c :: nat) in 48 \<le> n \<and> n \<le> 57)"

definition is_lower :: "char \<Rightarrow> bool" where
  "is_lower c = (let n = (of_char c :: nat) in 97 \<le> n \<and> n \<le> 122)"

definition is_upper :: "char \<Rightarrow> bool" where
  "is_upper c = (let n = (of_char c :: nat) in 65 \<le> n \<and> n \<le> 90)"

definition lower_char :: "char \<Rightarrow> char" where
  "lower_char c = (if is_upper c then char_of (of_char c + 32 :: nat) else c)"

definition upper_char :: "char \<Rightarrow> char" where
  "upper_char c = (if is_lower c then char_of (of_char c - 32 :: nat) else c)"

definition py_lower :: "string \<Rightarrow> string" where
  "py_lower s = map lower_char s"

definition py_upper :: "string \<Rightarrow> string" where
  "py_upper s = map upper_char s"

definition py_strip :: "string \<Rightarrow> string" where
  "py_strip s = rev (dropWhile is_space (rev (dropWhile is_space s)))"

definition py_startswith :: "string \<Rightarrow> string \<Rightarrow> bool" where
  "py_startswith s p = (take (length p) s = p)"

definition py_endswith :: "string \<Rightarrow> string \<Rightarrow> bool" where
  "py_endswith s p = (length p \<le> length s \<and> drop (length s - length p) s = p)"

fun py_contains :: "string \<Rightarrow> string \<Rightarrow> bool" where
  "py_contains [] p = (p = [])"
| "py_contains (c # cs) p = (py_startswith (c # cs) p \<or> py_contains cs p)"

text \<open>\<open>s.split(sep)\<close> for a separator of one character: never empty.\<close>

fun py_split :: "char \<Rightarrow> string \<Rightarrow> string list" where
  "py_split d [] = [[]]"
| "py_split d (c # cs) =
     (if c = d then [] # py_split d cs
      else (case py_split d cs of [] \<Rightarrow> [[c]] | w # ws \<Rightarrow> (c # w) # ws))"

fun py_join :: "string \<Rightarrow> string list \<Rightarrow> string" where
  "py_join sep [] = []"
| "py_join sep [x] = x"
| "py_join sep (x # y # ys) = x @ sep @ py_join sep (y # ys)"

section \<open>Decimal notation\<close>

definition digit_char :: "nat \<Rightarrow> char" where
  "digit_char d = char_of (48 + d :: nat)"

function str_of_pos :: "int \<Rightarrow> string" where
  "str_of_pos n =
     (if n < 10 then [digit_char (nat n)] else str_of_pos (n div 10) @ [digit_char (nat (n mod 10))])"
  by pat_completeness auto
termination by (relation "measure nat") auto

declare str_of_pos.simps [simp del]

definition str_of_int :: "int \<Rightarrow> string" where
  "str_of_int i = (if i < 0 then CHR ''-'' # str_of_pos (- i) else str_of_pos i)"

definition str_of_nat :: "nat \<Rightarrow> string" where
  "str_of_nat n = str_of_int (int n)"

function ndigits :: "int \<Rightarrow> int \<Rightarrow> int" where
  "ndigits b n = (if b < 2 \<or> n \<le> 0 then 0 else 1 + ndigits b (n div b))"
  by pat_completeness auto
termination
proof (relation "measure (\<lambda>(b, n). nat n)", goal_cases)
  case (2 b n)
  then have "n div b < n" by (intro int_div_less_self) auto
  with 2 show ?case by auto
qed simp

declare ndigits.simps [simp del]

section \<open>Rounding\<close>

definition round_half_even :: "rat \<Rightarrow> int" where
  "round_half_even x =
     (let f = \<lfloor>x\<rfloor>; d = x - of_int f in
      if d < 1 / 2 then f else if d > 1 / 2 then f + 1 else if even f then f else f + 1)"

definition base_pow :: "nat \<Rightarrow> int \<Rightarrow> rat" where
  "base_pow b e = (if 0 \<le> e then of_nat b ^ nat e else 1 / of_nat b ^ nat (- e))"

text \<open>The exponent that leaves \<open>p\<close> digits of base \<open>b\<close> before the point, for a positive value.\<close>

definition sig_exp :: "nat \<Rightarrow> int \<Rightarrow> rat \<Rightarrow> int" where
  "sig_exp b p x =
     (case quotient_of x of (n, d) \<Rightarrow>
        let k = ndigits (int b) n - ndigits (int b) d in
        if base_pow b k \<le> x then k + 1 - p else k - p)"

definition round_at :: "nat \<Rightarrow> int \<Rightarrow> rat \<Rightarrow> rat" where
  "round_at b e x = of_int (round_half_even (x / base_pow b e)) * base_pow b e"

text \<open>Decimal arithmetic in the default context: 28 significant digits, ties to even.\<close>

definition dec_round :: "rat \<Rightarrow> rat" where
  "dec_round x = (if x = 0 then 0 else round_at 10 (sig_exp 10 28 \<bar>x\<bar>) x)"

datatype pyfloat = FNum rat | FPInf | FNInf | FNaN

definition float_of_rat :: "rat \<Rightarrow> pyfloat" where
  "float_of_rat x =
     (if x = 0 then FNum 0
      else let r = round_at 2 (max (- 1074) (sig_exp 2 53 \<bar>x\<bar>)) x in
        if r \<ge> 2 ^ 1024 then FPInf else if r \<le> - (2 ^ 1024) then FNInf else FNum r)"

fun float_lt :: "pyfloat \<Rightarrow> pyfloat \<Rightarrow> bool" where
  "float_lt FNaN _ = False"
| "float_lt _ FNaN = False"
| "float_lt FPInf _ = False"
| "float_lt FNInf y = (y \<noteq> FNInf)"
| "float_lt (FNum x) FPInf = True"
| "float_lt (FNum x) FNInf = False"
| "float_lt (FNum x) (FNum y) = (x < y)"

definition float_eq :: "pyfloat \<Rightarrow> pyfloat \<Rightarrow> bool" where
  "float_eq x y = (x \<noteq> FNaN \<and> y \<noteq> FNaN \<and> x = y)"

definition float_le :: "pyfloat \<Rightarrow> pyfloat \<Rightarrow> bool" where
  "float_le x y = (float_lt x y \<or> float_eq x y)"

section \<open>Floats and text\<close>

text \<open>
  \<open>float(text)\<close>: surrounding white space, a sign, then \<open>inf\<close>, \<open>infinity\<close> or \<open>nan\<close> in any
  case, or a decimal literal in which single underscores may separate digits.
\<close>

fun digit_run :: "string \<Rightarrow> nat list \<times> string" where
  "digit_run [] = ([], [])"
| "digit_run (c # cs) =
     (if is_digit c then
        (case cs of
           u # d # ds \<Rightarrow>
             if u = CHR ''_'' \<and> is_digit d
             then (case digit_run (d # ds) of (xs, r) \<Rightarrow> ((of_char c - 48) # xs, r))
             else (case digit_run cs of (xs, r) \<Rightarrow> ((of_char c - 48) # xs, r))
         | _ \<Rightarrow> (case digit_run cs of (xs, r) \<Rightarrow> ((of_char c - 48) # xs, r)))
      else ([], c # cs))"

definition int_of_digits :: "nat list \<Rightarrow> int" where
  "int_of_digits ds = foldl (\<lambda>n d. 10 * n + int d) 0 ds"

definition split_sign :: "string \<Rightarrow> bool \<times> string" where
  "split_sign s = (case s of [] \<Rightarrow> (False, []) | c # cs \<Rightarrow>
     if c = CHR ''-'' then (True, cs) else if c = CHR ''+'' then (False, cs) else (False, s))"

definition parse_exponent :: "string \<Rightarrow> int option" where
  "parse_exponent s = (case s of [] \<Rightarrow> Some 0 | c # cs \<Rightarrow>
     if c = CHR ''e'' \<or> c = CHR ''E'' then
       (case split_sign cs of (neg, t) \<Rightarrow>
          (case digit_run t of (ds, r) \<Rightarrow>
             if ds = [] \<or> r \<noteq> [] then None
             else Some (if neg then - int_of_digits ds else int_of_digits ds)))
     else None)"

definition parse_decimal :: "string \<Rightarrow> rat option" where
  "parse_decimal s =
     (case digit_run s of (ip, r) \<Rightarrow>
        let (fp, r') = (case r of [] \<Rightarrow> ([], []) | c # cs \<Rightarrow>
              if c = CHR ''.'' then digit_run cs else ([], r)) in
        if ip = [] \<and> fp = [] then None
        else (case parse_exponent r' of None \<Rightarrow> None
              | Some e \<Rightarrow> Some (of_int (int_of_digits (ip @ fp)) * base_pow 10 (e - int (length fp)))))"

definition float_of_string :: "string \<Rightarrow> pyexn + pyfloat" where
  "float_of_string s0 =
     (case split_sign (py_strip s0) of (neg, s) \<Rightarrow>
        if py_lower s \<in> {''inf'', ''infinity''} then Inr (if neg then FNInf else FPInf)
        else if py_lower s = ''nan'' then Inr FNaN
        else (case parse_decimal s of None \<Rightarrow> Inl ValueError
              | Some x \<Rightarrow> Inr (float_of_rat (if neg then - x else x))))"

text \<open>
  \<open>repr(float)\<close>: the shortest digit string that reads back as the same double, the closest one
  where there are several, in positional notation for exponents from -4 to 15.
\<close>

definition roundtrip_candidates :: "rat \<Rightarrow> int \<Rightarrow> (int \<times> int) list" where
  "roundtrip_candidates x n =
     (let e = sig_exp 10 n x; m = \<lfloor>x / base_pow 10 e\<rfloor>;
          lo = of_int m * base_pow 10 e; hi = of_int (m + 1) * base_pow 10 e;
          order = (if x - lo < hi - x \<or> (x - lo = hi - x \<and> even m) then [m, m + 1] else [m + 1, m])
      in filter (\<lambda>(k, e). float_of_rat (of_int k * base_pow 10 e) = FNum x) (map (\<lambda>k. (k, e)) order))"

fun shortest_digits :: "nat \<Rightarrow> int \<Rightarrow> rat \<Rightarrow> int \<times> int" where
  "shortest_digits 0 n x = (round_half_even (x / base_pow 10 (sig_exp 10 n x)), sig_exp 10 n x)"
| "shortest_digits (Suc f) n x =
     (case roundtrip_candidates x n of [] \<Rightarrow> shortest_digits f (n + 1) x | c # _ \<Rightarrow> c)"

definition strip_zeros :: "string \<Rightarrow> string" where
  "strip_zeros s = rev (dropWhile (\<lambda>c. c = CHR ''0'') (rev s))"

definition positive_repr :: "rat \<Rightarrow> string" where
  "positive_repr x =
     (case shortest_digits 16 1 x of (m, e) \<Rightarrow>
        let full = str_of_int m; point = int (length full) + e; ds = strip_zeros full in
        if - 4 < point \<and> point \<le> 16 then
          (if point \<le> 0 then ''0.'' @ replicate (nat (- point)) CHR ''0'' @ ds
           else if int (length ds) \<le> point
           then ds @ replicate (nat point - length ds) CHR ''0'' @ ''.0''
           else take (nat point) ds @ ''.'' @ drop (nat point) ds)
        else
          (let x10 = point - 1; a = str_of_int \<bar>x10\<bar>;
               expo = (if x10 < 0 then ''-'' else ''+'') @ (if length a < 2 then CHR ''0'' # a else a) in
           take 1 ds @ (if length ds > 1 then ''.'' @ drop 1 ds else []) @ ''e'' @ expo))"

fun float_repr :: "pyfloat \<Rightarrow> string" where
  "float_repr FPInf = ''inf''"
| "float_repr FNInf = ''-inf''"
| "float_repr FNaN = ''nan''"
| "float_repr (FNum x) =
     (if x = 0 then ''0.0'' else if x < 0 then CHR ''-'' # positive_repr (- x) else positive_repr x)"

section \<open>Values\<close>

text \<open>
  What \<open>json.loads\<close> produces. An object is an association list in insertion order; its keys
  are distinct in every decoded document.
\<close>

datatype pyval =
    PNone
  | PBool bool
  | PInt int
  | PFloat pyfloat
  | PStr string
  | PList "pyval list"
  | PDict "(string \<times> pyval) list"

fun py_truthy :: "pyval \<Rightarrow> bool" where
  "py_truthy PNone = False"
| "py_truthy (PBool b) = b"
| "py_truthy (PInt i) = (i \<noteq> 0)"
| "py_truthy (PFloat f) = (f \<noteq> FNum 0)"
| "py_truthy (PStr s) = (s \<noteq> [])"
| "py_truthy (PList xs) = (xs \<noteq> [])"
| "py_truthy (PDict d) = (d \<noteq> [])"

definition py_or :: "pyval \<Rightarrow> pyval \<Rightarrow> pyval" where
  "py_or a b = (if py_truthy a then a else b)"

text \<open>\<open>d.get(k)\<close> and \<open>d.get(k, default)\<close> on a dictionary.\<close>

definition dict_get :: "(string \<times> pyval) list \<Rightarrow> string \<Rightarrow> pyval \<Rightarrow> pyval" where
  "dict_get d k dflt = (case map_of d k of None \<Rightarrow> dflt | Some v \<Rightarrow> v)"

text \<open>\<open>x.get(k, default)\<close> on a value that may not be a dictionary.\<close>

fun val_get :: "pyval \<Rightarrow> string \<Rightarrow> pyval \<Rightarrow> pyexn + pyval" where
  "val_get (PDict d) k dflt = Inr (dict_get d k dflt)"
| "val_get _ k dflt = Inl AttributeError"

fun py_iter :: "pyval \<Rightarrow> pyexn + pyval list" where
  "py_iter (PList xs) = Inr xs"
| "py_iter (PStr s) = Inr (map (\<lambda>c. PStr [c]) s)"
| "py_iter (PDict d) = Inr (map (\<lambda>p. PStr (fst p)) d)"
| "py_iter _ = Inl TypeError"

fun py_items :: "pyval \<Rightarrow> pyexn + (string \<times> pyval) list" where
  "py_items (PDict d) = Inr d"
| "py_items _ = Inl AttributeError"

fun is_dict :: "pyval \<Rightarrow> bool" where
  "is_dict (PDict d) = True"
| "is_dict _ = False"

fun is_list :: "pyval \<Rightarrow> bool" where
  "is_list (PList xs) = True"
| "is_list _ = False"

fun is_str :: "pyval \<Rightarrow> bool" where
  "is_str (PStr s) = True"
| "is_str _ = False"

text \<open>\<open>isinstance(v, (int, float))\<close>: a Boolean is an int.\<close>

fun is_number :: "pyval \<Rightarrow> bool" where
  "is_number (PBool b) = True"
| "is_number (PInt i) = True"
| "is_number (PFloat f) = True"
| "is_number _ = False"

subsection \<open>Equality\<close>

text \<open>Booleans and ints are compared with floats by exact value.\<close>

fun num_of :: "pyval \<Rightarrow> pyfloat option" where
  "num_of (PBool b) = Some (FNum (if b then 1 else 0))"
| "num_of (PInt i) = Some (FNum (of_int i))"
| "num_of (PFloat f) = Some f"
| "num_of _ = None"

lemma size_map_of [termination_simp]:
  "map_of d k = Some v \<Longrightarrow> size v < Suc (size_list (size_prod (\<lambda>x. 0) size) d)"
  by (induction d) (auto split: if_splits)

lemma size_in_list [termination_simp]:
  "v \<in> set xs \<Longrightarrow> size v < Suc (size_list size xs)"
  by (induction xs) auto

function py_eq :: "pyval \<Rightarrow> pyval \<Rightarrow> bool" and list_eq :: "pyval list \<Rightarrow> pyval list \<Rightarrow> bool"
  and dict_sub :: "(string \<times> pyval) list \<Rightarrow> (string \<times> pyval) list \<Rightarrow> bool"
where
  "py_eq a b =
     (case (a, b) of
        (PNone, PNone) \<Rightarrow> True
      | (PStr s, PStr t) \<Rightarrow> s = t
      | (PList xs, PList ys) \<Rightarrow> list_eq xs ys
      | (PDict d, PDict e) \<Rightarrow> length d = length e \<and> dict_sub d e
      | _ \<Rightarrow> (case (num_of a, num_of b) of
                (Some x, Some y) \<Rightarrow> float_eq x y
              | _ \<Rightarrow> False))"
| "list_eq [] ys = (ys = [])"
| "list_eq (x # xs) ys = (case ys of [] \<Rightarrow> False | y # ys' \<Rightarrow> py_eq x y \<and> list_eq xs ys')"
| "dict_sub [] e = True"
| "dict_sub ((k, v) # d) e = ((case map_of e k of None \<Rightarrow> False | Some w \<Rightarrow> py_eq v w) \<and> dict_sub d e)"
  by pat_completeness auto
termination
  by (relation "measure (\<lambda>x. case x of
        Inl (a, b) \<Rightarrow> 2 * size a
      | Inr (Inl (xs, ys)) \<Rightarrow> Suc (2 * size_list size xs)
      | Inr (Inr (d, e)) \<Rightarrow> Suc (2 * size_list (size_prod (\<lambda>x. 0) size) d))") auto

declare py_eq.simps [simp del]

definition py_in_list :: "pyval \<Rightarrow> pyval list \<Rightarrow> bool" where
  "py_in_list x ys = list_ex (\<lambda>y. py_eq x y) ys"

subsection \<open>Conversion to text\<close>

definition hex_char :: "nat \<Rightarrow> char" where
  "hex_char d = (if d < 10 then char_of (48 + d :: nat) else char_of (87 + d :: nat))"

definition is_printable :: "char \<Rightarrow> bool" where
  "is_printable c = (let n = (of_char c :: nat) in 32 \<le> n \<and> n \<le> 126)"

definition repr_char :: "char \<Rightarrow> char \<Rightarrow> string" where
  "repr_char q c =
     (if c = q \<or> c = CHR 0x5C then [CHR 0x5C, c]
      else if c = CHR 0x0A then [CHR 0x5C, CHR ''n'']
      else if c = CHR 0x0D then [CHR 0x5C, CHR ''r'']
      else if c = CHR 0x09 then [CHR 0x5C, CHR ''t'']
      else if is_printable c then [c]
      else [CHR 0x5C, CHR ''x'', hex_char (of_char c div 16), hex_char (of_char c mod 16)])"

definition str_repr :: "string \<Rightarrow> string" where
  "str_repr s =
     (let q = (if CHR 0x27 \<in> set s \<and> CHR 0x22 \<notin> set s then CHR 0x22 else CHR 0x27)
      in q # concat (map (repr_char q) s) @ [q])"

fun py_repr :: "pyval \<Rightarrow> string" where
  "py_repr PNone = ''None''"
| "py_repr (PBool b) = (if b then ''True'' else ''False'')"
| "py_repr (PInt i) = str_of_int i"
| "py_repr (PFloat f) = float_repr f"
| "py_repr (PStr s) = str_repr s"
| "py_repr (PList xs) = ''['' @ py_join '', '' (map py_repr xs) @ '']''"
| "py_repr (PDict d) =
     ''{'' @ py_join '', '' (map (\<lambda>(k, v). str_repr k @ '': '' @ py_repr v) d) @ ''}''"

definition py_str :: "pyval \<Rightarrow> string" where
  "py_str v = (case v of PStr s \<Rightarrow> s | _ \<Rightarrow> py_repr v)"

subsection \<open>Conversion to float\<close>

definition float_of_int :: "int \<Rightarrow> pyexn + pyfloat" where
  "float_of_int i = (case float_of_rat (of_int i) of FNum x \<Rightarrow> Inr (FNum x) | _ \<Rightarrow> Inl OverflowError)"

fun py_float :: "pyval \<Rightarrow> pyexn + pyfloat" where
  "py_float (PBool b) = Inr (FNum (if b then 1 else 0))"
| "py_float (PInt i) = float_of_int i"
| "py_float (PFloat f) = Inr f"
| "py_float (PStr s) = float_of_string s"
| "py_float _ = Inl TypeError"

subsection \<open>Canonical JSON text\<close>

text \<open>\<open>json.dumps(v, sort_keys=True, separators=(item, key))\<close> with the default ASCII escapes.\<close>

definition json_char :: "char \<Rightarrow> string" where
  "json_char c =
     (if c = CHR 0x22 \<or> c = CHR 0x5C then [CHR 0x5C, c]
      else if c = CHR 0x0A then [CHR 0x5C, CHR ''n'']
      else if c = CHR 0x0D then [CHR 0x5C, CHR ''r'']
      else if c = CHR 0x09 then [CHR 0x5C, CHR ''t'']
      else if c = CHR 0x08 then [CHR 0x5C, CHR ''b'']
      else if c = CHR 0x0C then [CHR 0x5C, CHR ''f'']
      else if (of_char c :: nat) < 32 \<or> 126 < (of_char c :: nat) \<and> (of_char c :: nat) \<noteq> 127
      then [CHR 0x5C, CHR ''u'', CHR ''0'', CHR ''0'', hex_char (of_char c div 16), hex_char (of_char c mod 16)]
      else [c])"

definition json_str :: "string \<Rightarrow> string" where
  "json_str s = CHR 0x22 # concat (map json_char s) @ [CHR 0x22]"

fun json_float :: "pyfloat \<Rightarrow> string" where
  "json_float FPInf = ''Infinity''"
| "json_float FNInf = ''-Infinity''"
| "json_float FNaN = ''NaN''"
| "json_float (FNum x) = float_repr (FNum x)"

fun json_dumps :: "string \<Rightarrow> string \<Rightarrow> pyval \<Rightarrow> string" where
  "json_dumps si sk PNone = ''null''"
| "json_dumps si sk (PBool b) = (if b then ''true'' else ''false'')"
| "json_dumps si sk (PInt i) = str_of_int i"
| "json_dumps si sk (PFloat f) = json_float f"
| "json_dumps si sk (PStr s) = json_str s"
| "json_dumps si sk (PList xs) = ''['' @ py_join si (map (json_dumps si sk) xs) @ '']''"
| "json_dumps si sk (PDict d) =
     ''{'' @ py_join si (map snd (sort_key fst
        (map (\<lambda>(k, v). (k, json_str k @ sk @ json_dumps si sk v)) d))) @ ''}''"

section \<open>Facts about the primitives\<close>

text \<open>An int of less than 54 bits is converted to a float exactly.\<close>

lemma ndigits_bounds:
  "2 \<le> b \<Longrightarrow> 0 < n \<Longrightarrow>
     0 < ndigits b n \<and> b ^ nat (ndigits b n - 1) \<le> n \<and> n < b ^ nat (ndigits b n)"
proof (induction b n rule: ndigits.induct)
  case (1 b n)
  note eq = ndigits.simps [of b n]
  show ?case
  proof (cases "n div b > 0")
    case False
    with 1 have "n div b = 0" by (simp add: pos_imp_zdiv_nonneg_iff order_antisym)
    with 1 have "n < b" by (simp add: zdiv_eq_0_iff)
    with 1 \<open>n div b = 0\<close> show ?thesis by (simp add: eq ndigits.simps [of b 0])
  next
    case True
    let ?d = "ndigits b (n div b)"
    from 1 True have IH: "0 < ?d" "b ^ nat (?d - 1) \<le> n div b" "n div b < b ^ nat ?d" by auto
    from IH(1) have p: "b ^ nat ?d = b * b ^ nat (?d - 1)"
      by (simp add: power_eq_if nat_diff_distrib)
    have q: "b ^ nat (1 + ?d) = b * b ^ nat ?d"
      using IH(1) by (simp add: nat_add_distrib)
    have "b * b ^ nat (?d - 1) \<le> b * (n div b)" using IH(2) 1 by simp
    also have "\<dots> \<le> n" using 1 by (simp add: mult.commute minus_mod_eq_mult_div [symmetric])
    finally have lo: "b ^ nat ?d \<le> n" using p by simp
    have "n < b * (n div b + 1)"
    proof -
      have "n = b * (n div b) + n mod b" by simp
      moreover have "n mod b < b" using 1 by simp
      ultimately have "n < b * (n div b) + b" by linarith
      then show ?thesis by (simp add: distrib_left)
    qed
    also have "\<dots> \<le> b * b ^ nat ?d" using IH(3) 1 by simp
    finally have hi: "n < b ^ nat (1 + ?d)" using q by simp
    from lo hi 1 IH(1) show ?thesis by (simp add: eq)
  qed
qed

lemma round_half_even_of_int [simp]: "round_half_even (of_int i) = i"
  by (simp add: round_half_even_def)

lemma base_pow_pos: "0 < b \<Longrightarrow> 0 < base_pow b e"
  by (simp add: base_pow_def)

lemma base_pow_nonpos: "e \<le> 0 \<Longrightarrow> base_pow b e = 1 / of_nat b ^ nat (- e)"
  by (auto simp: base_pow_def)

lemma round_at_exact: "0 < b \<Longrightarrow> x / base_pow b e = of_int i \<Longrightarrow> round_at b e x = x"
  using base_pow_pos [of b e] by (auto simp: round_at_def field_simps)

lemma sig_exp_int_le:
  assumes "0 < i" "i < 2 ^ 53"
  shows "sig_exp 2 53 (of_int i) \<le> 0"
proof -
  let ?d = "ndigits 2 i"
  have q: "quotient_of (of_int i) = (i, 1)" by (simp add: quotient_of_int)
  have one: "ndigits 2 1 = 1" by (simp add: ndigits.simps)
  from ndigits_bounds [of 2 i] assms have d: "0 < ?d" "2 ^ nat (?d - 1) \<le> i" by auto
  then have "(2::int) ^ nat (?d - 1) < 2 ^ 53" using assms by linarith
  then have "nat (?d - 1) < 53" by (rule power_less_imp_less_exp [rotated]) simp
  then have "?d \<le> 53" by linarith
  moreover have "base_pow 2 (?d - 1) \<le> of_int i"
  proof -
    have "(of_int (2 ^ nat (?d - 1)) :: rat) \<le> of_int i" using d(2) by (simp only: of_int_le_iff)
    then show ?thesis using d(1) by (simp add: base_pow_def)
  qed
  ultimately show ?thesis by (simp add: sig_exp_def q one)
qed

lemma float_of_rat_int:
  assumes "\<bar>i\<bar> < 2 ^ 53"
  shows "float_of_rat (of_int i) = FNum (of_int i)"
proof (cases "i = 0")
  case True then show ?thesis by (simp add: float_of_rat_def)
next
  case False
  let ?e = "max (- 1074) (sig_exp 2 53 \<bar>of_int i :: rat\<bar>)"
  have "?e \<le> 0" using sig_exp_int_le [of "\<bar>i\<bar>"] False assms by simp
  then have "of_int i / base_pow 2 ?e = (of_int (i * 2 ^ nat (- ?e)) :: rat)"
    by (simp add: base_pow_nonpos)
  then have r: "round_at 2 ?e (of_int i :: rat) = of_int i" by (rule round_at_exact [rotated]) simp
  have bnd: "i < 2 ^ 1024" "- (2 ^ 1024) < i"
  proof -
    have "(2::int) ^ 53 \<le> 2 ^ 1024" by (rule power_increasing) auto
    then show "i < 2 ^ 1024" "- (2 ^ 1024) < i" using assms by linarith+
  qed
  have "\<not> (of_int i :: rat) \<ge> 2 ^ 1024" "\<not> (of_int i :: rat) \<le> - (2 ^ 1024)"
  proof -
    have "(of_int i :: rat) < of_int (2 ^ 1024)" "(of_int (- (2 ^ 1024)) :: rat) < of_int i"
      using bnd by (simp_all only: of_int_less_iff)
    then show "\<not> (of_int i :: rat) \<ge> 2 ^ 1024" "\<not> (of_int i :: rat) \<le> - (2 ^ 1024)" by simp_all
  qed
  then show ?thesis using False r by (simp add: float_of_rat_def Let_def)
qed

lemma float_of_int_exact [py_eval]: "\<bar>i\<bar> < 2 ^ 53 \<Longrightarrow> float_of_int i = Inr (FNum (of_int i))"
  by (simp add: float_of_int_def float_of_rat_int)
lemma py_str_PStr [simp]: "py_str (PStr s) = s"
  by (simp add: py_str_def)

lemma dict_get_simps [simp]:
  "dict_get [] k x = x"
  "dict_get ((k', v) # d) k x = (if k = k' then v else dict_get d k x)"
  by (auto simp: dict_get_def)

lemma py_or_simps [simp]: "py_truthy a \<Longrightarrow> py_or a b = a" "\<not> py_truthy a \<Longrightarrow> py_or a b = b"
  by (simp_all add: py_or_def)

lemma is_dict_iff: "is_dict v \<longleftrightarrow> (\<exists>d. v = PDict d)"
  by (cases v) auto

lemma is_list_iff: "is_list v \<longleftrightarrow> (\<exists>xs. v = PList xs)"
  by (cases v) auto

lemma is_str_iff: "is_str v \<longleftrightarrow> (\<exists>s. v = PStr s)"
  by (cases v) auto

lemma py_strip_Nil [simp]: "py_strip [] = []"
  by (simp add: py_strip_def)

lemma dropWhile_dropWhile_rev:
  "dropWhile P (rev (dropWhile P (rev (dropWhile P xs)))) = rev (dropWhile P (rev (dropWhile P xs)))"
proof -
  have "rev (dropWhile P (rev ys)) = [] \<or> hd (rev (dropWhile P (rev ys))) = hd ys"
    if "ys \<noteq> []" for ys :: "'a list"
    by (metis dropWhile_eq_Nil_conv hd_append2 rev_is_Nil_conv rev_rev_ident rev_append takeWhile_dropWhile_id)
  then show ?thesis
    by (metis dropWhile.simps(1) dropWhile_eq_self_iff hd_dropWhile rev.simps(1))
qed

lemma py_strip_idem [simp]: "py_strip (py_strip s) = py_strip s"
  by (simp add: py_strip_def dropWhile_dropWhile_rev)

lemma upper_char_idem [simp]: "upper_char (upper_char c) = upper_char c"
proof (cases "is_lower c")
  case True
  then obtain n where n: "(of_char c :: nat) = n" "97 \<le> n" "n \<le> 122" by (auto simp: is_lower_def Let_def)
  then have "of_char (char_of (n - 32) :: char) = n - 32" by simp
  moreover have "n - 32 < 97" using n by linarith
  ultimately show ?thesis using n True by (simp add: upper_char_def is_lower_def Let_def)
qed (simp add: upper_char_def)

lemma py_upper_idem [simp]: "py_upper (py_upper s) = py_upper s"
  by (simp add: py_upper_def)

end
