(* ===== verification/APL_Schema.thy ===== *)
theory APL_Schema
  imports PyValues
begin

text \<open>
  The vocabulary of the policy language APL/1.0 (\<open>services/apl/schema.py\<close>): data types,
  effects, operators, the complexity limits, the registry of the context fields a policy
  may mention and the table of operators per type.
\<close>

section \<open>Types, effects and operators\<close>

datatype APLType = STRING | NUMBER | BOOLEAN | ENUM | TIMESTAMP | LIST | ANY

datatype APLEffect = ALLOW | REQUIRE_APPROVAL | DENY | NO_MATCH

datatype APLOperator =
  EQ | NEQ | GT | GTE | LT | LTE | OP_IN | OP_NOT_IN | EXISTS | NOT_EXISTS
  | STARTS_WITH | ENDS_WITH | CONTAINS

fun effect_value :: "APLEffect \<Rightarrow> string" where
  "effect_value ALLOW = ''ALLOW''"
| "effect_value REQUIRE_APPROVAL = ''REQUIRE_APPROVAL''"
| "effect_value DENY = ''DENY''"
| "effect_value NO_MATCH = ''NO_MATCH''"

definition APLEffect_values :: "string list" where
  "APLEffect_values = map effect_value [ALLOW, REQUIRE_APPROVAL, DENY, NO_MATCH]"

fun op_value :: "APLOperator \<Rightarrow> string" where
  "op_value EQ = ''eq''"
| "op_value NEQ = ''neq''"
| "op_value GT = ''gt''"
| "op_value GTE = ''gte''"
| "op_value LT = ''lt''"
| "op_value LTE = ''lte''"
| "op_value OP_IN = ''in''"
| "op_value OP_NOT_IN = ''not_in''"
| "op_value EXISTS = ''exists''"
| "op_value NOT_EXISTS = ''not_exists''"
| "op_value STARTS_WITH = ''starts_with''"
| "op_value ENDS_WITH = ''ends_with''"
| "op_value CONTAINS = ''contains''"

definition all_operators :: "APLOperator list" where
  "all_operators = [EQ, NEQ, GT, GTE, LT, LTE, OP_IN, OP_NOT_IN, EXISTS, NOT_EXISTS,
     STARTS_WITH, ENDS_WITH, CONTAINS]"

text \<open>\<open>APLOperator(text)\<close>: the member with that value; \<^const>\<open>None\<close> stands for the ValueError.\<close>

definition operator_of :: "string \<Rightarrow> APLOperator option" where
  "operator_of s = List.find (\<lambda>op. op_value op = s) all_operators"

section \<open>Limits\<close>

definition MAX_DOCUMENT_SIZE :: nat where "MAX_DOCUMENT_SIZE = 65536"
definition MAX_RULES_PER_POLICY :: nat where "MAX_RULES_PER_POLICY = 50"
definition MAX_CONDITIONS_PER_RULE :: nat where "MAX_CONDITIONS_PER_RULE = 20"
definition MAX_NESTING_DEPTH :: nat where "MAX_NESTING_DEPTH = 4"
definition MAX_LIST_ELEMENTS :: nat where "MAX_LIST_ELEMENTS = 100"

lemmas apl_limits = MAX_DOCUMENT_SIZE_def MAX_RULES_PER_POLICY_def MAX_CONDITIONS_PER_RULE_def
  MAX_NESTING_DEPTH_def MAX_LIST_ELEMENTS_def

definition SUPPORTED_APL_VERSIONS :: "string list" where
  "SUPPORTED_APL_VERSIONS = [''APL/1.0'']"

section \<open>Fields\<close>

definition SAFE_FIELD_REGISTRY :: "(string \<times> APLType) list" where
  "SAFE_FIELD_REGISTRY =
    [(''agent.id'', STRING), (''agent.type'', STRING), (''agent.organization_id'', STRING),
     (''agent.status'', STRING),
     (''action'', STRING), (''capability'', STRING), (''resource'', STRING),
     (''input.amount'', NUMBER), (''input.currency'', STRING), (''input.destination'', STRING),
     (''input.recipient'', STRING),
     (''target.id'', STRING), (''target.type'', STRING), (''target.organization_id'', STRING),
     (''credential.type'', STRING), (''credential.issuer'', STRING), (''credential.valid'', BOOLEAN),
     (''trust.status'', ENUM), (''trust.relationship_id'', STRING),
     (''delegation.depth'', NUMBER), (''delegation.active'', BOOLEAN),
     (''risk.level'', ENUM), (''risk.score'', NUMBER),
     (''environment'', ENUM), (''gateway.id'', STRING), (''gateway.deployment_type'', STRING),
     (''time.hour'', NUMBER), (''time.day_of_week'', NUMBER), (''timestamp'', TIMESTAMP)]"

fun OPERATOR_TYPE_COMPATIBILITY :: "APLOperator \<Rightarrow> APLType list" where
  "OPERATOR_TYPE_COMPATIBILITY EQ = [STRING, NUMBER, BOOLEAN, ENUM, TIMESTAMP, ANY]"
| "OPERATOR_TYPE_COMPATIBILITY NEQ = [STRING, NUMBER, BOOLEAN, ENUM, TIMESTAMP, ANY]"
| "OPERATOR_TYPE_COMPATIBILITY GT = [NUMBER, TIMESTAMP]"
| "OPERATOR_TYPE_COMPATIBILITY GTE = [NUMBER, TIMESTAMP]"
| "OPERATOR_TYPE_COMPATIBILITY LT = [NUMBER, TIMESTAMP]"
| "OPERATOR_TYPE_COMPATIBILITY LTE = [NUMBER, TIMESTAMP]"
| "OPERATOR_TYPE_COMPATIBILITY OP_IN = [STRING, NUMBER, ENUM, ANY]"
| "OPERATOR_TYPE_COMPATIBILITY OP_NOT_IN = [STRING, NUMBER, ENUM, ANY]"
| "OPERATOR_TYPE_COMPATIBILITY EXISTS = [STRING, NUMBER, BOOLEAN, ENUM, TIMESTAMP, LIST, ANY]"
| "OPERATOR_TYPE_COMPATIBILITY NOT_EXISTS = [STRING, NUMBER, BOOLEAN, ENUM, TIMESTAMP, LIST, ANY]"
| "OPERATOR_TYPE_COMPATIBILITY STARTS_WITH = [STRING]"
| "OPERATOR_TYPE_COMPATIBILITY ENDS_WITH = [STRING]"
| "OPERATOR_TYPE_COMPATIBILITY CONTAINS = [STRING]"

definition is_known_field :: "string \<Rightarrow> bool" where
  "is_known_field p =
     (if map_of SAFE_FIELD_REGISTRY p \<noteq> None then True
      else if py_startswith p ''input.'' then True
      else False)"

definition get_field_type :: "string \<Rightarrow> APLType" where
  "get_field_type p =
     (case map_of SAFE_FIELD_REGISTRY p of
        Some t \<Rightarrow> t
      | None \<Rightarrow> if py_startswith p ''input.'' then ANY else ANY)"

section \<open>Facts\<close>

lemma operator_of_op_value [simp]: "operator_of (op_value op) = Some op"
  by (cases op) (simp_all add: operator_of_def all_operators_def)

lemma operator_of_SomeD: "operator_of s = Some op \<Longrightarrow> s = op_value op"
  by (auto simp: operator_of_def dest: find_SomeD)

lemma op_value_inject [simp]: "op_value a = op_value b \<longleftrightarrow> a = b"
  by (metis operator_of_op_value option.inject)

lemma effect_value_inject [simp]: "effect_value a = effect_value b \<longleftrightarrow> a = b"
  by (cases a; cases b) simp_all

end
