(* ===== verification/APL_Evaluator.thy ===== *)
theory APL_Evaluator
  imports APL_Schema "HOL-Library.Multiset"
begin

text \<open>
  The policy evaluator (\<open>services/apl/evaluator.py\<close>). A policy is the decoded JSON document;
  an evaluation either raises a Python exception or returns a result record. The measured
  evaluation time is the only part of the result that is left out.
\<close>

section \<open>Results and traces\<close>

record condition_trace =
  ct_path :: string
  ct_field :: pyval
  ct_operator :: pyval
  ct_expected :: pyval
  ct_actual :: pyval
  ct_matched :: bool

record rule_trace =
  rt_rule_id :: pyval
  rt_effect :: string
  rt_matched :: bool
  rt_description :: pyval
  rt_condition_traces :: "condition_trace list"

record rule_summary =
  rs_id :: pyval
  rs_effect :: string
  rs_description :: pyval

record APLEvaluationResult =
  decision :: string
  matched_rules :: "rule_summary list"
  unmatched_rules :: "pyval list"
  default_effect_applied :: bool
  explanation :: string
  trace :: "rule_trace list"

section \<open>Field resolution\<close>

fun navigate :: "pyval \<Rightarrow> string list \<Rightarrow> pyval" where
  "navigate current [] = current"
| "navigate current (part # parts) =
     (case current of
        PDict d \<Rightarrow> (case dict_get d part PNone of PNone \<Rightarrow> PNone | v \<Rightarrow> navigate v parts)
      | _ \<Rightarrow> PNone)"

text \<open>
  A path that is not a string raises: an unhashable one in the membership test, any other
  one when it is split.
\<close>

definition resolve_field_value :: "pyval \<Rightarrow> pyval \<Rightarrow> pyexn + pyval" where
  "resolve_field_value context field_path =
     (case context of
        PDict d \<Rightarrow>
          (case field_path of
             PStr f \<Rightarrow>
               (case map_of d f of
                  Some v \<Rightarrow> Inr v
                | None \<Rightarrow> Inr (navigate context (py_split CHR ''.'' f)))
           | PList _ \<Rightarrow> Inl TypeError
           | PDict _ \<Rightarrow> Inl TypeError
           | _ \<Rightarrow> Inl AttributeError)
      | _ \<Rightarrow> Inr PNone)"

section \<open>Atomic conditions\<close>

definition compare_floats :: "string \<Rightarrow> pyfloat \<Rightarrow> pyfloat \<Rightarrow> bool" where
  "compare_floats op a e =
     (if op = op_value GT then float_lt e a
      else if op = op_value GTE then float_le e a
      else if op = op_value LT then float_lt a e
      else float_le a e)"

text \<open>The ordering operators: a ValueError or TypeError of \<open>float\<close> is a failed match.\<close>

definition numeric_condition :: "string \<Rightarrow> pyval \<Rightarrow> pyval \<Rightarrow> pyexn + bool" where
  "numeric_condition op actual expected =
     (case rbind (py_float actual) (\<lambda>a. rbind (py_float expected) (\<lambda>e. Inr (compare_floats op a e))) of
        Inl ex \<Rightarrow> if ex = ValueError \<or> ex = TypeError then Inr False else Inl ex
      | Inr b \<Rightarrow> Inr b)"

definition string_condition :: "string \<Rightarrow> pyval \<Rightarrow> pyval \<Rightarrow> bool" where
  "string_condition op actual expected =
     (let a = py_str actual; e = py_str expected in
      if op = op_value STARTS_WITH then py_startswith a e
      else if op = op_value ENDS_WITH then py_endswith a e
      else py_contains a e)"

definition atomic_match :: "string \<Rightarrow> pyval \<Rightarrow> pyval \<Rightarrow> pyexn + bool" where
  "atomic_match op actual expected =
     (if op = op_value EXISTS then Inr (actual \<noteq> PNone)
      else if op = op_value NOT_EXISTS then Inr (actual = PNone)
      else if actual = PNone then Inr False
      else if op = op_value EQ then Inr (py_eq actual expected)
      else if op = op_value NEQ then Inr (\<not> py_eq actual expected)
      else if op \<in> {op_value GT, op_value GTE, op_value LT, op_value LTE}
        then numeric_condition op actual expected
      else if op = op_value OP_IN then
        (case expected of PList es \<Rightarrow> Inr (py_in_list actual es) | _ \<Rightarrow> Inr False)
      else if op = op_value OP_NOT_IN then
        (case expected of PList es \<Rightarrow> Inr (\<not> py_in_list actual es) | _ \<Rightarrow> Inr True)
      else if op \<in> {op_value STARTS_WITH, op_value ENDS_WITH, op_value CONTAINS}
        then Inr (string_condition op actual expected)
      else Inr False)"

definition evaluate_atomic_condition ::
    "pyval \<Rightarrow> pyval \<Rightarrow> pyval \<Rightarrow> pyval \<Rightarrow> pyexn + bool \<times> pyval" where
  "evaluate_atomic_condition field_name operator expected_value context =
     rbind (resolve_field_value context field_name) (\<lambda>actual.
       case operator of
         PStr s \<Rightarrow>
           rbind (atomic_match (py_strip (py_lower s)) actual expected_value) (\<lambda>m. Inr (m, actual))
       | _ \<Rightarrow> Inl AttributeError)"

section \<open>Condition trees\<close>

text \<open>
  The recursion over a condition tree. Every child of a combinator is evaluated, so that
  its trace is recorded, before the results are combined.
\<close>

function evaluate_condition_node :: "pyval \<Rightarrow> pyval \<Rightarrow> string \<Rightarrow> pyexn + bool \<times> condition_trace list"
  and evaluate_children ::
    "pyval list \<Rightarrow> pyval \<Rightarrow> string \<Rightarrow> nat \<Rightarrow> pyexn + bool list \<times> condition_trace list"
where
  "evaluate_condition_node node context path =
     (case node of
        PDict d \<Rightarrow>
          (case map_of d ''all'' of
             Some children \<Rightarrow>
               (case children of
                  PList cs \<Rightarrow>
                    if cs = [] then Inr (False, [])
                    else rbind (evaluate_children cs context (path @ ''.all'') 0)
                           (\<lambda>(rs, ts). Inr (list_all id rs, ts))
                | _ \<Rightarrow> Inr (False, []))
           | None \<Rightarrow>
          (case map_of d ''any'' of
             Some children \<Rightarrow>
               (case children of
                  PList cs \<Rightarrow>
                    if cs = [] then Inr (False, [])
                    else rbind (evaluate_children cs context (path @ ''.any'') 0)
                           (\<lambda>(rs, ts). Inr (list_ex id rs, ts))
                | _ \<Rightarrow> Inr (False, []))
           | None \<Rightarrow>
          (case map_of d ''not'' of
             Some child \<Rightarrow>
               rbind (evaluate_condition_node child context (path @ ''.not''))
                 (\<lambda>(r, ts). Inr (\<not> r, ts))
           | None \<Rightarrow>
               let field_name = dict_get d ''field'' (PStr []);
                   operator = dict_get d ''operator'' (PStr ''eq'');
                   expected = dict_get d ''value'' PNone in
               rbind (evaluate_atomic_condition field_name operator expected context)
                 (\<lambda>(m, actual). Inr (m,
                    [\<lparr>ct_path = path, ct_field = field_name, ct_operator = operator,
                      ct_expected = expected, ct_actual = actual, ct_matched = m\<rparr>])))))
      | _ \<Rightarrow> Inr (False, []))"
| "evaluate_children [] context path idx = Inr ([], [])"
| "evaluate_children (c # cs) context path idx =
     rbind (evaluate_condition_node c context (path @ ''['' @ str_of_nat idx @ '']''))
       (\<lambda>(r, ts). rbind (evaluate_children cs context path (Suc idx))
          (\<lambda>(rs, ts'). Inr (r # rs, ts @ ts')))"
  by pat_completeness auto
termination
  by (relation "measure (\<lambda>x. case x of
        Inl (n, c, p) \<Rightarrow> 2 * size n
      | Inr (cs, c, p, i) \<Rightarrow> Suc (2 * size_list size cs))")
     (auto dest!: size_map_of)

declare evaluate_condition_node.simps [simp del]

section \<open>Policies\<close>

text \<open>The first declared target key that the context contradicts.\<close>

fun target_mismatch :: "pyval \<Rightarrow> (string \<times> pyval) list \<Rightarrow> pyexn + (string \<times> pyval \<times> pyval) option" where
  "target_mismatch context [] = Inr None"
| "target_mismatch context ((k, expected) # items) =
     (if expected \<noteq> PNone then
        rbind (resolve_field_value context (PStr k)) (\<lambda>actual.
          if actual \<noteq> PNone \<and> py_str actual \<noteq> py_str expected
          then Inr (Some (k, expected, actual))
          else target_mismatch context items)
      else target_mismatch context items)"

definition rule_condition :: "(string \<times> pyval) list \<Rightarrow> pyval" where
  "rule_condition d = py_or (dict_get d ''when'' PNone) (dict_get d ''conditions'' PNone)"

definition rule_effect :: "(string \<times> pyval) list \<Rightarrow> string" where
  "rule_effect d = py_upper (py_str (dict_get d ''effect'' (PStr [])))"

definition default_rule_id :: "nat \<Rightarrow> pyval" where
  "default_rule_id idx = PStr (''rule_'' @ str_of_nat idx)"

definition evaluate_rule :: "pyval \<Rightarrow> nat \<times> pyval \<Rightarrow> pyexn + rule_trace" where
  "evaluate_rule context ir =
     (case ir of (idx, rule) \<Rightarrow>
        (case rule of
           PDict d \<Rightarrow>
             let rule_id = dict_get d ''id'' (default_rule_id idx);
                 whn = rule_condition d in
             rbind (if whn = PNone then Inr (True, [])
                    else evaluate_condition_node whn context
                           (''rules['' @ py_str rule_id @ ''].when''))
               (\<lambda>(m, ts). Inr
                  \<lparr>rt_rule_id = rule_id, rt_effect = rule_effect d, rt_matched = m,
                   rt_description = dict_get d ''description'' (PStr []),
                   rt_condition_traces = ts\<rparr>)
         | _ \<Rightarrow> Inl AttributeError))"

definition matched_with :: "APLEffect \<Rightarrow> rule_trace list \<Rightarrow> rule_summary list" where
  "matched_with eff ts =
     map (\<lambda>t. \<lparr>rs_id = rt_rule_id t, rs_effect = rt_effect t, rs_description = rt_description t\<rparr>)
       (filter (\<lambda>t. rt_matched t \<and> rt_effect t = effect_value eff) ts)"

text \<open>\<open>", ".join(...)\<close> of the rule ids: a TypeError unless all are strings.\<close>

definition join_ids :: "rule_summary list \<Rightarrow> pyexn + string" where
  "join_ids rs =
     rbind (rmap (\<lambda>r. case rs_id r of PStr s \<Rightarrow> Inr s | _ \<Rightarrow> Inl TypeError) rs)
       (\<lambda>ids. Inr (py_join '', '' ids))"

definition policy_default :: "(string \<times> pyval) list \<Rightarrow> string" where
  "policy_default ast = py_upper (py_str (dict_get ast ''default_effect'' (PStr ''DENY'')))"

text \<open>The precedence cascade over the traces of all rules.\<close>

definition decide :: "string \<Rightarrow> rule_trace list \<Rightarrow> pyexn + APLEvaluationResult" where
  "decide default_effect ts =
     (let deny = matched_with DENY ts; approval = matched_with REQUIRE_APPROVAL ts;
          allow = matched_with ALLOW ts;
          mk = (\<lambda>dec ms dflt expl.
             \<lparr>decision = dec, matched_rules = ms,
              unmatched_rules = map rt_rule_id (filter (\<lambda>t. \<not> rt_matched t) ts),
              default_effect_applied = dflt, explanation = expl, trace = ts\<rparr>) in
      if deny \<noteq> [] then
        rbind (join_ids deny) (\<lambda>names.
          Inr (mk (effect_value DENY) (deny @ approval @ allow) False
            (''Denied by policy rule(s): ['' @ names @ '']. DENY takes strict precedence.'')))
      else if approval \<noteq> [] then
        rbind (join_ids approval) (\<lambda>names.
          Inr (mk (effect_value REQUIRE_APPROVAL) (approval @ allow) False
            (''Human approval required by policy rule(s): ['' @ names @ ''].'')))
      else if allow \<noteq> [] then
        rbind (join_ids allow) (\<lambda>names.
          Inr (mk (effect_value ALLOW) allow False
            (''Authorized by policy rule(s): ['' @ names @ ''].'')))
      else
        Inr (mk default_effect [] True
          (''No rules matched context. Default policy effect '' @ [CHR 0x27] @ default_effect
             @ [CHR 0x27] @ '' applied.'')))"

definition no_match_result :: "string \<Rightarrow> pyval \<Rightarrow> pyval \<Rightarrow> APLEvaluationResult" where
  "no_match_result k expected actual =
     (let q = [CHR 0x27] in
     \<lparr>decision = effect_value NO_MATCH, matched_rules = [], unmatched_rules = [],
      default_effect_applied = False,
      explanation = ''Policy target '' @ q @ k @ q @ '' expected '' @ q @ py_str expected @ q
        @ '' but context had '' @ q @ py_str actual @ q @ ''. Policy did not trigger.'',
      trace = []\<rparr>)"

definition evaluate_apl_policy :: "(string \<times> pyval) list \<Rightarrow> pyval \<Rightarrow> pyexn + APLEvaluationResult" where
  "evaluate_apl_policy ast context =
     rbind (py_items (py_or (dict_get ast ''target'' PNone) (PDict []))) (\<lambda>items.
     rbind (target_mismatch context items) (\<lambda>mm.
       case mm of
         Some (k, expected, actual) \<Rightarrow> Inr (no_match_result k expected actual)
       | None \<Rightarrow>
           rbind (py_iter (dict_get ast ''rules'' (PList []))) (\<lambda>rules.
           rbind (rmap (evaluate_rule context) (enumerate 0 rules)) (\<lambda>ts.
             decide (policy_default ast) ts))))"

section \<open>Reference semantics of conditions\<close>

text \<open>
  The meaning of a condition: a Boolean combination of atoms. \<open>decode\<close> reads the combination
  off the document and \<open>holds\<close> evaluates it, given the truth of the atoms. An empty or
  ill-typed combinator never holds.
\<close>

type_synonym atom = "pyval \<times> pyval \<times> pyval"

datatype cond = CAtom atom | CAll "cond list" | CAny "cond list" | CNot cond | CFalse

fun holds :: "(atom \<Rightarrow> bool) \<Rightarrow> cond \<Rightarrow> bool" where
  "holds h (CAtom a) = h a"
| "holds h (CAll cs) = list_all (holds h) cs"
| "holds h (CAny cs) = list_ex (holds h) cs"
| "holds h (CNot c) = (\<not> holds h c)"
| "holds h CFalse = False"

fun atoms :: "cond \<Rightarrow> atom list" where
  "atoms (CAtom a) = [a]"
| "atoms (CAll cs) = concat (map atoms cs)"
| "atoms (CAny cs) = concat (map atoms cs)"
| "atoms (CNot c) = atoms c"
| "atoms CFalse = []"

function decode :: "pyval \<Rightarrow> cond" where
  "decode node =
     (case node of
        PDict d \<Rightarrow>
          (case map_of d ''all'' of
             Some (PList cs) \<Rightarrow> if cs = [] then CFalse else CAll (map decode cs)
           | Some _ \<Rightarrow> CFalse
           | None \<Rightarrow>
          (case map_of d ''any'' of
             Some (PList cs) \<Rightarrow> if cs = [] then CFalse else CAny (map decode cs)
           | Some _ \<Rightarrow> CFalse
           | None \<Rightarrow>
          (case map_of d ''not'' of
             Some c \<Rightarrow> CNot (decode c)
           | None \<Rightarrow> CAtom (dict_get d ''field'' (PStr []), dict_get d ''operator'' (PStr ''eq''),
                             dict_get d ''value'' PNone))))
      | _ \<Rightarrow> CFalse)"
  by pat_completeness auto
termination
  by (relation "measure size") (auto dest!: size_map_of size_in_list)

declare decode.simps [simp del]

definition eval_atom :: "pyval \<Rightarrow> atom \<Rightarrow> pyexn + bool \<times> pyval" where
  "eval_atom context a = (case a of (f, op, e) \<Rightarrow> evaluate_atomic_condition f op e context)"

definition atom_holds :: "pyval \<Rightarrow> atom \<Rightarrow> bool" where
  "atom_holds context a = (case eval_atom context a of Inr (m, _) \<Rightarrow> m | Inl _ \<Rightarrow> False)"

definition trace_atom :: "condition_trace \<Rightarrow> atom" where
  "trace_atom t = (ct_field t, ct_operator t, ct_expected t)"

definition node_spec :: "pyval \<Rightarrow> cond \<Rightarrow> pyexn + bool \<times> condition_trace list \<Rightarrow> bool" where
  "node_spec context c r =
     (case r of
        Inr (b, ts) \<Rightarrow> b = holds (atom_holds context) c \<and> map trace_atom ts = atoms c
          \<and> list_all (\<lambda>a. \<not> raises (eval_atom context a)) (atoms c)
          \<and> map ct_matched ts = map (atom_holds context) (atoms c)
      | Inl e \<Rightarrow> list_ex (\<lambda>a. eval_atom context a = Inl e) (atoms c))"

definition children_spec :: "pyval \<Rightarrow> cond list \<Rightarrow> pyexn + bool list \<times> condition_trace list \<Rightarrow> bool" where
  "children_spec context cs r =
     (case r of
        Inr (bs, ts) \<Rightarrow> bs = map (holds (atom_holds context)) cs \<and> map trace_atom ts = concat (map atoms cs)
          \<and> list_all (\<lambda>a. \<not> raises (eval_atom context a)) (concat (map atoms cs))
          \<and> map ct_matched ts = map (atom_holds context) (concat (map atoms cs))
      | Inl e \<Rightarrow> list_ex (\<lambda>a. eval_atom context a = Inl e) (concat (map atoms cs)))"

lemma children_spec_step:
  assumes "node_spec ctx c r" "\<And>b ts. r = Inr (b, ts) \<Longrightarrow> children_spec ctx cs (g (b, ts))"
  shows "children_spec ctx (c # cs)
     (rbind r (\<lambda>(b, ts). rbind (g (b, ts)) (\<lambda>(bs, ts'). Inr (b # bs, ts @ ts'))))"
proof (cases r)
  case (Inl e)
  with assms(1) show ?thesis by (simp add: node_spec_def children_spec_def)
next
  case (Inr p)
  obtain b ts where r: "r = Inr (b, ts)" using Inr by (cases p) auto
  show ?thesis
    using assms(1) assms(2) [OF r] r
    by (cases "g (b, ts)") (auto simp: node_spec_def children_spec_def)
qed

lemma combine_spec:
  "children_spec ctx cs r \<Longrightarrow> node_spec ctx (CAll cs) (rbind r (\<lambda>(bs, ts). Inr (list_all id bs, ts)))"
  "children_spec ctx cs r \<Longrightarrow> node_spec ctx (CAny cs) (rbind r (\<lambda>(bs, ts). Inr (list_ex id bs, ts)))"
  "node_spec ctx c s \<Longrightarrow> node_spec ctx (CNot c) (rbind s (\<lambda>(b, ts). Inr (\<not> b, ts)))"
  by (cases r; cases s; fastforce simp: node_spec_def children_spec_def list.pred_map list_ex_iff comp_def)+

lemma atom_spec:
  "node_spec ctx (CAtom (f, op, e))
     (rbind (evaluate_atomic_condition f op e ctx)
        (\<lambda>(m, actual). Inr (m, [\<lparr>ct_path = p, ct_field = f, ct_operator = op,
                      ct_expected = e, ct_actual = actual, ct_matched = m\<rparr>])))"
  by (cases "evaluate_atomic_condition f op e ctx")
     (auto simp: node_spec_def eval_atom_def atom_holds_def trace_atom_def)

lemma false_spec: "node_spec ctx CFalse (Inr (False, []))"
  by (simp add: node_spec_def)

lemma evaluate_nodes_spec:
  "node_spec ctx (decode node) (evaluate_condition_node node ctx path)"
  "children_spec ctx (map decode cs) (evaluate_children cs ctx path idx)"
proof (induction node ctx path and cs ctx path idx
    rule: evaluate_condition_node_evaluate_children.induct)
  case (1 node ctx path)
  show ?case
  proof (cases node)
    case (PDict d)
    show ?thesis
      using 1 PDict
      by (auto simp: decode.simps [of "PDict d"] evaluate_condition_node.simps [of "PDict d"] Let_def
          intro!: combine_spec atom_spec false_spec split: option.split pyval.split)
  qed (simp_all add: decode.simps evaluate_condition_node.simps false_spec)
next
  case (2 ctx path idx)
  then show ?case by (simp add: children_spec_def)
next
  case (3 c cs ctx path idx)
  then show ?case by (auto intro!: children_spec_step)
qed
section \<open>Reference semantics of policies\<close>

definition rule_applies :: "pyval \<Rightarrow> (string \<times> pyval) list \<Rightarrow> bool" where
  "rule_applies context d =
     (rule_condition d = PNone \<or> holds (atom_holds context) (decode (rule_condition d)))"

fun applying_effects :: "pyval \<Rightarrow> pyval list \<Rightarrow> string list" where
  "applying_effects context [] = []"
| "applying_effects context (rule # rules) =
     (case rule of
        PDict d \<Rightarrow> if rule_applies context d then rule_effect d # applying_effects context rules
                   else applying_effects context rules
      | _ \<Rightarrow> applying_effects context rules)"

definition precedence :: "string list \<Rightarrow> string \<Rightarrow> string" where
  "precedence effs dflt =
     (if effect_value DENY \<in> set effs then effect_value DENY
      else if effect_value REQUIRE_APPROVAL \<in> set effs then effect_value REQUIRE_APPROVAL
      else if effect_value ALLOW \<in> set effs then effect_value ALLOW
      else dflt)"

fun strictness :: "APLEffect \<Rightarrow> nat" where
  "strictness DENY = 3"
| "strictness REQUIRE_APPROVAL = 2"
| "strictness ALLOW = 1"
| "strictness NO_MATCH = 0"

definition policy_applies :: "(string \<times> pyval) list \<Rightarrow> pyval \<Rightarrow> bool" where
  "policy_applies ast context =
     (case rbind (py_items (py_or (dict_get ast ''target'' PNone) (PDict []))) (target_mismatch context) of
        Inr None \<Rightarrow> True | _ \<Rightarrow> False)"

lemma evaluate_rule_spec:
  assumes "evaluate_rule ctx (idx, rule) = Inr t"
  shows "\<exists>d. rule = PDict d \<and> rt_matched t = rule_applies ctx d \<and> rt_effect t = rule_effect d"
proof (cases rule)
  case (PDict d)
  let ?w = "rule_condition d"
  have "rt_effect t = rule_effect d" 
    using assms PDict by (auto simp: evaluate_rule_def Let_def rbind_Inr_iff split: if_splits)
  moreover have "rt_matched t = rule_applies ctx d"
  proof (cases "?w = PNone")
    case True
    with assms PDict show ?thesis by (auto simp: evaluate_rule_def rule_applies_def Let_def)
  next
    case False
    with assms PDict obtain p ts where "evaluate_condition_node ?w ctx p = Inr (rt_matched t, ts)"
      by (auto simp: evaluate_rule_def Let_def rbind_Inr_iff)
    with evaluate_nodes_spec(1) [of ctx ?w p] False show ?thesis
      by (simp add: node_spec_def rule_applies_def)
  qed
  ultimately show ?thesis using PDict by simp
qed (use assms in \<open>simp_all add: evaluate_rule_def\<close>)

lemma applying_effects_traces:
  "list_all2 (\<lambda>ir t. evaluate_rule ctx ir = Inr t) (enumerate n rules) ts \<Longrightarrow>
     map rt_effect (filter rt_matched ts) = applying_effects ctx rules"
proof (induction rules arbitrary: n ts)
  case (Cons r rules)
  then obtain t ts' where ts: "ts = t # ts'" and t: "evaluate_rule ctx (n, r) = Inr t"
    and rest: "list_all2 (\<lambda>ir t. evaluate_rule ctx ir = Inr t) (enumerate (Suc n) rules) ts'"
    by (auto simp: list_all2_Cons1)
  from evaluate_rule_spec [OF t] Cons.IH [OF rest] ts show ?case by auto
qed simp

lemma matched_with_empty_iff:
  "matched_with eff ts = [] \<longleftrightarrow> effect_value eff \<notin> set (map rt_effect (filter rt_matched ts))"
  by (auto simp: matched_with_def filter_empty_conv image_iff)

lemma decide_decision:
  assumes "decide dflt ts = Inr r"
  shows "decision r = precedence (map rt_effect (filter rt_matched ts)) dflt" and "trace r = ts"
  using assms
  by (auto simp: decide_def precedence_def Let_def rbind_Inr_iff matched_with_empty_iff split: if_splits)

lemma evaluate_applies:
  assumes "evaluate_apl_policy ast ctx = Inr r" "policy_applies ast ctx"
  obtains rules ts where "py_iter (dict_get ast ''rules'' (PList [])) = Inr rules"
    "list_all2 (\<lambda>ir t. evaluate_rule ctx ir = Inr t) (enumerate 0 rules) ts"
    "decide (policy_default ast) ts = Inr r"
proof -
  from assms obtain items where
    "py_items (py_or (dict_get ast ''target'' PNone) (PDict [])) = Inr items"
    "target_mismatch ctx items = Inr None"
    by (auto simp: policy_applies_def rbind_Inr_iff rbind_def split: sum.splits option.splits)
  with assms(1) show thesis
    by (auto simp: evaluate_apl_policy_def rbind_Inr_iff dest!: rmap_InrD intro: that)
qed

lemma applying_effects_set:
  "set (applying_effects ctx rules) = {rule_effect d |d. PDict d \<in> set rules \<and> rule_applies ctx d}"
  by (induction rules) (auto split: pyval.split)

lemma precedence_cong: "set a = set b \<Longrightarrow> precedence a d = precedence b d"
  by (simp add: precedence_def)

section \<open>Evaluating closed policies\<close>

lemma norm_ops [py_eval]:
  "py_strip (py_lower ''eq'') = ''eq''" "py_strip (py_lower ''neq'') = ''neq''"
  "py_strip (py_lower ''gt'') = ''gt''" "py_strip (py_lower ''gte'') = ''gte''"
  "py_strip (py_lower ''lt'') = ''lt''" "py_strip (py_lower ''lte'') = ''lte''"
  "py_strip (py_lower ''in'') = ''in''" "py_strip (py_lower ''not_in'') = ''not_in''"
  "py_strip (py_lower ''exists'') = ''exists''" "py_strip (py_lower ''not_exists'') = ''not_exists''"
  "py_strip (py_lower ''starts_with'') = ''starts_with''" "py_strip (py_lower ''ends_with'') = ''ends_with''"
  "py_strip (py_lower ''contains'') = ''contains''"
  by code_simp+

lemma norm_effects [py_eval]:
  "py_upper ''ALLOW'' = ''ALLOW''" "py_upper ''DENY'' = ''DENY''"
  "py_upper ''REQUIRE_APPROVAL'' = ''REQUIRE_APPROVAL''" "py_upper ''NO_MATCH'' = ''NO_MATCH''"
  "py_upper [] = []"
  by code_simp+

lemma compare_floats_num [py_eval]:
  "compare_floats ''gt'' (FNum a) (FNum b) = (b < a)"
  "compare_floats ''gte'' (FNum a) (FNum b) = (b \<le> a)"
  "compare_floats ''lt'' (FNum a) (FNum b) = (a < b)"
  "compare_floats ''lte'' (FNum a) (FNum b) = (a \<le> b)"
  by (auto simp: compare_floats_def float_le_def float_eq_def)

lemma numeric_condition_int [py_eval]:
  "\<bar>a\<bar> < 2 ^ 53 \<Longrightarrow> \<bar>b\<bar> < 2 ^ 53 \<Longrightarrow>
     numeric_condition op (PInt a) (PInt b) = Inr (compare_floats op (FNum (of_int a)) (FNum (of_int b)))"
  by (simp add: numeric_condition_def float_of_int_exact)

lemmas apl_eval = evaluate_apl_policy_def evaluate_rule_def rule_condition_def resolve_field_value_def
  evaluate_condition_node.simps evaluate_atomic_condition_def atomic_match_def decide_def
  matched_with_def rule_effect_def join_ids_def policy_default_def no_match_result_def Let_def

section \<open>Example documents\<close>

definition demo_rule :: "string \<Rightarrow> string \<Rightarrow> int \<Rightarrow> string \<Rightarrow> pyval" where
  "demo_rule i op n eff = PDict [(''id'', PStr i),
     (''when'', PDict [(''all'', PList [PDict [(''field'', PStr ''input.amount''),
        (''operator'', PStr op), (''value'', PInt n)]])]), (''effect'', PStr eff)]"

definition demo_ast :: "(string \<times> pyval) list" where
  "demo_ast = [(''version'', PStr ''APL/1.0''), (''name'', PStr ''Purchases''),
     (''target'', PDict [(''environment'', PStr ''production'')]),
     (''rules'', PList [demo_rule ''small'' ''lte'' 500 ''ALLOW'', demo_rule ''large'' ''gt'' 2000 ''DENY'']),
     (''default_effect'', PStr ''REQUIRE_APPROVAL'')]"

definition demo_ctx :: "int \<Rightarrow> pyval" where
  "demo_ctx n = PDict [(''environment'', PStr ''production''), (''input'', PDict [(''amount'', PInt n)])]"

definition demo_ast_rev :: "(string \<times> pyval) list" where
  "demo_ast_rev = [(''version'', PStr ''APL/1.0''), (''name'', PStr ''Purchases''),
     (''target'', PDict [(''environment'', PStr ''production'')]),
     (''rules'', PList [demo_rule ''large'' ''gt'' 2000 ''DENY'', demo_rule ''small'' ''lte'' 500 ''ALLOW'']),
     (''default_effect'', PStr ''REQUIRE_APPROVAL'')]"

lemma decision_eq:
  assumes "evaluate_apl_policy ast ctx = Inr r" "policy_applies ast ctx"
    and "dict_get ast ''rules'' (PList []) = PList rules"
  shows "decision r = precedence (applying_effects ctx rules) (policy_default ast)"
    and "length (trace r) = length rules"
proof -
  obtain ts where ts: "list_all2 (\<lambda>ir t. evaluate_rule ctx ir = Inr t) (enumerate 0 rules) ts"
    and d: "decide (policy_default ast) ts = Inr r"
    using evaluate_applies [OF assms(1,2)] assms(3) by auto
  show "decision r = precedence (applying_effects ctx rules) (policy_default ast)"
    using decide_decision(1) [OF d] applying_effects_traces [OF ts] by simp
  show "length (trace r) = length rules"
    using decide_decision(2) [OF d] list_all2_lengthD [OF ts] by simp
qed

lemma decision_not_applies:
  "evaluate_apl_policy ast ctx = Inr r \<Longrightarrow> \<not> policy_applies ast ctx \<Longrightarrow> decision r = effect_value NO_MATCH"
  by (auto simp: evaluate_apl_policy_def policy_applies_def rbind_Inr_iff no_match_result_def Let_def
      split: option.splits)

lemma policy_applies_cong:
  "dict_get ast ''target'' PNone = dict_get ast' ''target'' PNone \<Longrightarrow>
     policy_applies ast ctx = policy_applies ast' ctx"
  by (simp add: policy_applies_def)

lemma precedence_mono:
  assumes "set effs \<subseteq> set effs'" "precedence effs d = effect_value e" "e \<noteq> NO_MATCH"
    and "list_ex (\<lambda>x. x \<in> set effs) [effect_value DENY, effect_value REQUIRE_APPROVAL, effect_value ALLOW]"
  shows "\<exists>e'. precedence effs' d' = effect_value e' \<and> strictness e \<le> strictness e'"
proof -
  have "e = DENY \<and> effect_value DENY \<in> set effs \<or>
    e = REQUIRE_APPROVAL \<and> effect_value REQUIRE_APPROVAL \<in> set effs \<or>
    e = ALLOW \<and> effect_value ALLOW \<in> set effs"
    using assms(2,4) unfolding precedence_def
    by (auto simp del: effect_value.simps split: if_splits)
  then show ?thesis
    using assms(1) unfolding precedence_def
    by (auto simp del: effect_value.simps intro: exI [of _ DENY] exI [of _ REQUIRE_APPROVAL] exI [of _ ALLOW])
qed

lemma not_default_effects:
  assumes "evaluate_apl_policy ast ctx = Inr r" "policy_applies ast ctx"
    and "dict_get ast ''rules'' (PList []) = PList rules" "\<not> default_effect_applied r"
  shows "list_ex (\<lambda>x. x \<in> set (applying_effects ctx rules))
      [effect_value DENY, effect_value REQUIRE_APPROVAL, effect_value ALLOW]"
proof -
  obtain ts where ts: "list_all2 (\<lambda>ir t. evaluate_rule ctx ir = Inr t) (enumerate 0 rules) ts"
    and d: "decide (policy_default ast) ts = Inr r"
    using evaluate_applies [OF assms(1,2)] assms(3) by auto
  have "matched_with DENY ts \<noteq> [] \<or> matched_with REQUIRE_APPROVAL ts \<noteq> [] \<or> matched_with ALLOW ts \<noteq> []"
    using d assms(4) by (auto simp: decide_def Let_def split: if_splits)
  then show ?thesis
    using applying_effects_traces [OF ts] by (simp add: matched_with_empty_iff del: effect_value.simps)
qed

section \<open>Properties of the evaluator\<close>

text \<open>
  Evaluating a condition tree computes its Boolean meaning. If no atom raises, the result
  is the truth value of the decoded combination of \<open>all\<close>, \<open>any\<close> and \<open>not\<close>, and the trace lists
  every atom of the tree once, in document order, with its own outcome. If the evaluation
  raises, one of the atoms of the tree raises that exception.
\<close>

theorem apl_condition_semantics:
  "case evaluate_condition_node node ctx path of
     Inr (b, ts) \<Rightarrow>
       b = holds (atom_holds ctx) (decode node) \<and>
       map trace_atom ts = atoms (decode node) \<and>
       map ct_matched ts = map (atom_holds ctx) (atoms (decode node)) \<and>
       list_all (\<lambda>a. \<not> raises (eval_atom ctx a)) (atoms (decode node))
   | Inl e \<Rightarrow> list_ex (\<lambda>a. eval_atom ctx a = Inl e) (atoms (decode node))"
  using evaluate_nodes_spec(1) [of ctx node path] by (auto simp: node_spec_def split: sum.splits)

text \<open>
  C31. The decision of a policy whose target fits the context is DENY if a rule with effect DENY
  applies, otherwise REQUIRE_APPROVAL if such a rule applies, otherwise ALLOW if such a rule
  applies, otherwise the default effect of the document; where a rule applies if it has no
  condition or its condition holds. The trace has one entry per rule.
\<close>

theorem apl_decision_precedence:
  assumes "evaluate_apl_policy ast ctx = Inr r" "policy_applies ast ctx"
    and "dict_get ast ''rules'' (PList []) = PList rules"
  shows "decision r = precedence (applying_effects ctx rules) (policy_default ast) \<and>
    length (trace r) = length rules"
  using decision_eq [OF assms] by simp

lemma demo_evaluates: "evaluate_apl_policy demo_ast (demo_ctx 3000) = Inr (projr (evaluate_apl_policy demo_ast (demo_ctx 3000)))"
  by (simp add: apl_eval py_eval demo_ast_def demo_ctx_def demo_rule_def)

lemma demo_applies: "policy_applies demo_ast (demo_ctx n)"
  by (simp add: policy_applies_def demo_ast_def demo_ctx_def resolve_field_value_def)

lemma demo_rules: "dict_get demo_ast ''rules'' (PList []) =
    PList [demo_rule ''small'' ''lte'' 500 ''ALLOW'', demo_rule ''large'' ''gt'' 2000 ''DENY'']"
  by (simp add: demo_ast_def)

theorem apl_decision_precedence_witness:
  "decision (projr (evaluate_apl_policy demo_ast (demo_ctx 3000))) = ''DENY''"
  using apl_decision_precedence [OF demo_evaluates demo_applies demo_rules]
  by (simp add: precedence_def rule_applies_def rule_condition_def decode.simps demo_rule_def rule_effect_def
      atom_holds_def eval_atom_def evaluate_atomic_condition_def resolve_field_value_def demo_ctx_def
      atomic_match_def py_eval)

text \<open>
  Reordering the rules of a policy never changes its decision: two policies with the same
  target, default effect and multiset of rules decide alike wherever both return.
\<close>

theorem apl_rule_order_irrelevant:
  assumes "evaluate_apl_policy ast ctx = Inr r" "evaluate_apl_policy ast' ctx = Inr r'"
    and "dict_get ast ''rules'' (PList []) = PList rules"
    and "dict_get ast' ''rules'' (PList []) = PList rules'"
    and "mset rules = mset rules'"
    and "dict_get ast ''target'' PNone = dict_get ast' ''target'' PNone"
    and "policy_default ast = policy_default ast'"
  shows "decision r = decision r'"
proof (cases "policy_applies ast ctx")
  case True
  then have True': "policy_applies ast' ctx" using policy_applies_cong [OF assms(6)] by simp
  have "set rules = set rules'" using assms(5) by (rule mset_eq_setD)
  then have "precedence (applying_effects ctx rules) (policy_default ast) =
      precedence (applying_effects ctx rules') (policy_default ast')"
    using assms(7) by (simp add: precedence_cong applying_effects_set)
  then show ?thesis
    using decision_eq(1) [OF assms(1) True assms(3)] decision_eq(1) [OF assms(2) True' assms(4)] by simp
next
  case False
  then show ?thesis
    using decision_not_applies assms(1,2) policy_applies_cong [OF assms(6)] by metis
qed

lemma demo_rev_evaluates:
  "evaluate_apl_policy demo_ast_rev (demo_ctx 3000) = Inr (projr (evaluate_apl_policy demo_ast_rev (demo_ctx 3000)))"
  by (simp add: apl_eval py_eval demo_ast_rev_def demo_ctx_def demo_rule_def)

lemma demo_rev_rules: "dict_get demo_ast_rev ''rules'' (PList []) =
    PList [demo_rule ''large'' ''gt'' 2000 ''DENY'', demo_rule ''small'' ''lte'' 500 ''ALLOW'']"
  by (simp add: demo_ast_rev_def)

theorem apl_rule_order_irrelevant_witness:
  "decision (projr (evaluate_apl_policy demo_ast (demo_ctx 3000))) =
   decision (projr (evaluate_apl_policy demo_ast_rev (demo_ctx 3000)))"
  by (rule apl_rule_order_irrelevant [OF demo_evaluates demo_rev_evaluates demo_rules demo_rev_rules])
     (simp_all add: demo_ast_def demo_ast_rev_def policy_default_def)

text \<open>
  Adding rules to a policy never weakens a decision that a rule made: if the smaller policy
  decides by one of its rules, the larger one decides at least as strictly, in the order
  ALLOW, REQUIRE_APPROVAL, DENY.
\<close>

theorem apl_more_rules_never_weaker:
  assumes "evaluate_apl_policy ast ctx = Inr r" "evaluate_apl_policy ast' ctx = Inr r'"
    and "dict_get ast ''rules'' (PList []) = PList rules"
    and "dict_get ast' ''rules'' (PList []) = PList rules'"
    and "set rules \<subseteq> set rules'"
    and "dict_get ast ''target'' PNone = dict_get ast' ''target'' PNone"
    and "decision r = effect_value e" "e \<noteq> NO_MATCH" "\<not> default_effect_applied r"
  shows "\<exists>e'. decision r' = effect_value e' \<and> strictness e \<le> strictness e'"
proof -
  have app: "policy_applies ast ctx"
    using decision_not_applies [OF assms(1)] assms(7,8) by (metis effect_value_inject)
  then have app': "policy_applies ast' ctx" using policy_applies_cong [OF assms(6)] by simp
  have sub: "set (applying_effects ctx rules) \<subseteq> set (applying_effects ctx rules')"
    using assms(5) by (auto simp: applying_effects_set)
  have "list_ex (\<lambda>x. x \<in> set (applying_effects ctx rules))
      [effect_value DENY, effect_value REQUIRE_APPROVAL, effect_value ALLOW]"
    using not_default_effects [OF assms(1) app assms(3,9)] by simp
  with precedence_mono [OF sub _ assms(8)] decision_eq(1) [OF assms(1) app assms(3)]
    decision_eq(1) [OF assms(2) app' assms(4)] assms(7)
  show ?thesis by metis
qed

theorem apl_more_rules_never_weaker_witness:
  "\<exists>e'. decision (projr (evaluate_apl_policy demo_ast (demo_ctx 3000))) = effect_value e'
     \<and> strictness DENY \<le> strictness e'"
  by (rule apl_more_rules_never_weaker [OF demo_evaluates demo_evaluates demo_rules demo_rules])
     (simp_all add: apl_eval py_eval demo_ast_def demo_ctx_def demo_rule_def)

end
