(* ===== verification/APL_Validator.thy ===== *)
theory APL_Validator
  imports APL_Evaluator
begin

text \<open>
  The structural and semantic validator of policy documents (\<open>services/apl/validator.py\<close>).
  The Python methods append to two shared lists of issues; here each one returns the issues
  it adds, in order, and the caller concatenates them. The validator raises nothing.
\<close>

section \<open>Issues and results\<close>

record ValidationIssue =
  message :: string
  path :: string
  severity :: string

record ValidationResult =
  is_valid :: bool
  errors :: "ValidationIssue list"
  warnings :: "ValidationIssue list"

definition error_issue :: "string \<Rightarrow> string \<Rightarrow> ValidationIssue" where
  "error_issue m p = \<lparr>message = m, path = p, severity = ''ERROR''\<rparr>"

definition warning_issue :: "string \<Rightarrow> string \<Rightarrow> ValidationIssue" where
  "warning_issue m p = \<lparr>message = m, path = p, severity = ''WARNING''\<rparr>"

definition quoted :: "string \<Rightarrow> string" where
  "quoted s = [CHR 0x27] @ s @ [CHR 0x27]"

type_synonym issues = "ValidationIssue list \<times> ValidationIssue list"

section \<open>Operators and operands\<close>

definition validate_operator_type_compatibility ::
    "string \<Rightarrow> APLOperator \<Rightarrow> pyval \<Rightarrow> string \<Rightarrow> issues" where
  "validate_operator_type_compatibility field_name operator v p =
     (let field_type = get_field_type field_name; opn = quoted (op_value operator) in
      if operator \<in> {EXISTS, NOT_EXISTS} then ([], [])
      else if operator \<in> {OP_IN, OP_NOT_IN} then
        (case v of
           PList xs \<Rightarrow>
             (if length xs > MAX_LIST_ELEMENTS
              then ([error_issue (''List value for '' @ opn @ '' exceeds max length of ''
                       @ str_of_nat MAX_LIST_ELEMENTS @ ''.'') (p @ ''.value'')], [])
              else ([], []))
         | _ \<Rightarrow> ([error_issue (''Operator '' @ opn @ '' requires a list value.'') (p @ ''.value'')], []))
      else
        let range_errors =
          (if operator \<in> {GT, GTE, LT, LTE} then
             (if field_type = NUMBER \<and> \<not> is_number v
              then [error_issue (''Operator '' @ opn @ '' on numeric field '' @ quoted field_name
                      @ '' requires numeric value.'') (p @ ''.value'')]
              else if field_type = STRING
              then [error_issue (''Operator '' @ opn @ '' cannot be applied to string field ''
                      @ quoted field_name @ ''.'') (p @ ''.operator'')]
              else [])
           else []);
          string_issues =
          (if operator \<in> {STARTS_WITH, ENDS_WITH, CONTAINS} then
             ((if \<not> is_str v
               then [error_issue (''String operator '' @ opn @ '' requires a string value.'') (p @ ''.value'')]
               else []),
              (if field_type \<notin> {STRING, ANY}
               then [warning_issue (''Operator '' @ opn @ '' applied to non-string field ''
                       @ quoted field_name @ ''.'') (p @ ''.operator'')]
               else []))
           else ([], []))
        in (range_errors @ fst string_issues, snd string_issues))"

text \<open>An atomic condition: its issues. The caller counts it as one condition.\<close>

definition validate_atomic :: "(string \<times> pyval) list \<Rightarrow> string \<Rightarrow> issues" where
  "validate_atomic d p =
     (let fv = dict_get d ''field'' PNone in
      if \<not> py_truthy fv \<or> \<not> is_str fv
      then ([error_issue (''Atomic condition requires string '' @ quoted ''field'' @ ''.'') (p @ ''.field'')], [])
      else
        let field_name = py_strip (py_str fv);
            e1 = (if \<not> is_known_field field_name
                  then [error_issue (''Unregistered field '' @ quoted field_name
                     @ ''. Must be in SAFE_FIELD_REGISTRY or start with '' @ quoted ''input.'' @ ''.'')
                     (p @ ''.field'')]
                  else []);
            ov = dict_get d ''operator'' PNone in
        if \<not> py_truthy ov \<or> \<not> is_str ov
        then (e1 @ [error_issue (''Atomic condition requires string '' @ quoted ''operator'' @ ''.'')
               (p @ ''.operator'')], [])
        else
          let op_str = py_lower (py_strip (py_str ov)) in
          (case operator_of op_str of
             None \<Rightarrow> (e1 @ [error_issue (''Unknown operator '' @ quoted op_str @ ''. Supported: ''
                       @ py_repr (PList (map (\<lambda>op. PStr (op_value op)) all_operators)))
                       (p @ ''.operator'')], [])
           | Some operator \<Rightarrow>
               (case validate_operator_type_compatibility field_name operator
                       (dict_get d ''value'' PNone) p of
                  (es, ws) \<Rightarrow> (e1 @ es, ws))))"

section \<open>Condition trees\<close>

function validate_condition_node :: "pyval \<Rightarrow> string \<Rightarrow> nat \<Rightarrow> nat \<Rightarrow> nat \<times> issues"
  and validate_children :: "pyval list \<Rightarrow> string \<Rightarrow> nat \<Rightarrow> nat \<Rightarrow> nat \<Rightarrow> nat \<times> issues"
where
  "validate_condition_node node p current_depth cnt =
     (if current_depth > MAX_NESTING_DEPTH
      then (cnt + 1, [error_issue (''Condition nesting depth exceeds maximum allowed limit of ''
              @ str_of_nat MAX_NESTING_DEPTH @ ''.'') p], [])
      else
        (case node of
           PDict d \<Rightarrow>
             (case map_of d ''all'' of
                Some children \<Rightarrow>
                  (case children of
                     PList cs \<Rightarrow>
                       if cs = []
                       then (cnt + 1, [error_issue (quoted ''all''
                               @ '' combinator must contain a non-empty list of conditions.'') (p @ ''.all'')], [])
                       else validate_children cs (p @ ''.all'') 0 (current_depth + 1) cnt
                   | _ \<Rightarrow> (cnt + 1, [error_issue (quoted ''all''
                               @ '' combinator must contain a non-empty list of conditions.'') (p @ ''.all'')], []))
              | None \<Rightarrow>
             (case map_of d ''any'' of
                Some children \<Rightarrow>
                  (case children of
                     PList cs \<Rightarrow>
                       if cs = []
                       then (cnt + 1, [error_issue (quoted ''any''
                               @ '' combinator must contain a non-empty list of conditions.'') (p @ ''.any'')], [])
                       else validate_children cs (p @ ''.any'') 0 (current_depth + 1) cnt
                   | _ \<Rightarrow> (cnt + 1, [error_issue (quoted ''any''
                               @ '' combinator must contain a non-empty list of conditions.'') (p @ ''.any'')], []))
              | None \<Rightarrow>
             (case map_of d ''not'' of
                Some child \<Rightarrow> validate_condition_node child (p @ ''.not'') (current_depth + 1) cnt
              | None \<Rightarrow> (cnt + 1, validate_atomic d p))))
         | _ \<Rightarrow> (cnt + 1, [error_issue ''Condition node must be an object/dict.'' p], [])))"
| "validate_children [] p idx depth cnt = (cnt, [], [])"
| "validate_children (c # cs) p idx depth cnt =
     (case validate_condition_node c (p @ ''['' @ str_of_nat idx @ '']'') depth cnt of
        (cnt', es, ws) \<Rightarrow>
          (case validate_children cs p (Suc idx) depth cnt' of
             (cnt'', es', ws') \<Rightarrow> (cnt'', es @ es', ws @ ws')))"
  by pat_completeness auto
termination
  by (relation "measure (\<lambda>x. case x of
        Inl (n, p, dp, c) \<Rightarrow> 2 * size n
      | Inr (cs, p, i, dp, c) \<Rightarrow> Suc (2 * size_list size cs))")
     (auto dest!: size_map_of)

declare validate_condition_node.simps [simp del]

section \<open>Rules and documents\<close>

text \<open>
  One rule: the id it contributes to the set of ids seen (if it has one), the effect it
  contributes to the effects seen, and its issues.
\<close>

definition validate_rule_id :: "string set \<Rightarrow> nat \<Rightarrow> pyval \<Rightarrow> string option \<times> ValidationIssue list" where
  "validate_rule_id rule_ids idx rv =
     (let rp = ''rules['' @ str_of_nat idx @ '']'' in
      if \<not> py_truthy rv \<or> \<not> is_str rv \<or> py_strip (py_str rv) = []
      then (None, [error_issue (''Rule at index '' @ str_of_nat idx @ '' missing required string ''
              @ quoted ''id'' @ ''.'') (rp @ ''.id'')])
      else
        let rid = py_strip (py_str rv) in
        (Some rid, if rid \<in> rule_ids
                   then [error_issue (''Duplicate rule id '' @ quoted rid @ ''. Rule IDs must be unique.'')
                           (rp @ ''.id'')]
                   else []))"

definition validate_rule_effect :: "nat \<Rightarrow> string \<Rightarrow> ValidationIssue list" where
  "validate_rule_effect idx eff =
     (if eff \<notin> {effect_value ALLOW, effect_value REQUIRE_APPROVAL, effect_value DENY}
      then [error_issue (''Invalid rule effect '' @ quoted eff
              @ ''. Must be ALLOW, REQUIRE_APPROVAL, or DENY.'')
              (''rules['' @ str_of_nat idx @ ''].effect'')]
      else [])"

definition validate_rule_condition :: "nat \<Rightarrow> string \<Rightarrow> pyval \<Rightarrow> issues" where
  "validate_rule_condition idx shown condition_block =
     (let rp = ''rules['' @ str_of_nat idx @ '']'' in
      if condition_block = PNone
      then ([], [warning_issue (''Rule '' @ quoted shown
                  @ '' has no conditions and will match unconditionally.'') rp])
      else
        (case validate_condition_node condition_block (rp @ ''.when'') 1 0 of
           (n, es, ws) \<Rightarrow>
             (es @ (if n > MAX_CONDITIONS_PER_RULE
                    then [error_issue (''Rule exceeds condition limit: '' @ str_of_nat n
                            @ '' conditions found (max '' @ str_of_nat MAX_CONDITIONS_PER_RULE @ '').'')
                            (rp @ ''.when'')]
                    else []), ws)))"

fun validate_rules :: "nat \<Rightarrow> string set \<Rightarrow> pyval list \<Rightarrow> string list \<times> issues" where
  "validate_rules idx ids [] = ([], [], [])"
| "validate_rules idx ids (rule # rules) =
     (case rule of
        PDict d \<Rightarrow>
          let (rid, e1) = validate_rule_id ids idx (dict_get d ''id'' PNone);
              eff = rule_effect d;
              e2 = validate_rule_effect idx eff;
              rv = (case rid of Some r \<Rightarrow> PStr r | None \<Rightarrow> dict_get d ''id'' PNone);
              shown = py_str (py_or rv (PInt (int idx)));
              (e3, w3) = validate_rule_condition idx shown (rule_condition d);
              (effs, es, ws) = validate_rules (Suc idx)
                 (case rid of Some r \<Rightarrow> insert r ids | None \<Rightarrow> ids) rules
          in (eff # effs, e1 @ e2 @ e3 @ es, w3 @ ws)
      | _ \<Rightarrow>
          let (effs, es, ws) = validate_rules (Suc idx) ids rules in
          (effs, error_issue (''Rule at index '' @ str_of_nat idx @ '' must be a dictionary.'')
                   (''rules['' @ str_of_nat idx @ '']'') # es, ws))"

definition validate_header :: "(string \<times> pyval) list \<Rightarrow> ValidationIssue list" where
  "validate_header ast =
     (let version = dict_get ast ''version'' PNone; name = dict_get ast ''name'' PNone;
          default_effect = policy_default ast in
      (if \<not> py_eq version (PStr ''APL/1.0'')
       then [error_issue (''Unsupported policy version: '' @ py_str version) ''version''] else [])
      @ (if \<not> py_truthy name \<or> \<not> is_str name \<or> py_strip (py_str name) = []
         then [error_issue ''Policy name must be a non-empty string.'' ''name''] else [])
      @ (if default_effect \<notin> set APLEffect_values
         then [error_issue (''Invalid default_effect '' @ quoted default_effect @ ''. Allowed: ''
                 @ py_repr (PList (map PStr APLEffect_values))) ''default_effect'']
         else []))"

definition validate :: "pyval \<Rightarrow> ValidationResult" where
  "validate v =
     (case v of
        PDict ast \<Rightarrow>
          let header = validate_header ast in
          (case dict_get ast ''rules'' PNone of
             PList rules \<Rightarrow>
               let size_errors =
                     (if length rules > MAX_RULES_PER_POLICY
                      then [error_issue (''Policy contains '' @ str_of_nat (length rules)
                              @ '' rules, exceeding maximum limit of ''
                              @ str_of_nat MAX_RULES_PER_POLICY @ ''.'') ''rules'']
                      else []);
                   (effs, es, ws) = validate_rules 0 {} rules;
                   final = (if effect_value ALLOW \<notin> set effs \<and> policy_default ast = effect_value DENY
                            then [warning_issue
                              ''Policy has no ALLOW rules and defaults to DENY; it will deny every evaluation.''
                              ''rules'']
                            else []);
                   errs = header @ size_errors @ es
               in \<lparr>is_valid = (length errs = 0), errors = errs, warnings = ws @ final\<rparr>
           | _ \<Rightarrow> \<lparr>is_valid = False,
                  errors = header @ [error_issue (quoted ''rules'' @ '' must be a list.'') ''rules''],
                  warnings = []\<rparr>)
      | _ \<Rightarrow> \<lparr>is_valid = False, errors = [error_issue ''AST root must be a dictionary.'' ''root''],
             warnings = []\<rparr>)"

section \<open>What acceptance means\<close>

definition operand_ok :: "string \<Rightarrow> APLOperator \<Rightarrow> pyval \<Rightarrow> bool" where
  "operand_ok f op v =
     ((op \<in> {OP_IN, OP_NOT_IN} \<longrightarrow> (case v of PList xs \<Rightarrow> length xs \<le> MAX_LIST_ELEMENTS | _ \<Rightarrow> False)) \<and>
      (op \<in> {GT, GTE, LT, LTE} \<longrightarrow> get_field_type f \<noteq> STRING \<and> (get_field_type f = NUMBER \<longrightarrow> is_number v)) \<and>
      (op \<in> {STARTS_WITH, ENDS_WITH, CONTAINS} \<longrightarrow> is_str v))"

definition atom_wf :: "atom \<Rightarrow> bool" where
  "atom_wf a =
     (case a of
        (PStr f, PStr t, v) \<Rightarrow>
          is_known_field (py_strip f) \<and>
          (case operator_of (py_lower (py_strip t)) of
             Some op \<Rightarrow> operand_ok (py_strip f) op v | None \<Rightarrow> False)
      | _ \<Rightarrow> False)"

fun cond_depth :: "cond \<Rightarrow> nat" where
  "cond_depth (CAtom a) = 1"
| "cond_depth (CAll cs) = Suc (foldr max (map cond_depth cs) 0)"
| "cond_depth (CAny cs) = Suc (foldr max (map cond_depth cs) 0)"
| "cond_depth (CNot c) = Suc (cond_depth c)"
| "cond_depth CFalse = 1"

definition cond_ok :: "nat \<Rightarrow> cond \<Rightarrow> bool" where
  "cond_ok dp c = (list_all atom_wf (atoms c) \<and> dp + cond_depth c \<le> Suc MAX_NESTING_DEPTH)"

lemma compat_no_errors:
  "fst (validate_operator_type_compatibility f op v p) = [] \<Longrightarrow> operand_ok f op v"
  by (cases op) (auto simp: validate_operator_type_compatibility_def operand_ok_def Let_def
      split: pyval.splits if_splits)

lemma validate_atomic_wf:
  assumes "validate_atomic d p = ([], ws)"
  shows "atom_wf (dict_get d ''field'' (PStr []), dict_get d ''operator'' (PStr ''eq''), dict_get d ''value'' PNone)"
proof -
  let ?f = "dict_get d ''field'' PNone" and ?o = "dict_get d ''operator'' PNone"
  from assms have f: "py_truthy ?f" "is_str ?f"
    by (auto simp: validate_atomic_def Let_def split: if_splits)
  then obtain s where s: "?f = PStr s" by (auto simp: is_str_iff)
  from assms f have o: "py_truthy ?o" "is_str ?o"
    by (auto simp: validate_atomic_def Let_def split: if_splits)
  then obtain t where t: "?o = PStr t" by (auto simp: is_str_iff)
  have eqs: "dict_get d ''field'' (PStr []) = PStr s" "dict_get d ''operator'' (PStr ''eq'') = PStr t"
    using s t by (auto simp: dict_get_def split: option.splits)
  from assms f o s t have known: "is_known_field (py_strip s)"
    by (auto simp: validate_atomic_def Let_def split: if_splits option.splits prod.splits)
  from assms f o s t known obtain op where "operator_of (py_lower (py_strip t)) = Some op"
    "fst (validate_operator_type_compatibility (py_strip s) op (dict_get d ''value'' PNone) p) = []"
    by (auto simp: validate_atomic_def Let_def split: if_splits option.splits prod.splits)
  then show ?thesis
    using known eqs by (auto simp: atom_wf_def dest: compat_no_errors)
qed

lemma add_foldr_max_le:
  "xs \<noteq> [] \<Longrightarrow> k + foldr max xs (0::nat) \<le> m \<longleftrightarrow> (\<forall>x\<in>set xs. k + x \<le> m)"
proof (induction xs)
  case (Cons x xs)
  then show ?case by (cases "xs = []") auto
qed simp

lemma validate_nodes_ok:
  "validate_condition_node node p dp n = (n', [], ws) \<Longrightarrow>
     n' = n + length (atoms (decode node)) \<and> cond_ok dp (decode node)"
  "validate_children cs p idx dp n = (n', [], ws) \<Longrightarrow>
     n' = n + length (concat (map (atoms \<circ> decode) cs)) \<and> list_all (\<lambda>c. cond_ok dp (decode c)) cs"
proof (induction node p dp n and cs p idx dp n arbitrary: n' ws and n' ws
    rule: validate_condition_node_validate_children.induct)
  case (1 node p dp n)
  note IH = 1(1-3) and run = 1(4)
  have dp: "\<not> dp > MAX_NESTING_DEPTH"
    using run by (auto simp: validate_condition_node.simps [of node])
  show ?case
  proof (cases node)
    case (PDict d)
    note eqs = decode.simps [of "PDict d"] validate_condition_node.simps [of "PDict d"]
    consider (all) cs where "map_of d ''all'' = Some (PList cs)" "cs \<noteq> []"
      | (any) cs where "map_of d ''all'' = None" "map_of d ''any'' = Some (PList cs)" "cs \<noteq> []"
      | (neg) c where "map_of d ''all'' = None" "map_of d ''any'' = None" "map_of d ''not'' = Some c"
      | (atom) "map_of d ''all'' = None" "map_of d ''any'' = None" "map_of d ''not'' = None"
      using run dp PDict by (auto simp: eqs split: option.splits pyval.splits if_splits)
    then show ?thesis
    proof cases
      case all
      have "validate_children cs (p @ ''.all'') 0 (dp + 1) n = (n', [], ws)"
        using all run dp PDict by (simp add: eqs)
      from IH(3) [OF dp PDict all(1) refl all(2) this] show ?thesis
        using all PDict by (simp add: eqs cond_ok_def add_foldr_max_le list.pred_map comp_def list_all_iff)
    next
      case any
      have "validate_children cs (p @ ''.any'') 0 (dp + 1) n = (n', [], ws)"
        using any run dp PDict by (simp add: eqs)
      from IH(2) [OF dp PDict any(1,2) refl any(3) this] show ?thesis
        using any PDict by (simp add: eqs cond_ok_def add_foldr_max_le list.pred_map comp_def list_all_iff)
    next
      case neg
      with IH(1) [OF dp PDict] run dp PDict show ?thesis
        by (auto simp: eqs cond_ok_def)
    next
      case atom
      with run dp PDict show ?thesis
        by (auto simp: eqs cond_ok_def dest: validate_atomic_wf)
    qed
  qed (use run dp in \<open>simp_all add: validate_condition_node.simps\<close>)
next
  case (3 c cs p idx dp n)
  from 3(3) obtain n1 ws1 ws2 where
    "validate_condition_node c (p @ ''['' @ str_of_nat idx @ '']'') dp n = (n1, [], ws1)"
    "validate_children cs p (Suc idx) dp n1 = (n', [], ws2)"
    by (auto split: prod.splits)
  with 3(1) [OF this(1)] 3(2) [OF this(1) [symmetric] refl this(2)] show ?case by simp
qed simp

text \<open>What the validator promises of one accepted rule.\<close>

definition rule_id :: "pyval \<Rightarrow> string" where
  "rule_id rule = (case rule of PDict d \<Rightarrow> py_strip (py_str (dict_get d ''id'' PNone)) | _ \<Rightarrow> [])"

definition cond_within_limits :: "pyval \<Rightarrow> bool" where
  "cond_within_limits c =
     (c = PNone \<or> cond_ok 1 (decode c) \<and> length (atoms (decode c)) \<le> MAX_CONDITIONS_PER_RULE)"

definition rule_wf :: "pyval \<Rightarrow> bool" where
  "rule_wf rule =
     (case rule of
        PDict d \<Rightarrow> is_str (dict_get d ''id'' PNone) \<and> rule_id rule \<noteq> [] \<and>
          rule_effect d \<in> {effect_value ALLOW, effect_value REQUIRE_APPROVAL, effect_value DENY} \<and>
          cond_within_limits (rule_condition d)
      | _ \<Rightarrow> False)"

lemma validate_rule_condition_ok:
  assumes "validate_rule_condition idx shown c = ([], ws)"
  shows "cond_within_limits c"
proof (cases "c = PNone")
  case False
  obtain n es ws' where run: "validate_condition_node c (''rules['' @ str_of_nat idx @ '']'' @ ''.when'') 1 0 = (n, es, ws')"
    by (metis prod_cases3)
  with assms False have "es = []" "n \<le> MAX_CONDITIONS_PER_RULE"
    by (auto simp: validate_rule_condition_def Let_def split: if_splits)
  with validate_nodes_ok(1) [of c _ 1 0 n ws'] run show ?thesis
    by (auto simp: cond_within_limits_def)
qed (simp add: cond_within_limits_def)

lemma validate_rules_ok:
  "validate_rules idx ids rules = (effs, [], ws) \<Longrightarrow>
     list_all rule_wf rules \<and> distinct (map rule_id rules) \<and> set (map rule_id rules) \<inter> ids = {}"
proof (induction rules arbitrary: idx ids effs ws)
  case (Cons r rs)
  then obtain d where r: "r = PDict d"
    by (auto split: pyval.splits prod.splits)
  obtain rid e1 e3 w3 where parts:
    "validate_rule_id ids idx (dict_get d ''id'' PNone) = (rid, e1)"
    "validate_rule_condition idx (py_str (py_or (case rid of Some r \<Rightarrow> PStr r | None \<Rightarrow> dict_get d ''id'' PNone)
        (PInt (int idx)))) (rule_condition d) = (e3, w3)"
    by (metis surj_pair)
  obtain effs' ws' where rest:
    "validate_rules (Suc idx) (case rid of Some r \<Rightarrow> insert r ids | None \<Rightarrow> ids) rs = (effs', [], ws')"
    and none: "e1 = []" "validate_rule_effect idx (rule_effect d) = []" "e3 = []"
    using Cons.prems parts by (auto simp: r Let_def split: prod.splits)
  have rid: "rid = Some (rule_id r)" "is_str (dict_get d ''id'' PNone)" "rule_id r \<noteq> []" "rule_id r \<notin> ids"
    using parts(1) none(1)
    by (auto simp: validate_rule_id_def rule_id_def r Let_def split: if_splits)
  have "rule_wf r"
    using rid none validate_rule_condition_ok [OF parts(2) [unfolded none(3)]]
    by (auto simp: rule_wf_def r validate_rule_effect_def split: if_splits)
  then show ?case
    using Cons.IH [OF rest] rid by auto
qed simp

section \<open>Evaluating an accepted document\<close>

lemma py_float_exn: "py_float v = Inl e \<Longrightarrow> e \<in> {TypeError, ValueError, OverflowError}"
  by (cases v) (auto simp: float_of_int_def float_of_string_def
      split: option.splits if_splits pyfloat.splits prod.splits)

lemma atomic_match_exn: "atomic_match op a v = Inl e \<Longrightarrow> e = OverflowError"
  by (auto simp: atomic_match_def numeric_condition_def rbind_def dest!: py_float_exn
      split: if_splits sum.splits pyval.splits)

lemma eval_atom_exn:
  assumes "atom_wf a" "eval_atom ctx a = Inl e"
  shows "e = OverflowError"
proof -
  from assms(1) obtain f t v where "a = (PStr f, PStr t, v)"
    by (cases a; cases "fst a"; cases "fst (snd a)") (auto simp: atom_wf_def)
  with assms(2) show ?thesis
    by (auto simp: eval_atom_def evaluate_atomic_condition_def resolve_field_value_def rbind_Inl_iff
        dest: atomic_match_exn split: pyval.splits option.splits)
qed

lemma evaluate_rule_exn:
  assumes "rule_wf rule" "evaluate_rule ctx (idx, rule) = Inl e"
  shows "e = OverflowError"
proof -
  from assms(1) obtain d where d: "rule = PDict d" "cond_within_limits (rule_condition d)"
    by (auto simp: rule_wf_def split: pyval.splits)
  with assms(2) obtain p where "rule_condition d \<noteq> PNone"
    and "evaluate_condition_node (rule_condition d) ctx p = Inl e"
    by (auto simp: evaluate_rule_def Let_def rbind_Inl_iff split: if_splits)
  with evaluate_nodes_spec(1) [of ctx "rule_condition d" p] d(2) show ?thesis
    by (auto simp: node_spec_def list_ex_iff list_all_iff cond_within_limits_def cond_ok_def dest: eval_atom_exn)
qed
lemma rule_wf_id:
  "rule_wf (PDict d) \<Longrightarrow> \<exists>s. dict_get d ''id'' dflt = PStr s"
  by (auto simp: rule_wf_def is_str_iff dict_get_def split: option.splits)

lemma evaluate_rule_id:
  assumes "rule_wf rule" "evaluate_rule ctx (idx, rule) = Inr t"
  shows "is_str (rt_rule_id t)"
  using assms rule_wf_id
  by (cases rule) (fastforce simp: evaluate_rule_def Let_def rbind_Inr_iff is_str_iff rule_wf_def)+

lemma join_ids_total: "list_all (\<lambda>s. is_str (rs_id s)) rs \<Longrightarrow> \<not> raises (join_ids rs)"
  unfolding join_ids_def
  by (induction rs) (auto simp: is_str_iff not_raises_iff rbind_Inr_iff)

lemma decide_total:
  assumes "list_all (\<lambda>t. is_str (rt_rule_id t)) ts"
  shows "\<not> raises (decide dflt ts)"
proof -
  have "\<not> raises (join_ids (matched_with eff ts))" for eff
    using join_ids_total [of "matched_with eff ts"] assms by (auto simp: matched_with_def list_all_iff)
  from this [of DENY] this [of REQUIRE_APPROVAL] this [of ALLOW] show ?thesis
    by (auto simp: decide_def Let_def not_raises_iff)
qed

lemma resolve_str: "\<exists>v. resolve_field_value ctx (PStr f) = Inr v"
  by (auto simp: resolve_field_value_def split: pyval.splits option.splits)

lemma target_mismatch_total: "\<not> raises (target_mismatch ctx items)"
proof (induction items)
  case (Cons kv items)
  obtain k e where kv: "kv = (k, e)" by (cases kv)
  obtain v where "resolve_field_value ctx (PStr k) = Inr v" using resolve_str by blast
  with Cons kv show ?case by simp
qed simp

lemma valid_document:
  assumes "is_valid (validate (PDict ast))"
  obtains rules where "\<And>dflt. dict_get ast ''rules'' dflt = PList rules"
    "length rules \<le> MAX_RULES_PER_POLICY" "list_all rule_wf rules" "distinct (map rule_id rules)"
    "validate_header ast = []"
proof -
  from assms obtain rules where rules: "dict_get ast ''rules'' PNone = PList rules"
    by (auto simp: validate_def Let_def split: pyval.splits)
  moreover from this have "dict_get ast ''rules'' dflt = PList rules" for dflt
    by (auto simp: dict_get_def split: option.splits)
  moreover obtain effs es ws where v: "validate_rules 0 {} rules = (effs, es, ws)"
    by (metis prod_cases3)
  moreover have "es = []" "validate_header ast = []" "length rules \<le> MAX_RULES_PER_POLICY"
    using assms v rules by (auto simp: validate_def Let_def split: if_splits)
  ultimately show thesis
    using validate_rules_ok [of 0 "{}" rules effs ws] by (intro that) auto
qed

lemma evaluate_rules_exn:
  assumes "list_all rule_wf rules" "rmap (evaluate_rule ctx) (enumerate n rules) = Inl e"
  shows "e = OverflowError"
proof -
  from rmap_Inl [OF assms(2)] obtain idx r where "(idx, r) \<in> set (enumerate n rules)"
    "evaluate_rule ctx (idx, r) = Inl e" by auto
  moreover from this(1) have "r \<in> set rules"
    using image_eqI [of r snd "(idx, r)" "set (enumerate n rules)"] by (simp flip: set_map)
  ultimately show ?thesis using assms(1) by (auto simp: list_all_iff dest: evaluate_rule_exn)
qed

lemma evaluate_rules_ids:
  "list_all rule_wf rules \<Longrightarrow> rmap (evaluate_rule ctx) (enumerate n rules) = Inr ts \<Longrightarrow>
     list_all (\<lambda>t. is_str (rt_rule_id t)) ts"
  by (induction rules arbitrary: n ts) (auto simp: rbind_Inr_iff dest: evaluate_rule_id)

lemma valid_evaluation:
  assumes "is_valid (validate (PDict ast))" "dict_get ast ''target'' PNone = PDict t"
  shows "case evaluate_apl_policy ast ctx of
     Inl e \<Rightarrow> e = OverflowError | Inr r \<Rightarrow> decision r \<in> set APLEffect_values"
proof -
  obtain rules where rules: "\<And>dflt. dict_get ast ''rules'' dflt = PList rules" "list_all rule_wf rules"
    and hdr: "validate_header ast = []"
    using valid_document [OF assms(1)] by metis
  have dflt: "policy_default ast \<in> set APLEffect_values"
    using hdr by (auto simp: validate_header_def Let_def split: if_splits)
  have items: "py_items (py_or (PDict t) (PDict [])) = Inr t" by (cases t) auto
  obtain mm where mm: "target_mismatch ctx t = Inr mm"
    using target_mismatch_total [of ctx t] by (auto simp: not_raises_iff)
  show ?thesis
  proof (cases "rmap (evaluate_rule ctx) (enumerate 0 rules)")
    case (Inl e)
    with evaluate_rules_exn [OF rules(2)] show ?thesis
      by (auto simp: evaluate_apl_policy_def assms(2) items mm rules(1) no_match_result_def Let_def APLEffect_values_def
          split: option.split)
  next
    case (Inr ts)
    then obtain r where r: "decide (policy_default ast) ts = Inr r"
      using decide_total [OF evaluate_rules_ids [OF rules(2) Inr]] by (auto simp: not_raises_iff)
    then have "decision r \<in> set APLEffect_values"
      using decide_decision(1) [OF r] dflt by (auto simp: precedence_def APLEffect_values_def)
    then show ?thesis
      by (auto simp: evaluate_apl_policy_def assms(2) items mm rules(1) Inr r no_match_result_def Let_def APLEffect_values_def
          split: option.split)
  qed
qed

lemma demo_valid: "is_valid (validate (PDict demo_ast))"
  by code_simp
  
definition bad_target_ast :: "(string \<times> pyval) list" where
  "bad_target_ast = [(''version'', PStr ''APL/1.0''), (''name'', PStr ''Purchases''),
     (''target'', PStr ''production''),
     (''rules'', PList [demo_rule ''large'' ''gt'' 2000 ''DENY'']), (''default_effect'', PStr ''ALLOW'')]"

section \<open>Properties of the validator\<close>

text \<open>
  C38. What acceptance guarantees: an accepted document is an object with a list of at most 50
  rules with pairwise distinct non-empty string ids, each with one of the three rule effects
  and a condition of at most 20 atoms nested at most 4 deep whose atoms all use a registered
  field, a known operator and an operand that fits the operator, and its default effect is a
  known effect.
\<close>

theorem validator_acceptance:
  assumes "is_valid (validate v)"
  shows "\<exists>ast rules. v = PDict ast \<and> dict_get ast ''rules'' PNone = PList rules \<and>
    length rules \<le> MAX_RULES_PER_POLICY \<and> list_all rule_wf rules \<and> distinct (map rule_id rules) \<and>
    policy_default ast \<in> set APLEffect_values"
proof -
  from assms obtain ast where ast: "v = PDict ast" by (auto simp: validate_def split: pyval.splits)
  from assms show ?thesis
    unfolding ast by (elim valid_document) (auto simp: validate_header_def Let_def split: if_splits)
qed

theorem validator_acceptance_witness:
  "\<exists>ast rules. PDict demo_ast = PDict ast \<and> dict_get ast ''rules'' PNone = PList rules \<and>
    length rules \<le> MAX_RULES_PER_POLICY \<and> list_all rule_wf rules \<and> distinct (map rule_id rules) \<and>
    policy_default ast \<in> set APLEffect_values"
  by (rule validator_acceptance [OF demo_valid])

text \<open>
  An accepted document whose target is an object evaluates safely on every context: the only
  exception the evaluation can raise is the OverflowError of \<open>float\<close> on an integer beyond the
  range of doubles, and every decision it returns is one of the four effects.
\<close>

theorem valid_policy_evaluates:
  assumes "is_valid (validate (PDict ast))" "dict_get ast ''target'' PNone = PDict t"
  shows "case evaluate_apl_policy ast ctx of
     Inl e \<Rightarrow> e = OverflowError | Inr r \<Rightarrow> decision r \<in> set APLEffect_values"
  using valid_evaluation [OF assms] .

theorem valid_policy_evaluates_witness:
  "case evaluate_apl_policy demo_ast (demo_ctx 3000) of
     Inl e \<Rightarrow> e = OverflowError | Inr r \<Rightarrow> decision r \<in> set APLEffect_values"
  by (rule valid_policy_evaluates [OF demo_valid, of "[(''environment'', PStr ''production'')]"])
     (simp add: demo_ast_def)

text \<open>
  The validator does not look at the target of a document, and the evaluator iterates over
  its items: the document below is accepted, and evaluating it raises AttributeError on every
  context.
\<close>

theorem valid_policy_target_raises:
  "is_valid (validate (PDict bad_target_ast)) \<and>
   evaluate_apl_policy bad_target_ast ctx = Inl AttributeError"
proof
  show "is_valid (validate (PDict bad_target_ast))" by code_simp
  show "evaluate_apl_policy bad_target_ast ctx = Inl AttributeError"
    by (simp add: evaluate_apl_policy_def bad_target_ast_def)
qed

end
