(* ===== verification/APL_Diff.thy ===== *)
theory APL_Diff
  imports APL_Evaluator
begin

text \<open>
  The comparison of two policy versions (\<open>services/apl/diff.py\<close>) without its Markdown summary:
  which rules were added, removed and modified, and which of these changes it reports as
  security-sensitive.
\<close>

section \<open>Model\<close>

record RuleDiff =
  rd_rule_id :: pyval
  rd_change_type :: string
  rd_old_effect :: "string option"
  rd_new_effect :: "string option"
  rd_is_security_sensitive :: bool
  rd_security_notice :: "string option"

record PolicySemanticDiff =
  pd_added_rules :: "RuleDiff list"
  pd_removed_rules :: "RuleDiff list"
  pd_modified_rules :: "RuleDiff list"
  pd_default_effect_changed :: bool
  pd_old_default_effect :: "string option"
  pd_new_default_effect :: "string option"
  pd_has_security_sensitive_changes :: bool

text \<open>A dictionary of rules by id: a later rule with an equal id replaces the value in place.\<close>

type_synonym rules_map = "(pyval \<times> (string \<times> pyval) list) list"

fun put_rule :: "rules_map \<Rightarrow> pyval \<Rightarrow> (string \<times> pyval) list \<Rightarrow> rules_map" where
  "put_rule [] k r = [(k, r)]"
| "put_rule ((k', r') # m) k r = (if py_eq k' k then (k', r) # m else (k', r') # put_rule m k r)"

definition lookup_rule :: "rules_map \<Rightarrow> pyval \<Rightarrow> (string \<times> pyval) list option" where
  "lookup_rule m k = map_option snd (find (\<lambda>e. py_eq (fst e) k) m)"

definition hashable :: "pyval \<Rightarrow> bool" where
  "hashable v = (\<not> is_list v \<and> \<not> is_dict v)"

fun build_rules_map :: "pyval list \<Rightarrow> rules_map \<Rightarrow> pyexn + rules_map" where
  "build_rules_map [] m = Inr m"
| "build_rules_map (r # rs) m =
     (case r of
        PDict d \<Rightarrow>
          let i = dict_get d ''id'' PNone in
          if \<not> py_truthy i then build_rules_map rs m
          else if \<not> hashable i then Inl TypeError
          else build_rules_map rs (put_rule m i d)
      | _ \<Rightarrow> Inl AttributeError)"

definition rules_map_of :: "(string \<times> pyval) list \<Rightarrow> pyexn + rules_map" where
  "rules_map_of ast = rbind (py_iter (dict_get ast ''rules'' (PList []))) (\<lambda>rs. build_rules_map rs [])"

definition added_diff :: "pyval \<Rightarrow> (string \<times> pyval) list \<Rightarrow> RuleDiff" where
  "added_diff i new_rule =
     (let eff = rule_effect new_rule; sec = (eff = ''ALLOW'') in
      \<lparr>rd_rule_id = i, rd_change_type = ''ADDED'', rd_old_effect = None, rd_new_effect = Some eff,
       rd_is_security_sensitive = sec,
       rd_security_notice = (if sec then Some ''New ALLOW rule broadens agent permissions.'' else None)\<rparr>)"

definition removed_diff :: "pyval \<Rightarrow> (string \<times> pyval) list \<Rightarrow> RuleDiff" where
  "removed_diff i old_rule =
     (let eff = rule_effect old_rule; sec = (eff \<in> {''DENY'', ''REQUIRE_APPROVAL''}) in
      \<lparr>rd_rule_id = i, rd_change_type = ''REMOVED'', rd_old_effect = Some eff, rd_new_effect = None,
       rd_is_security_sensitive = sec,
       rd_security_notice = (if sec then Some (''Removed existing guardrail rule ('' @ eff @ '').'') else None)\<rparr>)"

definition modified_diff :: "pyval \<Rightarrow> (string \<times> pyval) list \<Rightarrow> (string \<times> pyval) list \<Rightarrow> RuleDiff" where
  "modified_diff i old_rule new_rule =
     (let o1 = rule_effect old_rule; n = rule_effect new_rule;
          weakened = (o1 = ''DENY'' \<and> n \<noteq> ''DENY''); dropped = (o1 = ''REQUIRE_APPROVAL'' \<and> n = ''ALLOW'') in
      \<lparr>rd_rule_id = i, rd_change_type = ''MODIFIED'', rd_old_effect = Some o1, rd_new_effect = Some n,
       rd_is_security_sensitive = (weakened \<or> dropped),
       rd_security_notice =
         (if weakened then Some (''Effect weakened from DENY to '' @ n @ ''.'')
          else if dropped then Some ''Human approval guardrail removed (now ALLOW).'' else None)\<rparr>)"

definition same_rule :: "(string \<times> pyval) list \<Rightarrow> (string \<times> pyval) list \<Rightarrow> bool" where
  "same_rule a b = (json_dumps '', '' '': '' (PDict a) = json_dumps '', '' '': '' (PDict b))"

definition compute_policy_diff ::
    "(string \<times> pyval) list \<Rightarrow> (string \<times> pyval) list \<Rightarrow> pyexn + PolicySemanticDiff" where
  "compute_policy_diff old_ast new_ast =
     rbind (rules_map_of old_ast) (\<lambda>om. rbind (rules_map_of new_ast) (\<lambda>nm.
       let old_default = policy_default old_ast; new_default = policy_default new_ast;
           changed = (old_default \<noteq> new_default);
           added = map (\<lambda>(i, r). added_diff i r) (filter (\<lambda>(i, r). lookup_rule om i = None) nm);
           removed = map (\<lambda>(i, r). removed_diff i r) (filter (\<lambda>(i, r). lookup_rule nm i = None) om);
           modified = map (\<lambda>(i, r). modified_diff i (the (lookup_rule om i)) r)
             (filter (\<lambda>(i, r). case lookup_rule om i of Some o1 \<Rightarrow> \<not> same_rule o1 r | None \<Rightarrow> False) nm)
       in Inr
         \<lparr>pd_added_rules = added, pd_removed_rules = removed, pd_modified_rules = modified,
          pd_default_effect_changed = changed,
          pd_old_default_effect = (if changed then Some old_default else None),
          pd_new_default_effect = (if changed then Some new_default else None),
          pd_has_security_sensitive_changes =
            (changed \<and> new_default = ''ALLOW'' \<or>
             list_ex rd_is_security_sensitive (added @ removed @ modified))\<rparr>))"

section \<open>Documents with named rules\<close>





lemma py_eq_str [simp]: "py_eq (PStr a) (PStr b) \<longleftrightarrow> a = b"
  by (simp add: py_eq.simps)








section \<open>What the report guarantees\<close>










section \<open>Examples\<close>



definition demo_ast_with :: "(string \<times> pyval) list list \<Rightarrow> string \<Rightarrow> (string \<times> pyval) list" where
  "demo_ast_with ds dflt =
     [(''version'', PStr ''APL/1.0''), (''name'', PStr ''Purchases''),
      (''target'', PDict [(''environment'', PStr ''production'')]),
      (''rules'', PList (map PDict ds)), (''default_effect'', PStr dflt)]"



lemmas diff_eval = compute_policy_diff_def Let_def lookup_rule_def added_diff_def removed_diff_def
  modified_diff_def rule_effect_def policy_default_def demo_rule_def demo_ast_def demo_ast_with_def py_eval






definition demo_raised :: "(string \<times> pyval) list list" where
  "demo_raised = map (\<lambda>v. case v of PDict d \<Rightarrow> d | _ \<Rightarrow> [])
     [demo_rule ''small'' ''lte'' 10000 ''ALLOW'', demo_rule ''large'' ''gt'' 20000 ''DENY'']"

text \<open>
  Changes the diff does not report as security-sensitive although they weaken the policy: the
  limit of an ALLOW rule and the bound of a DENY rule are raised, so that a denied request is now
  allowed; and a default of DENY becomes REQUIRE_APPROVAL.
\<close>

theorem weakening_not_flagged:
  "\<not> pd_has_security_sensitive_changes (projr (compute_policy_diff demo_ast (demo_ast_with demo_raised ''REQUIRE_APPROVAL'')))
   \<and> decision (projr (evaluate_apl_policy demo_ast (demo_ctx 3000))) = ''DENY''
   \<and> decision (projr (evaluate_apl_policy (demo_ast_with demo_raised ''REQUIRE_APPROVAL'') (demo_ctx 3000))) = ''ALLOW''
   \<and> \<not> pd_has_security_sensitive_changes (projr (compute_policy_diff (demo_ast_with [] ''DENY'') (demo_ast_with [] ''REQUIRE_APPROVAL'')))
   \<and> decision (projr (evaluate_apl_policy (demo_ast_with [] ''DENY'') (demo_ctx 3000))) = ''DENY''
   \<and> decision (projr (evaluate_apl_policy (demo_ast_with [] ''REQUIRE_APPROVAL'') (demo_ctx 3000))) = ''REQUIRE_APPROVAL''"
  by (simp add: diff_eval rules_map_of_def hashable_def apl_eval demo_raised_def demo_ctx_def)

end
