(* ===== verification/Models.thy ===== *)
theory Models
  imports PyValues "HOL-Library.Product_Lexorder"
begin

text \<open>
  The rows of the database (\<open>models/*.py\<close>) and the state the services work on. Each table is
  the list of its rows in insertion order; a row is a record of its columns (relationships are
  looked up through the foreign keys). Columns that no modelled operation reads or writes are
  left out: the descriptive columns of agents and the index and check declarations.

  Identifiers drawn at random (\<open>uuid4\<close>, \<open>token_hex\<close>) come from a supply of fresh numbers,
  \<open>datetime.now\<close> and the database's \<open>now()\<close> read a clock; both are fields of the state. A datetime
  is a number of microseconds since the epoch (UTC), an amount read from a \<open>Numeric\<close> column a
  rational number.
\<close>

section \<open>Identifiers, times and decimals\<close>

type_synonym uuid = nat
type_synonym datetime = int

definition seconds :: "int \<Rightarrow> int" where "seconds n = n * 1000000"
definition minutes :: "int \<Rightarrow> int" where "minutes n = seconds (n * 60)"
definition hours :: "int \<Rightarrow> int" where "hours n = minutes (n * 60)"
definition days :: "int \<Rightarrow> int" where "days n = hours (n * 24)"

definition hour_of :: "datetime \<Rightarrow> int" where
  "hour_of t = (t div hours 1) mod 24"

definition isoweekday :: "datetime \<Rightarrow> int" where
  "isoweekday t = (t div days 1 + 3) mod 7 + 1"

text \<open>The lower-case hexadecimal text of the last \<open>k\<close> digits of a number.\<close>

fun hex_digits :: "nat \<Rightarrow> nat \<Rightarrow> string" where
  "hex_digits 0 n = []"
| "hex_digits (Suc k) n = hex_digits k (n div 16) @ [hex_char (n mod 16)]"

definition uuid_str :: "uuid \<Rightarrow> string" where
  "uuid_str u = (let h = hex_digits 32 u in
     take 8 h @ ''-'' @ take 4 (drop 8 h) @ ''-'' @ take 4 (drop 12 h) @ ''-''
     @ take 4 (drop 16 h) @ ''-'' @ drop 20 h)"

text \<open>
  A \<open>Decimal\<close> is a coefficient and a power of ten; \<open>normalize\<close> drops the trailing zeros of the
  coefficient and \<open>str\<close> writes it positionally unless the exponent is positive or the number
  too small.
\<close>

datatype Decimal = Decimal (coeff: int) (expo: int)

definition dec_val :: "Decimal \<Rightarrow> rat" where
  "dec_val d = of_int (coeff d) * base_pow 10 (expo d)"

function dec_normalize :: "Decimal \<Rightarrow> Decimal" where
  "dec_normalize (Decimal c e) =
     (if c = 0 then Decimal 0 0
      else if c mod 10 = 0 then dec_normalize (Decimal (c div 10) (e + 1))
      else Decimal c e)"
  by pat_completeness auto
termination
  by (relation "measure (\<lambda>d. nat \<bar>coeff d\<bar>)") (auto simp: zdiv_int)

declare dec_normalize.simps [simp del]

definition dec_str :: "Decimal \<Rightarrow> string" where
  "dec_str d =
     (let sg = (if coeff d < 0 then ''-'' else []); ds = str_of_int \<bar>coeff d\<bar>;
          left = expo d + int (length ds) in
      sg @
      (if expo d \<le> 0 \<and> left > - 6 then
         (if left \<le> 0 then ''0.'' @ replicate (nat (- left)) (CHR ''0'') @ ds
          else if nat left = length ds then ds
          else take (nat left) ds @ ''.'' @ drop (nat left) ds)
       else
         (if length ds = 1 then ds else hd ds # ''.'' @ tl ds)
         @ ''E'' @ (if left - 1 < 0 then [] else ''+'') @ str_of_int (left - 1)))"

text \<open>A value of a \<open>Numeric(19, 4)\<close> column as a \<open>Decimal\<close>.\<close>

definition numeric_dec :: "rat \<Rightarrow> Decimal" where
  "numeric_dec x = Decimal \<lfloor>x * 10000\<rfloor> (- 4)"

section \<open>Agents, permissions and delegations\<close>

datatype AgentStatus = AG_DRAFT | AG_REGISTERED | AG_REVIEW_REQUIRED | AG_APPROVED | AG_ACTIVE
  | AG_SUSPENDED | AG_RETIREMENT_PENDING | AG_RETIRED | AG_INACTIVE | AG_REVOKED

fun AgentStatus_value :: "AgentStatus \<Rightarrow> string" where
  "AgentStatus_value AG_DRAFT = ''draft''"
| "AgentStatus_value AG_REGISTERED = ''registered''"
| "AgentStatus_value AG_REVIEW_REQUIRED = ''review_required''"
| "AgentStatus_value AG_APPROVED = ''approved''"
| "AgentStatus_value AG_ACTIVE = ''active''"
| "AgentStatus_value AG_SUSPENDED = ''suspended''"
| "AgentStatus_value AG_RETIREMENT_PENDING = ''retirement_pending''"
| "AgentStatus_value AG_RETIRED = ''retired''"
| "AgentStatus_value AG_INACTIVE = ''inactive''"
| "AgentStatus_value AG_REVOKED = ''revoked''"

definition all_AgentStatus :: "AgentStatus list" where
  "all_AgentStatus = [AG_DRAFT, AG_REGISTERED, AG_REVIEW_REQUIRED, AG_APPROVED, AG_ACTIVE,
     AG_SUSPENDED, AG_RETIREMENT_PENDING, AG_RETIRED, AG_INACTIVE, AG_REVOKED]"

record Agent =
  ag_id :: uuid
  ag_name :: string
  ag_agent_identifier :: string
  ag_environment :: string
  ag_owner_id :: uuid
  ag_organization_id :: "uuid option"
  ag_status :: AgentStatus
  ag_purpose :: "string option"
  ag_risk_classification :: string
  ag_last_activity_at :: "datetime option"
  ag_next_review_due_at :: "datetime option"
  ag_certified_until :: "datetime option"
  ag_certification_status :: string
  ag_created_at :: datetime

datatype PermissionStatus = PM_ACTIVE | PM_REVOKED | PM_EXPIRED

record Permission =
  pm_id :: uuid
  pm_owner_id :: uuid
  pm_agent_id :: uuid
  pm_action :: string
  pm_resource :: string
  pm_maximum_amount :: "rat option"
  pm_currency :: "string option"
  pm_requires_approval :: bool
  pm_allow_delegation :: bool
  pm_valid_from :: datetime
  pm_expires_at :: datetime
  pm_status :: PermissionStatus
  pm_created_at :: datetime
  pm_updated_at :: datetime

definition permission_is_usable :: "Permission \<Rightarrow> datetime \<Rightarrow> bool" where
  "permission_is_usable p checked_at =
     (pm_status p = PM_ACTIVE \<and> pm_valid_from p \<le> checked_at \<and> checked_at < pm_expires_at p)"

datatype DelegationStatus = DG_ACTIVE | DG_EXPIRED | DG_REVOKED | DG_SUSPENDED

record AgentDelegation =
  dg_id :: uuid
  dg_delegation_id :: string
  dg_parent_agent_id :: uuid
  dg_child_agent_id :: uuid
  dg_parent_permission_id :: uuid
  dg_parent_delegation_id :: "uuid option"
  dg_organization_id :: uuid
  dg_action :: string
  dg_resource :: string
  dg_maximum_amount :: "rat option"
  dg_currency :: "string option"
  dg_requires_approval :: bool
  dg_allow_further_delegation :: bool
  dg_current_depth :: int
  dg_max_delegation_depth :: int
  dg_valid_from :: datetime
  dg_expires_at :: datetime
  dg_status :: DelegationStatus
  dg_revoked_at :: "datetime option"
  dg_revocation_reason :: "string option"
  dg_revoked_by_agent_id :: "uuid option"
  dg_revoked_by_user_id :: "uuid option"
  dg_created_at :: datetime

definition delegation_is_usable :: "AgentDelegation \<Rightarrow> datetime \<Rightarrow> bool" where
  "delegation_is_usable d checked_at =
     (dg_status d = DG_ACTIVE \<and> dg_valid_from d \<le> checked_at \<and> checked_at < dg_expires_at d)"

definition generate_delegation_id :: "nat \<Rightarrow> string" where
  "generate_delegation_id token = ''dlg_'' @ hex_digits 24 token"

section \<open>Requests, audit log and risk\<close>

record AuthorizationRequest =
  ar_agent_id :: string
  ar_action :: string
  ar_resource :: string
  ar_amount :: "Decimal option"
  ar_currency :: "string option"
  ar_delegation_id :: "string option"

datatype RequestStatus = RQ_PENDING | RQ_APPROVED | RQ_REJECTED | RQ_EXPIRED

record AuthorizationRequestRecord =
  rq_id :: uuid
  rq_request_id :: string
  rq_user_id :: uuid
  rq_agent_id :: uuid
  rq_permission_id :: uuid
  rq_environment :: string
  rq_delegation_id :: "string option"
  rq_parent_agent_id :: "uuid option"
  rq_action :: string
  rq_resource :: string
  rq_amount :: "rat option"
  rq_currency :: "string option"
  rq_status :: RequestStatus
  rq_reason :: string
  rq_policy_reason :: "string option"
  rq_risk_score :: "int option"
  rq_risk_level :: "string option"
  rq_risk_recommendation :: "string option"
  rq_signature_verified :: bool
  rq_signing_key_id :: "string option"
  rq_signature_version :: "string option"
  rq_created_at :: datetime
  rq_expires_at :: datetime
  rq_decided_at :: "datetime option"

datatype AuditDecision = AD_APPROVED | AD_REJECTED

record AuditLog =
  al_id :: uuid
  al_request_id :: string
  al_environment :: string
  al_user_id :: uuid
  al_organization_id :: "uuid option"
  al_agent_id :: "uuid option"
  al_agent_identifier :: string
  al_permission_id :: "uuid option"
  al_delegation_id :: "string option"
  al_parent_agent_id :: "uuid option"
  al_action :: string
  al_resource :: string
  al_amount :: "rat option"
  al_currency :: "string option"
  al_decision :: AuditDecision
  al_reason :: string
  al_risk_score :: "int option"
  al_risk_level :: "string option"
  al_risk_recommendation :: "string option"
  al_signature_verified :: bool
  al_signing_key_id :: "string option"
  al_signature_version :: "string option"
  al_requested_at :: datetime

datatype RiskLevel = RL_LOW | RL_MEDIUM | RL_HIGH | RL_CRITICAL
datatype RiskAction = RA_ALLOW | RA_REQUIRE_APPROVAL | RA_REJECT

fun RiskLevel_value :: "RiskLevel \<Rightarrow> string" where
  "RiskLevel_value RL_LOW = ''LOW''"
| "RiskLevel_value RL_MEDIUM = ''MEDIUM''"
| "RiskLevel_value RL_HIGH = ''HIGH''"
| "RiskLevel_value RL_CRITICAL = ''CRITICAL''"

fun RiskAction_value :: "RiskAction \<Rightarrow> string" where
  "RiskAction_value RA_ALLOW = ''ALLOW''"
| "RiskAction_value RA_REQUIRE_APPROVAL = ''REQUIRE_APPROVAL''"
| "RiskAction_value RA_REJECT = ''REJECT''"

record RiskAssessment =
  ra_id :: uuid
  ra_request_id :: string
  ra_user_id :: uuid
  ra_organization_id :: "uuid option"
  ra_agent_id :: uuid
  ra_permission_id :: "uuid option"
  ra_risk_score :: int
  ra_risk_level :: RiskLevel
  ra_decision_recommendation :: RiskAction
  ra_reasons :: "string list"
  ra_features :: "(string \<times> pyval) list"
  ra_model_version :: string
  ra_created_at :: datetime

record RiskPolicy =
  rp_id :: uuid
  rp_organization_id :: "uuid option"
  rp_user_id :: "uuid option"
  rp_enabled :: bool
  rp_medium_action :: RiskAction
  rp_high_action :: RiskAction
  rp_critical_action :: RiskAction
  rp_amount_anomaly_enabled :: bool
  rp_velocity_enabled :: bool
  rp_rejection_history_enabled :: bool

record OrganizationSecurityPolicy =
  sp_organization_id :: uuid
  sp_require_manual_approval_above_amount :: "rat option"
  sp_approval_threshold_currency :: string
  sp_block_critical_risk :: bool
  sp_require_approval_for_high_risk :: bool

record APIKey =
  ak_id :: uuid
  ak_environment :: string
  ak_created_at :: datetime

text \<open>The settings the risk engine reads (\<open>core/config.py\<close>).\<close>

record Settings =
  risk_low_max :: int
  risk_medium_max :: int
  risk_high_max :: int
  risk_history_days :: int
  risk_velocity_window_seconds :: int
  risk_velocity_medium_count :: int
  risk_velocity_high_count :: int
  risk_velocity_critical_count :: int
  risk_rejection_window_minutes :: int
  risk_new_agent_hours :: int
  risk_recent_permission_minutes :: int

definition default_settings :: Settings where
  "default_settings = \<lparr>risk_low_max = 29, risk_medium_max = 59, risk_high_max = 79,
     risk_history_days = 30, risk_velocity_window_seconds = 60, risk_velocity_medium_count = 5,
     risk_velocity_high_count = 10, risk_velocity_critical_count = 30,
     risk_rejection_window_minutes = 10, risk_new_agent_hours = 24,
     risk_recent_permission_minutes = 60\<rparr>"

section \<open>Notifications\<close>

datatype NotificationStatus = NS_UNREAD | NS_READ | NS_ARCHIVED
datatype NotificationPriority = NP_LOW | NP_NORMAL | NP_HIGH | NP_CRITICAL

datatype NotificationType = AUTHORIZATION_PENDING | AUTHORIZATION_APPROVED | AUTHORIZATION_REJECTED
  | PERMISSION_EXPIRING | PERMISSION_EXPIRED | AGENT_SUSPENDED | AGENT_REVOKED | API_KEY_REVOKED
  | SECURITY_ALERT | TEAM_INVITATION | HIGH_RISK_APPROVAL_REQUIRED | BILLING_USAGE_WARNING
  | BILLING_PLAN_CHANGED | BILLING_PAYMENT_FAILED | BILLING_CANCELING

datatype DeliveryChannel = IN_APP | PUSH | EMAIL
datatype DeliveryStatus = DS_PENDING | DS_SENT | DS_DELIVERED | DS_FAILED
datatype DevicePlatform = ANDROID | IOS
datatype DeviceStatus = DV_ACTIVE | DV_REVOKED

record Notification =
  nt_id :: uuid
  nt_user_id :: uuid
  nt_organization_id :: "uuid option"
  nt_type :: NotificationType
  nt_title :: string
  nt_message :: string
  nt_status :: NotificationStatus
  nt_priority :: NotificationPriority
  nt_related_request_id :: "uuid option"
  nt_related_agent_id :: "uuid option"
  nt_related_permission_id :: "uuid option"
  nt_metadata :: "(string \<times> pyval) list option"
  nt_deduplication_key :: "string option"
  nt_created_at :: datetime
  nt_read_at :: "datetime option"

record NotificationPreference =
  np_id :: uuid
  np_user_id :: uuid
  np_push_enabled :: bool
  np_email_enabled :: bool
  np_in_app_enabled :: bool
  np_security_email_enabled :: bool
  np_approval_push_enabled :: bool
  np_approval_email_enabled :: bool
  np_permission_expiry_enabled :: bool
  np_general_activity_enabled :: bool

record Device =
  dv_id :: uuid
  dv_user_id :: uuid
  dv_push_token :: string
  dv_platform :: DevicePlatform
  dv_device_name :: "string option"
  dv_status :: DeviceStatus
  dv_last_seen_at :: datetime

record NotificationDelivery =
  nd_id :: uuid
  nd_notification_id :: uuid
  nd_channel :: DeliveryChannel
  nd_status :: DeliveryStatus
  nd_attempt_count :: nat

section \<open>Governance, credentials, security events and policies\<close>

datatype ExpiryBehavior = ALERT_ONLY | EB_REVIEW_REQUIRED | EB_SUSPEND

record AgentGovernancePolicy =
  gp_organization_id :: "uuid option"
  gp_periodic_review_days :: int
  gp_expiry_behavior :: ExpiryBehavior
  gp_dormancy_days :: int
  gp_enforce_separation_of_duties :: bool
  gp_require_classification_on_promotion :: bool
  gp_require_purpose_on_promotion :: bool

datatype CredentialStatus = CR_ACTIVE | CR_REVOKED | CR_EXPIRED | CR_SUSPENDED

record AgentCredential =
  cr_id :: uuid
  cr_credential_id :: string
  cr_issuer_id :: uuid
  cr_subject_agent_id :: uuid
  cr_organization_id :: uuid
  cr_credential_type :: string
  cr_environment :: string
  cr_issued_at :: datetime
  cr_not_before :: "datetime option"
  cr_expires_at :: datetime
  cr_status :: CredentialStatus
  cr_signing_key_id :: string
  cr_claims_json :: pyval
  cr_claims_hash :: string
  cr_signature_value :: string
  cr_revoked_at :: "datetime option"
  cr_revocation_reason_code :: "string option"

record SecurityEvent =
  se_organization_id :: "uuid option"
  se_actor_user_id :: "uuid option"
  se_target_user_id :: "uuid option"
  se_event_type :: string
  se_category :: "string option"
  se_severity :: string
  se_description :: "string option"
  se_details :: "(string \<times> pyval) list"

text \<open>
  A stored policy version, as the attributes its class maps: \<open>PolicyVersion_columns\<close> lists the
  names that exist, reading any other one raises AttributeError.
\<close>

definition PolicyVersion_columns :: "string list" where
  "PolicyVersion_columns = [''id'', ''policy_id'', ''version_number'', ''source_format'',
     ''source_document'', ''normalized_document'', ''content_hash'', ''status'', ''rule_count'',
     ''created_by'', ''reviewed_by'', ''reviewed_at'', ''review_comment'', ''published_by'',
     ''published_at'', ''created_at'', ''policy'']"

record PolicyVersion =
  pv_policy_id :: uuid
  pv_attrs :: "(string \<times> pyval) list"

record Policy =
  po_id :: uuid
  po_organization_id :: uuid

section \<open>The state\<close>

record db =
  clock :: datetime
  next_id :: nat
  agents :: "Agent list"
  permissions :: "Permission list"
  delegations :: "AgentDelegation list"
  auth_requests :: "AuthorizationRequestRecord list"
  audit_logs :: "AuditLog list"
  risk_assessments :: "RiskAssessment list"
  risk_policies :: "RiskPolicy list"
  security_policies :: "OrganizationSecurityPolicy list"
  notifications :: "Notification list"
  deliveries :: "NotificationDelivery list"
  preferences :: "NotificationPreference list"
  devices :: "Device list"
  governance_policies :: "AgentGovernancePolicy list"
  credentials :: "AgentCredential list"
  security_events :: "SecurityEvent list"
  policies :: "Policy list"
  policy_versions :: "PolicyVersion list"

definition fresh :: "db \<Rightarrow> nat \<times> db" where
  "fresh s = (next_id s, s\<lparr>next_id := Suc (next_id s)\<rparr>)"

definition get_agent :: "db \<Rightarrow> uuid \<Rightarrow> Agent option" where
  "get_agent s i = find (\<lambda>a. ag_id a = i) (agents s)"

definition get_permission :: "db \<Rightarrow> uuid \<Rightarrow> Permission option" where
  "get_permission s i = find (\<lambda>p. pm_id p = i) (permissions s)"

definition get_delegation :: "db \<Rightarrow> uuid \<Rightarrow> AgentDelegation option" where
  "get_delegation s i = find (\<lambda>d. dg_id d = i) (delegations s)"

definition agent_active :: "db \<Rightarrow> uuid \<Rightarrow> bool" where
  "agent_active s i = (case get_agent s i of Some a \<Rightarrow> ag_status a = AG_ACTIVE | None \<Rightarrow> False)"

section \<open>A small state\<close>

text \<open>A state for evaluating the services on: one active agent of user 1 with one permission.\<close>

definition empty_db :: db where
  "empty_db = \<lparr>clock = 0, next_id = 100, agents = [], permissions = [], delegations = [],
     auth_requests = [], audit_logs = [], risk_assessments = [], risk_policies = [],
     security_policies = [], notifications = [], deliveries = [], preferences = [], devices = [],
     governance_policies = [], credentials = [], security_events = [], policies = [],
     policy_versions = []\<rparr>"

definition demo_agent :: "uuid \<Rightarrow> string \<Rightarrow> Agent" where
  "demo_agent i name = \<lparr>ag_id = i, ag_name = name, ag_agent_identifier = ''agt_'' @ name,
     ag_environment = ''production'', ag_owner_id = 1, ag_organization_id = Some 7,
     ag_status = AG_ACTIVE, ag_purpose = None, ag_risk_classification = ''LOW'',
     ag_last_activity_at = None, ag_next_review_due_at = None, ag_certified_until = None,
     ag_certification_status = ''UNREVIEWED'', ag_created_at = - days 400\<rparr>"

definition demo_permission :: "uuid \<Rightarrow> uuid \<Rightarrow> rat option \<Rightarrow> Permission" where
  "demo_permission i agent limit = \<lparr>pm_id = i, pm_owner_id = 1, pm_agent_id = agent,
     pm_action = ''purchase'', pm_resource = ''books'', pm_maximum_amount = limit,
     pm_currency = map_option (\<lambda>_. ''USD'') limit, pm_requires_approval = False,
     pm_allow_delegation = True, pm_valid_from = - days 300, pm_expires_at = days 30,
     pm_status = PM_ACTIVE, pm_created_at = - days 300, pm_updated_at = - days 300\<rparr>"

definition demo_db :: db where
  "demo_db = empty_db\<lparr>agents := [demo_agent 10 ''buyer'', demo_agent 11 ''helper''],
     permissions := [demo_permission 20 10 (Some 500)]\<rparr>"

lemmas demo_defs = demo_db_def empty_db_def demo_agent_def demo_permission_def
  seconds_def minutes_def hours_def days_def

end
