(* ===== verification/Permissions.thy ===== *)
theory Permissions
  imports Prelude Models
begin

text \<open>
  Permissions (\<open>services/permissions.py\<close>): creation under an owner or organization scope, the
  sweep that marks permissions past their expiry, lookup and revocation.
\<close>

datatype permission_error = AgentNotFound

record PermissionCreate =
  pc_agent_id :: uuid
  pc_action :: string
  pc_resource :: string
  pc_maximum_amount :: "rat option"
  pc_currency :: "string option"
  pc_valid_from :: datetime
  pc_expires_at :: datetime
  pc_requires_approval :: bool
  pc_allow_delegation :: bool

text \<open>The agents of an organization, or the personal agents of an owner.\<close>

definition agent_in_scope :: "uuid \<Rightarrow> uuid option \<Rightarrow> Agent \<Rightarrow> bool" where
  "agent_in_scope owner_id organization_id a =
     (case organization_id of
        Some org \<Rightarrow> ag_organization_id a = Some org
      | None \<Rightarrow> ag_owner_id a = owner_id \<and> ag_organization_id a = None)"

definition scope_ids :: "db \<Rightarrow> uuid \<Rightarrow> uuid option \<Rightarrow> uuid set" where
  "scope_ids s owner_id organization_id =
     set (map ag_id (filter (agent_in_scope owner_id organization_id) (agents s)))"

definition create_permission ::
    "db \<Rightarrow> uuid \<Rightarrow> PermissionCreate \<Rightarrow> uuid option \<Rightarrow> permission_error + db \<times> Permission" where
  "create_permission s owner_id payload organization_id =
     (case find (\<lambda>a. ag_id a = pc_agent_id payload \<and> agent_in_scope owner_id organization_id a) (agents s) of
        None \<Rightarrow> Inl AgentNotFound
      | Some _ \<Rightarrow>
          let (i, s1) = fresh s;
              p = \<lparr>pm_id = i, pm_owner_id = owner_id, pm_agent_id = pc_agent_id payload,
                   pm_action = pc_action payload, pm_resource = pc_resource payload,
                   pm_maximum_amount = pc_maximum_amount payload, pm_currency = pc_currency payload,
                   pm_requires_approval = pc_requires_approval payload,
                   pm_allow_delegation = pc_allow_delegation payload,
                   pm_valid_from = pc_valid_from payload, pm_expires_at = pc_expires_at payload,
                   pm_status = PM_ACTIVE, pm_created_at = clock s, pm_updated_at = clock s\<rparr>
          in Inr (s1\<lparr>permissions := permissions s1 @ [p]\<rparr>, p))"

text \<open>
  The scope argument of the sweep: \<open>EveryScope\<close> is the default \<open>...\<close>, the other two are
  \<open>None\<close> and an organization.
\<close>

datatype sweep_scope = EveryScope | PersonalScope | OrgScope uuid

definition sweep_matches :: "db \<Rightarrow> uuid \<Rightarrow> datetime \<Rightarrow> sweep_scope \<Rightarrow> Permission \<Rightarrow> bool" where
  "sweep_matches s owner_id checked_at sc p =
     (pm_status p = PM_ACTIVE \<and> pm_expires_at p \<le> checked_at \<and>
      (case sc of
         EveryScope \<Rightarrow> pm_owner_id p = owner_id
       | PersonalScope \<Rightarrow> pm_agent_id p \<in> scope_ids s owner_id None
       | OrgScope org \<Rightarrow> pm_agent_id p \<in> scope_ids s owner_id (Some org)))"

definition expire_owned_permissions :: "db \<Rightarrow> uuid \<Rightarrow> datetime option \<Rightarrow> sweep_scope \<Rightarrow> db" where
  "expire_owned_permissions s owner_id at_time sc =
     (let checked_at = (case at_time of Some t \<Rightarrow> t | None \<Rightarrow> clock s) in
      s\<lparr>permissions := update_where (sweep_matches s owner_id checked_at sc)
          (\<lambda>p. p\<lparr>pm_status := PM_EXPIRED, pm_updated_at := clock s\<rparr>) (permissions s)\<rparr>)"

definition newest_first :: "Permission list \<Rightarrow> Permission list" where
  "newest_first ps = sort_key (\<lambda>p. (- pm_created_at p, - int (pm_id p))) ps"

definition list_owned_permissions :: "db \<Rightarrow> uuid \<Rightarrow> uuid option \<Rightarrow> db \<times> Permission list" where
  "list_owned_permissions s owner_id organization_id =
     (let s1 = expire_owned_permissions s owner_id None
                 (case organization_id of None \<Rightarrow> PersonalScope | Some org \<Rightarrow> OrgScope org) in
      (s1, newest_first (filter (\<lambda>p. pm_agent_id p \<in> scope_ids s1 owner_id organization_id) (permissions s1))))"

definition set_permission_status :: "uuid \<Rightarrow> PermissionStatus \<Rightarrow> db \<Rightarrow> db" where
  "set_permission_status i st s =
     s\<lparr>permissions := update_where (\<lambda>p. pm_id p = i)
        (\<lambda>p. p\<lparr>pm_status := st, pm_updated_at := clock s\<rparr>) (permissions s)\<rparr>"

definition get_owned_permission ::
    "db \<Rightarrow> uuid \<Rightarrow> uuid \<Rightarrow> uuid option \<Rightarrow> db \<times> Permission option" where
  "get_owned_permission s owner_id permission_id organization_id =
     (case find (\<lambda>p. pm_id p = permission_id \<and> pm_agent_id p \<in> scope_ids s owner_id organization_id)
             (permissions s) of
        None \<Rightarrow> (s, None)
      | Some p \<Rightarrow>
          if pm_status p = PM_ACTIVE \<and> pm_expires_at p \<le> clock s
          then (set_permission_status permission_id PM_EXPIRED s,
                Some (p\<lparr>pm_status := PM_EXPIRED, pm_updated_at := clock s\<rparr>))
          else (s, Some p))"

definition revoke_owned_permission ::
    "db \<Rightarrow> uuid \<Rightarrow> uuid \<Rightarrow> uuid option \<Rightarrow> db \<times> Permission option" where
  "revoke_owned_permission s owner_id permission_id organization_id =
     (case get_owned_permission s owner_id permission_id organization_id of
        (s1, None) \<Rightarrow> (s1, None)
      | (s1, Some p) \<Rightarrow>
          if pm_status p = PM_ACTIVE
          then (set_permission_status permission_id PM_REVOKED s1,
                Some (p\<lparr>pm_status := PM_REVOKED, pm_updated_at := clock s1\<rparr>))
          else (s1, Some p))"

section \<open>Facts\<close>

lemma expire_keeps [db_simps]:
  "agents (expire_owned_permissions s u t sc) = agents s"
  "clock (expire_owned_permissions s u t sc) = clock s"
  "next_id (expire_owned_permissions s u t sc) = next_id s"
  "audit_logs (expire_owned_permissions s u t sc) = audit_logs s"
  "auth_requests (expire_owned_permissions s u t sc) = auth_requests s"
  "delegations (expire_owned_permissions s u t sc) = delegations s"
  "policies (expire_owned_permissions s u t sc) = policies s"
  "policy_versions (expire_owned_permissions s u t sc) = policy_versions s"
  by (simp_all add: expire_owned_permissions_def Let_def)

lemma set_newest_first [simp]: "set (newest_first ps) = set ps"
  by (simp add: newest_first_def)

section \<open>The permission state machine\<close>

inductive permission_step :: "db \<Rightarrow> db \<Rightarrow> bool" where
  create: "create_permission s owner payload org = Inr (t, p) \<Longrightarrow> permission_step s t"
| expire: "permission_step s (expire_owned_permissions s owner at_time sc)"
| listing: "list_owned_permissions s owner org = (t, ps) \<Longrightarrow> permission_step s t"
| lookup: "get_owned_permission s owner i org = (t, r) \<Longrightarrow> permission_step s t"
| revoke: "revoke_owned_permission s owner i org = (t, r) \<Longrightarrow> permission_step s t"
| tick: "clock s \<le> now \<Longrightarrow> permission_step s (s\<lparr>clock := now\<rparr>)"

text \<open>
  How a row may change: its grant never does, and its status only from active to one of the
  two final ones.
\<close>

definition permission_evolves :: "Permission \<Rightarrow> Permission \<Rightarrow> bool" where
  "permission_evolves p q =
     (q = p\<lparr>pm_status := pm_status q, pm_updated_at := pm_updated_at q\<rparr> \<and>
      (pm_status p = PM_ACTIVE \<or> pm_status q = pm_status p))"

interpretation perm_rows: keyed_rows pm_id permission_evolves
proof
  show "permission_evolves r r" for r by (simp add: permission_evolves_def)
  show "permission_evolves r r''" if "permission_evolves r r'" "permission_evolves r' r''" for r r' r''
    using that by (cases r; cases r'; cases r'') (auto simp: permission_evolves_def)
  show "pm_id r' = pm_id r" if "permission_evolves r r'" for r r'
    using that by (cases r; cases r') (auto simp: permission_evolves_def)
qed

abbreviation permissions_inv :: "db \<Rightarrow> bool" where
  "permissions_inv s \<equiv> rows_ok pm_id (next_id s) (permissions s)"

abbreviation permissions_evolve :: "db \<Rightarrow> db \<Rightarrow> bool" where
  "permissions_evolve s t \<equiv>
     rows_evolve pm_id permission_evolves (next_id s) (permissions s) (next_id t) (permissions t)"

lemma evolves_status: "pm_status p = PM_ACTIVE \<Longrightarrow> permission_evolves p (p\<lparr>pm_status := st, pm_updated_at := n\<rparr>)"
  by (simp add: permission_evolves_def)

lemma evolve_expire:
  assumes "permissions_inv s"
  shows "permissions_evolve s (expire_owned_permissions s owner at_time sc)"
  using assms
  by (simp add: expire_owned_permissions_def Let_def)
     (rule perm_rows.evolve_update_where, auto simp: sweep_matches_def evolves_status)

lemma evolve_set_status:
  assumes "permissions_inv s" "p \<in> set (permissions s)" "pm_id p = i" "pm_status p = PM_ACTIVE"
  shows "permissions_evolve s (set_permission_status i st s)"
proof -
  have "pm_status q = PM_ACTIVE" if "q \<in> set (permissions s)" "pm_id q = i" for q
    using that assms(2-4) rows_ok_same_key [OF assms(1), of p q] by simp
  with assms(1) show ?thesis
    by (simp add: set_permission_status_def)
       (rule perm_rows.evolve_update_where, auto intro: evolves_status)
qed

lemma get_owned_permission_cases:
  assumes "get_owned_permission s owner i org = (t, r)"
  obtains "t = s" "r = None"
  | p where "t = s" "r = Some p" "p \<in> set (permissions s)" "pm_id p = i"
      "pm_agent_id p \<in> scope_ids s owner org" "pm_status p = PM_ACTIVE \<longrightarrow> clock s < pm_expires_at p"
  | p where "t = set_permission_status i PM_EXPIRED s" "p \<in> set (permissions s)" "pm_id p = i"
      "r = Some (p\<lparr>pm_status := PM_EXPIRED, pm_updated_at := clock s\<rparr>)" "pm_status p = PM_ACTIVE"
      "pm_agent_id p \<in> scope_ids s owner org" "pm_expires_at p \<le> clock s"
  using assms unfolding get_owned_permission_def
  by (fastforce dest: find_SomeD split: option.splits if_splits)

lemma evolve_get:
  assumes "permissions_inv s" "get_owned_permission s owner i org = (t, r)"
  shows "permissions_evolve s t"
  using assms(2)
proof (cases rule: get_owned_permission_cases)
  case (3 p)
  then show ?thesis using evolve_set_status [OF assms(1)] by simp
qed (use assms(1) in \<open>simp_all add: perm_rows.evolve_refl\<close>)

lemma evolve_revoke:
  assumes "permissions_inv s" "revoke_owned_permission s owner i org = (t, r)"
  shows "permissions_evolve s t"
proof -
  obtain s1 r1 where g: "get_owned_permission s owner i org = (s1, r1)" by force
  have s1: "permissions_evolve s s1" using evolve_get [OF assms(1) g] .
  show ?thesis
  proof (cases "\<exists>p. r1 = Some p \<and> pm_status p = PM_ACTIVE")
    case True
    then obtain p where p: "r1 = Some p" "pm_status p = PM_ACTIVE" by auto
    from g p have "s1 = s" "p \<in> set (permissions s)" "pm_id p = i"
      by (auto elim: get_owned_permission_cases)
    with p g assms show ?thesis
      by (auto simp: revoke_owned_permission_def intro: evolve_set_status)
  next
    case False
    with g assms(2) have "t = s1" by (auto simp: revoke_owned_permission_def split: option.splits if_splits)
    with s1 show ?thesis by simp
  qed
qed

lemma evolve_create:
  "permissions_inv s \<Longrightarrow> create_permission s owner payload org = Inr (t, p) \<Longrightarrow> permissions_evolve s t"
  by (auto simp: create_permission_def fresh_def Let_def intro!: perm_rows.evolve_snoc split: option.splits)

lemma permission_step_evolves: "permissions_inv s \<Longrightarrow> permission_step s t \<Longrightarrow> permissions_evolve s t"
  by (erule permission_step.cases)
     (auto simp: list_owned_permissions_def Let_def perm_rows.evolve_refl
        intro: evolve_create evolve_expire evolve_get evolve_revoke)

lemma demo_permissions_inv: "permissions_inv demo_db"
  by (simp add: rows_ok_def demo_defs)

lemma find_set_status_other:
  "j \<noteq> i \<Longrightarrow> get_permission (set_permission_status i st s) j = get_permission s j"
  unfolding get_permission_def set_permission_status_def
  by (simp add: find_update_where_key) (cases "find (\<lambda>p. pm_id p = j) (permissions s)", auto dest: find_SomeD)

lemma find_set_status_same:
  "permissions_inv s \<Longrightarrow> p \<in> set (permissions s) \<Longrightarrow>
     get_permission (set_permission_status (pm_id p) st s) (pm_id p) = Some (p\<lparr>pm_status := st, pm_updated_at := clock s\<rparr>)"
  unfolding get_permission_def set_permission_status_def
  by (simp add: find_update_where_key rows_ok_find [THEN iffD2])

section \<open>Properties of permissions\<close>

text \<open>
  Whatever sequence of permission operations runs, a permission keeps its grant (owner,
  agent, action, resource, limit, window) and its status only moves from active to revoked or
  expired: once revoked or expired it stays so, and is not usable at any time.
\<close>

theorem permission_final_status:
  assumes "permissions_inv s" "permission_step\<^sup>*\<^sup>* s t" "p \<in> set (permissions s)"
  shows "\<exists>q. get_permission t (pm_id p) = Some q \<and>
    q = p\<lparr>pm_status := pm_status q, pm_updated_at := pm_updated_at q\<rparr> \<and>
    (pm_status p = PM_ACTIVE \<or> pm_status q = pm_status p \<and> \<not> permission_is_usable q now)"
proof -
  have ev: "permissions_evolve s t"
    using perm_rows.evolve_steps [of permission_step s t next_id permissions, OF assms(2,1)]
      permission_step_evolves by blast
  obtain q where "q \<in> set (permissions t)" "permission_evolves p q" "pm_id q = pm_id p"
    using perm_rows.evolve_row [OF ev assms(3)] by blast
  with rows_ok_find [OF perm_rows.evolve_ok [OF ev], of "pm_id p" q] show ?thesis
    by (auto simp: get_permission_def permission_evolves_def permission_is_usable_def)
qed

theorem permission_final_status_witness:
  "\<exists>q. get_permission (fst (revoke_owned_permission demo_db 1 20 (Some 7))) 20 = Some q \<and>
    q = (demo_permission 20 10 (Some 500))\<lparr>pm_status := pm_status q, pm_updated_at := pm_updated_at q\<rparr> \<and>
    (pm_status (demo_permission 20 10 (Some 500)) = PM_ACTIVE \<or>
     pm_status q = PM_ACTIVE \<and> \<not> permission_is_usable q 5)"
proof -
  have "permission_step\<^sup>*\<^sup>* demo_db (fst (revoke_owned_permission demo_db 1 20 (Some 7)))"
    by (intro r_into_rtranclp permission_step.revoke [OF prod.collapse [symmetric]])
  from permission_final_status [OF demo_permissions_inv this, of "demo_permission 20 10 (Some 500)" 5]
  show ?thesis by (simp add: demo_db_def demo_permission_def)
qed

text \<open>
  Revoking a permission that the caller's scope contains leaves exactly that permission
  not active (revoked, or expired when its time had already passed) and every other
  permission as it was; the permission returned is the stored one.
\<close>

theorem revoke_owned_permission_effect:
  assumes "permissions_inv s" "revoke_owned_permission s owner i org = (t, Some p)"
  shows "pm_id p = i \<and> pm_status p \<noteq> PM_ACTIVE \<and> get_permission t i = Some p \<and>
    pm_agent_id p \<in> scope_ids s owner org \<and>
    (\<forall>j. j \<noteq> i \<longrightarrow> get_permission t j = get_permission s j)"
proof -
  obtain s1 r1 where g: "get_owned_permission s owner i org = (s1, r1)" by force
  from g show ?thesis
  proof (cases rule: get_owned_permission_cases)
    case 1
    with assms(2) g show ?thesis by (simp add: revoke_owned_permission_def)
  next
    case (2 q)
    have "get_permission s i = Some q"
      using 2 rows_ok_find [OF assms(1), of i q] by (simp add: get_permission_def)
    then show ?thesis
      using 2 assms g find_set_status_same [OF assms(1) 2(3), of PM_REVOKED]
      by (auto simp: revoke_owned_permission_def find_set_status_other split: if_splits)
  next
    case (3 q)
    then show ?thesis
      using assms g find_set_status_same [OF assms(1) 3(2), of PM_EXPIRED]
      by (auto simp: revoke_owned_permission_def find_set_status_other)
  qed
qed

theorem revoke_owned_permission_effect_witness:
  "pm_status (the (snd (revoke_owned_permission demo_db 1 20 (Some 7)))) \<noteq> PM_ACTIVE"
proof -
  have "revoke_owned_permission demo_db 1 20 (Some 7) =
     (fst (revoke_owned_permission demo_db 1 20 (Some 7)), Some (the (snd (revoke_owned_permission demo_db 1 20 (Some 7)))))"
    by (simp add: revoke_owned_permission_def get_owned_permission_def scope_ids_def agent_in_scope_def demo_defs)
  from revoke_owned_permission_effect [OF demo_permissions_inv this] show ?thesis by simp
qed

end
