(* ===== verification/Delegation.thy ===== *)
theory Delegation
  imports Permissions
begin

text \<open>
  Agent-to-agent delegation (\<open>services/agent_delegation.py\<close>): creation with its narrowing
  checks, verification of a chain up to its root permission, cascading revocation, the chain
  view and the listing. Each \<open>raise HTTPException\<close> is a value of \<open>delegation_error\<close>; a failed
  verification is its reason (the metadata returned beside a reason is only shown to users
  and has none of the keys the callers read).
\<close>

section \<open>Errors and requests\<close>

datatype delegation_error =
    SelfDelegation | ParentAgentNotFound | ParentAgentInactive | ChildAgentNotFound
  | ChildAgentInactive | NoOrganization | CrossOrganization | ParentPermissionNotFound
  | PermissionNotOfParent | PermissionNotUsable | DelegationNotAllowed
  | ParentDelegationNotFound | ParentDelegationNotUsable | ParentNotRecipient
  | NoFurtherDelegation | PermissionMismatch | DepthExceeded | CycleDetected
  | ActionMismatch | ResourceMismatch | AmountUnbounded | AmountTooLarge | CurrencyMismatch
  | ExpiryTooLate | ApprovalDropped | DelegationNotFound

definition status_code :: "delegation_error \<Rightarrow> nat" where
  "status_code e =
     (if e \<in> {ParentAgentNotFound, ChildAgentNotFound, ParentPermissionNotFound,
              ParentDelegationNotFound, DelegationNotFound} then 404 else 400)"

record AgentDelegationCreate =
  dc_parent_agent_id :: uuid
  dc_child_agent_id :: uuid
  dc_parent_permission_id :: uuid
  dc_parent_delegation_id :: "uuid option"
  dc_action :: string
  dc_resource :: string
  dc_maximum_amount :: "rat option"
  dc_currency :: "string option"
  dc_requires_approval :: bool
  dc_allow_further_delegation :: bool
  dc_max_delegation_depth :: int
  dc_valid_from :: datetime
  dc_expires_at :: datetime

section \<open>Creation\<close>

text \<open>The agents and the organization of a new delegation.\<close>

definition check_agents :: "db \<Rightarrow> AgentDelegationCreate \<Rightarrow> delegation_error + Agent \<times> Agent \<times> uuid" where
  "check_agents s payload =
     (if dc_parent_agent_id payload = dc_child_agent_id payload then Inl SelfDelegation
      else case get_agent s (dc_parent_agent_id payload) of
        None \<Rightarrow> Inl ParentAgentNotFound
      | Some parent_agent \<Rightarrow>
          if ag_status parent_agent \<noteq> AG_ACTIVE then Inl ParentAgentInactive
          else case get_agent s (dc_child_agent_id payload) of
            None \<Rightarrow> Inl ChildAgentNotFound
          | Some child_agent \<Rightarrow>
              if ag_status child_agent \<noteq> AG_ACTIVE then Inl ChildAgentInactive
              else case (ag_organization_id parent_agent, ag_organization_id child_agent) of
                (Some po, Some co) \<Rightarrow>
                  if po \<noteq> co then Inl CrossOrganization else Inr (parent_agent, child_agent, po)
              | _ \<Rightarrow> Inl NoOrganization)"

definition check_permission ::
    "db \<Rightarrow> AgentDelegationCreate \<Rightarrow> Agent \<Rightarrow> datetime \<Rightarrow> delegation_error + Permission" where
  "check_permission s payload parent_agent checked_at =
     (case get_permission s (dc_parent_permission_id payload) of
        None \<Rightarrow> Inl ParentPermissionNotFound
      | Some p \<Rightarrow>
          if pm_agent_id p \<noteq> ag_id parent_agent \<and> dc_parent_delegation_id payload = None
          then Inl PermissionNotOfParent
          else if \<not> permission_is_usable p checked_at then Inl PermissionNotUsable
          else if \<not> pm_allow_delegation p then Inl DelegationNotAllowed
          else Inr p)"

text \<open>
  The narrowing checks, the same against a parent delegation and against the root permission:
  same action and resource, no larger amount, no later expiry, approval not dropped.
\<close>

definition check_narrowing ::
    "AgentDelegationCreate \<Rightarrow> string \<Rightarrow> string \<Rightarrow> rat option \<Rightarrow> string option \<Rightarrow> datetime \<Rightarrow> bool
       \<Rightarrow> delegation_error + unit" where
  "check_narrowing payload act res mx cur expires_at approval =
     (if dc_action payload \<noteq> act then Inl ActionMismatch
      else if dc_resource payload \<noteq> res then Inl ResourceMismatch
      else rbind
        (case mx of
           None \<Rightarrow> Inr ()
         | Some m \<Rightarrow>
             (case dc_maximum_amount payload of
                None \<Rightarrow> Inl AmountUnbounded
              | Some a \<Rightarrow>
                  if a > m then Inl AmountTooLarge
                  else if dc_currency payload \<noteq> cur then Inl CurrencyMismatch
                  else Inr ()))
        (\<lambda>_. if dc_expires_at payload > expires_at then Inl ExpiryTooLate
             else if approval \<and> \<not> dc_requires_approval payload then Inl ApprovalDropped
             else Inr ()))"

text \<open>The walk up the ancestors of a parent delegation that looks for a known agent.\<close>

definition next_delegation :: "db \<Rightarrow> AgentDelegation \<Rightarrow> AgentDelegation option" where
  "next_delegation s d =
     (case dg_parent_delegation_id d of None \<Rightarrow> None | Some i \<Rightarrow> get_delegation s i)"

definition pending_ids :: "(AgentDelegation \<Rightarrow> uuid) \<Rightarrow> db \<Rightarrow> AgentDelegation option \<Rightarrow> uuid set \<Rightarrow> uuid set" where
  "pending_ids f s d seen = f ` (set (delegations s) \<union> set_option d) - seen"

lemma pending_ids_decreases:
  assumes "f d \<notin> seen"
  shows "card (pending_ids f s (next_delegation s d) (insert (f d) seen)) < card (pending_ids f s (Some d) seen)"
proof (rule psubset_card_mono)
  show "finite (pending_ids f s (Some d) seen)" by (simp add: pending_ids_def)
  have "set_option (next_delegation s d) \<subseteq> set (delegations s)"
    by (auto simp: next_delegation_def get_delegation_def dest: find_SomeD split: option.splits)
  then show "pending_ids f s (next_delegation s d) (insert (f d) seen) \<subset> pending_ids f s (Some d) seen"
    using assms by (auto simp: pending_ids_def)
qed

function ancestor_cycle :: "db \<Rightarrow> AgentDelegation option \<Rightarrow> uuid set \<Rightarrow> bool" where
  "ancestor_cycle s None seen = False"
| "ancestor_cycle s (Some a) seen =
     (if dg_parent_agent_id a \<in> seen then True
      else ancestor_cycle s (next_delegation s a) (insert (dg_parent_agent_id a) seen))"
  by pat_completeness auto
termination
  by (relation "measure (\<lambda>(s, d, seen). card (pending_ids dg_parent_agent_id s d seen))")
     (auto intro: pending_ids_decreases)

definition check_parent_delegation ::
    "db \<Rightarrow> AgentDelegationCreate \<Rightarrow> Agent \<Rightarrow> Agent \<Rightarrow> Permission \<Rightarrow> datetime \<Rightarrow> uuid
       \<Rightarrow> delegation_error + int \<times> int" where
  "check_parent_delegation s payload parent_agent child_agent parent_permission checked_at parent_id =
     (case get_delegation s parent_id of
        None \<Rightarrow> Inl ParentDelegationNotFound
      | Some pd \<Rightarrow>
          if dg_status pd \<noteq> DG_ACTIVE \<or> \<not> delegation_is_usable pd checked_at
          then Inl ParentDelegationNotUsable
          else if dg_child_agent_id pd \<noteq> ag_id parent_agent then Inl ParentNotRecipient
          else if \<not> dg_allow_further_delegation pd then Inl NoFurtherDelegation
          else if dg_parent_permission_id pd \<noteq> pm_id parent_permission then Inl PermissionMismatch
          else
            let current_depth = dg_current_depth pd + 1;
                effective_max_depth = min (dg_max_delegation_depth pd) (dc_max_delegation_depth payload) in
            if current_depth > effective_max_depth then Inl DepthExceeded
            else if ancestor_cycle s (Some pd) {ag_id child_agent, ag_id parent_agent}
            then Inl CycleDetected
            else rbind (check_narrowing payload (dg_action pd) (dg_resource pd) (dg_maximum_amount pd)
                    (dg_currency pd) (dg_expires_at pd) (dg_requires_approval pd))
                   (\<lambda>_. Inr (current_depth, effective_max_depth)))"

definition check_root_delegation :: "AgentDelegationCreate \<Rightarrow> Permission \<Rightarrow> delegation_error + int \<times> int" where
  "check_root_delegation payload p =
     rbind (check_narrowing payload (pm_action p) (pm_resource p) (pm_maximum_amount p)
              (pm_currency p) (pm_expires_at p) (pm_requires_approval p))
       (\<lambda>_. Inr (1, dc_max_delegation_depth payload))"

definition create_delegation :: "db \<Rightarrow> AgentDelegationCreate \<Rightarrow> delegation_error + db \<times> AgentDelegation" where
  "create_delegation s payload =
     rbind (check_agents s payload) (\<lambda>(parent_agent, child_agent, organization_id).
     rbind (check_permission s payload parent_agent (clock s)) (\<lambda>parent_permission.
     rbind (case dc_parent_delegation_id payload of
              Some parent_id \<Rightarrow>
                check_parent_delegation s payload parent_agent child_agent parent_permission (clock s) parent_id
            | None \<Rightarrow> check_root_delegation payload parent_permission)
       (\<lambda>(current_depth, effective_max_depth).
          let (token, s1) = fresh s; (i, s2) = fresh s1;
              d = \<lparr>dg_id = i, dg_delegation_id = generate_delegation_id token,
                   dg_parent_agent_id = dc_parent_agent_id payload,
                   dg_child_agent_id = dc_child_agent_id payload,
                   dg_parent_permission_id = dc_parent_permission_id payload,
                   dg_parent_delegation_id = dc_parent_delegation_id payload,
                   dg_organization_id = organization_id,
                   dg_action = dc_action payload, dg_resource = dc_resource payload,
                   dg_maximum_amount = dc_maximum_amount payload, dg_currency = dc_currency payload,
                   dg_requires_approval = dc_requires_approval payload,
                   dg_allow_further_delegation = dc_allow_further_delegation payload,
                   dg_current_depth = current_depth, dg_max_delegation_depth = effective_max_depth,
                   dg_valid_from = dc_valid_from payload, dg_expires_at = dc_expires_at payload,
                   dg_status = DG_ACTIVE, dg_revoked_at = None, dg_revocation_reason = None,
                   dg_revoked_by_agent_id = None, dg_revoked_by_user_id = None,
                   dg_created_at = clock s\<rparr>
          in Inr (s2\<lparr>delegations := delegations s2 @ [d]\<rparr>, d))))"

section \<open>Verification of a chain\<close>

text \<open>The restrictions collected on the way up, and the delegations visited, last one first.\<close>

record chain_acc =
  ca_requires_approval :: bool
  ca_max_amount :: "rat option"
  ca_currency :: "string option"
  ca_expires_at :: datetime
  ca_nodes :: "AgentDelegation list"

definition narrow_amount :: "rat option \<Rightarrow> string option \<Rightarrow> chain_acc \<Rightarrow> chain_acc" where
  "narrow_amount mx cur acc =
     (case mx of
        None \<Rightarrow> acc
      | Some m \<Rightarrow>
          if (case ca_max_amount acc of None \<Rightarrow> True | Some e \<Rightarrow> m < e)
          then acc\<lparr>ca_max_amount := Some m, ca_currency := cur\<rparr> else acc)"

definition accumulate :: "bool \<Rightarrow> datetime \<Rightarrow> rat option \<Rightarrow> string option \<Rightarrow> chain_acc \<Rightarrow> chain_acc" where
  "accumulate approval expires_at mx cur acc =
     narrow_amount mx cur
       (acc\<lparr>ca_requires_approval := ca_requires_approval acc \<or> approval,
            ca_expires_at := min (ca_expires_at acc) expires_at\<rparr>)"

text \<open>The checks of one delegation of the chain, in the order of the code.\<close>

definition link_error :: "db \<Rightarrow> datetime \<Rightarrow> string \<Rightarrow> string \<Rightarrow> uuid set \<Rightarrow> AgentDelegation \<Rightarrow> string option" where
  "link_error s checked_at act res seen d =
     (if dg_status d = DG_REVOKED then Some ''DELEGATION_REVOKED''
      else if dg_status d = DG_SUSPENDED then Some ''DELEGATION_SUSPENDED''
      else if dg_status d = DG_EXPIRED \<or> checked_at \<ge> dg_expires_at d then Some ''DELEGATION_EXPIRED''
      else if checked_at < dg_valid_from d then Some ''DELEGATION_NOT_YET_VALID''
      else if \<not> agent_active s (dg_child_agent_id d) then Some ''CHILD_AGENT_INACTIVE''
      else if \<not> agent_active s (dg_parent_agent_id d) then Some ''PARENT_AGENT_INACTIVE''
      else if dg_child_agent_id d \<in> seen \<or> dg_parent_agent_id d \<in> seen
      then Some ''DELEGATION_CYCLE_DETECTED''
      else if dg_action d \<noteq> act then Some ''DELEGATION_ACTION_MISMATCH''
      else if dg_resource d \<noteq> res then Some ''DELEGATION_RESOURCE_MISMATCH''
      else None)"

lemma link_error_seen: "link_error s t act res seen d = None \<Longrightarrow> dg_child_agent_id d \<notin> seen"
  by (auto simp: link_error_def split: if_splits)

function walk_chain ::
    "db \<Rightarrow> datetime \<Rightarrow> string \<Rightarrow> string \<Rightarrow> AgentDelegation option \<Rightarrow> uuid set \<Rightarrow> chain_acc \<Rightarrow> string + chain_acc"
where
  "walk_chain s checked_at act res None seen acc = Inr acc"
| "walk_chain s checked_at act res (Some d) seen acc =
     (case link_error s checked_at act res seen d of
        Some reason \<Rightarrow> Inl reason
      | None \<Rightarrow>
          walk_chain s checked_at act res (next_delegation s d) (insert (dg_child_agent_id d) seen)
            (accumulate (dg_requires_approval d) (dg_expires_at d) (dg_maximum_amount d) (dg_currency d)
               (acc\<lparr>ca_nodes := d # ca_nodes acc\<rparr>)))"
  by pat_completeness auto
termination
  by (relation "measure (\<lambda>(s, t, a, r, d, seen, acc). card (pending_ids dg_child_agent_id s d seen))")
     (auto intro: pending_ids_decreases dest: link_error_seen)

definition root_error :: "db \<Rightarrow> datetime \<Rightarrow> string \<Rightarrow> string \<Rightarrow> Permission \<Rightarrow> string option" where
  "root_error s checked_at act res p =
     (if pm_status p = PM_REVOKED then Some ''PARENT_PERMISSION_REVOKED''
      else if pm_status p = PM_EXPIRED \<or> checked_at \<ge> pm_expires_at p then Some ''PARENT_PERMISSION_EXPIRED''
      else if pm_status p \<noteq> PM_ACTIVE \<or> \<not> permission_is_usable p checked_at
      then Some ''PARENT_PERMISSION_INACTIVE''
      else if \<not> pm_allow_delegation p then Some ''DELEGATION_NOT_ALLOWED_BY_PARENT_PERMISSION''
      else if \<not> agent_active s (pm_agent_id p) then Some ''PARENT_AGENT_INACTIVE''
      else if pm_action p \<noteq> act then Some ''DELEGATION_ACTION_MISMATCH''
      else if pm_resource p \<noteq> res then Some ''DELEGATION_RESOURCE_MISMATCH''
      else None)"

definition amount_error :: "rat option \<Rightarrow> string option \<Rightarrow> chain_acc \<Rightarrow> string option" where
  "amount_error amt cur acc =
     (case amt of
        None \<Rightarrow> None
      | Some a \<Rightarrow>
          (case ca_max_amount acc of
             None \<Rightarrow> Some ''AMOUNT_NOT_PERMITTED''
           | Some m \<Rightarrow>
               if cur \<noteq> ca_currency acc then Some ''CURRENCY_MISMATCH''
               else if a > m then Some ''AMOUNT_EXCEEDS_DELEGATION_LIMIT''
               else None))"

record chain_meta =
  cm_delegation :: AgentDelegation
  cm_root_permission :: Permission
  cm_parent_agent_id :: uuid
  cm_root_agent_id :: uuid
  cm_effective :: chain_acc
  cm_depth :: nat

text \<open>The second half: the root permission and the amount.\<close>

definition verify_root ::
    "db \<Rightarrow> datetime \<Rightarrow> string \<Rightarrow> string \<Rightarrow> rat option \<Rightarrow> string option \<Rightarrow> AgentDelegation \<Rightarrow> chain_acc
       \<Rightarrow> string + chain_meta" where
  "verify_root s checked_at act res amt cur d acc =
     (case get_permission s (dg_parent_permission_id (hd (ca_nodes acc))) of
        None \<Rightarrow> Inl ''PARENT_PERMISSION_NOT_FOUND''
      | Some p \<Rightarrow>
          (case root_error s checked_at act res p of
             Some reason \<Rightarrow> Inl reason
           | None \<Rightarrow>
               let eff = accumulate (pm_requires_approval p) (pm_expires_at p)
                           (pm_maximum_amount p) (pm_currency p) acc in
               (case amount_error amt cur eff of
                  Some reason \<Rightarrow> Inl reason
                | None \<Rightarrow> Inr \<lparr>cm_delegation = d, cm_root_permission = p,
                               cm_parent_agent_id = dg_parent_agent_id d,
                               cm_root_agent_id = pm_agent_id p,
                               cm_effective = eff, cm_depth = length (ca_nodes acc)\<rparr>)))"

definition verify_delegation_chain ::
    "db \<Rightarrow> string \<Rightarrow> string \<Rightarrow> string \<Rightarrow> rat option \<Rightarrow> string option \<Rightarrow> datetime option
       \<Rightarrow> uuid option \<Rightarrow> uuid option \<Rightarrow> string + chain_meta" where
  "verify_delegation_chain s did act res amt cur at_time child_agent_id organization_id =
     (let checked_at = (case at_time of Some t \<Rightarrow> t | None \<Rightarrow> clock s) in
      case find (\<lambda>d. dg_delegation_id d = did) (delegations s) of
        None \<Rightarrow> Inl ''DELEGATION_NOT_FOUND''
      | Some d \<Rightarrow>
          if organization_id \<noteq> None \<and> organization_id \<noteq> Some (dg_organization_id d)
          then Inl ''DELEGATION_CROSS_ORG_FORBIDDEN''
          else if child_agent_id \<noteq> None \<and> child_agent_id \<noteq> Some (dg_child_agent_id d)
          then Inl ''DELEGATION_CHILD_AGENT_MISMATCH''
          else rbind (walk_chain s checked_at act res (Some d) {}
                 \<lparr>ca_requires_approval = False, ca_max_amount = None, ca_currency = None,
                  ca_expires_at = dg_expires_at d, ca_nodes = []\<rparr>)
            (verify_root s checked_at act res amt cur d))"

section \<open>Revocation\<close>

definition revoke_row :: "datetime \<Rightarrow> string \<Rightarrow> uuid option \<Rightarrow> uuid option \<Rightarrow> AgentDelegation \<Rightarrow> AgentDelegation" where
  "revoke_row now reason by_user by_agent d =
     d\<lparr>dg_status := DG_REVOKED, dg_revoked_at := Some now, dg_revocation_reason := Some reason,
       dg_revoked_by_user_id := by_user, dg_revoked_by_agent_id := by_agent\<rparr>"

definition active_child :: "uuid \<Rightarrow> AgentDelegation \<Rightarrow> bool" where
  "active_child parent_id d = (dg_parent_delegation_id d = Some parent_id \<and> dg_status d = DG_ACTIVE)"

definition active_count :: "AgentDelegation list \<Rightarrow> nat" where
  "active_count ds = length (filter (\<lambda>d. dg_status d = DG_ACTIVE) ds)"

lemma active_count_revoked:
  "active_count (update_where (active_child i) (revoke_row now reason u a) ds) + length (filter (active_child i) ds)
     = active_count ds"
  by (induction ds) (auto simp: active_count_def active_child_def revoke_row_def)

text \<open>The breadth-first cascade over the active children of the delegations in the queue.\<close>

function cascade ::
    "datetime \<Rightarrow> string \<Rightarrow> uuid option \<Rightarrow> uuid option \<Rightarrow> uuid list \<Rightarrow> AgentDelegation list \<Rightarrow> AgentDelegation list"
where
  "cascade now reason by_user by_agent [] ds = ds"
| "cascade now reason by_user by_agent (parent_id # queue) ds =
     cascade now reason by_user by_agent (queue @ map dg_id (filter (active_child parent_id) ds))
       (update_where (active_child parent_id) (revoke_row now reason by_user by_agent) ds)"
  by pat_completeness auto
termination
proof (relation "measure (\<lambda>(n, r, u, a, q, ds). length q + active_count ds)", goal_cases)
  case (2 now reason u a i queue ds)
  then show ?case using active_count_revoked [of i now reason u a ds] by simp
qed simp

definition revoke_delegation ::
    "db \<Rightarrow> string \<Rightarrow> uuid option \<Rightarrow> uuid option \<Rightarrow> string option \<Rightarrow> bool
       \<Rightarrow> delegation_error + db \<times> AgentDelegation" where
  "revoke_delegation s did by_user by_agent reason do_cascade =
     (case find (\<lambda>d. dg_delegation_id d = did) (delegations s) of
        None \<Rightarrow> Inl DelegationNotFound
      | Some d \<Rightarrow>
          let now = clock s;
              txt_of = (\<lambda>dflt. case reason of Some r \<Rightarrow> if r = [] then dflt else r | None \<Rightarrow> dflt);
              d' = revoke_row now (txt_of ''Revoked by user/agent'') by_user by_agent d;
              ds1 = update_where (\<lambda>x. dg_id x = dg_id d) (\<lambda>_. d') (delegations s);
              child_reason = ''Cascade revocation from parent delegation: '' @ txt_of ''Parent revoked'';
              ds2 = (if do_cascade
                     then cascade now child_reason by_user by_agent [dg_id d] ds1 else ds1)
          in Inr (s\<lparr>delegations := ds2\<rparr>, d'))"

section \<open>Chain view and listing\<close>

record DelegationChainNode =
  cn_depth :: int
  cn_delegation_id :: "string option"
  cn_parent_agent_id :: "uuid option"
  cn_parent_agent_name :: "string option"
  cn_child_agent_id :: "uuid option"
  cn_child_agent_name :: "string option"
  cn_action :: string
  cn_resource :: string
  cn_maximum_amount :: "rat option"
  cn_currency :: "string option"
  cn_requires_approval :: bool
  cn_status :: "DelegationStatus + PermissionStatus"
  cn_valid_from :: datetime
  cn_expires_at :: datetime

definition delegation_node :: "db \<Rightarrow> AgentDelegation \<Rightarrow> DelegationChainNode" where
  "delegation_node s d =
     \<lparr>cn_depth = dg_current_depth d, cn_delegation_id = Some (dg_delegation_id d),
      cn_parent_agent_id = Some (dg_parent_agent_id d),
      cn_parent_agent_name = map_option ag_name (get_agent s (dg_parent_agent_id d)),
      cn_child_agent_id = Some (dg_child_agent_id d),
      cn_child_agent_name = map_option ag_name (get_agent s (dg_child_agent_id d)),
      cn_action = dg_action d, cn_resource = dg_resource d, cn_maximum_amount = dg_maximum_amount d,
      cn_currency = dg_currency d, cn_requires_approval = dg_requires_approval d,
      cn_status = Inl (dg_status d), cn_valid_from = dg_valid_from d, cn_expires_at = dg_expires_at d\<rparr>"

definition permission_node :: "db \<Rightarrow> Permission \<Rightarrow> DelegationChainNode" where
  "permission_node s p =
     \<lparr>cn_depth = 0, cn_delegation_id = None, cn_parent_agent_id = None,
      cn_parent_agent_name = Some ''Root User Permission'', cn_child_agent_id = Some (pm_agent_id p),
      cn_child_agent_name = map_option ag_name (get_agent s (pm_agent_id p)),
      cn_action = pm_action p, cn_resource = pm_resource p, cn_maximum_amount = pm_maximum_amount p,
      cn_currency = pm_currency p, cn_requires_approval = pm_requires_approval p,
      cn_status = Inr (pm_status p), cn_valid_from = pm_valid_from p, cn_expires_at = pm_expires_at p\<rparr>"

text \<open>
  The loop that collects the nodes has no guard of its own: on a cyclic table it would not
  end, which is the value None.
\<close>

partial_function (option) collect_chain :: "db \<Rightarrow> AgentDelegation \<Rightarrow> AgentDelegation list option" where
  [code]: "collect_chain s d =
     (case next_delegation s d of
        None \<Rightarrow> Some [d]
      | Some d' \<Rightarrow> Option.bind (collect_chain s d') (\<lambda>ds. Some (d # ds)))"

record DelegationChainResponse =
  cv_delegation_id :: string
  cv_root_permission_id :: uuid
  cv_is_valid :: bool
  cv_validation_error :: "string option"
  cv_effective_action :: string
  cv_effective_resource :: string
  cv_effective_maximum_amount :: "rat option"
  cv_effective_currency :: "string option"
  cv_effective_requires_approval :: bool
  cv_effective_expires_at :: datetime
  cv_chain :: "DelegationChainNode list"

definition get_delegation_chain :: "db \<Rightarrow> string \<Rightarrow> (delegation_error + DelegationChainResponse) option" where
  "get_delegation_chain s did =
     (case find (\<lambda>d. dg_delegation_id d = did) (delegations s) of
        None \<Rightarrow> Some (Inl DelegationNotFound)
      | Some d \<Rightarrow>
          let v = verify_delegation_chain s did (dg_action d) (dg_resource d) (dg_maximum_amount d)
                    (dg_currency d) None None None in
          Option.bind (collect_chain s d) (\<lambda>ds.
            let root = (case get_permission s (dg_parent_permission_id d) of
                          Some p \<Rightarrow> [permission_node s p] | None \<Rightarrow> []);
                eff = (case v of
                         Inr m \<Rightarrow> (ca_max_amount (cm_effective m), ca_currency (cm_effective m),
                                    ca_requires_approval (cm_effective m), ca_expires_at (cm_effective m))
                       | Inl _ \<Rightarrow> (dg_maximum_amount d, dg_currency d, dg_requires_approval d, dg_expires_at d))
            in Some (Inr
              \<lparr>cv_delegation_id = dg_delegation_id d, cv_root_permission_id = dg_parent_permission_id d,
               cv_is_valid = \<not> raises v,
               cv_validation_error = (case v of Inl reason \<Rightarrow> Some reason | Inr _ \<Rightarrow> None),
               cv_effective_action = dg_action d, cv_effective_resource = dg_resource d,
               cv_effective_maximum_amount = fst eff, cv_effective_currency = fst (snd eff),
               cv_effective_requires_approval = fst (snd (snd eff)),
               cv_effective_expires_at = snd (snd (snd eff)),
               cv_chain = rev (map (delegation_node s) ds @ root)\<rparr>)))"

definition list_delegations :: "db \<Rightarrow> uuid \<Rightarrow> DelegationStatus option \<Rightarrow> uuid option \<Rightarrow> AgentDelegation list" where
  "list_delegations s organization_id status_filter agent_id =
     sort_key (\<lambda>d. - dg_created_at d)
       (filter (\<lambda>d. dg_organization_id d = organization_id \<and>
                    (case status_filter of None \<Rightarrow> True | Some st \<Rightarrow> dg_status d = st) \<and>
                    (case agent_id of None \<Rightarrow> True
                     | Some a \<Rightarrow> dg_parent_agent_id d = a \<or> dg_child_agent_id d = a))
          (delegations s))"

end
