(* ===== verification/Notifications.thy ===== *)
theory Notifications
  imports Prelude Models
begin

text \<open>
  Notifications (\<open>services/notification_service.py\<close>) and the security event that a security
  alert records (\<open>services/security_events.py\<close>: the stored row; request ids of the logging
  context, metrics and the detection and export hooks are left out).
\<close>

section \<open>Security events\<close>

definition infer_event_category :: "string \<Rightarrow> string" where
  "infer_event_category event_type =
     (let t = py_lower event_type; has = py_contains t in
      if has ''replay'' then ''REPLAY''
      else if has ''cred'' then ''CREDENTIAL''
      else if has ''trust'' then ''TRUST''
      else if has ''delegat'' then ''DELEGATION''
      else if has ''gateway'' then ''GATEWAY''
      else if has ''key'' \<or> has ''signing'' \<or> has ''signature'' then ''AUTHORIZATION''
      else if has ''permission'' \<or> has ''authorization'' then ''AUTHORIZATION''
      else if has ''mfa'' \<or> has ''login'' \<or> has ''session'' \<or> has ''auth'' then ''AUTHENTICATION''
      else if has ''approval'' then ''APPROVAL''
      else if has ''admin'' \<or> has ''role'' \<or> has ''policy'' then ''ADMIN''
      else if has ''agent'' then ''AGENT''
      else if has ''supply'' \<or> has ''sbom'' then ''SUPPLY_CHAIN''
      else ''SYSTEM'')"

definition record_security_event ::
    "db \<Rightarrow> uuid option \<Rightarrow> string \<Rightarrow> uuid option \<Rightarrow> uuid option \<Rightarrow> string option \<Rightarrow> string \<Rightarrow> db" where
  "record_security_event s actor event_type organization_id target description severity =
     s\<lparr>security_events := security_events s @
        [\<lparr>se_organization_id = organization_id, se_actor_user_id = actor, se_target_user_id = target,
          se_event_type = event_type, se_category = Some (infer_event_category event_type),
          se_severity = (if severity = [] then ''INFO'' else py_upper severity),
          se_description = description, se_details = []\<rparr>]\<rparr>"

section \<open>Preferences and channels\<close>

definition APPROVAL_TYPES :: "NotificationType set" where
  "APPROVAL_TYPES = {AUTHORIZATION_PENDING, AUTHORIZATION_APPROVED, AUTHORIZATION_REJECTED,
     HIGH_RISK_APPROVAL_REQUIRED}"

definition SECURITY_TYPES :: "NotificationType set" where
  "SECURITY_TYPES = {SECURITY_ALERT, API_KEY_REVOKED, AGENT_SUSPENDED, AGENT_REVOKED}"

record NotificationChannels =
  ch_push :: bool
  ch_email :: bool

definition get_preferences :: "db \<Rightarrow> uuid \<Rightarrow> db \<times> NotificationPreference" where
  "get_preferences s user_id =
     (case find (\<lambda>p. np_user_id p = user_id) (preferences s) of
        Some p \<Rightarrow> (s, p)
      | None \<Rightarrow>
          let (i, s1) = fresh s;
              p = \<lparr>np_id = i, np_user_id = user_id, np_push_enabled = True, np_email_enabled = True,
                   np_in_app_enabled = True, np_security_email_enabled = True,
                   np_approval_push_enabled = True, np_approval_email_enabled = False,
                   np_permission_expiry_enabled = True, np_general_activity_enabled = True\<rparr>
          in (s1\<lparr>preferences := preferences s1 @ [p]\<rparr>, p))"

text \<open>An update names the settings to change; None leaves a setting as it is.\<close>

record NotificationPreferenceUpdate =
  pu_push_enabled :: "bool option"
  pu_email_enabled :: "bool option"
  pu_in_app_enabled :: "bool option"
  pu_security_email_enabled :: "bool option"
  pu_approval_push_enabled :: "bool option"
  pu_approval_email_enabled :: "bool option"
  pu_permission_expiry_enabled :: "bool option"
  pu_general_activity_enabled :: "bool option"

definition given :: "'a option \<Rightarrow> 'a \<Rightarrow> 'a" where
  "given u old = (case u of Some v \<Rightarrow> v | None \<Rightarrow> old)"

definition apply_preferences :: "NotificationPreferenceUpdate \<Rightarrow> NotificationPreference \<Rightarrow> NotificationPreference" where
  "apply_preferences u p =
     p\<lparr>np_push_enabled := given (pu_push_enabled u) (np_push_enabled p),
       np_email_enabled := given (pu_email_enabled u) (np_email_enabled p),
       np_in_app_enabled := given (pu_in_app_enabled u) (np_in_app_enabled p),
       np_security_email_enabled := given (pu_security_email_enabled u) (np_security_email_enabled p),
       np_approval_push_enabled := given (pu_approval_push_enabled u) (np_approval_push_enabled p),
       np_approval_email_enabled := given (pu_approval_email_enabled u) (np_approval_email_enabled p),
       np_permission_expiry_enabled := given (pu_permission_expiry_enabled u) (np_permission_expiry_enabled p),
       np_general_activity_enabled := given (pu_general_activity_enabled u) (np_general_activity_enabled p)\<rparr>"

definition update_preferences :: "db \<Rightarrow> uuid \<Rightarrow> NotificationPreferenceUpdate \<Rightarrow> db \<times> NotificationPreference" where
  "update_preferences s user_id payload =
     (let (s1, p) = get_preferences s user_id; p' = apply_preferences payload p in
      (s1\<lparr>preferences := update_where (\<lambda>x. np_id x = np_id p) (\<lambda>_. p') (preferences s1)\<rparr>, p'))"

definition channels :: "NotificationPreference \<Rightarrow> NotificationType \<Rightarrow> NotificationChannels" where
  "channels preference ty =
     (let approval = ty \<in> APPROVAL_TYPES; security = ty \<in> SECURITY_TYPES in
      \<lparr>ch_push = (np_push_enabled preference \<and> (\<not> approval \<or> np_approval_push_enabled preference)),
       ch_email = (np_email_enabled preference \<and>
         (approval \<and> np_approval_email_enabled preference
          \<or> security \<and> np_security_email_enabled preference
          \<or> ty = TEAM_INVITATION))\<rparr>)"

section \<open>Creation\<close>

record notification_request =
  nr_user_id :: uuid
  nr_type :: NotificationType
  nr_title :: string
  nr_message :: string
  nr_priority :: NotificationPriority
  nr_organization_id :: "uuid option"
  nr_related_request_id :: "uuid option"
  nr_related_agent_id :: "uuid option"
  nr_related_permission_id :: "uuid option"
  nr_metadata :: "(string \<times> pyval) list option"
  nr_deduplication_key :: "string option"

definition add_delivery :: "uuid \<Rightarrow> DeliveryChannel \<Rightarrow> DeliveryStatus \<Rightarrow> nat \<Rightarrow> db \<Rightarrow> db" where
  "add_delivery notification_id ch st attempts s =
     (let (i, s1) = fresh s in
      s1\<lparr>deliveries := deliveries s1 @
         [\<lparr>nd_id = i, nd_notification_id = notification_id, nd_channel = ch, nd_status = st,
           nd_attempt_count = attempts\<rparr>]\<rparr>)"

definition existing_notification :: "db \<Rightarrow> string option \<Rightarrow> Notification option" where
  "existing_notification s key =
     (case key of
        None \<Rightarrow> None
      | Some k \<Rightarrow> if k = [] then None else find (\<lambda>n. nt_deduplication_key n = Some k) (notifications s))"

definition create_notification :: "db \<Rightarrow> notification_request \<Rightarrow> db \<times> Notification" where
  "create_notification s r =
     (case existing_notification s (nr_deduplication_key r) of
        Some n \<Rightarrow> (s, n)
      | None \<Rightarrow>
          let (s1, preference) = get_preferences s (nr_user_id r);
              (i, s2) = fresh s1;
              n = \<lparr>nt_id = i, nt_user_id = nr_user_id r, nt_organization_id = nr_organization_id r,
                   nt_type = nr_type r, nt_title = take 160 (nr_title r), nt_message = take 500 (nr_message r),
                   nt_status = NS_UNREAD, nt_priority = nr_priority r,
                   nt_related_request_id = nr_related_request_id r,
                   nt_related_agent_id = nr_related_agent_id r,
                   nt_related_permission_id = nr_related_permission_id r,
                   nt_metadata = nr_metadata r, nt_deduplication_key = nr_deduplication_key r,
                   nt_created_at = clock s, nt_read_at = None\<rparr>;
              s3 = s2\<lparr>notifications := notifications s2 @ [n]\<rparr>;
              s4 = (if nr_type r = SECURITY_ALERT
                    then record_security_event s3 (Some (nr_user_id r)) ''notification.security_alert''
                           (nr_organization_id r) (Some (nr_user_id r))
                           (Some (''Notification: '' @ uuid_str i)) ''info''
                    else s3);
              s5 = (if np_in_app_enabled preference then add_delivery i IN_APP DS_DELIVERED 1 s4 else s4);
              ch = channels preference (nr_type r);
              s6 = (if ch_push ch then add_delivery i PUSH DS_PENDING 0 s5 else s5);
              s7 = (if ch_email ch then add_delivery i EMAIL DS_PENDING 0 s6 else s6)
          in (s7, n))"

section \<open>Reading and archiving\<close>

record NotificationFilters =
  nf_unread :: "bool option"
  nf_type :: "NotificationType option"
  nf_priority :: "NotificationPriority option"
  nf_page :: nat
  nf_page_size :: nat

definition in_app :: "db \<Rightarrow> uuid \<Rightarrow> bool" where
  "in_app s i = list_ex (\<lambda>d. nd_channel d = IN_APP \<and> nd_notification_id d = i) (deliveries s)"

definition notification_matches :: "db \<Rightarrow> uuid \<Rightarrow> NotificationFilters \<Rightarrow> Notification \<Rightarrow> bool" where
  "notification_matches s user_id f n =
     (nt_user_id n = user_id \<and> in_app s (nt_id n) \<and> nt_status n \<noteq> NS_ARCHIVED \<and>
      (case nf_unread f of None \<Rightarrow> True | Some u \<Rightarrow> nt_status n = (if u then NS_UNREAD else NS_READ)) \<and>
      (case nf_type f of None \<Rightarrow> True | Some t \<Rightarrow> nt_type n = t) \<and>
      (case nf_priority f of None \<Rightarrow> True | Some p \<Rightarrow> nt_priority n = p))"

text \<open>One page of a query and the number of pages.\<close>

definition page_of :: "nat \<Rightarrow> nat \<Rightarrow> 'a list \<Rightarrow> 'a list" where
  "page_of page page_size xs = take page_size (drop ((page - 1) * page_size) xs)"

definition page_count :: "nat \<Rightarrow> nat \<Rightarrow> nat" where
  "page_count n_rows page_size = (if n_rows = 0 then 0 else (n_rows + page_size - 1) div page_size)"

definition list_notifications :: "db \<Rightarrow> uuid \<Rightarrow> NotificationFilters \<Rightarrow> Notification list \<times> nat \<times> nat" where
  "list_notifications s user_id f =
     (let rows = filter (notification_matches s user_id f) (notifications s); n_rows = length rows in
      (page_of (nf_page f) (nf_page_size f)
         (sort_key (\<lambda>n. (- nt_created_at n, - int (nt_id n))) rows),
       n_rows, page_count n_rows (nf_page_size f)))"

definition unread_count :: "db \<Rightarrow> uuid \<Rightarrow> nat" where
  "unread_count s user_id =
     length (filter (\<lambda>n. nt_user_id n = user_id \<and> nt_status n = NS_UNREAD \<and> in_app s (nt_id n)) (notifications s))"

definition update_notification :: "uuid \<Rightarrow> uuid \<Rightarrow> (Notification \<Rightarrow> Notification) \<Rightarrow> db \<Rightarrow> db \<times> Notification option" where
  "update_notification user_id notification_id f s =
     (case find (\<lambda>n. nt_id n = notification_id \<and> nt_user_id n = user_id) (notifications s) of
        None \<Rightarrow> (s, None)
      | Some n \<Rightarrow>
          (s\<lparr>notifications := update_where (\<lambda>x. nt_id x = notification_id) (\<lambda>_. f n) (notifications s)\<rparr>,
           Some (f n)))"

definition mark_read :: "db \<Rightarrow> uuid \<Rightarrow> uuid \<Rightarrow> db \<times> Notification option" where
  "mark_read s user_id notification_id =
     update_notification user_id notification_id
       (\<lambda>n. if nt_status n = NS_UNREAD then n\<lparr>nt_status := NS_READ, nt_read_at := Some (clock s)\<rparr> else n) s"

definition mark_all_read :: "db \<Rightarrow> uuid \<Rightarrow> db \<times> nat" where
  "mark_all_read s user_id =
     (let hit = (\<lambda>n. nt_user_id n = user_id \<and> nt_status n = NS_UNREAD) in
      (s\<lparr>notifications := update_where hit
          (\<lambda>n. n\<lparr>nt_status := NS_READ, nt_read_at := Some (clock s)\<rparr>) (notifications s)\<rparr>,
       length (filter hit (notifications s))))"

definition archive_notification :: "db \<Rightarrow> uuid \<Rightarrow> uuid \<Rightarrow> db \<times> Notification option" where
  "archive_notification s user_id notification_id =
     update_notification user_id notification_id
       (\<lambda>n. n\<lparr>nt_status := NS_ARCHIVED,
             nt_read_at := (case nt_read_at n of None \<Rightarrow> Some (clock s) | Some t \<Rightarrow> Some t)\<rparr>) s"

section \<open>Devices\<close>

datatype device_error = DeviceTokenConflict | DeviceLimitReached

record DeviceCreate =
  de_push_token :: string
  de_platform :: DevicePlatform
  de_device_name :: "string option"

fun DevicePlatform_value :: "DevicePlatform \<Rightarrow> string" where
  "DevicePlatform_value ANDROID = ''android''"
| "DevicePlatform_value IOS = ''ios''"

text \<open>
  The alert of a registration: its deduplication key holds the id of the device, which a new
  device does not have before it is flushed.
\<close>

definition device_alert :: "uuid \<Rightarrow> DeviceCreate \<Rightarrow> string \<Rightarrow> notification_request" where
  "device_alert user_id payload device_id =
     \<lparr>nr_user_id = user_id, nr_type = SECURITY_ALERT, nr_title = ''New Device Registered'',
      nr_message = ''A new '' @ DevicePlatform_value (de_platform payload)
        @ '' device was registered for push notifications.'',
      nr_priority = NP_HIGH, nr_organization_id = None, nr_related_request_id = None,
      nr_related_agent_id = None, nr_related_permission_id = None, nr_metadata = None,
      nr_deduplication_key = Some (''device-registered:'' @ device_id)\<rparr>"

definition register_device :: "db \<Rightarrow> uuid \<Rightarrow> DeviceCreate \<Rightarrow> device_error + db \<times> Device" where
  "register_device s user_id payload =
     (case find (\<lambda>d. dv_push_token d = de_push_token payload) (devices s) of
        None \<Rightarrow>
          if length (filter (\<lambda>d. dv_user_id d = user_id \<and> dv_status d = DV_ACTIVE) (devices s)) \<ge> 10
          then Inl DeviceLimitReached
          else
            let (i, s1) = fresh s;
                d = \<lparr>dv_id = i, dv_user_id = user_id, dv_push_token = de_push_token payload,
                     dv_platform = de_platform payload, dv_device_name = de_device_name payload,
                     dv_status = DV_ACTIVE, dv_last_seen_at = clock s\<rparr>;
                (s2, _) = create_notification (s1\<lparr>devices := devices s1 @ [d]\<rparr>)
                            (device_alert user_id payload ''None'')
            in Inr (s2, d)
      | Some d \<Rightarrow>
          if dv_user_id d \<noteq> user_id then Inl DeviceTokenConflict
          else
            let d' = d\<lparr>dv_platform := de_platform payload, dv_device_name := de_device_name payload,
                       dv_status := DV_ACTIVE, dv_last_seen_at := clock s\<rparr>;
                (s2, _) = create_notification
                  (s\<lparr>devices := update_where (\<lambda>x. dv_id x = dv_id d) (\<lambda>_. d') (devices s)\<rparr>)
                  (device_alert user_id payload (uuid_str (dv_id d)))
            in Inr (s2, d'))"

definition revoke_device :: "db \<Rightarrow> uuid \<Rightarrow> uuid \<Rightarrow> db \<times> bool" where
  "revoke_device s user_id device_id =
     (case find (\<lambda>d. dv_id d = device_id \<and> dv_user_id d = user_id) (devices s) of
        None \<Rightarrow> (s, False)
      | Some d \<Rightarrow>
          (s\<lparr>devices := update_where (\<lambda>x. dv_id x = device_id) (\<lambda>_. d\<lparr>dv_status := DV_REVOKED\<rparr>) (devices s)\<rparr>,
           True))"

section \<open>Facts\<close>

text \<open>Creating a notification touches only the notification tables and the security events.\<close>

lemma get_preferences_keeps:
  "get_preferences s u = (t, p) \<Longrightarrow>
     clock t = clock s \<and> agents t = agents s \<and> permissions t = permissions s \<and> delegations t = delegations s \<and>
     auth_requests t = auth_requests s \<and> audit_logs t = audit_logs s \<and> notifications t = notifications s \<and>
     next_id s \<le> next_id t \<and> devices t = devices s"
  by (auto simp: get_preferences_def fresh_def Let_def split: option.splits)

lemma add_delivery_keeps [db_simps]:
  "clock (add_delivery i c st n s) = clock s" "agents (add_delivery i c st n s) = agents s"
  "permissions (add_delivery i c st n s) = permissions s" "delegations (add_delivery i c st n s) = delegations s"
  "auth_requests (add_delivery i c st n s) = auth_requests s" "audit_logs (add_delivery i c st n s) = audit_logs s"
  "notifications (add_delivery i c st n s) = notifications s" "devices (add_delivery i c st n s) = devices s"
  "next_id (add_delivery i c st n s) = Suc (next_id s)"
  by (simp_all add: add_delivery_def fresh_def)

lemma record_security_event_keeps [db_simps]:
  "clock (record_security_event s a e o1 t d v) = clock s"
  "agents (record_security_event s a e o1 t d v) = agents s"
  "permissions (record_security_event s a e o1 t d v) = permissions s"
  "delegations (record_security_event s a e o1 t d v) = delegations s"
  "auth_requests (record_security_event s a e o1 t d v) = auth_requests s"
  "audit_logs (record_security_event s a e o1 t d v) = audit_logs s"
  "notifications (record_security_event s a e o1 t d v) = notifications s"
  "devices (record_security_event s a e o1 t d v) = devices s"
  "next_id (record_security_event s a e o1 t d v) = next_id s"
  by (simp_all add: record_security_event_def)

lemma create_notification_keeps:
  assumes "create_notification s r = (t, n)"
  shows "clock t = clock s \<and> agents t = agents s \<and> permissions t = permissions s \<and> delegations t = delegations s \<and>
     auth_requests t = auth_requests s \<and> audit_logs t = audit_logs s \<and> devices t = devices s \<and> next_id s \<le> next_id t"
proof (cases "existing_notification s (nr_deduplication_key r)")
  case None
  obtain s1 p where g: "get_preferences s (nr_user_id r) = (s1, p)" by force
  from get_preferences_keeps [OF g] assms None show ?thesis
    by (auto simp: create_notification_def g fresh_def Let_def db_simps split: if_splits)
qed (use assms in \<open>simp add: create_notification_def\<close>)

end
