(* ===== verification/RiskEngine.thy ===== *)
theory RiskEngine
  imports Prelude Models
begin

text \<open>
  Risk scoring (\<open>services/risk_engine.py\<close>) and the organization rules applied after it
  (\<open>services/organization_policy.py\<close>). The Python method adds points and reasons to two
  accumulators; here every group of rules returns the points it adds with their reasons.
\<close>

section \<open>Policies and levels\<close>

record RiskEvaluation =
  score :: int
  level :: RiskLevel
  recommendation :: RiskAction
  reasons :: "string list"
  features :: "(string \<times> pyval) list"

definition get_or_create_policy :: "db \<Rightarrow> uuid \<Rightarrow> uuid option \<Rightarrow> db \<times> RiskPolicy" where
  "get_or_create_policy s user_id organization_id =
     (case find (\<lambda>p. case organization_id of Some o1 \<Rightarrow> rp_organization_id p = Some o1
                    | None \<Rightarrow> rp_user_id p = Some user_id) (risk_policies s) of
        Some p \<Rightarrow> (s, p)
      | None \<Rightarrow>
          let (i, s1) = fresh s;
              p = \<lparr>rp_id = i, rp_organization_id = organization_id,
                   rp_user_id = (case organization_id of Some _ \<Rightarrow> None | None \<Rightarrow> Some user_id),
                   rp_enabled = True, rp_medium_action = RA_ALLOW,
                   rp_high_action = RA_REQUIRE_APPROVAL, rp_critical_action = RA_REJECT,
                   rp_amount_anomaly_enabled = True, rp_velocity_enabled = True,
                   rp_rejection_history_enabled = True\<rparr>
          in (s1\<lparr>risk_policies := risk_policies s1 @ [p]\<rparr>, p))"

definition risk_level :: "int \<Rightarrow> Settings \<Rightarrow> RiskLevel" where
  "risk_level sc settings =
     (if sc \<le> risk_low_max settings then RL_LOW
      else if sc \<le> risk_medium_max settings then RL_MEDIUM
      else if sc \<le> risk_high_max settings then RL_HIGH
      else RL_CRITICAL)"

definition policy_action :: "RiskLevel \<Rightarrow> RiskPolicy \<Rightarrow> RiskAction" where
  "policy_action lv policy =
     (case lv of
        RL_LOW \<Rightarrow> RA_ALLOW
      | RL_MEDIUM \<Rightarrow> rp_medium_action policy
      | RL_HIGH \<Rightarrow> rp_high_action policy
      | RL_CRITICAL \<Rightarrow> rp_critical_action policy)"

section \<open>The rules\<close>

type_synonym points = "(int \<times> string) list"

text \<open>A rational rounded to a double, for values far below the range limit.\<close>

definition double :: "rat \<Rightarrow> rat" where
  "double x = (case float_of_rat x of FNum r \<Rightarrow> r | _ \<Rightarrow> x)"

definition recent_amounts :: "db \<Rightarrow> Agent \<Rightarrow> AuthorizationRequest \<Rightarrow> datetime \<Rightarrow> rat list" where
  "recent_amounts s agent request history_start =
     take 20 (map (\<lambda>l. the (al_amount l)) (sort_key (\<lambda>l. - al_requested_at l)
       (filter (\<lambda>l. al_agent_id l = Some (ag_id agent) \<and> al_environment l = ag_environment agent \<and>
            al_decision l = AD_APPROVED \<and> al_action l = ar_action request \<and>
            al_resource l = ar_resource request \<and> al_currency l = ar_currency request \<and>
            al_amount l \<noteq> None \<and> al_requested_at l \<ge> history_start) (audit_logs s))))"

definition average_amount :: "rat list \<Rightarrow> rat option" where
  "average_amount xs = (if xs = [] then None else Some (dec_round (sum_list xs / of_nat (length xs))))"

definition amount_rules :: "RiskPolicy \<Rightarrow> Permission \<Rightarrow> AuthorizationRequest \<Rightarrow> rat option \<Rightarrow> points" where
  "amount_rules policy permission request average =
     (case (rp_amount_anomaly_enabled policy, ar_amount request) of
        (True, Some d) \<Rightarrow>
          (case average of
             Some avg \<Rightarrow>
               if avg > 0 then
                 let ratio = dec_round (dec_val d / avg) in
                 if ratio \<ge> 4 then [(45, ''Amount is much higher than recent activity'')]
                 else if ratio \<ge> 2 then [(25, ''Amount is higher than recent activity'')]
                 else if ratio \<ge> 3 / 2 then [(15, ''Amount is above the recent average'')]
                 else []
               else []
           | None \<Rightarrow> [])
          @ (case pm_maximum_amount permission of
               Some m \<Rightarrow>
                 if m \<noteq> 0 then
                   let limit_ratio = dec_round (dec_val d / m) in
                   if limit_ratio \<ge> 9 / 10 then [(15, ''Amount is close to the permission limit'')]
                   else if limit_ratio \<ge> 3 / 4 then [(8, ''Amount uses most of the permission limit'')]
                   else []
                 else []
             | None \<Rightarrow> [])
      | _ \<Rightarrow> [])"

definition recent_requests :: "db \<Rightarrow> Agent \<Rightarrow> datetime \<Rightarrow> int" where
  "recent_requests s agent velocity_start =
     int (length (filter (\<lambda>a. ra_agent_id a = ag_id agent \<and> ra_created_at a \<ge> velocity_start) (risk_assessments s)))"

definition velocity_rules :: "Settings \<Rightarrow> RiskPolicy \<Rightarrow> int \<Rightarrow> points" where
  "velocity_rules settings policy n =
     (if rp_velocity_enabled policy then
        if n \<ge> risk_velocity_critical_count settings then [(55, ''Very high request frequency'')]
        else if n \<ge> risk_velocity_high_count settings then [(35, ''High request frequency'')]
        else if n \<ge> risk_velocity_medium_count settings then [(18, ''Request frequency is above normal'')]
        else []
      else [])"

definition recent_rejections :: "db \<Rightarrow> Agent \<Rightarrow> datetime \<Rightarrow> int" where
  "recent_rejections s agent rejection_start =
     int (length (filter (\<lambda>l. al_agent_id l = Some (ag_id agent) \<and> al_environment l = ag_environment agent \<and>
        al_decision l = AD_REJECTED \<and> al_requested_at l \<ge> rejection_start) (audit_logs s)))"

definition rejection_rules :: "RiskPolicy \<Rightarrow> int \<Rightarrow> points" where
  "rejection_rules policy n =
     (if rp_rejection_history_enabled policy then
        if n \<ge> 5 then [(25, ''Multiple recent rejected requests'')]
        else if n \<ge> 3 then [(15, ''Several recent rejected requests'')]
        else []
      else [])"

text \<open>An age in units of so many seconds, computed in doubles and cut off at zero.\<close>

definition age_in :: "int \<Rightarrow> datetime \<Rightarrow> datetime \<Rightarrow> rat" where
  "age_in unit now since = max 0 (double (double (of_int (now - since) / 1000000) / of_int unit))"

definition age_rules :: "Settings \<Rightarrow> AuthorizationRequest \<Rightarrow> rat \<Rightarrow> rat \<Rightarrow> points" where
  "age_rules settings request agent_age_hours permission_age_minutes =
     (if agent_age_hours < of_int (risk_new_agent_hours settings) \<and> ar_amount request \<noteq> None
      then [(10, ''Agent was created recently'')] else [])
     @ (if permission_age_minutes < of_int (risk_recent_permission_minutes settings) \<and> ar_amount request \<noteq> None
        then [(5, ''Permission was created or changed recently'')] else [])"

definition history_of :: "db \<Rightarrow> Agent \<Rightarrow> datetime \<Rightarrow> AuditLog list" where
  "history_of s agent history_start =
     filter (\<lambda>l. al_agent_id l = Some (ag_id agent) \<and> al_requested_at l \<ge> history_start) (audit_logs s)"

definition unusual_rules :: "AuthorizationRequest \<Rightarrow> AuditLog list \<Rightarrow> points" where
  "unusual_rules request history =
     (if length history \<ge> 3 then
        (if \<not> list_ex (\<lambda>l. al_action l = ar_action request) history
         then [(12, ''Action is unusual for this agent'')] else [])
        @ (if \<not> list_ex (\<lambda>l. al_resource l = ar_resource request) history
           then [(12, ''Resource is unusual for this agent'')] else [])
      else [])"

definition api_key_recent :: "APIKey option \<Rightarrow> datetime \<Rightarrow> bool" where
  "api_key_recent api_key requested_at =
     (case api_key of Some k \<Rightarrow> requested_at - ak_created_at k < hours 1 | None \<Rightarrow> False)"

definition api_key_rules :: "APIKey option \<Rightarrow> datetime \<Rightarrow> points" where
  "api_key_rules api_key requested_at =
     (if api_key_recent api_key requested_at then [(5, ''API key was created recently'')] else [])"

text \<open>\<open>round(x, 2)\<close> of a double.\<close>

definition round2 :: "rat \<Rightarrow> pyval" where
  "round2 x = PFloat (FNum (double (of_int (round_half_even (x * 100)) / 100)))"

definition rule_based_evaluate ::
    "Settings \<Rightarrow> db \<Rightarrow> Agent \<Rightarrow> Permission \<Rightarrow> AuthorizationRequest \<Rightarrow> datetime \<Rightarrow> RiskPolicy
       \<Rightarrow> APIKey option \<Rightarrow> RiskEvaluation" where
  "rule_based_evaluate settings s agent permission request requested_at policy api_key =
     (if \<not> rp_enabled policy
      then \<lparr>score = 0, level = RL_LOW, recommendation = RA_ALLOW,
            reasons = [''Risk checks are disabled''], features = []\<rparr>
      else
        let history_start = requested_at - days (risk_history_days settings);
            amounts = recent_amounts s agent request history_start;
            average = average_amount amounts;
            n_requests = recent_requests s agent (requested_at - seconds (risk_velocity_window_seconds settings));
            n_rejections = recent_rejections s agent (requested_at - minutes (risk_rejection_window_minutes settings));
            agent_age_hours = age_in 3600 requested_at (ag_created_at agent);
            permission_age_minutes = age_in 60 requested_at (pm_updated_at permission);
            pts = amount_rules policy permission request average
              @ velocity_rules settings policy n_requests
              @ rejection_rules policy n_rejections
              @ age_rules settings request agent_age_hours permission_age_minutes
              @ unusual_rules request (history_of s agent history_start)
              @ api_key_rules api_key requested_at;
            sc = min (sum_list (map fst pts)) 100;
            lv = risk_level sc settings
        in \<lparr>score = sc, level = lv, recommendation = policy_action lv policy,
            reasons = (if pts = [] then [''No unusual activity detected''] else map snd pts),
            features =
              [(''historical_amount_count'', PInt (int (length amounts))),
               (''amount_to_average_ratio'',
                 case (ar_amount request, average) of
                   (Some d, Some avg) \<Rightarrow>
                     if avg = 0 then PNone else PFloat (FNum (double (dec_round (dec_val d / avg))))
                 | _ \<Rightarrow> PNone),
               (''request_count_in_window'', PInt n_requests),
               (''recent_rejection_count'', PInt n_rejections),
               (''agent_age_hours'', round2 agent_age_hours),
               (''permission_age_minutes'', round2 permission_age_minutes),
               (''api_key_recent'', PBool (api_key_recent api_key requested_at))]\<rparr>)"

definition RULE_MODEL_VERSION :: string where
  "RULE_MODEL_VERSION = ''rules-v1''"

definition evaluate_and_save ::
    "db \<Rightarrow> Settings \<Rightarrow> string \<Rightarrow> uuid \<Rightarrow> uuid option \<Rightarrow> Agent \<Rightarrow> Permission \<Rightarrow> AuthorizationRequest
       \<Rightarrow> datetime \<Rightarrow> APIKey option \<Rightarrow> db \<times> RiskEvaluation" where
  "evaluate_and_save s settings request_id user_id organization_id agent permission request requested_at api_key =
     (let (s1, policy) = get_or_create_policy s user_id organization_id;
          e = rule_based_evaluate settings s1 agent permission request requested_at policy api_key;
          (i, s2) = fresh s1;
          a = \<lparr>ra_id = i, ra_request_id = request_id, ra_user_id = user_id,
               ra_organization_id = organization_id, ra_agent_id = ag_id agent,
               ra_permission_id = Some (pm_id permission), ra_risk_score = score e,
               ra_risk_level = level e, ra_decision_recommendation = recommendation e,
               ra_reasons = reasons e, ra_features = features e,
               ra_model_version = RULE_MODEL_VERSION, ra_created_at = clock s2\<rparr>
      in (s2\<lparr>risk_assessments := risk_assessments s2 @ [a]\<rparr>, e))"

section \<open>Organization rules\<close>

datatype org_action = ORG_ALLOW | ORG_REQUIRE_APPROVAL | ORG_DENY

definition evaluate_organization_policy ::
    "db \<Rightarrow> uuid option \<Rightarrow> AuthorizationRequest \<Rightarrow> RiskEvaluation \<Rightarrow> org_action \<times> string option" where
  "evaluate_organization_policy s organization_id request risk =
     (case organization_id of
        None \<Rightarrow> (ORG_ALLOW, None)
      | Some org \<Rightarrow>
          (case find (\<lambda>p. sp_organization_id p = org) (security_policies s) of
             None \<Rightarrow> (ORG_ALLOW, None)
           | Some policy \<Rightarrow>
               if sp_block_critical_risk policy \<and> level risk = RL_CRITICAL
               then (ORG_DENY, Some ''Request rejected by organization security policy'')
               else if sp_require_approval_for_high_risk policy \<and> level risk \<in> {RL_HIGH, RL_CRITICAL}
               then (ORG_REQUIRE_APPROVAL, Some ''Organization policy requires approval for high-risk actions'')
               else
                 (case sp_require_manual_approval_above_amount policy of
                    Some threshold \<Rightarrow>
                      if ar_action request = ''purchase'' then
                        if ar_currency request \<noteq> Some (sp_approval_threshold_currency policy)
                        then (ORG_REQUIRE_APPROVAL,
                              Some ''Organization policy requires approval for purchases in a different currency'')
                        else
                          (case ar_amount request of
                             Some d \<Rightarrow>
                               if dec_val d > threshold
                               then (ORG_REQUIRE_APPROVAL,
                                 Some (''Organization policy requires approval for purchases above ''
                                   @ dec_str (dec_normalize (numeric_dec threshold)) @ '' ''
                                   @ sp_approval_threshold_currency policy))
                               else (ORG_ALLOW, None)
                           | None \<Rightarrow> (ORG_ALLOW, None))
                      else (ORG_ALLOW, None)
                  | None \<Rightarrow> (ORG_ALLOW, None))))"

end
