(* ===== verification/Authorization.thy ===== *)
theory Authorization
  imports APL_Evaluator Delegation Notifications RiskEngine
begin

text \<open>
  The authorization decision (\<open>services/authorization.py\<close>): agent lookup, delegation or
  permission matching, then risk, organization rules and APL policies, and the record of the
  outcome in the audit log or as a pending request. The counters of \<open>metrics\<close> are left out.
\<close>

section \<open>Results\<close>

datatype Decision = APPROVED | REJECTED | PENDING

record AuthorizationResult =
  res_request_id :: string
  res_decision :: Decision
  res_reason :: string
  res_risk_level :: "string option"
  res_risk_score :: "int option"
  res_risk_reasons :: "string list"

record Evaluation =
  ev_decision :: AuditDecision
  ev_reason :: string
  ev_agent_id :: "uuid option"
  ev_permission_id :: "uuid option"

definition approved :: "uuid \<Rightarrow> uuid \<Rightarrow> Evaluation" where
  "approved agent permission =
     \<lparr>ev_decision = AD_APPROVED, ev_reason = ''Permission valid'', ev_agent_id = Some agent,
      ev_permission_id = Some permission\<rparr>"

definition rejected :: "string \<Rightarrow> uuid option \<Rightarrow> uuid option \<Rightarrow> Evaluation" where
  "rejected reason agent permission =
     \<lparr>ev_decision = AD_REJECTED, ev_reason = reason, ev_agent_id = agent, ev_permission_id = permission\<rparr>"

definition MANUAL_APPROVAL_WINDOW :: int where
  "MANUAL_APPROVAL_WINDOW = minutes 5"

definition generate_request_id :: "nat \<Rightarrow> string" where
  "generate_request_id token = ''req_'' @ hex_digits 24 token"

fun decision_of :: "AuditDecision \<Rightarrow> Decision" where
  "decision_of AD_APPROVED = APPROVED"
| "decision_of AD_REJECTED = REJECTED"

section \<open>Recording an outcome\<close>

definition save_audit_log ::
    "db \<Rightarrow> uuid \<Rightarrow> AuthorizationRequest \<Rightarrow> Evaluation \<Rightarrow> datetime \<Rightarrow> string option \<Rightarrow> uuid option
       \<Rightarrow> RiskEvaluation option \<Rightarrow> string \<Rightarrow> string option \<Rightarrow> uuid option \<Rightarrow> db \<times> AuthorizationResult" where
  "save_audit_log s owner_id request evaluation requested_at request_id organization_id risk environment
       deleg_id parent_agent_id =
     (let (rid, s1) = (case request_id of
                         Some r \<Rightarrow> (r, s)
                       | None \<Rightarrow> (let (n, s') = fresh s in (generate_request_id n, s')));
          (i, s2) = fresh s1;
          l = \<lparr>al_id = i, al_request_id = rid, al_environment = environment, al_user_id = owner_id,
               al_organization_id = organization_id, al_agent_id = ev_agent_id evaluation,
               al_agent_identifier = ar_agent_id request, al_permission_id = ev_permission_id evaluation,
               al_delegation_id = deleg_id, al_parent_agent_id = parent_agent_id,
               al_action = ar_action request, al_resource = ar_resource request,
               al_amount = map_option dec_val (ar_amount request), al_currency = ar_currency request,
               al_decision = ev_decision evaluation, al_reason = ev_reason evaluation,
               al_risk_score = map_option score risk,
               al_risk_level = map_option (\<lambda>r. RiskLevel_value (level r)) risk,
               al_risk_recommendation = map_option (\<lambda>r. RiskAction_value (recommendation r)) risk,
               al_signature_verified = False, al_signing_key_id = None, al_signature_version = None,
               al_requested_at = requested_at\<rparr>
      in (s2\<lparr>audit_logs := audit_logs s2 @ [l]\<rparr>,
          \<lparr>res_request_id = rid, res_decision = decision_of (ev_decision evaluation),
           res_reason = ev_reason evaluation,
           res_risk_level = map_option (\<lambda>r. RiskLevel_value (level r)) risk,
           res_risk_score = map_option score risk,
           res_risk_reasons = (case risk of Some r \<Rightarrow> reasons r | None \<Rightarrow> [])\<rparr>))"

text \<open>\<open>a or b\<close> on optional strings.\<close>

definition str_or :: "string option \<Rightarrow> string option \<Rightarrow> string option" where
  "str_or a b = (case a of Some r \<Rightarrow> if r = [] then b else Some r | None \<Rightarrow> b)"

definition opt_val :: "string option \<Rightarrow> pyval" where
  "opt_val v = (case v of Some t \<Rightarrow> PStr t | None \<Rightarrow> PNone)"

definition amount_text :: "Decimal option \<Rightarrow> string option \<Rightarrow> string" where
  "amount_text amt cur =
     (case amt of
        Some d \<Rightarrow> '' for '' @ dec_str (dec_normalize d) @ '' '' @ (case cur of Some c \<Rightarrow> c | None \<Rightarrow> ''None'')
      | None \<Rightarrow> [])"

definition pending_notification ::
    "AuthorizationRequest \<Rightarrow> AuthorizationRequestRecord \<Rightarrow> Agent \<Rightarrow> RiskEvaluation \<Rightarrow> bool \<Rightarrow> notification_request" where
  "pending_notification request record agent risk risk_forced =
     \<lparr>nr_user_id = rq_user_id record,
      nr_type = (if risk_forced then HIGH_RISK_APPROVAL_REQUIRED else AUTHORIZATION_PENDING),
      nr_title = (if risk_forced then ''High-Risk Approval Required'' else ''Approval Required''),
      nr_message =
        (if risk_forced
         then ag_name agent @ '' is requesting '' @ ar_action request @ '' '' @ ar_resource request
              @ amount_text (ar_amount request) (ar_currency request)
              @ ''. This request has a '' @ py_lower (RiskLevel_value (level risk)) @ '' risk score.''
         else ag_name agent @ '' wants to '' @ ar_action request @ '' '' @ ar_resource request
              @ amount_text (ar_amount request) (ar_currency request) @ ''.''),
      nr_priority = (if level risk = RL_CRITICAL then NP_CRITICAL else NP_HIGH),
      nr_organization_id = ag_organization_id agent,
      nr_related_request_id = Some (rq_id record), nr_related_agent_id = Some (rq_agent_id record),
      nr_related_permission_id = Some (rq_permission_id record),
      nr_metadata = Some
        [(''request_id'', PStr (rq_request_id record)), (''agent'', PStr (ag_name agent)),
         (''action'', PStr (ar_action request)), (''resource'', PStr (ar_resource request)),
         (''amount'', case ar_amount request of Some d \<Rightarrow> PStr (dec_str d) | None \<Rightarrow> PNone),
         (''currency'', opt_val (ar_currency request)),
         (''risk_level'', PStr (RiskLevel_value (level risk))),
         (''delegation_id'', opt_val (rq_delegation_id record))],
      nr_deduplication_key = Some (''authorization-pending:'' @ uuid_str (rq_id record))\<rparr>"

text \<open>The only caller passes the evaluated agent as the acting agent.\<close>

definition save_pending_request ::
    "db \<Rightarrow> AuthorizationRequest \<Rightarrow> Permission \<Rightarrow> datetime \<Rightarrow> string \<Rightarrow> RiskEvaluation \<Rightarrow> bool
       \<Rightarrow> string option \<Rightarrow> string \<Rightarrow> string option \<Rightarrow> uuid option \<Rightarrow> Agent \<Rightarrow> db \<times> AuthorizationResult" where
  "save_pending_request s request permission requested_at request_id risk risk_forced reason environment
       deleg_id parent_agent_id acting_agent =
     (let (i, s1) = fresh s;
          r = \<lparr>rq_id = i, rq_request_id = request_id, rq_user_id = pm_owner_id permission,
               rq_agent_id = ag_id acting_agent, rq_permission_id = pm_id permission,
               rq_environment = environment, rq_delegation_id = deleg_id,
               rq_parent_agent_id = parent_agent_id, rq_action = ar_action request,
               rq_resource = ar_resource request, rq_amount = map_option dec_val (ar_amount request),
               rq_currency = ar_currency request, rq_status = RQ_PENDING,
               rq_reason = the (str_or reason
                  (Some (if risk_forced then ''Manual approval required'' else ''Awaiting user approval''))),
               rq_policy_reason = reason, rq_risk_score = Some (score risk),
               rq_risk_level = Some (RiskLevel_value (level risk)),
               rq_risk_recommendation = Some (RiskAction_value (recommendation risk)),
               rq_signature_verified = False, rq_signing_key_id = None, rq_signature_version = None,
               rq_created_at = clock s,
               rq_expires_at = min (pm_expires_at permission) (requested_at + MANUAL_APPROVAL_WINDOW),
               rq_decided_at = None\<rparr>;
          (s2, _) = create_notification (s1\<lparr>auth_requests := auth_requests s1 @ [r]\<rparr>)
                      (pending_notification request r acting_agent risk risk_forced)
      in (s2,
          \<lparr>res_request_id = request_id, res_decision = PENDING, res_reason = rq_reason r,
           res_risk_level = Some (RiskLevel_value (level risk)), res_risk_score = Some (score risk),
           res_risk_reasons = reasons risk\<rparr>))"

section \<open>Published APL policies\<close>

text \<open>
  The block under \<open>try ... except Exception: pass\<close>. Reading an attribute that the mapped class
  does not have raises; any exception ends the block and keeps what it found so far.
\<close>

datatype apl_outcome = AplDeny string | AplContinue bool "string option"

definition class_attribute :: "string list \<Rightarrow> string \<Rightarrow> pyexn + unit" where
  "class_attribute cols name = (if name \<in> set cols then Inr () else Inl AttributeError)"

definition row_attribute :: "string list \<Rightarrow> PolicyVersion \<Rightarrow> string \<Rightarrow> pyexn + pyval" where
  "row_attribute cols pv name =
     rbind (class_attribute cols name) (\<lambda>_. Inr (dict_get (pv_attrs pv) name PNone))"

definition apl_context ::
    "Agent \<Rightarrow> uuid \<Rightarrow> AuthorizationRequest \<Rightarrow> RiskEvaluation \<Rightarrow> string \<Rightarrow> datetime \<Rightarrow> string option \<Rightarrow> pyval" where
  "apl_context agent org request risk environment requested_at deleg_id =
     PDict
       [(''agent'', PDict
          [(''id'', PStr (if ag_agent_identifier agent = [] then uuid_str (ag_id agent) else ag_agent_identifier agent)),
           (''type'', PStr ''default''),
           (''organization_id'', PStr (uuid_str org)),
           (''status'', PStr (AgentStatus_value (ag_status agent)))]),
        (''action'', PStr (ar_action request)),
        (''resource'', PStr (ar_resource request)),
        (''input'', PDict
          [(''amount'', case ar_amount request of Some d \<Rightarrow> PFloat (float_of_rat (dec_val d)) | None \<Rightarrow> PNone),
           (''currency'', opt_val (ar_currency request))]),
        (''risk'', PDict
          [(''score'', PInt (score risk)), (''level'', PStr (RiskLevel_value (level risk)))]),
        (''environment'', PStr environment),
        (''time'', PDict
          [(''hour'', PInt (hour_of requested_at)), (''day_of_week'', PInt (isoweekday requested_at))]),
        (''delegation'', PDict
          [(''depth'', PInt (if deleg_id = None \<or> deleg_id = Some [] then 0 else 1)),
           (''active'', PBool (\<not> (deleg_id = None \<or> deleg_id = Some [])))])]"

definition evaluate_version :: "string list \<Rightarrow> pyval \<Rightarrow> PolicyVersion \<Rightarrow> pyexn + APLEvaluationResult option" where
  "evaluate_version cols ctx pv =
     rbind (row_attribute cols pv ''compiled_ast'') (\<lambda>v.
       case v of
         PDict ast \<Rightarrow> rbind (evaluate_apl_policy ast ctx) (\<lambda>r. Inr (Some r))
       | _ \<Rightarrow> Inr None)"

fun apl_loop :: "string list \<Rightarrow> pyval \<Rightarrow> PolicyVersion list \<Rightarrow> bool \<Rightarrow> string option \<Rightarrow> apl_outcome" where
  "apl_loop cols ctx [] forced reason = AplContinue forced reason"
| "apl_loop cols ctx (pv # pvs) forced reason =
     (case evaluate_version cols ctx pv of
        Inl _ \<Rightarrow> AplContinue forced reason
      | Inr None \<Rightarrow> apl_loop cols ctx pvs forced reason
      | Inr (Some r) \<Rightarrow>
          if decision r = ''DENY'' then AplDeny (explanation r)
          else if decision r = ''REQUIRE_APPROVAL''
          then apl_loop cols ctx pvs True (Some (explanation r))
          else apl_loop cols ctx pvs forced reason)"

definition published_apl :: "db \<Rightarrow> uuid \<Rightarrow> PolicyVersion list" where
  "published_apl s org =
     filter (\<lambda>pv. list_ex (\<lambda>p. po_id p = pv_policy_id pv \<and> po_organization_id p = org) (policies s) \<and>
                  dict_get (pv_attrs pv) ''is_active'' PNone = PBool True) (policy_versions s)"

definition apl_stage ::
    "string list \<Rightarrow> db \<Rightarrow> uuid option \<Rightarrow> Agent \<Rightarrow> AuthorizationRequest \<Rightarrow> RiskEvaluation \<Rightarrow> string
       \<Rightarrow> datetime \<Rightarrow> string option \<Rightarrow> apl_outcome" where
  "apl_stage cols s organization_id agent request risk environment requested_at deleg_id =
     (case organization_id of
        None \<Rightarrow> AplContinue False None
      | Some org \<Rightarrow>
          (case class_attribute cols ''is_active'' of
             Inl _ \<Rightarrow> AplContinue False None
           | Inr _ \<Rightarrow>
               apl_loop cols (apl_context agent org request risk environment requested_at deleg_id)
                 (published_apl s org) False None))"

section \<open>Completing a matched request\<close>

text \<open>
  Everything after a permission was found. \<open>cols\<close> are the attributes of the mapped class
  \<open>PolicyVersion\<close>.
\<close>

definition complete_with ::
    "string list \<Rightarrow> db \<Rightarrow> uuid \<Rightarrow> AuthorizationRequest \<Rightarrow> Permission \<Rightarrow> datetime \<Rightarrow> uuid option \<Rightarrow> Settings
       \<Rightarrow> APIKey option \<Rightarrow> AgentDelegation option \<Rightarrow> bool \<Rightarrow> Agent \<Rightarrow> db \<times> AuthorizationResult" where
  "complete_with cols s owner_id request permission requested_at organization_id settings api_key
       delegation force_approval eval_agent =
     (let (token, s0) = fresh s;
          request_id = generate_request_id token;
          environment = (case api_key of Some k \<Rightarrow> ak_environment k | None \<Rightarrow> ag_environment eval_agent);
          (s1, risk) = evaluate_and_save s0 settings request_id owner_id organization_id eval_agent
                         permission request requested_at api_key;
          deleg_id = map_option dg_delegation_id delegation;
          parent_agent_id = map_option dg_parent_agent_id delegation;
          save = (\<lambda>evaluation. save_audit_log s1 owner_id request evaluation requested_at (Some request_id)
                    organization_id (Some risk) environment deleg_id parent_agent_id);
          reject = (\<lambda>reason. save (rejected reason (Some (ag_id eval_agent)) (Some (pm_id permission))))
      in
      if recommendation risk = RA_REJECT then reject ''Request rejected by risk policy''
      else
        let (organization_action, organization_reason) =
              evaluate_organization_policy s1 organization_id request risk in
        if organization_action = ORG_DENY
        then reject (the (str_or organization_reason (Some ''Request rejected by organization security policy'')))
        else
          (case apl_stage cols s1 organization_id eval_agent request risk environment requested_at deleg_id of
             AplDeny expl \<Rightarrow> reject (''Request rejected by APL/1.0 policy: '' @ expl)
           | AplContinue apl_forced apl_reason \<Rightarrow>
               let risk_forced = (recommendation risk = RA_REQUIRE_APPROVAL) in
               if pm_requires_approval permission \<or> force_approval \<or> risk_forced
                  \<or> organization_action = ORG_REQUIRE_APPROVAL \<or> apl_forced
               then save_pending_request s1 request permission requested_at request_id risk
                      (risk_forced \<or> apl_forced) (str_or apl_reason organization_reason) environment
                      deleg_id parent_agent_id eval_agent
               else save (approved (ag_id eval_agent) (pm_id permission))))"

definition complete_or_queue ::
    "db \<Rightarrow> uuid \<Rightarrow> AuthorizationRequest \<Rightarrow> Permission \<Rightarrow> datetime \<Rightarrow> uuid option \<Rightarrow> Settings
       \<Rightarrow> APIKey option \<Rightarrow> AgentDelegation option \<Rightarrow> bool \<Rightarrow> Agent option \<Rightarrow> pyexn + db \<times> AuthorizationResult" where
  "complete_or_queue s owner_id request permission requested_at organization_id settings api_key
       delegation force_approval acting_agent =
     (case (case acting_agent of Some a \<Rightarrow> Some a | None \<Rightarrow> get_agent s (pm_agent_id permission)) of
        None \<Rightarrow> Inl AttributeError
      | Some eval_agent \<Rightarrow>
          Inr (complete_with PolicyVersion_columns s owner_id request permission requested_at organization_id
                 settings api_key delegation force_approval eval_agent))"

section \<open>Matching a permission\<close>

text \<open>The first permission that fits, or the reason of the first stage that leaves none.\<close>

definition match_permission ::
    "Permission list \<Rightarrow> AuthorizationRequest \<Rightarrow> datetime \<Rightarrow> (string \<times> uuid option) + Permission" where
  "match_permission ps request checked_at =
     (if ps = [] then Inl (''No permission found'', None)
      else
        let action_matches = filter (\<lambda>p. pm_action p = ar_action request) ps in
        if action_matches = [] then Inl (''Action not permitted'', None)
        else
          let scope_matches = filter (\<lambda>p. pm_resource p = ar_resource request) action_matches in
          if scope_matches = [] then Inl (''Resource not permitted'', None)
          else
            let active = filter (\<lambda>p. pm_status p = PM_ACTIVE) scope_matches in
            if active = [] then
              (case find (\<lambda>p. pm_status p = PM_REVOKED) scope_matches of
                 Some p \<Rightarrow> Inl (''Permission revoked'', Some (pm_id p))
               | None \<Rightarrow> Inl (''Permission expired'', Some (pm_id (hd scope_matches))))
            else
              let started = filter (\<lambda>p. pm_valid_from p \<le> checked_at) active in
              if started = [] then Inl (''Permission has not started'', Some (pm_id (hd active)))
              else
                let current = filter (\<lambda>p. checked_at < pm_expires_at p) started in
                if current = [] then Inl (''Permission expired'', Some (pm_id (hd started)))
                else
                  (case ar_amount request of
                     None \<Rightarrow>
                       (case find (\<lambda>p. pm_maximum_amount p = None) current of
                          Some p \<Rightarrow> Inr p
                        | None \<Rightarrow> Inl (''Amount is required for this permission'', Some (pm_id (hd current))))
                   | Some d \<Rightarrow>
                       let amount_permissions = filter (\<lambda>p. pm_maximum_amount p \<noteq> None) current in
                       if amount_permissions = []
                       then Inl (''Permission does not allow an amount'', Some (pm_id (hd current)))
                       else
                         let currency_matches = filter (\<lambda>p. pm_currency p = ar_currency request) amount_permissions in
                         if currency_matches = []
                         then Inl (''Currency does not match'', Some (pm_id (hd amount_permissions)))
                         else
                           (case find (\<lambda>p. dec_val d \<le> the (pm_maximum_amount p)) currency_matches of
                              Some p \<Rightarrow> Inr p
                            | None \<Rightarrow> Inl (''Amount exceeds allowed limit'', Some (pm_id (hd currency_matches))))))"

section \<open>The decision\<close>

text \<open>The scope argument: not given, personal (\<open>None\<close>), or an organization.\<close>

datatype org_scope = Unscoped | Personal | Organization uuid

fun audit_org :: "org_scope \<Rightarrow> uuid option" where
  "audit_org (Organization org) = Some org"
| "audit_org _ = None"

fun sweep_of :: "org_scope \<Rightarrow> sweep_scope" where
  "sweep_of Unscoped = EveryScope"
| "sweep_of Personal = PersonalScope"
| "sweep_of (Organization org) = OrgScope org"

definition agent_matches :: "uuid \<Rightarrow> AuthorizationRequest \<Rightarrow> org_scope \<Rightarrow> APIKey option \<Rightarrow> Agent \<Rightarrow> bool" where
  "agent_matches owner_id request scope api_key a =
     (ag_agent_identifier a = ar_agent_id request \<and>
      (case api_key of Some k \<Rightarrow> ag_environment a = ak_environment k | None \<Rightarrow> True) \<and>
      (case scope of
         Unscoped \<Rightarrow> ag_owner_id a = owner_id
       | Personal \<Rightarrow> ag_owner_id a = owner_id \<and> ag_organization_id a = None
       | Organization org \<Rightarrow> ag_organization_id a = Some org))"

definition inactive_reason :: "AgentStatus \<Rightarrow> string" where
  "inactive_reason st =
     (if st = AG_SUSPENDED then ''AGENT_SUSPENDED: Agent is suspended''
      else if st \<in> {AG_RETIRED, AG_REVOKED} then ''AGENT_RETIRED: Agent is retired''
      else ''Agent is not active'')"

definition or_else :: "'a option \<Rightarrow> 'a option \<Rightarrow> 'a option" where
  "or_else a b = (case a of Some x \<Rightarrow> Some x | None \<Rightarrow> b)"

definition owned_permissions :: "db \<Rightarrow> uuid \<Rightarrow> org_scope \<Rightarrow> Agent \<Rightarrow> Permission list" where
  "owned_permissions s owner_id scope agent =
     newest_first (filter (\<lambda>p. pm_agent_id p = ag_id agent \<and>
        (case scope of Organization _ \<Rightarrow> True | _ \<Rightarrow> pm_owner_id p = owner_id)) (permissions s))"

definition authorize_delegated ::
    "db \<Rightarrow> uuid \<Rightarrow> AuthorizationRequest \<Rightarrow> datetime \<Rightarrow> org_scope \<Rightarrow> Settings \<Rightarrow> APIKey option \<Rightarrow> string
       \<Rightarrow> Agent \<Rightarrow> string \<Rightarrow> pyexn + db \<times> AuthorizationResult" where
  "authorize_delegated s owner_id request checked_at scope settings api_key environment agent did =
     (let org = or_else (audit_org scope) (ag_organization_id agent) in
      case verify_delegation_chain s did (ar_action request) (ar_resource request)
             (map_option dec_val (ar_amount request)) (ar_currency request) (Some checked_at)
             (Some (ag_id agent)) org of
        Inl reason \<Rightarrow>
          Inr (save_audit_log s owner_id request
                 (rejected (''Delegation invalid: '' @ reason) (Some (ag_id agent)) None)
                 checked_at None org None environment (Some did) None)
      | Inr m \<Rightarrow>
          complete_or_queue s (pm_owner_id (cm_root_permission m)) request (cm_root_permission m) checked_at
            (or_else (audit_org scope) (Some (dg_organization_id (cm_delegation m)))) settings api_key
            (Some (cm_delegation m)) (ca_requires_approval (cm_effective m)) (Some agent))"

text \<open>A decision that no permission or risk was involved in.\<close>

definition save_plain ::
    "db \<Rightarrow> uuid \<Rightarrow> AuthorizationRequest \<Rightarrow> datetime \<Rightarrow> org_scope \<Rightarrow> string \<Rightarrow> Evaluation
       \<Rightarrow> pyexn + db \<times> AuthorizationResult" where
  "save_plain s owner_id request checked_at scope environment evaluation =
     Inr (save_audit_log s owner_id request evaluation checked_at None (audit_org scope) None environment None None)"

definition authorize_direct ::
    "db \<Rightarrow> uuid \<Rightarrow> AuthorizationRequest \<Rightarrow> datetime \<Rightarrow> org_scope \<Rightarrow> Settings \<Rightarrow> APIKey option \<Rightarrow> string
       \<Rightarrow> Agent \<Rightarrow> pyexn + db \<times> AuthorizationResult" where
  "authorize_direct s owner_id request checked_at scope settings api_key environment agent =
     (let s2 = expire_owned_permissions s owner_id (Some checked_at) (sweep_of scope) in
      case match_permission (owned_permissions s2 owner_id scope agent) request checked_at of
        Inl (reason, pid) \<Rightarrow>
          save_plain s2 owner_id request checked_at scope environment (rejected reason (Some (ag_id agent)) pid)
      | Inr p \<Rightarrow>
          complete_or_queue s2 owner_id request p checked_at (audit_org scope) settings api_key None False None)"

definition touch_agent :: "uuid \<Rightarrow> datetime \<Rightarrow> db \<Rightarrow> db" where
  "touch_agent i t s =
     s\<lparr>agents := update_where (\<lambda>a. ag_id a = i) (\<lambda>a. a\<lparr>ag_last_activity_at := Some t\<rparr>) (agents s)\<rparr>"

definition authorize_action ::
    "db \<Rightarrow> uuid \<Rightarrow> AuthorizationRequest \<Rightarrow> datetime option \<Rightarrow> org_scope \<Rightarrow> Settings \<Rightarrow> APIKey option
       \<Rightarrow> pyexn + db \<times> AuthorizationResult" where
  "authorize_action s owner_id request at_time scope settings api_key =
     (let checked_at = (case at_time of Some t \<Rightarrow> t | None \<Rightarrow> clock s);
          environment = (case api_key of Some k \<Rightarrow> ak_environment k | None \<Rightarrow> ''production'')
      in
      case find (agent_matches owner_id request scope api_key) (agents s) of
        None \<Rightarrow> save_plain s owner_id request checked_at scope environment (rejected ''Agent not found'' None None)
      | Some agent \<Rightarrow>
          if ag_status agent \<noteq> AG_ACTIVE
          then save_plain s owner_id request checked_at scope environment
                 (rejected (inactive_reason (ag_status agent)) (Some (ag_id agent)) None)
          else
            let s1 = touch_agent (ag_id agent) checked_at s;
                agent' = agent\<lparr>ag_last_activity_at := Some checked_at\<rparr>
            in
            (case ar_delegation_id request of
               Some did \<Rightarrow>
                 authorize_delegated s1 owner_id request checked_at scope settings api_key environment agent' did
             | None \<Rightarrow>
                 authorize_direct s1 owner_id request checked_at scope settings api_key environment agent'))"

end
