(* ===== verification/Delegation_Safety.thy ===== *)
theory Delegation_Safety
  imports Delegation
begin

text \<open>
  What delegation guarantees: the meaning of a verified chain, the set of delegations a
  cascading revocation reaches, and the attenuation invariant of the state machine made of
  the delegation and permission operations.
\<close>

section \<open>What a verified chain guarantees\<close>

text \<open>The chain of a delegation: itself, its parent, and so on up to the root delegation.\<close>

inductive delegation_chain :: "db \<Rightarrow> AgentDelegation \<Rightarrow> AgentDelegation list \<Rightarrow> bool" for s where
  root: "next_delegation s d = None \<Longrightarrow> delegation_chain s d [d]"
| up: "next_delegation s d = Some d' \<Longrightarrow> delegation_chain s d' ds \<Longrightarrow> delegation_chain s d (d # ds)"

inductive_cases delegation_chainE: "delegation_chain s d ds"

lemma delegation_chain_hd: "delegation_chain s d ds \<Longrightarrow> ds \<noteq> [] \<and> hd ds = d"
  by (auto elim: delegation_chainE)

definition link_ok :: "db \<Rightarrow> datetime \<Rightarrow> string \<Rightarrow> string \<Rightarrow> AgentDelegation \<Rightarrow> bool" where
  "link_ok s t act res d =
     (delegation_is_usable d t \<and> agent_active s (dg_child_agent_id d) \<and>
      agent_active s (dg_parent_agent_id d) \<and> dg_action d = act \<and> dg_resource d = res)"

definition root_ok :: "db \<Rightarrow> datetime \<Rightarrow> string \<Rightarrow> string \<Rightarrow> Permission \<Rightarrow> bool" where
  "root_ok s t act res p =
     (permission_is_usable p t \<and> pm_allow_delegation p \<and> agent_active s (pm_agent_id p) \<and>
      pm_action p = act \<and> pm_resource p = res)"

definition accumulate_link :: "chain_acc \<Rightarrow> AgentDelegation \<Rightarrow> chain_acc" where
  "accumulate_link acc d =
     accumulate (dg_requires_approval d) (dg_expires_at d) (dg_maximum_amount d) (dg_currency d)
       (acc\<lparr>ca_nodes := d # ca_nodes acc\<rparr>)"

text \<open>A limit that is absent or at least the amount.\<close>

definition within_limit :: "rat \<Rightarrow> rat option \<Rightarrow> bool" where
  "within_limit a mx = (case mx of None \<Rightarrow> True | Some m \<Rightarrow> a \<le> m)"

lemma link_error_None:
  "link_error s t act res seen d = None \<longleftrightarrow>
     link_ok s t act res d \<and> dg_child_agent_id d \<notin> seen \<and> dg_parent_agent_id d \<notin> seen"
  by (cases "dg_status d") (auto simp: link_error_def link_ok_def delegation_is_usable_def)

lemma root_error_None: "root_error s t act res p = None \<longleftrightarrow> root_ok s t act res p"
  by (cases "pm_status p") (auto simp: root_error_def root_ok_def permission_is_usable_def)

lemma walk_chain_sound:
  "walk_chain s t act res (Some d) seen acc = Inr acc' \<Longrightarrow>
     \<exists>ds. delegation_chain s d ds \<and> list_all (link_ok s t act res) ds \<and>
          distinct (map dg_child_agent_id ds) \<and> set (map dg_child_agent_id ds) \<inter> seen = {} \<and>
          acc' = foldl accumulate_link acc ds"
proof (induction s t act res "Some d" seen acc arbitrary: d acc' rule: walk_chain.induct)
  case (2 s t act res d seen acc)
  then have ok: "link_error s t act res seen d = None" by (auto split: option.splits)
  show ?case
  proof (cases "next_delegation s d")
    case None
    with 2 ok show ?thesis
      by (intro exI [of _ "[d]"]) (auto simp: accumulate_link_def link_error_None intro: delegation_chain.root)
  next
    case (Some d')
    with 2 ok obtain ds where "delegation_chain s d' ds" "list_all (link_ok s t act res) ds"
      "distinct (map dg_child_agent_id ds)" "set (map dg_child_agent_id ds) \<inter> insert (dg_child_agent_id d) seen = {}"
      "acc' = foldl accumulate_link (accumulate_link acc d) ds"
      by (fastforce simp: accumulate_link_def)
    with Some ok show ?thesis
      by (intro exI [of _ "d # ds"]) (auto simp: link_error_None intro: delegation_chain.up)
  qed
qed

lemma narrow_amount_simps [simp]:
  "ca_requires_approval (narrow_amount m c acc) = ca_requires_approval acc"
  "ca_expires_at (narrow_amount m c acc) = ca_expires_at acc"
  "ca_nodes (narrow_amount m c acc) = ca_nodes acc"
  by (auto simp: narrow_amount_def split: option.splits)

lemma accumulate_amount:
  "ca_max_amount (accumulate ap ex mx cu acc) =
     (case (mx, ca_max_amount acc) of (None, e) \<Rightarrow> e | (Some m, None) \<Rightarrow> Some m | (Some m, Some e) \<Rightarrow> Some (min m e))"
  by (auto simp: accumulate_def narrow_amount_def split: option.splits)

lemma accumulate_simps [simp]:
  "ca_requires_approval (accumulate ap ex mx cu acc) = (ca_requires_approval acc \<or> ap)"
  "ca_expires_at (accumulate ap ex mx cu acc) = min (ca_expires_at acc) ex"
  "ca_nodes (accumulate ap ex mx cu acc) = ca_nodes acc"
  by (simp_all add: accumulate_def)

lemma within_accumulate:
  "within_limit a (ca_max_amount (accumulate ap ex mx cu acc)) \<longleftrightarrow> within_limit a mx \<and> within_limit a (ca_max_amount acc)"
  by (auto simp: accumulate_amount within_limit_def split: option.splits)

lemma foldl_accumulate:
  "ca_nodes (foldl accumulate_link acc ds) = rev ds @ ca_nodes acc"
  "ca_requires_approval (foldl accumulate_link acc ds) \<longleftrightarrow> ca_requires_approval acc \<or> list_ex dg_requires_approval ds"
  "ca_expires_at (foldl accumulate_link acc ds) \<le> e \<longleftrightarrow> ca_expires_at acc \<le> e \<or> list_ex (\<lambda>d. dg_expires_at d \<le> e) ds"
  "within_limit a (ca_max_amount (foldl accumulate_link acc ds)) \<longleftrightarrow>
     within_limit a (ca_max_amount acc) \<and> list_all (\<lambda>d. within_limit a (dg_maximum_amount d)) ds"
  by (induction ds arbitrary: acc) (auto simp: accumulate_link_def within_accumulate min_le_iff_disj)

lemma verify_sound:
  assumes "verify_delegation_chain s did act res amt cur (Some t) child org = Inr m"
  obtains ds where "delegation_chain s (cm_delegation m) ds" "list_all (link_ok s t act res) ds"
    "distinct (map dg_child_agent_id ds)"
    "get_permission s (dg_parent_permission_id (last ds)) = Some (cm_root_permission m)"
    "root_ok s t act res (cm_root_permission m)"
    "ca_requires_approval (cm_effective m) \<longleftrightarrow>
       list_ex dg_requires_approval ds \<or> pm_requires_approval (cm_root_permission m)"
    "\<And>a. amt = Some a \<Longrightarrow> list_all (\<lambda>d. within_limit a (dg_maximum_amount d)) ds \<and>
       within_limit a (pm_maximum_amount (cm_root_permission m)) \<and> ca_max_amount (cm_effective m) \<noteq> None"
    "cm_delegation m \<in> set (delegations s)" "dg_delegation_id (cm_delegation m) = did"
    "child = None \<or> child = Some (dg_child_agent_id (cm_delegation m))"
    "org = None \<or> org = Some (dg_organization_id (cm_delegation m))"
    "cm_depth m = length ds"
proof -
  let ?acc0 = "\<lambda>d. \<lparr>ca_requires_approval = False, ca_max_amount = None, ca_currency = None,
                  ca_expires_at = dg_expires_at d, ca_nodes = []\<rparr>"
  from assms obtain d acc where
    d: "find (\<lambda>d. dg_delegation_id d = did) (delegations s) = Some d"
      "child = None \<or> child = Some (dg_child_agent_id d)" "org = None \<or> org = Some (dg_organization_id d)"
    and w: "walk_chain s t act res (Some d) {} (?acc0 d) = Inr acc"
    and v: "verify_root s t act res amt cur d acc = Inr m"
    unfolding verify_delegation_chain_def Let_def
    by (auto simp: rbind_Inr_iff simp del: walk_chain.simps split: option.split_asm if_split_asm)
  from v obtain p where
    p: "get_permission s (dg_parent_permission_id (hd (ca_nodes acc))) = Some p" "root_error s t act res p = None"
    and eff: "cm_effective m = accumulate (pm_requires_approval p) (pm_expires_at p) (pm_maximum_amount p) (pm_currency p) acc"
    and amt: "amount_error amt cur (cm_effective m) = None"
    and m: "cm_delegation m = d" "cm_root_permission m = p" "cm_depth m = length (ca_nodes acc)"
    unfolding verify_root_def Let_def by (auto split: option.split_asm)
  obtain ds where ds: "delegation_chain s d ds" "list_all (link_ok s t act res) ds"
    "distinct (map dg_child_agent_id ds)" "acc = foldl accumulate_link (?acc0 d) ds"
    using walk_chain_sound [OF w] by auto
  have nodes: "ca_nodes acc = rev ds" using ds(4) by (simp add: foldl_accumulate)
  then have last: "hd (ca_nodes acc) = last ds" using delegation_chain_hd [OF ds(1)] by (simp add: hd_rev)
  have bound: "list_all (\<lambda>d. within_limit a (dg_maximum_amount d)) ds \<and> within_limit a (pm_maximum_amount p) \<and>
      ca_max_amount (cm_effective m) \<noteq> None" if "amt = Some a" for a
  proof -
    from amt that have "within_limit a (ca_max_amount (cm_effective m))" "ca_max_amount (cm_effective m) \<noteq> None"
      by (auto simp: amount_error_def within_limit_def split: option.splits if_splits)
    then show ?thesis by (simp add: eff within_accumulate ds(4) foldl_accumulate)
  qed
  show thesis
    using that [of ds] ds d p m eff bound nodes last find_SomeD [OF d(1)]
    by (simp add: root_error_None foldl_accumulate)
qed

section \<open>What the cascade revokes\<close>

text \<open>The delegations reached from a set of ids through active children.\<close>

inductive_set reached :: "AgentDelegation list \<Rightarrow> uuid set \<Rightarrow> uuid set" for ds start where
  start: "i \<in> start \<Longrightarrow> i \<in> reached ds start"
| child: "i \<in> reached ds start \<Longrightarrow> d \<in> set ds \<Longrightarrow> active_child i d \<Longrightarrow> dg_id d \<in> reached ds start"

definition cascaded :: "AgentDelegation list \<Rightarrow> uuid set \<Rightarrow> AgentDelegation \<Rightarrow> bool" where
  "cascaded ds start d = (\<exists>i\<in>reached ds start. active_child i d)"

lemma active_child_unique: "active_child i d \<Longrightarrow> active_child j d \<Longrightarrow> i = j"
  by (simp add: active_child_def)

lemma not_active_child_revoked [simp]: "\<not> active_child i (revoke_row now reason u a d)"
  by (simp add: active_child_def revoke_row_def)

lemma reached_step_sub:
  assumes "j \<in> reached (update_where (active_child i) (revoke_row now reason u a) ds)
             (Q \<union> dg_id ` set (filter (active_child i) ds))"
  shows "j \<in> reached ds (insert i Q)"
  using assms
proof induction
  case (start j)
  then show ?case by (auto intro: reached.start reached.child [OF reached.start])
next
  case (child j d)
  then show ?case by (auto simp: set_update_where intro: reached.child)
qed

lemma reached_step_sup:
  assumes "j \<in> reached ds (insert i Q)"
  shows "j = i \<or> j \<in> reached (update_where (active_child i) (revoke_row now reason u a) ds)
             (Q \<union> dg_id ` set (filter (active_child i) ds))"
  using assms
proof induction
  case (start j)
  then show ?case by (auto intro: reached.start)
next
  case (child j d)
  show ?case
  proof (cases "active_child i d")
    case True
    with child show ?thesis by (auto intro: reached.start)
  next
    case False
    with child have "j \<noteq> i" by auto
    with child False show ?thesis
      by (auto simp: set_update_where intro: reached.child)
  qed
qed

lemma cascaded_step:
  "d \<in> set ds \<Longrightarrow> \<not> active_child i d \<Longrightarrow>
     cascaded (update_where (active_child i) (revoke_row now reason u a) ds)
       (Q \<union> dg_id ` set (filter (active_child i) ds)) d
     = cascaded ds (insert i Q) d"
  unfolding cascaded_def using reached_step_sub reached_step_sup by (metis (no_types, lifting))

lemma cascade_spec:
  "cascade now reason u a q ds = update_where (cascaded ds (set q)) (revoke_row now reason u a) ds"
proof (induction now reason u a q ds rule: cascade.induct)
  case (1 now reason u a ds)
  have "\<not> cascaded ds {} d" for d
    by (auto simp: cascaded_def elim: reached.induct)
  then show ?case by (simp add: update_where_def)
next
  case (2 now reason u a i q ds)
  let ?ds = "update_where (active_child i) (revoke_row now reason u a) ds"
  have Q: "set (q @ map dg_id (filter (active_child i) ds)) = set q \<union> dg_id ` set (filter (active_child i) ds)"
    by auto
  have direct: "cascaded ds (set (i # q)) d" if "active_child i d" for d
    using that by (auto simp: cascaded_def intro: reached.start)
  have "update_where (cascaded ?ds (set q \<union> dg_id ` set (filter (active_child i) ds))) (revoke_row now reason u a) ?ds
      = update_where (cascaded ds (set (i # q))) (revoke_row now reason u a) ds"
    unfolding update_where_def map_map
  proof (rule map_cong [OF refl])
    fix d assume d: "d \<in> set ds"
    show "((\<lambda>x. if cascaded (map (\<lambda>x. if active_child i x then revoke_row now reason u a x else x) ds)
            (set q \<union> dg_id ` set (filter (active_child i) ds)) x then revoke_row now reason u a x else x) \<circ>
          (\<lambda>x. if active_child i x then revoke_row now reason u a x else x)) d =
        (if cascaded ds (set (i # q)) d then revoke_row now reason u a d else d)"
    proof (cases "active_child i d")
      case True
      with direct show ?thesis by (simp add: cascaded_def)
    next
      case False
      with cascaded_step [OF d False, of now reason u a "set q"] show ?thesis by (simp add: update_where_def)
    qed
  qed
  with 2 Q show ?case by simp
qed

section \<open>The delegation state machine\<close>

text \<open>The constraints the request schema puts on a new delegation.\<close>

definition AgentDelegationCreate_valid :: "datetime \<Rightarrow> AgentDelegationCreate \<Rightarrow> bool" where
  "AgentDelegationCreate_valid now payload =
     (dc_parent_agent_id payload \<noteq> dc_child_agent_id payload \<and>
      (dc_maximum_amount payload = None) = (dc_currency payload = None) \<and>
      (case dc_maximum_amount payload of None \<Rightarrow> True | Some m \<Rightarrow> 0 < m) \<and>
      1 \<le> dc_max_delegation_depth payload \<and> dc_max_delegation_depth payload \<le> 5 \<and>
      dc_valid_from payload < dc_expires_at payload \<and> now < dc_expires_at payload)"

inductive delegation_step :: "db \<Rightarrow> db \<Rightarrow> bool" where
  create: "AgentDelegationCreate_valid (clock s) payload \<Longrightarrow> create_delegation s payload = Inr (t, d) \<Longrightarrow>
     delegation_step s t"
| revoke: "revoke_delegation s did u a reason c = Inr (t, d) \<Longrightarrow> delegation_step s t"
| permission: "permission_step s t \<Longrightarrow> delegation_step s t"

text \<open>
  How a delegation narrows what it is derived from: same action and resource, an amount limit
  and currency under the given ones, no later expiry, approval kept.
\<close>

definition narrows :: "AgentDelegation \<Rightarrow> string \<Rightarrow> string \<Rightarrow> rat option \<Rightarrow> string option \<Rightarrow> datetime \<Rightarrow> bool \<Rightarrow> bool" where
  "narrows d act res mx cur ex ap =
     (dg_action d = act \<and> dg_resource d = res \<and>
      (case mx of None \<Rightarrow> True
       | Some m \<Rightarrow> (case dg_maximum_amount d of None \<Rightarrow> False | Some a \<Rightarrow> a \<le> m \<and> dg_currency d = cur)) \<and>
      dg_expires_at d \<le> ex \<and> (\<not> ap \<or> dg_requires_approval d))"

definition narrows_permission :: "AgentDelegation \<Rightarrow> Permission \<Rightarrow> bool" where
  "narrows_permission d p =
     narrows d (pm_action p) (pm_resource p) (pm_maximum_amount p) (pm_currency p) (pm_expires_at p) (pm_requires_approval p)"

definition narrows_delegation :: "AgentDelegation \<Rightarrow> AgentDelegation \<Rightarrow> bool" where
  "narrows_delegation d p =
     narrows d (dg_action p) (dg_resource p) (dg_maximum_amount p) (dg_currency p) (dg_expires_at p) (dg_requires_approval p)"

definition child_of :: "AgentDelegation \<Rightarrow> AgentDelegation \<Rightarrow> bool" where
  "child_of d pd =
     (dg_id pd < dg_id d \<and> dg_child_agent_id pd = dg_parent_agent_id d \<and>
      dg_parent_permission_id pd = dg_parent_permission_id d \<and> narrows_delegation d pd \<and>
      dg_current_depth d = dg_current_depth pd + 1 \<and> dg_max_delegation_depth d \<le> dg_max_delegation_depth pd)"

definition delegation_wf :: "Permission list \<Rightarrow> AgentDelegation list \<Rightarrow> AgentDelegation \<Rightarrow> bool" where
  "delegation_wf ps ds d =
     (dg_current_depth d \<le> dg_max_delegation_depth d \<and> dg_max_delegation_depth d \<le> 5 \<and>
      (case dg_parent_delegation_id d of
         None \<Rightarrow> dg_current_depth d = 1 \<and>
           list_ex (\<lambda>p. pm_id p = dg_parent_permission_id d \<and> pm_agent_id p = dg_parent_agent_id d \<and>
              narrows_permission d p) ps
       | Some i \<Rightarrow> list_ex (\<lambda>pd. dg_id pd = i \<and> child_of d pd) ds))"

definition delegations_inv :: "db \<Rightarrow> bool" where
  "delegations_inv s =
     (permissions_inv s \<and> rows_ok dg_id (next_id s) (delegations s) \<and>
      list_all (delegation_wf (permissions s) (delegations s)) (delegations s))"

text \<open>A row keeps all but its status and revocation data, and never leaves the revoked status.\<close>

definition delegation_evolves :: "AgentDelegation \<Rightarrow> AgentDelegation \<Rightarrow> bool" where
  "delegation_evolves d e =
     (e = d\<lparr>dg_status := dg_status e, dg_revoked_at := dg_revoked_at e,
           dg_revocation_reason := dg_revocation_reason e,
           dg_revoked_by_user_id := dg_revoked_by_user_id e,
           dg_revoked_by_agent_id := dg_revoked_by_agent_id e\<rparr> \<and>
      (dg_status d = DG_REVOKED \<longrightarrow> dg_status e = DG_REVOKED))"

interpretation del_rows: keyed_rows dg_id delegation_evolves
proof
  show "delegation_evolves r r" for r by (simp add: delegation_evolves_def)
  show "delegation_evolves r r''" if "delegation_evolves r r'" "delegation_evolves r' r''" for r r' r''
    using that by (cases r; cases r'; cases r'') (auto simp: delegation_evolves_def)
  show "dg_id r' = dg_id r" if "delegation_evolves r r'" for r r'
    using that by (cases r; cases r') (auto simp: delegation_evolves_def)
qed

abbreviation delegations_evolve :: "db \<Rightarrow> db \<Rightarrow> bool" where
  "delegations_evolve s t \<equiv>
     rows_evolve dg_id delegation_evolves (next_id s) (delegations s) (next_id t) (delegations t)"

lemma delegation_evolves_fields:
  assumes "delegation_evolves d e"
  shows "dg_id e = dg_id d" "dg_delegation_id e = dg_delegation_id d" "dg_parent_agent_id e = dg_parent_agent_id d"
    "dg_child_agent_id e = dg_child_agent_id d" "dg_parent_permission_id e = dg_parent_permission_id d"
    "dg_parent_delegation_id e = dg_parent_delegation_id d" "dg_action e = dg_action d"
    "dg_resource e = dg_resource d" "dg_maximum_amount e = dg_maximum_amount d" "dg_currency e = dg_currency d"
    "dg_requires_approval e = dg_requires_approval d" "dg_current_depth e = dg_current_depth d"
    "dg_max_delegation_depth e = dg_max_delegation_depth d" "dg_expires_at e = dg_expires_at d"
  using assms by (cases d; cases e; simp add: delegation_evolves_def)+

lemma permission_evolves_fields:
  assumes "permission_evolves p q"
  shows "pm_id q = pm_id p" "pm_agent_id q = pm_agent_id p" "pm_action q = pm_action p"
    "pm_resource q = pm_resource p" "pm_maximum_amount q = pm_maximum_amount p" "pm_currency q = pm_currency p"
    "pm_expires_at q = pm_expires_at p" "pm_requires_approval q = pm_requires_approval p"
    "pm_owner_id q = pm_owner_id p" "pm_allow_delegation q = pm_allow_delegation p"
  using assms by (cases p; cases q; simp add: permission_evolves_def)+

lemma narrows_evolves: "delegation_evolves d e \<Longrightarrow> narrows e = narrows d"
  by (intro ext) (simp add: narrows_def delegation_evolves_fields cong: option.case_cong)

lemma child_of_evolves:
  "delegation_evolves d e \<Longrightarrow> delegation_evolves pd pe \<Longrightarrow> child_of d pd = child_of e pe"
  by (simp add: child_of_def narrows_delegation_def narrows_evolves delegation_evolves_fields)

lemma delegation_wf_evolves:
  assumes "delegation_wf ps ds d" "delegation_evolves d e"
    and "\<And>p. p \<in> set ps \<Longrightarrow> \<exists>q\<in>set ps'. permission_evolves p q"
    and "\<And>x. x \<in> set ds \<Longrightarrow> \<exists>y\<in>set ds'. delegation_evolves x y"
  shows "delegation_wf ps' ds' e"
proof (cases "dg_parent_delegation_id d")
  case None
  with assms(1) obtain p where p: "p \<in> set ps" "pm_id p = dg_parent_permission_id d"
    "pm_agent_id p = dg_parent_agent_id d" "narrows_permission d p"
    by (auto simp: delegation_wf_def list_ex_iff)
  then obtain q where q: "q \<in> set ps'" "permission_evolves p q" using assms(3) by blast
  with p have "narrows_permission e q"
    by (simp add: narrows_permission_def narrows_evolves [OF assms(2)] permission_evolves_fields)
  moreover have "pm_id q = dg_parent_permission_id e" "pm_agent_id q = dg_parent_agent_id e"
    using p permission_evolves_fields [OF q(2)] delegation_evolves_fields [OF assms(2)] by simp_all
  ultimately show ?thesis
    using None assms(1) q(1) by (auto simp: delegation_wf_def list_ex_iff delegation_evolves_fields [OF assms(2)])
next
  case (Some i)
  with assms(1) obtain pd where pd: "pd \<in> set ds" "dg_id pd = i" "child_of d pd"
    by (auto simp: delegation_wf_def list_ex_iff)
  then obtain pe where pe: "pe \<in> set ds'" "delegation_evolves pd pe" using assms(4) by blast
  with pd have "child_of e pe" "dg_id pe = i"
    using child_of_evolves [OF assms(2) pe(2)] delegation_evolves_fields [OF pe(2)] by simp_all
  with Some assms(1) pe(1) show ?thesis
    by (auto simp: delegation_wf_def list_ex_iff delegation_evolves_fields [OF assms(2)])
qed

lemma delegations_inv_evolve:
  assumes "delegations_inv s" "permissions_evolve s t" "delegations_evolve s t"
    and "\<And>d. d \<in> set (delegations t) \<Longrightarrow> next_id s \<le> dg_id d \<Longrightarrow> delegation_wf (permissions t) (delegations t) d"
  shows "delegations_inv t"
proof -
  have "delegation_wf (permissions t) (delegations t) e" if e: "e \<in> set (delegations t)" for e
  proof (cases "next_id s \<le> dg_id e")
    case False
    then obtain d where d: "d \<in> set (delegations s)" "delegation_evolves d e"
      using rows_evolve_back [OF assms(3) e] by auto
    then have "delegation_wf (permissions s) (delegations s) d"
      using assms(1) by (simp add: delegations_inv_def list_all_iff)
    then show ?thesis
      by (rule delegation_wf_evolves [OF _ d(2)])
        (use rows_evolve_fwd [OF assms(2)] rows_evolve_fwd [OF assms(3)] in auto)
  qed (use assms(4) e in blast)
  then show ?thesis
    using perm_rows.evolve_ok [OF assms(2)] del_rows.evolve_ok [OF assms(3)]
    by (simp add: delegations_inv_def list_all_iff)
qed

lemma check_narrowing_narrows:
  "check_narrowing payload act res mx cur ex ap = Inr r \<Longrightarrow>
     dg_action d = dc_action payload \<Longrightarrow> dg_resource d = dc_resource payload \<Longrightarrow>
     dg_maximum_amount d = dc_maximum_amount payload \<Longrightarrow> dg_currency d = dc_currency payload \<Longrightarrow>
     dg_expires_at d = dc_expires_at payload \<Longrightarrow> dg_requires_approval d = dc_requires_approval payload \<Longrightarrow>
     narrows d act res mx cur ex ap"
  by (auto simp: check_narrowing_def narrows_def rbind_Inr_iff split: if_splits option.splits)

text \<open>The row a successful creation adds.\<close>

lemma create_delegation_cases:
  assumes "create_delegation s payload = Inr (t, d)"
  obtains parent_agent child_agent org p cd md where
    "check_agents s payload = Inr (parent_agent, child_agent, org)"
    "check_permission s payload parent_agent (clock s) = Inr p"
    "(case dc_parent_delegation_id payload of
        Some i \<Rightarrow> check_parent_delegation s payload parent_agent child_agent p (clock s) i
      | None \<Rightarrow> check_root_delegation payload p) = Inr (cd, md)"
    "t = s\<lparr>next_id := Suc (Suc (next_id s)), delegations := delegations s @ [d]\<rparr>"
    "dg_id d = Suc (next_id s)" "dg_current_depth d = cd" "dg_max_delegation_depth d = md"
    "dg_parent_agent_id d = dc_parent_agent_id payload" "dg_child_agent_id d = dc_child_agent_id payload"
    "dg_parent_permission_id d = dc_parent_permission_id payload"
    "dg_parent_delegation_id d = dc_parent_delegation_id payload" "dg_organization_id d = org"
    "dg_action d = dc_action payload" "dg_resource d = dc_resource payload"
    "dg_maximum_amount d = dc_maximum_amount payload" "dg_currency d = dc_currency payload"
    "dg_expires_at d = dc_expires_at payload" "dg_requires_approval d = dc_requires_approval payload"
    "dg_status d = DG_ACTIVE" "dg_valid_from d = dc_valid_from payload"
  using assms unfolding create_delegation_def
  by (auto simp: rbind_Inr_iff fresh_def Let_def split: prod.splits)

lemma check_agents_ok:
  "check_agents s payload = Inr (pa, ca, org) \<Longrightarrow>
     get_agent s (dc_parent_agent_id payload) = Some pa \<and> get_agent s (dc_child_agent_id payload) = Some ca \<and>
     ag_id pa = dc_parent_agent_id payload \<and> ag_id ca = dc_child_agent_id payload \<and> ag_status pa = AG_ACTIVE \<and>
     ag_status ca = AG_ACTIVE \<and> ag_organization_id pa = Some org \<and> ag_organization_id ca = Some org \<and>
     dc_parent_agent_id payload \<noteq> dc_child_agent_id payload"
  by (auto simp: check_agents_def get_agent_def dest: find_SomeD split: if_splits option.splits)

lemma check_permission_ok:
  "check_permission s payload pa now = Inr p \<Longrightarrow>
     p \<in> set (permissions s) \<and> pm_id p = dc_parent_permission_id payload \<and> permission_is_usable p now \<and>
     pm_allow_delegation p \<and> (dc_parent_delegation_id payload = None \<longrightarrow> pm_agent_id p = ag_id pa)"
  by (auto simp: check_permission_def get_permission_def dest: find_SomeD split: if_splits option.splits)

lemma check_parent_ok:
  "check_parent_delegation s payload pa ca p now i = Inr (cd, md) \<Longrightarrow>
     \<exists>pd\<in>set (delegations s). dg_id pd = i \<and> delegation_is_usable pd now \<and> dg_child_agent_id pd = ag_id pa \<and>
       dg_parent_permission_id pd = pm_id p \<and> cd = dg_current_depth pd + 1 \<and>
       md = min (dg_max_delegation_depth pd) (dc_max_delegation_depth payload) \<and> cd \<le> md \<and>
       dg_allow_further_delegation pd \<and>
       check_narrowing payload (dg_action pd) (dg_resource pd) (dg_maximum_amount pd)
         (dg_currency pd) (dg_expires_at pd) (dg_requires_approval pd) = Inr ()"
  by (auto simp: check_parent_delegation_def get_delegation_def rbind_Inr_iff Let_def
      dest!: find_SomeD split: if_splits option.splits)

lemma create_delegation_inv:
  assumes "delegations_inv s" "AgentDelegationCreate_valid (clock s) payload"
    and "create_delegation s payload = Inr (t, d)"
  shows "delegations_inv t"
proof -
  from assms(3) obtain pa ca org p cd md where
    ag: "check_agents s payload = Inr (pa, ca, org)"
    and pm: "check_permission s payload pa (clock s) = Inr p"
    and par: "(case dc_parent_delegation_id payload of
        Some i \<Rightarrow> check_parent_delegation s payload pa ca p (clock s) i
      | None \<Rightarrow> check_root_delegation payload p) = Inr (cd, md)"
    and t: "t = s\<lparr>next_id := Suc (Suc (next_id s)), delegations := delegations s @ [d]\<rparr>"
    and d: "dg_id d = Suc (next_id s)" "dg_current_depth d = cd" "dg_max_delegation_depth d = md"
      "dg_parent_agent_id d = dc_parent_agent_id payload"
      "dg_parent_permission_id d = dc_parent_permission_id payload"
      "dg_parent_delegation_id d = dc_parent_delegation_id payload"
    and same: "dg_action d = dc_action payload" "dg_resource d = dc_resource payload"
      "dg_maximum_amount d = dc_maximum_amount payload" "dg_currency d = dc_currency payload"
      "dg_expires_at d = dc_expires_at payload" "dg_requires_approval d = dc_requires_approval payload"
    by (rule create_delegation_cases) metis
  have depth: "1 \<le> dc_max_delegation_depth payload" "dc_max_delegation_depth payload \<le> 5"
    using assms(2) by (auto simp: AgentDelegationCreate_valid_def)
  note p = check_permission_ok [OF pm] and a = check_agents_ok [OF ag]
  have wf: "delegation_wf (permissions s) (delegations s @ [d]) d"
  proof (cases "dc_parent_delegation_id payload")
    case None
    with par have n: "check_narrowing payload (pm_action p) (pm_resource p) (pm_maximum_amount p)
        (pm_currency p) (pm_expires_at p) (pm_requires_approval p) = Inr ()" and cd: "cd = 1" "md = dc_max_delegation_depth payload"
      by (auto simp: check_root_delegation_def rbind_Inr_iff)
    have "narrows_permission d p"
      unfolding narrows_permission_def using n same by (rule check_narrowing_narrows)
    with None cd depth d p a show ?thesis by (auto simp: delegation_wf_def list_ex_iff)
  next
    case (Some i)
    with par obtain pd where pd: "pd \<in> set (delegations s)" "dg_id pd = i" "dg_child_agent_id pd = ag_id pa"
      "dg_parent_permission_id pd = pm_id p" "cd = dg_current_depth pd + 1"
      "md = min (dg_max_delegation_depth pd) (dc_max_delegation_depth payload)" "cd \<le> md"
      and "check_narrowing payload (dg_action pd) (dg_resource pd) (dg_maximum_amount pd)
         (dg_currency pd) (dg_expires_at pd) (dg_requires_approval pd) = Inr ()"
      using check_parent_ok [of s payload pa ca p "clock s" i cd md] by auto
    from this(8) have "narrows_delegation d pd"
      unfolding narrows_delegation_def using same by (rule check_narrowing_narrows)
    moreover have "dg_id pd < dg_id d"
      using assms(1) pd(1) d(1) by (auto simp: delegations_inv_def rows_ok_def list_all_iff)
    ultimately have "child_of d pd"
      using pd d p a by (simp add: child_of_def)
    with pd Some d depth show ?thesis by (auto simp: delegation_wf_def list_ex_iff)
  qed
  show ?thesis
  proof (rule delegations_inv_evolve [OF assms(1)])
    show "permissions_evolve s t"
      using assms(1) by (simp add: t delegations_inv_def perm_rows.evolve_refl)
    show "delegations_evolve s t"
      using assms(1) d(1) by (simp add: t delegations_inv_def del_rows.evolve_snoc)
    show "delegation_wf (permissions t) (delegations t) x" if "x \<in> set (delegations t)" "next_id s \<le> dg_id x" for x
      using that assms(1) wf by (auto simp: t delegations_inv_def rows_ok_def list_all_iff)
  qed
qed

lemma evolves_revoke_row: "delegation_evolves d (revoke_row now reason u a d)"
  by (simp add: delegation_evolves_def revoke_row_def)

lemma revoke_delegation_cases:
  assumes "revoke_delegation s did u a reason c = Inr (t, d')"
  obtains d r1 r2 where "find (\<lambda>d. dg_delegation_id d = did) (delegations s) = Some d"
    "d' = revoke_row (clock s) r1 u a d"
    "t = s\<lparr>delegations := update_where
        (\<lambda>x. c \<and> cascaded (update_where (\<lambda>x. dg_id x = dg_id d) (\<lambda>_. d') (delegations s)) {dg_id d} x)
        (revoke_row (clock s) r2 u a) (update_where (\<lambda>x. dg_id x = dg_id d) (\<lambda>_. d') (delegations s))\<rparr>"
  using assms unfolding revoke_delegation_def Let_def cascade_spec
  by (auto simp: update_where_def split: option.splits if_splits)

lemma revoke_delegation_evolve:
  assumes "rows_ok dg_id (next_id s) (delegations s)" "revoke_delegation s did u a reason c = Inr (t, d')"
  shows "delegations_evolve s t" "next_id t = next_id s" "permissions t = permissions s"
proof -
  from assms(2) obtain d r1 r2 where
    d: "find (\<lambda>d. dg_delegation_id d = did) (delegations s) = Some d" "d' = revoke_row (clock s) r1 u a d"
    and t: "t = s\<lparr>delegations := update_where
        (\<lambda>x. c \<and> cascaded (update_where (\<lambda>x. dg_id x = dg_id d) (\<lambda>_. d') (delegations s)) {dg_id d} x)
        (revoke_row (clock s) r2 u a) (update_where (\<lambda>x. dg_id x = dg_id d) (\<lambda>_. d') (delegations s))\<rparr>"
    by (rule revoke_delegation_cases)
  have "delegation_evolves x d'" if "x \<in> set (delegations s)" "dg_id x = dg_id d" for x
    using rows_ok_same_key [OF assms(1) that(1) _ that(2)] find_SomeD [OF d(1)] d(2) evolves_revoke_row by metis
  then have one: "rows_evolve dg_id delegation_evolves (next_id s) (delegations s) (next_id s)
      (update_where (\<lambda>x. dg_id x = dg_id d) (\<lambda>_. d') (delegations s))"
    by (intro del_rows.evolve_update_where assms(1)) auto
  then show "delegations_evolve s t"
    unfolding t using del_rows.evolve_ok [OF one]
    by (auto intro!: del_rows.evolve_trans [OF one] del_rows.evolve_update_where evolves_revoke_row)
qed (use assms(2) in \<open>auto elim!: revoke_delegation_cases\<close>)

lemma permission_step_delegations: "permission_step s t \<Longrightarrow> delegations t = delegations s"
  by (erule permission_step.cases)
     (auto simp: create_permission_def list_owned_permissions_def get_owned_permission_def
        revoke_owned_permission_def set_permission_status_def fresh_def Let_def db_simps
        split: option.splits if_splits prod.splits)

lemma delegation_step_evolve:
  assumes "delegations_inv s" "delegation_step s t"
  shows "delegations_evolve s t" "permissions_evolve s t" "delegations_inv t"
proof -
  have ok: "permissions_inv s" "rows_ok dg_id (next_id s) (delegations s)"
    using assms(1) by (simp_all add: delegations_inv_def)
  from assms(2) have "delegations_evolve s t \<and> permissions_evolve s t \<and> delegations_inv t"
  proof cases
    case (create payload d)
    with assms(1) have "delegations_inv t" by (auto intro: create_delegation_inv)
    with create(2) ok show ?thesis
      by (elim create_delegation_cases) (simp add: del_rows.evolve_snoc perm_rows.evolve_refl)
  next
    case (revoke did u a reason c d)
    note ev = revoke_delegation_evolve [OF ok(2) revoke]
    then have "permissions_evolve s t" using ok by (simp add: perm_rows.evolve_refl)
    moreover have "delegations_inv t"
      using del_rows.evolve_ok [OF ev(1)] ev(2)
      by (intro delegations_inv_evolve [OF assms(1) calculation ev(1)]) (auto simp: rows_ok_def list_all_iff)
    ultimately show ?thesis using ev(1) by simp
  next
    case permission
    note ev = permission_step_evolves [OF ok(1) permission]
    have "delegations_evolve s t"
      using ok(2) rows_evolve_le [OF ev] by (simp add: permission_step_delegations [OF permission] del_rows.evolve_refl)
    moreover have "delegations_inv t"
      using ok(2) by (intro delegations_inv_evolve [OF assms(1) ev calculation])
        (auto simp: permission_step_delegations [OF permission] rows_ok_def list_all_iff)
    ultimately show ?thesis using ev by simp
  qed
  then show "delegations_evolve s t" "permissions_evolve s t" "delegations_inv t" by simp_all
qed

interpretation del_sys: transition_system
  "\<lambda>s. permissions_inv s \<and> delegations s = []" delegation_step delegations_inv
proof
  show "delegations_inv s" if "permissions_inv s \<and> delegations s = []" for s
    using that by (simp add: delegations_inv_def rows_ok_def)
  show "delegations_inv t" if "delegations_inv s" "delegation_step s t" for s t
    using that by (rule delegation_step_evolve(3))
qed

lemma get_delegation_iff:
  "rows_ok dg_id n (delegations s) \<Longrightarrow> get_delegation s i = Some d \<longleftrightarrow> d \<in> set (delegations s) \<and> dg_id d = i"
  unfolding get_delegation_def by (rule rows_ok_find)

lemma narrows_trans:
  "narrows_delegation d pd \<Longrightarrow> narrows_permission pd p \<Longrightarrow> narrows_permission d p"
  by (auto simp: narrows_delegation_def narrows_permission_def narrows_def split: option.splits)

lemma chain_attenuates:
  assumes "delegations_inv s"
  shows "d \<in> set (delegations s) \<Longrightarrow>
    \<exists>ds p. delegation_chain s d ds \<and> int (length ds) = dg_current_depth d \<and>
      get_permission s (dg_parent_permission_id d) = Some p \<and> narrows_permission d p \<and>
      pm_agent_id p = dg_parent_agent_id (last ds)"
proof (induction "dg_id d" arbitrary: d rule: less_induct)
  case less
  have ok: "permissions_inv s" "rows_ok dg_id (next_id s) (delegations s)"
    and wf: "delegation_wf (permissions s) (delegations s) d"
    using assms less.prems by (auto simp: delegations_inv_def list_all_iff)
  show ?case
  proof (cases "dg_parent_delegation_id d")
    case None
    then have "next_delegation s d = None" by (simp add: next_delegation_def)
    with None wf show ?thesis
      by (intro exI [of _ "[d]"])
        (auto simp: delegation_wf_def list_ex_iff get_permission_def rows_ok_find [OF ok(1)] intro: delegation_chain.root)
  next
    case (Some i)
    with wf obtain pd where pd: "pd \<in> set (delegations s)" "dg_id pd = i" "child_of d pd"
      by (auto simp: delegation_wf_def list_ex_iff)
    then obtain ds p where IH: "delegation_chain s pd ds" "int (length ds) = dg_current_depth pd"
      "get_permission s (dg_parent_permission_id pd) = Some p" "narrows_permission pd p"
      "pm_agent_id p = dg_parent_agent_id (last ds)"
      using less.hyps [of pd] by (auto simp: child_of_def)
    have "next_delegation s d = Some pd"
      using Some pd get_delegation_iff [OF ok(2), of i pd] by (simp add: next_delegation_def)
    with IH pd show ?thesis
      by (intro exI [of _ "d # ds"] exI [of _ p])
        (auto simp: child_of_def intro: delegation_chain.up narrows_trans dest: delegation_chain_hd)
  qed
qed

lemma collect_chain_total: "delegation_chain s d ds \<Longrightarrow> collect_chain s d = Some ds"
  by (induction rule: delegation_chain.induct) (subst collect_chain.simps, simp)+

lemma get_delegation_chain_returns:
  assumes "delegations_inv s" "find (\<lambda>d. dg_delegation_id d = did) (delegations s) = Some d"
  obtains v where "get_delegation_chain s did = Some (Inr v)"
    "int (length (cv_chain v)) = dg_current_depth d + 1" "cn_depth (hd (cv_chain v)) = 0"
    "last (cv_chain v) = delegation_node s d"
proof -
  obtain ds p where ds: "delegation_chain s d ds" "int (length ds) = dg_current_depth d"
    "get_permission s (dg_parent_permission_id d) = Some p"
    using chain_attenuates [OF assms(1)] find_SomeD [OF assms(2)] by blast
  have ne: "ds \<noteq> []" "hd ds = d" using delegation_chain_hd [OF ds(1)] by simp_all
  then have "last (rev (map (delegation_node s) ds)) = delegation_node s d"
    by (simp add: last_rev hd_map)
  with ds ne show thesis
    by (intro that) (auto simp: get_delegation_chain_def assms(2) collect_chain_total [OF ds(1)] Let_def
        permission_node_def)
qed

lemma delegation_chain_det: "delegation_chain s d ds \<Longrightarrow> delegation_chain s d ds' \<Longrightarrow> ds = ds'"
  by (metis collect_chain_total option.inject)

lemma delegation_chain_in_table:
  "delegation_chain s d ds \<Longrightarrow> d \<in> set (delegations s) \<Longrightarrow> set ds \<subseteq> set (delegations s)"
  by (induction rule: delegation_chain.induct)
     (auto simp: next_delegation_def get_delegation_def dest: find_SomeD split: option.splits)

lemma revoke_delegation_rows:
  assumes "revoke_delegation s did u a reason c = Inr (t, d')" "x \<in> set (delegations t)" "dg_id x = dg_id d'"
  shows "dg_status x = DG_REVOKED"
  using assms by (elim revoke_delegation_cases) (auto simp: set_update_where revoke_row_def)

section \<open>A small delegation\<close>

definition demo_payload :: AgentDelegationCreate where
  "demo_payload = \<lparr>dc_parent_agent_id = 10, dc_child_agent_id = 11, dc_parent_permission_id = 20,
     dc_parent_delegation_id = None, dc_action = ''purchase'', dc_resource = ''books'',
     dc_maximum_amount = Some 200, dc_currency = Some ''USD'', dc_requires_approval = False,
     dc_allow_further_delegation = True, dc_max_delegation_depth = 3, dc_valid_from = 0,
     dc_expires_at = days 10\<rparr>"

definition demo_delegated :: "db \<times> AgentDelegation" where
  "demo_delegated = projr (create_delegation demo_db demo_payload)"

lemma demo_create: "create_delegation demo_db demo_payload = Inr demo_delegated"
  unfolding demo_delegated_def
  by (simp add: create_delegation_def check_agents_def check_permission_def check_root_delegation_def
      check_narrowing_def get_agent_def get_permission_def permission_is_usable_def demo_payload_def
      demo_defs fresh_def Let_def)

lemma demo_delegation_steps: "delegation_step\<^sup>*\<^sup>* demo_db (fst demo_delegated)"
proof -
  have "AgentDelegationCreate_valid (clock demo_db) demo_payload"
    by (simp add: AgentDelegationCreate_valid_def demo_payload_def demo_defs)
  then show ?thesis
    using demo_create by (intro r_into_rtranclp delegation_step.create [where d = "snd demo_delegated"]) simp_all
qed

lemma demo_delegation_init: "permissions_inv demo_db" "delegations demo_db = []"
  by (rule demo_permissions_inv) (simp add: demo_defs)

lemma demo_delegated_table: "delegations (fst demo_delegated) = [snd demo_delegated]"
  using create_delegation_cases [of demo_db demo_payload "fst demo_delegated" "snd demo_delegated"] demo_create
  by (force simp: demo_delegation_init)

lemma demo_in_table: "snd demo_delegated \<in> set (delegations (fst demo_delegated))"
  by (simp add: demo_delegated_table)

definition demo_meta :: chain_meta where
  "demo_meta = projr (verify_delegation_chain (fst demo_delegated) (dg_delegation_id (snd demo_delegated))
    ''purchase'' ''books'' (Some 150) (Some ''USD'') (Some 5) (Some 11) (Some 7))"

lemma demo_verify: "verify_delegation_chain (fst demo_delegated) (dg_delegation_id (snd demo_delegated))
    ''purchase'' ''books'' (Some 150) (Some ''USD'') (Some 5) (Some 11) (Some 7) = Inr demo_meta"
  unfolding demo_meta_def by code_simp

text \<open>Two delegations of one permission, the first one revoked.\<close>

definition demo_two :: "db \<times> AgentDelegation" where
  "demo_two = projr (create_delegation (fst demo_delegated) demo_payload)"

definition demo_revoked :: "db \<times> AgentDelegation" where
  "demo_revoked = projr (revoke_delegation (fst demo_two) (dg_delegation_id (snd demo_delegated)) None None None True)"

lemma demo_revoke:
  "revoke_delegation (fst demo_two) (dg_delegation_id (snd demo_delegated)) None None None True =
     Inr (fst demo_revoked, snd demo_revoked)"
  unfolding demo_revoked_def by code_simp

definition demo_other :: chain_meta where
  "demo_other = projr (verify_delegation_chain (fst demo_revoked) (dg_delegation_id (snd demo_two))
    ''purchase'' ''books'' None None (Some 5) None None)"

lemma demo_other_verify: "verify_delegation_chain (fst demo_revoked) (dg_delegation_id (snd demo_two))
    ''purchase'' ''books'' None None (Some 5) None None = Inr demo_other"
  unfolding demo_other_def by code_simp

section \<open>Properties of delegation\<close>

text \<open>
  C2. Delegation only attenuates. In every state reached from one without delegations by
  creating and revoking delegations and by the permission operations, each delegation has a
  finite chain to a root permission, whose length is its recorded depth and at most five, and
  it narrows that permission: same action and resource, no larger amount in the same
  currency, no later expiry, and approval required whenever the permission requires it.
\<close>

theorem delegation_attenuates:
  assumes "permissions_inv s0 \<and> delegations s0 = []" "delegation_step\<^sup>*\<^sup>* s0 s" "d \<in> set (delegations s)"
  shows "\<exists>ds p. delegation_chain s d ds \<and> int (length ds) = dg_current_depth d \<and> dg_current_depth d \<le> 5 \<and>
    get_permission s (dg_parent_permission_id d) = Some p \<and> narrows_permission d p"
proof -
  have inv: "delegations_inv s" using del_sys.inv_reachable [OF assms(1,2)] .
  then have "delegation_wf (permissions s) (delegations s) d"
    using assms(3) by (simp add: delegations_inv_def list_all_iff)
  then have "dg_current_depth d \<le> 5" by (simp add: delegation_wf_def)
  with chain_attenuates [OF inv assms(3)] show ?thesis by blast
qed

theorem delegation_attenuates_witness:
  "\<exists>ds p. delegation_chain (fst demo_delegated) (snd demo_delegated) ds \<and>
    int (length ds) = dg_current_depth (snd demo_delegated) \<and> dg_current_depth (snd demo_delegated) \<le> 5 \<and>
    get_permission (fst demo_delegated) (dg_parent_permission_id (snd demo_delegated)) = Some p \<and>
    narrows_permission (snd demo_delegated) p"
  by (rule delegation_attenuates [OF _ demo_delegation_steps demo_in_table]) (simp add: demo_delegation_init)

text \<open>
  C3. What a successful verification guarantees: the whole chain up to the root permission is
  live at the checked time (every delegation active and in its window, both its agents
  active, no agent twice), action and resource are those of the request on every link and on
  the permission, the permission is usable, delegable and of an active agent, and a given
  amount is within every limit of the chain and of the permission. Approval is required iff
  the permission or a link requires it.
\<close>

theorem verify_delegation_chain_sound:
  assumes "verify_delegation_chain s did act res amt cur (Some t) child org = Inr m"
  shows "\<exists>ds. delegation_chain s (cm_delegation m) ds \<and> list_all (link_ok s t act res) ds \<and>
    distinct (map dg_child_agent_id ds) \<and>
    get_permission s (dg_parent_permission_id (last ds)) = Some (cm_root_permission m) \<and>
    root_ok s t act res (cm_root_permission m) \<and>
    (ca_requires_approval (cm_effective m) \<longleftrightarrow>
       list_ex dg_requires_approval ds \<or> pm_requires_approval (cm_root_permission m)) \<and>
    (case amt of None \<Rightarrow> True
     | Some a \<Rightarrow> list_all (\<lambda>d. within_limit a (dg_maximum_amount d)) ds \<and>
                 within_limit a (pm_maximum_amount (cm_root_permission m)))"
proof -
  have amt: "case amt of None \<Rightarrow> True | Some a \<Rightarrow> P a" if "\<And>a. amt = Some a \<Longrightarrow> P a" for P
    using that by (simp split: option.split)
  show ?thesis
    by (rule verify_sound [OF assms], intro exI conjI) (assumption | rule amt | simp)+
qed

theorem verify_delegation_chain_sound_witness:
  "\<exists>ds. delegation_chain (fst demo_delegated) (cm_delegation demo_meta) ds \<and>
     list_all (link_ok (fst demo_delegated) 5 ''purchase'' ''books'') ds"
  using verify_delegation_chain_sound [OF demo_verify] by blast

text \<open>
  A revoked delegation blocks its whole subtree: after a revocation, with or without
  cascade, no verification succeeds for a delegation whose chain passes through the revoked
  one.
\<close>

theorem revoked_delegation_blocks_chain:
  assumes "revoke_delegation s did u a reason c = Inr (t, d')"
    and "verify_delegation_chain t did2 act res amt cur (Some now) child org = Inr m"
    and "delegation_chain t (cm_delegation m) ds"
  shows "list_all (\<lambda>x. dg_id x \<noteq> dg_id d') ds"
proof -
  obtain ds' where "delegation_chain t (cm_delegation m) ds'" "list_all (link_ok t now act res) ds'"
    and m: "cm_delegation m \<in> set (delegations t)"
    by (rule verify_sound [OF assms(2)])
  with assms(3) have "list_all (link_ok t now act res) ds" using delegation_chain_det by metis
  with revoke_delegation_rows [OF assms(1)] delegation_chain_in_table [OF assms(3) m] show ?thesis
    by (fastforce simp: list_all_iff link_ok_def delegation_is_usable_def)
qed

theorem revoked_delegation_blocks_chain_witness:
  "\<exists>ds. delegation_chain (fst demo_revoked) (cm_delegation demo_other) ds \<and>
     list_all (\<lambda>x. dg_id x \<noteq> dg_id (snd demo_revoked)) ds"
  by (rule verify_sound [OF demo_other_verify], rule exI, rule conjI, assumption)
     (rule revoked_delegation_blocks_chain [OF demo_revoke demo_other_verify])

text \<open>
  The cascade revokes exactly the active subtree: the rows after a cascading revocation are
  the rows before, where the named delegation and every active delegation reached from it
  through active parents is revoked, and every other row is untouched.
\<close>

theorem revoke_delegation_cascades:
  assumes "revoke_delegation s did u a reason True = Inr (t, d')"
  shows "\<exists>d r1 r2. find (\<lambda>d. dg_delegation_id d = did) (delegations s) = Some d \<and>
     d' = revoke_row (clock s) r1 u a d \<and>
     (let ds = update_where (\<lambda>x. dg_id x = dg_id d) (\<lambda>_. d') (delegations s) in
      delegations t = map (\<lambda>x. if cascaded ds {dg_id d} x then revoke_row (clock s) r2 u a x else x) ds) \<and>
     permissions t = permissions s \<and> agents t = agents s"
  using assms by (elim revoke_delegation_cases) (force simp: update_where_def)

theorem revoke_delegation_cascades_witness:
  "\<exists>d r1 r2. find (\<lambda>d. dg_delegation_id d = dg_delegation_id (snd demo_delegated)) (delegations (fst demo_two)) = Some d \<and>
     snd demo_revoked = revoke_row (clock (fst demo_two)) r1 None None d \<and>
     (let ds = update_where (\<lambda>x. dg_id x = dg_id d) (\<lambda>_. snd demo_revoked) (delegations (fst demo_two)) in
      delegations (fst demo_revoked) =
        map (\<lambda>x. if cascaded ds {dg_id d} x then revoke_row (clock (fst demo_two)) r2 None None x else x) ds) \<and>
     permissions (fst demo_revoked) = permissions (fst demo_two) \<and> agents (fst demo_revoked) = agents (fst demo_two)"
  by (rule revoke_delegation_cascades [OF demo_revoke])

text \<open>
  Revocation is final: whatever delegation and permission operations follow, a delegation
  keeps its grant, and one that is revoked stays revoked.
\<close>

theorem delegation_revocation_final:
  assumes "permissions_inv s0 \<and> delegations s0 = []" "delegation_step\<^sup>*\<^sup>* s0 s" "delegation_step\<^sup>*\<^sup>* s t"
    and "d \<in> set (delegations s)"
  shows "\<exists>e. get_delegation t (dg_id d) = Some e \<and> delegation_evolves d e"
proof -
  have inv: "delegations_inv s" using del_sys.inv_reachable [OF assms(1,2)] .
  have inv_t: "delegations_inv t" using del_sys.inv_steps [OF assms(3) inv] .
  have "delegations_inv t \<and> delegations_evolve s t"
    using assms(3)
  proof (induction rule: rtranclp_induct)
    case base
    then show ?case using inv by (simp add: delegations_inv_def del_rows.evolve_refl)
  next
    case (step u v)
    then show ?case using delegation_step_evolve [of u v] del_rows.evolve_trans by blast
  qed
  then obtain e where "e \<in> set (delegations t)" "delegation_evolves d e" "dg_id e = dg_id d"
    using del_rows.evolve_row assms(4) by metis
  with inv_t show ?thesis
    using get_delegation_iff [of "next_id t" t "dg_id d" e] by (auto simp: delegations_inv_def)
qed

theorem delegation_revocation_final_witness:
  "\<exists>e. get_delegation (fst demo_delegated) (dg_id (snd demo_delegated)) = Some e \<and>
     delegation_evolves (snd demo_delegated) e"
  by (rule delegation_revocation_final [OF _ demo_delegation_steps rtranclp.rtrancl_refl demo_in_table])
     (simp add: demo_delegation_init)

text \<open>
  C39. The chain view always returns: in every reachable state the request for an existing
  delegation ends with a response whose chain has one node per delegation of its depth plus
  the root permission, root first and the delegation itself last.
\<close>

theorem get_delegation_chain_terminates:
  assumes "permissions_inv s0 \<and> delegations s0 = []" "delegation_step\<^sup>*\<^sup>* s0 s"
    and "find (\<lambda>d. dg_delegation_id d = did) (delegations s) = Some d"
  shows "\<exists>v. get_delegation_chain s did = Some (Inr v) \<and>
    int (length (cv_chain v)) = dg_current_depth d + 1 \<and> cn_depth (hd (cv_chain v)) = 0 \<and>
    last (cv_chain v) = delegation_node s d"
  by (rule get_delegation_chain_returns [OF del_sys.inv_reachable [OF assms(1,2)] assms(3)]) blast

theorem get_delegation_chain_terminates_witness:
  "\<exists>v. get_delegation_chain (fst demo_delegated) (dg_delegation_id (snd demo_delegated)) = Some (Inr v) \<and>
    int (length (cv_chain v)) = dg_current_depth (snd demo_delegated) + 1 \<and> cn_depth (hd (cv_chain v)) = 0 \<and>
    last (cv_chain v) = delegation_node (fst demo_delegated) (snd demo_delegated)"
  by (rule get_delegation_chain_terminates [OF _ demo_delegation_steps])
     (simp add: demo_delegation_init, simp add: demo_delegated_table)

end
