(* ===== verification/Authorization_Safety.thy ===== *)
theory Authorization_Safety
  imports Authorization Delegation_Safety APL_Validator
begin

text \<open>
  What the authorization decision guarantees: the matching of permissions, the record every
  decision leaves, the grounds of an approval and the way the later stages restrict it.
\<close>

section \<open>Permission matching\<close>

text \<open>What it means for a permission to allow a request at a time.\<close>

definition permits :: "Permission \<Rightarrow> AuthorizationRequest \<Rightarrow> datetime \<Rightarrow> bool" where
  "permits p request t =
     (pm_action p = ar_action request \<and> pm_resource p = ar_resource request \<and> permission_is_usable p t \<and>
      (case ar_amount request of
         None \<Rightarrow> pm_maximum_amount p = None
       | Some d \<Rightarrow> (case pm_maximum_amount p of
                      None \<Rightarrow> False
                    | Some m \<Rightarrow> pm_currency p = ar_currency request \<and> dec_val d \<le> m)))"

lemma match_permission_sound: "match_permission ps request t = Inr p \<Longrightarrow> p \<in> set ps \<and> permits p request t"
  unfolding match_permission_def Let_def
  by (auto simp: permits_def permission_is_usable_def dest!: find_SomeD split: if_splits option.splits)

lemma match_permission_complete:
  assumes "match_permission ps request t = Inl e" "p \<in> set ps"
  shows "\<not> permits p request t"
  using assms unfolding match_permission_def Let_def
  by (auto simp: permits_def permission_is_usable_def find_None filter_empty_conv
      split: if_splits option.splits)


section \<open>What an outcome records\<close>

text \<open>
  The tables a decision leaves alone, and the one row it adds: an audit log entry for a final
  decision, a pending request otherwise.
\<close>

definition same_grants :: "db \<Rightarrow> db \<Rightarrow> bool" where
  "same_grants s t = (agents t = agents s \<and> permissions t = permissions s \<and> delegations t = delegations s \<and>
     policies t = policies s \<and> policy_versions t = policy_versions s \<and>
     security_policies t = security_policies s \<and> clock t = clock s)"

definition recorded :: "db \<Rightarrow> db \<Rightarrow> AuthorizationResult \<Rightarrow> bool" where
  "recorded s t r =
     (next_id s \<le> next_id t \<and>
      (if res_decision r = PENDING
      then audit_logs t = audit_logs s \<and>
        (\<exists>q. auth_requests t = auth_requests s @ [q] \<and> rq_status q = RQ_PENDING \<and> rq_decided_at q = None \<and>
             rq_request_id q = res_request_id r \<and> rq_reason q = res_reason r \<and>
             next_id s \<le> rq_id q \<and> rq_id q < next_id t)
      else auth_requests t = auth_requests s \<and>
        (\<exists>l. audit_logs t = audit_logs s @ [l] \<and> decision_of (al_decision l) = res_decision r \<and>
             al_request_id l = res_request_id r \<and> al_reason l = res_reason r)))"

lemma recorded_cong:
  "audit_logs s = audit_logs s' \<Longrightarrow> auth_requests s = auth_requests s' \<Longrightarrow> next_id s = next_id s' \<Longrightarrow>
     recorded s t r = recorded s' t r"
  by (simp add: recorded_def)

lemma save_audit_log_effect:
  assumes "save_audit_log s owner request ev t0 rid org risk env did pid = (t, r)"
  shows "same_grants s t \<and> recorded s t r \<and> res_decision r = decision_of (ev_decision ev) \<and> res_reason r = ev_reason ev"
  using assms
  by (cases rid; cases "ev_decision ev")
     (auto simp: save_audit_log_def fresh_def Let_def same_grants_def recorded_def)

lemma create_notification_grants:
  assumes "create_notification s r = (t, n)"
  shows "policies t = policies s \<and> policy_versions t = policy_versions s \<and> security_policies t = security_policies s"
  using assms
  by (auto simp: create_notification_def get_preferences_def record_security_event_def add_delivery_def
      fresh_def Let_def split: option.splits if_splits prod.splits)

lemma save_pending_request_effect:
  assumes "save_pending_request s request p t0 rid risk forced reason env did pid ag = (t, r)"
  shows "same_grants s t \<and> recorded s t r \<and> res_decision r = PENDING"
proof -
  obtain q s2 n where q: "create_notification (s\<lparr>next_id := Suc (next_id s), auth_requests := auth_requests s @ [q]\<rparr>)
      (pending_notification request q ag risk forced) = (s2, n)" "t = s2" "rq_status q = RQ_PENDING"
      "rq_decided_at q = None" "rq_request_id q = res_request_id r" "rq_reason q = res_reason r" "res_decision r = PENDING"
      "rq_id q = next_id s"
    using assms unfolding save_pending_request_def fresh_def Let_def
    by (auto split: prod.splits)
  from create_notification_keeps [OF q(1)] create_notification_grants [OF q(1)] q(2-) show ?thesis
    by (auto simp: same_grants_def recorded_def)
qed

lemma evaluate_and_save_keeps:
  assumes "evaluate_and_save s settings rid u org ag p request t0 k = (t, e)"
  shows "same_grants s t \<and> audit_logs t = audit_logs s \<and> auth_requests t = auth_requests s \<and> next_id s \<le> next_id t"
  using assms
  by (auto simp: evaluate_and_save_def get_or_create_policy_def fresh_def Let_def same_grants_def
      split: option.splits prod.splits)

section \<open>The stages after a match\<close>

text \<open>How the stages combine: each one can only make the outcome stricter.\<close>

definition staged_decision :: "RiskAction \<Rightarrow> org_action \<Rightarrow> apl_outcome \<Rightarrow> bool \<Rightarrow> Decision" where
  "staged_decision risk org apl approval =
     (if risk = RA_REJECT \<or> org = ORG_DENY \<or> (case apl of AplDeny _ \<Rightarrow> True | _ \<Rightarrow> False) then REJECTED
      else if approval \<or> risk = RA_REQUIRE_APPROVAL \<or> org = ORG_REQUIRE_APPROVAL
        \<or> (case apl of AplContinue forced _ \<Rightarrow> forced | _ \<Rightarrow> False) then PENDING
      else APPROVED)"

definition risk_of :: "db \<Rightarrow> uuid \<Rightarrow> AuthorizationRequest \<Rightarrow> Permission \<Rightarrow> datetime \<Rightarrow> uuid option \<Rightarrow> Settings \<Rightarrow>
    APIKey option \<Rightarrow> Agent \<Rightarrow> db \<times> RiskEvaluation" where
  "risk_of s owner request p t0 org settings k ag =
     evaluate_and_save (s\<lparr>next_id := Suc (next_id s)\<rparr>) settings (generate_request_id (next_id s)) owner org ag p request t0 k"

definition key_environment :: "APIKey option \<Rightarrow> Agent \<Rightarrow> string" where
  "key_environment k ag = (case k of Some k \<Rightarrow> ak_environment k | None \<Rightarrow> ag_environment ag)"

lemma complete_with_staged:
  assumes "complete_with cols s owner request p t0 org settings k dg force ag = (t, r)"
    and "risk_of s owner request p t0 org settings k ag = (s1, risk)"
  shows "same_grants s t" "recorded s t r"
    "res_decision r = staged_decision (recommendation risk)
        (fst (evaluate_organization_policy s1 org request risk))
        (apl_stage cols s1 org ag request risk (key_environment k ag) t0 (map_option dg_delegation_id dg))
        (pm_requires_approval p \<or> force)"
proof -
  note keep = evaluate_and_save_keeps [OF assms(2) [unfolded risk_of_def]]
  have lift: "same_grants s t \<and> recorded s t r" if "same_grants s1 t" "recorded s1 t r"
    using that keep by (auto simp: same_grants_def recorded_def)
  obtain oa orr where o: "evaluate_organization_policy s1 org request risk = (oa, orr)" by force
  have "same_grants s1 t \<and> recorded s1 t r \<and> res_decision r = staged_decision (recommendation risk) oa
        (apl_stage cols s1 org ag request risk (key_environment k ag) t0 (map_option dg_delegation_id dg))
        (pm_requires_approval p \<or> force)"
    using assms unfolding complete_with_def risk_of_def fresh_def Let_def staged_decision_def key_environment_def
    by (auto simp: o rejected_def approved_def dest!: save_audit_log_effect save_pending_request_effect
        split: if_splits apl_outcome.splits)
  then show "same_grants s t" "recorded s t r"
    "res_decision r = staged_decision (recommendation risk)
        (fst (evaluate_organization_policy s1 org request risk))
        (apl_stage cols s1 org ag request risk (key_environment k ag) t0 (map_option dg_delegation_id dg))
        (pm_requires_approval p \<or> force)"
    using lift o by simp_all
qed

section \<open>The whole decision\<close>

lemma touch_keeps [db_simps]:
  "permissions (touch_agent i t s) = permissions s" "delegations (touch_agent i t s) = delegations s"
  "audit_logs (touch_agent i t s) = audit_logs s" "next_id (touch_agent i t s) = next_id s" "auth_requests (touch_agent i t s) = auth_requests s"
  "policies (touch_agent i t s) = policies s" "policy_versions (touch_agent i t s) = policy_versions s" "clock (touch_agent i t s) = clock s"
  by (simp_all add: touch_agent_def)

lemma agent_active_touch [simp]: "agent_active (touch_agent i t s) j = agent_active s j"
  unfolding agent_active_def get_agent_def touch_agent_def
  by (simp add: find_update_where_key) (cases "find (\<lambda>a. ag_id a = j) (agents s)"; simp)

lemma link_error_touch [simp]: "link_error (touch_agent i t s) c act res seen d = link_error s c act res seen d"
  by (simp add: link_error_def)

lemma next_delegation_touch [simp]: "next_delegation (touch_agent i t s) d = next_delegation s d"
  by (simp add: next_delegation_def get_delegation_def db_simps split: option.split)

lemma walk_chain_touch: "walk_chain (touch_agent i t s) c act res d seen acc = walk_chain s c act res d seen acc"
proof (induction s c act res d seen acc rule: walk_chain.induct)
  case (2 s c act res d seen acc)
  then show ?case by (simp split: option.split)
qed simp

lemma root_error_touch: "root_error (touch_agent i t s) c act res p = root_error s c act res p"
  by (simp add: root_error_def)

lemma verify_touch:
  "verify_delegation_chain (touch_agent i t s) did act res amt cur (Some c) child org =
   verify_delegation_chain s did act res amt cur (Some c) child org"
proof -
  have "verify_root (touch_agent i t s) c act res amt cur = verify_root s c act res amt cur"
    by (intro ext) (simp add: verify_root_def get_permission_def root_error_touch db_simps cong: option.case_cong)
  then show ?thesis
    by (simp add: verify_delegation_chain_def walk_chain_touch db_simps del: walk_chain.simps
        cong: option.case_cong if_cong)
qed

lemma sweep_active:
  "p \<in> set (permissions (expire_owned_permissions s u t sc)) \<Longrightarrow> pm_status p = PM_ACTIVE \<Longrightarrow> p \<in> set (permissions s)"
  by (auto simp: expire_owned_permissions_def Let_def set_update_where)


text \<open>Every path of a decision returns and records exactly one outcome.\<close>

definition decides :: "db \<Rightarrow> pyexn + db \<times> AuthorizationResult \<Rightarrow> bool" where
  "decides s res = (\<exists>t r. res = Inr (t, r) \<and> same_grants s t \<and> recorded s t r)"

lemma save_plain_decides:
  "decides s (save_plain s owner request t0 scope env ev)"
  using save_audit_log_effect [of s owner request ev t0 None "audit_org scope" None env None None]
  by (cases "save_audit_log s owner request ev t0 None (audit_org scope) None env None None")
     (simp add: decides_def save_plain_def)

lemma complete_decides:
  assumes "acting \<noteq> None \<or> get_agent s (pm_agent_id p) \<noteq> None"
  shows "decides s (complete_or_queue s owner request p t0 org settings k dg force acting)"
proof -
  from assms obtain ag where ag:
    "(case acting of Some a \<Rightarrow> Some a | None \<Rightarrow> get_agent s (pm_agent_id p)) = Some ag"
    by (cases acting) auto
  obtain t r where c: "complete_with PolicyVersion_columns s owner request p t0 org settings k dg force ag = (t, r)" by force
  obtain s1 risk where "risk_of s owner request p t0 org settings k ag = (s1, risk)" by force
  with complete_with_staged(1,2) [OF c] show ?thesis
    by (simp add: decides_def complete_or_queue_def ag c)
qed

lemma get_agent_touch: "a \<in> set (agents s) \<Longrightarrow> get_agent (touch_agent i t s) (ag_id a) \<noteq> None"
  by (auto simp: get_agent_def touch_agent_def find_update_where_key find_None)

lemma authorize_direct_decides:
  assumes "get_agent s (ag_id agent) \<noteq> None"
  shows "decides (expire_owned_permissions s owner (Some t0) (sweep_of scope))
     (authorize_direct s owner request t0 scope settings k env agent)"
proof (cases "match_permission (owned_permissions (expire_owned_permissions s owner (Some t0) (sweep_of scope))
    owner scope agent) request t0")
  case (Inl e)
  then show ?thesis by (cases e) (simp add: authorize_direct_def Let_def save_plain_decides)
next
  case (Inr p)
  then have "pm_agent_id p = ag_id agent" by (auto simp: owned_permissions_def dest: match_permission_sound)
  with assms Inr show ?thesis
    by (auto simp: authorize_direct_def Let_def get_agent_def db_simps intro!: complete_decides)
qed

lemma authorize_delegated_decides:
  "decides s (authorize_delegated s owner request t0 scope settings k env agent did)"
proof -
  have "decides s (Inr (save_audit_log s owner request ev t0 None org None env did' None))" for ev org did'
    using save_audit_log_effect [of s owner request ev t0 None org None env did' None]
    by (cases "save_audit_log s owner request ev t0 None org None env did' None") (simp add: decides_def)
  then show ?thesis
    by (auto simp: authorize_delegated_def Let_def intro: complete_decides split: sum.split)
qed

text \<open>The database the stages of a decision run on: activity recorded, permissions swept.\<close>

lemma authorize_action_decides:
  "\<exists>t r. authorize_action s owner request (Some t0) scope settings k = Inr (t, r) \<and> recorded s t r \<and>
     delegations t = delegations s \<and> policies t = policies s \<and> policy_versions t = policy_versions s"
proof -
  have lift: ?thesis if "decides s' (authorize_action s owner request (Some t0) scope settings k)"
    "audit_logs s' = audit_logs s" "auth_requests s' = auth_requests s" "delegations s' = delegations s"
    "policies s' = policies s" "policy_versions s' = policy_versions s" "next_id s' = next_id s" for s'
    using that recorded_cong [of s' s] by (auto simp: decides_def same_grants_def)
  show ?thesis
  proof (cases "find (agent_matches owner request scope k) (agents s)")
    case None
    then show ?thesis
      by (intro lift [of s]) (simp_all add: authorize_action_def Let_def save_plain_decides)
  next
    case (Some agent)
    note agent = find_SomeD [OF Some]
    let ?s1 = "touch_agent (ag_id agent) t0 s"
    show ?thesis
    proof (cases "ag_status agent = AG_ACTIVE")
      case False
      with Some show ?thesis
        by (intro lift [of s]) (simp_all add: authorize_action_def Let_def save_plain_decides)
    next
      case active: True
      show ?thesis
      proof (cases "ar_delegation_id request")
        case None
        with Some active agent show ?thesis
          by (intro lift [of "expire_owned_permissions ?s1 owner (Some t0) (sweep_of scope)"])
            (simp_all add: authorize_action_def Let_def db_simps authorize_direct_decides get_agent_touch)
      next
        case (Some did)
        with \<open>find _ _ = Some agent\<close> active show ?thesis
          by (intro lift [of ?s1])
            (simp_all add: authorize_action_def Let_def authorize_delegated_decides db_simps)
      qed
    qed
  qed
qed

lemma staged_not_approved: "staged_decision risk org apl True \<noteq> APPROVED"
  by (simp add: staged_decision_def)

lemma complete_or_queue_approved:
  assumes "complete_or_queue s owner request p t0 org settings k dg force acting = Inr (t, r)" "res_decision r = APPROVED"
  shows "\<not> pm_requires_approval p \<and> \<not> force"
proof -
  from assms(1) obtain ag where c:
    "complete_with PolicyVersion_columns s owner request p t0 org settings k dg force ag = (t, r)"
    by (auto simp: complete_or_queue_def split: option.splits)
  obtain s1 risk where rk: "risk_of s owner request p t0 org settings k ag = (s1, risk)" by force
  show ?thesis
    using complete_with_staged(3) [OF c rk] assms(2) staged_not_approved by metis
qed

lemma authorize_action_grounds:
  assumes "authorize_action s owner request (Some t0) scope settings k = Inr (t, r)" "res_decision r \<noteq> REJECTED"
  shows "\<exists>agent. find (agent_matches owner request scope k) (agents s) = Some agent \<and> ag_status agent = AG_ACTIVE \<and>
    (case ar_delegation_id request of
       None \<Rightarrow> \<exists>p\<in>set (permissions s). pm_agent_id p = ag_id agent \<and> permits p request t0 \<and>
         (pm_owner_id p = owner \<or> (\<exists>org. scope = Organization org)) \<and>
         (res_decision r = PENDING \<or> \<not> pm_requires_approval p)
     | Some did \<Rightarrow> \<exists>m. verify_delegation_chain s did (ar_action request) (ar_resource request)
           (map_option dec_val (ar_amount request)) (ar_currency request) (Some t0) (Some (ag_id agent))
           (or_else (audit_org scope) (ag_organization_id agent)) = Inr m \<and>
         (res_decision r = PENDING \<or> \<not> ca_requires_approval (cm_effective m)))"
proof -
  have rej: "res_decision r = REJECTED" if "save_audit_log s' owner request (rejected x y z) t0 None org None env d None = (t, r)"
    for s' x y z org env d
    using save_audit_log_effect [OF that] by (simp add: rejected_def)
  obtain agent where agent: "find (agent_matches owner request scope k) (agents s) = Some agent" "ag_status agent = AG_ACTIVE"
    using assms by (auto simp: authorize_action_def Let_def save_plain_def dest: rej split: option.splits if_splits)
  have pend: "res_decision r = PENDING \<or> res_decision r = APPROVED"
    using assms(2) by (cases "res_decision r") auto
  let ?s1 = "touch_agent (ag_id agent) t0 s"
  show ?thesis
  proof (cases "ar_delegation_id request")
    case None
    let ?s2 = "expire_owned_permissions ?s1 owner (Some t0) (sweep_of scope)"
    from assms agent None obtain p where
      p: "match_permission (owned_permissions ?s2 owner scope (agent\<lparr>ag_last_activity_at := Some t0\<rparr>)) request t0 = Inr p"
      and c: "complete_or_queue ?s2 owner request p t0 (audit_org scope) settings k None False None = Inr (t, r)"
      by (auto simp: authorize_action_def authorize_direct_def save_plain_def Let_def dest: rej split: sum.splits)
    from match_permission_sound [OF p] have pm: "p \<in> set (permissions ?s2)" "pm_agent_id p = ag_id agent"
      "permits p request t0" "pm_owner_id p = owner \<or> (\<exists>org. scope = Organization org)"
      by (auto simp: owned_permissions_def split: org_scope.splits)
    then have "p \<in> set (permissions s)"
      using sweep_active [OF pm(1)] by (auto simp: permits_def permission_is_usable_def db_simps)
    with None agent pm pend complete_or_queue_approved [OF c] show ?thesis by auto
  next
    case (Some did)
    from assms agent Some obtain m where
      m: "verify_delegation_chain ?s1 did (ar_action request) (ar_resource request)
           (map_option dec_val (ar_amount request)) (ar_currency request) (Some t0) (Some (ag_id agent))
           (or_else (audit_org scope) (ag_organization_id agent)) = Inr m"
      and c: "complete_or_queue ?s1 (pm_owner_id (cm_root_permission m)) request (cm_root_permission m) t0
            (or_else (audit_org scope) (Some (dg_organization_id (cm_delegation m)))) settings k
            (Some (cm_delegation m)) (ca_requires_approval (cm_effective m)) (Some (agent\<lparr>ag_last_activity_at := Some t0\<rparr>)) = Inr (t, r)"
      by (auto simp: authorize_action_def authorize_delegated_def Let_def dest: rej split: sum.splits)
    with Some agent pend complete_or_queue_approved [OF c] show ?thesis by (auto simp: verify_touch)
  qed
qed

section \<open>Small requests\<close>

definition demo_request :: "string \<Rightarrow> Decimal option \<Rightarrow> string option \<Rightarrow> AuthorizationRequest" where
  "demo_request agent amt did = \<lparr>ar_agent_id = ''agt_'' @ agent, ar_action = ''purchase'', ar_resource = ''books'',
     ar_amount = amt, ar_currency = map_option (\<lambda>_. ''USD'') amt, ar_delegation_id = did\<rparr>"

text \<open>The organization has switched its risk checks off.\<close>

definition no_risk :: "db \<Rightarrow> db" where
  "no_risk s = s\<lparr>risk_policies := [\<lparr>rp_id = 30, rp_organization_id = Some 7, rp_user_id = None, rp_enabled = False,
     rp_medium_action = RA_ALLOW, rp_high_action = RA_REQUIRE_APPROVAL, rp_critical_action = RA_REJECT,
     rp_amount_anomaly_enabled = True, rp_velocity_enabled = True, rp_rejection_history_enabled = True\<rparr>]\<rparr>"

definition demo_authorize :: "db \<Rightarrow> AuthorizationRequest \<Rightarrow> db \<times> AuthorizationResult" where
  "demo_authorize s request =
     projr (authorize_action (no_risk s) 1 request (Some 5) (Organization 7) default_settings None)"

lemma demo_authorize_eq:
  "authorize_action (no_risk s) 1 request (Some 5) (Organization 7) default_settings None =
     Inr (fst (demo_authorize s request), snd (demo_authorize s request))"
  using authorize_action_decides [of "no_risk s" 1 request 5 "Organization 7" default_settings None]
  by (auto simp: demo_authorize_def)

lemma demo_direct:
  "res_decision (snd (demo_authorize demo_db (demo_request ''buyer'' (Some (Decimal 100 0)) None))) = APPROVED"
  by code_simp

text \<open>A published policy that denies everything, stored the way the service reads it.\<close>

definition deny_all_ast :: "(string \<times> pyval) list" where
  "deny_all_ast = [(''version'', PStr ''APL/1.0''), (''name'', PStr ''Freeze''),
     (''rules'', PList [PDict [(''id'', PStr ''freeze''), (''effect'', PStr ''DENY'')]]),
     (''default_effect'', PStr ''DENY'')]"

definition version_of :: "(string \<times> pyval) list \<Rightarrow> PolicyVersion" where
  "version_of ast = \<lparr>pv_policy_id = 40,
     pv_attrs = [(''is_active'', PBool True), (''compiled_ast'', PDict ast), (''normalized_document'', PDict ast)]\<rparr>"

definition with_policy :: "db \<Rightarrow> db" where
  "with_policy s = s\<lparr>policies := [\<lparr>po_id = 40, po_organization_id = 7\<rparr>], policy_versions := [version_of deny_all_ast]\<rparr>"

text \<open>The attributes the authorization service expects of a policy version.\<close>

definition expected_columns :: "string list" where
  "expected_columns = [''is_active'', ''compiled_ast'']"

definition version_decides :: "string list \<Rightarrow> pyval \<Rightarrow> string \<Rightarrow> PolicyVersion \<Rightarrow> bool" where
  "version_decides cols ctx dec pv =
     (case evaluate_version cols ctx pv of Inr (Some r) \<Rightarrow> decision r = dec | _ \<Rightarrow> False)"

lemma apl_loop_spec:
  "list_all (\<lambda>pv. \<not> raises (evaluate_version cols ctx pv)) pvs \<Longrightarrow>
     (case apl_loop cols ctx pvs f r of
        AplDeny _ \<Rightarrow> list_ex (version_decides cols ctx ''DENY'') pvs
      | AplContinue forced _ \<Rightarrow> \<not> list_ex (version_decides cols ctx ''DENY'') pvs \<and>
          (forced \<longleftrightarrow> f \<or> list_ex (version_decides cols ctx ''REQUIRE_APPROVAL'') pvs))"
proof (induction pvs arbitrary: f r)
  case (Cons pv pvs)
  then obtain x where x: "evaluate_version cols ctx pv = Inr x" by (auto simp: not_raises_iff)
  have head: "version_decides cols ctx dec pv = (case x of Some r \<Rightarrow> decision r = dec | None \<Rightarrow> False)" for dec
    by (simp add: version_decides_def x)
  have IH: "\<And>f r. case apl_loop cols ctx pvs f r of
        AplDeny _ \<Rightarrow> list_ex (version_decides cols ctx ''DENY'') pvs
      | AplContinue forced _ \<Rightarrow> \<not> list_ex (version_decides cols ctx ''DENY'') pvs \<and>
          (forced \<longleftrightarrow> f \<or> list_ex (version_decides cols ctx ''REQUIRE_APPROVAL'') pvs)"
    using Cons by simp
  show ?case
  proof (cases x)
    case None
    with IH [of f r] show ?thesis by (simp add: x head split: apl_outcome.split_asm)
  next
    case (Some res)
    with IH [of f r] IH [of True "Some (explanation res)"] show ?thesis
      by (simp add: x head split: apl_outcome.split_asm)
  qed
qed simp

section \<open>Properties of authorization\<close>

text \<open>
  The staged search for a permission is exact: it returns a permission of the list that
  allows the request (same action and resource, usable at the time, no limit and no amount,
  or an amount within the limit in the same currency), and it fails only if no permission of
  the list allows the request.
\<close>

theorem match_permission_exact:
  "case match_permission ps request t of
     Inr p \<Rightarrow> p \<in> set ps \<and> permits p request t
   | Inl _ \<Rightarrow> \<not> list_ex (\<lambda>p. permits p request t) ps"
  using match_permission_sound match_permission_complete
  by (auto simp: list_ex_iff split: sum.split)

text \<open>
  Every authorization request is decided and recorded: the service returns a result for
  every state and request, and adds exactly one row for it, an audit log entry with that
  decision, reason and request id, or, for a pending decision, a pending request; delegations
  and policies are left alone.
\<close>

theorem authorize_action_recorded:
  "\<exists>t r. authorize_action s owner request (Some t0) scope settings k = Inr (t, r) \<and> recorded s t r \<and>
     delegations t = delegations s \<and> policies t = policies s \<and> policy_versions t = policy_versions s"
  by (rule authorize_action_decides)

text \<open>
  C1. Grounds of a decision that is not a rejection: the agent named by the request is the
  caller's, in scope and active; and either the request names no delegation and the agent
  holds a stored permission of the caller's scope that allows it, or the delegation chain it
  names verifies for this agent. An outright approval needs no approval: neither the
  permission nor the chain requires one.
\<close>

theorem authorize_action_sound:
  assumes "authorize_action s owner request (Some t0) scope settings k = Inr (t, r)" "res_decision r \<noteq> REJECTED"
  shows "\<exists>agent. find (agent_matches owner request scope k) (agents s) = Some agent \<and> ag_status agent = AG_ACTIVE \<and>
    (case ar_delegation_id request of
       None \<Rightarrow> \<exists>p\<in>set (permissions s). pm_agent_id p = ag_id agent \<and> permits p request t0 \<and>
         (pm_owner_id p = owner \<or> (\<exists>org. scope = Organization org)) \<and>
         (res_decision r = PENDING \<or> \<not> pm_requires_approval p)
     | Some did \<Rightarrow> \<exists>m. verify_delegation_chain s did (ar_action request) (ar_resource request)
           (map_option dec_val (ar_amount request)) (ar_currency request) (Some t0) (Some (ag_id agent))
           (or_else (audit_org scope) (ag_organization_id agent)) = Inr m \<and>
         (res_decision r = PENDING \<or> \<not> ca_requires_approval (cm_effective m)))"
  by (rule authorize_action_grounds [OF assms])

theorem authorize_action_sound_witness:
  "\<exists>agent. find (agent_matches 1 (demo_request ''buyer'' (Some (Decimal 100 0)) None) (Organization 7) None)
      (agents (no_risk demo_db)) = Some agent \<and> ag_status agent = AG_ACTIVE"
proof -
  have "res_decision (snd (demo_authorize demo_db (demo_request ''buyer'' (Some (Decimal 100 0)) None))) \<noteq> REJECTED"
    by (simp add: demo_direct)
  from authorize_action_sound [OF demo_authorize_eq this] show ?thesis by blast
qed

text \<open>
  How the stages after a match combine: the request is rejected iff the risk policy
  rejects, the organization denies or an APL policy denies; otherwise it waits for approval
  iff the permission, the chain, the risk policy, the organization or an APL policy asks for
  it; otherwise it is approved. No stage can turn an earlier restriction into an approval.
\<close>

theorem complete_with_stages:
  "case complete_with cols s owner request p t0 org settings k dg force ag of (t, r) \<Rightarrow>
   case risk_of s owner request p t0 org settings k ag of (s1, risk) \<Rightarrow>
     res_decision r = staged_decision (recommendation risk)
       (fst (evaluate_organization_policy s1 org request risk))
       (apl_stage cols s1 org ag request risk (key_environment k ag) t0 (map_option dg_delegation_id dg))
       (pm_requires_approval p \<or> force) \<and>
     same_grants s t \<and> recorded s t r"
  using complete_with_staged [of cols s owner request p t0 org settings k dg force ag]
  by (auto split: prod.splits)

text \<open>
  The policy loop applies DENY first and then REQUIRE_APPROVAL: when the evaluation of
  every published version returns, the request is denied iff some version denies it, and
  otherwise approval is forced iff some version asks for it.
\<close>

theorem apl_loop_precedence:
  assumes "list_all (\<lambda>pv. \<not> raises (evaluate_version cols ctx pv)) pvs"
  shows "case apl_loop cols ctx pvs False None of
      AplDeny _ \<Rightarrow> list_ex (version_decides cols ctx ''DENY'') pvs
    | AplContinue forced _ \<Rightarrow> \<not> list_ex (version_decides cols ctx ''DENY'') pvs \<and>
        (forced \<longleftrightarrow> list_ex (version_decides cols ctx ''REQUIRE_APPROVAL'') pvs)"
  using apl_loop_spec [OF assms, of False None] by (simp split: apl_outcome.splits)

theorem apl_loop_precedence_witness:
  "case apl_loop expected_columns (demo_ctx 10) [version_of demo_ast, version_of deny_all_ast] False None of
      AplDeny _ \<Rightarrow> True | AplContinue _ _ \<Rightarrow> False"
proof -
  have ok: "list_all (\<lambda>pv. \<not> raises (evaluate_version expected_columns (demo_ctx 10) pv))
     [version_of demo_ast, version_of deny_all_ast]"
    by (simp add: evaluate_version_def row_attribute_def class_attribute_def expected_columns_def version_of_def
        deny_all_ast_def demo_ast_def demo_ctx_def demo_rule_def apl_eval py_eval)
  have "version_decides expected_columns (demo_ctx 10) ''DENY'' (version_of deny_all_ast)"
    by (simp add: version_decides_def evaluate_version_def row_attribute_def class_attribute_def expected_columns_def
        version_of_def deny_all_ast_def apl_eval py_eval)
  with apl_loop_precedence [OF ok] show ?thesis by (auto split: apl_outcome.splits)
qed

text \<open>
  Published policies are never consulted: the block that evaluates them reads
  \<open>PolicyVersion.is_active\<close>, which the mapped class does not have, and the exception is
  discarded; so the stage never restricts anything, and a request of an organization whose
  active policy denies everything is approved. With the expected attributes the same policy
  would be a denial.
\<close>

theorem apl_policies_never_consulted:
  "apl_stage PolicyVersion_columns s org ag request risk env t0 did = AplContinue False None \<and>
   res_decision (snd (demo_authorize (with_policy demo_db) (demo_request ''buyer'' (Some (Decimal 100 0)) None))) = APPROVED \<and>
   (case apl_loop expected_columns ctx [version_of deny_all_ast] False None of AplDeny _ \<Rightarrow> True | AplContinue _ _ \<Rightarrow> False)"
proof (intro conjI)
  show "apl_stage PolicyVersion_columns s org ag request risk env t0 did = AplContinue False None"
    by (simp add: apl_stage_def class_attribute_def PolicyVersion_columns_def split: option.split)
  show "res_decision (snd (demo_authorize (with_policy demo_db) (demo_request ''buyer'' (Some (Decimal 100 0)) None))) = APPROVED"
    by code_simp
  show "case apl_loop expected_columns ctx [version_of deny_all_ast] False None of AplDeny _ \<Rightarrow> True | AplContinue _ _ \<Rightarrow> False"
    by (simp add: evaluate_version_def row_attribute_def class_attribute_def expected_columns_def version_of_def
        deny_all_ast_def apl_eval py_eval)
qed

text \<open>
  The policy block fails open: an accepted document whose evaluation raises ends the loop,
  so a policy that denies everything is skipped when it comes after it.
\<close>

theorem apl_stage_fails_open:
  "is_valid (validate (PDict bad_target_ast)) \<and>
   apl_loop expected_columns ctx [version_of bad_target_ast, version_of deny_all_ast] False None = AplContinue False None \<and>
   (case apl_loop expected_columns ctx [version_of deny_all_ast, version_of bad_target_ast] False None of
      AplDeny _ \<Rightarrow> True | AplContinue _ _ \<Rightarrow> False)"
proof (intro conjI)
  show "is_valid (validate (PDict bad_target_ast))" by code_simp
  show "apl_loop expected_columns ctx [version_of bad_target_ast, version_of deny_all_ast] False None = AplContinue False None"
    by (simp add: evaluate_version_def row_attribute_def class_attribute_def expected_columns_def version_of_def
        bad_target_ast_def evaluate_apl_policy_def)
  show "case apl_loop expected_columns ctx [version_of deny_all_ast, version_of bad_target_ast] False None of
      AplDeny _ \<Rightarrow> True | AplContinue _ _ \<Rightarrow> False"
    by (simp add: evaluate_version_def row_attribute_def class_attribute_def expected_columns_def version_of_def
        deny_all_ast_def apl_eval py_eval)
qed

text \<open>
  A delegated request may leave out its amount: under a permission limited to 500 the
  owner's own agent is refused a request without an amount, and the agent it delegated to is
  approved.
\<close>

theorem delegated_request_without_amount:
  "res_reason (snd (demo_authorize (fst demo_delegated) (demo_request ''buyer'' None None)))
     = ''Amount is required for this permission'' \<and>
   res_decision (snd (demo_authorize (fst demo_delegated)
     (demo_request ''helper'' None (Some (dg_delegation_id (snd demo_delegated)))))) = APPROVED"
proof
  show "res_reason (snd (demo_authorize (fst demo_delegated) (demo_request ''buyer'' None None)))
     = ''Amount is required for this permission''" by code_simp
  show "res_decision (snd (demo_authorize (fst demo_delegated)
     (demo_request ''helper'' None (Some (dg_delegation_id (snd demo_delegated)))))) = APPROVED" by code_simp
qed

end
