(* ===== verification/AuthorizationRequests.thy ===== *)
theory AuthorizationRequests
  imports Authorization
begin

text \<open>
  Requests that wait for a manual decision (\<open>services/authorization_requests.py\<close>): expiry,
  listing, lookup, and the decision of the owner.
\<close>

section \<open>Final decisions\<close>

definition audit_final_decision ::
    "db \<Rightarrow> AuthorizationRequestRecord \<Rightarrow> Agent \<Rightarrow> AuditDecision \<Rightarrow> string \<Rightarrow> db" where
  "audit_final_decision s record agent dec reason =
     (let (i, s1) = fresh s;
          l = \<lparr>al_id = i, al_request_id = rq_request_id record, al_environment = ''production'',
               al_user_id = rq_user_id record, al_organization_id = ag_organization_id agent,
               al_agent_id = Some (rq_agent_id record), al_agent_identifier = ag_agent_identifier agent,
               al_permission_id = Some (rq_permission_id record), al_delegation_id = None,
               al_parent_agent_id = None, al_action = rq_action record, al_resource = rq_resource record,
               al_amount = rq_amount record, al_currency = rq_currency record,
               al_decision = dec, al_reason = reason, al_risk_score = rq_risk_score record,
               al_risk_level = rq_risk_level record, al_risk_recommendation = rq_risk_recommendation record,
               al_signature_verified = rq_signature_verified record,
               al_signing_key_id = rq_signing_key_id record,
               al_signature_version = rq_signature_version record,
               al_requested_at = rq_created_at record\<rparr>
      in s1\<lparr>audit_logs := audit_logs s1 @ [l]\<rparr>)"

definition final_notification :: "AuthorizationRequestRecord \<Rightarrow> Agent \<Rightarrow> RequestStatus \<Rightarrow> notification_request" where
  "final_notification record agent st =
     (let amt = amount_text (map_option numeric_dec (rq_amount record)) (rq_currency record) in
      \<lparr>nr_user_id = rq_user_id record,
       nr_type = (if st = RQ_APPROVED then AUTHORIZATION_APPROVED else AUTHORIZATION_REJECTED),
       nr_title = (if st = RQ_APPROVED then ''Action Approved'' else ''Action Rejected''),
       nr_message =
         (if st = RQ_APPROVED
          then ag_name agent @ '' was approved to '' @ rq_action record @ '' '' @ rq_resource record @ amt @ ''.''
          else ag_name agent @ '' request to '' @ rq_action record @ '' '' @ rq_resource record @ amt @ '' was rejected.''),
       nr_priority = NP_NORMAL, nr_organization_id = ag_organization_id agent,
       nr_related_request_id = Some (rq_id record), nr_related_agent_id = Some (rq_agent_id record),
       nr_related_permission_id = Some (rq_permission_id record),
       nr_metadata = Some [(''request_id'', PStr (rq_request_id record))],
       nr_deduplication_key = Some (''authorization-final:'' @ uuid_str (rq_id record))\<rparr>)"

definition finalize ::
    "db \<Rightarrow> AuthorizationRequestRecord \<Rightarrow> Agent \<Rightarrow> RequestStatus \<Rightarrow> string \<Rightarrow> datetime
       \<Rightarrow> db \<times> AuthorizationRequestRecord" where
  "finalize s record agent st reason decided_at =
     (let r' = record\<lparr>rq_status := st, rq_reason := reason, rq_decided_at := Some decided_at\<rparr>;
          s1 = s\<lparr>auth_requests := update_where (\<lambda>x. rq_id x = rq_id record) (\<lambda>_. r') (auth_requests s)\<rparr>;
          s2 = audit_final_decision s1 r' agent (if st = RQ_APPROVED then AD_APPROVED else AD_REJECTED) reason;
          (s3, _) = create_notification s2 (final_notification r' agent st)
      in (s3, r'))"

section \<open>Scopes and expiry\<close>

definition request_in_scope :: "db \<Rightarrow> uuid \<Rightarrow> uuid option \<Rightarrow> AuthorizationRequestRecord \<Rightarrow> bool" where
  "request_in_scope s owner_id organization_id r =
     (case organization_id of
        Some org \<Rightarrow> rq_agent_id r \<in> scope_ids s owner_id (Some org)
      | None \<Rightarrow> rq_user_id r = owner_id \<and> rq_agent_id r \<in> scope_ids s owner_id None)"

definition expirable :: "db \<Rightarrow> uuid \<Rightarrow> datetime \<Rightarrow> uuid option \<Rightarrow> AuthorizationRequestRecord list" where
  "expirable s owner_id checked_at organization_id =
     filter (\<lambda>r. request_in_scope s owner_id organization_id r \<and> rq_status r = RQ_PENDING \<and>
                 rq_expires_at r \<le> checked_at) (auth_requests s)"

text \<open>The agent of a record in scope exists, since the scope is a set of stored agents.\<close>

fun expire_all :: "datetime \<Rightarrow> AuthorizationRequestRecord list \<Rightarrow> db \<Rightarrow> db" where
  "expire_all checked_at [] s = s"
| "expire_all checked_at (r # rs) s =
     (case get_agent s (rq_agent_id r) of
        None \<Rightarrow> expire_all checked_at rs s
      | Some agent \<Rightarrow>
          expire_all checked_at rs (fst (finalize s r agent RQ_EXPIRED ''Request expired'' checked_at)))"

definition expire_records :: "db \<Rightarrow> uuid \<Rightarrow> datetime \<Rightarrow> uuid option \<Rightarrow> db" where
  "expire_records s owner_id checked_at organization_id =
     expire_all checked_at (expirable s owner_id checked_at organization_id) s"

section \<open>Listing and lookup\<close>

record AuthorizationRequestFilters =
  rf_status :: "RequestStatus option"
  rf_page :: nat
  rf_page_size :: nat

definition list_owned_requests ::
    "db \<Rightarrow> uuid \<Rightarrow> AuthorizationRequestFilters \<Rightarrow> uuid option
       \<Rightarrow> db \<times> AuthorizationRequestRecord list \<times> nat \<times> nat" where
  "list_owned_requests s owner_id f organization_id =
     (let s1 = expire_records s owner_id (clock s) organization_id;
          rows = filter (\<lambda>r. request_in_scope s1 owner_id organization_id r \<and>
                    (case rf_status f of None \<Rightarrow> True | Some st \<Rightarrow> rq_status r = st)) (auth_requests s1)
      in (s1, page_of (rf_page f) (rf_page_size f)
                (sort_key (\<lambda>r. (- rq_created_at r, - int (rq_id r))) rows),
          length rows, page_count (length rows) (rf_page_size f)))"

definition get_owned_request ::
    "db \<Rightarrow> uuid \<Rightarrow> uuid \<Rightarrow> uuid option \<Rightarrow> db \<times> AuthorizationRequestRecord option" where
  "get_owned_request s owner_id request_id organization_id =
     (let s1 = expire_records s owner_id (clock s) organization_id in
      (s1, find (\<lambda>r. rq_id r = request_id \<and> request_in_scope s1 owner_id organization_id r) (auth_requests s1)))"

section \<open>The owner's decision\<close>

definition validate_for_approval ::
    "AuthorizationRequestRecord \<Rightarrow> Agent \<Rightarrow> Permission \<Rightarrow> datetime \<Rightarrow> string option" where
  "validate_for_approval record agent permission checked_at =
     (if ag_status agent \<noteq> AG_ACTIVE then Some ''Agent is not active''
      else if pm_status permission = PM_REVOKED then Some ''Permission revoked''
      else if pm_status permission \<noteq> PM_ACTIVE \<or> checked_at \<ge> pm_expires_at permission then Some ''Permission expired''
      else if checked_at < pm_valid_from permission then Some ''Permission has not started''
      else if pm_agent_id permission \<noteq> rq_agent_id record then Some ''Permission is not valid for this request''
      else if pm_action permission \<noteq> rq_action record then Some ''Action not permitted''
      else if pm_resource permission \<noteq> rq_resource record then Some ''Resource not permitted''
      else
        (case rq_amount record of
           None \<Rightarrow>
             if pm_maximum_amount permission \<noteq> None then Some ''Amount is required for this permission'' else None
         | Some a \<Rightarrow>
             (case pm_maximum_amount permission of
                None \<Rightarrow> Some ''Permission does not allow an amount''
              | Some m \<Rightarrow>
                  if pm_currency permission \<noteq> rq_currency record then Some ''Currency does not match''
                  else if a > m then Some ''Amount exceeds allowed limit''
                  else None)))"

datatype decide_error = RequestNotFound | RequestAlreadyDecided | RequestExpired | DanglingKey

text \<open>
  The exception carries the state with it: an expired request is finalized and committed
  before the exception is raised. \<open>DanglingKey\<close> is the AttributeError of a record whose agent or
  permission row is missing, which the foreign keys exclude.
\<close>

definition decide_owned_request ::
    "db \<Rightarrow> uuid \<Rightarrow> uuid \<Rightarrow> bool \<Rightarrow> datetime option \<Rightarrow> uuid option
       \<Rightarrow> db \<times> (decide_error + AuthorizationRequestRecord)" where
  "decide_owned_request s owner_id request_id approve at_time organization_id =
     (let checked_at = (case at_time of Some t \<Rightarrow> t | None \<Rightarrow> clock s) in
      case find (\<lambda>r. rq_id r = request_id \<and> request_in_scope s owner_id organization_id r) (auth_requests s) of
        None \<Rightarrow> (s, Inl RequestNotFound)
      | Some r \<Rightarrow>
          if rq_status r \<noteq> RQ_PENDING then (s, Inl RequestAlreadyDecided)
          else
            (case get_agent s (rq_agent_id r) of
               None \<Rightarrow> (s, Inl DanglingKey)
             | Some agent \<Rightarrow>
                 if checked_at \<ge> rq_expires_at r
                 then (fst (finalize s r agent RQ_EXPIRED ''Request expired'' checked_at), Inl RequestExpired)
                 else if approve then
                   (case get_permission s (rq_permission_id r) of
                      None \<Rightarrow> (s, Inl DanglingKey)
                    | Some permission \<Rightarrow>
                        let (s1, r') =
                          (case validate_for_approval r agent permission checked_at of
                             None \<Rightarrow> finalize s r agent RQ_APPROVED ''Approved by user'' checked_at
                           | Some e \<Rightarrow> finalize s r agent RQ_REJECTED e checked_at)
                        in (s1, Inr r'))
                 else
                   let (s1, r') = finalize s r agent RQ_REJECTED ''Rejected by user'' checked_at in (s1, Inr r')))"

end
