(* ===== verification/AuthorizationRequests_Safety.thy ===== *)
theory AuthorizationRequests_Safety
  imports Authorization_Safety AuthorizationRequests
begin

text \<open>
  What pending requests guarantee: one decision each, re-validated when it is given, over
  every sequence of authorizations and decisions.
\<close>

section \<open>Rows and steps\<close>

text \<open>
  A request may change only while it is pending, and then only in its status, reason and
  decision time.
\<close>

definition request_evolves :: "AuthorizationRequestRecord \<Rightarrow> AuthorizationRequestRecord \<Rightarrow> bool" where
  "request_evolves r q =
     (q = r\<lparr>rq_status := rq_status q, rq_reason := rq_reason q, rq_decided_at := rq_decided_at q\<rparr> \<and>
      (q = r \<or> rq_status r = RQ_PENDING \<and> rq_status q \<noteq> RQ_PENDING))"

interpretation req_rows: keyed_rows rq_id request_evolves
proof
  show "request_evolves r r" for r by (simp add: request_evolves_def)
  show "request_evolves r r''" if "request_evolves r r'" "request_evolves r' r''" for r r' r''
    using that by (cases r; cases r'; cases r'') (auto simp: request_evolves_def)
  show "rq_id r' = rq_id r" if "request_evolves r r'" for r r'
    using that by (cases r; cases r') (auto simp: request_evolves_def)
qed

abbreviation requests_ok :: "db \<Rightarrow> bool" where
  "requests_ok s \<equiv> rows_ok rq_id (next_id s) (auth_requests s)"

abbreviation requests_evolve :: "db \<Rightarrow> db \<Rightarrow> bool" where
  "requests_evolve s t \<equiv>
     rows_evolve rq_id request_evolves (next_id s) (auth_requests s) (next_id t) (auth_requests t)"

inductive request_step :: "db \<Rightarrow> db \<Rightarrow> bool" where
  authorize: "authorize_action s owner request (Some t0) scope settings k = Inr (t, r) \<Longrightarrow> request_step s t"
| decide: "decide_owned_request s owner i approve at_time org = (t, r) \<Longrightarrow> request_step s t"
| listing: "list_owned_requests s owner f org = (t, rows) \<Longrightarrow> request_step s t"
| lookup: "get_owned_request s owner i org = (t, r) \<Longrightarrow> request_step s t"
| tick: "clock s \<le> now \<Longrightarrow> request_step s (s\<lparr>clock := now\<rparr>)"

lemma finalize_effect:
  assumes "finalize s r agent st reason t0 = (t, r')"
  shows "r' = r\<lparr>rq_status := st, rq_reason := reason, rq_decided_at := Some t0\<rparr> \<and>
    auth_requests t = update_where (\<lambda>x. rq_id x = rq_id r) (\<lambda>_. r') (auth_requests s) \<and>
    next_id s \<le> next_id t \<and> agents t = agents s \<and> permissions t = permissions s \<and> clock t = clock s \<and>
    (\<exists>l. audit_logs t = audit_logs s @ [l] \<and> al_request_id l = rq_request_id r \<and> al_reason l = reason \<and>
         al_decision l = (if st = RQ_APPROVED then AD_APPROVED else AD_REJECTED))"
proof -
  let ?r = "r\<lparr>rq_status := st, rq_reason := reason, rq_decided_at := Some t0\<rparr>"
  let ?s1 = "s\<lparr>auth_requests := update_where (\<lambda>x. rq_id x = rq_id r) (\<lambda>_. ?r) (auth_requests s)\<rparr>"
  let ?s2 = "audit_final_decision ?s1 ?r agent (if st = RQ_APPROVED then AD_APPROVED else AD_REJECTED) reason"
  obtain s3 n where c: "create_notification ?s2 (final_notification ?r agent st) = (s3, n)" by force
  have t: "t = s3" "r' = ?r" using assms c by (simp_all add: finalize_def Let_def)
  from create_notification_keeps [OF c] show ?thesis
    by (simp add: t audit_final_decision_def fresh_def Let_def)
qed

lemma finalize_evolve:
  assumes "requests_ok s" "r \<in> set (auth_requests s)" "rq_status r = RQ_PENDING" "st \<noteq> RQ_PENDING"
    and "finalize s r agent st reason t0 = (t, r')"
  shows "requests_evolve s t"
proof -
  note eff = finalize_effect [OF assms(5)]
  have "request_evolves x r'" if "x \<in> set (auth_requests s)" "rq_id x = rq_id r" for x
    using rows_ok_same_key [OF assms(1) that(1) assms(2) that(2)] eff assms(3,4) by (simp add: request_evolves_def)
  then have "rows_evolve rq_id request_evolves (next_id s) (auth_requests s) (next_id s) (auth_requests t)"
    using eff by (auto intro!: req_rows.evolve_update_where [OF assms(1)])
  then show ?thesis
    using eff by (auto simp: rows_evolve_def intro: rows_ok_mono)
qed

lemma expire_all_evolve:
  "requests_ok s \<Longrightarrow> distinct (map rq_id rs) \<Longrightarrow> set rs \<subseteq> set (auth_requests s) \<Longrightarrow>
     list_all (\<lambda>r. rq_status r = RQ_PENDING) rs \<Longrightarrow> requests_evolve s (expire_all t0 rs s)"
proof (induction rs arbitrary: s)
  case Nil
  then show ?case by (simp add: req_rows.evolve_refl)
next
  case (Cons r rs)
  show ?case
  proof (cases "get_agent s (rq_agent_id r)")
    case None
    with Cons show ?thesis by simp
  next
    case (Some agent)
    obtain s1 r' where f: "finalize s r agent RQ_EXPIRED ''Request expired'' t0 = (s1, r')" by force
    note eff = finalize_effect [OF f]
    have ev: "requests_evolve s s1"
      using finalize_evolve [OF Cons.prems(1) _ _ _ f] Cons.prems by simp
    have "set rs \<subseteq> set (auth_requests s1)"
    proof
      fix x assume "x \<in> set rs"
      then have "x \<in> set (auth_requests s)" "rq_id x \<in> rq_id ` set rs" using Cons.prems by auto
      moreover from this(2) have "rq_id x \<noteq> rq_id r" using Cons.prems(2) by auto
      ultimately show "x \<in> set (auth_requests s1)" using eff by (simp add: set_update_where)
    qed
    then have "requests_evolve s1 (expire_all t0 rs s1)"
      using Cons.prems req_rows.evolve_ok [OF ev] by (intro Cons.IH) auto
    with ev Some f show ?thesis by (simp add: req_rows.evolve_trans)
  qed
qed

lemma expire_records_evolve: "requests_ok s \<Longrightarrow> requests_evolve s (expire_records s owner t0 org)"
  unfolding expire_records_def
  by (intro expire_all_evolve)
     (auto simp: expirable_def rows_ok_def list_all_iff distinct_map_filter)

text \<open>What a decision does, by the state of the request it finds.\<close>

lemma decide_cases:
  assumes "decide_owned_request s owner i approve (Some t0) org = (t, res)"
  obtains (refused) e where "t = s" "res = Inl e"
  | (expired) r agent r' where "r \<in> set (auth_requests s)" "rq_id r = i" "rq_status r = RQ_PENDING"
      "rq_expires_at r \<le> t0" "finalize s r agent RQ_EXPIRED ''Request expired'' t0 = (t, r')" "res = Inl RequestExpired"
  | (approved) r agent p r' where "r \<in> set (auth_requests s)" "rq_id r = i" "rq_status r = RQ_PENDING"
      "t0 < rq_expires_at r" "get_agent s (rq_agent_id r) = Some agent" "get_permission s (rq_permission_id r) = Some p"
      "validate_for_approval r agent p t0 = None" "approve" "request_in_scope s owner org r"
      "finalize s r agent RQ_APPROVED ''Approved by user'' t0 = (t, r')" "res = Inr r'"
  | (rejected) r agent reason r' where "r \<in> set (auth_requests s)" "rq_id r = i" "rq_status r = RQ_PENDING"
      "t0 < rq_expires_at r" "finalize s r agent RQ_REJECTED reason t0 = (t, r')" "res = Inr r'"
proof (cases "find (\<lambda>r. rq_id r = i \<and> request_in_scope s owner org r) (auth_requests s)")
  case None
  with assms refused show thesis by (auto simp: decide_owned_request_def)
next
  case (Some r)
  note r = find_SomeD [OF Some]
  show thesis
  proof (cases "rq_status r = RQ_PENDING \<and> get_agent s (rq_agent_id r) \<noteq> None")
    case False
    with assms Some refused show thesis
      by (auto simp: decide_owned_request_def split: if_splits)
  next
    case True
    then obtain agent where agent: "get_agent s (rq_agent_id r) = Some agent" "rq_status r = RQ_PENDING" by auto
    note run = assms [unfolded decide_owned_request_def, simplified, unfolded Some, simplified, unfolded agent, simplified]
    show thesis
      using run r agent refused approved rejected
        expired [of r agent "snd (finalize s r agent RQ_EXPIRED ''Request expired'' t0)"]
      by (auto simp: Let_def split: if_splits option.splits prod.splits)
  qed
qed

lemma decide_default: "decide_owned_request s owner i approve None org = decide_owned_request s owner i approve (Some (clock s)) org"
  by (simp add: decide_owned_request_def)

lemma decide_evolve:
  assumes "requests_ok s" "decide_owned_request s owner i approve at_time org = (t, res)"
  shows "requests_evolve s t"
proof -
  obtain t0 where "decide_owned_request s owner i approve (Some t0) org = (t, res)"
    using assms(2) by (cases at_time) (auto simp: decide_default)
  then show ?thesis
    by (cases rule: decide_cases)
       (auto intro: finalize_evolve [OF assms(1)] req_rows.evolve_refl [OF assms(1)])
qed

lemma authorize_evolve:
  assumes "requests_ok s" "authorize_action s owner request (Some t0) scope settings k = Inr (t, r)"
  shows "requests_evolve s t"
proof -
  have "recorded s t r" using authorize_action_decides [of s owner request t0 scope settings k] assms(2) by auto
  then show ?thesis
    using assms(1) by (auto simp: recorded_def req_rows.evolve_refl split: if_splits intro!: req_rows.evolve_snoc)
qed

lemma request_step_evolve: "requests_ok s \<Longrightarrow> request_step s t \<Longrightarrow> requests_evolve s t"
  by (erule request_step.cases)
     (auto simp: list_owned_requests_def get_owned_request_def Let_def req_rows.evolve_refl
        intro: authorize_evolve decide_evolve expire_records_evolve)

text \<open>The authorization request a stored record stands for.\<close>

definition record_permitted :: "AuthorizationRequestRecord \<Rightarrow> Permission \<Rightarrow> datetime \<Rightarrow> bool" where
  "record_permitted r p t =
     (pm_action p = rq_action r \<and> pm_resource p = rq_resource r \<and> permission_is_usable p t \<and>
      pm_agent_id p = rq_agent_id r \<and>
      (case rq_amount r of
         None \<Rightarrow> pm_maximum_amount p = None
       | Some a \<Rightarrow> (case pm_maximum_amount p of
                      None \<Rightarrow> False
                    | Some m \<Rightarrow> pm_currency p = rq_currency r \<and> a \<le> m)))"

lemma validate_for_approval_None:
  "validate_for_approval r agent p t = None \<longleftrightarrow> ag_status agent = AG_ACTIVE \<and> record_permitted r p t"
  by (cases "pm_status p")
     (auto simp: validate_for_approval_def record_permitted_def permission_is_usable_def split: option.splits)

section \<open>A request waiting for approval\<close>

definition strict_payload :: AgentDelegationCreate where
  "strict_payload = demo_payload\<lparr>dc_requires_approval := True\<rparr>"

definition strict_delegated :: "db \<times> AgentDelegation" where
  "strict_delegated = projr (create_delegation demo_db strict_payload)"

definition waiting :: "db \<times> AuthorizationResult" where
  "waiting = demo_authorize (fst strict_delegated)
     (demo_request ''helper'' (Some (Decimal 100 0)) (Some (dg_delegation_id (snd strict_delegated))))"

text \<open>A direct request under a permission that requires approval.\<close>

definition guarded_db :: db where
  "guarded_db = demo_db\<lparr>permissions := [(demo_permission 20 10 (Some 500))\<lparr>pm_requires_approval := True\<rparr>]\<rparr>"

definition waiting_direct :: "db \<times> AuthorizationResult" where
  "waiting_direct = demo_authorize guarded_db (demo_request ''buyer'' (Some (Decimal 100 0)) None)"

definition approve_first :: "db \<Rightarrow> db \<times> (decide_error + AuthorizationRequestRecord)" where
  "approve_first s = decide_owned_request s 1 (rq_id (hd (auth_requests s))) True (Some 6) (Some 7)"

section \<open>Properties of pending requests\<close>

text \<open>
  C29. A request is decided once: whatever sequence of authorizations, decisions, listings and
  lookups runs, every stored request stays stored with the same content; while it is pending
  it may move to approved, rejected or expired, and once decided neither its status nor its
  reason nor its decision time ever changes.
\<close>

theorem request_decided_once:
  assumes "requests_ok s" "request_step\<^sup>*\<^sup>* s t" "r \<in> set (auth_requests s)"
  shows "\<exists>q. q \<in> set (auth_requests t) \<and> rq_id q = rq_id r \<and> request_evolves r q"
proof -
  have "requests_evolve s t"
    using req_rows.evolve_steps [of request_step s t next_id auth_requests, OF assms(2,1)] request_step_evolve by blast
  then show ?thesis using req_rows.evolve_row assms(3) by metis
qed

lemma waiting_ok: "requests_ok (fst waiting_direct)" "hd (auth_requests (fst waiting_direct)) \<in> set (auth_requests (fst waiting_direct))"
  by code_simp+

theorem request_decided_once_witness:
  "\<exists>q. q \<in> set (auth_requests (fst (approve_first (fst waiting_direct)))) \<and>
     rq_id q = rq_id (hd (auth_requests (fst waiting_direct))) \<and>
     request_evolves (hd (auth_requests (fst waiting_direct))) q"
proof (rule request_decided_once [OF waiting_ok(1) _ waiting_ok(2)])
  show "request_step\<^sup>*\<^sup>* (fst waiting_direct) (fst (approve_first (fst waiting_direct)))"
    unfolding approve_first_def by (intro r_into_rtranclp request_step.decide [OF prod.collapse [symmetric]])
qed

text \<open>
  C30. An approval is re-checked when it is given: a request that comes out approved was
  pending, in the caller's scope and not past its expiry, its agent is active, and its
  permission is usable at that moment and allows the request for that agent. The decision is
  written to the audit log under the id of the request.
\<close>

theorem approval_revalidates:
  assumes "decide_owned_request s owner i approve (Some t0) org = (t, Inr r')" "rq_status r' = RQ_APPROVED"
  shows "\<exists>r agent p. r \<in> set (auth_requests s) \<and> rq_id r = i \<and> rq_status r = RQ_PENDING \<and> t0 < rq_expires_at r \<and>
    request_in_scope s owner org r \<and> approve \<and>
    get_agent s (rq_agent_id r) = Some agent \<and> ag_status agent = AG_ACTIVE \<and>
    get_permission s (rq_permission_id r) = Some p \<and> record_permitted r p t0 \<and>
    (\<exists>l. audit_logs t = audit_logs s @ [l] \<and> al_request_id l = rq_request_id r \<and> al_decision l = AD_APPROVED)"
  using assms(1)
proof (cases rule: decide_cases)
  case (approved r agent p r'')
  then show ?thesis
    using finalize_effect [OF approved(10)] by (auto simp: validate_for_approval_None)
next
  case (rejected r agent reason r'')
  with assms(2) finalize_effect [OF rejected(5)] show ?thesis by simp
qed simp_all

theorem approval_revalidates_witness:
  "rq_status (projr (snd (approve_first (fst waiting_direct)))) = RQ_APPROVED \<and>
   (\<exists>r p. r \<in> set (auth_requests (fst waiting_direct)) \<and> record_permitted r p 6)"
proof -
  have st: "rq_status (projr (snd (approve_first (fst waiting_direct)))) = RQ_APPROVED" by code_simp
  have "decide_owned_request (fst waiting_direct) 1 (rq_id (hd (auth_requests (fst waiting_direct)))) True (Some 6) (Some 7)
      = (fst (approve_first (fst waiting_direct)), Inr (projr (snd (approve_first (fst waiting_direct)))))"
    by code_simp
  from approval_revalidates [OF this st] st show ?thesis by blast
qed

text \<open>
  An expired request cannot be approved: a decision at or after its expiry stores the
  status expired, writes a rejection to the audit log and raises.
\<close>

theorem expired_request_not_approved:
  assumes "requests_ok s" "r \<in> set (auth_requests s)" "rq_status r = RQ_PENDING" "rq_expires_at r \<le> t0"
    and "request_in_scope s owner org r" "get_agent s (rq_agent_id r) = Some agent"
  shows "\<exists>t l. decide_owned_request s owner (rq_id r) approve (Some t0) org = (t, Inl RequestExpired) \<and>
    audit_logs t = audit_logs s @ [l] \<and> al_decision l = AD_REJECTED \<and>
    r\<lparr>rq_status := RQ_EXPIRED, rq_reason := ''Request expired'', rq_decided_at := Some t0\<rparr> \<in> set (auth_requests t)"
proof -
  have f: "find (\<lambda>x. rq_id x = rq_id r \<and> request_in_scope s owner org x) (auth_requests s) = Some r"
    using find_Some_exists [OF assms(2), of "\<lambda>x. rq_id x = rq_id r \<and> request_in_scope s owner org x"]
      assms(2,5) rows_ok_same_key [OF assms(1) _ assms(2)] by (auto dest: find_SomeD)
  obtain t r' where e: "finalize s r agent RQ_EXPIRED ''Request expired'' t0 = (t, r')" by force
  from finalize_effect [OF e] assms(2) show ?thesis
    by (auto simp: decide_owned_request_def f assms(3,4,6) e set_update_where)
qed

theorem expired_request_not_approved_witness:
  "\<exists>t l. decide_owned_request (fst waiting_direct) 1 (rq_id (hd (auth_requests (fst waiting_direct)))) True
      (Some (days 1)) (Some 7) = (t, Inl RequestExpired) \<and>
    audit_logs t = audit_logs (fst waiting_direct) @ [l] \<and> al_decision l = AD_REJECTED \<and>
    (hd (auth_requests (fst waiting_direct)))
      \<lparr>rq_status := RQ_EXPIRED, rq_reason := ''Request expired'', rq_decided_at := Some (days 1)\<rparr> \<in> set (auth_requests t)"
proof (rule expired_request_not_approved [OF waiting_ok])
  show "rq_status (hd (auth_requests (fst waiting_direct))) = RQ_PENDING" by code_simp
  show "rq_expires_at (hd (auth_requests (fst waiting_direct))) \<le> days 1" by code_simp
  show "request_in_scope (fst waiting_direct) 1 (Some 7) (hd (auth_requests (fst waiting_direct)))" by code_simp
  show "get_agent (fst waiting_direct) (rq_agent_id (hd (auth_requests (fst waiting_direct))))
     = Some (the (get_agent (fst waiting_direct) (rq_agent_id (hd (auth_requests (fst waiting_direct))))))" by code_simp
qed

text \<open>
  A delegated request that waits for approval can never be approved: its record names the
  delegated agent, its permission the delegating one, and the re-check requires them to be
  the same. Approving the request below, valid in every other respect, rejects it.
\<close>

theorem delegated_request_cannot_be_approved:
  "res_decision (snd waiting) = PENDING \<and>
   rq_status (projr (snd (approve_first (fst waiting)))) = RQ_REJECTED \<and>
   rq_reason (projr (snd (approve_first (fst waiting)))) = ''Permission is not valid for this request''"
proof (intro conjI)
  show "res_decision (snd waiting) = PENDING" by code_simp
  show "rq_status (projr (snd (approve_first (fst waiting)))) = RQ_REJECTED" by code_simp
  show "rq_reason (projr (snd (approve_first (fst waiting)))) = ''Permission is not valid for this request''" by code_simp
qed

end
