(* ===== verification/Lifecycle.thy ===== *)
theory Lifecycle
  imports Prelude Models
begin

text \<open>
  The lifecycle of agents (\<open>services/agent_lifecycle.py\<close>): the transition matrix, the
  promotion checklist, separation of duties, suspension and retirement with its cleanup.
\<close>

section \<open>The transition matrix\<close>

datatype lifecycle_code = INVALID_TRANSITION | TERMINAL_STATE | SEPARATION_OF_DUTIES_VIOLATION | CHECKLIST_FAILED

record LifecycleTransitionError =
  le_code :: lifecycle_code
  le_message :: string
  le_status_code :: nat

definition lifecycle_error :: "lifecycle_code \<Rightarrow> string \<Rightarrow> LifecycleTransitionError" where
  "lifecycle_error c m = \<lparr>le_code = c, le_message = m,
     le_status_code = (if c = SEPARATION_OF_DUTIES_VIOLATION then 403 else 400)\<rparr>"

text \<open>The allowed targets of a status, by the values of the enumeration.\<close>

definition VALID_TRANSITIONS :: "(string \<times> string list) list" where
  "VALID_TRANSITIONS =
     [(''draft'', [''registered'', ''retired'']),
      (''registered'', [''draft'', ''review_required'', ''active'', ''retired'']),
      (''review_required'', [''registered'', ''approved'', ''retired'']),
      (''approved'', [''active'', ''review_required'', ''retired'']),
      (''active'', [''suspended'', ''review_required'', ''retirement_pending'', ''retired'']),
      (''suspended'', [''active'', ''retirement_pending'', ''retired'']),
      (''retirement_pending'', [''retired'', ''suspended'', ''active'']),
      (''retired'', []),
      (''inactive'', [''registered'', ''active'', ''retired'']),
      (''revoked'', [])]"

text \<open>A requested status: a member of the enumeration or any string.\<close>

datatype target_status = StatusEnum AgentStatus | StatusText string

fun normalize_status :: "target_status \<Rightarrow> string" where
  "normalize_status (StatusEnum st) = AgentStatus_value st"
| "normalize_status (StatusText t) =
     (let v = py_lower (py_strip t) in
      if v = ''inactive'' then AgentStatus_value AG_REGISTERED
      else if v = ''revoked'' then AgentStatus_value AG_RETIRED
      else v)"

definition allowed_next :: "string \<Rightarrow> string list" where
  "allowed_next st = (case map_of VALID_TRANSITIONS st of Some ts \<Rightarrow> ts | None \<Rightarrow> [])"

section \<open>Governance policy and checklist\<close>

definition governance_policy :: "uuid option \<Rightarrow> bool \<Rightarrow> AgentGovernancePolicy" where
  "governance_policy org strict =
     \<lparr>gp_organization_id = org, gp_periodic_review_days = 90, gp_expiry_behavior = ALERT_ONLY,
      gp_dormancy_days = 90, gp_enforce_separation_of_duties = strict,
      gp_require_classification_on_promotion = strict, gp_require_purpose_on_promotion = strict\<rparr>"

definition get_governance_policy :: "db \<Rightarrow> uuid option \<Rightarrow> db \<times> AgentGovernancePolicy" where
  "get_governance_policy s organization_id =
     (case organization_id of
        None \<Rightarrow> (s, governance_policy None False)
      | Some org \<Rightarrow>
          (case find (\<lambda>p. gp_organization_id p = Some org) (governance_policies s) of
             Some p \<Rightarrow> (s, p)
           | None \<Rightarrow>
               let p = governance_policy (Some org) True in
               (s\<lparr>governance_policies := governance_policies s @ [p]\<rparr>, p)))"

text \<open>
  The failed items; an owner is always set, since the column is not nullable. The message on
  the classification prints a set, whose order is not determined: it is abbreviated.
\<close>

definition evaluate_promotion_checklist :: "Agent \<Rightarrow> AgentGovernancePolicy \<Rightarrow> string list" where
  "evaluate_promotion_checklist agent policy =
     (if ag_name agent = [] \<or> length (py_strip (ag_name agent)) < 3
      then [''Agent name must be at least 3 characters.''] else [])
     @ (if gp_require_purpose_on_promotion policy \<and>
           (case ag_purpose agent of None \<Rightarrow> True | Some p \<Rightarrow> p = [] \<or> length (py_strip p) < 10)
        then [''Business purpose description must be at least 10 characters.''] else [])
     @ (if gp_require_classification_on_promotion policy \<and>
           py_upper (ag_risk_classification agent) \<notin> {''LOW'', ''MEDIUM'', ''HIGH'', ''CRITICAL''}
        then [''Risk classification must be one of the four levels.''] else [])"

section \<open>Retirement\<close>

definition active_credential :: "uuid \<Rightarrow> AgentCredential \<Rightarrow> bool" where
  "active_credential agent c = (cr_subject_agent_id c = agent \<and> cr_status c = CR_ACTIVE)"

definition active_delegation_of :: "uuid \<Rightarrow> AgentDelegation \<Rightarrow> bool" where
  "active_delegation_of agent d =
     ((dg_parent_agent_id d = agent \<or> dg_child_agent_id d = agent) \<and> dg_status d = DG_ACTIVE)"

definition user_text :: "uuid option \<Rightarrow> string" where
  "user_text u = (case u of Some i \<Rightarrow> uuid_str i | None \<Rightarrow> ''system'')"

definition reason_or :: "string option \<Rightarrow> string \<Rightarrow> string" where
  "reason_or r dflt = (case r of Some t \<Rightarrow> if t = [] then dflt else t | None \<Rightarrow> dflt)"

definition lifecycle_event ::
    "uuid \<Rightarrow> string \<Rightarrow> string \<Rightarrow> string \<Rightarrow> (string \<times> pyval) list \<Rightarrow> SecurityEvent" where
  "lifecycle_event org ty sev descr details =
     \<lparr>se_organization_id = Some org, se_actor_user_id = None, se_target_user_id = None,
      se_event_type = ty, se_category = None, se_severity = sev, se_description = Some descr,
      se_details = details\<rparr>"

definition agent_quoted :: "Agent \<Rightarrow> string" where
  "agent_quoted a = ''Agent '' @ [CHR 0x27] @ ag_name a @ [CHR 0x27] @ '' ('' @ ag_agent_identifier a @ '')''"

definition opt_text :: "string option \<Rightarrow> pyval" where
  "opt_text r = (case r of Some t \<Rightarrow> PStr t | None \<Rightarrow> PNone)"

definition execute_retirement_cleanup :: "db \<Rightarrow> Agent \<Rightarrow> uuid option \<Rightarrow> string option \<Rightarrow> db" where
  "execute_retirement_cleanup s agent acting_user_id reason =
     (let n_creds = length (filter (active_credential (ag_id agent)) (credentials s));
          n_dels = length (filter (active_delegation_of (ag_id agent)) (delegations s));
          s1 = s\<lparr>credentials := update_where (active_credential (ag_id agent))
                   (\<lambda>c. c\<lparr>cr_status := CR_REVOKED, cr_revoked_at := Some (clock s),
                         cr_revocation_reason_code := Some ''AGENT_RETIRED''\<rparr>) (credentials s),
                 delegations := update_where (active_delegation_of (ag_id agent))
                   (\<lambda>d. d\<lparr>dg_status := DG_REVOKED\<rparr>) (delegations s)\<rparr>
      in case ag_organization_id agent of
           None \<Rightarrow> s1
         | Some org \<Rightarrow>
             s1\<lparr>security_events := security_events s1 @
               [lifecycle_event org ''agent_retired'' ''info''
                  (agent_quoted agent @ '' was permanently retired: '' @ reason_or reason ''Safe decommission.'')
                  [(''agent_id'', PStr (uuid_str (ag_id agent))),
                   (''agent_identifier'', PStr (ag_agent_identifier agent)),
                   (''retired_by'', PStr (user_text acting_user_id)),
                   (''credentials_revoked'', PInt (int n_creds)),
                   (''delegations_terminated'', PInt (int n_dels)),
                   (''reason'', opt_text reason)]]\<rparr>)"

record retirement_report =
  rr_has_active_dependencies :: bool
  rr_incoming :: "uuid list"
  rr_outgoing :: "uuid list"
  rr_credentials :: "string list"
  rr_summary :: string

definition check_retirement_dependencies :: "db \<Rightarrow> Agent \<Rightarrow> retirement_report" where
  "check_retirement_dependencies s agent =
     (let incoming = filter (\<lambda>d. dg_child_agent_id d = ag_id agent \<and> dg_status d = DG_ACTIVE) (delegations s);
          outgoing = filter (\<lambda>d. dg_parent_agent_id d = ag_id agent \<and> dg_status d = DG_ACTIVE) (delegations s);
          creds = filter (active_credential (ag_id agent)) (credentials s);
          blocking =
            (if incoming \<noteq> [] then [str_of_nat (length incoming) @ '' active incoming delegation(s)''] else [])
            @ (if outgoing \<noteq> [] then [str_of_nat (length outgoing) @ '' active outgoing delegation(s)''] else [])
            @ (if creds \<noteq> [] then [str_of_nat (length creds) @ '' active credential(s)''] else [])
      in \<lparr>rr_has_active_dependencies = (length blocking > 0), rr_incoming = map dg_id incoming,
          rr_outgoing = map dg_id outgoing, rr_credentials = map cr_credential_id creds,
          rr_summary = (if blocking \<noteq> [] then py_join ''; '' blocking else ''No active dependencies.'')\<rparr>)"

section \<open>Transitions\<close>

definition store_agent :: "Agent \<Rightarrow> db \<Rightarrow> db" where
  "store_agent a s = s\<lparr>agents := update_where (\<lambda>x. ag_id x = ag_id a) (\<lambda>_. a) (agents s)\<rparr>"

definition status_of_value :: "string \<Rightarrow> AgentStatus option" where
  "status_of_value v = find (\<lambda>st. AgentStatus_value st = v) all_AgentStatus"

text \<open>The effect of an allowed transition to a given status.\<close>

definition enter_status ::
    "db \<Rightarrow> Agent \<Rightarrow> AgentGovernancePolicy \<Rightarrow> string \<Rightarrow> uuid option \<Rightarrow> string option \<Rightarrow> db \<times> Agent" where
  "enter_status s agent policy next_status acting_user_id reason =
     (if next_status = AgentStatus_value AG_ACTIVE then
        let a = (case ag_certified_until agent of
                   Some _ \<Rightarrow> agent
                 | None \<Rightarrow>
                     let until = clock s + days (gp_periodic_review_days policy) in
                     agent\<lparr>ag_certified_until := Some until, ag_next_review_due_at := Some until,
                           ag_certification_status := ''CERTIFIED''\<rparr>);
            a' = a\<lparr>ag_status := AG_ACTIVE\<rparr>
        in (store_agent a' s, a')
      else if next_status = AgentStatus_value AG_SUSPENDED then
        let a' = agent\<lparr>ag_status := AG_SUSPENDED\<rparr>; s1 = store_agent a' s in
        (case ag_organization_id agent of
           None \<Rightarrow> (s1, a')
         | Some org \<Rightarrow>
             (s1\<lparr>security_events := security_events s1 @
                [lifecycle_event org ''agent_suspended'' ''warning''
                   (agent_quoted agent @ '' was suspended: '' @ reason_or reason ''No reason provided.'')
                   [(''agent_id'', PStr (uuid_str (ag_id agent))),
                    (''agent_identifier'', PStr (ag_agent_identifier agent)),
                    (''suspended_by'', PStr (user_text acting_user_id)),
                    (''reason'', opt_text reason)]]\<rparr>, a'))
      else if next_status = AgentStatus_value AG_RETIRED then
        let a' = agent\<lparr>ag_status := AG_RETIRED\<rparr> in
        (store_agent a' (execute_retirement_cleanup s agent acting_user_id reason), a')
      else
        (case status_of_value next_status of
           None \<Rightarrow> (s, agent)
         | Some st \<Rightarrow> let a' = agent\<lparr>ag_status := st\<rparr> in (store_agent a' s, a')))"

text \<open>A governance policy created on the way is committed even when the transition fails.\<close>

definition transition_lifecycle ::
    "db \<Rightarrow> Agent \<Rightarrow> target_status \<Rightarrow> uuid option \<Rightarrow> string option \<Rightarrow> bool
       \<Rightarrow> db \<times> (LifecycleTransitionError + Agent)" where
  "transition_lifecycle s agent target acting_user_id reason bypass_checklist =
     (let curr_status = normalize_status (StatusEnum (ag_status agent));
          next_status = normalize_status target; q = [CHR 0x27] in
      if curr_status = next_status then (s, Inr agent)
      else if curr_status \<in> {AgentStatus_value AG_RETIRED, AgentStatus_value AG_REVOKED}
      then (s, Inl (lifecycle_error TERMINAL_STATE
             (''Agent '' @ q @ ag_name agent @ q @ '' is in terminal state '' @ q @ curr_status @ q
              @ '' and cannot be transitioned.'')))
      else if next_status \<notin> set (allowed_next curr_status)
      then (s, Inl (lifecycle_error INVALID_TRANSITION
             (''Transition from '' @ q @ curr_status @ q @ '' to '' @ q @ next_status @ q
              @ '' is not permitted. Allowed: '' @ py_repr (PList (map PStr (sort (allowed_next curr_status)))))))
      else
        let (s1, policy) = get_governance_policy s (ag_organization_id agent) in
        if next_status \<in> {AgentStatus_value AG_APPROVED, AgentStatus_value AG_ACTIVE}
           \<and> curr_status = AgentStatus_value AG_REVIEW_REQUIRED
           \<and> gp_enforce_separation_of_duties policy \<and> acting_user_id = Some (ag_owner_id agent)
        then (s1, Inl (lifecycle_error SEPARATION_OF_DUTIES_VIOLATION
               (''Separation of duties enforced: Agent owner cannot approve their own agent'' @ q @ ''s promotion.'')))
        else if next_status \<in> {AgentStatus_value AG_REVIEW_REQUIRED, AgentStatus_value AG_APPROVED,
                               AgentStatus_value AG_ACTIVE}
                \<and> \<not> bypass_checklist \<and> evaluate_promotion_checklist agent policy \<noteq> []
        then (s1, Inl (lifecycle_error CHECKLIST_FAILED
               (''Agent failed promotion checklist: ''
                @ py_join ''; '' (evaluate_promotion_checklist agent policy))))
        else (let (s2, a) = enter_status s1 agent policy next_status acting_user_id reason in (s2, Inr a)))"

end
