(* ===== verification/Lifecycle_Safety.thy ===== *)
theory Lifecycle_Safety
  imports Lifecycle Authorization_Safety
begin

text \<open>
  Properties of the agent lifecycle: what a transition requires and changes, that an agent moves
  only along the matrix and never leaves a terminal status, what retirement leaves behind, and
  that a retired agent is refused by the authorization service.
\<close>

section \<open>One transition\<close>

lemma status_value_inject [simp]: "AgentStatus_value a = AgentStatus_value b \<longleftrightarrow> a = b"
  by (cases a; cases b) simp_all

text \<open>The matrix on the members of the enumeration.\<close>

definition may_enter :: "AgentStatus \<Rightarrow> AgentStatus \<Rightarrow> bool" where
  "may_enter st st' = (AgentStatus_value st' \<in> set (allowed_next (AgentStatus_value st)))"

definition terminal :: "AgentStatus \<Rightarrow> bool" where
  "terminal st = (st \<in> {AG_RETIRED, AG_REVOKED})"

lemma allowed_next_values: "v \<in> set (allowed_next st) \<Longrightarrow> \<exists>st'. v = AgentStatus_value st' \<and> \<not> st' \<in> {AG_INACTIVE, AG_REVOKED}"
  unfolding allowed_next_def VALID_TRANSITIONS_def
  by (auto split: if_splits option.splits intro: exI [of _ AG_DRAFT] exI [of _ AG_REGISTERED] exI [of _ AG_REVIEW_REQUIRED]
      exI [of _ AG_APPROVED] exI [of _ AG_ACTIVE] exI [of _ AG_SUSPENDED] exI [of _ AG_RETIREMENT_PENDING] exI [of _ AG_RETIRED])

lemma status_of_value [simp]: "status_of_value (AgentStatus_value st) = Some st"
  by (cases st) (simp_all add: status_of_value_def all_AgentStatus_def)

lemma terminal_no_next: "terminal st \<Longrightarrow> allowed_next (AgentStatus_value st) = []"
  by (auto simp: terminal_def allowed_next_def VALID_TRANSITIONS_def)

lemma get_governance_policy_keeps:
  "get_governance_policy s org = (t, p) \<Longrightarrow> agents t = agents s \<and> credentials t = credentials s \<and> delegations t = delegations s \<and>
     audit_logs t = audit_logs s \<and> security_events t = security_events s \<and> clock t = clock s \<and> permissions t = permissions s \<and>
     next_id t = next_id s"
  by (auto simp: get_governance_policy_def Let_def split: option.splits)

lemma cleanup_keeps [db_simps]:
  "agents (execute_retirement_cleanup s a u r) = agents s"
  "audit_logs (execute_retirement_cleanup s a u r) = audit_logs s"
  "clock (execute_retirement_cleanup s a u r) = clock s"
  "permissions (execute_retirement_cleanup s a u r) = permissions s"
  "next_id (execute_retirement_cleanup s a u r) = next_id s"
  by (simp_all add: execute_retirement_cleanup_def Let_def split: option.split)


text \<open>The agent a transition stores: only the status and the certification may differ.\<close>

definition recertified :: "Agent \<Rightarrow> AgentStatus \<Rightarrow> Agent \<Rightarrow> bool" where
  "recertified agent st a =
     (a = agent\<lparr>ag_status := st, ag_certified_until := ag_certified_until a,
        ag_next_review_due_at := ag_next_review_due_at a, ag_certification_status := ag_certification_status a\<rparr>)"

definition entered :: "db \<Rightarrow> Agent \<Rightarrow> AgentStatus \<Rightarrow> db \<Rightarrow> Agent \<Rightarrow> bool" where
  "entered s agent st t a =
     (recertified agent st a \<and> agents t = update_where (\<lambda>x. ag_id x = ag_id agent) (\<lambda>_. a) (agents s) \<and>
      audit_logs t = audit_logs s \<and> clock t = clock s \<and> next_id t = next_id s \<and> permissions t = permissions s)"

lemma enter_active: "entered s agent AG_ACTIVE (fst (enter_status s agent p ''active'' u r)) (snd (enter_status s agent p ''active'' u r))"
  by (simp add: entered_def recertified_def enter_status_def store_agent_def Let_def split: option.split)

lemma enter_suspended:
  "entered s agent AG_SUSPENDED (fst (enter_status s agent p ''suspended'' u r)) (snd (enter_status s agent p ''suspended'' u r))"
  by (simp add: entered_def recertified_def enter_status_def store_agent_def Let_def split: option.split)

lemma enter_retired:
  "entered s agent AG_RETIRED (fst (enter_status s agent p ''retired'' u r)) (snd (enter_status s agent p ''retired'' u r))"
  by (simp add: entered_def recertified_def enter_status_def store_agent_def Let_def db_simps)

lemma enter_other:
  assumes "st \<notin> {AG_ACTIVE, AG_SUSPENDED, AG_RETIRED}"
  shows "entered s agent st (fst (enter_status s agent p (AgentStatus_value st) u r)) (snd (enter_status s agent p (AgentStatus_value st) u r))"
proof -
  have n: "AgentStatus_value st \<noteq> AgentStatus_value AG_ACTIVE" "AgentStatus_value st \<noteq> AgentStatus_value AG_SUSPENDED"
    "AgentStatus_value st \<noteq> AgentStatus_value AG_RETIRED"
    using assms unfolding status_value_inject by simp_all
  show ?thesis
    unfolding enter_status_def if_not_P [OF n(1)] if_not_P [OF n(2)] if_not_P [OF n(3)]
    by (simp add: entered_def recertified_def store_agent_def Let_def)
qed

lemma enter_status_effect:
  assumes "enter_status s agent policy (AgentStatus_value st) u reason = (t, a)"
  shows "entered s agent st t a"
  using enter_active [of s agent policy u reason] enter_suspended [of s agent policy u reason]
    enter_retired [of s agent policy u reason] enter_other [of st s agent policy u reason] assms
  by (cases "st \<in> {AG_ACTIVE, AG_SUSPENDED, AG_RETIRED}") auto


text \<open>What a successful transition satisfies, in one place.\<close>

definition transition_ok :: "db \<Rightarrow> Agent \<Rightarrow> AgentStatus \<Rightarrow> uuid option \<Rightarrow> bool \<Rightarrow> bool" where
  "transition_ok s agent st u bypass =
     (let policy = snd (get_governance_policy s (ag_organization_id agent)) in
      may_enter (ag_status agent) st \<and> \<not> terminal (ag_status agent) \<and>
      (ag_status agent = AG_REVIEW_REQUIRED \<and> st = AG_APPROVED \<and> gp_enforce_separation_of_duties policy
         \<longrightarrow> u \<noteq> Some (ag_owner_id agent)) \<and>
      (st \<in> {AG_REVIEW_REQUIRED, AG_APPROVED, AG_ACTIVE} \<longrightarrow>
         bypass \<or> evaluate_promotion_checklist agent policy = []))"

lemma may_enter_not_terminal: "may_enter st st' \<Longrightarrow> \<not> terminal st"
  using terminal_no_next by (auto simp: may_enter_def)

lemma transition_cases:
  assumes "transition_lifecycle s agent target u reason bypass = (t, Inr a)"
  obtains (same) "t = s" "a = agent" "normalize_status target = AgentStatus_value (ag_status agent)"
  | (moved) s1 p st where "get_governance_policy s (ag_organization_id agent) = (s1, p)"
      "normalize_status target = AgentStatus_value st" "transition_ok s agent st u bypass" "st \<noteq> ag_status agent"
      "enter_status s1 agent p (AgentStatus_value st) u reason = (t, a)"
proof -
  let ?c = "AgentStatus_value (ag_status agent)" and ?n = "normalize_status target"
  obtain s1 p where g: "get_governance_policy s (ag_organization_id agent) = (s1, p)" by force
  note d = assms [unfolded transition_lifecycle_def Let_def g normalize_status.simps(1) prod.case]
  show thesis
  proof (cases "?c = ?n")
    case True
    with d have "t = s" "a = agent" by simp_all
    with True show thesis by (auto intro: same)
  next
    case False
    with d have n: "?n \<in> set (allowed_next ?c)" by (auto split: if_splits)
    then obtain st where st: "?n = AgentStatus_value st" using allowed_next_values by blast
    from n st have m: "may_enter (ag_status agent) st" by (simp add: may_enter_def)
    have ne: "st \<noteq> ag_status agent" using False st by auto
    have nt: "\<not> terminal (ag_status agent)" using m by (rule may_enter_not_terminal)
    then have c: "?c \<notin> {AgentStatus_value AG_RETIRED, AgentStatus_value AG_REVOKED}"
      unfolding terminal_def by (auto simp del: AgentStatus_value.simps)
    note e = d [unfolded st, unfolded status_value_inject insert_iff empty_iff]
    have "transition_ok s agent st u bypass \<and> enter_status s1 agent p (AgentStatus_value st) u reason = (t, a)"
      using e ne m nt c n st
      by (auto simp: transition_ok_def g may_enter_def terminal_def simp del: AgentStatus_value.simps
          split: if_splits prod.splits)
    with st ne g show thesis by (auto intro: moved)
  qed
qed

lemma failed_transition_keeps:
  "transition_lifecycle s agent target u reason bypass = (t, Inl e) \<Longrightarrow>
     agents t = agents s \<and> credentials t = credentials s \<and> delegations t = delegations s \<and> next_id t = next_id s"
  by (auto simp: transition_lifecycle_def Let_def dest: get_governance_policy_keeps split: if_splits prod.splits)


section \<open>Sequences of operations\<close>

text \<open>
  How an agent row may change: its identity and its owner stay, its status moves along the
  matrix.
\<close>

definition agent_evolves :: "Agent \<Rightarrow> Agent \<Rightarrow> bool" where
  "agent_evolves a b =
     (ag_id b = ag_id a \<and> ag_owner_id b = ag_owner_id a \<and> ag_organization_id b = ag_organization_id a \<and>
      ag_agent_identifier b = ag_agent_identifier a \<and> ag_environment b = ag_environment a \<and>
      ag_name b = ag_name a \<and> may_enter\<^sup>*\<^sup>* (ag_status a) (ag_status b))"

interpretation agent_rows: keyed_rows ag_id agent_evolves
proof
  show "agent_evolves a a" for a by (simp add: agent_evolves_def)
  show "agent_evolves a c" if "agent_evolves a b" "agent_evolves b c" for a b c
    using that by (auto simp: agent_evolves_def)
  show "ag_id b = ag_id a" if "agent_evolves a b" for a b
    using that by (simp add: agent_evolves_def)
qed

lemma terminal_stays: "may_enter\<^sup>*\<^sup>* st st' \<Longrightarrow> terminal st \<Longrightarrow> st' = st"
  by (erule converse_rtranclpE) (auto dest: may_enter_not_terminal)

text \<open>
  The operations on agents: a transition of a stored agent, whether it succeeds or not, and an
  authorization, which records the activity of the agent it finds.
\<close>

inductive lifecycle_step :: "db \<Rightarrow> db \<Rightarrow> bool" where
  transition: "get_agent s i = Some agent \<Longrightarrow> transition_lifecycle s agent target u reason bypass = (t, r) \<Longrightarrow>
    lifecycle_step s t"
| authorize: "authorize_action s owner request (Some t0) scope settings k = Inr (t, r) \<Longrightarrow> lifecycle_step s t"
| tick: "clock s \<le> now \<Longrightarrow> lifecycle_step s (s\<lparr>clock := now\<rparr>)"

inductive_cases lifecycle_stepE: "lifecycle_step s t"

abbreviation agents_ok :: "db \<Rightarrow> bool" where
  "agents_ok s \<equiv> rows_ok ag_id (next_id s) (agents s)"

abbreviation agents_evolve :: "db \<Rightarrow> db \<Rightarrow> bool" where
  "agents_evolve s t \<equiv> rows_evolve ag_id agent_evolves (next_id s) (agents s) (next_id t) (agents t)"

lemma transition_moves:
  assumes "transition_lifecycle s agent target u reason bypass = (t, Inr a)"
  shows "agent_evolves agent a \<and> next_id t = next_id s \<and> audit_logs t = audit_logs s \<and>
    (a = agent \<and> agents t = agents s \<or> agents t = update_where (\<lambda>x. ag_id x = ag_id agent) (\<lambda>_. a) (agents s))"
  using assms
proof (cases rule: transition_cases)
  case same
  then show ?thesis by (simp add: agent_evolves_def)
next
  case (moved s1 p st)
  from enter_status_effect [OF moved(5)] have e: "entered s1 agent st t a" .
  from e have "a = agent\<lparr>ag_status := st, ag_certified_until := ag_certified_until a,
        ag_next_review_due_at := ag_next_review_due_at a, ag_certification_status := ag_certification_status a\<rparr>"
    by (simp add: entered_def recertified_def)
  then obtain c n v where "a = agent\<lparr>ag_status := st, ag_certified_until := c, ag_next_review_due_at := n,
    ag_certification_status := v\<rparr>" by blast
  with moved(3) have "agent_evolves agent a" by (auto simp: agent_evolves_def transition_ok_def Let_def)
  with e get_governance_policy_keeps [OF moved(1)] show ?thesis by (simp add: entered_def)
qed

lemma agents_evolve_transition:
  assumes "agents_ok s" "get_agent s i = Some agent" "transition_lifecycle s agent target u reason bypass = (t, r)"
  shows "agents_evolve s t"
proof (cases r)
  case (Inl e)
  with failed_transition_keeps [of s agent target u reason bypass t e] assms show ?thesis
    by (simp add: agent_rows.evolve_refl)
next
  case (Inr a)
  from assms(2) have "agent \<in> set (agents s)" "ag_id agent = i" by (auto simp: get_agent_def dest: find_SomeD)
  then have same: "x = agent" if "x \<in> set (agents s)" "ag_id x = ag_id agent" for x
    using rows_ok_same_key [OF assms(1)] that by blast
  from transition_moves [of s agent target u reason bypass t a] assms(3) Inr
  have m: "agent_evolves agent a" "next_id t = next_id s"
    "a = agent \<and> agents t = agents s \<or> agents t = update_where (\<lambda>x. ag_id x = ag_id agent) (\<lambda>_. a) (agents s)"
    by simp_all
  have "agent_evolves x a" if "x \<in> set (agents s)" "ag_id x = ag_id agent" for x
    using same [OF that] m(1) by simp
  with m(2,3) assms(1) show ?thesis
    by (auto intro!: agent_rows.evolve_refl agent_rows.evolve_update_where)
qed

lemma authorize_action_agents:
  assumes "authorize_action s owner request (Some t0) scope settings k = Inr (t, r)"
  shows "agents t = agents s \<or> (\<exists>i. agents t = agents (touch_agent i t0 s))"
proof -
  have dec: "agents t = agents s'" if "decides s' (authorize_action s owner request (Some t0) scope settings k)" for s'
    using that assms by (simp add: decides_def same_grants_def)
  show ?thesis
proof (cases "find (agent_matches owner request scope k) (agents s)")
  case None
  then show ?thesis
    by (intro disjI1 dec) (simp add: authorize_action_def Let_def save_plain_decides)
next
  case (Some agent)
  note agent = find_SomeD [OF Some]
  let ?s1 = "touch_agent (ag_id agent) t0 s"
  show ?thesis
  proof (cases "ag_status agent = AG_ACTIVE")
    case False
    with Some show ?thesis
      by (intro disjI1 dec) (simp add: authorize_action_def Let_def save_plain_decides)
  next
    case active: True
    show ?thesis
    proof (cases "ar_delegation_id request")
      case None
      with Some active agent have "agents t = agents (expire_owned_permissions ?s1 owner (Some t0) (sweep_of scope))"
        by (intro dec) (simp add: authorize_action_def Let_def authorize_direct_decides get_agent_touch)
      then show ?thesis by (auto simp: db_simps)
    next
      case (Some did)
      with \<open>find _ _ = Some agent\<close> active have "agents t = agents ?s1"
        by (intro dec) (simp add: authorize_action_def Let_def authorize_delegated_decides)
      then show ?thesis by blast
    qed
  qed
qed
qed

lemma agents_evolve_authorize:
  assumes "agents_ok s" "authorize_action s owner request (Some t0) scope settings k = Inr (t, r)"
  shows "agents_evolve s t"
proof -
  have le: "next_id s \<le> next_id t"
    using authorize_action_decides [of s owner request t0 scope settings k] assms(2) by (auto simp: recorded_def)
  have touch: "rows_evolve ag_id agent_evolves (next_id s) (agents s) (next_id s) (agents (touch_agent i t0 s))" for i
    using assms(1) by (auto simp: touch_agent_def agent_evolves_def intro!: agent_rows.evolve_update_where)
  have up: "rows_evolve ag_id agent_evolves (next_id s) (agents s) (next_id t) rs"
    if "rows_evolve ag_id agent_evolves (next_id s) (agents s) (next_id s) rs" for rs
    using that le rows_ok_mono by (auto simp: rows_evolve_def)
  from authorize_action_agents [OF assms(2)] show ?thesis
  proof
    assume "agents t = agents s"
    with assms(1) le show ?thesis by (simp add: agent_rows.evolve_refl)
  next
    assume "\<exists>i. agents t = agents (touch_agent i t0 s)"
    then obtain i where "agents t = agents (touch_agent i t0 s)" ..
    with up [OF touch [of i]] show ?thesis by simp
  qed
qed

lemma agents_evolve_step:
  assumes "agents_ok s" "lifecycle_step s t"
  shows "agents_evolve s t"
  using assms(2,1)
  by (induction rule: lifecycle_step.induct)
    (blast intro: agents_evolve_transition agents_evolve_authorize, blast intro: agents_evolve_authorize,
     simp add: agent_rows.evolve_refl)

lemma lifecycle_steps_evolve: "lifecycle_step\<^sup>*\<^sup>* s t \<Longrightarrow> agents_ok s \<Longrightarrow> agents_evolve s t"
  using agent_rows.evolve_steps [of lifecycle_step s t next_id agents] agents_evolve_step by blast

section \<open>Properties\<close>

text \<open>
  C32. The lifecycle runs along the matrix: whatever transitions and authorizations follow, an
  agent stays stored with its identity and owner, its status is reached from the old one by
  allowed moves, and an agent that is retired or revoked stays so and is refused every request.
\<close>

theorem lifecycle_terminal_final:
  assumes "agents_ok s" "lifecycle_step\<^sup>*\<^sup>* s t" "agent \<in> set (agents s)"
  shows "\<exists>b\<in>set (agents t). agent_evolves agent b \<and>
     (terminal (ag_status agent) \<longrightarrow> ag_status b = ag_status agent \<and>
        (\<forall>owner request t0 scope settings k u r. find (agent_matches owner request scope k) (agents t) = Some b \<longrightarrow>
           authorize_action t owner request (Some t0) scope settings k = Inr (u, r) \<longrightarrow> res_decision r = REJECTED))"
proof -
  obtain b where b: "b \<in> set (agents t)" "agent_evolves agent b"
    using lifecycle_steps_evolve [OF assms(2,1)] assms(3) by (blast dest: rows_evolve_fwd)
  show ?thesis
  proof (intro bexI [of _ b] conjI impI allI)
    assume "terminal (ag_status agent)"
    with b(2) show st: "ag_status b = ag_status agent" by (auto simp: agent_evolves_def dest: terminal_stays)
    fix owner request t0 scope settings k u r
    assume "find (agent_matches owner request scope k) (agents t) = Some b"
      "authorize_action t owner request (Some t0) scope settings k = Inr (u, r)"
    with authorize_action_grounds [of t owner request t0 scope settings k u r] st \<open>terminal (ag_status agent)\<close>
    show "res_decision r = REJECTED" by (cases "res_decision r = REJECTED") (auto simp: terminal_def)
  qed (use b in simp_all)
qed

text \<open>
  What a successful transition means: nothing happened because the agent already has that
  status, or the matrix allows the move, a review of an agent whose organization separates
  duties was not approved by its owner, and an agent that enters review, approval or activity
  passed the checklist unless the caller bypassed it; then exactly this agent has the new status.
\<close>

theorem transition_sound:
  assumes "transition_lifecycle s agent target u reason bypass = (t, Inr a)"
  shows "t = s \<and> a = agent \<and> normalize_status target = AgentStatus_value (ag_status agent) \<or>
    (\<exists>st. normalize_status target = AgentStatus_value st \<and> st \<noteq> ag_status agent \<and> transition_ok s agent st u bypass \<and>
       recertified agent st a \<and> agents t = update_where (\<lambda>x. ag_id x = ag_id agent) (\<lambda>_. a) (agents s) \<and>
       audit_logs t = audit_logs s \<and> permissions t = permissions s)"
  using assms
proof (cases rule: transition_cases)
  case (moved s1 p st)
  with enter_status_effect [OF moved(5)] get_governance_policy_keeps [OF moved(1)] show ?thesis
    by (auto simp: entered_def)
qed simp

lemma retirement_tables:
  assumes "transition_lifecycle s agent target u reason bypass = (t, Inr a)"
    "normalize_status target = ''retired''" "ag_status agent \<noteq> AG_RETIRED"
  shows "ag_status a = AG_RETIRED \<and>
    credentials t = update_where (active_credential (ag_id agent))
      (\<lambda>c. c\<lparr>cr_status := CR_REVOKED, cr_revoked_at := Some (clock s),
            cr_revocation_reason_code := Some ''AGENT_RETIRED''\<rparr>) (credentials s) \<and>
    delegations t = update_where (active_delegation_of (ag_id agent)) (\<lambda>d. d\<lparr>dg_status := DG_REVOKED\<rparr>) (delegations s) \<and>
    audit_logs t = audit_logs s \<and> permissions t = permissions s"
  using assms(1)
proof (cases rule: transition_cases)
  case same
  with assms show ?thesis by (cases "ag_status agent") simp_all
next
  case (moved s1 p st)
  then have "AgentStatus_value st = AgentStatus_value AG_RETIRED" using assms(2) by simp
  then have "st = AG_RETIRED" by (simp only: status_value_inject)
  with moved(5) get_governance_policy_keeps [OF moved(1)] show ?thesis
    by (auto simp: enter_status_def execute_retirement_cleanup_def store_agent_def Let_def split: option.split)
qed

lemma verified_link_active:
  assumes "verify_delegation_chain s did act res amt cur (Some t0) (Some child) org = Inr m"
  shows "\<exists>d\<in>set (delegations s). dg_child_agent_id d = child \<and> dg_status d = DG_ACTIVE"
proof -
  from assms obtain d acc acc' where d: "find (\<lambda>d. dg_delegation_id d = did) (delegations s) = Some d"
    "dg_child_agent_id d = child" "walk_chain s t0 act res (Some d) {} acc = Inr acc'"
    by (auto simp: verify_delegation_chain_def Let_def rbind_Inr_iff simp del: walk_chain.simps
        split: option.splits if_splits)
  then have "link_error s t0 act res {} d = None" by (auto split: option.splits)
  then have "dg_status d \<noteq> DG_REVOKED" "dg_status d \<noteq> DG_SUSPENDED" "dg_status d \<noteq> DG_EXPIRED"
    by (auto simp: link_error_def split: if_splits)
  then have "dg_status d = DG_ACTIVE" by (cases "dg_status d") auto
  with d show ?thesis by (auto dest: find_SomeD)
qed

text \<open>
  Retirement leaves nothing usable behind: every active credential of the agent is revoked
  with the reason \<open>AGENT_RETIRED\<close>, every active delegation from or to it is revoked, all other
  rows of both tables, the permissions and the audit log are as before, and no delegation chain
  that ends in the agent verifies.
\<close>

theorem retirement_tears_down:
  assumes "transition_lifecycle s agent target u reason bypass = (t, Inr a)"
    "normalize_status target = ''retired''" "ag_status agent \<noteq> AG_RETIRED"
  shows "ag_status a = AG_RETIRED \<and>
    credentials t = update_where (active_credential (ag_id agent))
      (\<lambda>c. c\<lparr>cr_status := CR_REVOKED, cr_revoked_at := Some (clock s),
            cr_revocation_reason_code := Some ''AGENT_RETIRED''\<rparr>) (credentials s) \<and>
    delegations t = update_where (active_delegation_of (ag_id agent)) (\<lambda>d. d\<lparr>dg_status := DG_REVOKED\<rparr>) (delegations s) \<and>
    \<not> list_ex (active_credential (ag_id agent)) (credentials t) \<and>
    \<not> list_ex (active_delegation_of (ag_id agent)) (delegations t) \<and>
    raises (verify_delegation_chain t did act res amt cur (Some t0) (Some (ag_id agent)) org) \<and>
    audit_logs t = audit_logs s \<and> permissions t = permissions s"
proof -
  note r = retirement_tables [OF assms]
  have c: "\<not> list_ex (active_credential (ag_id agent)) (credentials t)"
    using r by (auto simp: list_ex_iff set_update_where active_credential_def)
  have d: "\<not> list_ex (active_delegation_of (ag_id agent)) (delegations t)"
    using r by (auto simp: list_ex_iff set_update_where active_delegation_of_def)
  then have "raises (verify_delegation_chain t did act res amt cur (Some t0) (Some (ag_id agent)) org)"
    using verified_link_active [of t did act res amt cur t0 "ag_id agent" org] not_raises_iff
    by (fastforce simp: list_ex_iff active_delegation_of_def)
  with r c d show ?thesis by simp
qed

section \<open>Small transitions\<close>

definition promotable :: "AgentStatus \<Rightarrow> Agent" where
  "promotable st = (demo_agent 5 ''buyer'')\<lparr>ag_status := st, ag_purpose := Some ''Buys books for the library''\<rparr>"

definition lifecycle_db :: "AgentStatus \<Rightarrow> db" where
  "lifecycle_db st = demo_db\<lparr>agents := [promotable st],
     credentials := [\<lparr>cr_id = 60, cr_credential_id = ''atc_1'', cr_issuer_id = 61, cr_subject_agent_id = 5,
       cr_organization_id = 7, cr_credential_type = ''AgentIdentityCredential'', cr_environment = ''production'',
       cr_issued_at = 0, cr_not_before = None, cr_expires_at = 0, cr_status = CR_ACTIVE, cr_signing_key_id = ''k'',
       cr_claims_json = PNone, cr_claims_hash = [], cr_signature_value = [],
       cr_revoked_at = None, cr_revocation_reason_code = None\<rparr>]\<rparr>"

text \<open>
  The owner of an agent can activate it alone: with separation of duties enforced the owner
  is refused the approval of a review, but the same owner moves a registered production agent
  straight to active, and a reviewed one back to registered and then to active.
\<close>

theorem owner_activates_without_review:
  "le_code (projl (snd (transition_lifecycle (lifecycle_db AG_REVIEW_REQUIRED) (promotable AG_REVIEW_REQUIRED)
      (StatusText ''approved'') (Some 1) None False))) = SEPARATION_OF_DUTIES_VIOLATION \<and>
   ag_status (projr (snd (transition_lifecycle (lifecycle_db AG_REGISTERED) (promotable AG_REGISTERED)
      (StatusText ''active'') (Some 1) None False))) = AG_ACTIVE \<and>
   ag_owner_id (promotable st) = 1 \<and> ag_environment (promotable st) = ''production'' \<and>
   gp_enforce_separation_of_duties (snd (get_governance_policy (lifecycle_db st) (Some 7))) \<and>
   ag_status (projr (snd (transition_lifecycle (lifecycle_db AG_REVIEW_REQUIRED) (promotable AG_REVIEW_REQUIRED)
      (StatusText ''registered'') (Some 1) None False))) = AG_REGISTERED"
proof (intro conjI)
  show "gp_enforce_separation_of_duties (snd (get_governance_policy (lifecycle_db st) (Some 7)))"
    by (simp add: lifecycle_db_def demo_db_def empty_db_def get_governance_policy_def governance_policy_def Let_def)
qed (code_simp | simp add: promotable_def demo_agent_def)+

definition retire_demo :: "db \<times> (LifecycleTransitionError + Agent)" where
  "retire_demo = transition_lifecycle (lifecycle_db AG_ACTIVE) (promotable AG_ACTIVE) (StatusText ''Retired '') (Some 1) None False"

lemma retire_demo_eq:
  "transition_lifecycle (lifecycle_db AG_ACTIVE) (promotable AG_ACTIVE) (StatusText ''Retired '') (Some 1) None False =
     (fst retire_demo, Inr (projr (snd retire_demo)))"
  by code_simp

lemma retire_demo_target: "normalize_status (StatusText ''Retired '') = ''retired''" by code_simp

theorem transition_sound_witness:
  "transition_ok (lifecycle_db AG_ACTIVE) (promotable AG_ACTIVE) AG_RETIRED (Some 1) False \<and>
   audit_logs (fst retire_demo) = audit_logs (lifecycle_db AG_ACTIVE)"
proof -
  have n: "normalize_status (StatusText ''Retired '') = AgentStatus_value AG_RETIRED" using retire_demo_target by simp
  have a: "ag_status (promotable AG_ACTIVE) = AG_ACTIVE" by (simp add: promotable_def)
  show ?thesis
    using transition_sound [OF retire_demo_eq] unfolding n a status_value_inject by auto
qed

theorem retirement_tears_down_witness:
  "\<not> list_ex (active_credential 5) (credentials (fst retire_demo)) \<and>
   raises (verify_delegation_chain (fst retire_demo) ''dlg'' ''purchase'' ''books'' None None (Some 0) (Some 5) None)"
proof -
  have "ag_status (promotable AG_ACTIVE) \<noteq> AG_RETIRED" "ag_id (promotable AG_ACTIVE) = 5"
    by (simp_all add: promotable_def demo_agent_def)
  with retirement_tears_down [OF retire_demo_eq retire_demo_target, of "''dlg''" "''purchase''" "''books''" None None 0 None]
  show ?thesis by (metis (no_types, lifting))
qed

theorem lifecycle_terminal_final_witness:
  "res_decision (snd (projr (authorize_action ((lifecycle_db AG_RETIRED)\<lparr>clock := 9\<rparr>) 1
     (demo_request ''buyer'' None None) (Some 5) Unscoped default_settings None))) = REJECTED"
proof -
  let ?s = "lifecycle_db AG_RETIRED" and ?req = "demo_request ''buyer'' None None"
  let ?t = "?s\<lparr>clock := 9\<rparr>" and ?a = "promotable AG_RETIRED"
  obtain u r where auth: "authorize_action ?t 1 ?req (Some 5) Unscoped default_settings None = Inr (u, r)"
    using authorize_action_decides by blast
  have ag: "agents ?s = [?a]" "agents ?t = [?a]" by (simp_all add: lifecycle_db_def)
  have "agents_ok ?s"
    by (simp add: lifecycle_db_def demo_db_def empty_db_def promotable_def demo_agent_def rows_ok_def)
  moreover have "lifecycle_step\<^sup>*\<^sup>* ?s ?t"
    using lifecycle_step.tick [of ?s 9] by (simp add: lifecycle_db_def demo_db_def empty_db_def r_into_rtranclp)
  ultimately obtain b where b: "b \<in> set (agents ?t)" "terminal (ag_status ?a) \<longrightarrow> ag_status b = ag_status ?a \<and>
        (\<forall>owner request t0 scope settings k u r. find (agent_matches owner request scope k) (agents ?t) = Some b \<longrightarrow>
           authorize_action ?t owner request (Some t0) scope settings k = Inr (u, r) \<longrightarrow> res_decision r = REJECTED)"
    using lifecycle_terminal_final [of ?s ?t ?a] ag by auto
  have "terminal (ag_status ?a)" "find (agent_matches 1 ?req Unscoped None) (agents ?t) = Some ?a"
    unfolding ag by (simp_all add: terminal_def promotable_def demo_agent_def agent_matches_def demo_request_def)
  with b auth ag have "res_decision r = REJECTED" by auto
  with auth show ?thesis by simp
qed

end
