(* ===== verification/RiskEngine_Safety.thy ===== *)
theory RiskEngine_Safety
  imports RiskEngine
begin

text \<open>
  Properties of the risk score: its range, the band it falls into, and that a larger amount
  never lowers it. The ratios are computed in decimal arithmetic with 28 digits, so the last one
  needs that rounding keeps the order.
\<close>

section \<open>Rounding keeps the order\<close>

lemma base_pow_powi: "base_pow b e = of_nat b powi e"
  by (simp add: base_pow_def power_int_def divide_inverse power_inverse)

lemma sig_exp_bounds:
  assumes "0 < x"
  shows "base_pow 10 (sig_exp 10 p x + p - 1) \<le> x" "x < base_pow 10 (sig_exp 10 p x + p)"
proof -
  obtain n d where q: "quotient_of x = (n, d)" by force
  then have d: "0 < d" and x: "x = of_int n / of_int d"
    by (auto dest: quotient_of_denom_pos quotient_of_div)
  with assms have n: "0 < n" by (simp add: zero_less_divide_iff)
  let ?a = "ndigits 10 n" and ?b = "ndigits 10 d"
  have pw: "(of_int (10 ^ nat i) :: rat) = 10 powi i" if "0 \<le> i" for i
    using that by (simp add: power_int_def)
  from ndigits_bounds [of 10 n] n have a: "0 < ?a" "10 ^ nat (?a - 1) \<le> n" "n < 10 ^ nat ?a" by auto
  from ndigits_bounds [of 10 d] d have b: "0 < ?b" "10 ^ nat (?b - 1) \<le> d" "d < 10 ^ nat ?b" by auto
  have a': "(10::rat) powi (?a - 1) \<le> of_int n" "of_int n < (10::rat) powi ?a"
    using a pw [of "?a - 1"] pw [of ?a] by (simp_all only: of_int_le_iff of_int_less_iff flip: pw)
  have b': "(10::rat) powi (?b - 1) \<le> of_int d" "of_int d < (10::rat) powi ?b"
    using b pw [of "?b - 1"] pw [of ?b] by (simp_all only: of_int_le_iff of_int_less_iff flip: pw)
  have lo: "10 powi (?a - ?b - 1) < x"
  proof -
    have "(10::rat) powi (?a - ?b - 1) * of_int d < 10 powi (?a - ?b - 1) * 10 powi ?b"
      using b' by (intro mult_strict_left_mono) auto
    also have "\<dots> = 10 powi (?a - 1)" by (simp flip: power_int_add)
    finally show ?thesis using a' d by (simp add: x pos_less_divide_eq)
  qed
  have hi: "x < 10 powi (?a - ?b + 1)"
  proof -
    have "of_int n < (10::rat) powi ?a" by (rule a')
    also have "\<dots> = 10 powi (?a - ?b + 1) * 10 powi (?b - 1)" by (simp flip: power_int_add)
    also have "\<dots> \<le> 10 powi (?a - ?b + 1) * of_int d" using b' by (intro mult_left_mono) auto
    finally show ?thesis using d by (simp add: x pos_divide_less_eq)
  qed
  show "base_pow 10 (sig_exp 10 p x + p - 1) \<le> x" "x < base_pow 10 (sig_exp 10 p x + p)"
    using lo hi by (auto simp: sig_exp_def q base_pow_powi Let_def algebra_simps)
qed

lemma round_half_even_mono: "x \<le> y \<Longrightarrow> round_half_even x \<le> round_half_even y"
proof -
  assume le: "x \<le> y"
  have b: "\<lfloor>z\<rfloor> \<le> round_half_even z" "round_half_even z \<le> \<lfloor>z\<rfloor> + 1" for z
    by (auto simp: round_half_even_def Let_def)
  from le have f: "\<lfloor>x\<rfloor> \<le> \<lfloor>y\<rfloor>" by (rule floor_mono)
  show ?thesis
  proof (cases "\<lfloor>x\<rfloor> = \<lfloor>y\<rfloor>")
    case True
    then show ?thesis using le by (auto simp: round_half_even_def Let_def)
  next
    case False
    with f b [of x] b [of y] show ?thesis by linarith
  qed
qed

lemma round_at_mono: "x \<le> y \<Longrightarrow> 0 < b \<Longrightarrow> round_at b e x \<le> round_at b e y"
  using base_pow_pos [of b e]
  by (auto simp: round_at_def divide_right_mono intro!: mult_right_mono round_half_even_mono)

lemma round_at_base_pow: "0 \<le> k \<Longrightarrow> round_at 10 e (base_pow 10 (e + k)) = base_pow 10 (e + k)"
proof -
  assume "0 \<le> k"
  then have "(10::rat) powi k = of_int (10 ^ nat k)" by (simp add: power_int_def)
  then have "base_pow 10 (e + k) / base_pow 10 e = of_int (10 ^ nat k)"
    by (simp add: base_pow_powi power_int_add)
  then show ?thesis by (intro round_at_exact) simp_all
qed

lemma dec_round_mono:
  assumes "0 \<le> x" "x \<le> y"
  shows "dec_round x \<le> dec_round y"
proof (cases "x = 0")
  case True
  have "0 \<le> dec_round y"
  proof (cases "y = 0")
    case False
    have "round_at 10 (sig_exp 10 28 y) 0 \<le> round_at 10 (sig_exp 10 28 y) y"
      using assms True by (intro round_at_mono) auto
    moreover have "round_at 10 e 0 = 0" for e by (simp add: round_at_def round_half_even_def)
    ultimately show ?thesis using assms False by (simp add: dec_round_def)
  qed (simp add: dec_round_def)
  then show ?thesis by (simp add: True dec_round_def)
next
  case False
  with assms have pos: "0 < x" "0 < y" by auto
  let ?e = "sig_exp 10 28 x" and ?f = "sig_exp 10 28 y"
  have r: "dec_round x = round_at 10 ?e x" "dec_round y = round_at 10 ?f y"
    using pos by (simp_all add: dec_round_def)
  note bx = sig_exp_bounds [OF pos(1), of 28] and "by" = sig_exp_bounds [OF pos(2), of 28]
  have "base_pow 10 (?e + 27) < base_pow 10 (?f + 28)" using bx(1) "by"(2) assms(2) by (simp add: add.commute)
  moreover have "base_pow 10 (?f + 28) \<le> base_pow 10 (?e + 27)" if "?f < ?e"
    using that by (simp add: base_pow_powi power_int_increasing)
  ultimately have le: "?e \<le> ?f" by (meson not_le less_le_trans order_less_irrefl)
  show ?thesis
  proof (cases "?e = ?f")
    case True
    then show ?thesis using r assms(2) by (simp add: round_at_mono)
  next
    case False
    with le have "base_pow 10 (?e + 28) \<le> base_pow 10 (?f + 27)"
      by (simp add: base_pow_powi power_int_increasing)
    moreover have "round_at 10 ?e x \<le> round_at 10 ?e (base_pow 10 (?e + 28))"
      using bx by (intro round_at_mono) auto
    moreover have "round_at 10 ?f (base_pow 10 (?f + 27)) \<le> round_at 10 ?f y"
      using "by" by (intro round_at_mono) (auto simp: add.commute)
    ultimately show ?thesis using r by (simp add: round_at_base_pow)
  qed
qed

section \<open>The score\<close>

definition points_of :: "points \<Rightarrow> int" where
  "points_of pts = sum_list (map fst pts)"

lemma points_of_append [simp]: "points_of (xs @ ys) = points_of xs + points_of ys"
  by (simp add: points_of_def)

lemma points_simps [simp]: "points_of [] = 0" "points_of ((n, t) # pts) = n + points_of pts"
  by (simp_all add: points_of_def)

lemma rules_nonneg:
  "0 \<le> points_of (amount_rules policy permission request average)"
  "0 \<le> points_of (velocity_rules settings policy n)"
  "0 \<le> points_of (rejection_rules policy n)"
  "0 \<le> points_of (age_rules settings request h m)"
  "0 \<le> points_of (unusual_rules request history)"
  "0 \<le> points_of (api_key_rules api_key t)"
  by (auto simp: amount_rules_def velocity_rules_def rejection_rules_def age_rules_def unusual_rules_def
      api_key_rules_def Let_def split: option.split bool.split)

text \<open>The rules on the amount, against the average and against the limit.\<close>

definition average_points :: "rat option \<Rightarrow> rat \<Rightarrow> int" where
  "average_points average amt =
     (case average of
        Some avg \<Rightarrow>
          if avg > 0 then
            (if dec_round (amt / avg) \<ge> 4 then 45 else if dec_round (amt / avg) \<ge> 2 then 25
             else if dec_round (amt / avg) \<ge> 3 / 2 then 15 else 0)
          else 0
      | None \<Rightarrow> 0)"

definition limit_points :: "rat option \<Rightarrow> rat \<Rightarrow> int" where
  "limit_points limit amt =
     (case limit of
        Some m \<Rightarrow> if m \<noteq> 0 then
            (if dec_round (amt / m) \<ge> 9 / 10 then 15 else if dec_round (amt / m) \<ge> 3 / 4 then 8 else 0)
          else 0
      | None \<Rightarrow> 0)"

lemma amount_rules_points:
  "points_of (amount_rules policy permission (request\<lparr>ar_amount := Some d\<rparr>) average) =
     (if rp_amount_anomaly_enabled policy
      then average_points average (dec_val d) + limit_points (pm_maximum_amount permission) (dec_val d) else 0)"
  by (simp add: amount_rules_def average_points_def limit_points_def Let_def split: option.split)

lemma average_points_mono: "0 \<le> a \<Longrightarrow> a \<le> b \<Longrightarrow> average_points average a \<le> average_points average b"
proof (cases average)
  case (Some avg)
  assume ab: "0 \<le> a" "a \<le> b"
  have "dec_round (a / avg) \<le> dec_round (b / avg)" if "0 < avg"
    using that ab by (intro dec_round_mono) (auto simp: divide_right_mono)
  with Some show ?thesis by (auto simp: average_points_def)
qed (simp add: average_points_def)

lemma limit_points_mono:
  assumes "0 \<le> a" "a \<le> b" "case limit of Some m \<Rightarrow> 0 \<le> m | None \<Rightarrow> True"
  shows "limit_points limit a \<le> limit_points limit b"
proof (cases limit)
  case (Some m)
  have "dec_round (a / m) \<le> dec_round (b / m)" if "0 < m"
    using that assms by (intro dec_round_mono) (auto simp: divide_right_mono)
  with Some assms(3) show ?thesis by (cases "m = 0") (auto simp: limit_points_def)
qed (simp add: limit_points_def)

text \<open>The bands in the order of their severity.\<close>

fun severity :: "RiskLevel \<Rightarrow> nat" where
  "severity RL_LOW = 0"
| "severity RL_MEDIUM = 1"
| "severity RL_HIGH = 2"
| "severity RL_CRITICAL = 3"

fun action_strictness :: "RiskAction \<Rightarrow> nat" where
  "action_strictness RA_ALLOW = 0"
| "action_strictness RA_REQUIRE_APPROVAL = 1"
| "action_strictness RA_REJECT = 2"

definition bands_ordered :: "Settings \<Rightarrow> bool" where
  "bands_ordered settings = (risk_low_max settings < risk_medium_max settings \<and>
     risk_medium_max settings < risk_high_max settings)"

definition actions_ordered :: "RiskPolicy \<Rightarrow> bool" where
  "actions_ordered policy =
     (action_strictness (rp_medium_action policy) \<le> action_strictness (rp_high_action policy) \<and>
      action_strictness (rp_high_action policy) \<le> action_strictness (rp_critical_action policy))"

lemma risk_level_mono: "bands_ordered settings \<Longrightarrow> a \<le> b \<Longrightarrow> severity (risk_level a settings) \<le> severity (risk_level b settings)"
  by (auto simp: risk_level_def bands_ordered_def)

lemma policy_action_mono:
  "actions_ordered policy \<Longrightarrow> severity a \<le> severity b \<Longrightarrow>
     action_strictness (policy_action a policy) \<le> action_strictness (policy_action b policy)"
  by (cases a; cases b) (auto simp: policy_action_def actions_ordered_def)

lemma score_spec:
  assumes "e = rule_based_evaluate settings s agent permission request t policy k"
  shows "0 \<le> score e" "score e \<le> 100"
    "rp_enabled policy \<Longrightarrow> level e = risk_level (score e) settings \<and> recommendation e = policy_action (level e) policy"
    "\<not> rp_enabled policy \<Longrightarrow> score e = 0 \<and> level e = RL_LOW \<and> recommendation e = RA_ALLOW"
proof -
  show "0 \<le> score e"
    using rules_nonneg unfolding assms rule_based_evaluate_def Let_def
    by (auto simp flip: points_of_def intro!: add_nonneg_nonneg)
  show "score e \<le> 100" by (simp add: assms rule_based_evaluate_def Let_def)
  show "rp_enabled policy \<Longrightarrow> level e = risk_level (score e) settings \<and> recommendation e = policy_action (level e) policy"
    by (simp add: assms rule_based_evaluate_def Let_def)
  show "\<not> rp_enabled policy \<Longrightarrow> score e = 0 \<and> level e = RL_LOW \<and> recommendation e = RA_ALLOW"
    by (simp add: assms rule_based_evaluate_def)
qed

lemma same_but_amount [simp]:
  "recent_amounts s agent (request\<lparr>ar_amount := x\<rparr>) t = recent_amounts s agent request t"
  "unusual_rules (request\<lparr>ar_amount := x\<rparr>) h = unusual_rules request h"
  "age_rules settings (request\<lparr>ar_amount := Some d\<rparr>) a b = age_rules settings (request\<lparr>ar_amount := Some d'\<rparr>) a b"
  by (simp_all add: recent_amounts_def unusual_rules_def age_rules_def)

lemma score_mono:
  assumes "0 \<le> dec_val d" "dec_val d \<le> dec_val d'" "case pm_maximum_amount permission of Some m \<Rightarrow> 0 \<le> m | None \<Rightarrow> True"
  shows "score (rule_based_evaluate settings s agent permission (request\<lparr>ar_amount := Some d\<rparr>) t policy k)
    \<le> score (rule_based_evaluate settings s agent permission (request\<lparr>ar_amount := Some d'\<rparr>) t policy k)"
proof -
  have a: "points_of (amount_rules policy permission (request\<lparr>ar_amount := Some d\<rparr>) average)
      \<le> points_of (amount_rules policy permission (request\<lparr>ar_amount := Some d'\<rparr>) average)" for average
    using average_points_mono [OF assms(1,2), of average] limit_points_mono [OF assms]
    by (simp add: amount_rules_points add_mono)
  have g: "age_rules settings (request\<lparr>ar_amount := Some d\<rparr>) x y = age_rules settings (request\<lparr>ar_amount := Some d'\<rparr>) x y" for x y
    by (simp add: age_rules_def)
  show ?thesis
    unfolding rule_based_evaluate_def Let_def same_but_amount(1,2) g
    by (cases "rp_enabled policy") (simp_all add: min_le_iff_disj a flip: points_of_def)
qed

section \<open>Properties\<close>

text \<open>
  The risk score: it lies between 0 and 100, its level is its band and the recommendation the
  policy's action for that level; and for ordered bands and actions a larger amount, everything
  else equal, never gets a lower score, a lower level or a weaker recommendation.
\<close>

theorem risk_score_sound:
  assumes "0 \<le> dec_val d" "dec_val d \<le> dec_val d'" "case pm_maximum_amount permission of Some m \<Rightarrow> 0 \<le> m | None \<Rightarrow> True"
    "bands_ordered settings" "actions_ordered policy" "0 \<le> risk_low_max settings"
    and e: "e = rule_based_evaluate settings s agent permission (request\<lparr>ar_amount := Some d\<rparr>) t policy k"
    and e': "e' = rule_based_evaluate settings s agent permission (request\<lparr>ar_amount := Some d'\<rparr>) t policy k"
  shows "0 \<le> score e \<and> score e \<le> 100 \<and> level e = risk_level (score e) settings \<and>
    (rp_enabled policy \<longrightarrow> recommendation e = policy_action (level e) policy) \<and>
    score e \<le> score e' \<and> severity (level e) \<le> severity (level e') \<and>
    action_strictness (recommendation e) \<le> action_strictness (recommendation e')"
proof -
  have m: "score e \<le> score e'" unfolding e e' by (rule score_mono [OF assms(1-3)])
  note a = score_spec [OF e] and b = score_spec [OF e']
  show ?thesis
  proof (cases "rp_enabled policy")
    case True
    then have l: "level e = risk_level (score e) settings" "recommendation e = policy_action (level e) policy"
      "level e' = risk_level (score e') settings" "recommendation e' = policy_action (level e') policy"
      using a(3) b(3) by auto
    have "severity (level e) \<le> severity (level e')"
      unfolding l(1,3) by (rule risk_level_mono [OF assms(4) m])
    with l policy_action_mono [OF assms(5)] a(1,2) m show ?thesis by simp
  next
    case False
    with a(4) b(4) assms(6) show ?thesis by (simp add: risk_level_def)
  qed
qed

theorem risk_score_sound_witness:
  "score (rule_based_evaluate default_settings demo_db (demo_agent 10 ''buyer'') (demo_permission 20 10 (Some 500))
     (\<lparr>ar_agent_id = ''agt_buyer'', ar_action = ''purchase'', ar_resource = ''books'', ar_amount = Some (Decimal 100 0),
       ar_currency = Some ''USD'', ar_delegation_id = None\<rparr>\<lparr>ar_amount := Some (Decimal 1 2)\<rparr>) 0
     (snd (get_or_create_policy demo_db 1 (Some 7))) None) \<le> 100"
proof -
  let ?p = "snd (get_or_create_policy demo_db 1 (Some 7))"
  have "actions_ordered ?p"
    by (simp add: get_or_create_policy_def demo_db_def empty_db_def fresh_def actions_ordered_def Let_def)
  moreover have "bands_ordered default_settings" "0 \<le> risk_low_max default_settings"
    by (simp_all add: bands_ordered_def default_settings_def)
  moreover have "0 \<le> dec_val (Decimal 1 2)" "dec_val (Decimal 1 2) \<le> dec_val (Decimal 450 0)"
    by (simp_all add: dec_val_def base_pow_def)
  moreover have "case pm_maximum_amount (demo_permission 20 10 (Some 500)) of Some m \<Rightarrow> 0 \<le> m | None \<Rightarrow> True"
    by (simp add: demo_permission_def)
  ultimately show ?thesis using risk_score_sound [OF _ _ _ _ _ _ refl refl] by blast
qed

end
