(* ===== verification/Notifications_Safety.thy ===== *)
theory Notifications_Safety
  imports Notifications
begin

text \<open>
  Properties of notifications and devices: a notification keeps its content and its
  deduplication key, so a key names at most one notification; how the channels follow the
  preferences; and two defects of the registration of devices.
\<close>

section \<open>Rows of the notification table\<close>

definition notification_evolves :: "Notification \<Rightarrow> Notification \<Rightarrow> bool" where
  "notification_evolves n m =
     (m = n\<lparr>nt_status := nt_status m, nt_read_at := nt_read_at m\<rparr> \<and>
      (nt_status n \<noteq> NS_UNREAD \<longrightarrow> nt_status m \<noteq> NS_UNREAD))"

interpretation note_rows: keyed_rows nt_id notification_evolves
proof
  show "notification_evolves n n" for n by (simp add: notification_evolves_def)
  show "notification_evolves n p" if "notification_evolves n m" "notification_evolves m p" for n m p
    using that by (cases n; cases m; cases p) (auto simp: notification_evolves_def)
  show "nt_id m = nt_id n" if "notification_evolves n m" for n m
    using that by (cases n; cases m) (auto simp: notification_evolves_def)
qed

abbreviation notes_ok :: "db \<Rightarrow> bool" where
  "notes_ok s \<equiv> rows_ok nt_id (next_id s) (notifications s)"

abbreviation notes_evolve :: "db \<Rightarrow> db \<Rightarrow> bool" where
  "notes_evolve s t \<equiv>
     rows_evolve nt_id notification_evolves (next_id s) (notifications s) (next_id t) (notifications t)"

text \<open>The non-empty deduplication keys are distinct.\<close>

definition keys_of :: "Notification list \<Rightarrow> string list" where
  "keys_of ns = filter (\<lambda>k. k \<noteq> []) (map the (filter (\<lambda>k. k \<noteq> None) (map nt_deduplication_key ns)))"

lemma keys_of_append: "keys_of (ns @ ms) = keys_of ns @ keys_of ms"
  by (simp add: keys_of_def)

lemma keys_of_single: "keys_of [n] = (case nt_deduplication_key n of Some k \<Rightarrow> if k = [] then [] else [k] | None \<Rightarrow> [])"
  by (simp add: keys_of_def split: option.split)

lemma keys_of_cong: "map nt_deduplication_key ns = map nt_deduplication_key ms \<Longrightarrow> keys_of ns = keys_of ms"
  by (simp add: keys_of_def)

lemma set_keys_of: "k \<in> set (keys_of ns) \<longleftrightarrow> k \<noteq> [] \<and> (\<exists>n\<in>set ns. nt_deduplication_key n = Some k)"
  by (force simp: keys_of_def image_iff)

lemma create_notification_row:
  assumes "create_notification s r = (t, n)"
  shows "existing_notification s (nr_deduplication_key r) = Some n \<and> t = s \<or>
     existing_notification s (nr_deduplication_key r) = None \<and> notifications t = notifications s @ [n] \<and>
     nt_deduplication_key n = nr_deduplication_key r \<and> nt_user_id n = nr_user_id r \<and> nt_status n = NS_UNREAD \<and>
     next_id s \<le> nt_id n \<and> nt_id n < next_id t"
proof (cases "existing_notification s (nr_deduplication_key r)")
  case None
  obtain s1 p where g: "get_preferences s (nr_user_id r) = (s1, p)" by force
  from get_preferences_keeps [OF g] assms None show ?thesis
    by (auto simp: create_notification_def g fresh_def Let_def db_simps split: if_splits)
qed (use assms in \<open>simp add: create_notification_def\<close>)

lemma existing_notification_None:
  "existing_notification s (Some k) = None \<Longrightarrow> k \<noteq> [] \<Longrightarrow> k \<notin> set (keys_of (notifications s))"
  by (auto simp: existing_notification_def find_None set_keys_of)

lemma create_notification_evolves:
  assumes "create_notification s r = (t, n)" "notes_ok s" "distinct (keys_of (notifications s))"
  shows "notes_evolve s t \<and> distinct (keys_of (notifications t))"
  using create_notification_row [OF assms(1)]
proof
  assume "existing_notification s (nr_deduplication_key r) = Some n \<and> t = s"
  with assms show ?thesis by (simp add: note_rows.evolve_refl)
next
  assume new: "existing_notification s (nr_deduplication_key r) = None \<and> notifications t = notifications s @ [n] \<and>
     nt_deduplication_key n = nr_deduplication_key r \<and> nt_user_id n = nr_user_id r \<and> nt_status n = NS_UNREAD \<and>
     next_id s \<le> nt_id n \<and> nt_id n < next_id t"
  then have "notes_evolve s t" using note_rows.evolve_snoc [OF assms(2)] by simp
  moreover have "distinct (keys_of (notifications t))"
    using new assms(3) existing_notification_None [of s]
    by (auto simp: keys_of_append keys_of_single split: option.splits)
  ultimately show ?thesis ..
qed

lemma update_notification_evolves:
  assumes "update_notification u i f s = (t, r)" "notes_ok s" "distinct (keys_of (notifications s))"
    "\<And>n. notification_evolves n (f n)"
  shows "notes_evolve s t \<and> distinct (keys_of (notifications t))"
proof (cases "find (\<lambda>n. nt_id n = i \<and> nt_user_id n = u) (notifications s)")
  case None
  with assms show ?thesis by (simp add: update_notification_def note_rows.evolve_refl)
next
  case (Some n)
  then have n: "n \<in> set (notifications s)" "nt_id n = i" by (auto dest: find_SomeD)
  have same: "x = n" if "x \<in> set (notifications s)" "nt_id x = i" for x
    using rows_ok_same_key [OF assms(2) that(1) n(1)] that n by simp
  have t: "notifications t = update_where (\<lambda>x. nt_id x = i) (\<lambda>_. f n) (notifications s)" "next_id t = next_id s"
    using assms(1) Some by (auto simp: update_notification_def)
  have "notes_evolve s t"
    unfolding t by (rule note_rows.evolve_update_where [OF assms(2)]) (use same assms(4) in auto)
  moreover have "nt_deduplication_key (f n) = nt_deduplication_key n"
    using assms(4) [of n] by (cases n; cases "f n") (auto simp: notification_evolves_def)
  then have "keys_of (notifications t) = keys_of (notifications s)"
    unfolding t by (intro keys_of_cong map_update_where_same) (use same in auto)
  ultimately show ?thesis using assms(3) by simp
qed

lemma mark_all_read_evolves:
  assumes "mark_all_read s u = (t, k)" "notes_ok s" "distinct (keys_of (notifications s))"
  shows "notes_evolve s t \<and> distinct (keys_of (notifications t))"
proof -
  have t: "notifications t = update_where (\<lambda>n. nt_user_id n = u \<and> nt_status n = NS_UNREAD)
      (\<lambda>n. n\<lparr>nt_status := NS_READ, nt_read_at := Some (clock s)\<rparr>) (notifications s)" "next_id t = next_id s"
    using assms(1) by (auto simp: mark_all_read_def Let_def)
  have "notes_evolve s t"
    unfolding t by (rule note_rows.evolve_update_where [OF assms(2)]) (simp add: notification_evolves_def)
  moreover have "keys_of (notifications t) = keys_of (notifications s)"
    unfolding t by (intro keys_of_cong map_update_where_same) simp
  ultimately show ?thesis using assms(3) by simp
qed

inductive notification_step :: "db \<Rightarrow> db \<Rightarrow> bool" where
  create: "create_notification s r = (t, n) \<Longrightarrow> notification_step s t"
| read: "mark_read s u i = (t, m) \<Longrightarrow> notification_step s t"
| read_all: "mark_all_read s u = (t, k) \<Longrightarrow> notification_step s t"
| archive: "archive_notification s u i = (t, m) \<Longrightarrow> notification_step s t"
| preferences: "update_preferences s u p = (t, q) \<Longrightarrow> notification_step s t"
| tick: "clock s \<le> now \<Longrightarrow> notification_step s (s\<lparr>clock := now\<rparr>)"

definition notes_inv :: "db \<Rightarrow> bool" where
  "notes_inv s = (notes_ok s \<and> distinct (keys_of (notifications s)))"

lemma update_preferences_keeps:
  "update_preferences s u p = (t, q) \<Longrightarrow> notifications t = notifications s \<and> next_id s \<le> next_id t"
  by (auto simp: update_preferences_def Let_def dest: get_preferences_keeps split: prod.splits)

lemma notification_step_evolves:
  assumes "notification_step s t" "notes_inv s"
  shows "notes_evolve s t \<and> notes_inv t"
proof -
  have "notes_evolve s t \<and> distinct (keys_of (notifications t))"
    using assms
  proof (induction rule: notification_step.induct)
    case (create s r t n)
    then show ?case using create_notification_evolves by (simp add: notes_inv_def)
  next
    case (read s u i t m)
    have "notification_evolves n (if nt_status n = NS_UNREAD
        then n\<lparr>nt_status := NS_READ, nt_read_at := Some (clock s)\<rparr> else n)" for n
      by (simp add: notification_evolves_def)
    with read update_notification_evolves show ?case unfolding mark_read_def notes_inv_def by blast
  next
    case (read_all s u t k)
    then show ?case using mark_all_read_evolves by (simp add: notes_inv_def)
  next
    case (archive s u i t m)
    have "notification_evolves n (n\<lparr>nt_status := NS_ARCHIVED,
        nt_read_at := (case nt_read_at n of None \<Rightarrow> Some (clock s) | Some t \<Rightarrow> Some t)\<rparr>)" for n
      by (simp add: notification_evolves_def)
    with archive update_notification_evolves show ?case unfolding archive_notification_def notes_inv_def by blast
  next
    case (preferences s u p t q)
    then show ?case
      using update_preferences_keeps [of s u p t q] by (simp add: notes_inv_def note_rows.evolve_refl)
  next
    case (tick s now)
    then show ?case by (simp add: notes_inv_def note_rows.evolve_refl)
  qed
  then show ?thesis using note_rows.evolve_ok by (auto simp: notes_inv_def)
qed

interpretation note_sys: transition_system "\<lambda>s. notifications s = []" notification_step notes_inv
proof
  show "notes_inv s" if "notifications s = []" for s
    using that by (simp add: notes_inv_def rows_ok_def keys_of_def)
  show "notes_inv t" if "notes_inv s" "notification_step s t" for s t
    using notification_step_evolves that by blast
qed

lemma notification_steps_evolve: "notification_step\<^sup>*\<^sup>* s t \<Longrightarrow> notes_inv s \<Longrightarrow> notes_evolve s t"
proof (induction rule: rtranclp_induct)
  case base
  then show ?case by (simp add: notes_inv_def note_rows.evolve_refl)
next
  case (step u v)
  then have "notes_inv u" using note_sys.inv_steps by blast
  with step show ?case using notification_step_evolves note_rows.evolve_trans by blast
qed

lemma unique_key:
  assumes "distinct (keys_of ns)" "n \<in> set ns" "m \<in> set ns" "nt_deduplication_key n = Some k"
    "nt_deduplication_key m = Some k" "k \<noteq> []"
  shows "n = m"
  using assms
proof (induction ns)
  case (Cons x ns)
  have k: "keys_of (x # ns) = keys_of [x] @ keys_of ns" using keys_of_append [of "[x]" ns] by simp
  have in_keys: "k \<in> set (keys_of ns)" if "y \<in> set ns" "nt_deduplication_key y = Some k" for y
    using that Cons.prems(6) by (auto simp: set_keys_of)
  show ?case
    using Cons in_keys unfolding k by (auto simp: keys_of_single)
qed simp

lemma filter_single: "distinct xs \<Longrightarrow> m \<in> set xs \<Longrightarrow> [x \<leftarrow> xs. x = m] = [m]"
  by (induction xs) (auto simp: filter_empty_conv)

section \<open>Properties\<close>

text \<open>
  A deduplication key names at most one notification: in every state reached from an empty
  table by creating, reading and archiving notifications, two stored notifications with the same
  non-empty key are the same row, every notification stored earlier is still there with its
  content, and creating a notification under a key that is taken returns the stored one and
  changes nothing.
\<close>

theorem notification_deduplicated:
  assumes "notifications s0 = []" "notification_step\<^sup>*\<^sup>* s0 s" "notification_step\<^sup>*\<^sup>* s t"
    "n \<in> set (notifications s)" "nt_deduplication_key n = Some k" "k \<noteq> []"
  shows "\<exists>m. notification_evolves n m \<and> [x \<leftarrow> notifications t. nt_deduplication_key x = Some k] = [m] \<and>
    (\<forall>r. nr_deduplication_key r = Some k \<longrightarrow> create_notification t r = (t, m))"
proof -
  have inv: "notes_inv s" "notes_inv t"
    using note_sys.inv_reachable [OF assms(1)] assms(2,3) by (auto intro: rtranclp_trans)
  obtain m where m: "m \<in> set (notifications t)" "notification_evolves n m"
    using notification_steps_evolve [OF assms(3) inv(1)] assms(4) by (blast dest: rows_evolve_fwd)
  have key: "nt_deduplication_key m = Some k"
    using m(2) assms(5) by (cases n; cases m) (auto simp: notification_evolves_def)
  have uniq: "x = m" if "x \<in> set (notifications t)" "nt_deduplication_key x = Some k" for x
    using unique_key [of "notifications t" x m k] inv(2) that m(1) key assms(6) by (simp add: notes_inv_def)
  have find: "find (\<lambda>x. nt_deduplication_key x = Some k) (notifications t) = Some m"
    using find_Some_exists [OF m(1), of "\<lambda>x. nt_deduplication_key x = Some k"] key uniq by (auto dest: find_SomeD)
  have d: "distinct (notifications t)"
    using inv(2) by (auto simp: notes_inv_def rows_ok_def distinct_map)
  have "[x \<leftarrow> notifications t. nt_deduplication_key x = Some k] = [x \<leftarrow> notifications t. x = m]"
    using uniq key by (auto intro!: filter_cong)
  also have "\<dots> = [m]" using d m(1) by (rule filter_single)
  finally have "[x \<leftarrow> notifications t. nt_deduplication_key x = Some k] = [m]" .
  with m(2) find assms(6) show ?thesis
    by (auto simp: create_notification_def existing_notification_def)
qed

section \<open>Devices\<close>

definition demo_device :: "string \<Rightarrow> DeviceCreate" where
  "demo_device tok = \<lparr>de_push_token = tok, de_platform = ANDROID, de_device_name = None\<rparr>"

definition active_devices :: "uuid \<Rightarrow> db \<Rightarrow> nat" where
  "active_devices u s = length (filter (\<lambda>d. dv_user_id d = u \<and> dv_status d = DV_ACTIVE) (devices s))"

definition register_all :: "uuid \<Rightarrow> string list \<Rightarrow> db \<Rightarrow> db" where
  "register_all u toks s = fold (\<lambda>tok s. case register_device s u (demo_device tok) of Inr (t, _) \<Rightarrow> t | Inl _ \<Rightarrow> s) toks s"

text \<open>User 1 registers ten devices, drops the first one and registers an eleventh.\<close>

definition ten_devices :: db where
  "ten_devices =
     (let s = register_all 1 [''a'', ''b'', ''c'', ''d'', ''e'', ''f'', ''g'', ''h'', ''i'', ''j''] empty_db in
      register_all 1 [''k''] (fst (revoke_device s 1 (dv_id (hd (devices s))))))"

text \<open>
  Two defects of device registration. The alert about a new device is keyed by the id of a
  row that has none yet, so only the first registration in the whole system is announced: the
  eleven devices of user 1 and one of user 2 leave one alert, addressed to user 1. And a revoked
  token is activated again without the check of the limit, so a user who may not register a new
  device can exceed the ten active devices.
\<close>

theorem device_registration_defects:
  "map nt_user_id (notifications (register_all 2 [''z''] ten_devices)) = [1] \<and>
   active_devices 2 (register_all 2 [''z''] ten_devices) = 1 \<and>
   active_devices 1 ten_devices = 10 \<and>
   register_device ten_devices 1 (demo_device ''l'') = Inl DeviceLimitReached \<and>
   active_devices 1 (register_all 1 [''a''] ten_devices) = 11"
  by (intro conjI) code_simp+

text \<open>A witness of the deduplication: one alert, read, and asked for again.\<close>

definition demo_alert :: "db \<times> Notification" where
  "demo_alert = create_notification empty_db (device_alert 1 (demo_device ''a'') ''None'')"

theorem notification_deduplicated_witness:
  "length [x \<leftarrow> notifications (fst (mark_read (fst demo_alert) 1 (nt_id (snd demo_alert)))).
     nt_deduplication_key x = Some ''device-registered:None''] = 1"
proof -
  let ?s = "fst demo_alert" and ?i = "nt_id (snd demo_alert)"
  have e: "notifications empty_db = []" by (simp add: empty_db_def)
  have c: "create_notification empty_db (device_alert 1 (demo_device ''a'') ''None'') = (?s, snd demo_alert)"
    by (simp add: demo_alert_def)
  from create_notification_row [OF c] e have n: "snd demo_alert \<in> set (notifications ?s)"
    "nt_deduplication_key (snd demo_alert) = Some ''device-registered:None''"
    by (auto simp: device_alert_def existing_notification_def)
  have "notification_step\<^sup>*\<^sup>* ?s (fst (mark_read ?s 1 ?i))"
    using notification_step.read [of ?s 1 ?i "fst (mark_read ?s 1 ?i)" "snd (mark_read ?s 1 ?i)"] by auto
  moreover have "notification_step\<^sup>*\<^sup>* empty_db ?s" using notification_step.create [OF c] by auto
  ultimately show ?thesis using notification_deduplicated [OF e _ _ n] by force
qed

end
