(* ===== verification/RateLimit.thy ===== *)
theory RateLimit
  imports Models
begin

text \<open>
  Rate limiting (\<open>services/rate_limit.py\<close>): the in-process limiter keeps the times of the accepted
  calls of the last minute, the distributed one counts the calls of the current minute in Redis.
  Both keep the contract of a quota, which the metering of plan usage keeps too.
\<close>

section \<open>Quotas\<close>

text \<open>
  A quota admits a call exactly while fewer than \<open>limit\<close> admitted calls count, and counts the calls
  it admits.
\<close>

locale quota =
  fixes admit :: "'s \<Rightarrow> 's \<times> bool"
    and used :: "'s \<Rightarrow> int"
    and limit :: int
    and inv :: "'s \<Rightarrow> bool"
  assumes admit_iff: "inv s \<Longrightarrow> snd (admit s) \<longleftrightarrow> used s < limit"
    and used_admitted: "inv s \<Longrightarrow> snd (admit s) \<Longrightarrow> used (fst (admit s)) = used s + 1"
    and used_refused: "inv s \<Longrightarrow> \<not> snd (admit s) \<Longrightarrow> limit \<le> used (fst (admit s))"
    and inv_admit: "inv s \<Longrightarrow> inv (fst (admit s))"
begin

primrec burst :: "nat \<Rightarrow> 's \<Rightarrow> 's \<times> int" where
  "burst 0 s = (s, 0)"
| "burst (Suc n) s =
     (let (s1, ok) = admit s; (s2, m) = burst n s1 in (s2, m + (if ok then 1 else 0)))"

lemma burst_admits: "inv s \<Longrightarrow> snd (burst n s) = max 0 (min (int n) (limit - used s))"
proof (induction n arbitrary: s)
  case (Suc n)
  obtain s1 ok where a: "admit s = (s1, ok)" by force
  obtain s2 m where b: "burst n s1 = (s2, m)" by force
  from Suc.IH [of s1] inv_admit [OF Suc.prems] a b have m: "m = max 0 (min (int n) (limit - used s1))" by simp
  show ?case
    using admit_iff [OF Suc.prems] used_admitted [OF Suc.prems] used_refused [OF Suc.prems] a b m
    by (auto split: if_splits)
qed simp

end

section \<open>The sliding window\<close>

type_synonym 'k limiter = "'k \<Rightarrow> datetime list"

definition empty_limiter :: "'k limiter" where
  "empty_limiter = (\<lambda>_. [])"

definition live_events :: "'k limiter \<Rightarrow> 'k \<Rightarrow> datetime \<Rightarrow> datetime list" where
  "live_events st key now = dropWhile (\<lambda>t. t \<le> now - minutes 1) (st key)"

definition allow :: "'k limiter \<Rightarrow> 'k \<Rightarrow> int \<Rightarrow> datetime \<Rightarrow> 'k limiter \<times> bool" where
  "allow st key limit now =
     (let events = live_events st key now in
      if int (length events) \<ge> limit then (st(key := events), False)
      else (st(key := events @ [now]), True))"

definition clear :: "'k limiter \<Rightarrow> 'k limiter" where
  "clear st = empty_limiter"

lemma dropWhile_idem: "dropWhile P (dropWhile P xs) = dropWhile P xs"
  by (induction xs) auto

lemma dropWhile_snoc_False: "\<not> P x \<Longrightarrow> dropWhile P (xs @ [x]) = dropWhile P xs @ [x]"
  by (induction xs) auto

interpretation window: quota "\<lambda>st. allow st key limit now" "\<lambda>st. int (length (live_events st key now))" limit "\<lambda>_. True"
  for key limit now
proof
  show "snd (allow st key limit now) \<longleftrightarrow> int (length (live_events st key now)) < limit" for st
    by (simp add: allow_def Let_def)
  show "int (length (live_events (fst (allow st key limit now)) key now)) = int (length (live_events st key now)) + 1"
    if "snd (allow st key limit now)" for st
    using that by (auto simp: allow_def Let_def live_events_def dropWhile_idem dropWhile_snoc_False minutes_def seconds_def split: if_splits)
  show "limit \<le> int (length (live_events (fst (allow st key limit now)) key now))"
    if "\<not> snd (allow st key limit now)" for st
    using that by (auto simp: allow_def Let_def live_events_def dropWhile_idem split: if_splits)
qed simp

text \<open>Serving a sequence of calls: the times at which a key was accepted, in order.\<close>

fun serve :: "int \<Rightarrow> 'k limiter \<Rightarrow> ('k \<times> datetime) list \<Rightarrow> ('k \<times> datetime) list" where
  "serve limit st [] = []"
| "serve limit st ((key, now) # calls) =
     (let (st', ok) = allow st key limit now in
      if ok then (key, now) # serve limit st' calls else serve limit st' calls)"

definition times_of :: "'k \<Rightarrow> ('k \<times> datetime) list \<Rightarrow> datetime list" where
  "times_of key acc = map snd (filter (\<lambda>c. fst c = key) acc)"

definition in_minute :: "datetime \<Rightarrow> datetime list \<Rightarrow> nat" where
  "in_minute t ts = length (filter (\<lambda>x. t - minutes 1 < x \<and> x \<le> t) ts)"

text \<open>
  What the limiter keeps of the accepted times of a key: those after some cut-off that is at
  least a minute back, and never more than the limit in the minute before an accepted call.
\<close>

definition keeps_window :: "int \<Rightarrow> 'k limiter \<Rightarrow> 'k \<Rightarrow> datetime list \<Rightarrow> datetime \<Rightarrow> bool" where
  "keeps_window limit st key acc latest =
     (sorted acc \<and> (\<forall>x\<in>set acc. x \<le> latest \<and> int (in_minute x acc) \<le> limit) \<and>
      (\<exists>c \<le> latest - minutes 1. st key = filter (\<lambda>x. c < x) acc))"

lemma dropWhile_sorted: "sorted (xs :: int list) \<Longrightarrow> dropWhile (\<lambda>t. t \<le> d) xs = filter (\<lambda>x. d < x) xs"
  by (induction xs) (auto simp: filter_id_conv not_le intro!: filter_True [symmetric])

lemma live_events_eq:
  assumes "keeps_window limit st key acc latest" "latest \<le> now"
  shows "live_events st key now = filter (\<lambda>x. now - minutes 1 < x) acc"
proof -
  from assms obtain c where c: "c \<le> latest - minutes 1" "st key = filter (\<lambda>x. c < x) acc" "sorted acc"
    by (auto simp: keeps_window_def)
  have "live_events st key now = filter (\<lambda>x. now - minutes 1 < x) (filter (\<lambda>x. c < x) acc)"
    using c by (simp add: live_events_def dropWhile_sorted sorted_wrt_filter)
  also have "\<dots> = filter (\<lambda>x. now - minutes 1 < x) acc"
    using c(1) assms(2) by (auto intro!: filter_cong)
  finally show ?thesis .
qed

lemma keeps_window_advance:
  assumes "keeps_window limit st key acc latest" "latest \<le> now"
  shows "keeps_window limit (st(key := live_events st key now)) key acc now"
  using live_events_eq [OF assms] assms by (force simp: keeps_window_def)

lemma keeps_window_accept:
  assumes k: "keeps_window limit st key acc latest" "latest \<le> now" and "int (length (live_events st key now)) < limit"
  shows "keeps_window limit (st(key := live_events st key now @ [now])) key (acc @ [now]) now"
proof -
  have le: "x \<le> now" if "x \<in> set acc" for x using k that by (force simp: keeps_window_def)
  have pos: "now - minutes 1 < now" by (simp add: minutes_def seconds_def)
  have n: "in_minute now (acc @ [now]) = Suc (length (live_events st key now))"
    using le pos unfolding live_events_eq [OF k] in_minute_def by (auto intro!: arg_cong [where f = length] filter_cong)
  have b: "int (in_minute x (acc @ [now])) \<le> limit" if "x \<in> set acc" for x
  proof (cases "x = now")
    case True
    then show ?thesis using n assms(3) by simp
  next
    case False
    then have "in_minute x (acc @ [now]) = in_minute x acc" using le [OF that] by (simp add: in_minute_def)
    with k that show ?thesis by (simp add: keeps_window_def)
  qed
  have s: "sorted (acc @ [now])" using k le by (auto simp: keeps_window_def sorted_append)
  show ?thesis
    unfolding keeps_window_def
  proof (intro conjI exI [of _ "now - minutes 1"] ballI s)
    fix x assume "x \<in> set (acc @ [now])"
    then show "x \<le> now" "int (in_minute x (acc @ [now])) \<le> limit" using le b n assms(3) by auto
  qed (use live_events_eq [OF k] pos in simp_all)
qed

lemma keeps_window_other: "key' \<noteq> key \<Longrightarrow> keeps_window limit (st(key' := es)) key acc latest = keeps_window limit st key acc latest"
  by (simp add: keeps_window_def)

lemma keeps_window_later:
  assumes "keeps_window limit st key acc latest" "latest \<le> now"
  shows "keeps_window limit st key acc now"
proof -
  from assms(1) obtain c where "c \<le> latest - minutes 1" "st key = filter (\<lambda>x. c < x) acc"
    by (auto simp: keeps_window_def)
  with assms show ?thesis by (fastforce simp: keeps_window_def intro!: exI [of _ c])
qed

lemma serve_keeps:
  assumes "keeps_window limit st key acc latest" "sorted (latest # map snd calls)"
  shows "\<exists>st' now. keeps_window limit st' key (acc @ times_of key (serve limit st calls)) now"
  using assms
proof (induction calls arbitrary: st acc latest)
  case Nil
  then show ?case by (auto simp: times_of_def)
next
  case (Cons call calls)
  obtain k now where c: "call = (k, now)" by force
  with Cons.prems have now: "latest \<le> now" and srt: "sorted (now # map snd calls)" by auto
  let ?es = "live_events st k now"
  have step: "\<exists>st' u. keeps_window limit st' key (acc @ times_of key (serve limit st (call # calls))) u"
    if "keeps_window limit st1 key (acc @ times_of key xs) now"
      "serve limit st (call # calls) = xs @ serve limit st1 calls" for st1 xs
    using Cons.IH [OF that(1) srt] that(2) by (auto simp: times_of_def)
  show ?case
  proof (cases "int (length ?es) \<ge> limit")
    case True
    have "keeps_window limit (st(k := ?es)) key acc now"
      using Cons.prems(1) now keeps_window_advance [of limit st key acc latest now] keeps_window_later
      by (cases "k = key") (auto simp: keeps_window_other)
    then show ?thesis using True step [of "st(k := ?es)" "[]"] by (simp add: c allow_def Let_def times_of_def)
  next
    case False
    have "keeps_window limit (st(k := ?es @ [now])) key (acc @ times_of key [(k, now)]) now"
      using Cons.prems(1) now keeps_window_accept [of limit st key acc latest now] keeps_window_later False
      by (cases "k = key") (auto simp: keeps_window_other times_of_def)
    then show ?thesis using False step [of "st(k := ?es @ [now])" "[(k, now)]"] by (simp add: c allow_def Let_def)
  qed
qed

lemma length_filter_imp:
  assumes "\<forall>x \<in> set xs. P x \<longrightarrow> Q x"
  shows "length (filter P xs) \<le> length (filter Q xs)"
proof -
  have "filter P xs = filter P (filter Q xs)" using assms by (auto intro!: filter_cong)
  then show ?thesis by (metis length_filter_le)
qed

lemma in_minute_max:
  assumes "in_minute t acc \<noteq> 0"
  shows "\<exists>x\<in>set acc. in_minute t acc \<le> in_minute x acc"
proof -
  let ?w = "{x \<in> set acc. t - minutes 1 < x \<and> x \<le> t}"
  have ne: "?w \<noteq> {}" using assms by (auto simp: in_minute_def filter_empty_conv)
  let ?x = "Max ?w"
  have x: "?x \<in> ?w" using ne by (intro Max_in) auto
  have "in_minute t acc \<le> in_minute ?x acc"
    unfolding in_minute_def
  proof (rule length_filter_imp, intro ballI impI)
    fix y assume y: "y \<in> set acc" "t - minutes 1 < y \<and> y \<le> t"
    then have "y \<le> ?x" by (intro Max_ge) auto
    with x y(2) show "?x - minutes 1 < y \<and> y \<le> ?x" by auto
  qed
  with x show ?thesis by auto
qed

lemma serve_window:
  assumes "sorted (map snd calls)" "0 \<le> limit"
  shows "int (in_minute t (times_of key (serve limit empty_limiter calls))) \<le> limit"
proof -
  let ?acc = "times_of key (serve limit empty_limiter calls)"
  define t0 where "t0 = (if calls = [] then 0 else snd (hd calls))"
  have "sorted (t0 # map snd calls)" using assms(1) by (cases calls) (auto simp: t0_def)
  moreover have "keeps_window limit empty_limiter key [] t0"
    by (auto simp: keeps_window_def empty_limiter_def)
  ultimately obtain st' now where k: "keeps_window limit st' key ?acc now"
    using serve_keeps by fastforce
  show ?thesis
  proof (cases "in_minute t ?acc = 0")
    case False
    then obtain x where "x \<in> set ?acc" "in_minute t ?acc \<le> in_minute x ?acc" using in_minute_max by blast
    with k show ?thesis by (force simp: keeps_window_def)
  qed (use assms(2) in simp)
qed

text \<open>
  The specification works on the whole history: a call is accepted iff fewer than \<open>limit\<close> calls of
  its key were accepted in the minute before it.
\<close>

fun serve_spec :: "int \<Rightarrow> ('k \<times> datetime) list \<Rightarrow> ('k \<times> datetime) list \<Rightarrow> ('k \<times> datetime) list" where
  "serve_spec limit acc [] = []"
| "serve_spec limit acc ((key, now) # calls) =
     (if int (in_minute now (times_of key acc)) < limit
      then (key, now) # serve_spec limit (acc @ [(key, now)]) calls
      else serve_spec limit acc calls)"

lemma live_events_in_minute:
  assumes "keeps_window limit st key acc latest" "latest \<le> now"
  shows "length (live_events st key now) = in_minute now acc"
  using assms unfolding live_events_eq [OF assms] in_minute_def keeps_window_def
  by (intro arg_cong [where f = length] filter_cong) auto

lemma serve_refines:
  assumes "\<And>key. keeps_window limit st key (times_of key acc) latest" "sorted (latest # map snd calls)"
  shows "serve limit st calls = serve_spec limit acc calls"
  using assms
proof (induction calls arbitrary: st acc latest)
  case (Cons call calls)
  obtain k now where c: "call = (k, now)" by force
  with Cons.prems have now: "latest \<le> now" and srt: "sorted (now # map snd calls)" by auto
  let ?es = "live_events st k now"
  note len = live_events_in_minute [OF Cons.prems(1) now, of k]
  show ?case
  proof (cases "int (length ?es) \<ge> limit")
    case True
    have "keeps_window limit (st(k := ?es)) key (times_of key acc) now" for key
      using Cons.prems(1) [of key] now keeps_window_advance [of limit st key _ latest now] keeps_window_later
      by (cases "k = key") (auto simp: keeps_window_other)
    from Cons.IH [OF this srt] True len show ?thesis by (simp add: c allow_def Let_def fun_upd_def)
  next
    case False
    have "keeps_window limit (st(k := ?es @ [now])) key (times_of key (acc @ [(k, now)])) now" for key
      using Cons.prems(1) [of key] now keeps_window_accept [of limit st key _ latest now] keeps_window_later False
      by (cases "k = key") (auto simp: keeps_window_other times_of_def)
    from Cons.IH [OF this srt] False len show ?thesis by (simp add: c allow_def Let_def fun_upd_def)
  qed
qed simp

lemma empty_keeps_window: "keeps_window limit empty_limiter key (times_of key []) latest"
  by (auto simp: keeps_window_def empty_limiter_def times_of_def)

section \<open>The distributed limiter\<close>

text \<open>
  Redis is a parameter: \<open>incr\<close> is the pipeline that increments a key and sets its expiry of 120
  seconds, and returns the new count, or None when the pipeline raises. \<open>digest\<close> is the shortened
  SHA-256 of the key's text. A key is only used during its own minute, so it does not expire
  before the last call that uses it.
\<close>

definition redis_key :: "string \<Rightarrow> ('k \<Rightarrow> string) \<Rightarrow> 'k \<Rightarrow> datetime \<Rightarrow> string" where
  "redis_key namespace digest key now =
     namespace @ '':'' @ str_of_int (now div seconds 1 div 60) @ '':'' @ digest key"

definition redis_allow ::
    "('r \<Rightarrow> string \<Rightarrow> 'r \<times> int option) \<Rightarrow> string \<Rightarrow> ('k \<Rightarrow> string) \<Rightarrow> 'r \<Rightarrow> 'k \<Rightarrow> int \<Rightarrow> datetime \<Rightarrow> 'r \<times> bool" where
  "redis_allow incr namespace digest r key limit now =
     (case incr r (redis_key namespace digest key now) of
        (r', Some n) \<Rightarrow> (r', n \<le> limit)
      | (r', None) \<Rightarrow> (r', False))"

text \<open>What is used of Redis: a returned count is one more than before, and no other key changes.\<close>

definition counts_keys :: "('r \<Rightarrow> string \<Rightarrow> 'r \<times> int option) \<Rightarrow> ('r \<Rightarrow> string \<Rightarrow> int) \<Rightarrow> bool" where
  "counts_keys incr cnt =
     (\<forall>r k. case incr r k of
        (r', Some n) \<Rightarrow> n = cnt r k + 1 \<and> cnt r' = (cnt r)(k := n)
      | (r', None) \<Rightarrow> cnt r' = cnt r \<or> cnt r' = (cnt r)(k := cnt r k + 1))"

fun serve_redis ::
    "('r \<Rightarrow> string \<Rightarrow> 'r \<times> int option) \<Rightarrow> string \<Rightarrow> ('k \<Rightarrow> string) \<Rightarrow> int \<Rightarrow> 'r \<Rightarrow> ('k \<times> datetime) list
       \<Rightarrow> ('k \<times> datetime) list" where
  "serve_redis incr namespace digest limit r [] = []"
| "serve_redis incr namespace digest limit r ((key, now) # calls) =
     (let (r', ok) = redis_allow incr namespace digest r key limit now in
      if ok then (key, now) # serve_redis incr namespace digest limit r' calls
      else serve_redis incr namespace digest limit r' calls)"

lemma redis_allow_counts:
  assumes "counts_keys incr cnt" "redis_allow incr ns digest r key limit now = (r', ok)"
  shows "cnt r k \<le> cnt r' k" "ok \<Longrightarrow> redis_key ns digest key now = k \<Longrightarrow> cnt r' k = cnt r k + 1 \<and> cnt r' k \<le> limit"
proof -
  obtain q m where i: "incr r (redis_key ns digest key now) = (q, m)" by force
  from assms(1) have "case incr r (redis_key ns digest key now) of
        (r', Some n) \<Rightarrow> n = cnt r (redis_key ns digest key now) + 1 \<and> cnt r' = (cnt r)(redis_key ns digest key now := n)
      | (r', None) \<Rightarrow> cnt r' = cnt r \<or> cnt r' = (cnt r)(redis_key ns digest key now := cnt r (redis_key ns digest key now) + 1)"
    unfolding counts_keys_def by (elim allE [of _ r] allE [of _ "redis_key ns digest key now"])
  then have "case m of Some n \<Rightarrow> n = cnt r (redis_key ns digest key now) + 1 \<and>
      cnt q = (cnt r)(redis_key ns digest key now := n)
    | None \<Rightarrow> cnt q = cnt r \<or> cnt q = (cnt r)(redis_key ns digest key now := cnt r (redis_key ns digest key now) + 1)"
    by (simp add: i)
  then show "cnt r k \<le> cnt r' k"
    "ok \<Longrightarrow> redis_key ns digest key now = k \<Longrightarrow> cnt r' k = cnt r k + 1 \<and> cnt r' k \<le> limit"
    using assms(2) i by (auto simp: redis_allow_def split: option.splits)
qed

lemma serve_redis_bound:
  assumes "counts_keys incr cnt"
  shows "int (length (filter (\<lambda>c. redis_key ns digest (fst c) (snd c) = k) (serve_redis incr ns digest limit r calls)))
    \<le> max 0 (limit - cnt r k)"
proof (induction calls arbitrary: r)
  case (Cons call calls)
  obtain key now where c: "call = (key, now)" by force
  obtain r' ok where a: "redis_allow incr ns digest r key limit now = (r', ok)" by force
  show ?case
    using Cons.IH [of r'] redis_allow_counts [OF assms a, of k] by (auto simp: c a)
qed simp

section \<open>Properties\<close>

text \<open>
  C33. The sliding window is exact: on calls in the order of time, the limiter that forgets old
  events accepts the same calls as the specification that counts over the whole history, and in
  no interval of one minute are more than \<open>limit\<close> calls of a key accepted.
\<close>

theorem sliding_window_refines:
  assumes "sorted (map snd calls)" "0 \<le> limit"
  shows "serve limit empty_limiter calls = serve_spec limit [] calls \<and>
    int (in_minute t (times_of key (serve limit empty_limiter calls))) \<le> limit"
proof
  show "serve limit empty_limiter calls = serve_spec limit [] calls"
    using assms(1) by (cases calls) (auto intro: serve_refines [OF empty_keeps_window, where latest = "snd (hd calls)"])
qed (rule serve_window [OF assms])

theorem sliding_window_refines_witness:
  "serve 2 empty_limiter [(''k'', 0), (''k'', 5), (''k'', 9), (''k'', minutes 1)] = [(''k'', 0), (''k'', 5), (''k'', minutes 1)] \<and>
   int (in_minute 9 (times_of ''k'' (serve 2 empty_limiter [(''k'', 0), (''k'', 5), (''k'', 9), (''k'', minutes 1)]))) \<le> 2"
  using sliding_window_refines [of "[(''k'', 0), (''k'', 5), (''k'', 9), (''k'', minutes 1)]" 2 9 "''k''"]
  by (simp add: in_minute_def times_of_def minutes_def seconds_def)

text \<open>
  The distributed limiter is a fixed window: of the calls of one key in one minute of the
  clock at most \<open>limit\<close> are accepted, whatever other keys are served, and when Redis fails the
  call is refused. It does not bound an interval of a minute across two windows: with a limit of
  two, four calls within a second are accepted around the turn of a minute.
\<close>

theorem fixed_window_bound:
  assumes "counts_keys incr cnt" "\<And>k. 0 \<le> cnt r k" "0 \<le> limit"
  shows "int (length (filter (\<lambda>c. fst c = key \<and> snd c div minutes 1 = w) (serve_redis incr ns digest limit r calls))) \<le> limit \<and>
    (snd (incr r (redis_key ns digest key now)) = None \<longrightarrow> \<not> snd (redis_allow incr ns digest r key limit now))"
proof
  let ?k = "ns @ '':'' @ str_of_int w @ '':'' @ digest key"
  let ?acc = "serve_redis incr ns digest limit r calls"
  have w: "t div seconds 1 div 60 = t div minutes 1" for t :: int
    by (simp add: seconds_def minutes_def zdiv_zmult2_eq)
  have "length (filter (\<lambda>c. fst c = key \<and> snd c div minutes 1 = w) ?acc) \<le> length (filter (\<lambda>c. redis_key ns digest (fst c) (snd c) = ?k) ?acc)"
    by (rule length_filter_imp) (auto simp: redis_key_def w)
  also have "int (length (filter (\<lambda>c. redis_key ns digest (fst c) (snd c) = ?k) ?acc)) \<le> max 0 (limit - cnt r ?k)"
    by (rule serve_redis_bound [OF assms(1)])
  finally show "int (length (filter (\<lambda>c. fst c = key \<and> snd c div minutes 1 = w) ?acc)) \<le> limit"
    using assms(2) [of ?k] assms(3) by linarith
  show "snd (incr r (redis_key ns digest key now)) = None \<longrightarrow> \<not> snd (redis_allow incr ns digest r key limit now)"
    by (auto simp: redis_allow_def split: prod.splits option.splits)
qed

text \<open>Counters in memory, as one instance of the parameter.\<close>

definition count_up :: "(string \<times> int) list \<Rightarrow> string \<Rightarrow> (string \<times> int) list \<times> int option" where
  "count_up r k = (let n = (case map_of r k of Some i \<Rightarrow> i | None \<Rightarrow> 0) + 1 in ((k, n) # r, Some n))"

theorem fixed_window_bound_witness:
  "int (length (filter (\<lambda>c. fst c = ''k'' \<and> snd c div minutes 1 = 1)
     (serve_redis count_up ''rate'' id 2 [] [(''k'', minutes 1), (''k'', minutes 1), (''k'', minutes 1)]))) \<le> 2 \<and>
   length (serve_redis count_up ''rate'' id 2 []
     [(''k'', minutes 1 - 2), (''k'', minutes 1 - 1), (''k'', minutes 1), (''k'', minutes 1 + 1)]) = 4"
proof
  let ?cnt = "\<lambda>r k. case map_of r k of Some i \<Rightarrow> i | None \<Rightarrow> 0"
  have "counts_keys count_up ?cnt" by (auto simp: counts_keys_def count_up_def Let_def)
  then show "int (length (filter (\<lambda>c. fst c = ''k'' \<and> snd c div minutes 1 = 1)
     (serve_redis count_up ''rate'' id 2 [] [(''k'', minutes 1), (''k'', minutes 1), (''k'', minutes 1)]))) \<le> 2"
    by (rule fixed_window_bound [THEN conjunct1, of count_up ?cnt]) simp_all
qed code_simp

end
