(* ===== verification/Dates.thy ===== *)
theory Dates
  imports Models
begin

text \<open>
  Calendar dates and the texts of times: what the services use of Python's \<open>datetime\<close>.
\<close>

section \<open>Dates\<close>

text \<open>A date is a triple of year, month and day; conversions by counting days from March 1st.\<close>

type_synonym date = "int \<times> int \<times> int"

definition date_of_days :: "int \<Rightarrow> date" where
  "date_of_days d =
     (let z = d + 719468; era = z div 146097; doe = z mod 146097;
          yoe = (doe - doe div 1460 + doe div 36524 - doe div 146096) div 365;
          doy = doe - (365 * yoe + yoe div 4 - yoe div 100);
          mp = (5 * doy + 2) div 153;
          m = (if mp < 10 then mp + 3 else mp - 9)
      in (yoe + era * 400 + (if m \<le> 2 then 1 else 0), m, doy - (153 * mp + 2) div 5 + 1))"

definition days_of_date :: "date \<Rightarrow> int" where
  "days_of_date dt =
     (case dt of (y0, m, d) \<Rightarrow>
        let y = (if m \<le> 2 then y0 - 1 else y0); era = y div 400; yoe = y mod 400;
            doy = (153 * (if m > 2 then m - 3 else m + 9) + 2) div 5 + d - 1;
            doe = yoe * 365 + yoe div 4 - yoe div 100 + doy
        in era * 146097 + doe - 719468)"

definition pad :: "nat \<Rightarrow> string \<Rightarrow> string" where
  "pad n t = replicate (n - length t) (CHR ''0'') @ t"

definition date_str :: "date \<Rightarrow> string" where
  "date_str dt = (case dt of (y, m, d) \<Rightarrow>
     pad 4 (str_of_int y) @ ''-'' @ pad 2 (str_of_int m) @ ''-'' @ pad 2 (str_of_int d))"


section \<open>Texts of times\<close>

text \<open>The value of a text of decimal digits.\<close>

definition nat_of_text :: "string \<Rightarrow> int" where
  "nat_of_text s = foldl (\<lambda>n c. 10 * n + int (of_char c - 48)) 0 s"

definition leap_year :: "int \<Rightarrow> bool" where
  "leap_year y = (y mod 4 = 0 \<and> (y mod 100 \<noteq> 0 \<or> y mod 400 = 0))"

definition days_in_month :: "int \<Rightarrow> int \<Rightarrow> int" where
  "days_in_month y m =
     (if m = 2 then (if leap_year y then 29 else 28)
      else if m \<in> {4, 6, 9, 11} then 30 else 31)"

text \<open>A point of time, if the fields name one.\<close>

definition mk_datetime :: "int \<Rightarrow> int \<Rightarrow> int \<Rightarrow> int \<Rightarrow> int \<Rightarrow> int \<Rightarrow> datetime option" where
  "mk_datetime y m d h mi s =
     (if 1 \<le> y \<and> y \<le> 9999 \<and> 1 \<le> m \<and> m \<le> 12 \<and> 1 \<le> d \<and> d \<le> days_in_month y m
         \<and> 0 \<le> h \<and> h \<le> 23 \<and> 0 \<le> mi \<and> mi \<le> 59 \<and> 0 \<le> s \<and> s \<le> 59
      then Some (days (days_of_date (y, m, d)) + hours h + minutes mi + seconds s)
      else None)"

text \<open>\<open>strptime(text, "%Y-%m-%dT%H:%M:%SZ")\<close> on a text of that shape.\<close>

definition utc_shape :: "string \<Rightarrow> bool" where
  "utc_shape s =
     (length s = 20 \<and> list_all (\<lambda>i. is_digit (s ! i)) [0, 1, 2, 3, 5, 6, 8, 9, 11, 12, 14, 15, 17, 18]
      \<and> s ! 4 = CHR ''-'' \<and> s ! 7 = CHR ''-'' \<and> s ! 10 = CHR ''T'' \<and> s ! 13 = CHR '':''
      \<and> s ! 16 = CHR '':'' \<and> s ! 19 = CHR ''Z'')"

definition field :: "string \<Rightarrow> nat \<Rightarrow> nat \<Rightarrow> int" where
  "field s i n = nat_of_text (take n (drop i s))"

definition parse_utc :: "string \<Rightarrow> datetime option" where
  "parse_utc s =
     mk_datetime (field s 0 4) (field s 5 2) (field s 8 2) (field s 11 2) (field s 14 2) (field s 17 2)"

end
