(* ===== verification/PlanLimits.thy ===== *)
theory PlanLimits
  imports RateLimit Notifications Dates
begin

text \<open>
  Subscriptions, resource limits and the metering of authorization requests
  (\<open>services/plan_limits.py\<close>). The billing tables extend the database of the other services. An
  exception that reaches the caller rolls the session back, so it carries no new state, except
  where the code commits before it raises.
\<close>

section \<open>Periods\<close>

definition month_period :: "datetime \<Rightarrow> date \<times> date" where
  "month_period at_time =
     (case date_of_days (at_time div days 1) of
        (y, m, _) \<Rightarrow> ((y, m, 1), (if m = 12 then y + 1 else y, if m = 12 then 1 else m + 1, 1)))"

section \<open>Tables\<close>

datatype SubscriptionStatus = TRIALING | SUB_ACTIVE | PAST_DUE | CANCELED | INCOMPLETE | SUB_SUSPENDED

datatype UsageMetric = AUTHORIZATION_REQUESTS | API_REQUESTS | ACTIVE_AGENTS | API_KEYS | TEAM_MEMBERS
  | WEBHOOK_DELIVERIES | PUSH_NOTIFICATIONS

fun UsageMetric_value :: "UsageMetric \<Rightarrow> string" where
  "UsageMetric_value AUTHORIZATION_REQUESTS = ''authorization_requests''"
| "UsageMetric_value API_REQUESTS = ''api_requests''"
| "UsageMetric_value ACTIVE_AGENTS = ''active_agents''"
| "UsageMetric_value API_KEYS = ''api_keys''"
| "UsageMetric_value TEAM_MEMBERS = ''team_members''"
| "UsageMetric_value WEBHOOK_DELIVERIES = ''webhook_deliveries''"
| "UsageMetric_value PUSH_NOTIFICATIONS = ''push_notifications''"

record SubscriptionPlan =
  pl_id :: uuid
  pl_name :: string
  pl_code :: string
  pl_max_members :: "int option"
  pl_max_agents :: "int option"
  pl_max_api_keys :: "int option"
  pl_max_requests :: "int option"
  pl_max_webhooks :: "int option"
  pl_is_active :: bool

record OrganizationSubscription =
  su_id :: uuid
  su_organization_id :: uuid
  su_plan_id :: uuid
  su_status :: SubscriptionStatus
  su_current_period_start :: datetime
  su_current_period_end :: datetime
  su_grace_ends_at :: "datetime option"

record UsageRecord =
  us_organization_id :: uuid
  us_metric :: UsageMetric
  us_period_start :: date
  us_period_end :: date
  us_quantity :: int

text \<open>Of the other tables of an organization: its owner, and what the limits count.\<close>

record OrganizationMember =
  me_organization_id :: uuid
  me_active :: bool
  me_owner :: bool

record OrganizationInvitation =
  iv_organization_id :: uuid
  iv_pending :: bool
  iv_expires_at :: datetime

record billing =
  bl_db :: db
  bl_plans :: "SubscriptionPlan list"
  bl_subscriptions :: "OrganizationSubscription list"
  bl_usage :: "UsageRecord list"
  bl_owners :: "(uuid \<times> uuid) list"
  bl_members :: "OrganizationMember list"
  bl_invitations :: "OrganizationInvitation list"
  bl_active_api_keys :: "uuid list"
  bl_webhooks :: "uuid list"

definition now_of :: "billing \<Rightarrow> datetime" where
  "now_of s = clock (bl_db s)"

section \<open>Subscriptions\<close>

datatype plan_error = PlanLimitReached string | PlanRuntimeError string | PlanKeyError | PlanAttributeError

definition get_plan :: "billing \<Rightarrow> string \<Rightarrow> SubscriptionPlan option" where
  "get_plan s code = find (\<lambda>p. pl_code p = code \<and> pl_is_active p) (bl_plans s)"

definition ensure_subscription ::
    "billing \<Rightarrow> uuid \<Rightarrow> plan_error + billing \<times> OrganizationSubscription \<times> SubscriptionPlan" where
  "ensure_subscription s org =
     (case find (\<lambda>x. su_organization_id x = org) (bl_subscriptions s) of
        None \<Rightarrow>
          (case get_plan s ''free'' of
             None \<Rightarrow> Inl (PlanRuntimeError ''Free subscription plan is not configured'')
           | Some plan \<Rightarrow>
               let (i, d) = fresh (bl_db s); (period_start, period_end) = month_period (now_of s);
                   sub = \<lparr>su_id = i, su_organization_id = org, su_plan_id = pl_id plan, su_status = SUB_ACTIVE,
                          su_current_period_start = days (days_of_date period_start),
                          su_current_period_end = days (days_of_date period_end), su_grace_ends_at = None\<rparr>
               in Inr (s\<lparr>bl_db := d, bl_subscriptions := bl_subscriptions s @ [sub]\<rparr>, sub, plan))
      | Some sub \<Rightarrow>
          (case find (\<lambda>p. pl_id p = su_plan_id sub) (bl_plans s) of
             None \<Rightarrow> Inl (PlanRuntimeError ''Organization subscription plan is unavailable'')
           | Some plan \<Rightarrow>
               if pl_is_active plan then Inr (s, sub, plan)
               else Inl (PlanRuntimeError ''Organization subscription plan is unavailable'')))"

definition attach_free_subscription :: "billing \<Rightarrow> uuid \<Rightarrow> plan_error + billing \<times> OrganizationSubscription" where
  "attach_free_subscription s org = rbind (ensure_subscription s org) (\<lambda>(t, sub, _). Inr (t, sub))"

definition check_subscription_access :: "datetime \<Rightarrow> OrganizationSubscription \<Rightarrow> plan_error + unit" where
  "check_subscription_access now sub =
     (if su_status sub = PAST_DUE \<and> (case su_grace_ends_at sub of Some g \<Rightarrow> now \<le> g | None \<Rightarrow> False) then Inr ()
      else if su_status sub \<in> {INCOMPLETE, SUB_SUSPENDED, PAST_DUE}
      then Inl (PlanLimitReached
        ''Billing is restricted. Security history remains available while the owner resolves billing.'')
      else Inr ())"

section \<open>Resource limits\<close>

definition tally :: "('a \<Rightarrow> bool) \<Rightarrow> 'a list \<Rightarrow> int" where
  "tally P xs = int (length (filter P xs))"

definition count_for_resource :: "billing \<Rightarrow> uuid \<Rightarrow> string \<Rightarrow> int option" where
  "count_for_resource s org resource =
     (if resource = ''agents'' then Some (tally (\<lambda>a. ag_organization_id a = Some org) (agents (bl_db s)))
      else if resource = ''api keys'' then Some (tally (\<lambda>o1. o1 = org) (bl_active_api_keys s))
      else if resource = ''team members'' then
        Some (tally (\<lambda>m. me_organization_id m = org \<and> me_active m \<and> \<not> me_owner m) (bl_members s)
            + tally (\<lambda>i. iv_organization_id i = org \<and> iv_pending i \<and> iv_expires_at i > now_of s) (bl_invitations s))
      else if resource = ''webhooks'' then Some (tally (\<lambda>o1. o1 = org) (bl_webhooks s))
      else None)"

definition resource_limit :: "SubscriptionPlan \<Rightarrow> string \<Rightarrow> int option option" where
  "resource_limit plan resource =
     map_of [(''agents'', pl_max_agents plan), (''api keys'', pl_max_api_keys plan),
             (''team members'', pl_max_members plan), (''webhooks'', pl_max_webhooks plan)] resource"

definition enforce_resource_limit :: "billing \<Rightarrow> uuid option \<Rightarrow> string \<Rightarrow> plan_error + billing" where
  "enforce_resource_limit s organization_id resource =
     (case organization_id of
        None \<Rightarrow> Inr s
      | Some org \<Rightarrow>
          rbind (ensure_subscription s org) (\<lambda>(s1, sub, plan).
          rbind (check_subscription_access (now_of s1) sub) (\<lambda>_.
            case resource_limit plan resource of
              None \<Rightarrow> Inl PlanKeyError
            | Some None \<Rightarrow> Inr s1
            | Some (Some limit) \<Rightarrow>
                if the (count_for_resource s1 org resource) \<ge> limit
                then Inl (PlanLimitReached (''Your '' @ pl_name plan @ '' plan supports up to ''
                       @ str_of_int limit @ '' '' @ resource @ ''.''))
                else Inr s1)))"

section \<open>Metering\<close>

definition usage_key :: "uuid \<Rightarrow> UsageMetric \<Rightarrow> date \<Rightarrow> UsageRecord \<Rightarrow> bool" where
  "usage_key org metric start r = (us_organization_id r = org \<and> us_metric r = metric \<and> us_period_start r = start)"

text \<open>Insert a zero record unless one exists, then read it.\<close>

definition usage_record :: "billing \<Rightarrow> uuid \<Rightarrow> UsageMetric \<Rightarrow> billing \<times> UsageRecord" where
  "usage_record s org metric =
     (let (period_start, period_end) = month_period (now_of s) in
      case find (usage_key org metric period_start) (bl_usage s) of
        Some r \<Rightarrow> (s, r)
      | None \<Rightarrow>
          let r = \<lparr>us_organization_id = org, us_metric = metric, us_period_start = period_start,
                   us_period_end = period_end, us_quantity = 0\<rparr>
          in (s\<lparr>bl_usage := bl_usage s @ [r]\<rparr>, r))"

definition store_quantity :: "UsageRecord \<Rightarrow> int \<Rightarrow> billing \<Rightarrow> billing" where
  "store_quantity r n s = s\<lparr>bl_usage :=
     update_where (usage_key (us_organization_id r) (us_metric r) (us_period_start r))
       (\<lambda>x. x\<lparr>us_quantity := n\<rparr>) (bl_usage s)\<rparr>"

definition notify_usage :: "billing \<Rightarrow> uuid \<Rightarrow> UsageRecord \<Rightarrow> SubscriptionPlan \<Rightarrow> int \<Rightarrow> plan_error + billing" where
  "notify_usage s org r plan threshold =
     (case map_of (bl_owners s) org of
        None \<Rightarrow> Inl PlanAttributeError
      | Some owner \<Rightarrow>
          let (d, _) = create_notification (bl_db s)
            \<lparr>nr_user_id = owner, nr_type = BILLING_USAGE_WARNING,
             nr_title = (if threshold < 100 then ''Monthly Usage Warning'' else ''Monthly Request Limit Reached''),
             nr_message = (if threshold < 100
                then ''You have used '' @ str_of_int threshold @ ''% of your monthly authorization requests.''
                else ''Your monthly authorization request limit has been reached.''),
             nr_priority = (if threshold < 100 then NP_HIGH else NP_CRITICAL),
             nr_organization_id = Some org, nr_related_request_id = None, nr_related_agent_id = None,
             nr_related_permission_id = None,
             nr_metadata = Some [(''metric'', PStr (UsageMetric_value (us_metric r))),
               (''threshold'', PInt threshold), (''plan'', PStr (pl_code plan))],
             nr_deduplication_key = Some (''billing-usage:'' @ uuid_str org @ '':'' @ date_str (us_period_start r)
               @ '':'' @ UsageMetric_value (us_metric r) @ '':'' @ str_of_int threshold)\<rparr>
          in Inr (s\<lparr>bl_db := d\<rparr>))"

definition warning_threshold :: "int \<Rightarrow> int option" where
  "warning_threshold percent = find (\<lambda>t. percent \<ge> t) [100, 90, 80]"

text \<open>
  The state after the call and its result. When the limit is reached the warning is committed
  before the exception is raised.
\<close>

definition consume_authorization_request :: "billing \<Rightarrow> uuid \<Rightarrow> billing \<times> (plan_error + UsageRecord)" where
  "consume_authorization_request s org =
     (case rbind (ensure_subscription s org) (\<lambda>(s1, sub, plan).
             rbind (check_subscription_access (now_of s1) sub) (\<lambda>_. Inr (s1, plan))) of
        Inl e \<Rightarrow> (s, Inl e)
      | Inr (s1, plan) \<Rightarrow>
          let (s2, r) = usage_record s1 org AUTHORIZATION_REQUESTS; limit = pl_max_requests plan in
          if (case limit of Some l \<Rightarrow> us_quantity r \<ge> l | None \<Rightarrow> False) then
            (case notify_usage s2 org r plan 100 of
               Inl e \<Rightarrow> (s, Inl e)
             | Inr s3 \<Rightarrow>
                 (s3, Inl (PlanLimitReached (''Your '' @ pl_name plan
                   @ '' plan monthly authorization request limit has been reached.''))))
          else
            let r' = r\<lparr>us_quantity := us_quantity r + 1\<rparr>; s3 = store_quantity r (us_quantity r + 1) s2 in
            (case (case limit of
                     Some l \<Rightarrow>
                       if l = 0 then Inr s3
                       else (case warning_threshold (us_quantity r' * 100 div l) of
                               Some t \<Rightarrow> notify_usage s3 org r' plan t
                             | None \<Rightarrow> Inr s3)
                   | None \<Rightarrow> Inr s3) of
               Inl e \<Rightarrow> (s, Inl e)
             | Inr s4 \<Rightarrow> (s4, Inr r')))"

definition release_authorization_request :: "billing \<Rightarrow> uuid \<Rightarrow> billing" where
  "release_authorization_request s org =
     (let (s1, r) = usage_record s org AUTHORIZATION_REQUESTS in
      if us_quantity r > 0 then store_quantity r (us_quantity r - 1) s1 else s1)"

definition usage_values :: "billing \<Rightarrow> uuid \<Rightarrow>
    plan_error + billing \<times> OrganizationSubscription \<times> SubscriptionPlan \<times> (string \<times> int \<times> int option) list" where
  "usage_values s org =
     rbind (ensure_subscription s org) (\<lambda>(s1, sub, plan).
       let (s2, r) = usage_record s1 org AUTHORIZATION_REQUESTS;
           n = (\<lambda>resource. the (count_for_resource s2 org resource)) in
       Inr (s2, sub, plan,
         [(''authorization_requests'', us_quantity r, pl_max_requests plan),
          (''agents'', n ''agents'', pl_max_agents plan),
          (''api_keys'', n ''api keys'', pl_max_api_keys plan),
          (''team_members'', n ''team members'', pl_max_members plan),
          (''webhooks'', n ''webhooks'', pl_max_webhooks plan)]))"

section \<open>The monthly quota\<close>

definition monthly_used :: "uuid \<Rightarrow> billing \<Rightarrow> int" where
  "monthly_used org s =
     (case find (usage_key org AUTHORIZATION_REQUESTS (fst (month_period (now_of s)))) (bl_usage s) of
        Some r \<Rightarrow> us_quantity r | None \<Rightarrow> 0)"

text \<open>An organization in good standing on a plan with a monthly limit.\<close>

definition metered :: "uuid \<Rightarrow> int \<Rightarrow> billing \<Rightarrow> bool" where
  "metered org limit s =
     (map_of (bl_owners s) org \<noteq> None \<and>
      (case find (\<lambda>x. su_organization_id x = org) (bl_subscriptions s) of
         None \<Rightarrow> False
       | Some sub \<Rightarrow> su_status sub \<in> {TRIALING, SUB_ACTIVE, CANCELED} \<and>
           (case find (\<lambda>p. pl_id p = su_plan_id sub) (bl_plans s) of
              None \<Rightarrow> False | Some plan \<Rightarrow> pl_is_active plan \<and> pl_max_requests plan = Some limit)))"

definition same_account :: "billing \<Rightarrow> billing \<Rightarrow> bool" where
  "same_account s t = (now_of t = now_of s \<and> bl_owners t = bl_owners s \<and>
     bl_subscriptions t = bl_subscriptions s \<and> bl_plans t = bl_plans s)"

lemma metered_same: "same_account s t \<Longrightarrow> metered org limit s \<Longrightarrow> metered org limit t"
  by (simp add: same_account_def metered_def cong: option.case_cong)

lemma metered_ensure:
  assumes "metered org limit s"
  shows "\<exists>sub plan. ensure_subscription s org = Inr (s, sub, plan) \<and>
     check_subscription_access (now_of s) sub = Inr () \<and> pl_max_requests plan = Some limit"
proof -
  from assms obtain sub plan where *: "find (\<lambda>x. su_organization_id x = org) (bl_subscriptions s) = Some sub"
    "su_status sub \<in> {TRIALING, SUB_ACTIVE, CANCELED}" "find (\<lambda>p. pl_id p = su_plan_id sub) (bl_plans s) = Some plan"
    "pl_is_active plan" "pl_max_requests plan = Some limit"
    by (auto simp: metered_def split: option.splits)
  then have "check_subscription_access (now_of s) sub = Inr ()"
    by (auto simp: check_subscription_access_def)
  with * show ?thesis by (simp add: ensure_subscription_def)
qed

lemma find_update_same:
  "(\<And>x. P x \<Longrightarrow> P (f x)) \<Longrightarrow> find P (update_where P f xs) = map_option f (find P xs)"
  by (induction xs) auto

lemma usage_record_spec:
  assumes "usage_record s org AUTHORIZATION_REQUESTS = (t, r)"
  shows "same_account s t \<and> bl_db t = bl_db s \<and> us_quantity r = monthly_used org s \<and> monthly_used org t = monthly_used org s \<and>
    find (usage_key org AUTHORIZATION_REQUESTS (fst (month_period (now_of s)))) (bl_usage t) = Some r \<and>
    usage_key org AUTHORIZATION_REQUESTS (fst (month_period (now_of s))) r"
  using assms
  by (auto simp: usage_record_def Let_def same_account_def monthly_used_def now_of_def usage_key_def find_append
      split: prod.splits option.splits dest: find_SomeD)

lemma store_quantity_spec:
  assumes "find (usage_key org AUTHORIZATION_REQUESTS (fst (month_period (now_of s)))) (bl_usage s) = Some r"
    "usage_key org AUTHORIZATION_REQUESTS (fst (month_period (now_of s))) r"
  shows "same_account s (store_quantity r n s) \<and> bl_db (store_quantity r n s) = bl_db s \<and>
    monthly_used org (store_quantity r n s) = n"
proof -
  let ?k = "usage_key org AUTHORIZATION_REQUESTS (fst (month_period (now_of s)))"
  have "usage_key (us_organization_id r) (us_metric r) (us_period_start r) = ?k"
    using assms(2) by (auto simp: usage_key_def)
  moreover have "find ?k (update_where ?k (\<lambda>x. x\<lparr>us_quantity := n\<rparr>) (bl_usage s)) = Some (r\<lparr>us_quantity := n\<rparr>)"
    using assms(1) by (subst find_update_same) (auto simp: usage_key_def)
  ultimately show ?thesis
    by (simp add: store_quantity_def same_account_def monthly_used_def now_of_def)
qed

lemma notify_usage_spec:
  assumes "map_of (bl_owners s) org \<noteq> None"
  shows "\<exists>t. notify_usage s org r plan threshold = Inr t \<and> same_account s t \<and> bl_usage t = bl_usage s"
  using assms create_notification_keeps
  by (force simp: notify_usage_def Let_def same_account_def now_of_def split: prod.splits option.splits)

lemma monthly_used_same: "same_account s t \<Longrightarrow> bl_usage t = bl_usage s \<Longrightarrow> monthly_used org t = monthly_used org s"
  by (simp add: monthly_used_def same_account_def)

lemma same_account_trans: "same_account s t \<Longrightarrow> same_account t u \<Longrightarrow> same_account s u"
  by (simp add: same_account_def)

lemma consume_spec:
  assumes m: "metered org limit s" and c: "consume_authorization_request s org = (t, res)"
  shows "same_account s t \<and> raises res = (limit \<le> monthly_used org s) \<and>
    monthly_used org t = monthly_used org s + (if raises res then 0 else 1)"
proof -
  obtain sub plan where e: "ensure_subscription s org = Inr (s, sub, plan)"
    "check_subscription_access (now_of s) sub = Inr ()" "pl_max_requests plan = Some limit"
    using metered_ensure [OF m] by blast
  obtain s2 r where u: "usage_record s org AUTHORIZATION_REQUESTS = (s2, r)" by force
  note us = usage_record_spec [OF u]
  have own: "map_of (bl_owners x) org \<noteq> None" if "same_account s x" for x
    using m that by (simp add: metered_def same_account_def)
  show ?thesis
  proof (cases "us_quantity r \<ge> limit")
    case True
    obtain s3 where "notify_usage s2 org r plan 100 = Inr s3" "same_account s2 s3" "bl_usage s3 = bl_usage s2"
      using notify_usage_spec [of s2 org r plan 100] own us by blast
    then show ?thesis
      using c True us monthly_used_same [of s2 s3 org] same_account_trans [of s s2 s3]
      by (auto simp: consume_authorization_request_def e u Let_def)
  next
    case False
    let ?s3 = "store_quantity r (us_quantity r + 1) s2"
    have st: "same_account s2 ?s3" "monthly_used org ?s3 = us_quantity r + 1"
      using store_quantity_spec [of org s2 r "us_quantity r + 1"] us by (auto simp: same_account_def)
    have s3: "same_account s ?s3" using st us same_account_trans by blast
    have n: "\<exists>u. notify_usage ?s3 org r' plan th = Inr u \<and> same_account ?s3 u \<and> bl_usage u = bl_usage ?s3" for r' th
      using notify_usage_spec own [OF s3] by blast
    let ?r' = "r\<lparr>us_quantity := us_quantity r + 1\<rparr>"
    let ?warn = "if limit = 0 then Inr ?s3
      else case warning_threshold (us_quantity ?r' * 100 div limit) of
             Some th \<Rightarrow> notify_usage ?s3 org ?r' plan th | None \<Rightarrow> Inr ?s3"
    obtain s4 where w: "?warn = Inr s4" "same_account ?s3 s4" "bl_usage s4 = bl_usage ?s3"
      using n [of ?r'] by (cases "limit = 0"; cases "warning_threshold (us_quantity ?r' * 100 div limit)")
        (fastforce simp: same_account_def)+
    have "\<exists>r'. res = Inr r' \<and> same_account ?s3 t \<and> bl_usage t = bl_usage ?s3"
      using c False w by (auto simp: consume_authorization_request_def e u Let_def)
    then show ?thesis
      using st s3 us False monthly_used_same [of ?s3 t org] same_account_trans [of s ?s3 t] by auto
  qed
qed

lemma release_spec:
  assumes "metered org limit s"
  shows "same_account s (release_authorization_request s org) \<and>
    monthly_used org (release_authorization_request s org) =
      (if monthly_used org s > 0 then monthly_used org s - 1 else monthly_used org s)"
proof -
  obtain s2 r where u: "usage_record s org AUTHORIZATION_REQUESTS = (s2, r)" by force
  note us = usage_record_spec [OF u]
  have "same_account s2 (store_quantity r n s2) \<and> monthly_used org (store_quantity r n s2) = n" for n
    using store_quantity_spec [of org s2 r n] us by (auto simp: same_account_def)
  then show ?thesis
    using us same_account_trans [of s s2] by (auto simp: release_authorization_request_def u)
qed

definition consume_ok :: "uuid \<Rightarrow> billing \<Rightarrow> billing \<times> bool" where
  "consume_ok org s = (let (t, r) = consume_authorization_request s org in (t, \<not> raises r))"

interpretation monthly: quota "consume_ok org" "monthly_used org" limit "metered org limit"
  for org limit
proof
  fix s assume m: "metered org limit s"
  obtain t r where c: "consume_authorization_request s org = (t, r)" by force
  note * = consume_spec [OF m c]
  show "snd (consume_ok org s) \<longleftrightarrow> monthly_used org s < limit" using * by (auto simp: consume_ok_def c)
  show "monthly_used org (fst (consume_ok org s)) = monthly_used org s + 1" if "snd (consume_ok org s)"
    using that * by (simp add: consume_ok_def c)
  show "limit \<le> monthly_used org (fst (consume_ok org s))" if "\<not> snd (consume_ok org s)"
    using that * by (simp add: consume_ok_def c)
  show "metered org limit (fst (consume_ok org s))" using * metered_same [OF _ m] by (simp add: consume_ok_def c)
qed

text \<open>A burst of requests, with the number that is admitted, and a sequence of metered operations.\<close>

primrec consume_times :: "nat \<Rightarrow> billing \<Rightarrow> uuid \<Rightarrow> billing \<times> int" where
  "consume_times 0 s org = (s, 0)"
| "consume_times (Suc n) s org =
     (let (s1, r) = consume_authorization_request s org; (s2, m) = consume_times n s1 org
      in (s2, m + (if raises r then 0 else 1)))"

lemma consume_times_burst: "consume_times n s org = monthly.burst org n s"
  by (induction n arbitrary: s) (simp_all add: consume_ok_def Let_def split: prod.split)

datatype meter_op = Consume | Release

fun meter :: "billing \<Rightarrow> uuid \<Rightarrow> meter_op list \<Rightarrow> billing" where
  "meter s org [] = s"
| "meter s org (Consume # ops) = meter (fst (consume_authorization_request s org)) org ops"
| "meter s org (Release # ops) = meter (release_authorization_request s org) org ops"

lemma meter_bounds:
  "metered org limit s \<Longrightarrow> 0 \<le> monthly_used org s \<Longrightarrow> monthly_used org s \<le> limit \<Longrightarrow>
     0 \<le> monthly_used org (meter s org ops) \<and> monthly_used org (meter s org ops) \<le> limit"
proof (induction s org ops rule: meter.induct)
  case (2 s org ops)
  obtain t r where c: "consume_authorization_request s org = (t, r)" by force
  from consume_spec [OF 2(2) c] 2 show ?case by (auto simp: c metered_same split: if_splits)
next
  case (3 s org ops)
  from release_spec [OF 3(2)] 3 show ?case by (auto simp: metered_same split: if_splits)
qed simp

section \<open>Properties\<close>

text \<open>
  C36. The monthly quota is exact: for an organization in good standing on a plan with a monthly
  limit, a burst of \<open>n\<close> requests is admitted exactly as far as the limit allows, and no sequence of
  consumed and released requests takes the usage of the month outside the range from 0 to the limit.
\<close>

theorem monthly_quota_exact:
  assumes "metered org limit s"
  shows "snd (consume_times n s org) = max 0 (min (int n) (limit - monthly_used org s)) \<and>
    (0 \<le> monthly_used org s \<and> monthly_used org s \<le> limit \<longrightarrow>
     0 \<le> monthly_used org (meter s org ops) \<and> monthly_used org (meter s org ops) \<le> limit)"
  using monthly.burst_admits [OF assms] meter_bounds [OF assms] by (simp add: consume_times_burst)

definition demo_billing :: billing where
  "demo_billing = \<lparr>bl_db = empty_db,
     bl_plans = [\<lparr>pl_id = 1, pl_name = ''Free'', pl_code = ''free'', pl_max_members = Some 0, pl_max_agents = Some 3,
       pl_max_api_keys = Some 1, pl_max_requests = Some 2, pl_max_webhooks = Some 0, pl_is_active = True\<rparr>],
     bl_subscriptions = [\<lparr>su_id = 2, su_organization_id = 7, su_plan_id = 1, su_status = SUB_ACTIVE,
       su_current_period_start = 0, su_current_period_end = days 31, su_grace_ends_at = None\<rparr>],
     bl_usage = [], bl_owners = [(7, 1)], bl_members = [], bl_invitations = [], bl_active_api_keys = [], bl_webhooks = []\<rparr>"

theorem monthly_quota_exact_witness:
  "snd (consume_times 5 demo_billing 7) = 2 \<and>
   monthly_used 7 (meter demo_billing 7 [Consume, Consume, Consume, Release]) \<le> 2"
proof -
  have m: "metered 7 2 demo_billing" by (simp add: metered_def demo_billing_def)
  have u: "monthly_used 7 demo_billing = 0" by (simp add: monthly_used_def demo_billing_def)
  from monthly_quota_exact [OF m, of 5 "[Consume, Consume, Consume, Release]"] show ?thesis by (simp add: u)
qed

text \<open>The enforcement of a resource limit, on every branch.\<close>

lemma enforce_resource_limit_spec:
  assumes "enforce_resource_limit s (Some org) resource = Inr t" "ensure_subscription s org = Inr (s1, sub, plan)"
    "resource_limit plan resource = Some (Some limit)"
  shows "t = s1 \<and> the (count_for_resource t org resource) < limit"
  using assms by (auto simp: enforce_resource_limit_def rbind_Inr_iff split: if_splits)

lemma month_period_demo: "month_period (days 20410) = ((2025, 11, 1), (2025, 12, 1))"
  by code_simp

end
