(* ===== verification/Canonical.thy ===== *)
theory Canonical
  imports Models
begin

text \<open>
  The byte strings that are signed: the canonical forms of agent requests
  (\<open>services/agent_signing.py\<close>), of messages of the agent protocol (\<open>services/atp_canonical.py\<close>)
  and of credentials (\<open>services/atc_canonical.py\<close>), and the addresses of agents. SHA-256 is a
  parameter, the function from bytes to the hexadecimal digest.
\<close>

section \<open>Lines\<close>

abbreviation LF :: char where "LF \<equiv> CHR 0x0A"

text \<open>\<open>"\n".join(lines) + "\n"\<close>\<close>

definition signed_lines :: "string list \<Rightarrow> string" where
  "signed_lines lines = py_join [LF] lines @ [LF]"

lemma py_split_no_sep: "d \<notin> set s \<Longrightarrow> py_split d s = [s]"
  by (induction s) auto

lemma py_split_append: "d \<notin> set s \<Longrightarrow> py_split d (s @ d # t) = s # py_split d t"
  by (induction s) auto

lemma split_join:
  "list_all (\<lambda>l. d \<notin> set l) ls \<Longrightarrow> ls \<noteq> [] \<Longrightarrow> py_split d (py_join [d] ls @ d # t) = ls @ py_split d t"
  by (induction "[d]" ls rule: py_join.induct) (auto simp: py_split_append)

text \<open>Splitting at the line ends gives back the lines.\<close>

lemma split_signed_lines:
  "list_all (\<lambda>l. LF \<notin> set l) ls \<Longrightarrow> ls \<noteq> [] \<Longrightarrow> py_split LF (signed_lines ls) = ls @ [[]]"
  using split_join [of LF ls "[]"] by (simp add: signed_lines_def)

section \<open>Agent requests\<close>

text \<open>
  The fields of a signed text by what they hold: names of organizations, of agents and of keys, times
  and nonces.
\<close>

type_synonym org_name = string
type_synonym agent_name = string
type_synonym key_name = string
type_synonym time_text = string
type_synonym nonce_text = string
type_synonym digest = string

definition SIGNATURE_VERSION :: string where "SIGNATURE_VERSION = ''v1''"
definition SIGNATURE_VERSION_V2 :: string where "SIGNATURE_VERSION_V2 = ''v2''"

definition canonical_request ::
    "(string \<Rightarrow> digest) \<Rightarrow> string \<Rightarrow> string \<Rightarrow> agent_name \<Rightarrow> key_name \<Rightarrow> time_text \<Rightarrow> nonce_text \<Rightarrow> string \<Rightarrow> string" where
  "canonical_request sha256 verb path agent_id key_id timestamp nonce body =
     signed_lines [SIGNATURE_VERSION, py_upper verb, path, agent_id, key_id, timestamp, nonce, sha256 body]"

definition canonical_cross_org_request_v2 ::
    "(string \<Rightarrow> digest) \<Rightarrow> string \<Rightarrow> string \<Rightarrow> org_name \<Rightarrow> org_name \<Rightarrow> agent_name \<Rightarrow> agent_name
       \<Rightarrow> key_name \<Rightarrow> time_text \<Rightarrow> nonce_text \<Rightarrow> string \<Rightarrow> string" where
  "canonical_cross_org_request_v2 sha256 verb path source_org_id target_org_id source_agent_id
       target_agent_id key_id timestamp nonce body =
     signed_lines [SIGNATURE_VERSION_V2, py_upper verb, path, source_org_id, target_org_id,
       source_agent_id, target_agent_id, key_id, timestamp, nonce, sha256 body]"

section \<open>Messages of the agent protocol\<close>

definition PROTOCOL_VERSION :: string where "PROTOCOL_VERSION = ''ATP/1.0''"
definition SIGNING_VERSION :: string where "SIGNING_VERSION = ''ATP-SIG/1''"

datatype ATPAddressError = EmptyAddress | InvalidAddress string

definition address_char :: "char \<Rightarrow> bool" where
  "address_char c = (is_lower c \<or> is_upper c \<or> is_digit c \<or> c = CHR ''_'' \<or> c = CHR ''-'')"

definition address_id :: "string \<Rightarrow> bool" where
  "address_id s = (s \<noteq> [] \<and> list_all address_char s)"

definition match_address :: "string \<Rightarrow> (string \<times> string) option" where
  "match_address s =
     (if py_startswith s ''atp://'' then
        (case py_split (CHR ''/'') (drop 6 s) of
           [org, agent] \<Rightarrow> if address_id org \<and> address_id agent then Some (org, agent) else None
         | _ \<Rightarrow> None)
      else None)"

definition parse_agent_address :: "pyval \<Rightarrow> ATPAddressError + string \<times> string" where
  "parse_agent_address address =
     (case address of
        PStr s \<Rightarrow>
          if s = [] then Inl EmptyAddress
          else (case match_address (py_strip s) of
                  Some ids \<Rightarrow> Inr ids
                | None \<Rightarrow> Inl (InvalidAddress s))
      | _ \<Rightarrow> Inl EmptyAddress)"

definition format_agent_address :: "string \<Rightarrow> string \<Rightarrow> string" where
  "format_agent_address org_id agent_id = ''atp://'' @ py_strip org_id @ ''/'' @ py_strip agent_id"

text \<open>
  The digest of a payload: of its canonical JSON text, a text being parsed as JSON first where
  that succeeds. The reader of JSON texts is a parameter.
\<close>

definition canonical_json :: "pyval \<Rightarrow> string" where
  "canonical_json v = json_dumps '','' '':'' v"

definition compute_payload_sha256 :: "(string \<Rightarrow> string) \<Rightarrow> (string \<Rightarrow> pyval option) \<Rightarrow> pyval \<Rightarrow> string" where
  "compute_payload_sha256 sha256 json_loads payload =
     sha256 (case payload of
        PNone \<Rightarrow> ''{}''
      | PStr s \<Rightarrow> (case json_loads s of Some v \<Rightarrow> canonical_json v | None \<Rightarrow> s)
      | v \<Rightarrow> canonical_json v)"

definition build_canonical_request_ascii ::
    "string \<Rightarrow> string \<Rightarrow> org_name \<Rightarrow> agent_name \<Rightarrow> org_name \<Rightarrow> agent_name \<Rightarrow> string \<Rightarrow> time_text
       \<Rightarrow> nonce_text \<Rightarrow> digest \<Rightarrow> string"
where
  "build_canonical_request_ascii message_id message_type source_org_id source_agent_id target_org_id
       target_agent_id capability timestamp nonce payload_sha256 =
     signed_lines [SIGNING_VERSION, py_strip message_id, py_strip message_type, py_strip source_org_id,
       py_strip source_agent_id, py_strip target_org_id, py_strip target_agent_id, py_strip capability,
       py_strip timestamp, py_strip nonce, py_strip payload_sha256]"

section \<open>Credentials\<close>

definition ATC_SIGNING_VERSION :: string where "ATC_SIGNING_VERSION = ''ATC-SIG/1''"

definition compute_claims_sha256 :: "(string \<Rightarrow> string) \<Rightarrow> (string \<Rightarrow> pyval option) \<Rightarrow> pyval \<Rightarrow> string" where
  "compute_claims_sha256 sha256 json_loads claims =
     sha256 (case claims of
        PNone \<Rightarrow> ''{}''
      | PStr s \<Rightarrow> (case json_loads s of Some v \<Rightarrow> canonical_json v | None \<Rightarrow> s)
      | v \<Rightarrow> canonical_json v)"

definition build_atc_canonical_ascii ::
    "string \<Rightarrow> string \<Rightarrow> string \<Rightarrow> org_name \<Rightarrow> agent_name \<Rightarrow> string \<Rightarrow> time_text \<Rightarrow> time_text option \<Rightarrow> time_text
       \<Rightarrow> string \<Rightarrow> digest \<Rightarrow> string"
where
  "build_atc_canonical_ascii credential_version credential_id issuer_id subject_org_id subject_agent_id
       credential_type issued_at not_before expires_at environment claims_sha256 =
     signed_lines [ATC_SIGNING_VERSION, py_strip credential_version, py_strip credential_id,
       py_strip issuer_id, py_strip subject_org_id, py_strip subject_agent_id, py_strip credential_type,
       py_strip issued_at, py_strip (case not_before of Some t \<Rightarrow> t | None \<Rightarrow> []), py_strip expires_at,
       py_strip environment, py_strip claims_sha256]"

section \<open>Reading signed texts back\<close>

text \<open>The four forms, and the lines each of them stands for.\<close>

datatype signed_form =
    Request string string string string string string string
  | CrossOrgRequest string string string string string string string string string string
  | Message string string string string string string string string string string
  | Credential string string string string string string string "string option" string string string

fun signed_text :: "(string \<Rightarrow> string) \<Rightarrow> signed_form \<Rightarrow> string" where
  "signed_text sha256 (Request m p a k t n b) = canonical_request sha256 m p a k t n b"
| "signed_text sha256 (CrossOrgRequest m p so ta sa tt k t n b) =
     canonical_cross_org_request_v2 sha256 m p so ta sa tt k t n b"
| "signed_text sha256 (Message i ty so sa ta tt c t n h) = build_canonical_request_ascii i ty so sa ta tt c t n h"
| "signed_text sha256 (Credential v i iss so sa ty ia nb ex env h) =
     build_atc_canonical_ascii v i iss so sa ty ia nb ex env h"

fun signed_fields :: "(string \<Rightarrow> string) \<Rightarrow> signed_form \<Rightarrow> string list" where
  "signed_fields sha256 (Request m p a k t n b) = [''v1'', py_upper m, p, a, k, t, n, sha256 b]"
| "signed_fields sha256 (CrossOrgRequest m p so ta sa tt k t n b) =
     [''v2'', py_upper m, p, so, ta, sa, tt, k, t, n, sha256 b]"
| "signed_fields sha256 (Message i ty so sa ta tt c t n h) =
     ''ATP-SIG/1'' # map py_strip [i, ty, so, sa, ta, tt, c, t, n, h]"
| "signed_fields sha256 (Credential v i iss so sa ty ia nb ex env h) =
     ''ATC-SIG/1'' # map py_strip [v, i, iss, so, sa, ty, ia, (case nb of Some t \<Rightarrow> t | None \<Rightarrow> []), ex, env, h]"

definition one_line :: "string \<Rightarrow> bool" where
  "one_line s = (LF \<notin> set s)"

lemma signed_text_lines: "signed_text sha256 f = signed_lines (signed_fields sha256 f)"
  by (cases f) (simp_all add: canonical_request_def canonical_cross_org_request_v2_def
      build_canonical_request_ascii_def build_atc_canonical_ascii_def SIGNATURE_VERSION_def
      SIGNATURE_VERSION_V2_def SIGNING_VERSION_def ATC_SIGNING_VERSION_def)

lemma signed_fields_nonempty: "signed_fields sha256 f \<noteq> []"
  by (cases f) auto

lemma split_signed_text:
  "list_all one_line (signed_fields sha256 f) \<Longrightarrow> py_split LF (signed_text sha256 f) = signed_fields sha256 f @ [[]]"
  unfolding signed_text_lines
  by (rule split_signed_lines) (simp_all add: signed_fields_nonempty one_line_def [abs_def])

lemma address_char_plain: "address_char c \<Longrightarrow> \<not> is_space c \<and> c \<noteq> CHR ''/''"
  by (auto simp: address_char_def is_lower_def is_upper_def is_digit_def is_space_def Let_def)

lemma strip_no_space: "list_all (\<lambda>c. \<not> is_space c) s \<Longrightarrow> py_strip s = s"
proof -
  have "dropWhile is_space t = t" if "list_all (\<lambda>c. \<not> is_space c) t" for t
    using that by (cases t) auto
  moreover assume "list_all (\<lambda>c. \<not> is_space c) s"
  moreover from this have "list_all (\<lambda>c. \<not> is_space c) (rev s)" by simp
  ultimately show ?thesis by (simp add: py_strip_def)
qed

lemma address_id_plain:
  assumes "address_id s"
  shows "py_strip s = s" "CHR ''/'' \<notin> set s" "list_all (\<lambda>c. \<not> is_space c) s"
proof -
  have "list_all (\<lambda>c. \<not> is_space c \<and> c \<noteq> CHR ''/'') s"
    using assms address_char_plain by (auto simp: address_id_def list_all_iff)
  then show "list_all (\<lambda>c. \<not> is_space c) s" "CHR ''/'' \<notin> set s" by (auto simp: list_all_iff)
  then show "py_strip s = s" by (simp add: strip_no_space)
qed

lemma py_split_join: "py_join [d] (py_split d s) = s \<and> py_split d s \<noteq> []"
proof (induction s)
  case (Cons c s)
  then show ?case by (cases "py_split d s" rule: remdups_adj.cases) auto
qed simp

lemma match_address_format: "address_id org \<Longrightarrow> address_id agent \<Longrightarrow>
    match_address (''atp://'' @ org @ ''/'' @ agent) = Some (org, agent)"
  by (simp add: match_address_def py_startswith_def py_split_append py_split_no_sep address_id_plain)

lemma match_address_Some:
  assumes "match_address s = Some (org, agent)"
  shows "address_id org \<and> address_id agent \<and> s = ''atp://'' @ org @ ''/'' @ agent"
proof -
  from assms have pre: "take 6 s = ''atp://''" and sp: "py_split (CHR ''/'') (drop 6 s) = [org, agent]"
    and ids: "address_id org" "address_id agent"
    by (auto simp: match_address_def py_startswith_def numeral_eq_Suc split: if_splits list.splits)
  have "drop 6 s = org @ ''/'' @ agent" using py_split_join [of "CHR ''/''" "drop 6 s"] sp by simp
  with pre ids append_take_drop_id [of 6 s] show ?thesis by metis
qed

text \<open>
  C35. A signed text says which normalized fields were signed. For each of the four forms the lines of the
  signed text are its fields after the normalization the form applies (blanks stripped, upper case,
  hashes). So where none of these fields holds a line feed, the text splits back into them, and two
  signed texts are equal exactly when their lists of normalized fields are. Fields that differ only in
  what the normalization removes have the same text.
\<close>

theorem signed_text_roundtrip:
  assumes "list_all one_line (signed_fields sha256 f)" "list_all one_line (signed_fields sha256 g)"
  shows "py_split LF (signed_text sha256 f) = signed_fields sha256 f @ [[]] \<and>
    (signed_text sha256 f = signed_text sha256 g \<longleftrightarrow> signed_fields sha256 f = signed_fields sha256 g)"
  using split_signed_text [OF assms(1)] split_signed_text [OF assms(2)]
  by (metis append_same_eq signed_text_lines)

text \<open>
  The address of an agent: formatting two valid identifiers and parsing the address gives them
  back, and an address that parses is, up to surrounding white space, the formatted one of the two
  valid identifiers it yields.
\<close>

theorem agent_address_roundtrip:
  "(address_id org \<and> address_id agent \<longrightarrow>
      parse_agent_address (PStr (format_agent_address org agent)) = Inr (org, agent)) \<and>
   (parse_agent_address (PStr s) = Inr (org, agent) \<longrightarrow>
      address_id org \<and> address_id agent \<and> format_agent_address org agent = py_strip s)"
proof (intro conjI impI)
  assume ids: "address_id org \<and> address_id agent"
  then have "list_all (\<lambda>c. \<not> is_space c) (''atp://'' @ org @ ''/'' @ agent)"
  proof -
    have "list_all (\<lambda>c. \<not> is_space c) ''atp://''" "\<not> is_space (CHR ''/'')" by code_simp+
    then show ?thesis using ids address_id_plain(3) by auto
  qed
  with ids show "parse_agent_address (PStr (format_agent_address org agent)) = Inr (org, agent)"
    by (simp add: parse_agent_address_def format_agent_address_def address_id_plain strip_no_space
        match_address_format del: append.simps(2)) 
next
  assume "parse_agent_address (PStr s) = Inr (org, agent)"
  then have "match_address (py_strip s) = Some (org, agent)"
    by (auto simp: parse_agent_address_def split: if_splits option.splits)
  from match_address_Some [OF this] show "address_id org" "address_id agent"
    "format_agent_address org agent = py_strip s"
    by (auto simp: format_agent_address_def address_id_plain)
qed

theorem signed_text_roundtrip_witness:
  "signed_text (\<lambda>_. ''0'') (Message ''m'' ''request'' ''o'' ''a'' ''p'' ''b'' ''read'' ''t'' ''n'' ''h'') \<noteq>
   signed_text (\<lambda>_. ''0'') (Message ''m'' ''request'' ''o'' ''a'' ''p'' ''c'' ''read'' ''t'' ''n'' ''h'')"
  using signed_text_roundtrip [of "\<lambda>_. ''0''"
      "Message ''m'' ''request'' ''o'' ''a'' ''p'' ''b'' ''read'' ''t'' ''n'' ''h''"
      "Message ''m'' ''request'' ''o'' ''a'' ''p'' ''c'' ''read'' ''t'' ''n'' ''h''"]
  by (simp add: one_line_def strip_no_space is_space_def)

theorem agent_address_roundtrip_witness:
  "parse_agent_address (PStr (format_agent_address ''acme'' ''buyer-1'')) = Inr (''acme'', ''buyer-1'')
   \<and> format_agent_address ''acme'' ''buyer-1'' = py_strip '' atp://acme/buyer-1''"
proof
  have ids: "address_id ''acme''" "address_id ''buyer-1''" by code_simp+
  then show "parse_agent_address (PStr (format_agent_address ''acme'' ''buyer-1'')) = Inr (''acme'', ''buyer-1'')"
    using agent_address_roundtrip [of "''acme''" "''buyer-1''" "[]"] by blast
  have "parse_agent_address (PStr '' atp://acme/buyer-1'') = Inr (''acme'', ''buyer-1'')" by code_simp
  then show "format_agent_address ''acme'' ''buyer-1'' = py_strip '' atp://acme/buyer-1''"
    using agent_address_roundtrip [of "''acme''" "''buyer-1''" "'' atp://acme/buyer-1''"] by blast
qed

end
