(* ===== verification/Signing.thy ===== *)
theory Signing
  imports Canonical Dates
begin

text \<open>
  Signing keys of agents, the verification of signed requests and the protection against replay
  (\<open>services/agent_signing.py\<close>, \<open>models/agent_signing.py\<close>). SHA-256, Base64 and Ed25519 are
  parameters, and so is what the Redis client answers; a text is the list of its ASCII bytes.
\<close>

section \<open>Rows and parameters\<close>

datatype AgentSigningKeyStatus = SK_ACTIVE | SK_ROTATING | SK_REVOKED | SK_EXPIRED

record AgentSigningKey =
  sk_id :: uuid
  sk_key_id :: string
  sk_agent_id :: uuid
  sk_organization_id :: "uuid option"
  sk_algorithm :: string
  sk_public_key :: string
  sk_fingerprint :: string
  sk_status :: AgentSigningKeyStatus
  sk_activated_at :: datetime
  sk_expires_at :: "datetime option"
  sk_revoked_at :: "datetime option"
  sk_rotated_from_key_id :: "string option"
  sk_last_used_at :: "datetime option"

record AgentRequestNonce =
  an_key_id :: string
  an_nonce_hash :: string
  an_expires_at :: datetime

record signing =
  sg_db :: db
  sg_keys :: "AgentSigningKey list"
  sg_nonces :: "AgentRequestNonce list"

record signing_settings =
  agent_signature_clock_window_seconds :: int
  agent_max_active_signing_keys :: int
  redis_url_given :: bool

text \<open>
  The libraries: the hexadecimal SHA-256 digest, strict Base64 (no value where it raises), the
  public keys Ed25519 accepts and its verification of a signature.
\<close>

record crypto =
  sha256_hex :: "string \<Rightarrow> string"
  b64decode :: "string \<Rightarrow> string option"
  b64encode :: "string \<Rightarrow> string"
  ed25519_key :: "string \<Rightarrow> bool"
  ed25519_verify :: "string \<Rightarrow> string \<Rightarrow> string \<Rightarrow> bool"

text \<open>A Redis client, if there is one: what \<open>set(key, "1", nx=True, ex=ttl)\<close> answers, or raises.\<close>

type_synonym redis_client = "(string \<Rightarrow> int \<Rightarrow> bool option) option"

record SigningError =
  sge_code :: string
  sge_status_code :: int

definition signing_error :: "string \<Rightarrow> int \<Rightarrow> SigningError" where
  "signing_error c n = \<lparr>sge_code = c, sge_status_code = n\<rparr>"

definition refused :: "string \<Rightarrow> SigningError" where
  "refused c = signing_error c 401"

record VerifiedAgentSignature =
  vs_key_id :: string
  vs_version :: string

section \<open>Shapes\<close>

definition lower_hex :: "char \<Rightarrow> bool" where
  "lower_hex c = (is_digit c \<or> (let n = (of_char c :: nat) in 97 \<le> n \<and> n \<le> 102))"

definition prefixed_hex :: "string \<Rightarrow> nat \<Rightarrow> string \<Rightarrow> bool" where
  "prefixed_hex p n s = (py_startswith s p \<and> length s = length p + n \<and> list_all lower_hex (drop (length p) s))"

definition KEY_ID_PATTERN :: "string \<Rightarrow> bool" where
  "KEY_ID_PATTERN = prefixed_hex ''key_ag_'' 24"

definition NONCE_PATTERN :: "string \<Rightarrow> bool" where
  "NONCE_PATTERN = prefixed_hex ''nonce_'' 32"

definition TIMESTAMP_PATTERN :: "string \<Rightarrow> bool" where
  "TIMESTAMP_PATTERN = utc_shape"

definition SIGNED_HEADERS :: "string list" where
  "SIGNED_HEADERS = [''X-Agent-ID'', ''X-Agent-Key-ID'', ''X-Agent-Timestamp'', ''X-Agent-Nonce'',
     ''X-Agent-Signature'', ''X-Agent-Signature-Version'']"

section \<open>Keys\<close>

definition decode_public_key :: "crypto \<Rightarrow> string \<Rightarrow> SigningError + string" where
  "decode_public_key c v =
     (case b64decode c v of
        None \<Rightarrow> Inl (signing_error ''INVALID_PUBLIC_KEY'' 422)
      | Some raw \<Rightarrow>
          if length raw \<noteq> 32 \<or> b64encode c raw \<noteq> v \<or> \<not> ed25519_key c raw
          then Inl (signing_error ''INVALID_PUBLIC_KEY'' 422)
          else Inr raw)"

definition fingerprint :: "crypto \<Rightarrow> string \<Rightarrow> string" where
  "fingerprint c raw = sha256_hex c raw"

text \<open>The keys of an agent that count against the limit.\<close>

definition live_key :: "datetime \<Rightarrow> uuid \<Rightarrow> AgentSigningKey \<Rightarrow> bool" where
  "live_key now agent k =
     (sk_agent_id k = agent \<and> sk_status k \<in> {SK_ACTIVE, SK_ROTATING} \<and>
      (case sk_expires_at k of None \<Rightarrow> True | Some t \<Rightarrow> t > now))"

definition live_count :: "signing \<Rightarrow> uuid \<Rightarrow> nat" where
  "live_count s agent = length (filter (live_key (clock (sg_db s)) agent) (sg_keys s))"

definition register_key ::
    "crypto \<Rightarrow> signing_settings \<Rightarrow> signing \<Rightarrow> uuid \<Rightarrow> string \<Rightarrow> datetime option \<Rightarrow> AgentSigningKey option
       \<Rightarrow> SigningError + signing \<times> AgentSigningKey" where
  "register_key c settings s agent_id public_key expires_at rotated_from =
     (case get_agent (sg_db s) agent_id of
        None \<Rightarrow> Inl (signing_error ''AGENT_NOT_AVAILABLE'' 409)
      | Some agent \<Rightarrow>
          if ag_status agent = AG_REVOKED then Inl (signing_error ''AGENT_NOT_AVAILABLE'' 409)
          else if int (live_count s (ag_id agent)) \<ge> agent_max_active_signing_keys settings
          then Inl (signing_error ''ACTIVE_KEY_LIMIT_REACHED'' 409)
          else rbind (decode_public_key c public_key) (\<lambda>raw.
            let digest = fingerprint c raw in
            if list_ex (\<lambda>k. sk_fingerprint k = digest) (sg_keys s)
            then Inl (signing_error ''PUBLIC_KEY_ALREADY_REGISTERED'' 409)
            else
              let (n, d1) = fresh (sg_db s); (token, d2) = fresh d1; now = clock (sg_db s);
                  key = \<lparr>sk_id = n, sk_key_id = ''key_ag_'' @ hex_digits 24 token, sk_agent_id = ag_id agent,
                    sk_organization_id = ag_organization_id agent, sk_algorithm = ''Ed25519'',
                    sk_public_key = b64encode c raw, sk_fingerprint = digest, sk_status = SK_ACTIVE,
                    sk_activated_at = now, sk_expires_at = expires_at, sk_revoked_at = None,
                    sk_rotated_from_key_id = map_option sk_key_id rotated_from, sk_last_used_at = None\<rparr>;
                  keys = (case rotated_from of
                    None \<Rightarrow> sg_keys s
                  | Some old \<Rightarrow> update_where (\<lambda>k. sk_id k = sk_id old) (\<lambda>k. k\<lparr>sk_status := SK_ROTATING\<rparr>) (sg_keys s))
              in Inr (s\<lparr>sg_db := d2, sg_keys := keys @ [key]\<rparr>, key)))"

definition revoke_key :: "signing \<Rightarrow> uuid \<Rightarrow> SigningError + signing \<times> AgentSigningKey" where
  "revoke_key s i =
     (case find (\<lambda>k. sk_id k = i) (sg_keys s) of
        None \<Rightarrow> Inl (signing_error ''SIGNING_KEY_NOT_FOUND'' 404)
      | Some k \<Rightarrow>
          if sk_status k \<noteq> SK_REVOKED then
            let k' = k\<lparr>sk_status := SK_REVOKED, sk_revoked_at := Some (clock (sg_db s))\<rparr>
            in Inr (s\<lparr>sg_keys := update_where (\<lambda>x. sk_id x = i) (\<lambda>_. k') (sg_keys s)\<rparr>, k')
          else Inr (s, k))"

section \<open>Replay protection\<close>

definition drop_expired :: "datetime \<Rightarrow> AgentRequestNonce list \<Rightarrow> AgentRequestNonce list" where
  "drop_expired now ns = filter (\<lambda>n. \<not> an_expires_at n \<le> now) ns"

definition nonce_digest :: "crypto \<Rightarrow> string \<Rightarrow> string \<Rightarrow> string" where
  "nonce_digest c key_id nonce = sha256_hex c (key_id @ '':'' @ nonce)"

definition nonce_ttl :: "signing_settings \<Rightarrow> int" where
  "nonce_ttl settings = 2 * agent_signature_clock_window_seconds settings + 30"

definition redis_accepts :: "signing_settings \<Rightarrow> redis_client \<Rightarrow> string \<Rightarrow> SigningError + unit" where
  "redis_accepts settings client digest =
     (if \<not> redis_url_given settings then Inr ()
      else (case client of
          None \<Rightarrow> Inl (signing_error ''REPLAY_PROTECTION_UNAVAILABLE'' 503)
        | Some set_nx \<Rightarrow>
            (case set_nx (''agenttrust:signing:nonce:'' @ digest) (nonce_ttl settings) of
               None \<Rightarrow> Inl (signing_error ''REPLAY_PROTECTION_UNAVAILABLE'' 503)
             | Some accepted \<Rightarrow> if accepted then Inr () else Inl (signing_error ''REPLAY_DETECTED'' 409))))"

text \<open>\<open>lucky\<close> is the outcome of \<open>secrets.randbelow(64) == 0\<close>.\<close>

definition accept_nonce ::
    "crypto \<Rightarrow> signing_settings \<Rightarrow> redis_client \<Rightarrow> bool \<Rightarrow> signing \<Rightarrow> string \<Rightarrow> string \<Rightarrow> datetime
       \<Rightarrow> signing \<times> (SigningError + unit)" where
  "accept_nonce c settings client lucky s key_id nonce now =
     (let digest = nonce_digest c key_id nonce in
      case redis_accepts settings client digest of
        Inl e \<Rightarrow> (s, Inl e)
      | Inr _ \<Rightarrow>
          let ns = (if lucky then drop_expired now (sg_nonces s) else sg_nonces s) in
          if list_ex (\<lambda>n. an_key_id n = key_id \<and> an_nonce_hash n = digest) ns
          then (s\<lparr>sg_nonces := ns\<rparr>, Inl (signing_error ''REPLAY_DETECTED'' 409))
          else (s\<lparr>sg_nonces := ns @ [\<lparr>an_key_id = key_id, an_nonce_hash = digest,
                  an_expires_at = now + seconds (nonce_ttl settings)\<rparr>]\<rparr>, Inr ()))"

text \<open>The worker's batch: the expired nonces that expired first.\<close>

definition cleanup_expired_nonces :: "signing \<Rightarrow> datetime option \<Rightarrow> nat \<Rightarrow> signing \<times> nat" where
  "cleanup_expired_nonces s at_time batch_size =
     (let checked_at = (case at_time of Some t \<Rightarrow> t | None \<Rightarrow> clock (sg_db s));
          gone = take batch_size (sort_key an_expires_at (filter (\<lambda>n. an_expires_at n \<le> checked_at) (sg_nonces s)))
      in (s\<lparr>sg_nonces := filter (\<lambda>n. n \<notin> set gone) (sg_nonces s)\<rparr>, length gone))"

section \<open>Verification of a signed request\<close>

type_synonym headers = "string \<Rightarrow> string option"

text \<open>A signed header that is sent twice.\<close>

fun repeated_header :: "string list \<Rightarrow> (string \<times> string) list \<Rightarrow> bool" where
  "repeated_header seen [] = False"
| "repeated_header seen ((name, v) # raw) =
     (let lower = py_lower name in
      if lower \<in> set (map py_lower SIGNED_HEADERS)
      then lower \<in> set seen \<or> repeated_header (lower # seen) raw
      else repeated_header seen raw)"

definition supplied :: "headers \<Rightarrow> bool" where
  "supplied h = list_ex (\<lambda>n. h n \<noteq> None) SIGNED_HEADERS"

definition header_values :: "headers \<Rightarrow> string list option" where
  "header_values h =
     (if list_ex (\<lambda>n. case h n of None \<Rightarrow> True | Some v \<Rightarrow> length v > 200) SIGNED_HEADERS then None
      else Some (map (\<lambda>n. the (h n)) SIGNED_HEADERS))"

definition check_timestamp :: "signing_settings \<Rightarrow> datetime \<Rightarrow> string \<Rightarrow> SigningError + unit" where
  "check_timestamp settings now timestamp =
     (if \<not> TIMESTAMP_PATTERN timestamp then Inl (refused ''REQUEST_TIMESTAMP_INVALID'')
      else (case parse_utc timestamp of
          None \<Rightarrow> Inl (refused ''REQUEST_TIMESTAMP_INVALID'')
        | Some signed_at \<Rightarrow>
            if \<bar>now - signed_at\<bar> > seconds (agent_signature_clock_window_seconds settings)
            then Inl (refused ''REQUEST_TIMESTAMP_INVALID'') else Inr ()))"

definition check_key :: "signing \<Rightarrow> string \<Rightarrow> Agent \<Rightarrow> datetime \<Rightarrow> SigningError + AgentSigningKey" where
  "check_key s key_id agent now =
     (case find (\<lambda>k. sk_key_id k = key_id) (sg_keys s) of
        None \<Rightarrow> Inl (refused ''INVALID_AGENT_SIGNATURE'')
      | Some k \<Rightarrow>
          if sk_agent_id k \<noteq> ag_id agent \<or> sk_organization_id k \<noteq> ag_organization_id agent
          then Inl (refused ''INVALID_AGENT_SIGNATURE'')
          else if sk_status k = SK_REVOKED then Inl (refused ''SIGNING_KEY_REVOKED'')
          else if sk_status k = SK_EXPIRED \<or> (case sk_expires_at k of None \<Rightarrow> False | Some t \<Rightarrow> t \<le> now)
          then Inl (refused ''SIGNING_KEY_EXPIRED'')
          else if sk_status k \<notin> {SK_ACTIVE, SK_ROTATING} \<or> sk_algorithm k \<noteq> ''Ed25519''
          then Inl (refused ''INVALID_AGENT_SIGNATURE'')
          else Inr k)"

definition signature_valid :: "crypto \<Rightarrow> AgentSigningKey \<Rightarrow> string \<Rightarrow> string \<Rightarrow> bool" where
  "signature_valid c k signature message =
     (case (b64decode c signature, b64decode c (sk_public_key k)) of
        (Some sig, Some pub) \<Rightarrow> length sig = 64 \<and> ed25519_key c pub \<and> ed25519_verify c pub sig message
      | _ \<Rightarrow> False)"

definition touch_key :: "AgentSigningKey \<Rightarrow> datetime \<Rightarrow> signing \<Rightarrow> signing" where
  "touch_key k now s =
     s\<lparr>sg_keys := update_where (\<lambda>x. sk_id x = sk_id k) (\<lambda>x. x\<lparr>sk_last_used_at := Some now\<rparr>) (sg_keys s)\<rparr>"

text \<open>From the key of a request to its acceptance: the part both verifications share.\<close>

definition accept_signed ::
    "crypto \<Rightarrow> signing_settings \<Rightarrow> redis_client \<Rightarrow> bool \<Rightarrow> signing \<Rightarrow> Agent \<Rightarrow> string \<Rightarrow> string \<Rightarrow> string
       \<Rightarrow> string \<Rightarrow> string \<Rightarrow> signing \<times> (SigningError + VerifiedAgentSignature)" where
  "accept_signed c settings client lucky s agent version key_id nonce signature message =
     (let now = clock (sg_db s) in
      case check_key s key_id agent now of
        Inl e \<Rightarrow> (s, Inl e)
      | Inr k \<Rightarrow>
          if \<not> signature_valid c k signature message then (s, Inl (refused ''INVALID_AGENT_SIGNATURE''))
          else (case accept_nonce c settings client lucky s key_id nonce now of
              (s1, Inl e) \<Rightarrow> (s1, Inl e)
            | (s1, Inr _) \<Rightarrow> (touch_key k now s1, Inr \<lparr>vs_key_id = key_id, vs_version = version\<rparr>)))"

definition verify_request ::
    "crypto \<Rightarrow> signing_settings \<Rightarrow> redis_client \<Rightarrow> bool \<Rightarrow> signing \<Rightarrow> uuid option \<Rightarrow> uuid \<Rightarrow> string \<Rightarrow> headers
       \<Rightarrow> string \<Rightarrow> string \<Rightarrow> string \<Rightarrow> (string \<times> string) list
       \<Rightarrow> signing \<times> (SigningError + VerifiedAgentSignature option)" where
  "verify_request c settings client lucky s principal_org user_id agent_id headers body verb path raw_headers =
     (if repeated_header [] raw_headers then (s, Inl (refused ''INVALID_AGENT_SIGNATURE''))
      else
        let agent = find (\<lambda>a. ag_agent_identifier a = agent_id) (agents (sg_db s));
            foreign = (case agent of None \<Rightarrow> False
              | Some a \<Rightarrow> ag_organization_id a \<noteq> principal_org \<or> ag_organization_id a = None \<and> ag_owner_id a \<noteq> user_id)
        in
        if foreign then
          (s, if supplied headers then Inl (refused ''INVALID_AGENT_SIGNATURE'') else Inr None)
        else
          let has_key = (case agent of None \<Rightarrow> False
                | Some a \<Rightarrow> list_ex (\<lambda>k. sk_agent_id k = ag_id a) (sg_keys s)) in
          if \<not> has_key \<and> \<not> supplied headers then (s, Inr None)
          else if \<not> has_key \<or> \<not> supplied headers then
            (s, Inl (refused (if has_key then ''AGENT_SIGNATURE_REQUIRED'' else ''INVALID_AGENT_SIGNATURE'')))
          else
            (case header_values headers of
               Some [header_agent, key_id, timestamp, nonce, signature, version] \<Rightarrow>
                 if version \<noteq> SIGNATURE_VERSION then (s, Inl (refused ''UNKNOWN_AGENT_SIGNATURE_VERSION''))
                 else if header_agent \<noteq> agent_id \<or> \<not> KEY_ID_PATTERN key_id \<or> \<not> NONCE_PATTERN nonce
                 then (s, Inl (refused ''INVALID_AGENT_SIGNATURE''))
                 else
                   (case check_timestamp settings (clock (sg_db s)) timestamp of
                      Inl e \<Rightarrow> (s, Inl e)
                    | Inr _ \<Rightarrow>
                        (case accept_signed c settings client lucky s (the agent) SIGNATURE_VERSION key_id nonce
                            signature (canonical_request (sha256_hex c) verb path agent_id key_id timestamp nonce body) of
                           (s1, Inl e) \<Rightarrow> (s1, Inl e)
                         | (s1, Inr v) \<Rightarrow> (s1, Inr (Some v))))
             | _ \<Rightarrow> (s, Inl (refused ''INVALID_AGENT_SIGNATURE''))))"

definition verify_cross_org_request_v2 ::
    "crypto \<Rightarrow> signing_settings \<Rightarrow> redis_client \<Rightarrow> bool \<Rightarrow> signing \<Rightarrow> Agent \<Rightarrow> Agent \<Rightarrow> string \<Rightarrow> string
       \<Rightarrow> headers \<Rightarrow> string \<Rightarrow> string \<Rightarrow> string
       \<Rightarrow> signing \<times> (SigningError + VerifiedAgentSignature)" where
  "verify_cross_org_request_v2 c settings client lucky s source_agent target_agent source_org_id target_org_id
       headers body verb path =
     (case header_values headers of
        Some [header_agent, key_id, timestamp, nonce, signature, version] \<Rightarrow>
          if version \<noteq> SIGNATURE_VERSION_V2 then (s, Inl (refused ''UNKNOWN_AGENT_SIGNATURE_VERSION''))
          else if header_agent \<noteq> ag_agent_identifier source_agent \<or> \<not> KEY_ID_PATTERN key_id \<or> \<not> NONCE_PATTERN nonce
          then (s, Inl (refused ''INVALID_AGENT_SIGNATURE''))
          else
            (case check_timestamp settings (clock (sg_db s)) timestamp of
               Inl e \<Rightarrow> (s, Inl e)
             | Inr _ \<Rightarrow>
                 accept_signed c settings client lucky s source_agent SIGNATURE_VERSION_V2 key_id nonce signature
                   (canonical_cross_org_request_v2 (sha256_hex c) verb path source_org_id target_org_id
                      (ag_agent_identifier source_agent) (ag_agent_identifier target_agent) key_id timestamp nonce body))
      | _ \<Rightarrow> (s, Inl (refused ''AGENT_SIGNATURE_REQUIRED'')))"

section \<open>Steps\<close>

text \<open>
  What happens to the tables of this component. The environment (the other services and the
  passing of time) may change everything except that it deletes no nonce.
\<close>

inductive signing_step :: "crypto \<Rightarrow> signing_settings \<Rightarrow> signing \<Rightarrow> signing \<Rightarrow> bool"
  for c settings
where
  request: "verify_request c settings client lucky s org user agent h body verb path raw = (t, r) \<Longrightarrow>
    signing_step c settings s t"
| cross: "verify_cross_org_request_v2 c settings client lucky s a a' o1 o2 h body verb path = (t, r) \<Longrightarrow>
    signing_step c settings s t"
| register: "register_key c settings s agent pk expires old = Inr (t, k) \<Longrightarrow> signing_step c settings s t"
| revoke: "revoke_key s i = Inr (t, k) \<Longrightarrow> signing_step c settings s t"
| cleanup: "cleanup_expired_nonces s None n = (t, m) \<Longrightarrow> signing_step c settings s t"
| environment: "clock (sg_db s) \<le> clock (sg_db t) \<Longrightarrow> set (sg_nonces s) \<subseteq> set (sg_nonces t) \<Longrightarrow>
    signing_step c settings s t"

text \<open>The key, the timestamp and the nonce a request presents.\<close>

definition presents :: "headers \<Rightarrow> string \<Rightarrow> string \<Rightarrow> string \<Rightarrow> bool" where
  "presents h key_id timestamp nonce =
     (h ''X-Agent-Key-ID'' = Some key_id \<and> h ''X-Agent-Timestamp'' = Some timestamp \<and>
      h ''X-Agent-Nonce'' = Some nonce)"

text \<open>A state accepts a request when one of the two verifications returns its signature.\<close>

inductive accepts ::
    "crypto \<Rightarrow> signing_settings \<Rightarrow> signing \<Rightarrow> string \<Rightarrow> string \<Rightarrow> string \<Rightarrow> signing \<Rightarrow> bool"
  for c settings s key_id timestamp nonce
where
  "verify_request c settings client lucky s org user agent h body verb path raw = (t, Inr (Some v)) \<Longrightarrow>
     presents h key_id timestamp nonce \<Longrightarrow> accepts c settings s key_id timestamp nonce t"
| "verify_cross_org_request_v2 c settings client lucky s a a' o1 o2 h body verb path = (t, Inr v) \<Longrightarrow>
     presents h key_id timestamp nonce \<Longrightarrow> accepts c settings s key_id timestamp nonce t"

section \<open>What acceptance means\<close>

lemma header_values_presents:
  assumes "header_values h = Some [header_agent, key_id, timestamp, nonce, signature, version]"
  shows "presents h k ts n \<longleftrightarrow> k = key_id \<and> ts = timestamp \<and> n = nonce"
    and "h ''X-Agent-ID'' = Some header_agent" "h ''X-Agent-Signature'' = Some signature"
    and "h ''X-Agent-Signature-Version'' = Some version"
  using assms by (auto simp: header_values_def SIGNED_HEADERS_def presents_def split: if_splits option.splits)

lemma accept_nonce_cases:
  assumes "accept_nonce c settings client lucky s key_id nonce now = (t, r)"
  obtains (refused) e ns where "r = Inl e" "t = s\<lparr>sg_nonces := ns\<rparr>"
      "ns = sg_nonces s \<or> ns = drop_expired now (sg_nonces s)"
  | (accepted) ns where "r = Inr ()" "ns = sg_nonces s \<or> ns = drop_expired now (sg_nonces s)"
      "\<forall>x \<in> set ns. \<not> (an_key_id x = key_id \<and> an_nonce_hash x = nonce_digest c key_id nonce)"
      "t = s\<lparr>sg_nonces := ns @ [\<lparr>an_key_id = key_id, an_nonce_hash = nonce_digest c key_id nonce,
                  an_expires_at = now + seconds (nonce_ttl settings)\<rparr>]\<rparr>"
proof (cases "redis_accepts settings client (nonce_digest c key_id nonce)")
  case (Inl e)
  with assms show ?thesis by (intro refused [of e "sg_nonces s"]) (auto simp: accept_nonce_def Let_def)
next
  case (Inr u)
  let ?ns = "if lucky then drop_expired now (sg_nonces s) else sg_nonces s"
  show ?thesis
  proof (cases "list_ex (\<lambda>n. an_key_id n = key_id \<and> an_nonce_hash n = nonce_digest c key_id nonce) ?ns")
    case True
    with assms Inr show ?thesis by (intro refused [OF _ _, of _ ?ns]) (auto simp: accept_nonce_def Let_def)
  next
    case False
    with assms Inr have "r = Inr ()" "t = s\<lparr>sg_nonces := ?ns @ [\<lparr>an_key_id = key_id,
        an_nonce_hash = nonce_digest c key_id nonce, an_expires_at = now + seconds (nonce_ttl settings)\<rparr>]\<rparr>"
      by (simp_all add: accept_nonce_def Let_def del: sum.inject)
    with False show ?thesis by (intro accepted [of ?ns]) (auto simp: list_ex_iff)
  qed
qed

lemma accept_signed_Inr:
  assumes "accept_signed c settings client lucky s agent version key_id nonce signature message = (t, Inr v)"
  obtains k t' where "check_key s key_id agent (clock (sg_db s)) = Inr k" "signature_valid c k signature message"
    "accept_nonce c settings client lucky s key_id nonce (clock (sg_db s)) = (t', Inr ())"
    "t = touch_key k (clock (sg_db s)) t'" "v = \<lparr>vs_key_id = key_id, vs_version = version\<rparr>"
  using assms by (auto simp: accept_signed_def Let_def split: sum.splits if_splits prod.splits)

text \<open>What \<open>verify_request\<close> checked before it returned a signature.\<close>

lemma verify_request_Inr:
  assumes "verify_request c settings client lucky s org user agent_id h body verb path raw = (t, Inr (Some v))"
  obtains a key_id timestamp nonce signature where
    "find (\<lambda>a. ag_agent_identifier a = agent_id) (agents (sg_db s)) = Some a"
    "ag_organization_id a = org" "ag_organization_id a = None \<longrightarrow> ag_owner_id a = user"
    "header_values h = Some [agent_id, key_id, timestamp, nonce, signature, SIGNATURE_VERSION]"
    "check_timestamp settings (clock (sg_db s)) timestamp = Inr ()"
    "accept_signed c settings client lucky s a SIGNATURE_VERSION key_id nonce signature
       (canonical_request (sha256_hex c) verb path agent_id key_id timestamp nonce body) = (t, Inr v)"
  using assms
  by (auto simp: verify_request_def Let_def split: if_splits option.splits list.splits sum.splits prod.splits)

lemma verify_cross_Inr:
  assumes "verify_cross_org_request_v2 c settings client lucky s a a' o1 o2 h body verb path = (t, Inr v)"
  obtains key_id timestamp nonce signature where
    "header_values h = Some [ag_agent_identifier a, key_id, timestamp, nonce, signature, SIGNATURE_VERSION_V2]"
    "check_timestamp settings (clock (sg_db s)) timestamp = Inr ()"
    "accept_signed c settings client lucky s a SIGNATURE_VERSION_V2 key_id nonce signature
       (canonical_cross_org_request_v2 (sha256_hex c) verb path o1 o2 (ag_agent_identifier a)
          (ag_agent_identifier a') key_id timestamp nonce body) = (t, Inr v)"
  using assms
  by (auto simp: verify_cross_org_request_v2_def Let_def split: if_splits option.splits list.splits sum.splits)

lemma check_timestamp_Inr:
  "check_timestamp settings now timestamp = Inr () \<longleftrightarrow> TIMESTAMP_PATTERN timestamp \<and>
     (\<exists>signed_at. parse_utc timestamp = Some signed_at \<and>
        \<bar>now - signed_at\<bar> \<le> seconds (agent_signature_clock_window_seconds settings))"
  by (auto simp: check_timestamp_def split: option.splits)

lemma check_key_Inr:
  "check_key s key_id agent now = Inr k \<longleftrightarrow>
     find (\<lambda>k. sk_key_id k = key_id) (sg_keys s) = Some k \<and> sk_agent_id k = ag_id agent \<and>
     sk_organization_id k = ag_organization_id agent \<and> sk_status k \<in> {SK_ACTIVE, SK_ROTATING} \<and>
     (case sk_expires_at k of None \<Rightarrow> True | Some t \<Rightarrow> t > now) \<and> sk_algorithm k = ''Ed25519''"
  by (auto simp: check_key_def split: option.splits)

section \<open>Nonces are kept\<close>

definition kept_nonce :: "AgentRequestNonce \<Rightarrow> signing \<Rightarrow> bool" where
  "kept_nonce n s = (n \<in> set (sg_nonces s) \<or> an_expires_at n \<le> clock (sg_db s))"

lemma drop_expired_keeps: "n \<in> set ns \<Longrightarrow> now < an_expires_at n \<Longrightarrow> n \<in> set (drop_expired now ns)"
  by (simp add: drop_expired_def)

lemma touch_key_simps [simp]: "sg_nonces (touch_key k now s) = sg_nonces s" "sg_db (touch_key k now s) = sg_db s"
  by (simp_all add: touch_key_def)

lemma accept_nonce_keeps:
  assumes "accept_nonce c settings client lucky s key_id nonce (clock (sg_db s)) = (t, r)"
  shows "sg_db t = sg_db s \<and> (kept_nonce n s \<longrightarrow> kept_nonce n t)"
  using assms by (rule accept_nonce_cases) (auto simp: kept_nonce_def drop_expired_def)

lemma accept_signed_keeps:
  assumes "accept_signed c settings client lucky s agent version key_id nonce signature message = (t, r)"
  shows "sg_db t = sg_db s \<and> (kept_nonce n s \<longrightarrow> kept_nonce n t)"
proof (cases "accept_nonce c settings client lucky s key_id nonce (clock (sg_db s))")
  case (Pair t' r')
  from accept_nonce_keeps [OF Pair, of n] show ?thesis
    using assms Pair
    by (auto simp: accept_signed_def kept_nonce_def Let_def split: sum.splits if_splits)
qed

lemma verify_request_keeps:
  assumes "verify_request c settings client lucky s org user agent_id h body verb path raw = (t, r)"
  shows "sg_db t = sg_db s \<and> (kept_nonce n s \<longrightarrow> kept_nonce n t)"
  using assms
  by (auto simp: verify_request_def Let_def split: if_splits option.splits list.splits sum.splits prod.splits
      dest: accept_signed_keeps [of _ _ _ _ _ _ _ _ _ _ _ _ _ n])

lemma verify_cross_keeps:
  assumes "verify_cross_org_request_v2 c settings client lucky s a a' o1 o2 h body verb path = (t, r)"
  shows "sg_db t = sg_db s \<and> (kept_nonce n s \<longrightarrow> kept_nonce n t)"
  using assms
  by (auto simp: verify_cross_org_request_v2_def Let_def split: if_splits option.splits list.splits sum.splits
      dest: accept_signed_keeps [of _ _ _ _ _ _ _ _ _ _ _ _ _ n])

lemma register_key_keeps:
  assumes "register_key c settings s agent pk expires old = Inr (t, k)"
  shows "sg_nonces t = sg_nonces s \<and> clock (sg_db t) = clock (sg_db s)"
  using assms by (auto simp: register_key_def fresh_def Let_def rbind_Inr_iff split: option.splits if_splits)

lemma cleanup_nonces_keep:
  assumes "cleanup_expired_nonces s None m = (t, k)"
  shows "sg_db t = sg_db s \<and> (kept_nonce n s \<longrightarrow> kept_nonce n t)"
proof -
  let ?old = "filter (\<lambda>n. an_expires_at n \<le> clock (sg_db s)) (sg_nonces s)"
  have t: "t = s\<lparr>sg_nonces := filter (\<lambda>n. n \<notin> set (take m (sort_key an_expires_at ?old))) (sg_nonces s)\<rparr>"
    using assms by (simp add: cleanup_expired_nonces_def Let_def)
  have "n \<in> set ?old" if "n \<in> set (take m (sort_key an_expires_at ?old))"
    using in_set_takeD [OF that] by simp
  then show ?thesis by (auto simp: t kept_nonce_def)
qed

lemma signing_step_keeps:
  assumes "signing_step c settings s t"
  shows "clock (sg_db s) \<le> clock (sg_db t) \<and> (kept_nonce n s \<longrightarrow> kept_nonce n t)"
  using assms
proof cases
  case request then show ?thesis using verify_request_keeps by fastforce
next
  case cross then show ?thesis using verify_cross_keeps by fastforce
next
  case register then show ?thesis using register_key_keeps by (fastforce simp: kept_nonce_def)
next
  case revoke then show ?thesis
    by (auto simp: revoke_key_def kept_nonce_def Let_def split: option.splits if_splits)
next
  case cleanup then show ?thesis using cleanup_nonces_keep by fastforce
next
  case environment then show ?thesis by (auto simp: kept_nonce_def)
qed

lemma signing_steps_keep:
  assumes "(signing_step c settings)\<^sup>*\<^sup>* s t"
  shows "clock (sg_db s) \<le> clock (sg_db t) \<and> (kept_nonce n s \<longrightarrow> kept_nonce n t)"
  using assms by (induction rule: rtranclp_induct) (auto dest: signing_step_keeps [of _ _ _ _ n])

lemma accepts_cases:
  assumes "accepts c settings s key_id timestamp nonce t"
  obtains a version signature message client lucky v where
    "TIMESTAMP_PATTERN timestamp" "check_timestamp settings (clock (sg_db s)) timestamp = Inr ()"
    "accept_signed c settings client lucky s a version key_id nonce signature message = (t, Inr v)"
  using assms
proof cases
  case (1 client lucky org user agent h body verb path raw v)
  from 1(1) show ?thesis
    by (rule verify_request_Inr) (use 1(2) in \<open>auto simp: header_values_presents check_timestamp_Inr intro!: that\<close>)
next
  case (2 client lucky a a' o1 o2 h body verb path v)
  from 2(1) show ?thesis
    by (rule verify_cross_Inr) (use 2(2) in \<open>auto simp: header_values_presents check_timestamp_Inr intro!: that\<close>)
qed

text \<open>The nonce an accepted request leaves behind outlives the time its timestamp is valid.\<close>

lemma accepts_nonce:
  assumes "accepts c settings s key_id timestamp nonce t" "parse_utc timestamp = Some signed_at"
  shows "\<exists>n. an_key_id n = key_id \<and> an_nonce_hash n = nonce_digest c key_id nonce \<and> n \<in> set (sg_nonces t) \<and>
     signed_at + seconds (agent_signature_clock_window_seconds settings) < an_expires_at n"
proof -
  obtain a version signature message client lucky v where
    ts: "check_timestamp settings (clock (sg_db s)) timestamp = Inr ()" and
    acc: "accept_signed c settings client lucky s a version key_id nonce signature message = (t, Inr v)"
    using assms(1) by (rule accepts_cases)
  obtain k t' where acn: "accept_nonce c settings client lucky s key_id nonce (clock (sg_db s)) = (t', Inr ())"
    and t: "t = touch_key k (clock (sg_db s)) t'"
    using acc by (rule accept_signed_Inr)
  let ?n = "\<lparr>an_key_id = key_id, an_nonce_hash = nonce_digest c key_id nonce,
    an_expires_at = clock (sg_db s) + seconds (nonce_ttl settings)\<rparr>"
  have "?n \<in> set (sg_nonces t)" using acn by (rule accept_nonce_cases) (auto simp: t)
  moreover have "signed_at + seconds (agent_signature_clock_window_seconds settings) < an_expires_at ?n"
    using ts assms(2) by (auto simp: check_timestamp_Inr nonce_ttl_def seconds_def)
  ultimately show ?thesis by (intro exI [of _ ?n]) simp
qed

lemma accepts_not_stored:
  assumes "accepts c settings s key_id timestamp nonce t" "n \<in> set (sg_nonces s)"
    "an_key_id n = key_id" "an_nonce_hash n = nonce_digest c key_id nonce"
  shows "an_expires_at n \<le> clock (sg_db s)"
proof -
  obtain a version signature message client lucky v where
    "accept_signed c settings client lucky s a version key_id nonce signature message = (t, Inr v)"
    using assms(1) by (rule accepts_cases)
  then obtain k t' where acn: "accept_nonce c settings client lucky s key_id nonce (clock (sg_db s)) = (t', Inr ())"
    by (rule accept_signed_Inr)
  show ?thesis
    by (rule accept_nonce_cases [OF acn]) (use assms(2-4) in \<open>auto simp: drop_expired_def\<close>)
qed

section \<open>Properties\<close>

text \<open>
  C4. A signed request is accepted once. After a request with a key, a timestamp and a nonce was
  accepted, no request with the same three is accepted in any later state, whatever requests, key
  changes, clean-ups of expired nonces and other operations come between, whichever of the two
  forms the requests have and whatever Redis answers: the stored nonce outlives the window in which
  the timestamp is valid.
\<close>

theorem signed_request_accepted_once:
  assumes first: "accepts c settings s key_id timestamp nonce s1"
    and steps: "(signing_step c settings)\<^sup>*\<^sup>* s1 s2"
  shows "\<not> accepts c settings s2 key_id timestamp nonce s3"
proof
  assume again: "accepts c settings s2 key_id timestamp nonce s3"
  then obtain a version signature message client lucky v where
    "check_timestamp settings (clock (sg_db s2)) timestamp = Inr ()" by (rule accepts_cases)
  then obtain signed_at where at_time: "parse_utc timestamp = Some signed_at"
    "clock (sg_db s2) \<le> signed_at + seconds (agent_signature_clock_window_seconds settings)"
    by (auto simp: check_timestamp_Inr)
  obtain n where n: "an_key_id n = key_id" "an_nonce_hash n = nonce_digest c key_id nonce"
    "n \<in> set (sg_nonces s1)" "signed_at + seconds (agent_signature_clock_window_seconds settings) < an_expires_at n"
    using accepts_nonce [OF first at_time(1)] by blast
  have "kept_nonce n s2" using signing_steps_keep [OF steps, of n] n(3) by (simp add: kept_nonce_def)
  then have "n \<in> set (sg_nonces s2)" using n(4) at_time(2) by (simp add: kept_nonce_def)
  then show False using accepts_not_stored [OF again _ n(1,2)] n(4) at_time(2) by simp
qed

text \<open>The grounds of an accepted signature.\<close>

definition request_grounds ::
    "crypto \<Rightarrow> signing_settings \<Rightarrow> signing \<Rightarrow> uuid option \<Rightarrow> uuid \<Rightarrow> string \<Rightarrow> headers \<Rightarrow> string \<Rightarrow> string
       \<Rightarrow> string \<Rightarrow> VerifiedAgentSignature \<Rightarrow> signing \<Rightarrow> bool" where
  "request_grounds c settings s org user agent_id h body verb path v t =
     (\<exists>a k timestamp nonce signature signed_at.
        a \<in> set (agents (sg_db s)) \<and> ag_agent_identifier a = agent_id \<and> ag_organization_id a = org \<and>
        (ag_organization_id a = None \<longrightarrow> ag_owner_id a = user) \<and>
        k \<in> set (sg_keys s) \<and> sk_key_id k = vs_key_id v \<and> sk_agent_id k = ag_id a \<and>
        sk_organization_id k = ag_organization_id a \<and> live_key (clock (sg_db s)) (ag_id a) k \<and>
        presents h (sk_key_id k) timestamp nonce \<and> parse_utc timestamp = Some signed_at \<and>
        \<bar>clock (sg_db s) - signed_at\<bar> \<le> seconds (agent_signature_clock_window_seconds settings) \<and>
        h ''X-Agent-Signature'' = Some signature \<and>
        signature_valid c k signature
          (canonical_request (sha256_hex c) verb path agent_id (sk_key_id k) timestamp nonce body) \<and>
        (\<exists>n \<in> set (sg_nonces t). an_key_id n = sk_key_id k \<and> an_nonce_hash n = nonce_digest c (sk_key_id k) nonce))"

lemma verify_request_grounds:
  assumes v: "verify_request c settings client lucky s org user agent_id h body verb path raw = (t, Inr (Some v))"
  shows "request_grounds c settings s org user agent_id h body verb path v t"
proof -
  from v obtain a key_id timestamp nonce signature where
    a: "find (\<lambda>a. ag_agent_identifier a = agent_id) (agents (sg_db s)) = Some a"
    "ag_organization_id a = org" "ag_organization_id a = None \<longrightarrow> ag_owner_id a = user" and
    h: "header_values h = Some [agent_id, key_id, timestamp, nonce, signature, SIGNATURE_VERSION]" and
    ts: "check_timestamp settings (clock (sg_db s)) timestamp = Inr ()" and
    acc: "accept_signed c settings client lucky s a SIGNATURE_VERSION key_id nonce signature
     (canonical_request (sha256_hex c) verb path agent_id key_id timestamp nonce body) = (t, Inr v)"
    by (rule verify_request_Inr)
  from acc obtain k t' where
    k: "check_key s key_id a (clock (sg_db s)) = Inr k" "signature_valid c k signature
     (canonical_request (sha256_hex c) verb path agent_id key_id timestamp nonce body)"
    "v = \<lparr>vs_key_id = key_id, vs_version = SIGNATURE_VERSION\<rparr>"
    by (rule accept_signed_Inr)
  from k(1) have row: "k \<in> set (sg_keys s)" "sk_key_id k = key_id" "sk_agent_id k = ag_id a"
    "sk_organization_id k = ag_organization_id a" "live_key (clock (sg_db s)) (ag_id a) k"
    by (auto simp: check_key_Inr live_key_def dest: find_SomeD)
  obtain signed_at where at_time: "parse_utc timestamp = Some signed_at"
    "\<bar>clock (sg_db s) - signed_at\<bar> \<le> seconds (agent_signature_clock_window_seconds settings)"
    using ts by (auto simp: check_timestamp_Inr)
  have p: "presents h key_id timestamp nonce" using h by (simp add: header_values_presents)
  with v have "accepts c settings s key_id timestamp nonce t" by (rule accepts.intros(1))
  then have "\<exists>n \<in> set (sg_nonces t). an_key_id n = key_id \<and> an_nonce_hash n = nonce_digest c key_id nonce"
    using accepts_nonce at_time(1) by blast
  with a k(2,3) at_time p header_values_presents(3) [OF h] row find_SomeD [OF a(1)] show ?thesis
    unfolding request_grounds_def
    by (intro exI [of _ a] exI [of _ k] exI [of _ timestamp] exI [of _ nonce] exI [of _ signature]
        exI [of _ signed_at]) auto
qed

lemma verify_request_refusal:
  assumes v: "verify_request c settings client lucky s org user agent_id h body verb path raw = (t, Inl e)"
  shows "sg_keys t = sg_keys s \<and> sg_db t = sg_db s"
proof -
  have keys: "sg_keys t' = sg_keys s" if "accept_nonce c settings client lucky s i n now = (t', Inl e')" for t' i n now e'
    using that by (rule accept_nonce_cases) auto
  have "sg_keys t' = sg_keys s"
    if "accept_signed c settings client lucky s a ver i n sig msg = (t', Inl e')" for t' a ver i n sig msg e'
    using that keys by (auto simp: accept_signed_def Let_def split: sum.splits if_splits prod.splits)
  then show ?thesis
    using v verify_request_keeps [OF v]
    by (auto simp: verify_request_def Let_def split: if_splits option.splits list.splits sum.splits prod.splits)
qed

text \<open>
  C5. What the result of a verification means. A returned signature comes from a key of the named
  agent that is in the caller's scope: the key is active or rotating, unexpired and of the agent's
  organization, the timestamp is within the window, the signature verifies for the exact method,
  path, agent, key, timestamp, nonce and body, and the nonce is stored. A request passes unsigned
  only if no agent in scope with that name has a key. A refusal changes no key.
\<close>

theorem verify_request_sound:
  assumes v: "verify_request c settings client lucky s org user agent_id h body verb path raw = (t, r)"
  shows "case r of
      Inr (Some v) \<Rightarrow> request_grounds c settings s org user agent_id h body verb path v t
    | Inr None \<Rightarrow> t = s \<and> \<not> supplied h \<and>
        (\<forall>a. find (\<lambda>a. ag_agent_identifier a = agent_id) (agents (sg_db s)) = Some a \<longrightarrow>
           ag_organization_id a = org \<and> (ag_organization_id a = None \<longrightarrow> ag_owner_id a = user) \<longrightarrow>
           (\<forall>k \<in> set (sg_keys s). sk_agent_id k \<noteq> ag_id a))
    | Inl e \<Rightarrow> sg_keys t = sg_keys s \<and> sg_db t = sg_db s"
proof (cases r)
  case (Inl e)
  then show ?thesis using v verify_request_refusal by auto
next
  case (Inr o1)
  show ?thesis
  proof (cases o1)
    case None
    with v Inr show ?thesis
      by (auto simp: verify_request_def Let_def list_ex_iff split: if_splits option.splits list.splits sum.splits prod.splits)
  next
    case (Some v')
    with v Inr show ?thesis using verify_request_grounds by auto
  qed
qed

text \<open>
  C34. A fresh and correctly signed request is accepted: if the named agent is in scope, its key is
  live, the headers are well formed and sent once, the timestamp is within the window, the
  signature verifies, the nonce was not used with that key and Redis, where it is configured,
  accepts it, then the verification returns the signature.
\<close>

theorem fresh_request_accepted:
  assumes agent: "find (\<lambda>a. ag_agent_identifier a = agent_id) (agents (sg_db s)) = Some a"
      "ag_organization_id a = org" "ag_organization_id a = None \<longrightarrow> ag_owner_id a = user"
    and key: "check_key s key_id a (clock (sg_db s)) = Inr k"
    and headers: "header_values h = Some [agent_id, key_id, timestamp, nonce, signature, SIGNATURE_VERSION]"
      "\<not> repeated_header [] raw" "KEY_ID_PATTERN key_id" "NONCE_PATTERN nonce"
    and window: "check_timestamp settings (clock (sg_db s)) timestamp = Inr ()"
    and valid: "signature_valid c k signature
       (canonical_request (sha256_hex c) verb path agent_id key_id timestamp nonce body)"
    and unused: "\<forall>n \<in> set (sg_nonces s). \<not> (an_key_id n = key_id \<and> an_nonce_hash n = nonce_digest c key_id nonce)"
    and redis: "redis_accepts settings client (nonce_digest c key_id nonce) = Inr ()"
  shows "snd (verify_request c settings client lucky s org user agent_id h body verb path raw) =
    Inr (Some \<lparr>vs_key_id = key_id, vs_version = SIGNATURE_VERSION\<rparr>)"
proof -
  have has_key: "list_ex (\<lambda>k. sk_agent_id k = ag_id a) (sg_keys s)"
    using key by (auto simp: check_key_Inr list_ex_iff dest: find_SomeD)
  have given: "supplied h"
    using headers(1) by (auto simp: header_values_def supplied_def SIGNED_HEADERS_def split: if_splits option.splits)
  have "\<exists>t. accept_nonce c settings client lucky s key_id nonce (clock (sg_db s)) = (t, Inr ())"
    using unused redis by (auto simp: accept_nonce_def drop_expired_def list_ex_iff Let_def)
  then obtain t where "accept_nonce c settings client lucky s key_id nonce (clock (sg_db s)) = (t, Inr ())" ..
  then show ?thesis
    using agent key headers window valid has_key given
    by (cases org) (simp_all add: verify_request_def accept_signed_def Let_def)
qed

section \<open>The limit of live keys\<close>

text \<open>
  What happens to keys: registration, rotation of an active or rotating key (the guard of the
  endpoint), revocation, verification, and the clock.
\<close>

inductive key_step :: "crypto \<Rightarrow> signing_settings \<Rightarrow> signing \<Rightarrow> signing \<Rightarrow> bool" for c settings where
  register: "register_key c settings s agent pk expires None = Inr (t, k) \<Longrightarrow> key_step c settings s t"
| rotate: "register_key c settings s agent pk expires (Some old) = Inr (t, k) \<Longrightarrow> old \<in> set (sg_keys s) \<Longrightarrow>
    sk_status old \<in> {SK_ACTIVE, SK_ROTATING} \<Longrightarrow> key_step c settings s t"
| revoke: "revoke_key s i = Inr (t, k) \<Longrightarrow> key_step c settings s t"
| request: "verify_request c settings client lucky s org user agent h body verb path raw = (t, r) \<Longrightarrow>
    key_step c settings s t"
| cross: "verify_cross_org_request_v2 c settings client lucky s a a' o1 o2 h body verb path = (t, r) \<Longrightarrow>
    key_step c settings s t"
| tick: "clock (sg_db s) \<le> now \<Longrightarrow> key_step c settings s (s\<lparr>sg_db := (sg_db s)\<lparr>clock := now\<rparr>\<rparr>)"

definition keys_ok :: "signing_settings \<Rightarrow> signing \<Rightarrow> bool" where
  "keys_ok settings s =
     (rows_ok sk_id (next_id (sg_db s)) (sg_keys s) \<and>
      (\<forall>agent. int (live_count s agent) \<le> agent_max_active_signing_keys settings))"

lemma live_filter_update:
  assumes "\<And>k. k \<in> set ks \<Longrightarrow> P k \<Longrightarrow> live_key now agent (f k) \<longrightarrow> live_key now agent k"
  shows "length (filter (live_key now agent) (update_where P f ks)) \<le> length (filter (live_key now agent) ks)"
  using assms
proof (induction ks)
  case (Cons k ks)
  then have "length (filter (live_key now agent) (update_where P f ks)) \<le> length (filter (live_key now agent) ks)"
    by simp
  then show ?case using Cons.prems [of k] by auto
qed simp

lemma live_filter_later:
  "now \<le> later \<Longrightarrow> length (filter (live_key later agent) ks) \<le> length (filter (live_key now agent) ks)"
  by (induction ks) (auto simp: live_key_def split: option.splits)

lemma live_key_touch [simp]: "live_key now agent (k\<lparr>sk_last_used_at := x\<rparr>) = live_key now agent k"
  by (simp add: live_key_def)

lemma keys_ok_update:
  assumes ok: "keys_ok settings s" and t: "sg_db t = sg_db s" "sg_keys t = update_where P f (sg_keys s)"
    and f: "\<And>k. k \<in> set (sg_keys s) \<Longrightarrow> P k \<Longrightarrow> sk_id (f k) = sk_id k"
      "\<And>k agent. k \<in> set (sg_keys s) \<Longrightarrow> P k \<Longrightarrow>
         live_key (clock (sg_db s)) agent (f k) \<longrightarrow> live_key (clock (sg_db s)) agent k"
  shows "keys_ok settings t"
proof -
  have "live_count t agent \<le> live_count s agent" for agent
    using live_filter_update [of "sg_keys s" P "clock (sg_db s)" agent f] f(2) by (simp add: live_count_def t)
  then have "int (live_count t agent) \<le> agent_max_active_signing_keys settings" for agent
    using ok unfolding keys_ok_def by (meson of_nat_mono order_trans)
  moreover have "rows_ok sk_id (next_id (sg_db t)) (sg_keys t)"
    using ok rows_ok_update_where [of "sg_keys s" P sk_id f] f(1) by (simp add: keys_ok_def t)
  ultimately show ?thesis by (simp add: keys_ok_def)
qed

lemma keys_ok_same: "keys_ok settings s \<Longrightarrow> sg_db t = sg_db s \<Longrightarrow> sg_keys t = sg_keys s \<Longrightarrow> keys_ok settings t"
  by (simp add: keys_ok_def live_count_def)

lemma keys_ok_touch: "keys_ok settings s \<Longrightarrow> keys_ok settings (touch_key k now s)"
  by (rule keys_ok_update [where f = "\<lambda>x. x\<lparr>sk_last_used_at := Some now\<rparr>" and P = "\<lambda>x. sk_id x = sk_id k"])
     (auto simp: touch_key_def)

lemma keys_ok_accept_signed:
  assumes "accept_signed c settings client lucky s a ver i n sig msg = (t, r)" "keys_ok settings s"
  shows "keys_ok settings t"
proof -
  have same: "keys_ok settings t'" if "accept_nonce c settings client lucky s i n now = (t', r')" for t' r' now
    using that by (rule accept_nonce_cases) (use assms(2) in \<open>auto intro: keys_ok_same\<close>)
  show ?thesis
    using assms by (auto simp: accept_signed_def Let_def intro: same keys_ok_touch
        split: sum.splits if_splits prod.splits)
qed

lemma keys_ok_verify_request:
  "verify_request c settings client lucky s org user agent_id h body verb path raw = (t, r) \<Longrightarrow>
     keys_ok settings s \<Longrightarrow> keys_ok settings t"
  by (auto simp: verify_request_def Let_def intro: keys_ok_accept_signed
      split: if_splits option.splits list.splits sum.splits prod.splits)

lemma keys_ok_verify_cross:
  "verify_cross_org_request_v2 c settings client lucky s a a' o1 o2 h body verb path = (t, r) \<Longrightarrow>
     keys_ok settings s \<Longrightarrow> keys_ok settings t"
  by (auto simp: verify_cross_org_request_v2_def Let_def intro: keys_ok_accept_signed
      split: if_splits option.splits list.splits sum.splits)

lemma keys_ok_revoke:
  assumes "revoke_key s i = Inr (t, k)" "keys_ok settings s"
  shows "keys_ok settings t"
proof -
  obtain k0 where k0: "find (\<lambda>k. sk_id k = i) (sg_keys s) = Some k0" "sk_id k0 = i"
    using assms(1) by (auto simp: revoke_key_def split: option.splits dest: find_SomeD)
  show ?thesis
  proof (cases "sk_status k0 = SK_REVOKED")
    case True
    then show ?thesis using assms k0 by (simp add: revoke_key_def)
  next
    case False
    then have "t = s\<lparr>sg_keys := update_where (\<lambda>x. sk_id x = i)
        (\<lambda>_. k0\<lparr>sk_status := SK_REVOKED, sk_revoked_at := Some (clock (sg_db s))\<rparr>) (sg_keys s)\<rparr>"
      using assms(1) k0 by (auto simp: revoke_key_def Let_def)
    then have t: "sg_db t = sg_db s" "sg_keys t = update_where (\<lambda>x. sk_id x = i)
        (\<lambda>_. k0\<lparr>sk_status := SK_REVOKED, sk_revoked_at := Some (clock (sg_db s))\<rparr>) (sg_keys s)"
      by simp_all
    show ?thesis by (rule keys_ok_update [OF assms(2) t]) (simp_all add: live_key_def k0(2))
  qed
qed

text \<open>Registration adds one live key below the limit; the rotated key was live or expired before.\<close>

lemma register_key_rows:
  assumes "register_key c settings s agent_id pk expires old = Inr (t, k)"
  shows "int (live_count s agent_id) < agent_max_active_signing_keys settings \<and>
     sk_agent_id k = agent_id \<and> sk_id k = next_id (sg_db s) \<and> next_id (sg_db t) = next_id (sg_db s) + 2 \<and>
     clock (sg_db t) = clock (sg_db s) \<and>
     sg_keys t = (case old of None \<Rightarrow> sg_keys s
       | Some o1 \<Rightarrow> update_where (\<lambda>k. sk_id k = sk_id o1) (\<lambda>k. k\<lparr>sk_status := SK_ROTATING\<rparr>) (sg_keys s)) @ [k]"
  using assms
  by (auto simp: register_key_def fresh_def Let_def rbind_Inr_iff get_agent_def
      split: option.splits if_splits dest!: find_SomeD)

lemma keys_ok_snoc:
  assumes "keys_ok settings s" "int (live_count s (sk_agent_id k)) < agent_max_active_signing_keys settings"
    "sk_id k = next_id (sg_db s)" "next_id (sg_db t) = next_id (sg_db s) + 2" "clock (sg_db t) = clock (sg_db s)"
    "sg_keys t = sg_keys s @ [k]"
  shows "keys_ok settings t"
proof -
  have "rows_ok sk_id (next_id (sg_db t)) (sg_keys t)"
    using assms rows_ok_snoc [of sk_id "next_id (sg_db s)" "sg_keys s" k "next_id (sg_db t)"]
    by (simp add: keys_ok_def)
  moreover have "int (live_count t agent) \<le> agent_max_active_signing_keys settings" for agent
  proof (cases "agent = sk_agent_id k")
    case True
    then show ?thesis using assms(2,5,6) by (simp add: live_count_def)
  next
    case False
    then have "live_count t agent = live_count s agent" using assms(5,6) by (simp add: live_count_def live_key_def)
    then show ?thesis using assms(1) by (simp add: keys_ok_def)
  qed
  ultimately show ?thesis by (simp add: keys_ok_def)
qed

lemma keys_ok_rotate:
  assumes "keys_ok settings s" "old \<in> set (sg_keys s)" "sk_status old \<in> {SK_ACTIVE, SK_ROTATING}"
  defines "s1 \<equiv> s\<lparr>sg_keys := update_where (\<lambda>k. sk_id k = sk_id old) (\<lambda>k. k\<lparr>sk_status := SK_ROTATING\<rparr>) (sg_keys s)\<rparr>"
  shows "keys_ok settings s1 \<and> live_count s1 agent \<le> live_count s agent"
proof -
  have "k = old" if "k \<in> set (sg_keys s)" "sk_id k = sk_id old" for k
    using rows_ok_same_key [of sk_id "next_id (sg_db s)" "sg_keys s" k old] assms(1,2) that
    by (simp add: keys_ok_def)
  then have live: "live_key now a (k\<lparr>sk_status := SK_ROTATING\<rparr>) \<longrightarrow> live_key now a k"
    if "k \<in> set (sg_keys s)" "sk_id k = sk_id old" for k now a
    using assms(3) that by (auto simp: live_key_def)
  have "keys_ok settings s1"
    by (rule keys_ok_update [OF assms(1), where P = "\<lambda>k. sk_id k = sk_id old"
          and f = "\<lambda>k. k\<lparr>sk_status := SK_ROTATING\<rparr>"]) (use live in \<open>simp_all add: s1_def\<close>)
  moreover have "live_count s1 agent \<le> live_count s agent"
    using live live_filter_update [of "sg_keys s" "\<lambda>k. sk_id k = sk_id old"]
    by (simp add: live_count_def s1_def)
  ultimately show ?thesis ..
qed

lemma keys_ok_step: "key_step c settings s t \<Longrightarrow> keys_ok settings s \<Longrightarrow> keys_ok settings t"
proof (induction rule: key_step.induct)
  case (register s agent pk expires t k)
  from register_key_rows [OF register(1)] register(2) show ?case by (auto intro: keys_ok_snoc)
next
  case (rotate s agent pk expires old t k)
  let ?s1 = "s\<lparr>sg_keys := update_where (\<lambda>k. sk_id k = sk_id old) (\<lambda>k. k\<lparr>sk_status := SK_ROTATING\<rparr>) (sg_keys s)\<rparr>"
  have "keys_ok settings ?s1 \<and> live_count ?s1 agent \<le> live_count s agent"
    using keys_ok_rotate rotate(2-4) by blast
  with register_key_rows [OF rotate(1)] show ?case
    by (intro keys_ok_snoc [of settings ?s1 k t]) auto
next
  case (tick s now)
  have "live_count (s\<lparr>sg_db := (sg_db s)\<lparr>clock := now\<rparr>\<rparr>) agent \<le> live_count s agent" for agent
    using live_filter_later [OF tick(1)] by (simp add: live_count_def)
  then show ?case using tick(2) unfolding keys_ok_def by (simp, meson of_nat_mono order_trans)
qed (auto intro: keys_ok_revoke keys_ok_verify_request keys_ok_verify_cross)

interpretation signing_keys: transition_system "\<lambda>s. sg_keys s = [] \<and> 0 \<le> agent_max_active_signing_keys settings"
  "key_step c settings" "keys_ok settings"
proof
  show "keys_ok settings s" if "sg_keys s = [] \<and> 0 \<le> agent_max_active_signing_keys settings" for s
    using that by (simp add: keys_ok_def rows_ok_def live_count_def)
qed (rule keys_ok_step)

text \<open>
  In every state reached from one without keys by registering, rotating, revoking and using keys
  and by the passing of time, no agent has more live keys (active or rotating, unexpired) than
  the configured maximum.
\<close>

theorem live_keys_bounded:
  assumes "sg_keys s = []" "0 \<le> agent_max_active_signing_keys settings" "(key_step c settings)\<^sup>*\<^sup>* s t"
  shows "int (live_count t agent) \<le> agent_max_active_signing_keys settings"
  using signing_keys.inv_reachable [of s settings c t] assms by (simp add: keys_ok_def)

section \<open>Examples\<close>

definition demo_crypto :: crypto where
  "demo_crypto = \<lparr>sha256_hex = (\<lambda>s. s), b64decode = Some, b64encode = (\<lambda>s. s), ed25519_key = (\<lambda>_. True),
     ed25519_verify = (\<lambda>pub sig msg. True)\<rparr>"

definition demo_settings :: signing_settings where
  "demo_settings = \<lparr>agent_signature_clock_window_seconds = 300, agent_max_active_signing_keys = 3,
     redis_url_given = False\<rparr>"

definition demo_key :: AgentSigningKey where
  "demo_key = \<lparr>sk_id = 50, sk_key_id = ''key_ag_0123456789abcdef01234567'', sk_agent_id = 10,
     sk_organization_id = Some 7, sk_algorithm = ''Ed25519'', sk_public_key = replicate 32 CHR ''k'',
     sk_fingerprint = ''f'', sk_status = SK_ACTIVE, sk_activated_at = 0, sk_expires_at = None,
     sk_revoked_at = None, sk_rotated_from_key_id = None, sk_last_used_at = None\<rparr>"

definition demo_signing :: signing where
  "demo_signing = \<lparr>sg_db = demo_db, sg_keys = [demo_key], sg_nonces = []\<rparr>"

definition demo_nonce :: string where
  "demo_nonce = ''nonce_0123456789abcdef0123456789abcdef''"

definition demo_headers :: headers where
  "demo_headers = map_of [(''X-Agent-ID'', ''agt_buyer''), (''X-Agent-Key-ID'', sk_key_id demo_key),
     (''X-Agent-Timestamp'', ''1970-01-01T00:01:00Z''), (''X-Agent-Nonce'', demo_nonce),
     (''X-Agent-Signature'', replicate 64 CHR ''s''), (''X-Agent-Signature-Version'', ''v1'')]"

definition demo_verify :: "signing \<times> (SigningError + VerifiedAgentSignature option)" where
  "demo_verify = verify_request demo_crypto demo_settings None False demo_signing (Some 7) 1 ''agt_buyer''
     demo_headers ''{}'' ''post'' ''/api/v1/authorize'' []"

lemma demo_shapes: "KEY_ID_PATTERN (sk_key_id demo_key)" "NONCE_PATTERN demo_nonce"
  "check_timestamp demo_settings 0 ''1970-01-01T00:01:00Z'' = Inr ()"
  by code_simp+

lemma demo_redis: "redis_url_given demo_settings = False"
  by (simp add: demo_settings_def)

lemma demo_values: "header_values demo_headers = Some [''agt_buyer'', sk_key_id demo_key, ''1970-01-01T00:01:00Z'',
    demo_nonce, replicate 64 CHR ''s'', SIGNATURE_VERSION]"
  by (simp add: header_values_def SIGNED_HEADERS_def demo_headers_def SIGNATURE_VERSION_def demo_nonce_def demo_key_def)

theorem fresh_request_accepted_witness:
  "snd demo_verify = Inr (Some \<lparr>vs_key_id = sk_key_id demo_key, vs_version = ''v1''\<rparr>)"
  unfolding demo_verify_def SIGNATURE_VERSION_def [symmetric]
  by (rule fresh_request_accepted [where k = demo_key and a = "demo_agent 10 ''buyer''", OF _ _ _ _ demo_values _ demo_shapes(1,2)])
     (simp_all add: demo_signing_def demo_defs demo_shapes demo_key_def check_key_def redis_accepts_def
        demo_redis signature_valid_def demo_crypto_def)

lemma demo_verify_eq: "verify_request demo_crypto demo_settings None False demo_signing (Some 7) 1 ''agt_buyer''
     demo_headers ''{}'' ''post'' ''/api/v1/authorize'' [] =
   (fst demo_verify, Inr (Some \<lparr>vs_key_id = sk_key_id demo_key, vs_version = ''v1''\<rparr>))"
  by (simp add: demo_verify_def prod_eq_iff flip: fresh_request_accepted_witness)

theorem verify_request_sound_witness:
  "request_grounds demo_crypto demo_settings demo_signing (Some 7) 1 ''agt_buyer'' demo_headers ''{}'' ''post''
     ''/api/v1/authorize'' \<lparr>vs_key_id = sk_key_id demo_key, vs_version = ''v1''\<rparr> (fst demo_verify)"
  using verify_request_sound [OF demo_verify_eq] by simp

lemma demo_accepts: "accepts demo_crypto demo_settings demo_signing (sk_key_id demo_key) ''1970-01-01T00:01:00Z''
    demo_nonce (fst demo_verify)"
  using demo_verify_eq by (rule accepts.intros(1)) (simp add: presents_def demo_headers_def)

definition demo_later :: signing where
  "demo_later = (fst demo_verify)\<lparr>sg_db := demo_db\<lparr>clock := seconds 200\<rparr>\<rparr>"

lemma demo_later_step: "signing_step demo_crypto demo_settings (fst demo_verify) demo_later"
  using verify_request_keeps [OF demo_verify_eq]
  by (intro signing_step.environment) (simp_all add: demo_later_def demo_signing_def demo_defs)

theorem signed_request_accepted_once_witness:
  "\<forall>t. \<not> accepts demo_crypto demo_settings demo_later (sk_key_id demo_key) ''1970-01-01T00:01:00Z'' demo_nonce t"
  using signed_request_accepted_once [OF demo_accepts r_into_rtranclp [of "signing_step demo_crypto demo_settings"]]
    demo_later_step by blast

definition demo_unkeyed :: signing where
  "demo_unkeyed = \<lparr>sg_db = demo_db, sg_keys = [], sg_nonces = []\<rparr>"

definition demo_registered :: "signing \<times> AgentSigningKey" where
  "demo_registered = projr (register_key demo_crypto demo_settings demo_unkeyed 10 (replicate 32 CHR ''k'') None None)"

lemma demo_register: "register_key demo_crypto demo_settings demo_unkeyed 10 (replicate 32 CHR ''k'') None None =
    Inr (fst demo_registered, snd demo_registered)"
  by (simp add: demo_registered_def register_key_def demo_unkeyed_def demo_defs get_agent_def live_count_def
      demo_settings_def decode_public_key_def demo_crypto_def fresh_def Let_def)

theorem live_keys_bounded_witness: "live_count (fst demo_registered) 10 \<le> 3"
  using live_keys_bounded [of demo_unkeyed demo_settings demo_crypto "fst demo_registered" 10]
    key_step.register [OF demo_register]
  by (simp add: r_into_rtranclp demo_unkeyed_def demo_settings_def)

end
