(* ===== verification/Credentials.thy ===== *)
theory Credentials
  imports Signing
begin

text \<open>
  Verifiable credentials of agents (\<open>services/credential_service.py\<close>, \<open>models/trust_registry.py\<close>):
  issuers and their keys, issuing, verification and revocation. Beside the libraries of request
  signing, the parameters are the lax Base64 decoder, the keystore (the public key generated under a
  key id, and signing with the private one, \<open>None\<close> when no key is stored), the reader of JSON texts
  and \<open>datetime.fromisoformat\<close> (a time without zone read as UTC). An error carries its code and status, the text of its message
  is left out; an exception of Python or of the database is named.
\<close>

section \<open>Rows and parameters\<close>

datatype IssuerStatus = IS_ACTIVE | IS_SUSPENDED | IS_REVOKED
datatype IssuerKeyStatus = IK_ACTIVE | IK_REVOKED | IK_ROTATED

record CredentialIssuer =
  is_id :: uuid
  is_issuer_id :: string
  is_organization_id :: uuid
  is_name :: string
  is_status :: IssuerStatus

record IssuerSigningKey =
  ik_id :: uuid
  ik_key_id :: string
  ik_issuer_id :: uuid
  ik_public_key :: string
  ik_fingerprint :: string
  ik_status :: IssuerKeyStatus
  ik_revoked_at :: "datetime option"
  ik_rotated_from_key_id :: "string option"

record Organization =
  or_id :: uuid
  or_name :: string
  or_is_active :: bool

record AgentCapability =
  ac_agent_id :: uuid
  ac_name :: string
  ac_version :: string
  ac_is_active :: bool

record trust =
  tr_db :: db
  tr_issuers :: "CredentialIssuer list"
  tr_issuer_keys :: "IssuerSigningKey list"
  tr_organizations :: "Organization list"
  tr_capabilities :: "AgentCapability list"

record issuer_crypto = crypto +
  b64decode_lax :: "string \<Rightarrow> string option"
  public_bytes :: "string \<Rightarrow> string"
  private_sign :: "string \<Rightarrow> string \<Rightarrow> string option"
  json_loads :: "string \<Rightarrow> pyval option"
  fromisoformat :: "string \<Rightarrow> datetime option"

datatype credential_error =
    CredentialVerificationError string int
  | PyRaised pyexn
  | MultipleResultsFound
  | NoResultFound

text \<open>\<open>scalar_one_or_none\<close>\<close>

definition one_or_none :: "'a list \<Rightarrow> credential_error + 'a option" where
  "one_or_none rows =
     (case rows of [] \<Rightarrow> Inr None | [x] \<Rightarrow> Inr (Some x) | _ \<Rightarrow> Inl MultipleResultsFound)"

section \<open>Texts\<close>

text \<open>\<open>UUID(text)\<close> on hexadecimal digits with optional dashes, braces and prefixes.\<close>

fun remove_text :: "string \<Rightarrow> nat \<Rightarrow> string \<Rightarrow> string" where
  "remove_text p skip [] = []"
| "remove_text p (Suc skip) (c # cs) = remove_text p skip cs"
| "remove_text p 0 (c # cs) =
     (if py_startswith (c # cs) p then remove_text p (length p - 1) cs else c # remove_text p 0 cs)"

definition strip_braces :: "string \<Rightarrow> string" where
  "strip_braces s = (let b = (\<lambda>c. c = CHR ''{'' \<or> c = CHR ''}'') in rev (dropWhile b (rev (dropWhile b s))))"

definition hex_value :: "string \<Rightarrow> nat" where
  "hex_value s = foldl (\<lambda>n c. 16 * n + (if is_digit c then of_char c - 48 else of_char c - 87)) 0 s"

definition parse_uuid :: "string \<Rightarrow> uuid option" where
  "parse_uuid s =
     (let h = py_lower (filter (\<lambda>c. c \<noteq> CHR ''-'') (strip_braces (remove_text ''uuid:'' 0 (remove_text ''urn:'' 0 s))))
      in if length h = 32 \<and> list_all lower_hex h then Some (hex_value h) else None)"

text \<open>\<open>strftime("%Y-%m-%dT%H:%M:%SZ")\<close>\<close>

definition utc_text_body :: "datetime \<Rightarrow> string" where
  "utc_text_body t =
     date_str (date_of_days (t div days 1)) @ ''T'' @ pad 2 (str_of_int (t div hours 1 mod 24)) @ '':''
     @ pad 2 (str_of_int (t div minutes 1 mod 60)) @ '':'' @ pad 2 (str_of_int (t div seconds 1 mod 60))"

definition utc_text :: "datetime \<Rightarrow> string" where
  "utc_text t = utc_text_body t @ ''Z''"

definition parse_timestamp :: "'a issuer_crypto_scheme \<Rightarrow> pyval \<Rightarrow> datetime option" where
  "parse_timestamp c v =
     (case v of
        PStr s \<Rightarrow>
          let cleaned = py_strip s in
          fromisoformat c (if py_endswith cleaned ''Z'' then take (length cleaned - 1) cleaned @ ''+00:00'' else cleaned)
      | _ \<Rightarrow> None)"

definition generate_issuer_id :: "nat \<Rightarrow> string" where "generate_issuer_id n = ''iss_'' @ hex_digits 16 n"
definition generate_credential_id :: "nat \<Rightarrow> string" where "generate_credential_id n = ''cred_'' @ hex_digits 24 n"
definition generate_issuer_key_id :: "nat \<Rightarrow> string" where "generate_issuer_key_id n = ''iss_key_'' @ hex_digits 16 n"

section \<open>Issuers\<close>

definition new_issuer_key ::
    "'a issuer_crypto_scheme \<Rightarrow> nat \<Rightarrow> nat \<Rightarrow> uuid \<Rightarrow> string option \<Rightarrow> IssuerSigningKey" where
  "new_issuer_key c row token issuer rotated_from =
     (let key_id = generate_issuer_key_id token; pub = public_bytes c key_id in
      \<lparr>ik_id = row, ik_key_id = key_id, ik_issuer_id = issuer, ik_public_key = b64encode c pub,
       ik_fingerprint = sha256_hex c pub, ik_status = IK_ACTIVE, ik_revoked_at = None,
       ik_rotated_from_key_id = rotated_from\<rparr>)"

definition create_credential_issuer ::
    "'a issuer_crypto_scheme \<Rightarrow> trust \<Rightarrow> uuid \<Rightarrow> string \<Rightarrow> credential_error + trust \<times> CredentialIssuer \<times> IssuerSigningKey"
where
  "create_credential_issuer c s org name =
     (if \<not> list_ex (\<lambda>o1. or_id o1 = org) (tr_organizations s)
      then Inl (CredentialVerificationError ''ORGANIZATION_NOT_FOUND'' 404)
      else
        let (n1, d1) = fresh (tr_db s); (n2, d2) = fresh d1; (n3, d3) = fresh d2; (n4, d4) = fresh d3;
            issuer = \<lparr>is_id = n1, is_issuer_id = generate_issuer_id n2, is_organization_id = org, is_name = name,
              is_status = IS_ACTIVE\<rparr>;
            key = new_issuer_key c n3 n4 n1 None
        in Inr (s\<lparr>tr_db := d4, tr_issuers := tr_issuers s @ [issuer], tr_issuer_keys := tr_issuer_keys s @ [key]\<rparr>,
             issuer, key))"

definition active_issuer_key :: "uuid \<Rightarrow> IssuerSigningKey \<Rightarrow> bool" where
  "active_issuer_key issuer k = (ik_issuer_id k = issuer \<and> ik_status k = IK_ACTIVE)"

definition retire_key :: "datetime \<Rightarrow> bool \<Rightarrow> IssuerSigningKey \<Rightarrow> IssuerSigningKey" where
  "retire_key now revoke k =
     (if revoke then k\<lparr>ik_status := IK_REVOKED, ik_revoked_at := Some now\<rparr> else k\<lparr>ik_status := IK_ROTATED\<rparr>)"

definition rotate_issuer_signing_key ::
    "'a issuer_crypto_scheme \<Rightarrow> trust \<Rightarrow> string \<Rightarrow> bool \<Rightarrow> credential_error + trust \<times> IssuerSigningKey" where
  "rotate_issuer_signing_key c s issuer_id revoke_old_key =
     (case find (\<lambda>i. is_issuer_id i = issuer_id) (tr_issuers s) of
        None \<Rightarrow> Inl (CredentialVerificationError ''CREDENTIAL_ISSUER_UNKNOWN'' 404)
      | Some issuer \<Rightarrow>
          if is_status issuer \<noteq> IS_ACTIVE then Inl (CredentialVerificationError ''CREDENTIAL_ISSUER_NOT_ACTIVE'' 400)
          else rbind (one_or_none (filter (active_issuer_key (is_id issuer)) (tr_issuer_keys s))) (\<lambda>old.
            let (n1, d1) = fresh (tr_db s); (n2, d2) = fresh d1;
                keys = (case old of
                    None \<Rightarrow> tr_issuer_keys s
                  | Some k \<Rightarrow> update_where (\<lambda>x. ik_id x = ik_id k) (retire_key (clock (tr_db s)) revoke_old_key)
                                (tr_issuer_keys s));
                key = new_issuer_key c n1 n2 (is_id issuer) (map_option ik_key_id old)
            in Inr (s\<lparr>tr_db := d2, tr_issuer_keys := keys @ [key]\<rparr>, key)))"

section \<open>Issuing\<close>

fun dict_put :: "(string \<times> pyval) list \<Rightarrow> string \<Rightarrow> pyval \<Rightarrow> (string \<times> pyval) list" where
  "dict_put [] k v = [(k, v)]"
| "dict_put ((k', v') # d) k v = (if k' = k then (k', v) # d else (k', v') # dict_put d k v)"

definition withheld_claims :: "string list" where
  "withheld_claims = [''billing'', ''internal_risk'', ''api_key'', ''secrets'', ''user_id'']"

definition identity_claims :: "Agent \<Rightarrow> (string \<times> pyval) list option \<Rightarrow> (string \<times> pyval) list" where
  "identity_claims agent claims =
     foldl (\<lambda>d (k, v). if k \<in> set withheld_claims then d else dict_put d k v)
       [(''organization_membership'', PBool True), (''agent_identifier'', PStr (ag_agent_identifier agent))]
       (case claims of Some d \<Rightarrow> d | None \<Rightarrow> [])"

definition registered_capabilities :: "trust \<Rightarrow> uuid \<Rightarrow> string list" where
  "registered_capabilities s agent =
     (let rows = filter (\<lambda>r. ac_agent_id r = agent \<and> ac_is_active r) (tr_capabilities s)
      in map (\<lambda>r. ac_name r @ ''@'' @ ac_version r) rows @ map ac_name rows)"

text \<open>
  One turn of the loop over the requested capabilities, and the texts of the set that is sorted. Where
  the agent has no registered capability the code also sorts a set of numbers; here other values than
  texts raise, as a set of texts and numbers does.
\<close>

definition check_capability :: "string list \<Rightarrow> pyval \<Rightarrow> credential_error + unit" where
  "check_capability known cap =
     (if known = [] then Inr ()
      else (case cap of
          PStr t \<Rightarrow> if t \<in> set known then Inr () else Inl (CredentialVerificationError ''CREDENTIAL_CLAIM_INVALID'' 400)
        | PList _ \<Rightarrow> Inl (PyRaised TypeError)
        | PDict _ \<Rightarrow> Inl (PyRaised TypeError)
        | _ \<Rightarrow> Inl (CredentialVerificationError ''CREDENTIAL_CLAIM_INVALID'' 400)))"

definition capability_text :: "pyval \<Rightarrow> credential_error + string" where
  "capability_text v = (case v of PStr t \<Rightarrow> Inr t | _ \<Rightarrow> Inl (PyRaised TypeError))"

definition capability_claims :: "trust \<Rightarrow> Agent \<Rightarrow> (string \<times> pyval) list option \<Rightarrow> credential_error + (string \<times> pyval) list"
where
  "capability_claims s agent claims =
     (let req = dict_get (case claims of Some d \<Rightarrow> d | None \<Rightarrow> []) ''capabilities'' (PList []);
          known = registered_capabilities s (ag_id agent) in
      if \<not> py_truthy req then Inl (CredentialVerificationError ''CREDENTIAL_CLAIM_INVALID'' 400)
      else rbind (case py_iter req of Inl e \<Rightarrow> Inl (PyRaised e) | Inr vs \<Rightarrow> Inr vs) (\<lambda>caps.
        rbind (rmap (check_capability known) caps) (\<lambda>_.
        rbind (rmap capability_text caps) (\<lambda>names.
          Inr [(''capabilities'', PList (map PStr (sort (remdups names))))]))))"

text \<open>The claims and the validity in days for a type of credential.\<close>

definition typed_claims ::
    "trust \<Rightarrow> Agent \<Rightarrow> string \<Rightarrow> (string \<times> pyval) list option \<Rightarrow> int option
       \<Rightarrow> credential_error + (string \<times> pyval) list \<times> int" where
  "typed_claims s agent credential_type claims validity_days =
     (if credential_type = ''AgentIdentityCredential''
      then Inr (identity_claims agent claims, min (case validity_days of Some n \<Rightarrow> n | None \<Rightarrow> 30) 90)
      else if credential_type = ''AgentCapabilityCredential''
      then rbind (capability_claims s agent claims) (\<lambda>cl.
             Inr (cl, min (case validity_days of Some n \<Rightarrow> n | None \<Rightarrow> 7) 30))
      else Inl (CredentialVerificationError ''CREDENTIAL_SCHEMA_UNSUPPORTED'' 400))"

definition resolve_subject :: "trust \<Rightarrow> string \<Rightarrow> Agent option" where
  "resolve_subject s subject =
     (case (case parse_uuid subject of Some u \<Rightarrow> get_agent (tr_db s) u | None \<Rightarrow> None) of
        Some a \<Rightarrow> Some a
      | None \<Rightarrow> find (\<lambda>a. ag_agent_identifier a = subject) (agents (tr_db s)))"

definition ATC_VERSION :: string where "ATC_VERSION = ''ATC/1.0''"

text \<open>The credential that is returned for the stored row.\<close>

definition credential_envelope :: "string \<Rightarrow> string \<Rightarrow> string \<Rightarrow> AgentCredential \<Rightarrow> string \<Rightarrow> (string \<times> pyval) list" where
  "credential_envelope issuer org agent cred nb =
     [(''credential_version'', PStr ATC_VERSION), (''credential_id'', PStr (cr_credential_id cred)),
      (''credential_type'', PStr (cr_credential_type cred)), (''issuer'', PStr issuer),
      (''subject'', PDict [(''organization_id'', PStr org), (''agent_id'', PStr agent)]),
      (''environment'', PStr (cr_environment cred)), (''issued_at'', PStr (utc_text (cr_issued_at cred))),
      (''not_before'', PStr nb), (''expires_at'', PStr (utc_text (cr_expires_at cred))),
      (''claims'', cr_claims_json cred),
      (''proof'', PDict [(''type'', PStr ATC_SIGNING_VERSION), (''algorithm'', PStr ''Ed25519''),
         (''key_id'', PStr (cr_signing_key_id cred)), (''signature'', PStr (cr_signature_value cred))])]"

definition sign_credential ::
    "'a issuer_crypto_scheme \<Rightarrow> trust \<Rightarrow> CredentialIssuer \<Rightarrow> Agent \<Rightarrow> Organization \<Rightarrow> IssuerSigningKey \<Rightarrow> string
       \<Rightarrow> (string \<times> pyval) list \<Rightarrow> int \<Rightarrow> datetime option \<Rightarrow> string
       \<Rightarrow> credential_error + trust \<times> (string \<times> pyval) list" where
  "sign_credential c s issuer agent org key credential_type claims n_days not_before environment =
     (let now = clock (tr_db s); expires_at = now + days n_days;
          nb = (case not_before of Some t \<Rightarrow> utc_text t | None \<Rightarrow> utc_text now);
          claims_hash = compute_claims_sha256 (sha256_hex c) (json_loads c) (PDict claims);
          (token, d1) = fresh (tr_db s); (row, d2) = fresh d1; cred_id = generate_credential_id token;
          message = build_atc_canonical_ascii ATC_VERSION cred_id (is_issuer_id issuer) (or_name org)
            (ag_agent_identifier agent) credential_type (utc_text now) (Some nb) (utc_text expires_at)
            environment claims_hash in
      case private_sign c (ik_key_id key) message of
        None \<Rightarrow> Inl (CredentialVerificationError ''ISSUER_KEY_NOT_FOUND'' 500)
      | Some sig \<Rightarrow>
          let cred = \<lparr>cr_id = row, cr_credential_id = cred_id, cr_issuer_id = is_id issuer,
                cr_subject_agent_id = ag_id agent, cr_organization_id = or_id org,
                cr_credential_type = credential_type, cr_environment = environment, cr_issued_at = now,
                cr_not_before = Some (case not_before of Some t \<Rightarrow> t | None \<Rightarrow> now), cr_expires_at = expires_at,
                cr_status = CR_ACTIVE, cr_signing_key_id = ik_key_id key, cr_claims_json = PDict claims,
                cr_claims_hash = claims_hash, cr_signature_value = b64encode c sig, cr_revoked_at = None,
                cr_revocation_reason_code = None\<rparr>
          in Inr (s\<lparr>tr_db := d2\<lparr>credentials := credentials d2 @ [cred]\<rparr>\<rparr>,
               credential_envelope (is_issuer_id issuer) (or_name org) (ag_agent_identifier agent) cred nb))"

definition issue_agent_credential ::
    "'a issuer_crypto_scheme \<Rightarrow> trust \<Rightarrow> string \<Rightarrow> string \<Rightarrow> string \<Rightarrow> (string \<times> pyval) list option \<Rightarrow> int option
       \<Rightarrow> datetime option \<Rightarrow> string \<Rightarrow> credential_error + trust \<times> (string \<times> pyval) list" where
  "issue_agent_credential c s issuer_id subject credential_type claims validity_days not_before environment =
     (case find (\<lambda>i. is_issuer_id i = issuer_id) (tr_issuers s) of
        None \<Rightarrow> Inl (CredentialVerificationError ''CREDENTIAL_ISSUER_UNKNOWN'' 404)
      | Some issuer \<Rightarrow>
      if is_status issuer = IS_SUSPENDED then Inl (CredentialVerificationError ''CREDENTIAL_ISSUER_SUSPENDED'' 403)
      else if is_status issuer = IS_REVOKED then Inl (CredentialVerificationError ''CREDENTIAL_ISSUER_REVOKED'' 403)
      else (case resolve_subject s subject of
        None \<Rightarrow> Inl (CredentialVerificationError ''CREDENTIAL_SUBJECT_INVALID'' 404)
      | Some agent \<Rightarrow>
      if ag_organization_id agent \<noteq> Some (is_organization_id issuer)
      then Inl (CredentialVerificationError ''CREDENTIAL_CLAIM_INVALID'' 403)
      else if ag_status agent \<noteq> AG_ACTIVE then Inl (CredentialVerificationError ''CREDENTIAL_SUBJECT_INVALID'' 400)
      else (case find (\<lambda>o1. or_id o1 = is_organization_id issuer) (tr_organizations s) of
        None \<Rightarrow> Inl NoResultFound
      | Some org \<Rightarrow>
      rbind (one_or_none (filter (active_issuer_key (is_id issuer)) (tr_issuer_keys s))) (\<lambda>key.
      case key of
        None \<Rightarrow> Inl (CredentialVerificationError ''CREDENTIAL_SIGNING_KEY_REVOKED'' 500)
      | Some k \<Rightarrow>
      rbind (typed_claims s agent credential_type claims validity_days) (\<lambda>(cl, n_days).
        sign_credential c s issuer agent org k credential_type cl n_days not_before environment)))))"

section \<open>Verification\<close>

text \<open>\<open>value.strip()\<close> and the texts of the canonical form, which raise on other values than texts.\<close>

definition need_text :: "pyval \<Rightarrow> credential_error + string" where
  "need_text v = (case v of PStr s \<Rightarrow> Inr s | _ \<Rightarrow> Inl (PyRaised AttributeError))"

text \<open>\<open>(x or {}).get(k)\<close>\<close>

definition part_get :: "pyval \<Rightarrow> string \<Rightarrow> credential_error + pyval" where
  "part_get v k = (case val_get (py_or v (PDict [])) k PNone of Inl e \<Rightarrow> Inl (PyRaised e) | Inr x \<Rightarrow> Inr x)"

definition check_dates :: "'a issuer_crypto_scheme \<Rightarrow> datetime \<Rightarrow> pyval \<Rightarrow> pyval \<Rightarrow> credential_error + unit" where
  "check_dates c now not_before expires_at =
     (case parse_timestamp c expires_at of
        None \<Rightarrow> Inl (CredentialVerificationError ''CREDENTIAL_INVALID'' 400)
      | Some ex \<Rightarrow>
          if now > ex + seconds 30 then Inl (CredentialVerificationError ''CREDENTIAL_EXPIRED'' 401)
          else if \<not> py_truthy not_before then Inr ()
          else (case parse_timestamp c not_before of
              None \<Rightarrow> Inl (CredentialVerificationError ''CREDENTIAL_INVALID'' 400)
            | Some nb \<Rightarrow>
                if now < nb - seconds 30 then Inl (CredentialVerificationError ''CREDENTIAL_NOT_YET_VALID'' 401)
                else Inr ()))"

definition find_issuer :: "trust \<Rightarrow> pyval \<Rightarrow> credential_error + CredentialIssuer" where
  "find_issuer s v =
     (case find (\<lambda>i. PStr (is_issuer_id i) = v) (tr_issuers s) of
        None \<Rightarrow> Inl (CredentialVerificationError ''CREDENTIAL_ISSUER_UNKNOWN'' 401)
      | Some i \<Rightarrow>
          if is_status i = IS_SUSPENDED then Inl (CredentialVerificationError ''CREDENTIAL_ISSUER_SUSPENDED'' 403)
          else if is_status i = IS_REVOKED then Inl (CredentialVerificationError ''CREDENTIAL_ISSUER_REVOKED'' 403)
          else Inr i)"

definition find_issuer_key :: "trust \<Rightarrow> CredentialIssuer \<Rightarrow> pyval \<Rightarrow> credential_error + IssuerSigningKey" where
  "find_issuer_key s issuer v =
     (case find (\<lambda>k. PStr (ik_key_id k) = v \<and> ik_issuer_id k = is_id issuer) (tr_issuer_keys s) of
        None \<Rightarrow> Inl (CredentialVerificationError ''CREDENTIAL_SIGNING_KEY_REVOKED'' 401)
      | Some k \<Rightarrow>
          if ik_status k = IK_REVOKED then Inl (CredentialVerificationError ''CREDENTIAL_SIGNING_KEY_REVOKED'' 401)
          else Inr k)"

definition credential_get :: "(string \<times> pyval) list \<Rightarrow> string \<Rightarrow> pyval" where
  "credential_get d k = dict_get d k PNone"

text \<open>The bytes the proof must sign.\<close>

definition credential_text ::
    "'a issuer_crypto_scheme \<Rightarrow> (string \<times> pyval) list \<Rightarrow> pyval \<Rightarrow> pyval \<Rightarrow> pyval \<Rightarrow> credential_error + string" where
  "credential_text c d subj_org subj_agt env =
     (let g = credential_get d; nb = g ''not_before'' in
      rbind (need_text (g ''credential_version'')) (\<lambda>version.
      rbind (need_text (g ''credential_id'')) (\<lambda>cred_id.
      rbind (need_text (g ''issuer'')) (\<lambda>issuer.
      rbind (need_text subj_org) (\<lambda>o1.
      rbind (need_text subj_agt) (\<lambda>a.
      rbind (need_text (g ''credential_type'')) (\<lambda>ty.
      rbind (need_text (g ''issued_at'')) (\<lambda>issued.
      rbind (if py_truthy nb then rbind (need_text nb) (\<lambda>t. Inr (Some t)) else Inr None) (\<lambda>nbt.
      rbind (need_text (g ''expires_at'')) (\<lambda>ex.
      rbind (need_text env) (\<lambda>e.
        Inr (build_atc_canonical_ascii version cred_id issuer o1 a ty issued nbt ex e
          (compute_claims_sha256 (sha256_hex c) (json_loads c) (g ''claims''))))))))))))))"

definition proof_verifies :: "'a issuer_crypto_scheme \<Rightarrow> IssuerSigningKey \<Rightarrow> pyval \<Rightarrow> string \<Rightarrow> bool" where
  "proof_verifies c k sig message =
     (case sig of
        PStr t \<Rightarrow>
          (case (b64decode_lax c (ik_public_key k), b64decode_lax c t) of
             (Some pub, Some raw) \<Rightarrow> ed25519_key c pub \<and> ed25519_verify c pub raw message
           | _ \<Rightarrow> False)
      | _ \<Rightarrow> False)"

definition check_registry :: "trust \<Rightarrow> pyval \<Rightarrow> credential_error + unit" where
  "check_registry s cred_id =
     (case find (\<lambda>r. PStr (cr_credential_id r) = cred_id) (credentials (tr_db s)) of
        None \<Rightarrow> Inr ()
      | Some r \<Rightarrow>
          if cr_status r = CR_REVOKED then Inl (CredentialVerificationError ''CREDENTIAL_REVOKED'' 401)
          else if cr_status r = CR_EXPIRED then Inl (CredentialVerificationError ''CREDENTIAL_EXPIRED'' 401)
          else Inr ())"

definition check_subject :: "trust \<Rightarrow> pyval \<Rightarrow> credential_error + unit" where
  "check_subject s subj =
     rbind (one_or_none (filter (\<lambda>a. PStr (ag_agent_identifier a) = subj \<or> PStr (ag_name a) = subj) (agents (tr_db s))))
       (\<lambda>agent. case agent of
          Some a \<Rightarrow> if ag_status a \<noteq> AG_ACTIVE then Inl (CredentialVerificationError ''CREDENTIAL_SUBJECT_INVALID'' 403)
                    else Inr ()
        | None \<Rightarrow> Inr ())"

record verified_credential =
  vc_credential_id :: pyval
  vc_credential_type :: pyval
  vc_issuer :: pyval
  vc_subject_organization_id :: pyval
  vc_subject_agent_id :: pyval
  vc_environment :: pyval
  vc_expires_at :: pyval
  vc_claims :: pyval

definition check_proof ::
    "'a issuer_crypto_scheme \<Rightarrow> trust \<Rightarrow> (string \<times> pyval) list \<Rightarrow> CredentialIssuer \<Rightarrow> pyval \<Rightarrow> pyval \<Rightarrow> pyval
       \<Rightarrow> credential_error + unit" where
  "check_proof c s d issuer subj_org subj_agt env =
     rbind (part_get (credential_get d ''proof'') ''type'') (\<lambda>ty.
     rbind (part_get (credential_get d ''proof'') ''algorithm'') (\<lambda>alg.
     rbind (part_get (credential_get d ''proof'') ''key_id'') (\<lambda>key_id.
     rbind (part_get (credential_get d ''proof'') ''signature'') (\<lambda>sig.
     if ty \<noteq> PStr ATC_SIGNING_VERSION \<or> alg \<noteq> PStr ''Ed25519'' \<or> \<not> py_truthy key_id \<or> \<not> py_truthy sig
     then Inl (CredentialVerificationError ''CREDENTIAL_INVALID'' 400)
     else rbind (find_issuer_key s issuer key_id) (\<lambda>k.
       rbind (credential_text c d subj_org subj_agt env) (\<lambda>message.
         if proof_verifies c k sig message then Inr ()
         else Inl (CredentialVerificationError ''CREDENTIAL_SIGNATURE_INVALID'' 401)))))))"

definition verify_agent_credential ::
    "'a issuer_crypto_scheme \<Rightarrow> trust \<Rightarrow> (string \<times> pyval) list \<Rightarrow> string \<Rightarrow> bool \<Rightarrow> credential_error + verified_credential"
where
  "verify_agent_credential c s d expected_environment check_agent_active =
     (let g = credential_get d; env = dict_get d ''environment'' (PStr ''production'') in
      if g ''credential_version'' \<noteq> PStr ATC_VERSION
      then Inl (CredentialVerificationError ''CREDENTIAL_SCHEMA_UNSUPPORTED'' 400)
      else
      rbind (part_get (g ''subject'') ''organization_id'') (\<lambda>subj_org.
      rbind (part_get (g ''subject'') ''agent_id'') (\<lambda>subj_agt.
      if \<not> list_all py_truthy [g ''credential_id'', g ''credential_type'', g ''issuer'', subj_org, subj_agt,
            g ''issued_at'', g ''expires_at'', g ''proof'']
      then Inl (CredentialVerificationError ''CREDENTIAL_INVALID'' 400)
      else if env = PStr ''sandbox'' \<and> expected_environment = ''production''
      then Inl (CredentialVerificationError ''SANDBOX_CREDENTIAL_IN_PRODUCTION'' 403)
      else
      rbind (check_dates c (clock (tr_db s)) (g ''not_before'') (g ''expires_at'')) (\<lambda>_.
      rbind (find_issuer s (g ''issuer'')) (\<lambda>issuer.
      rbind (check_proof c s d issuer subj_org subj_agt env) (\<lambda>_.
      rbind (check_registry s (g ''credential_id'')) (\<lambda>_.
      rbind (if check_agent_active then check_subject s subj_agt else Inr ()) (\<lambda>_.
        Inr \<lparr>vc_credential_id = g ''credential_id'', vc_credential_type = g ''credential_type'',
          vc_issuer = g ''issuer'', vc_subject_organization_id = subj_org, vc_subject_agent_id = subj_agt,
          vc_environment = env, vc_expires_at = g ''expires_at'', vc_claims = g ''claims''\<rparr>))))))))"

definition revoke_agent_credential ::
    "trust \<Rightarrow> string \<Rightarrow> string \<Rightarrow> credential_error + trust \<times> AgentCredential" where
  "revoke_agent_credential s credential_id reason_code =
     (case find (\<lambda>r. cr_credential_id r = credential_id) (credentials (tr_db s)) of
        None \<Rightarrow> Inl (CredentialVerificationError ''CREDENTIAL_NOT_FOUND'' 404)
      | Some r \<Rightarrow>
          let r' = r\<lparr>cr_status := CR_REVOKED, cr_revoked_at := Some (clock (tr_db s)),
                     cr_revocation_reason_code := Some reason_code\<rparr>
          in Inr (s\<lparr>tr_db := (tr_db s)\<lparr>credentials :=
                 update_where (\<lambda>x. cr_credential_id x = credential_id) (\<lambda>_. r') (credentials (tr_db s))\<rparr>\<rparr>, r'))"

section \<open>What a verification checks\<close>

lemma dict_get_put [simp]: "dict_get (dict_put d k v) k' x = (if k' = k then v else dict_get d k' x)"
  by (induction d k v rule: dict_put.induct) auto

lemma credential_get_put [simp]:
  "credential_get (dict_put d k v) k' = (if k' = k then v else credential_get d k')"
  by (simp add: credential_get_def)

lemma py_strip_padded [simp]: "py_strip (t @ '' '') = py_strip t"
proof -
  have sp: "is_space (CHR '' '')" by code_simp
  have "dropWhile is_space (t @ '' '') = (if list_all is_space t then [] else dropWhile is_space t @ '' '')"
    by (induction t) (use sp in auto)
  moreover have "list_all is_space t \<Longrightarrow> dropWhile is_space t = []" by (induction t) auto
  ultimately show ?thesis by (cases "list_all is_space t") (auto simp: py_strip_def sp list_all_iff dest: set_dropWhileD)
qed

lemma verify_agent_credential_Inr:
  "verify_agent_credential c s d ex chk = Inr v \<longleftrightarrow>
     (let g = credential_get d; env = dict_get d ''environment'' (PStr ''production'') in
      g ''credential_version'' = PStr ATC_VERSION \<and>
      part_get (g ''subject'') ''organization_id'' = Inr (vc_subject_organization_id v) \<and>
      part_get (g ''subject'') ''agent_id'' = Inr (vc_subject_agent_id v) \<and>
      list_all py_truthy [g ''credential_id'', g ''credential_type'', g ''issuer'', vc_subject_organization_id v,
        vc_subject_agent_id v, g ''issued_at'', g ''expires_at'', g ''proof''] \<and>
      \<not> (env = PStr ''sandbox'' \<and> ex = ''production'') \<and>
      check_dates c (clock (tr_db s)) (g ''not_before'') (g ''expires_at'') = Inr () \<and>
      (\<exists>issuer. find_issuer s (g ''issuer'') = Inr issuer \<and>
         check_proof c s d issuer (vc_subject_organization_id v) (vc_subject_agent_id v) env = Inr ()) \<and>
      check_registry s (g ''credential_id'') = Inr () \<and>
      (chk \<longrightarrow> check_subject s (vc_subject_agent_id v) = Inr ()) \<and>
      vc_credential_id v = g ''credential_id'' \<and> vc_credential_type v = g ''credential_type'' \<and>
      vc_issuer v = g ''issuer'' \<and> vc_environment v = env \<and> vc_expires_at v = g ''expires_at'' \<and>
      vc_claims v = g ''claims'')"
  by (cases v) (auto simp: verify_agent_credential_def Let_def rbind_Inr_iff)

lemma check_proof_Inr:
  "check_proof c s d issuer so sa env = Inr () \<longleftrightarrow>
     (\<exists>key_id sig k message.
        part_get (credential_get d ''proof'') ''type'' = Inr (PStr ATC_SIGNING_VERSION) \<and>
        part_get (credential_get d ''proof'') ''algorithm'' = Inr (PStr ''Ed25519'') \<and>
        part_get (credential_get d ''proof'') ''key_id'' = Inr key_id \<and> py_truthy key_id \<and>
        part_get (credential_get d ''proof'') ''signature'' = Inr sig \<and> py_truthy sig \<and>
        find_issuer_key s issuer key_id = Inr k \<and> credential_text c d so sa env = Inr message \<and>
        proof_verifies c k sig message)"
  by (simp add: check_proof_def rbind_Inr_iff) (fastforce split: if_splits)

lemma find_issuer_Inr:
  "find_issuer s v = Inr i \<Longrightarrow> i \<in> set (tr_issuers s) \<and> PStr (is_issuer_id i) = v \<and> is_status i = IS_ACTIVE"
  by (cases "is_status i") (auto simp: find_issuer_def split: option.splits if_splits dest!: find_SomeD)

lemma find_issuer_key_Inr:
  "find_issuer_key s issuer v = Inr k \<Longrightarrow>
     k \<in> set (tr_issuer_keys s) \<and> PStr (ik_key_id k) = v \<and> ik_issuer_id k = is_id issuer \<and> ik_status k \<noteq> IK_REVOKED"
  by (auto simp: find_issuer_key_def split: option.splits if_splits dest!: find_SomeD)

section \<open>Padded fields\<close>

text \<open>The canonical form ignores white space around a field, so it does not change with it.\<close>

lemma credential_text_padded_id:
  assumes "credential_get d ''credential_id'' = PStr t"
  shows "credential_text c (dict_put d ''credential_id'' (PStr (t @ '' ''))) so sa env = credential_text c d so sa env"
  using assms by (simp add: credential_text_def need_text_def build_atc_canonical_ascii_def Let_def)

lemma credential_text_padded_env:
  "credential_text c (dict_put d ''environment'' (PStr (t @ '' ''))) so sa (PStr (t @ '' '')) =
   credential_text c d so sa (PStr t)"
  by (simp add: credential_text_def need_text_def build_atc_canonical_ascii_def Let_def)

lemma check_proof_text:
  "credential_get d' ''proof'' = credential_get d ''proof'' \<Longrightarrow>
   credential_text c d' so sa env' = credential_text c d so sa env \<Longrightarrow>
     check_proof c s d' issuer so sa env' = check_proof c s d issuer so sa env"
  unfolding check_proof_def by (rule rbind_cong, simp)+ simp

lemma verify_padded_id:
  assumes v: "verify_agent_credential c s d ex chk = Inr v" and t: "credential_get d ''credential_id'' = PStr t"
    and free: "\<forall>r \<in> set (credentials (tr_db s)). cr_credential_id r \<noteq> t @ '' ''"
  shows "verify_agent_credential c s (dict_put d ''credential_id'' (PStr (t @ '' ''))) ex chk =
     Inr (v\<lparr>vc_credential_id := PStr (t @ '' '')\<rparr>)"
proof -
  have "check_registry s (PStr (t @ '' '')) = Inr ()"
    using free by (auto simp: check_registry_def split: option.splits dest: find_SomeD)
  then show ?thesis
    using v unfolding verify_agent_credential_Inr Let_def
    by (simp add: check_proof_text [OF _ credential_text_padded_id [OF t]])
qed

lemma verify_padded_env:
  assumes v: "verify_agent_credential c s d ''sandbox'' chk = Inr v"
    and env: "dict_get d ''environment'' (PStr ''production'') = PStr ''sandbox''"
  shows "verify_agent_credential c s (dict_put d ''environment'' (PStr ''sandbox '')) ''production'' chk =
     Inr (v\<lparr>vc_environment := PStr ''sandbox ''\<rparr>)"
proof -
  have "check_proof c s (dict_put d ''environment'' (PStr ''sandbox '')) issuer so sa (PStr ''sandbox '') =
      check_proof c s d issuer so sa (PStr ''sandbox'')" for issuer so sa
    using credential_text_padded_env [of c d "''sandbox''" so sa] by (intro check_proof_text) simp_all
  then show ?thesis using v env unfolding verify_agent_credential_Inr Let_def by simp
qed

section \<open>Revocation\<close>

lemma revoke_agent_credential_Inr:
  assumes "revoke_agent_credential s t reason = Inr (s', r)"
  shows "tr_issuers s' = tr_issuers s" "tr_issuer_keys s' = tr_issuer_keys s"
    "clock (tr_db s') = clock (tr_db s)" "agents (tr_db s') = agents (tr_db s)"
    "cr_credential_id r = t" "cr_status r = CR_REVOKED"
    "credentials (tr_db s') = update_where (\<lambda>x. cr_credential_id x = t) (\<lambda>_. r) (credentials (tr_db s))"
    "\<exists>x \<in> set (credentials (tr_db s)). cr_credential_id x = t"
  using assms by (auto simp: revoke_agent_credential_def Let_def split: option.splits dest: find_SomeD)

lemma find_revoked:
  "\<exists>x \<in> set rs. cr_credential_id x = t \<Longrightarrow> cr_credential_id r = t \<Longrightarrow>
     find (\<lambda>x. PStr (cr_credential_id x) = PStr t) (update_where (\<lambda>x. cr_credential_id x = t) (\<lambda>_. r) rs) = Some r"
  by (induction rs) auto

lemma find_issuer_frame: "tr_issuers s' = tr_issuers s \<Longrightarrow> find_issuer s' v = find_issuer s v"
  by (simp add: find_issuer_def)

lemma check_proof_frame:
  "tr_issuer_keys s' = tr_issuer_keys s \<Longrightarrow> check_proof c s' d issuer so sa env = check_proof c s d issuer so sa env"
proof -
  assume "tr_issuer_keys s' = tr_issuer_keys s"
  then have "find_issuer_key s' = find_issuer_key s" by (simp add: fun_eq_iff find_issuer_key_def)
  then show ?thesis by (simp add: check_proof_def cong: if_cong)
qed

lemma one_or_none_mem:
  "rbind (one_or_none ys) f = Inr y \<Longrightarrow> a \<in> set ys \<Longrightarrow> ys = [a] \<and> f (Some a) = Inr y"
  by (auto simp: one_or_none_def rbind_Inr_iff split: list.splits)

lemma check_subject_frame: "agents (tr_db s') = agents (tr_db s) \<Longrightarrow> check_subject s' v = check_subject s v"
  by (simp add: check_subject_def)

lemma verify_agent_credential_frame:
  assumes v: "verify_agent_credential c s d ex chk = Inr v"
    and same: "tr_issuers s' = tr_issuers s" "tr_issuer_keys s' = tr_issuer_keys s"
      "clock (tr_db s') = clock (tr_db s)" "agents (tr_db s') = agents (tr_db s)"
  shows "verify_agent_credential c s' d ex chk =
     (case check_registry s' (credential_get d ''credential_id'') of Inl e \<Rightarrow> Inl e | Inr _ \<Rightarrow> Inr v)"
proof -
  note facts = v [unfolded verify_agent_credential_Inr Let_def]
  from facts obtain issuer where i: "find_issuer s (credential_get d ''issuer'') = Inr issuer"
    "check_proof c s d issuer (vc_subject_organization_id v) (vc_subject_agent_id v)
      (dict_get d ''environment'' (PStr ''production'')) = Inr ()" by blast
  have subj: "(if chk then check_subject s' (vc_subject_agent_id v) else Inr ()) = Inr ()"
    using facts by (simp add: check_subject_frame [OF same(4)])
  show ?thesis
    using facts i subj
    by (cases v) (auto simp: verify_agent_credential_def Let_def find_issuer_frame [OF same(1)]
        check_proof_frame [OF same(2)] same(3) rbind_def split: sum.splits)
qed

section \<open>Properties of verification and revocation\<close>

text \<open>
  C6. What a verified credential is backed by: the presented version and the fields that are returned; an
  active issuer; the key the proof names, one of that issuer and not revoked; the signature of the proof,
  which that key verifies over the canonical form of the presented fields; an expiry and, where one is
  presented, a start that hold up to thirty seconds; no registered credential under the presented id that
  is revoked or expired; if agents are checked, no inactive agent with the presented identifier or name;
  and no environment \<open>sandbox\<close> where production is expected.
\<close>

theorem verified_credential_sound:
  assumes "verify_agent_credential c s d ex chk = Inr v"
  shows "(\<exists>issuer k sig message.
    issuer \<in> set (tr_issuers s) \<and> vc_issuer v = PStr (is_issuer_id issuer) \<and> is_status issuer = IS_ACTIVE \<and>
    k \<in> set (tr_issuer_keys s) \<and> ik_issuer_id k = is_id issuer \<and> ik_status k \<noteq> IK_REVOKED \<and>
    part_get (credential_get d ''proof'') ''type'' = Inr (PStr ATC_SIGNING_VERSION) \<and>
    part_get (credential_get d ''proof'') ''algorithm'' = Inr (PStr ''Ed25519'') \<and>
    part_get (credential_get d ''proof'') ''key_id'' = Inr (PStr (ik_key_id k)) \<and>
    part_get (credential_get d ''proof'') ''signature'' = Inr sig \<and>
    credential_text c d (vc_subject_organization_id v) (vc_subject_agent_id v) (vc_environment v) = Inr message \<and>
    proof_verifies c k sig message) \<and>
    (\<exists>expires. parse_timestamp c (credential_get d ''expires_at'') = Some expires \<and>
       clock (tr_db s) \<le> expires + seconds 30) \<and>
    (py_truthy (credential_get d ''not_before'') \<longrightarrow>
       (\<exists>start. parse_timestamp c (credential_get d ''not_before'') = Some start \<and> start - seconds 30 \<le> clock (tr_db s))) \<and>
    (\<forall>r. find (\<lambda>r. PStr (cr_credential_id r) = vc_credential_id v) (credentials (tr_db s)) = Some r \<longrightarrow>
       cr_status r \<notin> {CR_REVOKED, CR_EXPIRED}) \<and>
    (chk \<longrightarrow> (\<forall>a \<in> set (agents (tr_db s)).
       vc_subject_agent_id v \<in> {PStr (ag_agent_identifier a), PStr (ag_name a)} \<longrightarrow> ag_status a = AG_ACTIVE)) \<and>
    \<not> (vc_environment v = PStr ''sandbox'' \<and> ex = ''production'') \<and>
    credential_get d ''credential_version'' = PStr ATC_VERSION \<and>
    vc_credential_id v = credential_get d ''credential_id'' \<and> vc_issuer v = credential_get d ''issuer'' \<and>
    part_get (credential_get d ''subject'') ''organization_id'' = Inr (vc_subject_organization_id v) \<and>
    part_get (credential_get d ''subject'') ''agent_id'' = Inr (vc_subject_agent_id v) \<and>
    vc_environment v = dict_get d ''environment'' (PStr ''production'')"
proof -
  note facts = assms [unfolded verify_agent_credential_Inr Let_def]
  from facts obtain issuer where i: "find_issuer s (vc_issuer v) = Inr issuer"
    "check_proof c s d issuer (vc_subject_organization_id v) (vc_subject_agent_id v) (vc_environment v) = Inr ()"
    by auto
  have dates: "(\<exists>expires. parse_timestamp c (credential_get d ''expires_at'') = Some expires \<and>
       clock (tr_db s) \<le> expires + seconds 30) \<and>
    (py_truthy (credential_get d ''not_before'') \<longrightarrow>
       (\<exists>start. parse_timestamp c (credential_get d ''not_before'') = Some start \<and> start - seconds 30 \<le> clock (tr_db s)))"
    using facts by (auto simp: check_dates_def not_less split: option.splits if_splits)
  have reg: "\<forall>r. find (\<lambda>r. PStr (cr_credential_id r) = vc_credential_id v) (credentials (tr_db s)) = Some r \<longrightarrow>
       cr_status r \<notin> {CR_REVOKED, CR_EXPIRED}"
    using facts by (auto simp: check_registry_def split: if_splits)
  have subj: "chk \<longrightarrow> (\<forall>a \<in> set (agents (tr_db s)).
       vc_subject_agent_id v \<in> {PStr (ag_agent_identifier a), PStr (ag_name a)} \<longrightarrow> ag_status a = AG_ACTIVE)"
  proof (intro impI ballI)
    fix a assume chk and a: "a \<in> set (agents (tr_db s))"
      "vc_subject_agent_id v \<in> {PStr (ag_agent_identifier a), PStr (ag_name a)}"
    let ?P = "\<lambda>a. PStr (ag_agent_identifier a) = vc_subject_agent_id v \<or> PStr (ag_name a) = vc_subject_agent_id v"
    have "a \<in> set (filter ?P (agents (tr_db s)))" using a by auto
    moreover have "check_subject s (vc_subject_agent_id v) = Inr ()" using facts \<open>chk\<close> by simp
    ultimately show "ag_status a = AG_ACTIVE"
      unfolding check_subject_def by (auto dest!: one_or_none_mem split: if_splits)
  qed
  from i(2) obtain key_id sig k message where k: "find_issuer_key s issuer key_id = Inr k"
    "part_get (credential_get d ''proof'') ''type'' = Inr (PStr ATC_SIGNING_VERSION)"
    "part_get (credential_get d ''proof'') ''algorithm'' = Inr (PStr ''Ed25519'')"
    "part_get (credential_get d ''proof'') ''key_id'' = Inr key_id"
    "part_get (credential_get d ''proof'') ''signature'' = Inr sig"
    "credential_text c d (vc_subject_organization_id v) (vc_subject_agent_id v) (vc_environment v) = Inr message"
    "proof_verifies c k sig message"
    by (auto simp: check_proof_Inr)
  note key = find_issuer_key_Inr [OF k(1)]
  have proved: "\<exists>issuer k sig message.
    issuer \<in> set (tr_issuers s) \<and> vc_issuer v = PStr (is_issuer_id issuer) \<and> is_status issuer = IS_ACTIVE \<and>
    k \<in> set (tr_issuer_keys s) \<and> ik_issuer_id k = is_id issuer \<and> ik_status k \<noteq> IK_REVOKED \<and>
    part_get (credential_get d ''proof'') ''type'' = Inr (PStr ATC_SIGNING_VERSION) \<and>
    part_get (credential_get d ''proof'') ''algorithm'' = Inr (PStr ''Ed25519'') \<and>
    part_get (credential_get d ''proof'') ''key_id'' = Inr (PStr (ik_key_id k)) \<and>
    part_get (credential_get d ''proof'') ''signature'' = Inr sig \<and>
    credential_text c d (vc_subject_organization_id v) (vc_subject_agent_id v) (vc_environment v) = Inr message \<and>
    proof_verifies c k sig message"
    using find_issuer_Inr [OF i(1)] key k
    by (intro exI [of _ issuer] exI [of _ k] exI [of _ sig] exI [of _ message]) auto
  have presented: "\<not> (vc_environment v = PStr ''sandbox'' \<and> ex = ''production'')"
    "credential_get d ''credential_version'' = PStr ATC_VERSION"
    "vc_credential_id v = credential_get d ''credential_id''" "vc_issuer v = credential_get d ''issuer''"
    "part_get (credential_get d ''subject'') ''organization_id'' = Inr (vc_subject_organization_id v)"
    "part_get (credential_get d ''subject'') ''agent_id'' = Inr (vc_subject_agent_id v)"
    "vc_environment v = dict_get d ''environment'' (PStr ''production'')"
    using facts by simp_all
  show ?thesis by (intro conjI) (rule proved dates [THEN conjunct1] dates [THEN conjunct2] reg subj presented)+
qed

text \<open>
  C7. Revocation by id is effective for the presented credential and is bypassed by white space: a
  credential that verifies is refused as revoked once its id is revoked, but the same credential
  with a blank after its id verifies, because the signature covers the stripped id and the registry
  is asked for the unstripped one. In the same way a blank after \<open>sandbox\<close> makes a sandbox
  credential verify in production.
\<close>

theorem revocation_bypassed_by_padding:
  assumes v: "verify_agent_credential c s d ex chk = Inr v" and t: "credential_get d ''credential_id'' = PStr t"
    and revoked: "revoke_agent_credential s t reason = Inr (s', r)"
    and free: "\<forall>r \<in> set (credentials (tr_db s)). cr_credential_id r \<noteq> t @ '' ''"
  shows "verify_agent_credential c s' d ex chk = Inl (CredentialVerificationError ''CREDENTIAL_REVOKED'' 401) \<and>
    verify_agent_credential c s' (dict_put d ''credential_id'' (PStr (t @ '' ''))) ex chk =
      Inr (v\<lparr>vc_credential_id := PStr (t @ '' '')\<rparr>) \<and>
    (\<forall>d v. verify_agent_credential c s d ''sandbox'' chk = Inr v \<longrightarrow>
       dict_get d ''environment'' (PStr ''production'') = PStr ''sandbox'' \<longrightarrow>
       verify_agent_credential c s (dict_put d ''environment'' (PStr ''sandbox '')) ''production'' chk =
         Inr (v\<lparr>vc_environment := PStr ''sandbox ''\<rparr>))"
proof (intro conjI allI impI)
  note s' = revoke_agent_credential_Inr [OF revoked]
  have "check_registry s' (PStr t) = Inl (CredentialVerificationError ''CREDENTIAL_REVOKED'' 401)"
    by (simp only: check_registry_def s'(7) find_revoked [OF s'(8,5)] option.case s'(6) simp_thms if_True)
  then show "verify_agent_credential c s' d ex chk = Inl (CredentialVerificationError ''CREDENTIAL_REVOKED'' 401)"
    by (simp add: verify_agent_credential_frame [OF v s'(1-4)] t)
  have "check_registry s' (PStr (t @ '' '')) = Inr ()"
    using free s'(5) by (auto simp: check_registry_def s'(7) set_update_where split: option.splits dest!: find_SomeD)
  then show "verify_agent_credential c s' (dict_put d ''credential_id'' (PStr (t @ '' ''))) ex chk =
      Inr (v\<lparr>vc_credential_id := PStr (t @ '' '')\<rparr>)"
    by (simp add: verify_agent_credential_frame [OF verify_padded_id [OF v t free] s'(1-4)])
qed (rule verify_padded_env)

section \<open>An issued credential verifies\<close>

lemma no_space_digits: "list_all (\<lambda>c. \<not> is_space c) (str_of_int i)"
proof -
  have digit: "\<not> is_space (digit_char d)" if "d < 10" for d
    using that by (auto simp: digit_char_def is_space_def Let_def)
  have "list_all (\<lambda>c. \<not> is_space c) (str_of_pos n)" if "0 \<le> n" for n
    using that
  proof (induction n rule: str_of_pos.induct)
    case (1 n)
    then show ?case
      by (simp add: str_of_pos.simps [of n] digit nat_less_iff)
  qed
  moreover have "\<not> is_space (CHR ''-'')" by code_simp
  ultimately show ?thesis by (simp add: str_of_int_def)
qed

lemma no_space_pad: "list_all (\<lambda>c. \<not> is_space c) t \<Longrightarrow> list_all (\<lambda>c. \<not> is_space c) (pad n t)"
proof -
  have "\<not> is_space (CHR ''0'')" by code_simp
  then show "list_all (\<lambda>c. \<not> is_space c) t \<Longrightarrow> ?thesis" by (auto simp: pad_def list_all_iff)
qed

lemma no_space_utc_text: "list_all (\<lambda>c. \<not> is_space c) (utc_text t)"
proof -
  have "\<not> is_space (CHR ''-'')" "\<not> is_space (CHR ''T'')" "\<not> is_space (CHR '':'')" "\<not> is_space (CHR ''Z'')"
    by code_simp+
  then show ?thesis
    by (auto simp: utc_text_def utc_text_body_def date_str_def no_space_digits no_space_pad split: prod.split)
qed

definition iso_reads :: "'a issuer_crypto_scheme \<Rightarrow> datetime \<Rightarrow> bool" where
  "iso_reads c t = (fromisoformat c (utc_text_body t @ ''+00:00'') = Some (t - t mod seconds 1))"

lemma parse_timestamp_utc_text: "iso_reads c t \<Longrightarrow> parse_timestamp c (PStr (utc_text t)) = Some (t - t mod seconds 1)"
  using no_space_utc_text [of t]
  by (simp add: parse_timestamp_def strip_no_space Let_def iso_reads_def utc_text_def py_endswith_def)

text \<open>The laws of the keystore: what is signed under a key id verifies with its public key.\<close>

definition keystore_ok :: "'a issuer_crypto_scheme \<Rightarrow> bool" where
  "keystore_ok c = ((\<forall>x. b64decode_lax c (b64encode c x) = Some x) \<and> (\<forall>x. b64encode c x = [] \<longrightarrow> x = []) \<and>
     (\<forall>key_id message sig. private_sign c key_id message = Some sig \<longrightarrow>
        sig \<noteq> [] \<and> ed25519_key c (public_bytes c key_id) \<and> ed25519_verify c (public_bytes c key_id) sig message))"

lemma sign_credential_Inr:
  assumes "sign_credential c s issuer agent org key ty cl n_days None env = Inr (s', cred)"
  obtains sig row where
    "private_sign c (ik_key_id key) (build_atc_canonical_ascii ATC_VERSION
       (generate_credential_id (next_id (tr_db s))) (is_issuer_id issuer) (or_name org) (ag_agent_identifier agent) ty
       (utc_text (clock (tr_db s))) (Some (utc_text (clock (tr_db s)))) (utc_text (clock (tr_db s) + days n_days)) env
       (compute_claims_sha256 (sha256_hex c) (json_loads c) (PDict cl))) = Some sig"
    "tr_issuers s' = tr_issuers s" "tr_issuer_keys s' = tr_issuer_keys s" "clock (tr_db s') = clock (tr_db s)"
    "agents (tr_db s') = agents (tr_db s)" "credentials (tr_db s') = credentials (tr_db s) @ [row]"
    "cr_status row = CR_ACTIVE"
    "cred = credential_envelope (is_issuer_id issuer) (or_name org) (ag_agent_identifier agent) row
       (utc_text (clock (tr_db s)))"
    "cr_credential_id row = generate_credential_id (next_id (tr_db s))" "cr_credential_type row = ty"
    "cr_environment row = env" "cr_issued_at row = clock (tr_db s)"
    "cr_expires_at row = clock (tr_db s) + days n_days" "cr_claims_json row = PDict cl"
    "cr_signing_key_id row = ik_key_id key" "cr_signature_value row = b64encode c sig"
  using assms by (auto simp: sign_credential_def fresh_def Let_def split: option.splits)

lemma issue_agent_credential_Inr:
  assumes "issue_agent_credential c s issuer_id subject ty claims validity nb env = Inr (s', cred)"
  obtains issuer agent org key cl n_days where
    "find (\<lambda>i. is_issuer_id i = issuer_id) (tr_issuers s) = Some issuer" "is_status issuer = IS_ACTIVE"
    "resolve_subject s subject = Some agent" "ag_organization_id agent = Some (is_organization_id issuer)"
    "ag_status agent = AG_ACTIVE" "find (\<lambda>o1. or_id o1 = is_organization_id issuer) (tr_organizations s) = Some org"
    "filter (active_issuer_key (is_id issuer)) (tr_issuer_keys s) = [key]"
    "typed_claims s agent ty claims validity = Inr (cl, n_days)"
    "sign_credential c s issuer agent org key ty cl n_days nb env = Inr (s', cred)"
proof -
  from assms obtain issuer where i: "find (\<lambda>i. is_issuer_id i = issuer_id) (tr_issuers s) = Some issuer"
    by (auto simp: issue_agent_credential_def split: option.splits)
  have "is_status issuer = IS_ACTIVE"
    using assms i by (cases "is_status issuer") (simp_all add: issue_agent_credential_def)
  with assms i show thesis
    by (auto simp: issue_agent_credential_def rbind_Inr_iff one_or_none_def intro: that
        split: option.splits if_splits list.splits)
qed

definition credential_part :: "(string \<times> pyval) list \<Rightarrow> string \<Rightarrow> pyval" where
  "credential_part d k = (case part_get (credential_get d ''subject'') k of Inr v \<Rightarrow> v | Inl _ \<Rightarrow> PNone)"

lemma issued_credential_result:
  assumes issued: "issue_agent_credential c s issuer_id subject ty claims validity None env = Inr (s', cred)"
    and laws: "keystore_ok c"
      "\<forall>r \<in> set (credentials (tr_db s')). iso_reads c (cr_issued_at r) \<and> iso_reads c (cr_expires_at r)"
    and validity: "\<forall>n. validity = Some n \<longrightarrow> 0 \<le> n"
    and keys: "distinct (map ik_key_id (tr_issuer_keys s))"
      "\<forall>k \<in> set (tr_issuer_keys s). ik_key_id k \<noteq> [] \<and> ik_public_key k = b64encode c (public_bytes c (ik_key_id k))"
    and unused: "\<forall>r \<in> set (credentials (tr_db s)). cr_credential_id r \<noteq> generate_credential_id (next_id (tr_db s))"
    and names: "\<forall>a. resolve_subject s subject = Some a \<longrightarrow> ag_agent_identifier a \<noteq> [] \<and>
      filter (\<lambda>b. ag_agent_identifier b = ag_agent_identifier a \<or> ag_name b = ag_agent_identifier a) (agents (tr_db s)) = [a]"
      "issuer_id \<noteq> []" "\<forall>o1 \<in> set (tr_organizations s). or_name o1 \<noteq> []"
    and env: "env = ''sandbox'' \<longrightarrow> ex \<noteq> ''production''"
  shows "verify_agent_credential c s' cred ex chk = Inr
    \<lparr>vc_credential_id = PStr (generate_credential_id (next_id (tr_db s))), vc_credential_type = PStr ty,
     vc_issuer = PStr issuer_id, vc_subject_organization_id = credential_part cred ''organization_id'',
     vc_subject_agent_id = credential_part cred ''agent_id'', vc_environment = PStr env,
     vc_expires_at = credential_get cred ''expires_at'', vc_claims = credential_get cred ''claims''\<rparr>"
proof -
  obtain issuer agent org key cl n_days where
    i: "find (\<lambda>i. is_issuer_id i = issuer_id) (tr_issuers s) = Some issuer" "is_status issuer = IS_ACTIVE" and
    a: "resolve_subject s subject = Some agent" "ag_status agent = AG_ACTIVE" and
    org: "find (\<lambda>o1. or_id o1 = is_organization_id issuer) (tr_organizations s) = Some org" and
    key: "filter (active_issuer_key (is_id issuer)) (tr_issuer_keys s) = [key]" and
    cl: "typed_claims s agent ty claims validity = Inr (cl, n_days)" and
    sg: "sign_credential c s issuer agent org key ty cl n_days None env = Inr (s', cred)"
    by (rule issue_agent_credential_Inr [OF issued])
  obtain sig row where
    sig: "private_sign c (ik_key_id key) (build_atc_canonical_ascii ATC_VERSION
       (generate_credential_id (next_id (tr_db s))) (is_issuer_id issuer) (or_name org) (ag_agent_identifier agent) ty
       (utc_text (clock (tr_db s))) (Some (utc_text (clock (tr_db s)))) (utc_text (clock (tr_db s) + days n_days)) env
       (compute_claims_sha256 (sha256_hex c) (json_loads c) (PDict cl))) = Some sig" and
    s': "tr_issuers s' = tr_issuers s" "tr_issuer_keys s' = tr_issuer_keys s" "clock (tr_db s') = clock (tr_db s)"
    "agents (tr_db s') = agents (tr_db s)" "credentials (tr_db s') = credentials (tr_db s) @ [row]"
    "cr_status row = CR_ACTIVE" and
    cred: "cred = credential_envelope (is_issuer_id issuer) (or_name org) (ag_agent_identifier agent) row
       (utc_text (clock (tr_db s)))" and
    row: "cr_credential_id row = generate_credential_id (next_id (tr_db s))" "cr_credential_type row = ty"
    "cr_environment row = env" "cr_issued_at row = clock (tr_db s)"
    "cr_expires_at row = clock (tr_db s) + days n_days" "cr_claims_json row = PDict cl"
    "cr_signing_key_id row = ik_key_id key" "cr_signature_value row = b64encode c sig"
    by (rule sign_credential_Inr [OF sg])
  note get = cred credential_envelope_def credential_get_def row
  have iso: "iso_reads c (clock (tr_db s))" "iso_reads c (clock (tr_db s) + days n_days)"
    using laws(2) by (simp_all add: s'(5) row)
  have n: "0 \<le> n_days" "n_days \<le> 90" "ty \<noteq> []"
    using cl validity by (auto simp: typed_claims_def rbind_Inr_iff split: if_splits option.splits)
  have k: "key \<in> set (tr_issuer_keys s)" "ik_issuer_id key = is_id issuer" "ik_status key = IK_ACTIVE"
    using key by (auto simp: filter_eq_Cons_iff active_issuer_key_def)
  have dates: "check_dates c (clock (tr_db s)) (credential_get cred ''not_before'') (credential_get cred ''expires_at'') = Inr ()"
  proof -
    have m: "0 \<le> x mod seconds 1 \<and> x mod seconds 1 < seconds 1" for x by (simp add: seconds_def)
    have "0 \<le> days n_days" using n by (simp add: days_def hours_def minutes_def seconds_def)
    moreover have "seconds 1 < seconds 30" by (simp add: seconds_def)
    ultimately have "\<not> clock (tr_db s) > clock (tr_db s) + days n_days - (clock (tr_db s) + days n_days) mod seconds 1 + seconds 30"
      "\<not> clock (tr_db s) < clock (tr_db s) - clock (tr_db s) mod seconds 1 - seconds 30"
      using m [of "clock (tr_db s)"] m [of "clock (tr_db s) + days n_days"] by linarith+
    then show ?thesis
      using iso by (simp add: get check_dates_def parse_timestamp_utc_text)
  qed
  have proof_ok: "check_proof c s' cred issuer (PStr (or_name org)) (PStr (ag_agent_identifier agent)) (PStr env) = Inr ()"
  proof -
    have "k' = key" if "k' \<in> set (tr_issuer_keys s)" "ik_key_id k' = ik_key_id key" for k'
      using keys(1) k(1) that by (auto simp: distinct_map dest: inj_onD)
    then have "find (\<lambda>k'. ik_key_id k' = ik_key_id key \<and> ik_issuer_id k' = is_id issuer) (tr_issuer_keys s) = Some key"
      using k find_Some_exists [of key "tr_issuer_keys s" "\<lambda>k'. ik_key_id k' = ik_key_id key \<and> ik_issuer_id k' = is_id issuer"]
      by (auto dest: find_SomeD)
    then have fk: "find_issuer_key s' issuer (PStr (ik_key_id key)) = Inr key"
      using k(3) by (simp add: find_issuer_key_def s'(2))
    have pv: "proof_verifies c key (PStr (b64encode c sig)) (build_atc_canonical_ascii ATC_VERSION
       (generate_credential_id (next_id (tr_db s))) (is_issuer_id issuer) (or_name org) (ag_agent_identifier agent) ty
       (utc_text (clock (tr_db s))) (Some (utc_text (clock (tr_db s)))) (utc_text (clock (tr_db s) + days n_days)) env
       (compute_claims_sha256 (sha256_hex c) (json_loads c) (PDict cl)))"
      using laws(1) sig k(1) keys(2) by (auto simp: keystore_ok_def proof_verifies_def)
    have "sig \<noteq> []" using laws(1) sig unfolding keystore_ok_def by blast
    then have ne: "b64encode c sig \<noteq> []" "ik_key_id key \<noteq> []" "utc_text t \<noteq> []" for t
      using laws(1) k(1) keys(2) unfolding keystore_ok_def by (blast, blast, simp add: utc_text_def)
    show ?thesis
      using fk pv ne by (simp add: check_proof_Inr get part_get_def credential_text_def need_text_def Let_def)
  qed
  have "find (\<lambda>r. cr_credential_id r = generate_credential_id (next_id (tr_db s))) (credentials (tr_db s)) = None"
    using unused by (simp add: find_None)
  then have "find (\<lambda>r. cr_credential_id r = generate_credential_id (next_id (tr_db s))) (credentials (tr_db s) @ [row])
      = Some row"
    by (simp add: find_append row(1))
  then have registry: "check_registry s' (PStr (generate_credential_id (next_id (tr_db s)))) = Inr ()"
    by (simp add: check_registry_def s'(5,6))
  have subject: "check_subject s' (PStr (ag_agent_identifier agent)) = Inr ()"
    using names(1) a by (simp add: check_subject_def s'(4) one_or_none_def)
  have issuer: "find_issuer s' (PStr (is_issuer_id issuer)) = Inr issuer" "is_issuer_id issuer = issuer_id"
    using i find_SomeD [OF i(1)] by (simp_all add: find_issuer_def s'(1))
  have text_ne: "utc_text t \<noteq> []" "generate_credential_id m \<noteq> []" for t m
    by (simp_all add: utc_text_def generate_credential_id_def)
  show ?thesis
    using dates proof_ok registry subject issuer env names a org n(3) text_ne find_SomeD [OF org]
    unfolding verify_agent_credential_Inr Let_def
    by (simp add: get part_get_def s'(3) credential_part_def)
qed

text \<open>
  Issuing and verifying fit together: what \<open>issue_agent_credential\<close> returns for a non-negative
  validity verifies in the state it leaves, given that the keystore signs with the private key of
  the stored public key, that \<open>fromisoformat\<close> reads the two written times, and the uniqueness the
  database enforces (key ids, credential ids) and the code presumes (the names of agents); a sandbox
  credential does so outside production.
\<close>

theorem issued_credential_verifies:
  assumes issued: "issue_agent_credential c s issuer_id subject ty claims validity None env = Inr (s', cred)"
    and laws: "keystore_ok c"
      "\<forall>r \<in> set (credentials (tr_db s')). iso_reads c (cr_issued_at r) \<and> iso_reads c (cr_expires_at r)"
    and validity: "\<forall>n. validity = Some n \<longrightarrow> 0 \<le> n"
    and keys: "distinct (map ik_key_id (tr_issuer_keys s))"
      "\<forall>k \<in> set (tr_issuer_keys s). ik_key_id k \<noteq> [] \<and> ik_public_key k = b64encode c (public_bytes c (ik_key_id k))"
    and unused: "\<forall>r \<in> set (credentials (tr_db s)). cr_credential_id r \<noteq> generate_credential_id (next_id (tr_db s))"
    and names: "\<forall>a. resolve_subject s subject = Some a \<longrightarrow> ag_agent_identifier a \<noteq> [] \<and>
      filter (\<lambda>b. ag_agent_identifier b = ag_agent_identifier a \<or> ag_name b = ag_agent_identifier a) (agents (tr_db s)) = [a]"
      "issuer_id \<noteq> []" "\<forall>o1 \<in> set (tr_organizations s). or_name o1 \<noteq> []"
    and env: "env = ''sandbox'' \<longrightarrow> ex \<noteq> ''production''"
  shows "\<exists>v. verify_agent_credential c s' cred ex chk = Inr v \<and>
    vc_credential_type v = PStr ty \<and> vc_issuer v = PStr issuer_id \<and> vc_environment v = PStr env"
  by (simp add: issued_credential_result [OF assms])

section \<open>An example\<close>

definition demo_issuer_crypto :: issuer_crypto where
  "demo_issuer_crypto = \<lparr>sha256_hex = (\<lambda>s. s), b64decode = Some, b64encode = (\<lambda>s. s), ed25519_key = (\<lambda>_. True),
     ed25519_verify = (\<lambda>pub sig message. sig = ''s'' @ pub @ message), b64decode_lax = Some, public_bytes = (\<lambda>k. k),
     private_sign = (\<lambda>k message. Some (''s'' @ k @ message)), json_loads = (\<lambda>_. None),
     fromisoformat = (\<lambda>t. parse_utc (take (length t - 6) t @ ''Z''))\<rparr>"

definition demo_trust :: trust where
  "demo_trust = \<lparr>tr_db = demo_db\<lparr>credentials := []\<rparr>,
     tr_issuers = [\<lparr>is_id = 70, is_issuer_id = ''iss_1'', is_organization_id = 7, is_name = ''Issuer'', is_status = IS_ACTIVE\<rparr>],
     tr_issuer_keys = [new_issuer_key demo_issuer_crypto 71 72 70 None],
     tr_organizations = [\<lparr>or_id = 7, or_name = ''Acme'', or_is_active = True\<rparr>], tr_capabilities = []\<rparr>"

definition demo_issue :: "credential_error + trust \<times> (string \<times> pyval) list" where
  "demo_issue = issue_agent_credential demo_issuer_crypto demo_trust ''iss_1'' ''agt_buyer'' ''AgentIdentityCredential''
     None None None ''production''"

definition issued_state :: trust where
  "issued_state = (case demo_issue of Inr (s, cred) \<Rightarrow> s | _ \<Rightarrow> demo_trust)"

definition issued_credential :: "(string \<times> pyval) list" where
  "issued_credential = (case demo_issue of Inr (s, cred) \<Rightarrow> cred | _ \<Rightarrow> [])"

lemma demo_iso: "iso_reads demo_issuer_crypto 0" "iso_reads demo_issuer_crypto (days 30)"
  by code_simp+

lemma demo_uuid: "parse_uuid ''agt_buyer'' = None"
  by code_simp

lemmas demo_trust_defs = demo_trust_def demo_issuer_crypto_def new_issuer_key_def active_issuer_key_def
  resolve_subject_def demo_db_def demo_agent_def demo_uuid one_or_none_def rbind_def

lemma demo_agent_found: "resolve_subject demo_trust ''agt_buyer'' = Some (demo_agent 10 ''buyer'')"
  by (simp add: demo_trust_defs)

lemma private_sign_demo: "private_sign demo_issuer_crypto k t = Some (''s'' @ k @ t)"
  by (simp add: demo_issuer_crypto_def)

lemma demo_issued: "\<exists>s cred r. demo_issue = Inr (s, cred) \<and> credentials (tr_db s) = [r] \<and> cr_issued_at r = 0 \<and>
    cr_expires_at r = days 30 \<and> cr_credential_id r = generate_credential_id (next_id (tr_db demo_trust)) \<and>
    credential_get cred ''credential_id'' = PStr (cr_credential_id r)"
proof -
  have "find (\<lambda>i. is_issuer_id i = ''iss_1'') (tr_issuers demo_trust) = Some (hd (tr_issuers demo_trust))"
    "is_status (hd (tr_issuers demo_trust)) = IS_ACTIVE" "is_organization_id (hd (tr_issuers demo_trust)) = 7"
    "find (\<lambda>o1. or_id o1 = 7) (tr_organizations demo_trust) = Some (hd (tr_organizations demo_trust))"
    "one_or_none (filter (active_issuer_key (is_id (hd (tr_issuers demo_trust)))) (tr_issuer_keys demo_trust)) =
       Inr (Some (hd (tr_issuer_keys demo_trust)))"
    "credentials (tr_db demo_trust) = []" "clock (tr_db demo_trust) = 0"
    "ag_organization_id (demo_agent 10 ''buyer'') = Some 7" "ag_status (demo_agent 10 ''buyer'') = AG_ACTIVE"
    by (simp_all add: demo_trust_defs empty_db_def Let_def)
  then show ?thesis
    by (simp add: demo_issue_def issue_agent_credential_def demo_agent_found typed_claims_def sign_credential_def Let_def
        fresh_def rbind_def private_sign_demo credential_get_def credential_envelope_def)
qed

lemma demo_issue_eq: "demo_issue = Inr (issued_state, issued_credential)"
proof -
  obtain s cred where d: "demo_issue = Inr (s, cred)" using demo_issued by blast
  show ?thesis unfolding issued_state_def issued_credential_def d by simp
qed

lemma demo_keystore: "keystore_ok demo_issuer_crypto"
  by (auto simp: keystore_ok_def demo_issuer_crypto_def)

lemma demo_premises:
  "\<forall>r \<in> set (credentials (tr_db issued_state)). iso_reads demo_issuer_crypto (cr_issued_at r) \<and>
     iso_reads demo_issuer_crypto (cr_expires_at r)"
  "distinct (map ik_key_id (tr_issuer_keys demo_trust))"
  "\<forall>k \<in> set (tr_issuer_keys demo_trust). ik_key_id k \<noteq> [] \<and>
     ik_public_key k = b64encode demo_issuer_crypto (public_bytes demo_issuer_crypto (ik_key_id k))"
  "\<forall>r \<in> set (credentials (tr_db demo_trust)). cr_credential_id r \<noteq> generate_credential_id (next_id (tr_db demo_trust))"
  "\<forall>a. resolve_subject demo_trust ''agt_buyer'' = Some a \<longrightarrow> ag_agent_identifier a \<noteq> [] \<and>
     filter (\<lambda>b. ag_agent_identifier b = ag_agent_identifier a \<or> ag_name b = ag_agent_identifier a)
       (agents (tr_db demo_trust)) = [a]"
  "\<forall>o1 \<in> set (tr_organizations demo_trust). or_name o1 \<noteq> []"
proof -
  obtain r where "credentials (tr_db issued_state) = [r]" "cr_issued_at r = 0" "cr_expires_at r = days 30"
    using demo_issued by (auto simp: demo_issue_eq)
  then show "\<forall>r \<in> set (credentials (tr_db issued_state)). iso_reads demo_issuer_crypto (cr_issued_at r) \<and>
     iso_reads demo_issuer_crypto (cr_expires_at r)"
    using demo_iso by simp
  have "agents (tr_db demo_trust) = [demo_agent 10 ''buyer'', demo_agent 11 ''helper'']"
    by (simp add: demo_trust_def demo_db_def)
  then show "\<forall>a. resolve_subject demo_trust ''agt_buyer'' = Some a \<longrightarrow> ag_agent_identifier a \<noteq> [] \<and>
     filter (\<lambda>b. ag_agent_identifier b = ag_agent_identifier a \<or> ag_name b = ag_agent_identifier a)
       (agents (tr_db demo_trust)) = [a]"
    unfolding demo_agent_found by (simp add: demo_agent_def)
qed (simp_all add: demo_trust_def, simp_all add: demo_db_def empty_db_def new_issuer_key_def Let_def
      generate_issuer_key_id_def demo_issuer_crypto_def)

lemmas demo_result = issued_credential_result [OF demo_issue_eq [unfolded demo_issue_def] demo_keystore
  demo_premises(1) _ demo_premises(2-5) _ demo_premises(6), simplified]

lemma demo_verified: "\<exists>v. verify_agent_credential demo_issuer_crypto issued_state issued_credential ''production'' True = Inr v"
  using demo_result by simp

lemma demo_id:
  "credential_get issued_credential ''credential_id'' = PStr (generate_credential_id (next_id (tr_db demo_trust)))"
  "\<exists>r. credentials (tr_db issued_state) = [r] \<and> cr_credential_id r = generate_credential_id (next_id (tr_db demo_trust))"
  using demo_issued by (auto simp: demo_issue_eq)

theorem issued_credential_verifies_witness:
  "\<exists>v. verify_agent_credential demo_issuer_crypto issued_state issued_credential ''staging'' True = Inr v \<and>
     vc_credential_type v = PStr ''AgentIdentityCredential'' \<and> vc_issuer v = PStr ''iss_1'' \<and>
     vc_environment v = PStr ''production''"
  by (rule issued_credential_verifies [OF demo_issue_eq [unfolded demo_issue_def] demo_keystore demo_premises(1) _
        demo_premises(2-5) _ demo_premises(6)]) simp_all

theorem verified_credential_sound_witness:
  "\<exists>v k sig message. verify_agent_credential demo_issuer_crypto issued_state issued_credential ''production'' True = Inr v \<and>
     k \<in> set (tr_issuer_keys issued_state) \<and> ik_status k \<noteq> IK_REVOKED \<and>
     part_get (credential_get issued_credential ''proof'') ''signature'' = Inr sig \<and> proof_verifies demo_issuer_crypto k sig message"
proof -
  obtain v where v: "verify_agent_credential demo_issuer_crypto issued_state issued_credential ''production'' True = Inr v"
    using demo_verified by blast
  show ?thesis using v verified_credential_sound [OF v] by blast
qed

theorem revocation_bypassed_by_padding_witness:
  "\<exists>s t v. revoke_agent_credential issued_state t ''compromised'' = Inr s \<and>
     verify_agent_credential demo_issuer_crypto (fst s) (dict_put issued_credential ''credential_id'' (PStr (t @ '' '')))
       ''production'' True = Inr v"
proof -
  let ?t = "generate_credential_id (next_id (tr_db demo_trust))"
  obtain v where v: "verify_agent_credential demo_issuer_crypto issued_state issued_credential ''production'' True = Inr v"
    using demo_verified by blast
  obtain s' r where s': "revoke_agent_credential issued_state ?t ''compromised'' = Inr (s', r)"
    using demo_id(2) by (auto simp: revoke_agent_credential_def Let_def)
  have "\<forall>r \<in> set (credentials (tr_db issued_state)). cr_credential_id r \<noteq> ?t @ '' ''"
    using demo_id(2) by auto
  from revocation_bypassed_by_padding [OF v demo_id(1) s' this] s' show ?thesis by force
qed

end
