(* ===== verification/GatewayIdentity.thy ===== *)
theory GatewayIdentity
  imports Credentials
begin

text \<open>
  The attestations of the gateway (\<open>services/gateway_identity.py\<close>): a JSON object of claims and its
  Ed25519 signature, both in URL-safe Base64 without padding. The gateway's key pair and the codecs
  are parameters; where the message of an error quotes an exception, the quotation is left out.
\<close>

section \<open>Creation\<close>

record gateway_crypto = issuer_crypto +
  urlsafe_b64encode :: "string \<Rightarrow> string"
  urlsafe_b64decode :: "string \<Rightarrow> string option"
  gateway_public :: string
  gateway_sign :: "string \<Rightarrow> string"

datatype attestation_error = GatewayAttestationError string | AttestationRaised pyexn

definition GATEWAY_KEY_ID :: string where "GATEWAY_KEY_ID = ''gateway_key_primary''"
definition GATEWAY_ISSUER :: string where "GATEWAY_ISSUER = ''agenttrust-gateway''"
definition DEFAULT_ATTESTATION_TTL_SECONDS :: int where "DEFAULT_ATTESTATION_TTL_SECONDS = 60"

definition rstrip_padding :: "string \<Rightarrow> string" where
  "rstrip_padding s = rev (dropWhile (\<lambda>c. c = CHR ''='') (rev s))"

record attested =
  at_source_address :: string
  at_target_address :: string
  at_capability :: string
  at_message_id :: string
  at_payload_sha256 :: string

definition attestation_claims :: "int \<Rightarrow> int \<Rightarrow> attested \<Rightarrow> (string \<times> pyval) list" where
  "attestation_claims now ttl a =
     [(''iss'', PStr GATEWAY_ISSUER), (''kid'', PStr GATEWAY_KEY_ID), (''src'', PStr (at_source_address a)),
      (''tgt'', PStr (at_target_address a)), (''cap'', PStr (at_capability a)), (''mid'', PStr (at_message_id a)),
      (''hsh'', PStr (at_payload_sha256 a)), (''iat'', PInt now), (''exp'', PInt (now + ttl))]"

definition create_gateway_attestation ::
    "'a gateway_crypto_scheme \<Rightarrow> int \<Rightarrow> attested \<Rightarrow> int \<Rightarrow> (string \<times> pyval) list \<Rightarrow> string" where
  "create_gateway_attestation c now a ttl extra_claims =
     (let claims = foldl (\<lambda>d (k, v). dict_put d k v) (attestation_claims now ttl a) extra_claims;
          claims_json = canonical_json (PDict claims);
          claims_b64 = rstrip_padding (urlsafe_b64encode c claims_json);
          sig_b64 = rstrip_padding (urlsafe_b64encode c (gateway_sign c claims_json))
      in ''atp_attest_'' @ claims_b64 @ ''.'' @ sig_b64)"

section \<open>Verification\<close>

definition pad_b64 :: "'a gateway_crypto_scheme \<Rightarrow> string \<Rightarrow> string option" where
  "pad_b64 c s =
     (let missing = length s mod 4;
          t = (if missing \<noteq> 0 then s @ replicate (4 - missing) (CHR ''='') else s)
      in if list_all (\<lambda>x. (of_char x :: nat) < 128) t then urlsafe_b64decode c t else None)"

text \<open>\<open>now > exp + clock_skew_seconds\<close> for an \<open>exp\<close> that is an int, a Boolean or a float\<close>

definition past_expiry :: "int \<Rightarrow> pyval \<Rightarrow> int \<Rightarrow> bool" where
  "past_expiry now ex skew =
     (case ex of
        PInt e \<Rightarrow> now > e + skew
      | PBool b \<Rightarrow> now > (if b then 1 else 0) + skew
      | PFloat (FNum x) \<Rightarrow> float_lt (float_of_rat (x + of_int skew)) (FNum (of_int now))
      | PFloat f \<Rightarrow> float_lt f (FNum (of_int now))
      | _ \<Rightarrow> False)"

text \<open>The public key: the given one or the gateway's own.\<close>

definition attestation_key :: "'a gateway_crypto_scheme \<Rightarrow> string option \<Rightarrow> string option" where
  "attestation_key c given =
     (case given of
        Some k \<Rightarrow> if k = [] then Some (gateway_public c)
                  else (case b64decode_lax c k of Some pub \<Rightarrow> if ed25519_key c pub then Some pub else None | None \<Rightarrow> None)
      | None \<Rightarrow> Some (gateway_public c))"

definition check_claims :: "int \<Rightarrow> int \<Rightarrow> pyval \<Rightarrow> attestation_error + pyval" where
  "check_claims now clock_skew_seconds claims =
     (case (val_get claims ''iss'' PNone, val_get claims ''exp'' PNone) of
        (Inr iss, Inr ex) \<Rightarrow>
          if iss \<noteq> PStr GATEWAY_ISSUER
          then Inl (GatewayAttestationError (''Invalid attestation issuer '' @ [CHR 0x27] @ py_str iss @ [CHR 0x27] @ ''.''))
          else if \<not> is_number ex
          then Inl (GatewayAttestationError (''Attestation missing valid '' @ [CHR 0x27] @ ''exp'' @ [CHR 0x27] @ '' claim.''))
          else if past_expiry now ex clock_skew_seconds
          then Inl (GatewayAttestationError (''Gateway attestation expired at '' @ py_str ex @ '' (current time: ''
                 @ str_of_int now @ '').''))
          else Inr claims
      | _ \<Rightarrow> Inl (AttestationRaised AttributeError))"

definition verify_gateway_attestation ::
    "'a gateway_crypto_scheme \<Rightarrow> int \<Rightarrow> string \<Rightarrow> string option \<Rightarrow> int \<Rightarrow> attestation_error + pyval" where
  "verify_gateway_attestation c now token public_key clock_skew_seconds =
     (if token = [] \<or> \<not> py_startswith token ''atp_attest_''
      then Inl (GatewayAttestationError (''Invalid attestation token prefix. Expected '' @ [CHR 0x27] @ ''atp_attest_''
             @ [CHR 0x27] @ ''.''))
      else (case py_split (CHR ''.'') (drop 11 token) of
          [claims_b64, sig_b64] \<Rightarrow>
            (case (pad_b64 c claims_b64, pad_b64 c sig_b64) of
               (Some claims_json, Some sig) \<Rightarrow>
                 (case attestation_key c public_key of
                    None \<Rightarrow> Inl (GatewayAttestationError ''Invalid verification public key'')
                  | Some pub \<Rightarrow>
                      if \<not> ed25519_verify c pub sig claims_json
                      then Inl (GatewayAttestationError ''Gateway attestation signature is invalid.'')
                      else (case json_loads c claims_json of
                          None \<Rightarrow> Inl (GatewayAttestationError ''Attestation claims JSON decode error'')
                        | Some claims \<Rightarrow> check_claims now clock_skew_seconds claims))
             | _ \<Rightarrow> Inl (GatewayAttestationError ''Failed to base64 decode attestation''))
        | _ \<Rightarrow> Inl (GatewayAttestationError (''Invalid attestation token format. Expected '' @ [CHR 0x27]
                 @ ''<claims>.<sig>'' @ [CHR 0x27] @ ''.''))))"

section \<open>What an attestation is worth\<close>

text \<open>The codecs at a text: decoding undoes encoding, whose output has no dot and is ASCII.\<close>

definition codec_ok :: "'a gateway_crypto_scheme \<Rightarrow> string \<Rightarrow> bool" where
  "codec_ok c x =
     (pad_b64 c (rstrip_padding (urlsafe_b64encode c x)) = Some x \<and>
      CHR ''.'' \<notin> set (rstrip_padding (urlsafe_b64encode c x)))"

text \<open>
  An attestation is accepted while it lives. With codecs that invert each other, the gateway's
  key pair and a JSON reader that returns the claims, the token that
  \<open>create_gateway_attestation\<close> makes is accepted up to its lifetime and the skew, and yields the
  claims; afterwards it is refused. Whatever token is accepted carries a signature of the
  verification key over the text of the claims it yields.
\<close>

theorem attestation_roundtrip:
  assumes "codec_ok c (canonical_json (PDict (attestation_claims now ttl a)))"
      "codec_ok c (gateway_sign c (canonical_json (PDict (attestation_claims now ttl a))))"
    and "\<And>m. ed25519_verify c (gateway_public c) (gateway_sign c m) m"
    and "json_loads c (canonical_json (PDict (attestation_claims now ttl a))) = Some (PDict d)"
      "map_of d = map_of (attestation_claims now ttl a)"
  shows "verify_gateway_attestation c later (create_gateway_attestation c now a ttl []) None skew =
      (if later \<le> now + ttl + skew then Inr (PDict d)
       else Inl (GatewayAttestationError (''Gateway attestation expired at '' @ str_of_int (now + ttl) @ '' (current time: ''
              @ str_of_int later @ '').''))) \<and>
    (verify_gateway_attestation c later token key skew = Inr claims \<longrightarrow>
      (\<exists>pub sig text. attestation_key c key = Some pub \<and> ed25519_verify c pub sig text \<and> json_loads c text = Some claims))"
proof
  let ?json = "canonical_json (PDict (attestation_claims now ttl a))"
  let ?b = "\<lambda>x. rstrip_padding (urlsafe_b64encode c x)"
  have parts: "py_split (CHR ''.'') (drop 11 (create_gateway_attestation c now a ttl [])) = [?b ?json, ?b (gateway_sign c ?json)]"
    using assms(1,2) by (simp add: create_gateway_attestation_def codec_ok_def Let_def py_split_append py_split_no_sep)
  have pre: "create_gateway_attestation c now a ttl [] \<noteq> []" "py_startswith (create_gateway_attestation c now a ttl []) ''atp_attest_''"
    by (simp_all add: create_gateway_attestation_def Let_def py_startswith_def)
  have get: "dict_get d k PNone = dict_get (attestation_claims now ttl a) k PNone" for k
    by (simp add: dict_get_def assms(5))
  have "check_claims later skew (PDict d) =
      (if later \<le> now + ttl + skew then Inr (PDict d)
       else Inl (GatewayAttestationError (''Gateway attestation expired at '' @ str_of_int (now + ttl) @ '' (current time: ''
              @ str_of_int later @ '').'')))"
    unfolding check_claims_def by (simp add: get) (simp add: attestation_claims_def dict_get_def past_expiry_def py_str_def)
  then show "verify_gateway_attestation c later (create_gateway_attestation c now a ttl []) None skew =
      (if later \<le> now + ttl + skew then Inr (PDict d)
       else Inl (GatewayAttestationError (''Gateway attestation expired at '' @ str_of_int (now + ttl) @ '' (current time: ''
              @ str_of_int later @ '').'')))"
    using assms(1,2) unfolding verify_gateway_attestation_def parts
    by (simp add: pre codec_ok_def attestation_key_def assms(3,4))
next
  have "check_claims later skew v = Inr claims \<Longrightarrow> v = claims" for v
    by (auto simp: check_claims_def split: sum.splits if_splits)
  then show "verify_gateway_attestation c later token key skew = Inr claims \<longrightarrow>
      (\<exists>pub sig text. attestation_key c key = Some pub \<and> ed25519_verify c pub sig text \<and> json_loads c text = Some claims)"
    by (auto simp: verify_gateway_attestation_def split: if_splits list.splits option.splits)
qed

text \<open>An instance: the only texts that occur are the claims and the signature.\<close>

definition demo_attested :: attested where
  "demo_attested = \<lparr>at_source_address = ''atp://acme/buyer'', at_target_address = ''atp://inn/hotel'',
     at_capability = ''hotel.search@1.0'', at_message_id = ''msg_1'', at_payload_sha256 = ''h''\<rparr>"

definition demo_gateway_crypto :: gateway_crypto where
  "demo_gateway_crypto = \<lparr>sha256_hex = (\<lambda>s. s), b64decode = Some, b64encode = (\<lambda>s. s), ed25519_key = (\<lambda>_. True),
     ed25519_verify = (\<lambda>pub sig msg. sig = ''s''), b64decode_lax = Some, public_bytes = (\<lambda>s. s),
     private_sign = (\<lambda>k s. Some s), json_loads = (\<lambda>s. Some (PDict (attestation_claims 0 60 demo_attested))),
     fromisoformat = (\<lambda>s. None), urlsafe_b64encode = (\<lambda>s. if s = ''s'' then ''c2c'' else ''e30=''),
     urlsafe_b64decode = (\<lambda>t. if t = ''c2c='' then Some ''s'' else if t = ''e30=''
        then Some (canonical_json (PDict (attestation_claims 0 60 demo_attested))) else None),
     gateway_public = ''gw'', gateway_sign = (\<lambda>s. ''s'')\<rparr>"

theorem attestation_roundtrip_witness:
  "verify_gateway_attestation demo_gateway_crypto 75 (create_gateway_attestation demo_gateway_crypto 0 demo_attested 60 []) None 15 =
     Inr (PDict (attestation_claims 0 60 demo_attested))"
proof -
  let ?c = demo_gateway_crypto and ?json = "canonical_json (PDict (attestation_claims 0 60 demo_attested))"
  have "?json \<noteq> ''s''" by (simp add: canonical_json_def)
  then have "codec_ok ?c ?json" "codec_ok ?c (gateway_sign ?c ?json)"
    by (simp_all add: codec_ok_def demo_gateway_crypto_def pad_b64_def rstrip_padding_def Let_def)
  moreover have "ed25519_verify ?c (gateway_public ?c) (gateway_sign ?c m) m" for m by (simp add: demo_gateway_crypto_def)
  moreover have "json_loads ?c ?json = Some (PDict (attestation_claims 0 60 demo_attested))"
    by (simp add: demo_gateway_crypto_def)
  ultimately show ?thesis
    using attestation_roundtrip [where c = ?c and now = 0 and ttl = 60 and a = demo_attested and later = 75 and skew = 15
      and d = "attestation_claims 0 60 demo_attested"] by simp
qed

end
