(* ===== verification/Ssrf.thy ===== *)
theory Ssrf
  imports Models "HOL-Library.Word"
begin

unbundle bit_operations_syntax

text \<open>
  Where the gateway may connect (\<open>services/ssrf_protection.py\<close>), on the addresses of \<open>ipaddress\<close> as
  words of 32 and 128 bits and on the part of \<open>urllib.parse.urlparse\<close> the check reads, both of Python
  3.12, the version of the container image. Texts are ASCII. The resolver of host names is a parameter. An error
  carries its code, the text of its message is left out.
\<close>

section \<open>Networks\<close>

text \<open>\<open>_ALL_ONES ^ (_ALL_ONES >> prefixlen)\<close> and membership of an address in a network\<close>

definition netmask :: "nat \<Rightarrow> 'a::len word" where
  "netmask p = (- 1) XOR drop_bit p (- 1)"

definition in_network :: "'a::len word \<Rightarrow> 'a word \<times> nat \<Rightarrow> bool" where
  "in_network a n = (a AND netmask (snd n) = fst n)"

datatype ip_address = IPv4Address "32 word" | IPv6Address "128 word"

definition PROHIBITED_IPV4_NETWORKS :: "(32 word \<times> nat) list" where
  "PROHIBITED_IPV4_NETWORKS = [(0x00000000, 8), (0x0A000000, 8), (0x64400000, 10), (0x7F000000, 8),
     (0xA9FE0000, 16), (0xAC100000, 12), (0xC0000000, 24), (0xC0000200, 24), (0xC0586300, 24), (0xC0A80000, 16),
     (0xC6120000, 15), (0xC6336400, 24), (0xCB007100, 24), (0xE0000000, 4), (0xF0000000, 4), (0xFFFFFFFF, 32)]"

text \<open>An IPv6 network from its first two hextets: \<open>64:ff9b::/96\<close> is \<open>net6 0x64 0xFF9B 96\<close>.\<close>

definition net6 :: "128 word \<Rightarrow> 128 word \<Rightarrow> nat \<Rightarrow> 128 word \<times> nat" where
  "net6 h1 h2 p = (push_bit 112 h1 OR push_bit 96 h2, p)"

definition PROHIBITED_IPV6_NETWORKS :: "(128 word \<times> nat) list" where
  "PROHIBITED_IPV6_NETWORKS = [(1, 128), (0, 128), (0xFFFF00000000, 96), net6 0x64 0xFF9B 96, net6 0x100 0 64,
     net6 0x2001 0xDB8 32, net6 0xFC00 0 7, net6 0xFE80 0 10, net6 0xFF00 0 8]"

text \<open>The tables of \<open>ipaddress\<close>.\<close>

definition private_networks4 :: "(32 word \<times> nat) list" where
  "private_networks4 = [(0x00000000, 8), (0x0A000000, 8), (0x7F000000, 8), (0xA9FE0000, 16), (0xAC100000, 12),
     (0xC0000000, 24), (0xC00000AA, 31), (0xC0000200, 24), (0xC0A80000, 16), (0xC6120000, 15), (0xC6336400, 24),
     (0xCB007100, 24), (0xF0000000, 4), (0xFFFFFFFF, 32)]"

definition private_exceptions4 :: "(32 word \<times> nat) list" where
  "private_exceptions4 = [(0xC0000009, 32), (0xC000000A, 32)]"

definition private_networks6 :: "(128 word \<times> nat) list" where
  "private_networks6 = [(1, 128), (0, 128), (0xFFFF00000000, 96), (push_bit 80 0x64FF9B0001, 48), net6 0x100 0 64,
     net6 0x2001 0 23, net6 0x2001 0xDB8 32, net6 0x2002 0 16, net6 0xFC00 0 7, net6 0xFE80 0 10]"

definition private_exceptions6 :: "(128 word \<times> nat) list" where
  "private_exceptions6 = [(push_bit 96 0x20010001 OR 1, 128), (push_bit 96 0x20010001 OR 2, 128), net6 0x2001 3 32,
     (push_bit 80 0x200100040112, 48), net6 0x2001 0x20 28, net6 0x2001 0x30 28]"

definition reserved_networks6 :: "(128 word \<times> nat) list" where
  "reserved_networks6 = [net6 0 0 8, net6 0x100 0 8, net6 0x200 0 7, net6 0x400 0 6, net6 0x800 0 5, net6 0x1000 0 4,
     net6 0x4000 0 3, net6 0x6000 0 3, net6 0x8000 0 3, net6 0xA000 0 3, net6 0xC000 0 3, net6 0xE000 0 4,
     net6 0xF000 0 5, net6 0xF800 0 6, net6 0xFE00 0 9]"

definition in_any :: "'a::len word \<Rightarrow> ('a word \<times> nat) list \<Rightarrow> bool" where
  "in_any a nets = list_ex (in_network a) nets"

fun is_loopback :: "ip_address \<Rightarrow> bool" where
  "is_loopback (IPv4Address a) = in_network a (0x7F000000, 8)"
| "is_loopback (IPv6Address a) = (a = 1)"

fun is_private :: "ip_address \<Rightarrow> bool" where
  "is_private (IPv4Address a) = (in_any a private_networks4 \<and> \<not> in_any a private_exceptions4)"
| "is_private (IPv6Address a) = (in_any a private_networks6 \<and> \<not> in_any a private_exceptions6)"

fun is_link_local :: "ip_address \<Rightarrow> bool" where
  "is_link_local (IPv4Address a) = in_network a (0xA9FE0000, 16)"
| "is_link_local (IPv6Address a) = in_network a (net6 0xFE80 0 10)"

fun is_multicast :: "ip_address \<Rightarrow> bool" where
  "is_multicast (IPv4Address a) = in_network a (0xE0000000, 4)"
| "is_multicast (IPv6Address a) = in_network a (net6 0xFF00 0 8)"

fun is_reserved :: "ip_address \<Rightarrow> bool" where
  "is_reserved (IPv4Address a) = in_network a (0xF0000000, 4)"
| "is_reserved (IPv6Address a) = in_any a reserved_networks6"

fun is_unspecified :: "ip_address \<Rightarrow> bool" where
  "is_unspecified (IPv4Address a) = (a = 0)"
| "is_unspecified (IPv6Address a) = (a = 0)"

fun ipv4_mapped :: "ip_address \<Rightarrow> ip_address option" where
  "ipv4_mapped (IPv6Address a) = (if drop_bit 32 a = 0xFFFF then Some (IPv4Address (ucast a)) else None)"
| "ipv4_mapped (IPv4Address a) = None"

section \<open>Prohibited addresses\<close>

datatype ip_reason =
    LoopbackAddress | PrivateAddress | LinkLocalAddress | MulticastAddress | ReservedAddress | UnspecifiedAddress
  | ProhibitedNetwork

fun prohibited_network :: "ip_address \<Rightarrow> bool" where
  "prohibited_network (IPv4Address a) = in_any a PROHIBITED_IPV4_NETWORKS"
| "prohibited_network (IPv6Address a) = in_any a PROHIBITED_IPV6_NETWORKS"

text \<open>\<open>None\<close> is the answer \<open>(False, None)\<close>.\<close>

definition is_ip_prohibited :: "ip_address \<Rightarrow> ip_reason option" where
  "is_ip_prohibited addr =
     (let ip = (case ipv4_mapped addr of Some v4 \<Rightarrow> v4 | None \<Rightarrow> addr) in
      if is_loopback ip then Some LoopbackAddress
      else if is_private ip then Some PrivateAddress
      else if is_link_local ip then Some LinkLocalAddress
      else if is_multicast ip then Some MulticastAddress
      else if is_reserved ip then Some ReservedAddress
      else if is_unspecified ip then Some UnspecifiedAddress
      else if prohibited_network ip then Some ProhibitedNetwork
      else None)"

section \<open>Reading addresses\<close>

definition is_hex_digit :: "char \<Rightarrow> bool" where
  "is_hex_digit c = (is_digit c \<or> (let n = of_char c :: nat in 97 \<le> n \<and> n \<le> 102 \<or> 65 \<le> n \<and> n \<le> 70))"

definition digit_value :: "char \<Rightarrow> int" where
  "digit_value c = (let n = of_char c in if is_digit c then n - 48 else if n \<ge> 97 then n - 87 else n - 55)"

definition int_text :: "int \<Rightarrow> string \<Rightarrow> int" where
  "int_text base s = foldl (\<lambda>n c. base * n + digit_value c) 0 s"

definition parse_octet :: "string \<Rightarrow> int option" where
  "parse_octet s =
     (if s = [] \<or> \<not> list_all is_digit s \<or> length s > 3 \<or> s \<noteq> ''0'' \<and> hd s = CHR ''0'' then None
      else let n = int_text 10 s in if n > 255 then None else Some n)"

definition parse_ipv4 :: "string \<Rightarrow> 32 word option" where
  "parse_ipv4 s =
     (if CHR ''/'' \<in> set s then None
      else (case map parse_octet (py_split (CHR ''.'') s) of
          [Some a, Some b, Some c, Some d] \<Rightarrow> Some (of_int (((a * 256 + b) * 256 + c) * 256 + d))
        | _ \<Rightarrow> None))"

definition parse_hextet :: "string \<Rightarrow> int option" where
  "parse_hextet s = (if s = [] \<or> \<not> list_all is_hex_digit s \<or> length s > 4 then None else Some (int_text 16 s))"

text \<open>The loop over hextets: \<open>ip_int <<= 16\<close>, \<open>ip_int |= hextet\<close>.\<close>

fun add_hextets :: "128 word \<Rightarrow> string list \<Rightarrow> 128 word option" where
  "add_hextets w [] = Some w"
| "add_hextets w (p # ps) =
     (case parse_hextet p of None \<Rightarrow> None | Some h \<Rightarrow> add_hextets (push_bit 16 w OR of_int h) ps)"

text \<open>An IPv4 suffix becomes two hextets; leading zeros do not change them.\<close>

definition ipv4_suffix :: "string list \<Rightarrow> string list option" where
  "ipv4_suffix parts =
     (if CHR ''.'' \<in> set (last parts)
      then map_option (\<lambda>v. butlast parts @ [hex_digits 4 (unat (drop_bit 16 v)), hex_digits 4 (unat (v AND 0xFFFF))])
             (parse_ipv4 (last parts))
      else Some parts)"

definition join_hextets :: "string list \<Rightarrow> 128 word option" where
  "join_hextets parts =
     (case filter (\<lambda>i. parts ! i = []) [1..<length parts - 1] of
        [] \<Rightarrow> if length parts \<noteq> 8 then None else add_hextets 0 parts
      | [k] \<Rightarrow>
          let hi = (if hd parts = [] then k - 1 else k);
              n = length parts - k - 1;
              lo = (if last parts = [] then n - 1 else n)
          in if hd parts = [] \<and> hi \<noteq> 0 \<or> last parts = [] \<and> lo \<noteq> 0 \<or> 8 < hi + lo + 1 then None
             else Option.bind (add_hextets 0 (take hi parts))
                    (\<lambda>w. add_hextets (push_bit (16 * (8 - (hi + lo))) w) (drop (length parts - lo) parts))
      | _ \<Rightarrow> None)"

text \<open>A text is cut at the first \<open>d\<close> (\<open>str.partition\<close>) or at the last one (\<open>str.rpartition\<close>).\<close>

definition before :: "char \<Rightarrow> string \<Rightarrow> string" where "before d s = takeWhile (\<lambda>c. c \<noteq> d) s"
definition after :: "char \<Rightarrow> string \<Rightarrow> string" where "after d s = drop 1 (dropWhile (\<lambda>c. c \<noteq> d) s)"
definition after_last :: "char \<Rightarrow> string \<Rightarrow> string" where "after_last d s = rev (before d (rev s))"

definition parse_ipv6 :: "string \<Rightarrow> 128 word option" where
  "parse_ipv6 s =
     (let addr = before (CHR ''%'') s; zone = after (CHR ''%'') s; parts = py_split (CHR '':'') addr in
      if CHR ''/'' \<in> set s \<or> CHR ''%'' \<in> set s \<and> (zone = [] \<or> CHR ''%'' \<in> set zone) \<or> addr = [] \<or> length parts < 3
      then None
      else Option.bind (ipv4_suffix parts) (\<lambda>ps. if length ps > 9 then None else join_hextets ps))"

definition parse_ip_address :: "string \<Rightarrow> ip_address option" where
  "parse_ip_address s =
     (case parse_ipv4 s of Some a \<Rightarrow> Some (IPv4Address a) | None \<Rightarrow> map_option IPv6Address (parse_ipv6 s))"

section \<open>Reading URLs\<close>

record parsed_url =
  url_scheme :: string
  url_netloc :: string

definition scheme_char :: "char \<Rightarrow> bool" where
  "scheme_char c = (is_lower c \<or> is_upper c \<or> is_digit c \<or> c \<in> set ''+-.'')"

definition split_scheme :: "string \<Rightarrow> string \<times> string" where
  "split_scheme url =
     (let s = before (CHR '':'') url in
      if CHR '':'' \<in> set url \<and> s \<noteq> [] \<and> (is_lower (hd s) \<or> is_upper (hd s)) \<and> list_all scheme_char s
      then (py_lower s, after (CHR '':'') url) else ([], url))"

text \<open>\<open>\Av[a-fA-F0-9]+\..+\Z\<close>\<close>

definition ipv_future :: "string \<Rightarrow> bool" where
  "ipv_future s =
     (let v = before (CHR ''.'') (drop 1 s) in
      py_startswith s ''v'' \<and> v \<noteq> [] \<and> list_all is_hex_digit v \<and> CHR ''.'' \<in> set s \<and> after (CHR ''.'') s \<noteq> []
      \<and> CHR 0x0A \<notin> set (after (CHR ''.'') s))"

definition bracketed_host_ok :: "string \<Rightarrow> bool" where
  "bracketed_host_ok hostname =
     (if py_startswith hostname ''v'' then ipv_future hostname
      else (case parse_ip_address hostname of Some (IPv6Address _) \<Rightarrow> True | _ \<Rightarrow> False))"

definition bracketed_netloc_ok :: "string \<Rightarrow> bool" where
  "bracketed_netloc_ok netloc =
     (let h = after_last (CHR ''@'') netloc in
      if CHR ''['' \<in> set h
      then let rest = after (CHR ''['') h; port = after (CHR '']'') rest in
           before (CHR ''['') h = [] \<and> (port = [] \<or> py_startswith port '':'') \<and> bracketed_host_ok (before (CHR '']'') rest)
      else bracketed_host_ok (before (CHR '':'') h))"

definition urlparse :: "string \<Rightarrow> pyexn + parsed_url" where
  "urlparse url =
     (let cleaned = filter (\<lambda>c. c \<notin> {CHR 0x09, CHR 0x0A, CHR 0x0D}) (dropWhile (\<lambda>c. (of_char c :: nat) \<le> 32) url);
          (scheme, rest) = split_scheme cleaned;
          netloc = (if py_startswith rest ''//'' then takeWhile (\<lambda>c. c \<notin> set ''/?#'') (drop 2 rest) else []);
          opened = CHR ''['' \<in> set netloc; closed = CHR '']'' \<in> set netloc
      in if opened \<noteq> closed \<or> opened \<and> \<not> bracketed_netloc_ok netloc then Inl ValueError
         else Inr \<lparr>url_scheme = scheme, url_netloc = netloc\<rparr>)"

definition url_hostinfo :: "parsed_url \<Rightarrow> string \<times> string" where
  "url_hostinfo u =
     (let h = after_last (CHR ''@'') (url_netloc u) in
      if CHR ''['' \<in> set h
      then let rest = after (CHR ''['') h in (before (CHR '']'') rest, after (CHR '':'') (after (CHR '']'') rest))
      else (before (CHR '':'') h, after (CHR '':'') h))"

text \<open>The host name, whose zone keeps its case; the empty one is \<open>None\<close>.\<close>

definition url_hostname :: "parsed_url \<Rightarrow> string" where
  "url_hostname u =
     (let h = fst (url_hostinfo u) in
      py_lower (before (CHR ''%'') h) @ (if CHR ''%'' \<in> set h then CHR ''%'' # after (CHR ''%'') h else []))"

definition url_port :: "parsed_url \<Rightarrow> pyexn + int option" where
  "url_port u =
     (let p = snd (url_hostinfo u) in
      if p = [] then Inr None
      else if \<not> list_all is_digit p \<or> int_text 10 p > 65535 then Inl ValueError
      else Inr (Some (int_text 10 p)))"

section \<open>The check of an endpoint\<close>

datatype ssrf_error = SSRFValidationError string | PyRaised pyexn

definition BLOCKED_DOMAINS :: "string set" where
  "BLOCKED_DOMAINS = {''metadata.google.internal'', ''metadata'', ''instance-data'', ''localhost''}"

definition strip_dots :: "string \<Rightarrow> string" where
  "strip_dots s = (let d = dropWhile (\<lambda>c. c = CHR ''.'') in rev (d (rev (d s))))"

text \<open>
  The loop over the resolved addresses. \<open>SSRFValidationError\<close> is a \<open>ValueError\<close>, so the handler
  that skips texts that are no address also swallows the refusal of a prohibited one.
\<close>

definition resolved_addresses :: "bool \<Rightarrow> string list \<Rightarrow> ip_address list" where
  "resolved_addresses allow_private_ips texts =
     List.map_filter (\<lambda>t. case parse_ip_address t of
         None \<Rightarrow> None
       | Some ip \<Rightarrow> if \<not> allow_private_ips \<and> is_ip_prohibited ip \<noteq> None then None else Some ip) texts"

type_synonym resolver = "string \<Rightarrow> int \<Rightarrow> string list option"

definition resolve_host ::
    "resolver \<Rightarrow> parsed_url \<Rightarrow> string \<Rightarrow> bool \<Rightarrow> ssrf_error + ip_address list" where
  "resolve_host getaddrinfo parsed hostname allow_private_ips =
     (case url_port parsed of
        Inl e \<Rightarrow> Inl (PyRaised e)
      | Inr p \<Rightarrow>
          let port = (case p of Some n \<Rightarrow> if n = 0 then None else Some n | None \<Rightarrow> None);
              default = (if url_scheme parsed = ''https'' then 443 else 80)
          in (case getaddrinfo hostname (case port of Some n \<Rightarrow> n | None \<Rightarrow> default) of
                None \<Rightarrow>
                  if allow_private_ips then Inr [IPv4Address 0x7F000001]
                  else Inl (SSRFValidationError ''DNS_RESOLUTION_FAILED'')
              | Some texts \<Rightarrow>
                  let ips = resolved_addresses allow_private_ips texts in
                  if ips = [] then Inl (SSRFValidationError ''DNS_RESOLUTION_FAILED'') else Inr ips))"

definition resolve_and_validate_endpoint_url ::
    "resolver \<Rightarrow> string \<Rightarrow> bool \<Rightarrow> bool \<Rightarrow> ssrf_error + string \<times> ip_address list" where
  "resolve_and_validate_endpoint_url getaddrinfo url allow_private_ips enforce_https =
     (if url = [] then Inl (SSRFValidationError ''INVALID_URL'')
      else (case urlparse (py_strip url) of
          Inl e \<Rightarrow> Inl (PyRaised e)
        | Inr parsed \<Rightarrow>
            let scheme = url_scheme parsed; hostname = url_hostname parsed;
                host = strip_dots (py_lower hostname)
            in if scheme \<notin> {''http'', ''https''} then Inl (SSRFValidationError ''INVALID_SCHEME'')
               else if enforce_https \<and> scheme \<noteq> ''https'' then Inl (SSRFValidationError ''HTTPS_REQUIRED'')
               else if hostname = [] then Inl (SSRFValidationError ''MISSING_HOSTNAME'')
               else if (host \<in> BLOCKED_DOMAINS \<or> py_endswith host ''.internal'') \<and> \<not> allow_private_ips
               then Inl (SSRFValidationError ''BLOCKED_DOMAIN'')
               else (case parse_ip_address host of
                   Some ip \<Rightarrow>
                     if \<not> allow_private_ips \<and> is_ip_prohibited ip \<noteq> None then Inl (SSRFValidationError ''PROHIBITED_IP'')
                     else Inr (py_strip url, [ip])
                 | None \<Rightarrow>
                     (case resolve_host getaddrinfo parsed host allow_private_ips of
                        Inl e \<Rightarrow> Inl e
                      | Inr ips \<Rightarrow> Inr (py_strip url, ips)))))"

section \<open>Networks as ranges\<close>

lemma bit_netmask: "bit (netmask p :: 'a::len word) i \<longleftrightarrow> LENGTH('a) - p \<le> i \<and> i < LENGTH('a)"
  by (auto simp: netmask_def bit_simps)

lemma netmask_nested: "p \<le> q \<Longrightarrow> netmask q AND netmask p = (netmask p :: 'a::len word)"
  by (rule bit_word_eqI) (auto simp: bit_and_iff bit_netmask)

lemma in_network_wider: "in_network a (n, q) \<Longrightarrow> p \<le> q \<Longrightarrow> in_network a (n AND netmask p, p)"
  by (metis and.assoc fst_conv in_network_def netmask_nested snd_conv)

lemma in_network_drop:
  fixes a :: "'a::len word"
  assumes "p \<le> LENGTH('a)" "n AND netmask p = n"
  shows "in_network a (n, p) \<longleftrightarrow> drop_bit (LENGTH('a) - p) a = drop_bit (LENGTH('a) - p) n"
proof
  let ?k = "LENGTH('a) - p"
  assume "in_network a (n, p)"
  then have "n = a AND netmask p" by (simp add: in_network_def)
  then show "drop_bit ?k a = drop_bit ?k n"
    by (auto intro!: bit_word_eqI simp: bit_drop_bit_eq bit_and_iff bit_netmask dest: bit_imp_le_length)
next
  let ?k = "LENGTH('a) - p"
  assume eq: "drop_bit ?k a = drop_bit ?k n"
  have "bit a i \<longleftrightarrow> bit n i" if "?k \<le> i" for i
    using arg_cong [OF eq, of "\<lambda>w. bit w (i - ?k)"] that by (simp add: bit_drop_bit_eq)
  moreover have "bit n i \<Longrightarrow> ?k \<le> i" for i
    using arg_cong [OF assms(2), of "\<lambda>w. bit w i"] by (simp add: bit_and_iff bit_netmask)
  ultimately show "in_network a (n, p)"
    by (auto simp: in_network_def intro!: bit_word_eqI simp: bit_and_iff bit_netmask dest: bit_imp_le_length)
qed

text \<open>IPv4: the checks of \<open>ipaddress\<close> refuse nothing the list of the code does not.\<close>

lemma ip4_networks:
  fixes a :: "32 word"
  shows "is_loopback (IPv4Address a) \<or> is_private (IPv4Address a) \<or> is_link_local (IPv4Address a) \<or>
    is_multicast (IPv4Address a) \<or> is_reserved (IPv4Address a) \<or> is_unspecified (IPv4Address a) \<Longrightarrow>
    in_any a PROHIBITED_IPV4_NETWORKS"
proof -
  have "in_network a (0xC00000AA, 31) \<Longrightarrow> in_network a (0xC0000000, 24)"
    using in_network_wider [of a "0xC00000AA" 31 24] by (simp add: netmask_def mask_numeral)
  moreover have "a = 0 \<Longrightarrow> in_network a (0, 8)" by (simp add: in_network_def)
  ultimately show "in_any a PROHIBITED_IPV4_NETWORKS" if "is_loopback (IPv4Address a) \<or> is_private (IPv4Address a) \<or> is_link_local (IPv4Address a) \<or>
    is_multicast (IPv4Address a) \<or> is_reserved (IPv4Address a) \<or> is_unspecified (IPv4Address a)"
    using that by (auto simp: in_any_def PROHIBITED_IPV4_NETWORKS_def private_networks4_def)
qed

text \<open>IPv6: the first ten bits decide about every short prefix.\<close>

definition top10 :: "128 word \<Rightarrow> nat" where "top10 a = unat (drop_bit 118 a)"

lemma top10_div: "top10 a = unat a div 2 ^ 118"
  unfolding top10_def unat_drop_bit_eq by (simp only: drop_bit_eq_div)

lemma top10_bound: "top10 a < 1024"
proof -
  have "unat a < 2 ^ 128" using unsigned_less [of a] by simp
  then have "unat a < 1024 * 2 ^ 118" by simp
  then show ?thesis by (simp only: top10_div less_mult_imp_div_less)
qed

lemma short_prefix:
  assumes "p \<le> 10" "n AND netmask p = n"
  shows "in_network a (n, p) \<longleftrightarrow> top10 a div 2 ^ (10 - p) = top10 n div 2 ^ (10 - p)"
proof -
  have eq: "128 - p = 118 + (10 - p)" using assms(1) by simp
  have "unat (drop_bit (128 - p) b) = top10 b div 2 ^ (10 - p)" for b :: "128 word"
    unfolding unat_drop_bit_eq top10_div eq by (simp only: drop_bit_eq_div power_add div_mult2_eq)
  then show ?thesis using in_network_drop [of p n a] assms by (simp add: word_unat_eq_iff)
qed

lemma long_prefix:
  assumes "in_network a (n, p)" "10 \<le> p"
  shows "top10 a = top10 n"
proof -
  have "drop_bit 118 (n AND netmask 10) = drop_bit 118 n"
    by (rule bit_word_eqI) (auto simp: bit_drop_bit_eq bit_and_iff bit_netmask dest: bit_imp_le_length)
  moreover have "(n AND netmask 10) AND netmask 10 = n AND netmask 10" by (simp add: and.assoc netmask_nested)
  ultimately show ?thesis
    using in_network_wider [OF assms] short_prefix [of 10 "n AND netmask 10" a] by (simp add: top10_def)
qed

lemma top10_numeral: "top10 (numeral k) = unat (drop_bit 118 (numeral k :: 128 word))" "top10 0 = 0" "top10 1 = 0"
  by (simp_all add: top10_def)

lemma prefix_ranges:
  "p \<le> 10 \<Longrightarrow> n AND netmask p = n \<Longrightarrow>
     in_network a (n, p) \<longleftrightarrow> top10 n div 2 ^ (10 - p) * 2 ^ (10 - p) \<le> top10 a \<and>
       top10 a < (top10 n div 2 ^ (10 - p) + 1) * 2 ^ (10 - p)"
proof -
  have "x div k = y \<longleftrightarrow> y * k \<le> x \<and> x < (y + 1) * k" if "0 < k" for x y k :: nat
    using that by (auto simp: div_nat_eqI dividend_less_times_div mult.commute)
  then show "p \<le> 10 \<Longrightarrow> n AND netmask p = n \<Longrightarrow> ?thesis" by (simp add: short_prefix)
qed

lemmas range_simps = net6_def netmask_def push_bit_eq_mult mask_numeral prefix_ranges top10_numeral

lemma reserved_ranges:
  "in_any a reserved_networks6 \<longleftrightarrow> top10 a < 128 \<or> 256 \<le> top10 a \<and> top10 a < 1008 \<or> 1016 \<le> top10 a \<and> top10 a < 1018"
  by (simp add: in_any_def reserved_networks6_def range_simps) presburger

lemma short_ranges:
  "in_network a (net6 0x2000 0 3) \<longleftrightarrow> 128 \<le> top10 a \<and> top10 a < 256"
  "in_network a (net6 0xFC00 0 7) \<longleftrightarrow> 1008 \<le> top10 a \<and> top10 a < 1016"
  "in_network a (net6 0xFE80 0 10) \<longleftrightarrow> top10 a = 1018" "in_network a (net6 0xFEC0 0 10) \<longleftrightarrow> top10 a = 1019"
  "in_network a (net6 0xFF00 0 8) \<longleftrightarrow> 1020 \<le> top10 a"
  using top10_bound [of a] by (auto simp add: range_simps)

text \<open>The longer prefixes lie below the reserved ones or in \<open>2000::/3\<close>.\<close>

lemma long_ranges:
  "in_network a (1, 128) \<Longrightarrow> top10 a = 0" "in_network a (0, 128) \<Longrightarrow> top10 a = 0" "in_network a (0xFFFF00000000, 96) \<Longrightarrow> top10 a = 0"
  "in_network a (net6 0x64 0xFF9B 96) \<Longrightarrow> top10 a = 1" "in_network a (push_bit 80 0x64FF9B0001, 48) \<Longrightarrow> top10 a = 1"
  "in_network a (net6 0x100 0 64) \<Longrightarrow> top10 a = 4" "in_network a (net6 0x2001 0 23) \<Longrightarrow> top10 a = 128"
  "in_network a (net6 0x2001 0xDB8 32) \<Longrightarrow> top10 a = 128" "in_network a (net6 0x2002 0 16) \<Longrightarrow> top10 a = 128"
  "in_any a private_exceptions6 \<Longrightarrow> top10 a = 128"
  by (auto dest!: long_prefix simp: range_simps in_any_def private_exceptions6_def)

lemma ip4_exact: "is_ip_prohibited (IPv4Address a) = None \<longleftrightarrow> \<not> in_any a PROHIBITED_IPV4_NETWORKS"
  using ip4_networks [of a] by (auto simp: is_ip_prohibited_def Let_def simp del: is_loopback.simps is_private.simps
      is_link_local.simps is_multicast.simps is_reserved.simps is_unspecified.simps)

lemma ip6_mapped: "drop_bit 32 b = 0xFFFF \<Longrightarrow> is_ip_prohibited (IPv6Address b) = is_ip_prohibited (IPv4Address (ucast b))"
  by (simp add: is_ip_prohibited_def)

lemma private_ranges:
  "is_private (IPv6Address b) \<longleftrightarrow> \<not> in_any b private_exceptions6 \<and>
     (in_network b (1, 128) \<or> in_network b (0, 128) \<or> in_network b (0xFFFF00000000, 96) \<or>
      in_network b (push_bit 80 0x64FF9B0001, 48) \<or> in_network b (net6 0x100 0 64) \<or> in_network b (net6 0x2001 0 23) \<or>
      in_network b (net6 0x2001 0xDB8 32) \<or> in_network b (net6 0x2002 0 16) \<or> in_network b (net6 0xFC00 0 7) \<or>
      in_network b (net6 0xFE80 0 10))"
  by (auto simp: in_any_def private_networks6_def)

lemma prohibited_ranges:
  "prohibited_network (IPv6Address b) \<longleftrightarrow>
     in_network b (1, 128) \<or> in_network b (0, 128) \<or> in_network b (0xFFFF00000000, 96) \<or>
      in_network b (net6 0x64 0xFF9B 96) \<or> in_network b (net6 0x100 0 64) \<or>
      in_network b (net6 0x2001 0xDB8 32) \<or> in_network b (net6 0xFC00 0 7) \<or>
      in_network b (net6 0xFE80 0 10) \<or> in_network b (net6 0xFF00 0 8)"
  by (auto simp: in_any_def PROHIBITED_IPV6_NETWORKS_def)

definition global_unicast :: "128 word \<Rightarrow> bool" where
  "global_unicast b =
     (in_network b (net6 0x2000 0 3) \<and> \<not> in_network b (net6 0x2001 0xDB8 32) \<and> 
      (in_network b (net6 0x2001 0 23) \<or> in_network b (net6 0x2002 0 16) \<longrightarrow> in_any b private_exceptions6))"

lemma ip6_exact:
  assumes "drop_bit 32 b \<noteq> 0xFFFF"
  shows "is_ip_prohibited (IPv6Address b) = None \<longleftrightarrow> global_unicast b \<or> in_network b (net6 0xFEC0 0 10)"
proof -
  have none: "is_ip_prohibited (IPv6Address b) = None \<longleftrightarrow>
    \<not> (is_loopback (IPv6Address b) \<or> is_private (IPv6Address b) \<or> is_link_local (IPv6Address b) \<or>
       is_multicast (IPv6Address b) \<or> is_reserved (IPv6Address b) \<or> is_unspecified (IPv6Address b) \<or>
       prohibited_network (IPv6Address b))"
    using assms by (auto simp: is_ip_prohibited_def Let_def simp del: is_private.simps prohibited_network.simps)
  have ends: "b = 1 \<Longrightarrow> top10 b = 0" "b = 0 \<Longrightarrow> top10 b = 0" by (auto simp: top10_numeral)
  consider "top10 b < 128" | "top10 b = 128" | "128 < top10 b \<and> top10 b < 256" | "256 \<le> top10 b \<and> top10 b < 1019"
    | "top10 b = 1019" | "1020 \<le> top10 b" by linarith
  then show ?thesis
  proof cases
    case 2
    then show ?thesis
      using ends long_ranges [of b]
      by (auto simp: none private_ranges prohibited_ranges global_unicast_def reserved_ranges short_ranges
          simp del: is_private.simps prohibited_network.simps)
  qed (use ends long_ranges [of b] in \<open>auto simp: none private_ranges prohibited_ranges global_unicast_def reserved_ranges short_ranges
          simp del: is_private.simps prohibited_network.simps\<close>)
qed

section \<open>Properties of the check\<close>

text \<open>
  C27. Which addresses are prohibited. An IPv4 address is refused exactly when it lies in one of the
  networks the module lists, so the checks of \<open>ipaddress\<close> add nothing; an IPv4-mapped address is
  treated as the IPv4 address; any other IPv6 address passes exactly when it is a global unicast
  address outside the documentation, 6to4 and special-purpose networks, or lies in the deprecated
  site-local network \<open>fec0::/10\<close>, which no check covers.
\<close>

theorem prohibited_addresses_exact:
  "(is_ip_prohibited (IPv4Address a) = None \<longleftrightarrow> \<not> in_any a PROHIBITED_IPV4_NETWORKS) \<and>
   (drop_bit 32 b = 0xFFFF \<longrightarrow> is_ip_prohibited (IPv6Address b) = is_ip_prohibited (IPv4Address (ucast b))) \<and>
   (drop_bit 32 b \<noteq> 0xFFFF \<longrightarrow>
      (is_ip_prohibited (IPv6Address b) = None \<longleftrightarrow> global_unicast b \<or> in_network b (net6 0xFEC0 0 10)))"
  by (simp add: ip4_exact ip6_mapped ip6_exact)

lemma resolved_permitted: "ip \<in> set (resolved_addresses False texts) \<Longrightarrow> is_ip_prohibited ip = None"
  by (auto simp: resolved_addresses_def List.map_filter_def split: option.splits if_splits)

text \<open>
  What an accepted endpoint satisfies when private addresses are not allowed: the URL is an HTTP
  or HTTPS one, HTTPS where that is enforced, its host is named and not a blocked domain, a literal
  address is the one address returned, and no returned address is prohibited.
\<close>

theorem endpoint_validation_sound:
  assumes "resolve_and_validate_endpoint_url getaddrinfo url False enforce_https = Inr (u, ips)"
  shows "\<exists>parsed host. urlparse (py_strip url) = Inr parsed \<and> u = py_strip url \<and>
    url_scheme parsed \<in> {''http'', ''https''} \<and> (enforce_https \<longrightarrow> url_scheme parsed = ''https'') \<and>
    url_hostname parsed \<noteq> [] \<and> host = strip_dots (py_lower (url_hostname parsed)) \<and> host \<notin> BLOCKED_DOMAINS \<and>
    \<not> py_endswith host ''.internal'' \<and> (\<forall>ip. parse_ip_address host = Some ip \<longrightarrow> ips = [ip]) \<and>
    ips \<noteq> [] \<and> (\<forall>ip \<in> set ips. is_ip_prohibited ip = None)"
proof -
  from assms obtain parsed where parsed: "urlparse (py_strip url) = Inr parsed"
    by (auto simp: resolve_and_validate_endpoint_url_def split: if_splits sum.splits)
  let ?host = "strip_dots (py_lower (url_hostname parsed))"
  from assms parsed have guards: "url_scheme parsed \<in> {''http'', ''https''}" "enforce_https \<longrightarrow> url_scheme parsed = ''https''"
    "url_hostname parsed \<noteq> []" "?host \<notin> BLOCKED_DOMAINS" "\<not> py_endswith ?host ''.internal''" "u = py_strip url"
    by (auto simp: resolve_and_validate_endpoint_url_def Let_def split: if_splits option.splits sum.splits)
  have "(\<forall>ip. parse_ip_address ?host = Some ip \<longrightarrow> ips = [ip]) \<and> ips \<noteq> [] \<and> (\<forall>ip \<in> set ips. is_ip_prohibited ip = None)"
  proof (cases "parse_ip_address ?host")
    case (Some ip)
    with assms parsed show ?thesis
      by (auto simp: resolve_and_validate_endpoint_url_def Let_def split: if_splits)
  next
    case None
    with assms parsed have "resolve_host getaddrinfo parsed ?host False = Inr ips"
      by (auto simp: resolve_and_validate_endpoint_url_def Let_def split: if_splits sum.splits)
    then show ?thesis using None resolved_permitted
      by (auto simp: resolve_host_def Let_def split: sum.splits option.splits if_splits)
  qed
  with parsed guards show ?thesis by blast
qed

lemma resolved_ignores:
  "\<forall>t \<in> set bad. \<exists>ip. parse_ip_address t = Some ip \<and> is_ip_prohibited ip \<noteq> None \<Longrightarrow>
     resolved_addresses False (bad @ texts) = resolved_addresses False texts"
  by (induction bad) (auto simp: resolved_addresses_def List.map_filter_def)

text \<open>
  The check of resolved names is void against mixed answers. Whatever prohibited addresses the
  resolver adds to its answer, loopback or the metadata service, a URL that is accepted without
  them is accepted with them and the result does not show them, because the refusal is raised inside
  the handler that skips it. A name for which it returns prohibited addresses alone is reported as
  unresolved.
\<close>

theorem prohibited_resolution_ignored:
  assumes bad: "\<forall>t \<in> set bad. \<exists>ip. parse_ip_address t = Some ip \<and> is_ip_prohibited ip \<noteq> None"
    and accepted: "resolve_and_validate_endpoint_url (\<lambda>h p. Some texts) url False enforce_https = Inr (u, ips)"
  shows "resolve_and_validate_endpoint_url (\<lambda>h p. Some (bad @ texts)) url False enforce_https = Inr (u, ips) \<and>
    resolve_and_validate_endpoint_url (\<lambda>h p. Some bad) url False enforce_https
      \<in> {Inr (u, ips), Inl (SSRFValidationError ''DNS_RESOLUTION_FAILED'')}"
proof
  have "resolve_host (\<lambda>h p. Some (bad @ texts)) parsed host False = resolve_host (\<lambda>h p. Some texts) parsed host False"
    for parsed host
    unfolding resolve_host_def Let_def option.case resolved_ignores [OF bad] ..
  then show "resolve_and_validate_endpoint_url (\<lambda>h p. Some (bad @ texts)) url False enforce_https = Inr (u, ips)"
    using accepted unfolding resolve_and_validate_endpoint_url_def by (simp only:)
  have "resolve_host (\<lambda>h p. Some bad) parsed host False = Inl (SSRFValidationError ''DNS_RESOLUTION_FAILED'')"
    if "resolve_host (\<lambda>h p. Some texts) parsed host False = Inr is" for parsed host "is"
    using resolved_ignores [OF bad, of "[]"] that
    by (auto simp: resolve_host_def Let_def resolved_addresses_def List.map_filter_def split: sum.splits)
  then show "resolve_and_validate_endpoint_url (\<lambda>h p. Some bad) url False enforce_https
      \<in> {Inr (u, ips), Inl (SSRFValidationError ''DNS_RESOLUTION_FAILED'')}"
    using accepted
    by (auto simp: resolve_and_validate_endpoint_url_def Let_def split: if_splits sum.splits option.splits)
qed

text \<open>An endpoint whose name resolves to a public address and to loopback.\<close>

lemma demo_addresses: "parse_ip_address ''127.0.0.1'' = Some (IPv4Address 0x7F000001)"
  "is_ip_prohibited (IPv4Address 0x7F000001) = Some LoopbackAddress"
  by code_simp+

lemma demo_endpoint: "resolve_and_validate_endpoint_url (\<lambda>h p. Some [''93.184.216.34'']) ''https://hook.example/in'' False True =
    Inr (''https://hook.example/in'', [IPv4Address 0x5DB8D822])"
  by code_simp

theorem prohibited_addresses_exact_witness:
  "is_ip_prohibited (IPv6Address 0xFFFF7F000001) = Some LoopbackAddress \<and> is_ip_prohibited (IPv6Address (push_bit 112 0xFEC0)) = None"
proof -
  have "drop_bit 32 (0xFFFF7F000001 :: 128 word) = 0xFFFF" "ucast (0xFFFF7F000001 :: 128 word) = (0x7F000001 :: 32 word)"
    "drop_bit 32 (push_bit 112 0xFEC0 :: 128 word) \<noteq> 0xFFFF" "in_network (push_bit 112 0xFEC0) (net6 0xFEC0 0 10)"
    by code_simp+
  note facts = this
  have "is_ip_prohibited (IPv6Address 0xFFFF7F000001) = is_ip_prohibited (IPv4Address (ucast (0xFFFF7F000001 :: 128 word)))"
    using prohibited_addresses_exact [of 0 "0xFFFF7F000001"] facts(1) by blast
  moreover have "is_ip_prohibited (IPv6Address (push_bit 112 0xFEC0)) = None"
    using prohibited_addresses_exact [of 0 "push_bit 112 0xFEC0"] facts(3,4) by blast
  ultimately show ?thesis unfolding facts(2) demo_addresses(2) by blast
qed

theorem endpoint_validation_sound_witness:
  "\<exists>parsed. urlparse (py_strip ''https://hook.example/in'') = Inr parsed \<and> url_scheme parsed = ''https''"
  using endpoint_validation_sound [OF demo_endpoint] by blast

theorem prohibited_resolution_ignored_witness:
  "resolve_and_validate_endpoint_url (\<lambda>h p. Some [''127.0.0.1'', ''93.184.216.34'']) ''https://hook.example/in'' False True =
     Inr (''https://hook.example/in'', [IPv4Address 0x5DB8D822])"
  using prohibited_resolution_ignored [of "[''127.0.0.1'']", OF _ demo_endpoint] demo_addresses by simp

end
