(* ===== verification/CrossOrg.thy ===== *)
theory CrossOrg
  imports Credentials Notifications
begin

text \<open>
  Trust between organizations (\<open>services/cross_organization_trust.py\<close>,
  \<open>models/cross_organization_trust.py\<close>): requesting, accepting, rejecting and revoking a relationship,
  its policy, and the connections of agents under it. The state is the one of request signing with
  the tables of this component. An \<open>HTTPException\<close> carries its status and detail; the texts of
  security events are left out where they only repeat identifiers.
\<close>

section \<open>Rows\<close>

datatype TrustStatus = TS_PENDING | TS_ACTIVE | TS_REJECTED | TS_REVOKED | TS_EXPIRED | TS_SUSPENDED
datatype CrossOrgRequestStatus = CQ_PENDING | CQ_APPROVED | CQ_REJECTED | CQ_EXPIRED | CQ_CANCELED
datatype ApprovalStage = STAGE_SOURCE | STAGE_TARGET
datatype ApprovalStatus = AP_PENDING | AP_APPROVED | AP_REJECTED

fun TrustStatus_value :: "TrustStatus \<Rightarrow> string" where
  "TrustStatus_value TS_PENDING = ''PENDING''"
| "TrustStatus_value TS_ACTIVE = ''ACTIVE''"
| "TrustStatus_value TS_REJECTED = ''REJECTED''"
| "TrustStatus_value TS_REVOKED = ''REVOKED''"
| "TrustStatus_value TS_EXPIRED = ''EXPIRED''"
| "TrustStatus_value TS_SUSPENDED = ''SUSPENDED''"

fun CrossOrgRequestStatus_value :: "CrossOrgRequestStatus \<Rightarrow> string" where
  "CrossOrgRequestStatus_value CQ_PENDING = ''PENDING''"
| "CrossOrgRequestStatus_value CQ_APPROVED = ''APPROVED''"
| "CrossOrgRequestStatus_value CQ_REJECTED = ''REJECTED''"
| "CrossOrgRequestStatus_value CQ_EXPIRED = ''EXPIRED''"
| "CrossOrgRequestStatus_value CQ_CANCELED = ''CANCELED''"

fun ApprovalStage_value :: "ApprovalStage \<Rightarrow> string" where
  "ApprovalStage_value STAGE_SOURCE = ''SOURCE''"
| "ApprovalStage_value STAGE_TARGET = ''TARGET''"

fun ApprovalStatus_value :: "ApprovalStatus \<Rightarrow> string" where
  "ApprovalStatus_value AP_PENDING = ''PENDING''"
| "ApprovalStatus_value AP_APPROVED = ''APPROVED''"
| "ApprovalStatus_value AP_REJECTED = ''REJECTED''"

record OrganizationTrustRelationship =
  ot_id :: uuid
  ot_trust_id :: string
  ot_source_organization_id :: uuid
  ot_target_organization_id :: uuid
  ot_status :: TrustStatus
  ot_created_by_user_id :: uuid
  ot_accepted_by_user_id :: "uuid option"
  ot_created_at :: datetime
  ot_accepted_at :: "datetime option"
  ot_expires_at :: "datetime option"
  ot_revoked_at :: "datetime option"
  ot_revocation_reason :: "string option"
  ot_updated_at :: datetime

text \<open>The update of a policy, which is also the part of its row that may change.\<close>

record TrustPolicyUpdate =
  tp_allowed_actions :: "string list"
  tp_allowed_resources :: "string list"
  tp_max_amount :: "rat option"
  tp_currency :: "string option"
  tp_require_human_approval :: bool
  tp_approval_threshold :: "rat option"
  tp_approval_type :: string
  tp_allow_agent_delegation :: bool
  tp_max_delegation_depth :: int
  tp_risk_threshold :: "int option"

record OrganizationTrustPolicy = TrustPolicyUpdate +
  tp_id :: uuid
  tp_trust_relationship_id :: uuid

record TargetOrganizationPolicyUpdate =
  gp_allowed_actions :: "string list"
  gp_allowed_resources :: "string list"
  gp_max_amount :: "rat option"
  gp_currency :: "string option"
  gp_require_human_approval :: bool
  gp_approval_threshold :: "rat option"

record TargetOrganizationPolicy = TargetOrganizationPolicyUpdate +
  gp_id :: uuid
  gp_organization_id :: uuid
  gp_required_credential_types :: "string list"

record ExternalAgentConnection =
  ec_id :: uuid
  ec_connection_id :: string
  ec_trust_relationship_id :: uuid
  ec_source_agent_id :: uuid
  ec_target_agent_id :: uuid
  ec_status :: string
  ec_expires_at :: "datetime option"
  ec_revoked_at :: "datetime option"
  ec_revocation_reason :: "string option"
  ec_created_at :: datetime

record CrossOrganizationRequest =
  xr_id :: uuid
  xr_request_id :: string
  xr_trust_relationship_id :: uuid
  xr_connection_id :: "uuid option"
  xr_source_organization_id :: uuid
  xr_target_organization_id :: uuid
  xr_source_agent_id :: uuid
  xr_target_agent_id :: uuid
  xr_action :: string
  xr_resource :: string
  xr_amount :: "rat option"
  xr_currency :: "string option"
  xr_status :: CrossOrgRequestStatus
  xr_decision_reason :: "string option"
  xr_idempotency_key :: "string option"
  xr_idempotency_hash :: "string option"
  xr_expires_at :: "datetime option"
  xr_completed_at :: "datetime option"

record CrossOrganizationApproval =
  xa_id :: uuid
  xa_cross_org_request_id :: uuid
  xa_organization_id :: uuid
  xa_approval_stage :: ApprovalStage
  xa_required_role :: string
  xa_status :: ApprovalStatus
  xa_decided_by_user_id :: "uuid option"
  xa_decided_at :: "datetime option"
  xa_reason :: "string option"

record OrganizationPublicProfileUpdate =
  pp_public_name :: string
  pp_description :: string
  pp_website_domain :: "string option"
  pp_discoverable :: bool
  pp_supported_capabilities :: "string list"

record OrganizationPublicProfile = OrganizationPublicProfileUpdate +
  pp_id :: uuid
  pp_organization_id :: uuid
  pp_verification_status :: string

record xorg =
  xo_signing :: signing
  xo_organizations :: "Organization list"
  xo_trusts :: "OrganizationTrustRelationship list"
  xo_policies :: "OrganizationTrustPolicy list"
  xo_target_policies :: "TargetOrganizationPolicy list"
  xo_connections :: "ExternalAgentConnection list"
  xo_requests :: "CrossOrganizationRequest list"
  xo_approvals :: "CrossOrganizationApproval list"
  xo_profiles :: "OrganizationPublicProfile list"

text \<open>The tables of the other services, and changing them.\<close>

definition xo_db :: "xorg \<Rightarrow> db" where
  "xo_db x = sg_db (xo_signing x)"

definition with_db :: "xorg \<Rightarrow> db \<Rightarrow> xorg" where
  "with_db x d = x\<lparr>xo_signing := (xo_signing x)\<lparr>sg_db := d\<rparr>\<rparr>"

datatype http_error = HTTPException int string

definition generate_trust_id :: "nat \<Rightarrow> string" where "generate_trust_id n = ''trust_'' @ hex_digits 24 n"
definition generate_connection_id :: "nat \<Rightarrow> string" where "generate_connection_id n = ''eac_'' @ hex_digits 24 n"
definition generate_cross_org_request_id :: "nat \<Rightarrow> string" where
  "generate_cross_org_request_id n = ''xreq_'' @ hex_digits 24 n"

text \<open>Whether a relationship or a connection can be used at a time.\<close>

definition window_usable :: "datetime option \<Rightarrow> datetime option \<Rightarrow> datetime \<Rightarrow> bool" where
  "window_usable expires revoked t =
     ((case expires of None \<Rightarrow> True | Some e \<Rightarrow> t < e) \<and> (case revoked of None \<Rightarrow> True | Some r \<Rightarrow> t < r))"

definition trust_is_usable :: "OrganizationTrustRelationship \<Rightarrow> datetime \<Rightarrow> bool" where
  "trust_is_usable tr t = (ot_status tr = TS_ACTIVE \<and> window_usable (ot_expires_at tr) (ot_revoked_at tr) t)"

definition connection_is_usable :: "ExternalAgentConnection \<Rightarrow> datetime \<Rightarrow> bool" where
  "connection_is_usable c t = (ec_status c = ''ACTIVE'' \<and> window_usable (ec_expires_at c) (ec_revoked_at c) t)"

section \<open>Relationships\<close>

definition find_trust :: "xorg \<Rightarrow> string \<Rightarrow> OrganizationTrustRelationship option" where
  "find_trust x trust_id = find (\<lambda>tr. ot_trust_id tr = trust_id) (xo_trusts x)"

definition find_pair :: "xorg \<Rightarrow> uuid \<Rightarrow> uuid \<Rightarrow> OrganizationTrustRelationship option" where
  "find_pair x source_org target_org =
     find (\<lambda>tr. ot_source_organization_id tr = source_org \<and> ot_target_organization_id tr = target_org) (xo_trusts x)"

definition store_trust :: "xorg \<Rightarrow> OrganizationTrustRelationship \<Rightarrow> xorg" where
  "store_trust x tr = x\<lparr>xo_trusts := update_where (\<lambda>r. ot_id r = ot_id tr) (\<lambda>_. tr) (xo_trusts x)\<rparr>"

definition trust_event :: "xorg \<Rightarrow> uuid \<Rightarrow> string \<Rightarrow> uuid \<Rightarrow> string \<Rightarrow> string \<Rightarrow> xorg" where
  "trust_event x user event_type org severity text =
     with_db x (record_security_event (xo_db x) (Some user) event_type (Some org) None (Some text) severity)"

definition default_trust_policy :: TrustPolicyUpdate where
  "default_trust_policy = \<lparr>tp_allowed_actions = [], tp_allowed_resources = [], tp_max_amount = None,
     tp_currency = None, tp_require_human_approval = False, tp_approval_threshold = None,
     tp_approval_type = ''TARGET_APPROVAL'', tp_allow_agent_delegation = False, tp_max_delegation_depth = 1,
     tp_risk_threshold = None\<rparr>"

definition policy_row :: "TrustPolicyUpdate \<Rightarrow> uuid \<Rightarrow> uuid \<Rightarrow> OrganizationTrustPolicy" where
  "policy_row u i trust = TrustPolicyUpdate.extend u \<lparr>tp_id = i, tp_trust_relationship_id = trust\<rparr>"

definition create_trust_request ::
    "xorg \<Rightarrow> uuid \<Rightarrow> uuid \<Rightarrow> uuid \<Rightarrow> datetime option \<Rightarrow> http_error + xorg \<times> OrganizationTrustRelationship" where
  "create_trust_request x source_org target_org user expires_at =
     (let now = clock (xo_db x) in
      if source_org = target_org
      then Inl (HTTPException 400 ''Cannot establish trust relationship with your own organization'')
      else if \<not> list_ex (\<lambda>g. or_id g = target_org \<and> or_is_active g) (xo_organizations x)
      then Inl (HTTPException 404 ''Target organization not found or inactive'')
      else (case find_pair x source_org target_org of
          Some tr \<Rightarrow>
            if ot_status tr = TS_ACTIVE
            then Inl (HTTPException 409 ''Active trust relationship already exists between these organizations'')
            else if ot_status tr = TS_PENDING
            then Inl (HTTPException 409 ''A pending trust request already exists'')
            else
              let tr' = tr\<lparr>ot_status := TS_PENDING, ot_created_by_user_id := user, ot_accepted_by_user_id := None,
                    ot_accepted_at := None, ot_revoked_at := None, ot_revocation_reason := None,
                    ot_expires_at := expires_at, ot_updated_at := now\<rparr>
              in Inr (trust_event (store_trust x tr') user ''organization_trust_requested'' source_org ''info''
                   (''Re-requested trust relationship with organization '' @ uuid_str target_org), tr')
        | None \<Rightarrow>
            let (i, d1) = fresh (xo_db x); (token, d2) = fresh d1; (j, d3) = fresh d2;
                tr = \<lparr>ot_id = i, ot_trust_id = generate_trust_id token, ot_source_organization_id = source_org,
                  ot_target_organization_id = target_org, ot_status = TS_PENDING, ot_created_by_user_id = user,
                  ot_accepted_by_user_id = None, ot_created_at = now, ot_accepted_at = None,
                  ot_expires_at = expires_at, ot_revoked_at = None, ot_revocation_reason = None, ot_updated_at = now\<rparr>;
                x1 = (with_db x d3)\<lparr>xo_trusts := xo_trusts x @ [tr],
                  xo_policies := xo_policies x @ [policy_row default_trust_policy j i]\<rparr>
            in Inr (trust_event x1 user ''organization_trust_requested'' source_org ''info''
                 (''Requested trust relationship with organization '' @ uuid_str target_org), tr)))"

text \<open>The guards of accepting and rejecting; the third argument names the decision.\<close>

definition pending_trust :: "xorg \<Rightarrow> string \<Rightarrow> string \<Rightarrow> uuid \<Rightarrow> http_error + OrganizationTrustRelationship" where
  "pending_trust x trust_id verb target_org =
     (case find_trust x trust_id of
        None \<Rightarrow> Inl (HTTPException 404 ''Trust relationship not found'')
      | Some tr \<Rightarrow>
          if ot_target_organization_id tr \<noteq> target_org
          then Inl (HTTPException 403 (''Only the target organization can '' @ verb @ '' this trust request''))
          else if ot_status tr \<noteq> TS_PENDING
          then Inl (HTTPException 400 (''Cannot '' @ verb @ '' trust request in '' @ [CHR 0x27]
                 @ TrustStatus_value (ot_status tr) @ [CHR 0x27] @ '' state''))
          else Inr tr)"

definition accept_trust_request ::
    "xorg \<Rightarrow> string \<Rightarrow> uuid \<Rightarrow> uuid \<Rightarrow> xorg \<times> (http_error + OrganizationTrustRelationship)" where
  "accept_trust_request x trust_id user target_org =
     (let now = clock (xo_db x) in
      case pending_trust x trust_id ''accept'' target_org of
        Inl e \<Rightarrow> (x, Inl e)
      | Inr tr \<Rightarrow>
          if (case ot_expires_at tr of None \<Rightarrow> False | Some e \<Rightarrow> e \<le> now)
          then (store_trust x (tr\<lparr>ot_status := TS_EXPIRED\<rparr>), Inl (HTTPException 400 ''Trust request has expired''))
          else
            let tr' = tr\<lparr>ot_status := TS_ACTIVE, ot_accepted_by_user_id := Some user, ot_accepted_at := Some now,
                  ot_updated_at := now\<rparr>
            in (trust_event (store_trust x tr') user ''organization_trust_accepted'' target_org ''info''
                  (''Accepted trust request '' @ trust_id @ '' from organization ''
                     @ uuid_str (ot_source_organization_id tr)), Inr tr'))"

definition reject_trust_request ::
    "xorg \<Rightarrow> string \<Rightarrow> uuid \<Rightarrow> uuid \<Rightarrow> string option \<Rightarrow> http_error + xorg \<times> OrganizationTrustRelationship" where
  "reject_trust_request x trust_id user target_org reason =
     (case pending_trust x trust_id ''reject'' target_org of
        Inl e \<Rightarrow> Inl e
      | Inr tr \<Rightarrow>
          let tr' = tr\<lparr>ot_status := TS_REJECTED, ot_revocation_reason := reason, ot_updated_at := clock (xo_db x)\<rparr>
          in Inr (trust_event (store_trust x tr') user ''organization_trust_rejected'' target_org ''info''
               (''Rejected trust request '' @ trust_id @ '' from organization ''
                  @ uuid_str (ot_source_organization_id tr)), tr'))"

definition party :: "OrganizationTrustRelationship \<Rightarrow> uuid \<Rightarrow> bool" where
  "party tr org = (ot_source_organization_id tr = org \<or> ot_target_organization_id tr = org)"

definition revoke_trust_relationship ::
    "xorg \<Rightarrow> string \<Rightarrow> uuid \<Rightarrow> uuid \<Rightarrow> string \<Rightarrow> http_error + xorg \<times> OrganizationTrustRelationship" where
  "revoke_trust_relationship x trust_id user org reason =
     (let now = clock (xo_db x) in
      case find_trust x trust_id of
        None \<Rightarrow> Inl (HTTPException 404 ''Trust relationship not found'')
      | Some tr \<Rightarrow>
          if \<not> party tr org
          then Inl (HTTPException 403 ''You do not have access to revoke this trust relationship'')
          else
            let tr' = tr\<lparr>ot_status := TS_REVOKED, ot_revoked_at := Some now, ot_revocation_reason := Some reason,
                  ot_updated_at := now\<rparr>;
                x1 = (store_trust x tr')\<lparr>xo_connections :=
                  update_where (\<lambda>c. ec_trust_relationship_id c = ot_id tr \<and> ec_status c = ''ACTIVE'')
                    (\<lambda>c. c\<lparr>ec_status := ''REVOKED'', ec_revoked_at := Some now,
                       ec_revocation_reason := Some (''Trust relationship '' @ trust_id @ '' revoked'')\<rparr>)
                    (xo_connections x)\<rparr>
            in Inr (trust_event x1 user ''organization_trust_revoked'' org ''medium''
                 (''Revoked trust relationship '' @ trust_id @ '': '' @ reason), tr'))"

definition get_trust_relationship :: "xorg \<Rightarrow> string \<Rightarrow> uuid \<Rightarrow> http_error + OrganizationTrustRelationship" where
  "get_trust_relationship x trust_id org =
     (case find_trust x trust_id of
        None \<Rightarrow> Inl (HTTPException 404 ''Trust relationship not found'')
      | Some tr \<Rightarrow> if party tr org then Inr tr else Inl (HTTPException 404 ''Trust relationship not found''))"

definition list_trust_relationships ::
    "xorg \<Rightarrow> uuid \<Rightarrow> string \<Rightarrow> TrustStatus option \<Rightarrow> OrganizationTrustRelationship list" where
  "list_trust_relationships x org direction st =
     rev (sort_key ot_created_at (rev (filter (\<lambda>tr.
       (if direction = ''incoming'' then ot_target_organization_id tr = org
        else if direction = ''outgoing'' then ot_source_organization_id tr = org else party tr org) \<and>
       (st = None \<or> st = Some (ot_status tr))) (xo_trusts x))))"

section \<open>Policies\<close>

definition update_trust_policy ::
    "xorg \<Rightarrow> string \<Rightarrow> uuid \<Rightarrow> uuid \<Rightarrow> TrustPolicyUpdate \<Rightarrow> http_error + xorg \<times> OrganizationTrustPolicy" where
  "update_trust_policy x trust_id user org u =
     rbind (get_trust_relationship x trust_id org) (\<lambda>tr.
       let (i, x1) = (case find (\<lambda>p. tp_trust_relationship_id p = ot_id tr) (xo_policies x) of
               Some p \<Rightarrow> (tp_id p, x)
             | None \<Rightarrow> let (i, d) = fresh (xo_db x)
                       in (i, (with_db x d)\<lparr>xo_policies := xo_policies x @ [policy_row u i (ot_id tr)]\<rparr>));
           p' = policy_row u i (ot_id tr);
           x2 = x1\<lparr>xo_policies := update_where (\<lambda>p. tp_id p = i) (\<lambda>_. p') (xo_policies x1)\<rparr>
       in Inr (trust_event x2 user ''organization_trust_policy_updated'' org ''low''
            (''Updated trust policy for relationship '' @ trust_id), p'))"

definition default_target_policy :: TargetOrganizationPolicyUpdate where
  "default_target_policy = \<lparr>gp_allowed_actions = [], gp_allowed_resources = [], gp_max_amount = None,
     gp_currency = None, gp_require_human_approval = False, gp_approval_threshold = None\<rparr>"

definition get_target_policy :: "xorg \<Rightarrow> uuid \<Rightarrow> xorg \<times> TargetOrganizationPolicy" where
  "get_target_policy x org =
     (case find (\<lambda>p. gp_organization_id p = org) (xo_target_policies x) of
        Some p \<Rightarrow> (x, p)
      | None \<Rightarrow>
          let (i, d) = fresh (xo_db x);
              p = TargetOrganizationPolicyUpdate.extend default_target_policy
                    \<lparr>gp_id = i, gp_organization_id = org, gp_required_credential_types = []\<rparr>
          in ((with_db x d)\<lparr>xo_target_policies := xo_target_policies x @ [p]\<rparr>, p))"

definition update_target_policy ::
    "xorg \<Rightarrow> uuid \<Rightarrow> uuid \<Rightarrow> TargetOrganizationPolicyUpdate \<Rightarrow> xorg \<times> TargetOrganizationPolicy" where
  "update_target_policy x org user u =
     (let (x1, p) = get_target_policy x org;
          p' = p\<lparr>gp_allowed_actions := gp_allowed_actions u, gp_allowed_resources := gp_allowed_resources u,
                 gp_max_amount := gp_max_amount u, gp_currency := gp_currency u,
                 gp_require_human_approval := gp_require_human_approval u,
                 gp_approval_threshold := gp_approval_threshold u\<rparr>;
          x2 = x1\<lparr>xo_target_policies := update_where (\<lambda>q. gp_id q = gp_id p) (\<lambda>_. p') (xo_target_policies x1)\<rparr>
      in (trust_event x2 user ''target_organization_policy_updated'' org ''low''
            ''Updated target organization inbound request policy'', p'))"

section \<open>Connections of agents\<close>

record ExternalAgentConnectionCreate =
  cc_source_agent_id :: uuid
  cc_target_agent_id :: uuid
  cc_expires_at :: "datetime option"

text \<open>The check of one side of a connection, named in the message.\<close>

definition check_side :: "xorg \<Rightarrow> string \<Rightarrow> uuid \<Rightarrow> uuid \<Rightarrow> http_error + Agent" where
  "check_side x side agent org =
     (let lower = py_lower side in
      case get_agent (xo_db x) agent of
        Some a \<Rightarrow>
          if ag_organization_id a \<noteq> Some org
          then Inl (HTTPException 400 (side @ '' agent does not belong to the '' @ lower
                 @ '' organization of this trust relationship''))
          else if ag_status a \<noteq> AG_ACTIVE then Inl (HTTPException 400 (side @ '' agent is not active''))
          else Inr a
      | None \<Rightarrow> Inl (HTTPException 400 (side @ '' agent does not belong to the '' @ lower
                  @ '' organization of this trust relationship'')))"

definition find_connection :: "xorg \<Rightarrow> uuid \<Rightarrow> uuid \<Rightarrow> uuid \<Rightarrow> ExternalAgentConnection option" where
  "find_connection x trust source target =
     find (\<lambda>c. ec_trust_relationship_id c = trust \<and> ec_source_agent_id c = source \<and> ec_target_agent_id c = target)
       (xo_connections x)"

definition create_agent_connection ::
    "xorg \<Rightarrow> string \<Rightarrow> ExternalAgentConnectionCreate \<Rightarrow> uuid \<Rightarrow> uuid
       \<Rightarrow> http_error + xorg \<times> ExternalAgentConnection" where
  "create_agent_connection x trust_id u user org =
     rbind (get_trust_relationship x trust_id org) (\<lambda>tr.
     if ot_status tr \<noteq> TS_ACTIVE
     then Inl (HTTPException 400 (''Cannot connect agents: trust relationship is in '' @ [CHR 0x27]
            @ TrustStatus_value (ot_status tr) @ [CHR 0x27] @ '' state''))
     else rbind (check_side x ''Source'' (cc_source_agent_id u) (ot_source_organization_id tr)) (\<lambda>a.
       rbind (check_side x ''Target'' (cc_target_agent_id u) (ot_target_organization_id tr)) (\<lambda>b.
         case find_connection x (ot_id tr) (cc_source_agent_id u) (cc_target_agent_id u) of
           Some c \<Rightarrow>
             if ec_status c = ''ACTIVE''
             then Inl (HTTPException 409 ''Connection already exists between these agents'')
             else
               let c' = c\<lparr>ec_status := ''ACTIVE'', ec_expires_at := cc_expires_at u, ec_revoked_at := None,
                     ec_revocation_reason := None\<rparr>
               in Inr (x\<lparr>xo_connections := update_where (\<lambda>r. ec_id r = ec_id c) (\<lambda>_. c') (xo_connections x)\<rparr>, c')
         | None \<Rightarrow>
             let (i, d1) = fresh (xo_db x); (token, d2) = fresh d1;
                 c = \<lparr>ec_id = i, ec_connection_id = generate_connection_id token,
                   ec_trust_relationship_id = ot_id tr, ec_source_agent_id = cc_source_agent_id u,
                   ec_target_agent_id = cc_target_agent_id u, ec_status = ''ACTIVE'',
                   ec_expires_at = cc_expires_at u, ec_revoked_at = None, ec_revocation_reason = None,
                   ec_created_at = clock (xo_db x)\<rparr>
             in Inr (trust_event ((with_db x d2)\<lparr>xo_connections := xo_connections x @ [c]\<rparr>) user
                  ''external_agent_connected'' org ''info''
                  (''Connected source agent '' @ ag_name a @ '' to target agent '' @ ag_name b), c))))"

definition revoke_agent_connection ::
    "xorg \<Rightarrow> string \<Rightarrow> string \<Rightarrow> uuid \<Rightarrow> uuid \<Rightarrow> string \<Rightarrow> http_error + xorg \<times> ExternalAgentConnection" where
  "revoke_agent_connection x trust_id connection_id user org reason =
     rbind (get_trust_relationship x trust_id org) (\<lambda>tr.
       case find (\<lambda>c. ec_connection_id c = connection_id \<and> ec_trust_relationship_id c = ot_id tr) (xo_connections x) of
         None \<Rightarrow> Inl (HTTPException 404 ''External agent connection not found'')
       | Some c \<Rightarrow>
           let c' = c\<lparr>ec_status := ''REVOKED'', ec_revoked_at := Some (clock (xo_db x)),
                 ec_revocation_reason := Some reason\<rparr>
           in Inr (trust_event (x\<lparr>xo_connections := update_where (\<lambda>r. ec_id r = ec_id c) (\<lambda>_. c') (xo_connections x)\<rparr>)
                user ''external_agent_disconnected'' org ''medium''
                (''Disconnected external agent connection '' @ connection_id @ '': '' @ reason), c'))"

definition list_agent_connections :: "xorg \<Rightarrow> string \<Rightarrow> uuid \<Rightarrow> http_error + ExternalAgentConnection list" where
  "list_agent_connections x trust_id org =
     rbind (get_trust_relationship x trust_id org) (\<lambda>tr.
       Inr (rev (sort_key ec_created_at (rev (filter (\<lambda>c. ec_trust_relationship_id c = ot_id tr) (xo_connections x))))))"

section \<open>The directory\<close>

definition get_public_profile :: "xorg \<Rightarrow> uuid \<Rightarrow> http_error + xorg \<times> OrganizationPublicProfile" where
  "get_public_profile x org =
     (case find (\<lambda>p. pp_organization_id p = org) (xo_profiles x) of
        Some p \<Rightarrow> Inr (x, p)
      | None \<Rightarrow>
          (case find (\<lambda>g. or_id g = org) (xo_organizations x) of
             None \<Rightarrow> Inl (HTTPException 404 ''Organization not found'')
           | Some g \<Rightarrow>
               let (i, d) = fresh (xo_db x);
                   p = \<lparr>pp_public_name = or_name g, pp_description = [], pp_website_domain = None,
                     pp_discoverable = True, pp_supported_capabilities = [], pp_id = i, pp_organization_id = org,
                     pp_verification_status = ''UNVERIFIED''\<rparr>
               in Inr ((with_db x d)\<lparr>xo_profiles := xo_profiles x @ [p]\<rparr>, p)))"

definition update_public_profile ::
    "xorg \<Rightarrow> uuid \<Rightarrow> OrganizationPublicProfileUpdate \<Rightarrow> http_error + xorg \<times> OrganizationPublicProfile" where
  "update_public_profile x org u =
     rbind (get_public_profile x org) (\<lambda>(x1, p).
       let p' = p\<lparr>pp_public_name := pp_public_name u, pp_description := pp_description u,
             pp_website_domain := pp_website_domain u, pp_discoverable := pp_discoverable u,
             pp_supported_capabilities := pp_supported_capabilities u\<rparr>
       in Inr (x1\<lparr>xo_profiles := update_where (\<lambda>q. pp_id q = pp_id p) (\<lambda>_. p') (xo_profiles x1)\<rparr>, p'))"

text \<open>
  \<open>LIKE\<close> with its two wildcards and the escape character; \<open>ILIKE\<close> compares lower-case texts.
\<close>

fun sql_like :: "string \<Rightarrow> string \<Rightarrow> bool" where
  "sql_like [] t = (t = [])"
| "sql_like (c # p) t =
     (if c = CHR ''%'' then sql_like p t \<or> (case t of [] \<Rightarrow> False | _ # t' \<Rightarrow> sql_like (c # p) t')
      else (case t of
          [] \<Rightarrow> False
        | d # t' \<Rightarrow>
            if c = CHR ''_'' then sql_like p t'
            else if c = CHR 0x5C then (case p of [] \<Rightarrow> False | e # p' \<Rightarrow> e = d \<and> sql_like p' t')
            else c = d \<and> sql_like p t'))"

definition ilike :: "string \<Rightarrow> string \<Rightarrow> bool" where
  "ilike pattern t = sql_like (py_lower pattern) (py_lower t)"

definition search_directory :: "xorg \<Rightarrow> string \<Rightarrow> OrganizationPublicProfile list" where
  "search_directory x query =
     (let search = ''%'' @ py_lower (py_strip query) @ ''%'' in
      take 50 (filter (\<lambda>p. pp_discoverable p \<and>
        (py_strip query = [] \<or> ilike search (pp_public_name p) \<or> ilike search (pp_description p))) (xo_profiles x)))"

end
