(* ===== verification/CrossOrgAuthorization.thy ===== *)
theory CrossOrgAuthorization
  imports CrossOrg
begin

text \<open>
  Requests between organizations (\<open>services/cross_org_authorization.py\<close>): the evaluation of a signed
  request, the record it leaves and the decisions of the organizations that have to approve it.
  SHA-256 is the parameter of request signing; amounts are the decimals of the request.
\<close>

section \<open>Requests and answers\<close>

record CrossOrgAuthorizePayload =
  cp_target_organization_id :: uuid
  cp_source_agent_id :: string
  cp_target_agent_id :: string
  cp_action :: string
  cp_resource :: string
  cp_amount :: "Decimal option"
  cp_currency :: "string option"
  cp_delegation_id :: "string option"

record CrossOrgAuthorizeResponse =
  ca_request_id :: string
  ca_status :: CrossOrgRequestStatus
  ca_reason :: string
  ca_pending_approvals :: "ApprovalStage list"

text \<open>What the caller passes beside the payload: settings, libraries, headers and the raw body.\<close>

record xorg_call =
  xc_crypto :: crypto
  xc_settings :: signing_settings
  xc_redis :: redis_client
  xc_lucky :: bool
  xc_headers :: headers
  xc_raw_body :: string
  xc_caller_org_id :: "uuid option"
  xc_idempotency_key :: "string option"

definition EXPIRY_WINDOW :: datetime where "EXPIRY_WINDOW = hours 24"

definition opt_str :: "('a \<Rightarrow> string) \<Rightarrow> 'a option \<Rightarrow> string" where
  "opt_str f v = (case v of None \<Rightarrow> ''None'' | Some a \<Rightarrow> f a)"

definition compute_payload_hash :: "crypto \<Rightarrow> CrossOrgAuthorizePayload \<Rightarrow> string" where
  "compute_payload_hash c p =
     sha256_hex c (cp_source_agent_id p @ '':'' @ uuid_str (cp_target_organization_id p) @ '':''
       @ cp_target_agent_id p @ '':'' @ cp_action p @ '':'' @ cp_resource p @ '':'' @ opt_str dec_str (cp_amount p)
       @ '':'' @ opt_str id (cp_currency p) @ '':'' @ opt_str id (cp_delegation_id p))"

definition find_agent :: "xorg \<Rightarrow> string \<Rightarrow> Agent option" where
  "find_agent x ident =
     (case (case parse_uuid ident of Some u \<Rightarrow> get_agent (xo_db x) u | None \<Rightarrow> None) of
        Some a \<Rightarrow> Some a
      | None \<Rightarrow> find (\<lambda>a. ag_agent_identifier a = ident) (agents (xo_db x)))"

section \<open>The parties\<close>

text \<open>Step 1: the two agents and their organizations.\<close>

record parties =
  py_source :: Agent
  py_target :: Agent
  py_source_org :: uuid
  py_target_org :: uuid

definition resolve_parties :: "xorg \<Rightarrow> CrossOrgAuthorizePayload \<Rightarrow> uuid option \<Rightarrow> http_error + parties" where
  "resolve_parties x p caller_org =
     (case find_agent x (cp_source_agent_id p) of
        None \<Rightarrow> Inl (HTTPException 404 ''Source agent not found'')
      | Some a \<Rightarrow>
     (case find_agent x (cp_target_agent_id p) of
        None \<Rightarrow> Inl (HTTPException 404 ''Target agent not found'')
      | Some b \<Rightarrow>
     (case ag_organization_id a of
        None \<Rightarrow> Inl (HTTPException 400 ''Source agent must belong to an organization'')
      | Some so \<Rightarrow>
          if caller_org \<noteq> None \<and> caller_org \<noteq> Some so
          then Inl (HTTPException 403 ''Caller organization mismatch with source agent'')
          else if ag_organization_id b \<noteq> Some (cp_target_organization_id p)
          then Inl (HTTPException 400 ''Target agent does not belong to specified target organization'')
          else if so = cp_target_organization_id p
          then Inl (HTTPException 400
                 ''Cross-organization authorization cannot be used within the same organization'')
          else Inr \<lparr>py_source = a, py_target = b, py_source_org = so,
                 py_target_org = cp_target_organization_id p\<rparr>)))"

text \<open>Step 2: the answer to a repeated request.\<close>

definition idempotent_answer ::
    "xorg \<Rightarrow> uuid \<Rightarrow> string option \<Rightarrow> string \<Rightarrow> (http_error + CrossOrgAuthorizeResponse) option" where
  "idempotent_answer x source_org key hash =
     (case key of
        None \<Rightarrow> None
      | Some k \<Rightarrow>
          if k = [] then None
          else (case find (\<lambda>r. xr_source_organization_id r = source_org \<and> xr_idempotency_key r = Some k) (xo_requests x) of
              None \<Rightarrow> None
            | Some r \<Rightarrow>
                if xr_idempotency_hash r \<noteq> Some hash
                then Some (Inl (HTTPException 409 (''CROSS_ORG_IDEMPOTENCY_CONFLICT: Idempotency key ''
                       @ ''already used with different request parameters'')))
                else Some (Inr \<lparr>ca_request_id = xr_request_id r, ca_status = xr_status r,
                       ca_reason = (case xr_decision_reason r of Some t \<Rightarrow> if t = [] then ''Idempotent response'' else t
                                    | None \<Rightarrow> ''Idempotent response''),
                       ca_pending_approvals = []\<rparr>)))"

text \<open>Step 4: organizations and agents are active.\<close>

definition org_active :: "xorg \<Rightarrow> uuid \<Rightarrow> bool" where
  "org_active x i = list_ex (\<lambda>g. or_id g = i \<and> or_is_active g) (xo_organizations x)"

definition check_parties :: "xorg \<Rightarrow> parties \<Rightarrow> http_error option" where
  "check_parties x y =
     (if \<not> org_active x (py_source_org y) then Some (HTTPException 400 ''Source organization is inactive'')
      else if \<not> org_active x (py_target_org y) then Some (HTTPException 400 ''Target organization is inactive'')
      else if ag_status (py_source y) \<noteq> AG_ACTIVE then Some (HTTPException 400 ''Source agent is not active'')
      else if ag_status (py_target y) \<noteq> AG_ACTIVE then Some (HTTPException 400 ''Target agent is not active'')
      else None)"

section \<open>Grounds of a rejection\<close>

text \<open>
  Step 5. A delegation is verified by a call with the keywords of \<open>delegation_call\<close>; a keyword that
  \<open>verify_delegation_chain\<close> does not declare raises \<open>TypeError\<close>, and the value it returns is dropped.
\<close>

definition verify_parameters :: "string list" where
  "verify_parameters = [''db'', ''delegation_id'', ''action'', ''resource'', ''amount'', ''currency'', ''at'',
     ''child_agent_id'', ''organization_id'']"

definition delegation_call :: "string list" where
  "delegation_call = [''delegation_id'', ''expected_agent_id'', ''action'', ''resource'', ''amount'', ''currency'',
     ''checked_at'']"

definition keyword_call :: "string list \<Rightarrow> string list \<Rightarrow> pyexn + unit" where
  "keyword_call parameters keywords = (if set keywords \<subseteq> set parameters then Inr () else Inl TypeError)"

definition source_permission :: "xorg \<Rightarrow> parties \<Rightarrow> CrossOrgAuthorizePayload \<Rightarrow> Permission option" where
  "source_permission x y p =
     find (\<lambda>m. pm_agent_id m = ag_id (py_source y) \<and> pm_action m = cp_action p \<and> pm_resource m = cp_resource p \<and>
       pm_status m = PM_ACTIVE) (permissions (xo_db x))"

definition given_text :: "string option \<Rightarrow> bool" where
  "given_text v = (case v of None \<Rightarrow> False | Some t \<Rightarrow> t \<noteq> [])"

definition source_denied :: "xorg \<Rightarrow> parties \<Rightarrow> CrossOrgAuthorizePayload \<Rightarrow> string option" where
  "source_denied x y p =
     (if (case source_permission x y p of None \<Rightarrow> False | Some m \<Rightarrow> permission_is_usable m (clock (xo_db x))) then None
      else if given_text (cp_delegation_id p)
      then (case keyword_call verify_parameters delegation_call of
          Inr _ \<Rightarrow> None
        | Inl _ \<Rightarrow> Some ''SOURCE_PERMISSION_DENIED: Invalid delegation chain'')
      else Some ''SOURCE_PERMISSION_DENIED: Source agent lacks permission for this action/resource'')"

text \<open>Step 6.\<close>

definition trust_denied :: "datetime \<Rightarrow> OrganizationTrustRelationship \<Rightarrow> string option" where
  "trust_denied now tr =
     (if ot_status tr = TS_PENDING then Some ''TRUST_PENDING: Trust relationship is awaiting target acceptance''
      else if ot_status tr = TS_REVOKED then Some ''TRUST_REVOKED: Trust relationship has been revoked''
      else if ot_status tr = TS_EXPIRED \<or> (case ot_expires_at tr of None \<Rightarrow> False | Some e \<Rightarrow> e \<le> now)
      then Some ''TRUST_EXPIRED: Trust relationship has expired''
      else if ot_status tr \<noteq> TS_ACTIVE
      then Some (''TRUST_SUSPENDED: Trust relationship status is '' @ [CHR 0x27] @ TrustStatus_value (ot_status tr)
             @ [CHR 0x27])
      else None)"

text \<open>Steps 8 to 10: the policy of the relationship, of the target and the limit of the source.\<close>

definition over_limit :: "CrossOrgAuthorizePayload \<Rightarrow> rat option \<Rightarrow> string option \<Rightarrow> bool" where
  "over_limit p limit currency =
     (case limit of
        None \<Rightarrow> False
      | Some m \<Rightarrow> (case cp_amount p of None \<Rightarrow> True | Some a \<Rightarrow> dec_val a > m) \<or> cp_currency p \<noteq> currency)"

definition trust_policy_denied :: "CrossOrgAuthorizePayload \<Rightarrow> OrganizationTrustPolicy \<Rightarrow> string option" where
  "trust_policy_denied p q =
     (if tp_allowed_actions q \<noteq> [] \<and> cp_action p \<notin> set (tp_allowed_actions q)
      then Some ''CROSS_ORG_ACTION_NOT_ALLOWED: Action not permitted by trust policy''
      else if tp_allowed_resources q \<noteq> [] \<and> cp_resource p \<notin> set (tp_allowed_resources q)
      then Some ''CROSS_ORG_RESOURCE_NOT_ALLOWED: Resource not permitted by trust policy''
      else if over_limit p (tp_max_amount q) (tp_currency q)
      then Some ''CROSS_ORG_AMOUNT_EXCEEDED: Amount exceeds trust policy limit''
      else None)"

definition target_policy_denied :: "CrossOrgAuthorizePayload \<Rightarrow> TargetOrganizationPolicy \<Rightarrow> string option" where
  "target_policy_denied p q =
     (if gp_allowed_actions q \<noteq> [] \<and> cp_action p \<notin> set (gp_allowed_actions q)
      then Some ''TARGET_POLICY_DENIED: Action not accepted by target organization''
      else if gp_allowed_resources q \<noteq> [] \<and> cp_resource p \<notin> set (gp_allowed_resources q)
      then Some ''TARGET_POLICY_DENIED: Resource not accepted by target organization''
      else if over_limit p (gp_max_amount q) (gp_currency q)
      then Some ''CROSS_ORG_AMOUNT_EXCEEDED: Amount exceeds target organization limit''
      else None)"

definition source_limit_denied :: "CrossOrgAuthorizePayload \<Rightarrow> Permission option \<Rightarrow> string option" where
  "source_limit_denied p perm =
     (case (perm, cp_amount p) of
        (Some m, Some a) \<Rightarrow>
          (case pm_maximum_amount m of
             Some l \<Rightarrow> if dec_val a \<noteq> 0 \<and> dec_val a > l then Some ''SOURCE_PERMISSION_DENIED: Amount exceeds source permission limit''
                       else None
           | None \<Rightarrow> None)
      | _ \<Rightarrow> None)"

text \<open>Step 11: the approvals that are needed, of the source and of the target.\<close>

definition reaches :: "CrossOrgAuthorizePayload \<Rightarrow> rat option \<Rightarrow> bool" where
  "reaches p threshold =
     (case threshold of
        None \<Rightarrow> True
      | Some t \<Rightarrow> (case cp_amount p of None \<Rightarrow> False | Some a \<Rightarrow> dec_val a \<noteq> 0 \<and> dec_val a \<ge> t))"

definition approval_stages ::
    "CrossOrgAuthorizePayload \<Rightarrow> Permission option \<Rightarrow> OrganizationTrustPolicy option \<Rightarrow> TargetOrganizationPolicy option
       \<Rightarrow> ApprovalStage list" where
  "approval_stages p perm tp gp =
     (let policy = (case tp of
              Some q \<Rightarrow> if tp_require_human_approval q \<and> reaches p (tp_approval_threshold q) then tp_approval_type q else []
            | None \<Rightarrow> []);
          source = ((case perm of Some m \<Rightarrow> pm_requires_approval m | None \<Rightarrow> False) \<or>
            policy \<in> {''SOURCE_APPROVAL'', ''BOTH_APPROVAL''});
          target = (policy \<in> {''TARGET_APPROVAL'', ''BOTH_APPROVAL''} \<or>
            (case gp of Some q \<Rightarrow> gp_require_human_approval q \<and> reaches p (gp_approval_threshold q) | None \<Rightarrow> False))
      in (if source then [STAGE_SOURCE] else []) @ (if target then [STAGE_TARGET] else []))"

text \<open>Steps 5 to 10: the first objection, with the relationship and the connection known by then.\<close>

record grounds =
  gr_trust :: OrganizationTrustRelationship
  gr_connection :: ExternalAgentConnection
  gr_permission :: "Permission option"
  gr_trust_policy :: "OrganizationTrustPolicy option"
  gr_target_policy :: "TargetOrganizationPolicy option"

type_synonym objection = "string \<times> uuid option \<times> uuid option"

definition first_some :: "'a option list \<Rightarrow> 'a option" where
  "first_some vs = (case filter (\<lambda>v. v \<noteq> None) vs of [] \<Rightarrow> None | v # _ \<Rightarrow> v)"

definition evaluate_grounds :: "xorg \<Rightarrow> parties \<Rightarrow> CrossOrgAuthorizePayload \<Rightarrow> objection + grounds" where
  "evaluate_grounds x y p =
     (let now = clock (xo_db x); perm = source_permission x y p in
      case source_denied x y p of
        Some r \<Rightarrow> Inl (r, None, None)
      | None \<Rightarrow>
     (case find_pair x (py_source_org y) (py_target_org y) of
        None \<Rightarrow> Inl (''TRUST_NOT_FOUND: No trust relationship exists between these organizations'', None, None)
      | Some tr \<Rightarrow>
     (case trust_denied now tr of
        Some r \<Rightarrow> Inl (r, Some (ot_id tr), None)
      | None \<Rightarrow>
     (case find_connection x (ot_id tr) (ag_id (py_source y)) (ag_id (py_target y)) of
        None \<Rightarrow> Inl (''EXTERNAL_AGENT_CONNECTION_NOT_FOUND: No active connection between these agents'',
                  Some (ot_id tr), None)
      | Some c \<Rightarrow>
          if \<not> connection_is_usable c now
          then Inl (''EXTERNAL_AGENT_CONNECTION_NOT_FOUND: No active connection between these agents'',
                 Some (ot_id tr), None)
          else
            let tp = find (\<lambda>q. tp_trust_relationship_id q = ot_id tr) (xo_policies x);
                gp = find (\<lambda>q. gp_organization_id q = py_target_org y) (xo_target_policies x) in
            (case first_some [Option.bind tp (trust_policy_denied p), Option.bind gp (target_policy_denied p),
                source_limit_denied p perm] of
               Some r \<Rightarrow> Inl (r, Some (ot_id tr), Some (ec_id c))
             | None \<Rightarrow> Inr \<lparr>gr_trust = tr, gr_connection = c, gr_permission = perm, gr_trust_policy = tp,
                         gr_target_policy = gp\<rparr>)))))"

section \<open>Records\<close>

text \<open>\<open>datetime.isoformat\<close> of a time in UTC\<close>

definition isoformat :: "datetime \<Rightarrow> string" where
  "isoformat t =
     utc_text_body t
     @ (if t mod seconds 1 = 0 then [] else ''.'' @ pad 6 (str_of_int (t mod seconds 1))) @ ''+00:00''"

definition request_row ::
    "nat \<Rightarrow> nat \<Rightarrow> parties \<Rightarrow> CrossOrgAuthorizePayload \<Rightarrow> uuid \<Rightarrow> uuid option \<Rightarrow> CrossOrgRequestStatus \<Rightarrow> string
       \<Rightarrow> string option \<Rightarrow> string \<Rightarrow> datetime option \<Rightarrow> datetime option \<Rightarrow> CrossOrganizationRequest" where
  "request_row i token y p trust connection st reason key hash expires completed =
     \<lparr>xr_id = i, xr_request_id = generate_cross_org_request_id token, xr_trust_relationship_id = trust,
      xr_connection_id = connection, xr_source_organization_id = py_source_org y,
      xr_target_organization_id = py_target_org y, xr_source_agent_id = ag_id (py_source y),
      xr_target_agent_id = ag_id (py_target y), xr_action = cp_action p, xr_resource = cp_resource p,
      xr_amount = map_option dec_val (cp_amount p), xr_currency = cp_currency p, xr_status = st,
      xr_decision_reason = Some reason, xr_idempotency_key = key, xr_idempotency_hash = Some hash,
      xr_expires_at = expires, xr_completed_at = completed\<rparr>"

text \<open>\<open>_record_and_return_rejection\<close>: without a relationship nothing is stored.\<close>

definition record_rejection ::
    "crypto \<Rightarrow> xorg \<Rightarrow> parties \<Rightarrow> CrossOrgAuthorizePayload \<Rightarrow> objection \<Rightarrow> string option \<Rightarrow> string
       \<Rightarrow> xorg \<times> CrossOrgAuthorizeResponse" where
  "record_rejection c x y p ob key hash =
     (case ob of (reason, trust, connection) \<Rightarrow>
      (case trust of
         None \<Rightarrow>
           (x, \<lparr>ca_request_id = ''xreq_denied_'' @ take 16 (sha256_hex c (isoformat (clock (xo_db x)))),
                ca_status = CQ_REJECTED, ca_reason = reason, ca_pending_approvals = []\<rparr>)
       | Some t \<Rightarrow>
           let (i, d1) = fresh (xo_db x); (token, d2) = fresh d1;
               r = request_row i token y p t connection CQ_REJECTED reason key hash None (Some (clock (xo_db x)))
           in ((with_db x d2)\<lparr>xo_requests := xo_requests x @ [r]\<rparr>,
               \<lparr>ca_request_id = xr_request_id r, ca_status = CQ_REJECTED, ca_reason = reason,
                ca_pending_approvals = []\<rparr>)))"

definition audit_row ::
    "nat \<Rightarrow> nat \<Rightarrow> datetime \<Rightarrow> Agent \<Rightarrow> uuid \<Rightarrow> CrossOrgAuthorizePayload \<Rightarrow> AuditDecision \<Rightarrow> string \<Rightarrow> AuditLog" where
  "audit_row i token now a org p dec reason =
     \<lparr>al_id = i, al_request_id = ''req_'' @ hex_digits 24 token, al_environment = ''production'',
      al_user_id = ag_owner_id a, al_organization_id = Some org, al_agent_id = Some (ag_id a),
      al_agent_identifier = ag_agent_identifier a, al_permission_id = None, al_delegation_id = None,
      al_parent_agent_id = None, al_action = cp_action p, al_resource = cp_resource p,
      al_amount = map_option dec_val (cp_amount p), al_currency = cp_currency p, al_decision = dec,
      al_reason = take 255 reason, al_risk_score = None, al_risk_level = None, al_risk_recommendation = None,
      al_signature_verified = True, al_signing_key_id = None, al_signature_version = Some ''v2'',
      al_requested_at = now\<rparr>"

definition record_dual_audit_logs ::
    "db \<Rightarrow> parties \<Rightarrow> CrossOrgAuthorizePayload \<Rightarrow> AuditDecision \<Rightarrow> string \<Rightarrow> db" where
  "record_dual_audit_logs d y p dec reason =
     (let (i1, d1) = fresh d; (t1, d2) = fresh d1; (i2, d3) = fresh d2; (t2, d4) = fresh d3;
          source = audit_row i1 t1 (clock d) (py_source y) (py_source_org y) p dec
            (''Outbound cross-org request to '' @ ag_name (py_target y) @ '': '' @ reason);
          target = audit_row i2 t2 (clock d) (py_target y) (py_target_org y) p dec
            (''Inbound cross-org request from '' @ ag_name (py_source y) @ '': '' @ reason)
      in d4\<lparr>audit_logs := audit_logs d4 @ [source, target]\<rparr>)"

definition approval_row :: "parties \<Rightarrow> uuid \<Rightarrow> nat \<Rightarrow> ApprovalStage \<Rightarrow> CrossOrganizationApproval" where
  "approval_row y request i stage =
     \<lparr>xa_id = i, xa_cross_org_request_id = request,
      xa_organization_id = (case stage of STAGE_SOURCE \<Rightarrow> py_source_org y | STAGE_TARGET \<Rightarrow> py_target_org y),
      xa_approval_stage = stage, xa_required_role = ''admin'', xa_status = AP_PENDING,
      xa_decided_by_user_id = None, xa_decided_at = None, xa_reason = None\<rparr>"

text \<open>One approval for each stage, with fresh identifiers.\<close>

fun add_approvals :: "parties \<Rightarrow> uuid \<Rightarrow> ApprovalStage list \<Rightarrow> xorg \<Rightarrow> xorg" where
  "add_approvals y request [] x = x"
| "add_approvals y request (stage # stages) x =
     (let (i, d) = fresh (xo_db x)
      in add_approvals y request stages
           ((with_db x d)\<lparr>xo_approvals := xo_approvals x @ [approval_row y request i stage]\<rparr>))"

definition record_request ::
    "xorg \<Rightarrow> parties \<Rightarrow> CrossOrgAuthorizePayload \<Rightarrow> grounds \<Rightarrow> string option \<Rightarrow> string
       \<Rightarrow> xorg \<times> CrossOrgAuthorizeResponse" where
  "record_request x y p g key hash =
     (let now = clock (xo_db x);
          stages = approval_stages p (gr_permission g) (gr_trust_policy g) (gr_target_policy g);
          st = (if stages \<noteq> [] then CQ_PENDING else CQ_APPROVED);
          reason = (if stages = [] then ''Approved by cross-organization policy'' else ''Awaiting required human approval'');
          (i, d1) = fresh (xo_db x); (token, d2) = fresh d1;
          r = request_row i token y p (ot_id (gr_trust g)) (Some (ec_id (gr_connection g))) st reason key hash
                (Some (now + EXPIRY_WINDOW)) (if stages = [] then Some now else None);
          x1 = add_approvals y i stages ((with_db x d2)\<lparr>xo_requests := xo_requests x @ [r]\<rparr>);
          x2 = with_db x1 (record_dual_audit_logs (xo_db x1) y p (if stages = [] then AD_APPROVED else AD_REJECTED) reason)
      in (x2, \<lparr>ca_request_id = xr_request_id r, ca_status = st, ca_reason = reason, ca_pending_approvals = stages\<rparr>))"

section \<open>The whole evaluation\<close>

definition authorize_cross_organization_action ::
    "xorg \<Rightarrow> xorg_call \<Rightarrow> CrossOrgAuthorizePayload \<Rightarrow> xorg \<times> (http_error + CrossOrgAuthorizeResponse)" where
  "authorize_cross_organization_action x call p =
     (case resolve_parties x p (xc_caller_org_id call) of
        Inl e \<Rightarrow> (x, Inl e)
      | Inr y \<Rightarrow>
     let hash = compute_payload_hash (xc_crypto call) p; key = xc_idempotency_key call in
     (case idempotent_answer x (py_source_org y) key hash of
        Some answer \<Rightarrow> (x, answer)
      | None \<Rightarrow>
     (case verify_cross_org_request_v2 (xc_crypto call) (xc_settings call) (xc_redis call) (xc_lucky call) (xo_signing x)
           (py_source y) (py_target y) (uuid_str (py_source_org y)) (uuid_str (py_target_org y)) (xc_headers call)
           (xc_raw_body call) ''POST'' ''/api/v1/cross-org/authorize'' of
        (sg, Inl e) \<Rightarrow>
          (x\<lparr>xo_signing := sg\<rparr>, Inl (HTTPException (sge_status_code e) (''CROSS_ORG_SIGNATURE_INVALID: '' @ sge_code e)))
      | (sg, Inr _) \<Rightarrow>
          let x1 = x\<lparr>xo_signing := sg\<rparr> in
          (case check_parties x1 y of
             Some e \<Rightarrow> (x1, Inl e)
           | None \<Rightarrow>
               (case evaluate_grounds x1 y p of
                  Inl ob \<Rightarrow> (case record_rejection (xc_crypto call) x1 y p ob key hash of (x2, r) \<Rightarrow> (x2, Inr r))
                | Inr g \<Rightarrow> (case record_request x1 y p g key hash of (x2, r) \<Rightarrow> (x2, Inr r)))))))"

section \<open>Decisions\<close>

definition rejection_reason :: "ApprovalStage \<Rightarrow> string option \<Rightarrow> string" where
  "rejection_reason stage reason =
     ''Rejected by '' @ ApprovalStage_value stage @ '' organization: ''
     @ (case reason of Some t \<Rightarrow> if t = [] then ''Denied'' else t | None \<Rightarrow> ''Denied'')"

definition decide_cross_org_approval ::
    "xorg \<Rightarrow> string \<Rightarrow> uuid \<Rightarrow> uuid \<Rightarrow> bool \<Rightarrow> string option \<Rightarrow> http_error + xorg \<times> CrossOrganizationRequest" where
  "decide_cross_org_approval x request_id user caller_org approve reason =
     (let now = clock (xo_db x) in
      case find (\<lambda>r. xr_request_id r = request_id) (xo_requests x) of
        None \<Rightarrow> Inl (HTTPException 404 ''Cross-organization request not found'')
      | Some r \<Rightarrow>
      if xr_status r \<noteq> CQ_PENDING
      then Inl (HTTPException 400 (''Request is not pending (current status: '' @ [CHR 0x27]
             @ CrossOrgRequestStatus_value (xr_status r) @ [CHR 0x27] @ '')''))
      else (case find (\<lambda>a. xa_cross_org_request_id a = xr_id r \<and> xa_organization_id a = caller_org) (xo_approvals x) of
        None \<Rightarrow> Inl (HTTPException 403
                  ''Your organization does not have an active approval requirement for this request'')
      | Some a \<Rightarrow>
      if xa_status a \<noteq> AP_PENDING
      then Inl (HTTPException 400 (''Your organization has already decided this approval (''
             @ ApprovalStatus_value (xa_status a) @ '')''))
      else
        let a' = a\<lparr>xa_status := (if approve then AP_APPROVED else AP_REJECTED), xa_decided_by_user_id := Some user,
              xa_decided_at := Some now, xa_reason := reason\<rparr>;
            rows = update_where (\<lambda>b. xa_id b = xa_id a) (\<lambda>_. a') (xo_approvals x);
            r' = (if \<not> approve
                  then r\<lparr>xr_status := CQ_REJECTED, xr_decision_reason := Some (rejection_reason (xa_approval_stage a) reason),
                         xr_completed_at := Some now\<rparr>
                  else if list_ex (\<lambda>b. xa_cross_org_request_id b = xr_id r \<and> xa_status b = AP_PENDING) rows then r
                  else r\<lparr>xr_status := CQ_APPROVED,
                         xr_decision_reason := Some ''All required cross-organization approvals received'',
                         xr_completed_at := Some now\<rparr>);
            x1 = x\<lparr>xo_approvals := rows, xo_requests := update_where (\<lambda>q. xr_id q = xr_id r) (\<lambda>_. r') (xo_requests x)\<rparr>
        in Inr (trust_event x1 user (''cross_org_approval_'' @ (if approve then ''approved'' else ''rejected''))
             caller_org ''info''
             (''Decided '' @ ApprovalStage_value (xa_approval_stage a) @ '' approval for cross-org request '' @ request_id
                @ '': '' @ (if approve then ''APPROVED'' else ''REJECTED'')), r')))"

end
