(* ===== verification/AtpRouter.thy ===== *)
theory AtpRouter
  imports GatewayIdentity Ssrf CrossOrgAuthorization
begin

text \<open>
  Messages between agents and their delivery: the rows (\<open>models/agenttrust_protocol.py\<close>), the message
  schema, the simulated agents (\<open>services/sandbox_mock_agents.py\<close>) and the router
  (\<open>services/atp_router.py\<close>). The answers of HTTP endpoints, the resolver, random identifiers and the
  keys of the simulated agents are parameters. The clock stands still during a call; the reason of
  a failed delivery names the code of a refused endpoint where the code quotes its message.
\<close>

section \<open>Rows\<close>

record AgentEndpoint =
  ep_id :: uuid
  ep_organization_id :: uuid
  ep_agent_id :: uuid
  ep_endpoint_url :: string
  ep_status :: string

record ATPMessageRecord =
  mr_id :: uuid
  mr_message_id :: string
  mr_message_type :: string
  mr_source_organization_id :: uuid
  mr_source_agent_id :: uuid
  mr_target_organization_id :: "uuid option"
  mr_target_agent_id :: "uuid option"
  mr_capability :: string
  mr_status :: string
  mr_decision_reason :: "string option"
  mr_payload_summary :: "(string \<times> pyval) list"
  mr_attestation_id :: "string option"
  mr_created_at :: datetime
  mr_completed_at :: "datetime option"

record ATPMessageDelivery =
  md_message_id :: string
  md_target_endpoint_id :: "uuid option"
  md_attempt_count :: nat
  md_status :: string
  md_http_status :: "int option"
  md_last_attempt_at :: datetime
  md_completed_at :: "datetime option"
  md_response_payload :: pyval
  md_error_message :: "string option"

text \<open>The gateway works on the tables of cross-organization trust and of the credential registry.\<close>

record gateway =
  gw_xorg :: xorg
  gw_issuers :: "CredentialIssuer list"
  gw_issuer_keys :: "IssuerSigningKey list"
  gw_endpoints :: "AgentEndpoint list"
  gw_messages :: "ATPMessageRecord list"
  gw_deliveries :: "ATPMessageDelivery list"

definition gw_db :: "gateway \<Rightarrow> db" where "gw_db g = xo_db (gw_xorg g)"
definition gw_now :: "gateway \<Rightarrow> datetime" where "gw_now g = clock (gw_db g)"

definition gw_trust :: "gateway \<Rightarrow> trust" where
  "gw_trust g = \<lparr>tr_db = gw_db g, tr_issuers = gw_issuers g, tr_issuer_keys = gw_issuer_keys g,
     tr_organizations = xo_organizations (gw_xorg g), tr_capabilities = []\<rparr>"

datatype http_outcome = RequestError string | Response int string "pyval option"

record gateway_env =
  ge_crypto :: gateway_crypto
  ge_resolve :: resolver
  ge_post :: "nat \<Rightarrow> string \<Rightarrow> pyval \<Rightarrow> (string \<times> string) list \<Rightarrow> http_outcome"
  ge_uuid_hex :: "nat \<Rightarrow> string"
  ge_mock_sign :: "string \<Rightarrow> string \<Rightarrow> string"
  ge_allow_private_ips :: bool
  ge_enforce_https :: bool

datatype gateway_error =
    GatewayPipelineError string int
  | ATPRoutingError int
  | AddressError ATPAddressError
  | IntegrityError
  | HttpError http_error
  | CredentialRaised credential_error
  | EndpointRaised pyexn
  | Raised pyexn

section \<open>Messages\<close>

record ATPSourceTarget =
  st_organization_id :: "string option"
  st_agent_id :: "string option"
  st_address :: "string option"

record ATPSignature =
  sg_version :: string
  sg_key_id :: string
  sg_value :: string

record ATPMessageEnvelope =
  en_protocol :: string
  en_message_id :: string
  en_message_type :: string
  en_source :: ATPSourceTarget
  en_target :: ATPSourceTarget
  en_capability :: string
  en_timestamp :: string
  en_nonce :: string
  en_payload :: pyval
  en_payload_sha256 :: "string option"
  en_signature :: ATPSignature

record ATPGatewayDispatchResponse =
  dr_message_id :: string
  dr_status :: string
  dr_target :: "string option"
  dr_capability :: "string option"
  dr_attestation_id :: "string option"
  dr_response :: "pyval option"
  dr_approval_required :: "bool option"
  dr_reason :: "string option"
  dr_notice :: "string option"
  dr_idempotent :: "bool option"
  dr_completed_at :: "string option"

definition dispatch_response :: "string \<Rightarrow> string \<Rightarrow> ATPGatewayDispatchResponse" where
  "dispatch_response message_id st =
     \<lparr>dr_message_id = message_id, dr_status = st, dr_target = None, dr_capability = None, dr_attestation_id = None,
      dr_response = None, dr_approval_required = None, dr_reason = None, dr_notice = None, dr_idempotent = None,
      dr_completed_at = None\<rparr>"

section \<open>Simulated agents\<close>

record mock_agent =
  mk_org_id :: string
  mk_agent_id :: string
  mk_name :: string
  mk_capabilities :: "string list"
  mk_key_id :: string

definition MOCK_AGENTS :: "(string \<times> mock_agent) list" where
  "MOCK_AGENTS =
     [(''atp://org_hotelcorp/agt_hotel'', \<lparr>mk_org_id = ''org_hotelcorp'', mk_agent_id = ''agt_hotel'',
         mk_name = ''Grand Hyatt Concierge AI'',
         mk_capabilities = [''hotel.reserve@1.0'', ''hotel.search@1.0'', ''hotel.cancel@1.0''],
         mk_key_id = ''key_agt_hotel_mock''\<rparr>),
      (''atp://org_payco/agt_payment'', \<lparr>mk_org_id = ''org_payco'', mk_agent_id = ''agt_payment'',
         mk_name = ''PayCo Autonomous Clearing'', mk_capabilities = [''payment.charge@1.0'', ''payment.refund@1.0''],
         mk_key_id = ''key_agt_payment_mock''\<rparr>),
      (''atp://org_workplace/agt_calendar'', \<lparr>mk_org_id = ''org_workplace'', mk_agent_id = ''agt_calendar'',
         mk_name = ''Workplace Schedule Assistant'',
         mk_capabilities = [''calendar.event.create@1.0'', ''calendar.availability@1.0''],
         mk_key_id = ''key_agt_calendar_mock''\<rparr>)]"

definition is_sandbox_mock_agent :: "string \<Rightarrow> bool" where
  "is_sandbox_mock_agent address = (py_strip address \<in> set (map fst MOCK_AGENTS))"

definition hotel_result :: "string \<Rightarrow> string \<Rightarrow> int \<Rightarrow> rat \<Rightarrow> pyval" where
  "hotel_result i name rate rating =
     PDict [(''hotel_id'', PStr i), (''name'', PStr name), (''rate_per_night'', PInt rate), (''currency'', PStr ''USD''),
       (''rating'', PFloat (float_of_rat rating))]"

text \<open>The payload of the answer; the \<open>n\<close>-th random identifier of the call is \<open>hex n\<close>.\<close>

definition mock_payload ::
    "datetime \<Rightarrow> (nat \<Rightarrow> string) \<Rightarrow> string \<Rightarrow> (string \<times> pyval) list \<Rightarrow> (string \<times> pyval) list" where
  "mock_payload now hex capability payload =
     (let g = dict_get payload in
      if capability = ''hotel.reserve@1.0'' then
        [(''status'', PStr ''CONFIRMED''), (''reservation_id'', PStr (''res_'' @ take 12 (hex 0))),
         (''hotel_id'', g ''hotel_id'' (PStr ''hotel_grand_hyatt'')), (''amount'', g ''amount'' (PInt 450)),
         (''currency'', g ''currency'' (PStr ''USD'')),
         (''confirmation_code'', PStr (''HTL-'' @ py_upper (take 6 (hex 1)))),
         (''check_in'', g ''check_in'' (PStr ''2026-10-01'')), (''check_out'', g ''check_out'' (PStr ''2026-10-05'')),
         (''message'', PStr ''Hotel reservation confirmed by Grand Hyatt Concierge AI.'')]
      else if capability = ''hotel.search@1.0'' then
        [(''query_city'', g ''city'' (PStr ''New York'')),
         (''results'', PList [hotel_result ''hotel_grand_hyatt'' ''Grand Hyatt Central'' 450 (48 / 10),
            hotel_result ''hotel_park_regis'' ''Park Regis'' 320 (45 / 10)])]
      else if capability = ''hotel.cancel@1.0'' then
        [(''status'', PStr ''CANCELLED''), (''reservation_id'', g ''reservation_id'' (PStr ''unknown'')),
         (''refund_amount'', g ''refund_amount'' (PInt 450)), (''fee'', PInt 0),
         (''message'', PStr ''Reservation successfully cancelled.'')]
      else if capability = ''payment.charge@1.0'' then
        [(''status'', PStr ''SUCCEEDED''), (''charge_id'', PStr (''ch_'' @ take 14 (hex 0))),
         (''amount'', g ''amount'' (PInt 100)), (''currency'', g ''currency'' (PStr ''USD'')),
         (''timestamp'', PStr (isoformat now))]
      else if capability = ''payment.refund@1.0'' then
        [(''status'', PStr ''REFUNDED''), (''refund_id'', PStr (''ref_'' @ take 14 (hex 0))),
         (''original_charge_id'', g ''charge_id'' (PStr ''ch_mock'')), (''amount'', g ''amount'' (PInt 100))]
      else if capability = ''calendar.event.create@1.0'' then
        [(''status'', PStr ''CREATED''), (''event_id'', PStr (''evt_'' @ take 12 (hex 0))),
         (''title'', g ''title'' (PStr ''Autonomous Agent Meeting'')), (''start'', g ''start'' (PStr (isoformat now)))]
      else if capability = ''calendar.availability@1.0'' then
        [(''available'', PBool True),
         (''slots'', PList (map PStr [''09:00Z'', ''11:00Z'', ''14:00Z'', ''16:00Z'']))]
      else [(''status'', PStr ''OK''), (''capability'', PStr capability), (''result'', PStr ''mock_success'')])"

definition mock_party :: "string \<Rightarrow> string \<Rightarrow> string \<Rightarrow> pyval" where
  "mock_party org agent address =
     PDict [(''organization_id'', PStr org), (''agent_id'', PStr agent), (''address'', PStr address)]"

definition execute_sandbox_mock_agent ::
    "gateway_env \<Rightarrow> datetime \<Rightarrow> string \<Rightarrow> string \<Rightarrow> (string \<times> pyval) list \<Rightarrow> string \<Rightarrow> string
       \<Rightarrow> gateway_error + (string \<times> pyval) list" where
  "execute_sandbox_mock_agent env now target_address capability payload source_address original_message_id =
     (case map_of MOCK_AGENTS target_address of
        None \<Rightarrow> Inl (Raised ValueError)
      | Some m \<Rightarrow>
          if capability \<notin> set (mk_capabilities m) then Inl (Raised ValueError)
          else (case parse_agent_address (PStr source_address) of
              Inl e \<Rightarrow> Inl (AddressError e)
            | Inr (dst_org, dst_agt) \<Rightarrow>
                let c = ge_crypto env;
                    hex = ge_uuid_hex env;
                    answer = mock_payload now hex capability payload;
                    mid = ''msg_resp_'' @ take 16 (hex 2);
                    now_iso = utc_text now;
                    nonce = ''nonce_'' @ hex 3;
                    digest = compute_payload_sha256 (sha256_hex c) (json_loads c) (PDict answer);
                    canon = build_canonical_request_ascii mid ''response'' (mk_org_id m) (mk_agent_id m) dst_org dst_agt
                      capability now_iso nonce digest;
                    sig = b64encode c (ge_mock_sign env (mk_key_id m) canon)
                in Inr [(''protocol'', PStr ''ATP/1.0''), (''message_id'', PStr mid), (''message_type'', PStr ''response''),
                     (''reply_to'', PStr original_message_id),
                     (''source'', mock_party (mk_org_id m) (mk_agent_id m) target_address),
                     (''target'', mock_party dst_org dst_agt source_address), (''capability'', PStr capability),
                     (''timestamp'', PStr now_iso), (''nonce'', PStr nonce), (''payload'', PDict answer),
                     (''payload_sha256'', PStr digest),
                     (''signature'', PDict [(''version'', PStr ''ATP-SIG/1''), (''key_id'', PStr (mk_key_id m)),
                        (''value'', PStr sig)]), (''gateway_routed'', PBool True)]))"

section \<open>The router\<close>

text \<open>The record of a message with the properties the pipeline sets on it for the router.\<close>

record routed = ATPMessageRecord +
  mr_source_address :: string
  mr_target_address :: string
  mr_payload_sha256 :: string

definition update_message :: "gateway \<Rightarrow> string \<Rightarrow> (ATPMessageRecord \<Rightarrow> ATPMessageRecord) \<Rightarrow> gateway" where
  "update_message g message_id f =
     g\<lparr>gw_messages := update_where (\<lambda>m. mr_message_id m = message_id) f (gw_messages g)\<rparr>"

definition finish_message :: "gateway \<Rightarrow> string \<Rightarrow> string \<Rightarrow> string \<Rightarrow> gateway" where
  "finish_message g message_id st reason =
     update_message g message_id (\<lambda>m. m\<lparr>mr_status := st, mr_decision_reason := Some reason,
       mr_completed_at := Some (gw_now g)\<rparr>)"

definition add_message_delivery :: "gateway \<Rightarrow> ATPMessageDelivery \<Rightarrow> gateway" where
  "add_message_delivery g d = g\<lparr>gw_deliveries := gw_deliveries g @ [d]\<rparr>"

definition delivery_row :: "gateway \<Rightarrow> string \<Rightarrow> uuid option \<Rightarrow> nat \<Rightarrow> string \<Rightarrow> ATPMessageDelivery" where
  "delivery_row g message_id endpoint attempt st =
     \<lparr>md_message_id = message_id, md_target_endpoint_id = endpoint, md_attempt_count = attempt, md_status = st,
      md_http_status = None, md_last_attempt_at = gw_now g, md_completed_at = None, md_response_payload = PNone,
      md_error_message = None\<rparr>"

text \<open>
  The attempts that are left, the first of them being made. What a row becomes at the end of an
  attempt is written at once, the row being the last one.
\<close>

definition MAX_RETRIES :: nat where "MAX_RETRIES = 2"

fun dispatch_attempts ::
    "(nat \<Rightarrow> http_outcome) \<Rightarrow> uuid \<Rightarrow> string \<Rightarrow> nat list \<Rightarrow> string \<Rightarrow> gateway \<Rightarrow> gateway \<times> (gateway_error + pyval)" where
  "dispatch_attempts post endpoint message_id [] last_error g =
     (finish_message g message_id ''FAILED'' (''ENDPOINT_UNREACHABLE: '' @ last_error), Inl (ATPRoutingError 504))"
| "dispatch_attempts post endpoint message_id (attempt # rest) last_error g =
     (let row = delivery_row g message_id (Some endpoint) attempt ''DELIVERING''; now = Some (gw_now g) in
      case post attempt of
        RequestError e \<Rightarrow>
          let retry = attempt \<le> MAX_RETRIES in
          dispatch_attempts post endpoint message_id (if retry then rest else []) e
            (add_message_delivery g (row\<lparr>md_status := (if retry then ''RETRYING'' else ''FAILED''),
               md_error_message := Some (''Network error: '' @ e), md_completed_at := (if retry then None else now)\<rparr>))
      | Response code text body \<Rightarrow>
          if code \<in> {502, 503, 504} \<and> attempt \<le> MAX_RETRIES
          then dispatch_attempts post endpoint message_id rest last_error
                 (add_message_delivery g (row\<lparr>md_http_status := Some code, md_status := ''RETRYING'',
                    md_error_message := Some (''Transient HTTP '' @ str_of_int code)\<rparr>))
          else if code \<ge> 400
          then (finish_message (add_message_delivery g (row\<lparr>md_http_status := Some code, md_status := ''FAILED'',
                    md_error_message := Some (''HTTP '' @ str_of_int code @ '': '' @ take 500 text), md_completed_at := now\<rparr>))
                  message_id ''FAILED'' (''Target error: HTTP '' @ str_of_int code),
                Inl (ATPRoutingError code))
          else
            (finish_message (add_message_delivery g (row\<lparr>md_http_status := Some code, md_status := ''DELIVERED'', md_completed_at := now,
                 md_response_payload := (case body of Some (PDict d) \<Rightarrow> dict_get d ''payload'' PNone | Some v \<Rightarrow> v
                   | None \<Rightarrow> PNone)\<rparr>))
               message_id ''DELIVERED'' ''Successfully delivered to target endpoint.'',
             Inr (case body of Some v \<Rightarrow> v | None \<Rightarrow> PDict [(''raw_response'', PStr text)])))"

definition message_attestation :: "gateway_env \<Rightarrow> datetime \<Rightarrow> routed \<Rightarrow> string" where
  "message_attestation env now m =
     create_gateway_attestation (ge_crypto env) (now div seconds 1)
       \<lparr>at_source_address = mr_source_address m, at_target_address = mr_target_address m,
        at_capability = mr_capability m, at_message_id = mr_message_id m, at_payload_sha256 = mr_payload_sha256 m\<rparr> 60 []"

definition outbound_headers :: "routed \<Rightarrow> string \<Rightarrow> (string \<times> string) list" where
  "outbound_headers m token =
     [(''Content-Type'', ''application/json''), (''Accept'', ''application/json''),
      (''User-Agent'', ''AgentTrust-Gateway/1.0''), (''X-ATP-Protocol'', ''ATP/1.0''),
      (''X-ATP-Message-ID'', mr_message_id m), (''X-ATP-Source'', mr_source_address m),
      (''X-ATP-Target'', mr_target_address m), (''X-ATP-Capability'', mr_capability m),
      (''X-ATP-Gateway-Attestation'', token)]"

definition outbound_body :: "routed \<Rightarrow> string \<Rightarrow> pyval" where
  "outbound_body m token =
     PDict [(''protocol'', PStr ''ATP/1.0''), (''message_id'', PStr (mr_message_id m)),
       (''message_type'', PStr (mr_message_type m)), (''source'', PDict [(''address'', PStr (mr_source_address m))]),
       (''target'', PDict [(''address'', PStr (mr_target_address m))]), (''capability'', PStr (mr_capability m)),
       (''payload'', PDict (mr_payload_summary m)), (''payload_sha256'', PStr (mr_payload_sha256 m)),
       (''gateway_attestation'', PStr token)]"

definition route_atp_message ::
    "gateway_env \<Rightarrow> gateway \<Rightarrow> routed \<Rightarrow> AgentEndpoint option \<Rightarrow> gateway \<times> (gateway_error + pyval)" where
  "route_atp_message env g m endpoint =
     (let mid = mr_message_id m; now = gw_now g in
      if is_sandbox_mock_agent (mr_target_address m) \<or> (case endpoint of Some e \<Rightarrow> ep_status e = ''MOCK'' | None \<Rightarrow> False)
      then (case execute_sandbox_mock_agent env now (mr_target_address m) (mr_capability m) (mr_payload_summary m)
               (mr_source_address m) mid of
          Inl e \<Rightarrow> (g, Inl e)
        | Inr answer \<Rightarrow>
            (finish_message
               (add_message_delivery g ((delivery_row g mid (map_option ep_id endpoint) 1 ''DELIVERED'')\<lparr>md_http_status := Some 200,
                  md_completed_at := Some now, md_response_payload := dict_get answer ''payload'' PNone\<rparr>))
               mid ''DELIVERED'' ''Delivered to Sandbox Mock Agent.'', Inr (PDict answer)))
      else (case endpoint of
          None \<Rightarrow> (g, Inl (ATPRoutingError 404))
        | Some e \<Rightarrow>
            (case resolve_and_validate_endpoint_url (ge_resolve env) (ep_endpoint_url e) (ge_allow_private_ips env)
                (ge_enforce_https env) of
               Inl (PyRaised x) \<Rightarrow> (g, Inl (EndpointRaised x))
             | Inl (SSRFValidationError code) \<Rightarrow>
                 (finish_message g mid ''FAILED'' (''SSRF_BLOCKED: '' @ code), Inl (ATPRoutingError 403))
             | Inr _ \<Rightarrow>
                 let token = message_attestation env now m;
                     g1 = update_message g mid (\<lambda>r. r\<lparr>mr_attestation_id := Some (take 64 token)\<rparr>)
                 in dispatch_attempts
                      (\<lambda>n. ge_post env n (ep_endpoint_url e) (outbound_body m token) (outbound_headers m token))
                      (ep_id e) mid [1..<MAX_RETRIES + 2] ''None'' g1)))"

end
