(* ===== verification/GatewayPipeline.thy ===== *)
theory GatewayPipeline
  imports AtpRouter
begin

text \<open>
  The gateway for messages between agents (\<open>services/gateway_pipeline.py\<close>) and the part of its HTTP
  interface that changes state (\<open>api/atp_gateway.py\<close>). A call that raises leaves what it has
  committed: its caller closes the session, which rolls back the rest. Of an error the code and the
  status are kept.
\<close>

section \<open>The pipeline\<close>

text \<open>\<open>UUID\<close> or identifier of an agent; its organization, or the one that is named.\<close>

definition lookup_agent :: "xorg \<Rightarrow> string \<Rightarrow> Agent option" where
  "lookup_agent x ident =
     (case (case parse_uuid ident of Some u \<Rightarrow> get_agent (xo_db x) u | None \<Rightarrow> None) of
        Some a \<Rightarrow> Some a
      | None \<Rightarrow> find (\<lambda>a. ag_agent_identifier a = ident) (agents (xo_db x)))"

definition lookup_organization :: "xorg \<Rightarrow> uuid option \<Rightarrow> Organization option" where
  "lookup_organization x i =
     (case i of None \<Rightarrow> None | Some u \<Rightarrow> find (\<lambda>g. or_id g = u) (xo_organizations x))"

definition resolve_agent_and_org ::
    "xorg \<Rightarrow> string \<Rightarrow> string \<Rightarrow> gateway_error + Organization option \<times> Agent option" where
  "resolve_agent_and_org x org_id agent_id =
     (let agent = lookup_agent x agent_id in
      case lookup_organization x (Option.bind agent ag_organization_id) of
        Some g \<Rightarrow> Inr (Some g, agent)
      | None \<Rightarrow>
          (case lookup_organization x (parse_uuid org_id) of
             Some g \<Rightarrow> Inr (Some g, agent)
           | None \<Rightarrow>
               (case one_or_none (filter (\<lambda>g. or_name g = org_id) (xo_organizations x)) of
                  Inl e \<Rightarrow> Inl (CredentialRaised e)
                | Inr g \<Rightarrow> Inr (g, agent))))"

text \<open>Stage 2: the address of a party and its two identifiers, given ones taking precedence.\<close>

definition text_or :: "string option \<Rightarrow> string \<Rightarrow> string" where
  "text_or v d = (case v of Some t \<Rightarrow> if t = [] then d else t | None \<Rightarrow> d)"

definition address_of :: "string \<Rightarrow> ATPSourceTarget \<Rightarrow> gateway_error + string \<times> string \<times> string" where
  "address_of code p =
     (if given_text (st_address p)
      then (case parse_agent_address (PStr (the (st_address p))) of
          Inl e \<Rightarrow> Inl (AddressError e)
        | Inr (org, agent) \<Rightarrow>
            Inr (the (st_address p), text_or (st_organization_id p) org, text_or (st_agent_id p) agent))
      else if given_text (st_organization_id p) \<and> given_text (st_agent_id p)
      then Inr (format_agent_address (the (st_organization_id p)) (the (st_agent_id p)), the (st_organization_id p),
             the (st_agent_id p))
      else Inl (GatewayPipelineError code 400))"

text \<open>Stage 3: the signing key of the agent.\<close>

definition gateway_key :: "gateway \<Rightarrow> Agent \<Rightarrow> string \<Rightarrow> gateway_error + AgentSigningKey" where
  "gateway_key g a key_id =
     (case find (\<lambda>k. sk_agent_id k = ag_id a \<and> sk_key_id k = key_id) (sg_keys (xo_signing (gw_xorg g))) of
        None \<Rightarrow> Inl (GatewayPipelineError ''SIGNING_KEY_NOT_FOUND'' 401)
      | Some k \<Rightarrow>
          if sk_status k = SK_REVOKED then Inl (GatewayPipelineError ''KEY_REVOKED'' 401)
          else if sk_status k \<noteq> SK_ACTIVE then Inl (GatewayPipelineError ''KEY_NOT_ACTIVE'' 401)
          else if (case sk_expires_at k of None \<Rightarrow> False | Some t \<Rightarrow> t < gw_now g)
          then Inl (GatewayPipelineError ''KEY_EXPIRED'' 401)
          else Inr k)"

text \<open>Stage 4: the signature, and the signed text.\<close>

definition atp_signature_valid :: "'a gateway_crypto_scheme \<Rightarrow> AgentSigningKey \<Rightarrow> string \<Rightarrow> string \<Rightarrow> bool" where
  "atp_signature_valid c k sig_value text =
     (case (b64decode_lax c (sk_public_key k), b64decode_lax c sig_value) of
        (Some pub, Some sig) \<Rightarrow> ed25519_key c pub \<and> ed25519_verify c pub sig text
      | _ \<Rightarrow> False)"

definition message_text :: "ATPMessageEnvelope \<Rightarrow> string \<Rightarrow> string \<Rightarrow> string \<Rightarrow> string \<Rightarrow> digest \<Rightarrow> string" where
  "message_text e source_org source_agent target_org target_agent payload_sha256 =
     build_canonical_request_ascii (en_message_id e) (en_message_type e) source_org source_agent target_org target_agent
       (en_capability e) (en_timestamp e) (en_nonce e) payload_sha256"

definition parse_timestamp_iso :: "'a gateway_crypto_scheme \<Rightarrow> string \<Rightarrow> gateway_error + datetime" where
  "parse_timestamp_iso c ts =
     (let cleaned = py_strip ts in
      case fromisoformat c (if py_endswith cleaned ''Z'' then take (length cleaned - 1) cleaned @ ''+00:00'' else cleaned) of
        Some t \<Rightarrow> Inr t
      | None \<Rightarrow> Inl (GatewayPipelineError ''INVALID_TIMESTAMP'' 400))"

record verified_message =
  vm_source_address :: string
  vm_target_address :: string
  vm_target_org_id :: string
  vm_target_agent_id :: string
  vm_agent :: Agent
  vm_org :: "Organization option"
  vm_payload_sha256 :: string

text \<open>Stages 2 to 5, up to the time window.\<close>

definition check_fields :: "ATPMessageEnvelope \<Rightarrow> gateway_error + unit" where
  "check_fields e =
     (if en_capability e = [] then Inl (GatewayPipelineError ''INVALID_CAPABILITY'' 400)
      else if en_timestamp e = [] then Inl (GatewayPipelineError ''INVALID_TIMESTAMP'' 400)
      else if en_nonce e = [] then Inl (GatewayPipelineError ''INVALID_NONCE'' 400)
      else Inr ())"

definition check_signature_fields :: "ATPSignature \<Rightarrow> gateway_error + unit" where
  "check_signature_fields s =
     (if sg_version s \<noteq> SIGNING_VERSION then Inl (GatewayPipelineError ''INVALID_SIGNATURE_VERSION'' 400)
      else if sg_key_id s = [] \<or> sg_value s = [] then Inl (GatewayPipelineError ''INVALID_SIGNATURE_STRUCTURE'' 400)
      else Inr ())"

definition active_source :: "Agent option \<Rightarrow> gateway_error + Agent" where
  "active_source agent =
     (case agent of
        None \<Rightarrow> Inl (GatewayPipelineError ''SOURCE_AGENT_NOT_FOUND'' 401)
      | Some a \<Rightarrow> if ag_status a \<noteq> AG_ACTIVE then Inl (GatewayPipelineError ''SOURCE_AGENT_INACTIVE'' 403) else Inr a)"

definition message_digest :: "gateway_env \<Rightarrow> ATPMessageEnvelope \<Rightarrow> gateway_error + string" where
  "message_digest env e =
     (let c = ge_crypto env; digest = compute_payload_sha256 (sha256_hex c) (json_loads c) (en_payload e) in
      if given_text (en_payload_sha256 e) \<and> en_payload_sha256 e \<noteq> Some digest
      then Inl (GatewayPipelineError ''PAYLOAD_HASH_MISMATCH'' 400) else Inr digest)"

definition within_window :: "gateway_env \<Rightarrow> datetime \<Rightarrow> string \<Rightarrow> gateway_error + unit" where
  "within_window env now ts =
     rbind (parse_timestamp_iso (ge_crypto env) ts) (\<lambda>t.
       if \<bar>now - t\<bar> > seconds 300 then Inl (GatewayPipelineError ''TIMESTAMP_OUT_OF_WINDOW'' 401) else Inr ())"

definition verify_message :: "gateway_env \<Rightarrow> gateway \<Rightarrow> ATPMessageEnvelope \<Rightarrow> gateway_error + verified_message" where
  "verify_message env g e =
     rbind (check_fields e) (\<lambda>_.
     rbind (address_of ''INVALID_SOURCE'' (en_source e)) (\<lambda>(source_addr, source_org, source_agent).
     rbind (address_of ''INVALID_TARGET'' (en_target e)) (\<lambda>(target_addr, target_org, target_agent).
     rbind (check_signature_fields (en_signature e)) (\<lambda>_.
     rbind (resolve_agent_and_org (gw_xorg g) source_org source_agent) (\<lambda>(org, agent).
     rbind (active_source agent) (\<lambda>a.
     rbind (gateway_key g a (sg_key_id (en_signature e))) (\<lambda>k.
     rbind (message_digest env e) (\<lambda>digest.
     rbind (if atp_signature_valid (ge_crypto env) k (sg_value (en_signature e))
              (message_text e source_org source_agent target_org target_agent digest) then Inr ()
            else Inl (GatewayPipelineError ''INVALID_SIGNATURE'' 401)) (\<lambda>_.
     rbind (within_window env (gw_now g) (en_timestamp e)) (\<lambda>_.
       Inr \<lparr>vm_source_address = source_addr, vm_target_address = target_addr, vm_target_org_id = target_org,
         vm_target_agent_id = target_agent, vm_agent = a, vm_org = org, vm_payload_sha256 = digest\<rparr>))))))))))"

text \<open>The nonce of stage 5: \<open>nonce.encode("ascii")\<close> raises on other characters.\<close>

definition with_nonces :: "gateway \<Rightarrow> AgentRequestNonce list \<Rightarrow> gateway" where
  "with_nonces g ns = g\<lparr>gw_xorg := (gw_xorg g)\<lparr>xo_signing := (xo_signing (gw_xorg g))\<lparr>sg_nonces := ns\<rparr>\<rparr>\<rparr>"

definition gateway_nonces :: "gateway \<Rightarrow> AgentRequestNonce list" where
  "gateway_nonces g = sg_nonces (xo_signing (gw_xorg g))"

definition accept_gateway_nonce :: "gateway_env \<Rightarrow> gateway \<Rightarrow> string \<Rightarrow> string \<Rightarrow> gateway_error + gateway" where
  "accept_gateway_nonce env g key_id nonce =
     (let nonce_hash = sha256_hex (ge_crypto env) nonce in
      if \<not> list_all (\<lambda>x. (of_char x :: nat) < 128) nonce then Inl (Raised ValueError)
      else if list_ex (\<lambda>n. an_key_id n = key_id \<and> an_nonce_hash n = nonce_hash) (gateway_nonces g)
      then Inl (GatewayPipelineError ''REPLAY_ATTACK_DETECTED'' 401)
      else Inr (with_nonces g (gateway_nonces g @
             [\<lparr>an_key_id = key_id, an_nonce_hash = nonce_hash, an_expires_at = gw_now g + seconds 300\<rparr>])))"

section \<open>Presented credentials\<close>

text \<open>A refusal with the security event that is written before it, if any.\<close>

type_synonym refusal = "SecurityEvent option \<times> gateway_error"

definition credential_event :: "Organization option \<Rightarrow> string \<Rightarrow> string \<Rightarrow> (string \<times> pyval) list \<Rightarrow> SecurityEvent" where
  "credential_event org event_type description details =
     \<lparr>se_organization_id = map_option or_id org, se_actor_user_id = None, se_target_user_id = None,
      se_event_type = event_type, se_category = None, se_severity = ''warning'', se_description = Some description,
      se_details = details\<rparr>"

definition raised :: "pyexn + 'a \<Rightarrow> refusal + 'a" where
  "raised r = (case r of Inl x \<Rightarrow> Inl (None, Raised x) | Inr v \<Rightarrow> Inr v)"

text \<open>\<open>capability not in claims_caps\<close>\<close>

definition attests :: "string \<Rightarrow> pyval \<Rightarrow> pyexn + bool" where
  "attests capability caps =
     (case caps of
        PList xs \<Rightarrow> Inr (PStr capability \<in> set xs)
      | PStr s \<Rightarrow> Inr (py_contains s capability)
      | PDict d \<Rightarrow> Inr (capability \<in> set (map fst d))
      | _ \<Rightarrow> Inl TypeError)"

definition check_binding ::
    "Agent \<Rightarrow> Organization option \<Rightarrow> string \<Rightarrow> (string \<times> pyval) list \<Rightarrow> refusal + unit" where
  "check_binding a org capability d =
     (let subject = py_or (credential_get d ''subject'') (PDict []) in
      rbind (raised (val_get subject ''agent_id'' PNone)) (\<lambda>agt.
      if agt \<notin> set (map PStr [ag_agent_identifier a, uuid_str (ag_id a), ag_name a])
      then Inl (Some (credential_event org ''credential_subject_mismatch''
               ''Presented credential subject does not match source agent.''
               [(''credential_subject'', agt), (''source_agent'', PStr (ag_agent_identifier a))]),
             GatewayPipelineError ''CREDENTIAL_SUBJECT_INVALID'' 403)
      else
      rbind (raised (val_get subject ''organization_id'' PNone)) (\<lambda>o1.
      case org of
        Some g \<Rightarrow>
          if o1 \<notin> set (map PStr [or_name g, uuid_str (or_id g)])
          then Inl (Some (credential_event org ''credential_organization_mismatch''
                   ''Presented credential organization does not match source organization.''
                   [(''credential_org'', o1), (''source_org'', PStr (or_name g))]),
                 GatewayPipelineError ''CREDENTIAL_CLAIM_INVALID'' 403)
          else Inr ()
      | None \<Rightarrow> Inr ())))"

definition check_capability_claim ::
    "Organization option \<Rightarrow> string \<Rightarrow> (string \<times> pyval) list \<Rightarrow> refusal + unit" where
  "check_capability_claim org capability d =
     (if credential_get d ''credential_type'' \<noteq> PStr ''AgentCapabilityCredential'' then Inr ()
      else
      rbind (raised (val_get (py_or (credential_get d ''claims'') (PDict [])) ''capabilities'' (PList []))) (\<lambda>caps.
      rbind (raised (attests capability caps)) (\<lambda>ok.
      if ok then Inr ()
      else Inl (Some (credential_event org ''credential_capability_mismatch''
               (''Credential does not attest to requested capability '' @ [CHR 0x27] @ capability @ [CHR 0x27] @ ''.'')
               [(''requested_capability'', PStr capability), (''credential_capabilities'', caps)]),
             GatewayPipelineError ''CREDENTIAL_CAPABILITY_MISMATCH'' 403))))"

definition check_credential ::
    "gateway_env \<Rightarrow> gateway \<Rightarrow> Agent \<Rightarrow> Organization option \<Rightarrow> string \<Rightarrow> pyval \<Rightarrow> refusal + unit" where
  "check_credential env g a org capability cred =
     (case cred of
        PDict d \<Rightarrow>
          (case verify_agent_credential (ge_crypto env) (gw_trust g) d ''production'' True of
             Inl (CredentialVerificationError code st) \<Rightarrow>
               Inl (Some (credential_event org (''credential_verification_failed_'' @ py_lower code)
                      ''Credential verification failed''
                      [(''credential_id'', credential_get d ''credential_id''), (''code'', PStr code)]),
                    GatewayPipelineError code st)
           | Inl x \<Rightarrow> Inl (None, CredentialRaised x)
           | Inr _ \<Rightarrow>
               rbind (check_binding a org capability d) (\<lambda>_. check_capability_claim org capability d))
      | _ \<Rightarrow> Inr ())"

fun check_credentials ::
    "gateway_env \<Rightarrow> gateway \<Rightarrow> Agent \<Rightarrow> Organization option \<Rightarrow> string \<Rightarrow> pyval list \<Rightarrow> refusal + unit" where
  "check_credentials env g a org capability [] = Inr ()"
| "check_credentials env g a org capability (c # cs) =
     rbind (check_credential env g a org capability c) (\<lambda>_. check_credentials env g a org capability cs)"

definition has_type :: "pyval list \<Rightarrow> string \<Rightarrow> bool" where
  "has_type creds ty =
     list_ex (\<lambda>c. case c of PDict d \<Rightarrow> credential_get d ''credential_type'' = PStr ty | _ \<Rightarrow> False) creds"

definition check_presented ::
    "gateway_env \<Rightarrow> gateway \<Rightarrow> verified_message \<Rightarrow> string \<Rightarrow> pyval list \<Rightarrow> refusal + unit" where
  "check_presented env g v capability creds =
     (case resolve_agent_and_org (gw_xorg g) (vm_target_org_id v) (vm_target_agent_id v) of
        Inl x \<Rightarrow> Inl (None, x)
      | Inr (dst_org, _) \<Rightarrow>
          let policy = Option.bind dst_org (\<lambda>o1. find (\<lambda>p. gp_organization_id p = or_id o1) (xo_target_policies (gw_xorg g)));
              required = (case policy of Some p \<Rightarrow> gp_required_credential_types p | None \<Rightarrow> [])
          in if \<not> list_all (has_type creds) required
             then Inl (None, GatewayPipelineError ''REQUIRED_CREDENTIAL_MISSING'' 403)
             else check_credentials env g (vm_agent v) (vm_org v) capability creds)"

definition log_event :: "gateway \<Rightarrow> SecurityEvent \<Rightarrow> gateway" where
  "log_event g ev =
     g\<lparr>gw_xorg := with_db (gw_xorg g) ((gw_db g)\<lparr>security_events := security_events (gw_db g) @ [ev]\<rparr>)\<rparr>"

section \<open>Trust, holds and delivery\<close>

definition check_trust :: "gateway \<Rightarrow> verified_message \<Rightarrow> gateway_error + unit" where
  "check_trust g v =
     (if is_sandbox_mock_agent (vm_target_address v) then Inr ()
      else (case vm_org v of
          None \<Rightarrow> Inr ()
        | Some src \<Rightarrow>
            rbind (resolve_agent_and_org (gw_xorg g) (vm_target_org_id v) (vm_target_agent_id v)) (\<lambda>(dst, _).
              case dst of
                None \<Rightarrow> Inr ()
              | Some o1 \<Rightarrow>
                  if or_id o1 = or_id src then Inr ()
                  else (case find_pair (gw_xorg g) (or_id src) (or_id o1) of
                      Some t \<Rightarrow> if ot_status t = TS_ACTIVE then Inr ()
                                else Inl (GatewayPipelineError ''CROSS_ORG_TRUST_REQUIRED'' 403)
                    | None \<Rightarrow> Inl (GatewayPipelineError ''CROSS_ORG_TRUST_REQUIRED'' 403)))))"

text \<open>\<open>float(payload.get("amount") or payload.get("price") or 0)\<close>, 0 where that is no number\<close>

definition payload_amount :: "pyval \<Rightarrow> pyexn + pyfloat" where
  "payload_amount payload =
     (case payload of
        PDict d \<Rightarrow>
          (case py_float (py_or (py_or (dict_get d ''amount'' PNone) (dict_get d ''price'' PNone)) (PInt 0)) of
             Inr f \<Rightarrow> Inr f
           | Inl x \<Rightarrow> if x \<in> {ValueError, TypeError} then Inr (FNum 0) else Inl x)
      | _ \<Rightarrow> Inr (FNum 0))"

definition hold_reason :: "pyval \<Rightarrow> string \<Rightarrow> pyexn + string option" where
  "hold_reason payload capability =
     rbind (payload_amount payload) (\<lambda>a.
       Inr (if float_lt (FNum 5000) a
            then Some (''High monetary value ('' @ float_repr a @ '' USD) exceeds autonomous limit of $5,000.'')
            else if py_endswith capability ''.admin'' \<or> py_endswith capability ''.delete''
            then Some (''High-risk capability '' @ [CHR 0x27] @ capability @ [CHR 0x27]
                   @ '' requires explicit multi-party approval.'')
            else None))"

text \<open>Stage 9: the record of the message, refused by the table when its id is taken or its source has no organization.\<close>

definition stage_message ::
    "gateway \<Rightarrow> ATPMessageEnvelope \<Rightarrow> verified_message \<Rightarrow> gateway_error + gateway \<times> routed \<times> string option" where
  "stage_message g e v =
     (case hold_reason (en_payload e) (en_capability e) of
        Inl x \<Rightarrow> Inl (Raised x)
      | Inr hold \<Rightarrow>
          rbind (if is_sandbox_mock_agent (vm_target_address v) then Inr (None, None)
                 else resolve_agent_and_org (gw_xorg g) (vm_target_org_id v) (vm_target_agent_id v)) (\<lambda>(dst_org, dst_agent).
          let (i, d) = fresh (gw_db g);
              source = (case vm_org v of Some o1 \<Rightarrow> Some (or_id o1) | None \<Rightarrow> ag_organization_id (vm_agent v));
              row = \<lparr>mr_id = i, mr_message_id = en_message_id e, mr_message_type = en_message_type e,
                mr_source_organization_id = the source, mr_source_agent_id = ag_id (vm_agent v),
                mr_target_organization_id = map_option or_id dst_org, mr_target_agent_id = map_option ag_id dst_agent,
                mr_capability = en_capability e, mr_status = (if hold \<noteq> None then ''PENDING_APPROVAL'' else ''PENDING''),
                mr_decision_reason = hold,
                mr_payload_summary = (case en_payload e of PDict p \<Rightarrow> p | x \<Rightarrow> [(''data'', x)]),
                mr_attestation_id = None, mr_created_at = gw_now g, mr_completed_at = None\<rparr>
          in if source = None \<or> list_ex (\<lambda>m. mr_message_id m = en_message_id e) (gw_messages g) then Inl IntegrityError
             else Inr (g\<lparr>gw_xorg := with_db (gw_xorg g) d, gw_messages := gw_messages g @ [row]\<rparr>,
                    ATPMessageRecord.extend row \<lparr>mr_source_address = vm_source_address v,
                      mr_target_address = vm_target_address v, mr_payload_sha256 = vm_payload_sha256 v\<rparr>, hold)))"

definition active_endpoint :: "gateway \<Rightarrow> verified_message \<Rightarrow> gateway_error + AgentEndpoint option" where
  "active_endpoint g v =
     (if is_sandbox_mock_agent (vm_target_address v) then Inr None
      else rbind (resolve_agent_and_org (gw_xorg g) (vm_target_org_id v) (vm_target_agent_id v)) (\<lambda>(_, dst).
        case dst of
          None \<Rightarrow> Inr None
        | Some a \<Rightarrow>
            (case one_or_none (filter (\<lambda>p. ep_agent_id p = ag_id a \<and> ep_status p \<in> {''VERIFIED'', ''PENDING''}) (gw_endpoints g)) of
               Inl x \<Rightarrow> Inl (CredentialRaised x)
             | Inr p \<Rightarrow> Inr p)))"

definition deliver_message ::
    "gateway_env \<Rightarrow> gateway \<Rightarrow> verified_message \<Rightarrow> routed \<Rightarrow> gateway \<times> (gateway_error + ATPGatewayDispatchResponse)" where
  "deliver_message env g v m =
     (case active_endpoint g v of
        Inl x \<Rightarrow> (g, Inl x)
      | Inr endpoint \<Rightarrow>
          (case route_atp_message env g m endpoint of
             (g', Inl (ATPRoutingError st)) \<Rightarrow> (g', Inl (GatewayPipelineError ''ROUTING_FAILED'' st))
           | (g', Inl x) \<Rightarrow> (g', Inl x)
           | (g', Inr answer) \<Rightarrow>
               (g', Inr ((dispatch_response (mr_message_id m) ''DELIVERED'')\<lparr>dr_target := Some (vm_target_address v),
                  dr_capability := Some (mr_capability m),
                  dr_attestation_id := Option.bind (find (\<lambda>r. mr_message_id r = mr_message_id m) (gw_messages g'))
                    mr_attestation_id, dr_response := Some answer\<rparr>))))"

text \<open>The answer to a message id that is known; its other states are not answered.\<close>

definition known_message :: "gateway \<Rightarrow> string \<Rightarrow> ATPGatewayDispatchResponse option" where
  "known_message g message_id =
     Option.bind (find (\<lambda>m. mr_message_id m = message_id) (gw_messages g)) (\<lambda>m.
       if mr_status m = ''DELIVERED''
       then Some ((dispatch_response message_id ''DELIVERED'')\<lparr>dr_idempotent := Some True,
              dr_completed_at := map_option isoformat (mr_completed_at m)\<rparr>)
       else if mr_status m = ''PENDING_APPROVAL''
       then Some ((dispatch_response message_id ''PENDING_APPROVAL'')\<lparr>dr_idempotent := Some True\<rparr>)
       else None)"

definition held_response :: "string \<Rightarrow> string \<Rightarrow> ATPGatewayDispatchResponse" where
  "held_response message_id reason =
     (dispatch_response message_id ''PENDING_APPROVAL'')\<lparr>dr_approval_required := Some True, dr_reason := Some reason,
       dr_notice := Some (''This message is held in Gateway staging and will NOT route to the ''
          @ ''target agent until approved.'')\<rparr>"

text \<open>From a verified message to its answer.\<close>

definition handle_verified ::
    "gateway_env \<Rightarrow> gateway \<Rightarrow> ATPMessageEnvelope \<Rightarrow> pyval list \<Rightarrow> verified_message
       \<Rightarrow> gateway \<times> (gateway_error + ATPGatewayDispatchResponse)" where
  "handle_verified env g e presented_creds v =
     (case accept_gateway_nonce env g (sg_key_id (en_signature e)) (en_nonce e) of
        Inl x \<Rightarrow> (g, Inl x)
      | Inr g1 \<Rightarrow>
          (case check_presented env g1 v (en_capability e) presented_creds of
             Inl (None, x) \<Rightarrow> (g, Inl x)
           | Inl (Some ev, x) \<Rightarrow> (log_event g1 ev, Inl x)
           | Inr _ \<Rightarrow>
               (case rbind (check_trust g1 v) (\<lambda>_. stage_message g1 e v) of
                  Inl x \<Rightarrow> (g, Inl x)
                | Inr (g2, m, Some reason) \<Rightarrow> (g2, Inr (held_response (en_message_id e) reason))
                | Inr (g2, m, None) \<Rightarrow> deliver_message env g2 v m)))"

definition process_atp_message ::
    "gateway_env \<Rightarrow> gateway \<Rightarrow> ATPMessageEnvelope \<Rightarrow> pyval list
       \<Rightarrow> gateway \<times> (gateway_error + ATPGatewayDispatchResponse)" where
  "process_atp_message env g e presented_creds =
     (if en_protocol e \<noteq> PROTOCOL_VERSION then (g, Inl (GatewayPipelineError ''UNSUPPORTED_PROTOCOL'' 400))
      else if en_message_id e = [] then (g, Inl (GatewayPipelineError ''INVALID_MESSAGE_ID'' 400))
      else (case known_message g (en_message_id e) of
          Some answer \<Rightarrow> (g, Inr answer)
        | None \<Rightarrow>
            (case verify_message env g e of
               Inl x \<Rightarrow> (g, Inl x)
             | Inr v \<Rightarrow> handle_verified env g e presented_creds v)))"

section \<open>The HTTP interface\<close>

text \<open>The request model has no field for credentials: \<open>model_dump\<close> drops what the caller presents.\<close>

definition dispatch_atp_message ::
    "gateway_env \<Rightarrow> gateway \<Rightarrow> ATPMessageEnvelope \<Rightarrow> gateway \<times> (gateway_error + ATPGatewayDispatchResponse)" where
  "dispatch_atp_message env g e = process_atp_message env g e []"

definition register_agent_endpoint ::
    "gateway_env \<Rightarrow> gateway \<Rightarrow> bool \<Rightarrow> uuid \<Rightarrow> uuid \<Rightarrow> string \<Rightarrow> gateway_error + gateway \<times> AgentEndpoint" where
  "register_agent_endpoint env g can_manage org agent_id endpoint_url =
     (if \<not> can_manage then Inl (HttpError (HTTPException 403 ''You do not have permission for this action''))
      else if \<not> list_ex (\<lambda>a. ag_id a = agent_id \<and> ag_organization_id a = Some org) (agents (gw_db g))
      then Inl (HttpError (HTTPException 404 ''Agent not found in current organization''))
      else (case resolve_and_validate_endpoint_url (ge_resolve env) endpoint_url (ge_allow_private_ips env)
               (ge_enforce_https env) of
          Inl (SSRFValidationError code) \<Rightarrow> Inl (GatewayPipelineError code 400)
        | Inl (PyRaised x) \<Rightarrow> Inl (EndpointRaised x)
        | Inr (validated_url, _) \<Rightarrow>
            (case one_or_none (filter (\<lambda>p. ep_agent_id p = agent_id) (gw_endpoints g)) of
               Inl x \<Rightarrow> Inl (CredentialRaised x)
             | Inr (Some p) \<Rightarrow>
                 let p' = p\<lparr>ep_endpoint_url := validated_url, ep_status := ''VERIFIED''\<rparr>
                 in Inr (g\<lparr>gw_endpoints := update_where (\<lambda>q. ep_id q = ep_id p) (\<lambda>_. p') (gw_endpoints g)\<rparr>, p')
             | Inr None \<Rightarrow>
                 let (i, d) = fresh (gw_db g);
                     p = \<lparr>ep_id = i, ep_organization_id = org, ep_agent_id = agent_id, ep_endpoint_url = validated_url,
                       ep_status = ''VERIFIED''\<rparr>
                 in Inr (g\<lparr>gw_xorg := with_db (gw_xorg g) d, gw_endpoints := gw_endpoints g @ [p]\<rparr>, p))))"

definition delete_agent_endpoint :: "gateway \<Rightarrow> bool \<Rightarrow> uuid \<Rightarrow> uuid \<Rightarrow> gateway_error + gateway" where
  "delete_agent_endpoint g can_manage org endpoint_id =
     (if \<not> can_manage then Inl (HttpError (HTTPException 403 ''You do not have permission for this action''))
      else (case find (\<lambda>p. ep_id p = endpoint_id \<and> ep_organization_id p = org) (gw_endpoints g) of
          None \<Rightarrow> Inl (HttpError (HTTPException 404 ''Endpoint not found''))
        | Some p \<Rightarrow>
            Inr (g\<lparr>gw_endpoints := filter (\<lambda>q. ep_id q \<noteq> ep_id p) (gw_endpoints g),
              gw_deliveries := update_where (\<lambda>d. md_target_endpoint_id d = Some (ep_id p))
                (\<lambda>d. d\<lparr>md_target_endpoint_id := None\<rparr>) (gw_deliveries g)\<rparr>)))"

end
