(* ===== verification/CrossOrg_Safety.thy ===== *)
theory CrossOrg_Safety
  imports CrossOrgAuthorization Delegation_Safety
begin

text \<open>
  What cross-organization trust guarantees: a request is granted only on a stored permission, an
  active relationship, a usable connection and both policies; it is approved only by every
  organization that has to; and what revoking a relationship does and does not stop.
\<close>

section \<open>Effects of the operations on the tables\<close>

named_theorems xorg_simps

lemma with_db_simps [xorg_simps, simp]:
  "xo_db (with_db x d) = d" "xo_trusts (with_db x d) = xo_trusts x" "xo_policies (with_db x d) = xo_policies x"
  "xo_target_policies (with_db x d) = xo_target_policies x" "xo_connections (with_db x d) = xo_connections x"
  "xo_requests (with_db x d) = xo_requests x" "xo_approvals (with_db x d) = xo_approvals x"
  "xo_organizations (with_db x d) = xo_organizations x"
  by (simp_all add: with_db_def xo_db_def)

lemma trust_event_simps [xorg_simps, simp]:
  "xo_trusts (trust_event x u e o1 v t) = xo_trusts x" "xo_policies (trust_event x u e o1 v t) = xo_policies x"
  "xo_target_policies (trust_event x u e o1 v t) = xo_target_policies x"
  "xo_connections (trust_event x u e o1 v t) = xo_connections x" "xo_requests (trust_event x u e o1 v t) = xo_requests x"
  "xo_approvals (trust_event x u e o1 v t) = xo_approvals x" "next_id (xo_db (trust_event x u e o1 v t)) = next_id (xo_db x)"
  "clock (xo_db (trust_event x u e o1 v t)) = clock (xo_db x)" "agents (xo_db (trust_event x u e o1 v t)) = agents (xo_db x)"
  "permissions (xo_db (trust_event x u e o1 v t)) = permissions (xo_db x)"
  by (simp_all add: trust_event_def db_simps)

lemma xo_db_update [simp]:
  "xo_db (x\<lparr>xo_trusts := a\<rparr>) = xo_db x" "xo_db (x\<lparr>xo_policies := b\<rparr>) = xo_db x"
  "xo_db (x\<lparr>xo_target_policies := c\<rparr>) = xo_db x" "xo_db (x\<lparr>xo_connections := d\<rparr>) = xo_db x"
  "xo_db (x\<lparr>xo_requests := e\<rparr>) = xo_db x" "xo_db (x\<lparr>xo_approvals := f\<rparr>) = xo_db x"
  "xo_db (x\<lparr>xo_signing := g\<rparr>) = sg_db g"
  by (simp_all add: xo_db_def)

lemma verify_cross_db:
  assumes "verify_cross_org_request_v2 c settings client lucky s a a' o1 o2 h body verb path = (t, r)"
  shows "sg_db t = sg_db s"
proof -
  have "sg_db u = sg_db s" if "accept_nonce c settings client lucky s k n now = (u, q)" for u q k n now
    using that by (auto simp: accept_nonce_def Let_def split: if_splits sum.splits)
  then show ?thesis
    using assms by (auto simp: verify_cross_org_request_v2_def accept_signed_def touch_key_def Let_def
        split: if_splits option.splits list.splits sum.splits prod.splits)
qed

section \<open>A granted request\<close>

definition amount_within :: "CrossOrgAuthorizePayload \<Rightarrow> rat option \<Rightarrow> string option \<Rightarrow> bool" where
  "amount_within p limit currency =
     (case limit of
        None \<Rightarrow> True
      | Some l \<Rightarrow> (\<exists>a. cp_amount p = Some a \<and> dec_val a \<le> l) \<and> cp_currency p = currency)"

lemma over_limit_iff: "\<not> over_limit p limit currency \<longleftrightarrow> amount_within p limit currency"
  by (auto simp: over_limit_def amount_within_def split: option.splits)

definition listed :: "string \<Rightarrow> string list \<Rightarrow> bool" where
  "listed v allowed = (allowed = [] \<or> v \<in> set allowed)"

lemma trust_policy_denied_None:
  "trust_policy_denied p q = None \<longleftrightarrow> listed (cp_action p) (tp_allowed_actions q) \<and>
     listed (cp_resource p) (tp_allowed_resources q) \<and> amount_within p (tp_max_amount q) (tp_currency q)"
  by (auto simp: trust_policy_denied_def listed_def over_limit_iff [symmetric])

lemma target_policy_denied_None:
  "target_policy_denied p q = None \<longleftrightarrow> listed (cp_action p) (gp_allowed_actions q) \<and>
     listed (cp_resource p) (gp_allowed_resources q) \<and> amount_within p (gp_max_amount q) (gp_currency q)"
  by (auto simp: target_policy_denied_def listed_def over_limit_iff [symmetric])

lemma trust_denied_None:
  "trust_denied now tr = None \<longleftrightarrow> ot_status tr = TS_ACTIVE \<and> (\<forall>e. ot_expires_at tr = Some e \<longrightarrow> now < e)"
  by (cases "ot_status tr") (auto simp: trust_denied_def split: option.splits)

lemma delegation_call_raises: "keyword_call verify_parameters delegation_call = Inl TypeError"
  by code_simp

lemma source_denied_None:
  "source_denied x y p = None \<longleftrightarrow>
     (\<exists>m. source_permission x y p = Some m \<and> permission_is_usable m (clock (xo_db x)))"
  by (auto simp: source_denied_def delegation_call_raises split: option.splits)

lemma first_some_None: "first_some vs = None \<longleftrightarrow> (\<forall>v \<in> set vs. v = None)"
  by (induction vs) (auto simp: first_some_def split: list.splits)

lemma evaluate_grounds_Inr:
  assumes "evaluate_grounds x y p = Inr g"
  shows "find_pair x (py_source_org y) (py_target_org y) = Some (gr_trust g)"
    "ot_status (gr_trust g) = TS_ACTIVE" "\<forall>e. ot_expires_at (gr_trust g) = Some e \<longrightarrow> clock (xo_db x) < e"
    "find_connection x (ot_id (gr_trust g)) (ag_id (py_source y)) (ag_id (py_target y)) = Some (gr_connection g)"
    "connection_is_usable (gr_connection g) (clock (xo_db x))"
    "gr_permission g = source_permission x y p"
    "\<exists>m. source_permission x y p = Some m \<and> permission_is_usable m (clock (xo_db x))"
    "gr_trust_policy g = find (\<lambda>q. tp_trust_relationship_id q = ot_id (gr_trust g)) (xo_policies x)"
    "gr_target_policy g = find (\<lambda>q. gp_organization_id q = py_target_org y) (xo_target_policies x)"
    "\<forall>q. gr_trust_policy g = Some q \<longrightarrow> trust_policy_denied p q = None"
    "\<forall>q. gr_target_policy g = Some q \<longrightarrow> target_policy_denied p q = None"
    "source_limit_denied p (gr_permission g) = None"
proof -
  have "source_denied x y p = None"
    using assms by (auto simp: evaluate_grounds_def Let_def split: option.splits)
  then show "\<exists>m. source_permission x y p = Some m \<and> permission_is_usable m (clock (xo_db x))"
    by (simp only: source_denied_None)
qed (use assms in \<open>auto simp: evaluate_grounds_def Let_def first_some_None trust_denied_None
    split: option.splits if_splits\<close>)

lemma record_rejection_status:
  "record_rejection c x y p ob key hash = (x', r) \<Longrightarrow> ca_status r = CQ_REJECTED"
  by (auto simp: record_rejection_def Let_def split: prod.splits option.splits)

lemma resolve_parties_Inr:
  "resolve_parties x p caller = Inr y \<longleftrightarrow>
     find_agent x (cp_source_agent_id p) = Some (py_source y) \<and> find_agent x (cp_target_agent_id p) = Some (py_target y) \<and>
     ag_organization_id (py_source y) = Some (py_source_org y) \<and> (caller = None \<or> caller = Some (py_source_org y)) \<and>
     ag_organization_id (py_target y) = Some (py_target_org y) \<and> py_target_org y = cp_target_organization_id p \<and>
     py_source_org y \<noteq> py_target_org y"
  by (cases y) (auto simp: resolve_parties_def split: option.splits)

lemma check_parties_None:
  "check_parties x y = None \<longleftrightarrow> org_active x (py_source_org y) \<and> org_active x (py_target_org y) \<and>
     ag_status (py_source y) = AG_ACTIVE \<and> ag_status (py_target y) = AG_ACTIVE"
  by (auto simp: check_parties_def)

text \<open>How an evaluation ends.\<close>

lemma authorize_cases:
  assumes "authorize_cross_organization_action x call p = (x', Inr r)"
  obtains (repeated) y where "resolve_parties x p (xc_caller_org_id call) = Inr y" "x' = x"
      "idempotent_answer x (py_source_org y) (xc_idempotency_key call) (compute_payload_hash (xc_crypto call) p) = Some (Inr r)"
  | (rejected) y sg v ob where "resolve_parties x p (xc_caller_org_id call) = Inr y"
      "idempotent_answer x (py_source_org y) (xc_idempotency_key call) (compute_payload_hash (xc_crypto call) p) = None"
      "verify_cross_org_request_v2 (xc_crypto call) (xc_settings call) (xc_redis call) (xc_lucky call) (xo_signing x)
         (py_source y) (py_target y) (uuid_str (py_source_org y)) (uuid_str (py_target_org y)) (xc_headers call)
         (xc_raw_body call) ''POST'' ''/api/v1/cross-org/authorize'' = (sg, Inr v)"
      "evaluate_grounds (x\<lparr>xo_signing := sg\<rparr>) y p = Inl ob"
      "record_rejection (xc_crypto call) (x\<lparr>xo_signing := sg\<rparr>) y p ob (xc_idempotency_key call)
         (compute_payload_hash (xc_crypto call) p) = (x', r)"
  | (granted) y sg v g where "resolve_parties x p (xc_caller_org_id call) = Inr y"
      "verify_cross_org_request_v2 (xc_crypto call) (xc_settings call) (xc_redis call) (xc_lucky call) (xo_signing x)
         (py_source y) (py_target y) (uuid_str (py_source_org y)) (uuid_str (py_target_org y)) (xc_headers call)
         (xc_raw_body call) ''POST'' ''/api/v1/cross-org/authorize'' = (sg, Inr v)"
      "check_parties (x\<lparr>xo_signing := sg\<rparr>) y = None" "evaluate_grounds (x\<lparr>xo_signing := sg\<rparr>) y p = Inr g"
      "record_request (x\<lparr>xo_signing := sg\<rparr>) y p g (xc_idempotency_key call)
         (compute_payload_hash (xc_crypto call) p) = (x', r)"
proof -
  let ?hash = "compute_payload_hash (xc_crypto call) p"
  note def = authorize_cross_organization_action_def Let_def
  obtain y where y: "resolve_parties x p (xc_caller_org_id call) = Inr y"
    using assms by (cases "resolve_parties x p (xc_caller_org_id call)") (simp_all add: def)
  show thesis
  proof (cases "idempotent_answer x (py_source_org y) (xc_idempotency_key call) ?hash")
    case (Some a)
    with assms y show thesis by (intro repeated [OF y]) (simp_all add: def)
  next
    case None
    obtain sg w where v: "verify_cross_org_request_v2 (xc_crypto call) (xc_settings call) (xc_redis call) (xc_lucky call)
        (xo_signing x) (py_source y) (py_target y) (uuid_str (py_source_org y)) (uuid_str (py_target_org y))
        (xc_headers call) (xc_raw_body call) ''POST'' ''/api/v1/cross-org/authorize'' = (sg, w)" by force
    obtain z where w: "w = Inr z" using assms y None v by (cases w) (simp_all add: def)
    note v = v [unfolded w]
    have c: "check_parties (x\<lparr>xo_signing := sg\<rparr>) y = None"
      using assms y None v by (cases "check_parties (x\<lparr>xo_signing := sg\<rparr>) y") (simp_all add: def)
    show thesis
    proof (cases "evaluate_grounds (x\<lparr>xo_signing := sg\<rparr>) y p")
      case (Inl ob)
      have "record_rejection (xc_crypto call) (x\<lparr>xo_signing := sg\<rparr>) y p ob (xc_idempotency_key call) ?hash = (x', r)"
        using assms by (cases "record_rejection (xc_crypto call) (x\<lparr>xo_signing := sg\<rparr>) y p ob (xc_idempotency_key call) ?hash")
          (simp add: def y None v c Inl)
      then show thesis by (rule rejected [OF y None v Inl])
    next
      case (Inr g)
      have "record_request (x\<lparr>xo_signing := sg\<rparr>) y p g (xc_idempotency_key call) ?hash = (x', r)"
        using assms by (cases "record_request (x\<lparr>xo_signing := sg\<rparr>) y p g (xc_idempotency_key call) ?hash")
          (simp add: def y None v c Inr)
      then show thesis by (rule granted [OF y v c Inr])
    qed
  qed
qed

fun approval_rows :: "parties \<Rightarrow> uuid \<Rightarrow> nat \<Rightarrow> ApprovalStage list \<Rightarrow> CrossOrganizationApproval list" where
  "approval_rows y i n [] = []"
| "approval_rows y i n (stage # stages) = approval_row y i n stage # approval_rows y i (Suc n) stages"

lemma add_approvals_rows:
  "xo_requests (add_approvals y i stages x) = xo_requests x \<and> clock (xo_db (add_approvals y i stages x)) = clock (xo_db x) \<and>
   audit_logs (xo_db (add_approvals y i stages x)) = audit_logs (xo_db x) \<and>
   next_id (xo_db (add_approvals y i stages x)) = next_id (xo_db x) + length stages \<and>
   xo_approvals (add_approvals y i stages x) = xo_approvals x @ approval_rows y i (next_id (xo_db x)) stages \<and>
   xo_trusts (add_approvals y i stages x) = xo_trusts x \<and> xo_policies (add_approvals y i stages x) = xo_policies x \<and>
   xo_connections (add_approvals y i stages x) = xo_connections x"
by (induction stages arbitrary: x) (simp_all add: fresh_def)

lemma record_request_effect:
  assumes "record_request x y p g key hash = (x', r)"
  defines "stages \<equiv> approval_stages p (gr_permission g) (gr_trust_policy g) (gr_target_policy g)"
  shows "ca_status r = (if stages = [] then CQ_APPROVED else CQ_PENDING)" "ca_pending_approvals r = stages"
    "\<exists>q. xo_requests x' = xo_requests x @ [q] \<and> xr_request_id q = ca_request_id r \<and> xr_status q = ca_status r \<and>
       xr_source_organization_id q = py_source_org y \<and> xr_target_organization_id q = py_target_org y \<and>
       xr_id q = next_id (xo_db x) \<and> xr_trust_relationship_id q = ot_id (gr_trust g) \<and>
       xr_expires_at q = Some (clock (xo_db x) + EXPIRY_WINDOW)"
    "xo_approvals x' = xo_approvals x @ approval_rows y (next_id (xo_db x)) (next_id (xo_db x) + 2) stages"
    "\<exists>a b. audit_logs (xo_db x') = audit_logs (xo_db x) @ [a, b] \<and> al_organization_id a = Some (py_source_org y) \<and>
       al_organization_id b = Some (py_target_org y)"
    "next_id (xo_db x) + 2 + length stages \<le> next_id (xo_db x')" "clock (xo_db x') = clock (xo_db x)"
    "xo_trusts x' = xo_trusts x" "xo_connections x' = xo_connections x" "xo_policies x' = xo_policies x"
proof -
  let ?now = "clock (xo_db x)" and ?i = "next_id (xo_db x)"
  let ?st = "if stages \<noteq> [] then CQ_PENDING else CQ_APPROVED"
  let ?why = "if stages = [] then ''Approved by cross-organization policy'' else ''Awaiting required human approval''"
  define q where "q = request_row ?i (Suc ?i) y p (ot_id (gr_trust g)) (Some (ec_id (gr_connection g))) ?st ?why key hash
      (Some (?now + EXPIRY_WINDOW)) (if stages = [] then Some ?now else None)"
  define x1 where "x1 = add_approvals y ?i stages
      ((with_db x ((xo_db x)\<lparr>next_id := Suc (Suc ?i)\<rparr>))\<lparr>xo_requests := xo_requests x @ [q]\<rparr>)"
  have "record_request x y p g key hash =
      (with_db x1 (record_dual_audit_logs (xo_db x1) y p (if stages = [] then AD_APPROVED else AD_REJECTED) ?why),
       \<lparr>ca_request_id = xr_request_id q, ca_status = ?st, ca_reason = ?why, ca_pending_approvals = stages\<rparr>)"
    unfolding record_request_def Let_def fresh_def prod.case stages_def [symmetric] by (simp add: q_def x1_def)
  with assms(1) have x': "x' = with_db x1 (record_dual_audit_logs (xo_db x1) y p
      (if stages = [] then AD_APPROVED else AD_REJECTED) ?why)"
    and r: "r = \<lparr>ca_request_id = xr_request_id q, ca_status = ?st, ca_reason = ?why, ca_pending_approvals = stages\<rparr>"
    by simp_all
  have rows: "xo_requests x1 = xo_requests x @ [q]" "clock (xo_db x1) = ?now" "audit_logs (xo_db x1) = audit_logs (xo_db x)"
    "next_id (xo_db x1) = ?i + 2 + length stages"
    "xo_approvals x1 = xo_approvals x @ approval_rows y ?i (?i + 2) stages"
    "xo_trusts x1 = xo_trusts x" "xo_policies x1 = xo_policies x" "xo_connections x1 = xo_connections x"
    by (simp_all add: x1_def add_approvals_rows)
  show "ca_status r = (if stages = [] then CQ_APPROVED else CQ_PENDING)" "ca_pending_approvals r = stages"
    "xo_approvals x' = xo_approvals x @ approval_rows y ?i (?i + 2) stages"
    "xo_trusts x' = xo_trusts x" "xo_connections x' = xo_connections x" "xo_policies x' = xo_policies x"
    by (simp_all add: r x' rows)
  show "\<exists>q. xo_requests x' = xo_requests x @ [q] \<and> xr_request_id q = ca_request_id r \<and> xr_status q = ca_status r \<and>
       xr_source_organization_id q = py_source_org y \<and> xr_target_organization_id q = py_target_org y \<and>
       xr_id q = ?i \<and> xr_trust_relationship_id q = ot_id (gr_trust g) \<and> xr_expires_at q = Some (?now + EXPIRY_WINDOW)"
    by (rule exI [of _ q]) (simp add: r x' rows, simp add: q_def request_row_def)
  show "\<exists>a b. audit_logs (xo_db x') = audit_logs (xo_db x) @ [a, b] \<and> al_organization_id a = Some (py_source_org y) \<and>
       al_organization_id b = Some (py_target_org y)"
    "?i + 2 + length stages \<le> next_id (xo_db x')" "clock (xo_db x') = ?now"
    by (simp_all add: x' rows record_dual_audit_logs_def fresh_def audit_row_def Let_def)
qed

lemma signing_frame [simp]:
  "find_pair (x\<lparr>xo_signing := sg\<rparr>) a b = find_pair x a b"
  "find_connection (x\<lparr>xo_signing := sg\<rparr>) t a b = find_connection x t a b"
  "org_active (x\<lparr>xo_signing := sg\<rparr>) i = org_active x i"
  by (simp_all add: find_pair_def find_connection_def org_active_def)

lemma source_permission_frame:
  "sg_db sg = xo_db x \<Longrightarrow> source_permission (x\<lparr>xo_signing := sg\<rparr>) y p = source_permission x y p"
  by (simp add: source_permission_def)

section \<open>Properties of authorization\<close>

text \<open>
  C8. What an approval or a pending approval of a cross-organization request rests on. Either the caller
  repeats a stored request of its organization under the same, non-empty idempotency key and with the same
  payload: then its stored status is the answer and nothing changes, and no signature is required. Or
  the request is new: the two named agents belong to two different organizations and are active like
  these, the signature over the request was verified, the source agent holds a stored, usable permission
  for the action and resource, the relationship of the organizations is active and unexpired, the
  connection of the agents usable, both policies list the action and resource and the amount is within
  their limits; the request is approved at once only if no stage needs an approval, is stored with its
  relationship, and each organization gets its own audit entry.
\<close>

theorem cross_org_granted_sound:
  assumes "authorize_cross_organization_action x call p = (x', Inr r)" "ca_status r \<noteq> CQ_REJECTED"
  shows "\<exists>y. resolve_parties x p (xc_caller_org_id call) = Inr y \<and> py_source_org y \<noteq> py_target_org y \<and>
   (x' = x \<and> (\<exists>q k. q \<in> set (xo_requests x) \<and> xr_source_organization_id q = py_source_org y \<and>
      xc_idempotency_key call = Some k \<and> k \<noteq> [] \<and> xr_idempotency_key q = Some k \<and>
      xr_idempotency_hash q = Some (compute_payload_hash (xc_crypto call) p) \<and>
      xr_request_id q = ca_request_id r \<and> xr_status q = ca_status r) \<or>
   (\<exists>tr c m stages q.
    org_active x (py_source_org y) \<and> org_active x (py_target_org y) \<and>
    ag_status (py_source y) = AG_ACTIVE \<and> ag_status (py_target y) = AG_ACTIVE \<and>
    (\<exists>sg v. verify_cross_org_request_v2 (xc_crypto call) (xc_settings call) (xc_redis call) (xc_lucky call) (xo_signing x)
       (py_source y) (py_target y) (uuid_str (py_source_org y)) (uuid_str (py_target_org y)) (xc_headers call)
       (xc_raw_body call) ''POST'' ''/api/v1/cross-org/authorize'' = (sg, Inr v)) \<and>
    m \<in> set (permissions (xo_db x)) \<and> pm_agent_id m = ag_id (py_source y) \<and> pm_action m = cp_action p \<and>
    pm_resource m = cp_resource p \<and> permission_is_usable m (clock (xo_db x)) \<and>
    find_pair x (py_source_org y) (py_target_org y) = Some tr \<and> ot_status tr = TS_ACTIVE \<and>
    (\<forall>e. ot_expires_at tr = Some e \<longrightarrow> clock (xo_db x) < e) \<and>
    find_connection x (ot_id tr) (ag_id (py_source y)) (ag_id (py_target y)) = Some c \<and>
    connection_is_usable c (clock (xo_db x)) \<and>
    (\<forall>g. find (\<lambda>g. tp_trust_relationship_id g = ot_id tr) (xo_policies x) = Some g \<longrightarrow>
       listed (cp_action p) (tp_allowed_actions g) \<and> listed (cp_resource p) (tp_allowed_resources g) \<and>
       amount_within p (tp_max_amount g) (tp_currency g)) \<and>
    (\<forall>g. find (\<lambda>g. gp_organization_id g = py_target_org y) (xo_target_policies x) = Some g \<longrightarrow>
       listed (cp_action p) (gp_allowed_actions g) \<and> listed (cp_resource p) (gp_allowed_resources g) \<and>
       amount_within p (gp_max_amount g) (gp_currency g)) \<and>
    stages = approval_stages p (Some m) (find (\<lambda>g. tp_trust_relationship_id g = ot_id tr) (xo_policies x))
      (find (\<lambda>g. gp_organization_id g = py_target_org y) (xo_target_policies x)) \<and>
    ca_status r = (if stages = [] then CQ_APPROVED else CQ_PENDING) \<and> ca_pending_approvals r = stages \<and>
    xo_requests x' = xo_requests x @ [q] \<and> xr_request_id q = ca_request_id r \<and> xr_status q = ca_status r \<and>
    xr_trust_relationship_id q = ot_id tr \<and>
    (\<exists>a b. audit_logs (xo_db x') = audit_logs (xo_db x) @ [a, b] \<and> al_organization_id a = Some (py_source_org y) \<and>
       al_organization_id b = Some (py_target_org y))))"
  using assms(1)
proof (cases rule: authorize_cases)
  case (repeated y)
  have "py_source_org y \<noteq> py_target_org y" using repeated(1) by (simp add: resolve_parties_Inr)
  with repeated show ?thesis
    by (intro exI [of _ y] conjI disjI1)
      (auto simp: idempotent_answer_def split: option.splits if_splits dest!: find_SomeD)
next
  case (rejected y sg v ob)
  with assms(2) show ?thesis by (simp add: record_rejection_status)
next
  case (granted y sg v g)
  let ?x = "x\<lparr>xo_signing := sg\<rparr>"
  have db: "xo_db ?x = xo_db x" using verify_cross_db [OF granted(2)] by (simp add: xo_db_def)
  note gr = evaluate_grounds_Inr [OF granted(4), unfolded db signing_frame]
  obtain m where m: "source_permission x y p = Some m" "permission_is_usable m (clock (xo_db x))"
    using gr(7) db by (auto simp: source_permission_frame)
  have perm: "gr_permission g = Some m" using gr(6) m(1) db by (simp add: source_permission_frame)
  have row: "m \<in> set (permissions (xo_db x))" "pm_agent_id m = ag_id (py_source y)" "pm_action m = cp_action p"
    "pm_resource m = cp_resource p"
    using m(1) by (auto simp: source_permission_def dest: find_SomeD)
  have parties: "py_source_org y \<noteq> py_target_org y" "org_active x (py_source_org y)" "org_active x (py_target_org y)"
    "ag_status (py_source y) = AG_ACTIVE" "ag_status (py_target y) = AG_ACTIVE"
    using granted(1,3) by (simp_all add: resolve_parties_Inr check_parties_None)
  note eff = record_request_effect [OF granted(5), unfolded perm db]
  obtain q where q: "xo_requests x' = xo_requests x @ [q]" "xr_request_id q = ca_request_id r" "xr_status q = ca_status r"
    "xr_trust_relationship_id q = ot_id (gr_trust g)"
    using eff(3) by auto
  show ?thesis
    using granted(1,2) parties row m(2) gr eff(1,2,5) q
    by (intro exI [of _ y] conjI disjI2 exI [of _ "gr_trust g"] exI [of _ "gr_connection g"] exI [of _ m]
        exI [of _ "approval_stages p (Some m) (gr_trust_policy g) (gr_target_policy g)"] exI [of _ q])
      (auto simp: trust_policy_denied_None target_policy_denied_None)
qed

section \<open>Requests and their approvals\<close>

definition xrequest_evolves :: "CrossOrganizationRequest \<Rightarrow> CrossOrganizationRequest \<Rightarrow> bool" where
  "xrequest_evolves r q =
     (q = r\<lparr>xr_status := xr_status q, xr_decision_reason := xr_decision_reason q, xr_completed_at := xr_completed_at q\<rparr> \<and>
      (q = r \<or> xr_status r = CQ_PENDING \<and> xr_status q \<in> {CQ_APPROVED, CQ_REJECTED}))"

interpretation xreq_rows: keyed_rows xr_id xrequest_evolves
proof
  show "xrequest_evolves r r" for r by (simp add: xrequest_evolves_def)
  show "xrequest_evolves r r''" if "xrequest_evolves r r'" "xrequest_evolves r' r''" for r r' r''
    using that by (cases r; cases r'; cases r'') (auto simp: xrequest_evolves_def)
  show "xr_id r' = xr_id r" if "xrequest_evolves r r'" for r r'
    using that by (cases r; cases r') (auto simp: xrequest_evolves_def)
qed

abbreviation xrequests_evolve :: "xorg \<Rightarrow> xorg \<Rightarrow> bool" where
  "xrequests_evolve x x' \<equiv>
     rows_evolve xr_id xrequest_evolves (next_id (xo_db x)) (xo_requests x) (next_id (xo_db x')) (xo_requests x')"

definition approvals_of :: "xorg \<Rightarrow> CrossOrganizationRequest \<Rightarrow> CrossOrganizationApproval set" where
  "approvals_of x r = {a \<in> set (xo_approvals x). xa_cross_org_request_id a = xr_id r}"

definition stage_org :: "CrossOrganizationRequest \<Rightarrow> ApprovalStage \<Rightarrow> uuid" where
  "stage_org r stage =
     (case stage of STAGE_SOURCE \<Rightarrow> xr_source_organization_id r | STAGE_TARGET \<Rightarrow> xr_target_organization_id r)"

definition approvals_agree :: "CrossOrgRequestStatus \<Rightarrow> CrossOrganizationApproval set \<Rightarrow> bool" where
  "approvals_agree st as =
     ((st = CQ_PENDING \<longrightarrow> (\<exists>a \<in> as. xa_status a = AP_PENDING) \<and> (\<forall>a \<in> as. xa_status a \<noteq> AP_REJECTED)) \<and>
      (st = CQ_APPROVED \<longrightarrow> (\<forall>a \<in> as. xa_status a = AP_APPROVED)))"

definition decided_by :: "CrossOrganizationApproval \<Rightarrow> bool" where
  "decided_by a = (xa_status a \<noteq> AP_PENDING \<longrightarrow> xa_decided_by_user_id a \<noteq> None)"

definition xrequests_inv :: "xorg \<Rightarrow> bool" where
  "xrequests_inv x =
     (rows_ok xr_id (next_id (xo_db x)) (xo_requests x) \<and> rows_ok xa_id (next_id (xo_db x)) (xo_approvals x) \<and>
      (\<forall>a \<in> set (xo_approvals x). xa_cross_org_request_id a < next_id (xo_db x) \<and> decided_by a) \<and>
      (\<forall>r \<in> set (xo_requests x). approvals_agree (xr_status r) (approvals_of x r) \<and>
         (\<forall>a \<in> approvals_of x r. xa_organization_id a = stage_org r (xa_approval_stage a))))"

lemma xrequests_inv_same:
  assumes "xrequests_inv x" "xo_requests x' = xo_requests x" "xo_approvals x' = xo_approvals x"
    "next_id (xo_db x) \<le> next_id (xo_db x')"
  shows "xrequests_inv x' \<and> xrequests_evolve x x'"
  using assms xreq_rows.evolve_refl [of "next_id (xo_db x)" "xo_requests x" "next_id (xo_db x')"]
  unfolding xrequests_inv_def approvals_of_def
  by (auto intro: rows_ok_mono dest: order_less_le_trans)

lemma set_approval_rows:
  "a \<in> set (approval_rows y i n stages) \<longleftrightarrow> (\<exists>k < length stages. a = approval_row y i (n + k) (stages ! k))"
  by (induction stages arbitrary: n) (auto simp: less_Suc_eq_0_disj)

lemma approval_rows_ok:
  "rows_ok xa_id n rs \<Longrightarrow> n \<le> m \<Longrightarrow> m + length stages \<le> n' \<Longrightarrow> rows_ok xa_id n' (rs @ approval_rows y i m stages)"
proof (induction stages arbitrary: n m rs)
  case Nil
  then show ?case by (simp add: rows_ok_mono)
next
  case (Cons stage stages)
  have "rows_ok xa_id (Suc m) (rs @ [approval_row y i m stage])"
    using Cons.prems by (intro rows_ok_snoc) (auto simp: approval_row_def)
  from Cons.IH [OF this, of "Suc m"] Cons.prems(3) show ?case by simp
qed

lemma record_request_inv:
  assumes inv: "xrequests_inv x" and rec: "record_request x y p g key hash = (x', r)"
  shows "xrequests_inv x' \<and> xrequests_evolve x x'"
proof -
  define stages where "stages = approval_stages p (gr_permission g) (gr_trust_policy g) (gr_target_policy g)"
  note eff = record_request_effect [OF rec, folded stages_def]
  obtain q where q: "xo_requests x' = xo_requests x @ [q]" "xr_status q = (if stages = [] then CQ_APPROVED else CQ_PENDING)"
    "xr_id q = next_id (xo_db x)" "xr_source_organization_id q = py_source_org y"
    "xr_target_organization_id q = py_target_org y"
    using eff(1,3) by auto
  let ?n = "next_id (xo_db x)" and ?n' = "next_id (xo_db x')"
  have ok: "rows_ok xr_id ?n (xo_requests x)" "rows_ok xa_id ?n (xo_approvals x)"
    and old: "a \<in> set (xo_approvals x) \<Longrightarrow> xa_cross_org_request_id a < ?n \<and> decided_by a"
    and agree: "r \<in> set (xo_requests x) \<Longrightarrow> approvals_agree (xr_status r) (approvals_of x r) \<and>
      (\<forall>a \<in> approvals_of x r. xa_organization_id a = stage_org r (xa_approval_stage a))" for a r
    using inv by (auto simp: xrequests_inv_def)
  have "stage_org q v = (case v of STAGE_SOURCE \<Rightarrow> py_source_org y | STAGE_TARGET \<Rightarrow> py_target_org y)" for v
    by (cases v) (simp_all add: stage_org_def q)
  then have new: "a \<in> set (approval_rows y ?n (?n + 2) stages) \<Longrightarrow> xa_cross_org_request_id a = ?n \<and> xa_status a = AP_PENDING \<and>
      xa_organization_id a = stage_org q (xa_approval_stage a)" for a
    by (auto simp: set_approval_rows approval_row_def)
  have of_old: "approvals_of x' r = approvals_of x r" if "r \<in> set (xo_requests x)" for r
    using that ok(1) new by (force simp: approvals_of_def eff(4) rows_ok_def list_all_iff)
  have of_new: "approvals_of x' q = set (approval_rows y ?n (?n + 2) stages)"
    using old new by (force simp: approvals_of_def eff(4) q)
  have "stages \<noteq> [] \<Longrightarrow> \<exists>a \<in> approvals_of x' q. xa_status a = AP_PENDING"
    using of_new by (cases stages) (auto simp: approval_row_def)
  then have agree_q: "approvals_agree (xr_status q) (approvals_of x' q) \<and>
      (\<forall>a \<in> approvals_of x' q. xa_organization_id a = stage_org q (xa_approval_stage a))"
    using new of_new by (auto simp: approvals_agree_def q(2))
  have "xrequests_inv x'"
    unfolding xrequests_inv_def
  proof (intro conjI)
    show "rows_ok xr_id ?n' (xo_requests x')"
      using ok(1) eff(6) by (auto simp: q intro!: rows_ok_snoc)
    show "rows_ok xa_id ?n' (xo_approvals x')"
      unfolding eff(4) using eff(6) by (intro approval_rows_ok [OF ok(2)]) simp_all
    show "\<forall>a \<in> set (xo_approvals x'). xa_cross_org_request_id a < ?n' \<and> decided_by a"
      using old new eff(6) by (fastforce simp: eff(4) decided_by_def)
    show "\<forall>r \<in> set (xo_requests x'). approvals_agree (xr_status r) (approvals_of x' r) \<and>
        (\<forall>a \<in> approvals_of x' r. xa_organization_id a = stage_org r (xa_approval_stage a))"
      using agree agree_q of_old by (auto simp: q(1))
  qed
  moreover have "xrequests_evolve x x'"
    unfolding q(1) using eff(6) by (intro xreq_rows.evolve_snoc ok(1)) (simp_all add: q)
  ultimately show ?thesis by simp
qed

text \<open>What a decision finds and does.\<close>

lemma decide_cross_Inr:
  assumes "decide_cross_org_approval x request_id user org approve reason = Inr (x', r')"
  obtains r a a' where "find (\<lambda>r. xr_request_id r = request_id) (xo_requests x) = Some r" "xr_status r = CQ_PENDING"
    "find (\<lambda>a. xa_cross_org_request_id a = xr_id r \<and> xa_organization_id a = org) (xo_approvals x) = Some a"
    "xa_status a = AP_PENDING" "a' = a\<lparr>xa_status := (if approve then AP_APPROVED else AP_REJECTED),
       xa_decided_by_user_id := Some user, xa_decided_at := Some (clock (xo_db x)), xa_reason := reason\<rparr>"
    "xo_approvals x' = update_where (\<lambda>b. xa_id b = xa_id a) (\<lambda>_. a') (xo_approvals x)"
    "xo_requests x' = update_where (\<lambda>q. xr_id q = xr_id r) (\<lambda>_. r') (xo_requests x)"
    "r' = r\<lparr>xr_status := xr_status r', xr_decision_reason := xr_decision_reason r', xr_completed_at := xr_completed_at r'\<rparr>"
    "r' = r \<and> xr_status r' = CQ_PENDING \<or> xr_status r' \<in> {CQ_APPROVED, CQ_REJECTED}"
    "xr_status r' = (if \<not> approve then CQ_REJECTED
       else if \<exists>b \<in> set (xo_approvals x'). xa_cross_org_request_id b = xr_id r \<and> xa_status b = AP_PENDING
       then CQ_PENDING else CQ_APPROVED)"
    "next_id (xo_db x') = next_id (xo_db x)" "clock (xo_db x') = clock (xo_db x)" "xo_trusts x' = xo_trusts x"
    "xo_connections x' = xo_connections x"
proof -
  from assms obtain r where r: "find (\<lambda>r. xr_request_id r = request_id) (xo_requests x) = Some r"
    by (auto simp: decide_cross_org_approval_def Let_def split: option.splits)
  have st: "xr_status r = CQ_PENDING"
    using assms r by (auto simp: decide_cross_org_approval_def Let_def split: if_splits)
  from assms r st obtain a where
    a: "find (\<lambda>a. xa_cross_org_request_id a = xr_id r \<and> xa_organization_id a = org) (xo_approvals x) = Some a"
    by (auto simp: decide_cross_org_approval_def Let_def split: option.splits)
  have ast: "xa_status a = AP_PENDING"
    using assms r st a by (auto simp: decide_cross_org_approval_def Let_def split: if_splits)
  let ?a = "a\<lparr>xa_status := (if approve then AP_APPROVED else AP_REJECTED),
    xa_decided_by_user_id := Some user, xa_decided_at := Some (clock (xo_db x)), xa_reason := reason\<rparr>"
  let ?rows = "update_where (\<lambda>b. xa_id b = xa_id a) (\<lambda>_. ?a) (xo_approvals x)"
  let ?open = "\<exists>b \<in> set ?rows. xa_cross_org_request_id b = xr_id r \<and> xa_status b = AP_PENDING"
  have res: "xo_approvals x' = ?rows" "xo_requests x' = update_where (\<lambda>q. xr_id q = xr_id r) (\<lambda>_. r') (xo_requests x)"
    "next_id (xo_db x') = next_id (xo_db x)" "clock (xo_db x') = clock (xo_db x)" "xo_trusts x' = xo_trusts x"
    "xo_connections x' = xo_connections x"
    "r' = (if \<not> approve
       then r\<lparr>xr_status := CQ_REJECTED, xr_decision_reason := Some (rejection_reason (xa_approval_stage a) reason),
              xr_completed_at := Some (clock (xo_db x))\<rparr>
       else if ?open then r
       else r\<lparr>xr_status := CQ_APPROVED,
              xr_decision_reason := Some ''All required cross-organization approvals received'',
              xr_completed_at := Some (clock (xo_db x))\<rparr>)"
    using assms r st a ast by (auto simp: decide_cross_org_approval_def Let_def list_ex_iff)
  show thesis
  proof (rule that [OF r st a ast refl])
    show "r' = r\<lparr>xr_status := xr_status r', xr_decision_reason := xr_decision_reason r',
        xr_completed_at := xr_completed_at r'\<rparr>"
      by (simp add: res(7))
    show "r' = r \<and> xr_status r' = CQ_PENDING \<or> xr_status r' \<in> {CQ_APPROVED, CQ_REJECTED}"
      using st by (simp add: res(7))
    show "xr_status r' = (if \<not> approve then CQ_REJECTED
       else if \<exists>b \<in> set (xo_approvals x'). xa_cross_org_request_id b = xr_id r \<and> xa_status b = AP_PENDING
       then CQ_PENDING else CQ_APPROVED)"
    proof -
      obtain op where op: "op = ?open" by blast
      show ?thesis unfolding res(1) op [symmetric] using st by (simp add: res(7) [folded op])
    qed
  qed (use res in simp_all)
qed

lemma decide_inv:
  assumes inv: "xrequests_inv x" and dec: "decide_cross_org_approval x request_id user org approve reason = Inr (x', r')"
  shows "xrequests_inv x' \<and> xrequests_evolve x x'"
proof -
  obtain r a a' where r: "r \<in> set (xo_requests x)" "xr_status r = CQ_PENDING" and
    a: "a \<in> set (xo_approvals x)" "xa_cross_org_request_id a = xr_id r" "xa_status a = AP_PENDING" and
    a': "a' = a\<lparr>xa_status := (if approve then AP_APPROVED else AP_REJECTED), xa_decided_by_user_id := Some user,
      xa_decided_at := Some (clock (xo_db x)), xa_reason := reason\<rparr>" and
    rows: "xo_approvals x' = update_where (\<lambda>b. xa_id b = xa_id a) (\<lambda>_. a') (xo_approvals x)"
      "xo_requests x' = update_where (\<lambda>q. xr_id q = xr_id r) (\<lambda>_. r') (xo_requests x)" and
    r': "r' = r\<lparr>xr_status := xr_status r', xr_decision_reason := xr_decision_reason r', xr_completed_at := xr_completed_at r'\<rparr>"
      "r' = r \<and> xr_status r' = CQ_PENDING \<or> xr_status r' \<in> {CQ_APPROVED, CQ_REJECTED}" and
    st: "xr_status r' = (if \<not> approve then CQ_REJECTED
       else if \<exists>b \<in> set (xo_approvals x'). xa_cross_org_request_id b = xr_id r \<and> xa_status b = AP_PENDING
       then CQ_PENDING else CQ_APPROVED)" and
    n: "next_id (xo_db x') = next_id (xo_db x)"
    by (rule decide_cross_Inr [OF dec]) (auto dest!: find_SomeD)
  let ?n = "next_id (xo_db x)"
  have ok: "rows_ok xr_id ?n (xo_requests x)" "rows_ok xa_id ?n (xo_approvals x)"
    and old: "a \<in> set (xo_approvals x) \<Longrightarrow> xa_cross_org_request_id a < ?n \<and> decided_by a"
    and agree: "r \<in> set (xo_requests x) \<Longrightarrow> approvals_agree (xr_status r) (approvals_of x r) \<and>
      (\<forall>a \<in> approvals_of x r. xa_organization_id a = stage_org r (xa_approval_stage a))" for a r
    using inv by (auto simp: xrequests_inv_def)
  have id': "xr_id r' = xr_id r" "stage_org r' = stage_org r"
    by (subst r'(1), simp, subst r'(1), simp add: stage_org_def fun_eq_iff split: ApprovalStage.split)
  have ev: "xrequest_evolves r r'" using r(2) r' unfolding xrequest_evolves_def by auto
  have rows_a: "set (xo_approvals x') = insert a' (set (xo_approvals x) - {a})"
    using a(1) rows_ok_same_key [OF ok(2) _ a(1)] by (auto simp: rows(1) set_update_where)
  have req_a': "xa_cross_org_request_id a' = xr_id r" "xa_organization_id a' = xa_organization_id a"
    "xa_approval_stage a' = xa_approval_stage a" "xa_id a' = xa_id a" "decided_by a'"
    by (simp_all add: a' a(2) decided_by_def)
  have of_r: "approvals_of x' r' = insert a' (approvals_of x r - {a})"
    using a(2) by (auto simp: approvals_of_def rows_a id'(1) req_a')
  have of_q: "approvals_of x' q = approvals_of x q" if "xr_id q \<noteq> xr_id r" for q
    using that a(2) by (auto simp: approvals_of_def rows_a req_a')
  have open_r: "(\<exists>b \<in> set (xo_approvals x'). xa_cross_org_request_id b = xr_id r \<and> xa_status b = AP_PENDING) \<longleftrightarrow>
      (\<exists>b \<in> approvals_of x' r'. xa_status b = AP_PENDING)"
    by (auto simp: approvals_of_def id'(1))
  have none_rejected: "\<forall>b \<in> approvals_of x r. xa_status b \<noteq> AP_REJECTED"
    using agree [OF r(1)] r(2) by (simp add: approvals_agree_def)
  have all_approved: "xa_status b = AP_APPROVED" if "xa_status b \<noteq> AP_PENDING" "xa_status b \<noteq> AP_REJECTED" for b
    using that by (cases "xa_status b") simp_all
  have agree_r: "approvals_agree (xr_status r') (approvals_of x' r')"
    using st none_rejected all_approved unfolding open_r unfolding of_r approvals_agree_def
    by (cases approve) (auto simp: a' split: if_splits)
  have org_r: "\<forall>b \<in> approvals_of x' r'. xa_organization_id b = stage_org r' (xa_approval_stage b)"
    using agree [OF r(1)] a(1,2) unfolding of_r id'(2) by (auto simp: req_a' approvals_of_def)
  have "xrequests_inv x'"
    unfolding xrequests_inv_def n
  proof (intro conjI)
    show "rows_ok xr_id ?n (xo_requests x')"
      unfolding rows(2) by (subst rows_ok_update_where) (simp_all add: id' ok(1))
    show "rows_ok xa_id ?n (xo_approvals x')"
      unfolding rows(1) by (subst rows_ok_update_where) (simp_all add: req_a' ok(2))
    show "\<forall>b \<in> set (xo_approvals x'). xa_cross_org_request_id b < ?n \<and> decided_by b"
      using old old [OF a(1)] a(2) by (auto simp: rows_a req_a')
    show "\<forall>q \<in> set (xo_requests x'). approvals_agree (xr_status q) (approvals_of x' q) \<and>
        (\<forall>b \<in> approvals_of x' q. xa_organization_id b = stage_org q (xa_approval_stage b))"
      using agree agree_r org_r of_q by (auto simp: rows(2) set_update_where)
  qed
  moreover have "rows_evolve xr_id xrequest_evolves ?n (xo_requests x) ?n (xo_requests x')"
    unfolding rows(2)
  proof (rule xreq_rows.evolve_update_where [OF ok(1)])
    fix q assume "q \<in> set (xo_requests x)" "xr_id q = xr_id r"
    then have "q = r" using rows_ok_same_key [OF ok(1) _ r(1)] by simp
    then show "xrequest_evolves q r'" using ev by simp
  qed
  ultimately show ?thesis by (simp add: n)
qed

text \<open>
  The steps of this component. The environment stands for the other services and for what this one
  does to relationships, policies, connections and profiles: it keeps the requests and approvals.
\<close>

inductive xrequest_step :: "xorg \<Rightarrow> xorg \<Rightarrow> bool" where
  authorize: "authorize_cross_organization_action x call p = (x', r) \<Longrightarrow> xrequest_step x x'"
| decide: "decide_cross_org_approval x request_id user org approve reason = Inr (x', r) \<Longrightarrow> xrequest_step x x'"
| environment: "xo_requests x' = xo_requests x \<Longrightarrow> xo_approvals x' = xo_approvals x \<Longrightarrow>
    next_id (xo_db x) \<le> next_id (xo_db x') \<Longrightarrow> xrequest_step x x'"

lemma record_rejection_inv:
  assumes inv: "xrequests_inv x" and rej: "record_rejection c x y p ob key hash = (x', r)"
  shows "xrequests_inv x' \<and> xrequests_evolve x x'"
proof -
  obtain reason trust connection where ob: "ob = (reason, trust, connection)" by (cases ob)
  show ?thesis
  proof (cases trust)
    case None
    with rej have "x' = x" by (simp add: record_rejection_def ob)
    then show ?thesis using xrequests_inv_same [OF inv, of x] by simp
  next
    case (Some t)
    let ?n = "next_id (xo_db x)"
    define q where "q = request_row ?n (Suc ?n) y p t connection CQ_REJECTED reason key hash None (Some (clock (xo_db x)))"
    have x': "xo_requests x' = xo_requests x @ [q]" "xo_approvals x' = xo_approvals x"
      "next_id (xo_db x') = Suc (Suc ?n)"
      using rej by (auto simp: record_rejection_def ob Some fresh_def q_def Let_def)
    have q: "xr_id q = ?n" "xr_status q = CQ_REJECTED" by (simp_all add: q_def request_row_def)
    have ok: "rows_ok xr_id ?n (xo_requests x)" "rows_ok xa_id ?n (xo_approvals x)"
      "\<forall>a \<in> set (xo_approvals x). xa_cross_org_request_id a < ?n \<and> decided_by a"
      and agree: "\<forall>r \<in> set (xo_requests x). approvals_agree (xr_status r) (approvals_of x r) \<and>
        (\<forall>a \<in> approvals_of x r. xa_organization_id a = stage_org r (xa_approval_stage a))"
      using inv by (auto simp: xrequests_inv_def)
    have of_x: "approvals_of x' = approvals_of x" by (simp add: fun_eq_iff approvals_of_def x'(2))
    have none: "approvals_of x q = {}" using ok(3) by (auto simp: approvals_of_def q(1))
    have "xrequests_inv x'"
      unfolding xrequests_inv_def of_x x'(3)
    proof (intro conjI)
      show "rows_ok xr_id (Suc (Suc ?n)) (xo_requests x')"
        using ok(1) by (auto simp: x'(1) q intro!: rows_ok_snoc)
      show "rows_ok xa_id (Suc (Suc ?n)) (xo_approvals x')"
        using ok(2) by (auto simp: x'(2) intro: rows_ok_mono)
      show "\<forall>a \<in> set (xo_approvals x'). xa_cross_org_request_id a < Suc (Suc ?n) \<and> decided_by a"
        using ok(3) by (auto simp: x'(2))
      show "\<forall>r \<in> set (xo_requests x'). approvals_agree (xr_status r) (approvals_of x r) \<and>
          (\<forall>a \<in> approvals_of x r. xa_organization_id a = stage_org r (xa_approval_stage a))"
        using agree by (auto simp: x'(1) none approvals_agree_def q(2))
    qed
    moreover have "xrequests_evolve x x'"
      unfolding x' by (intro xreq_rows.evolve_snoc ok(1)) (simp_all add: q)
    ultimately show ?thesis by simp
  qed
qed

lemma authorize_inv:
  assumes inv: "xrequests_inv x" and auth: "authorize_cross_organization_action x call p = (x', r)"
  shows "xrequests_inv x' \<and> xrequests_evolve x x'"
proof (cases r)
  case (Inr a)
  from auth [unfolded Inr] show ?thesis
  proof (cases rule: authorize_cases)
    case (repeated y)
    then show ?thesis using xrequests_inv_same [OF inv, of x] by simp
  next
    case (rejected y sg v ob)
    have db: "sg_db sg = xo_db x" using verify_cross_db [OF rejected(3)] by (simp add: xo_db_def)
    have "xrequests_inv (x\<lparr>xo_signing := sg\<rparr>)" using xrequests_inv_same [OF inv, of "x\<lparr>xo_signing := sg\<rparr>"] db by simp
    from record_rejection_inv [OF this rejected(5)] show ?thesis using db by simp
  next
    case (granted y sg v g)
    have db: "sg_db sg = xo_db x" using verify_cross_db [OF granted(2)] by (simp add: xo_db_def)
    have "xrequests_inv (x\<lparr>xo_signing := sg\<rparr>)" using xrequests_inv_same [OF inv, of "x\<lparr>xo_signing := sg\<rparr>"] db by simp
    from record_request_inv [OF this granted(5)] show ?thesis using db by simp
  qed
next
  case (Inl e)
  have "xo_requests x' = xo_requests x \<and> xo_approvals x' = xo_approvals x \<and> xo_db x' = xo_db x"
  proof (cases "resolve_parties x p (xc_caller_org_id call)")
    case (Inr y)
    show ?thesis
    proof (cases "idempotent_answer x (py_source_org y) (xc_idempotency_key call) (compute_payload_hash (xc_crypto call) p)")
      case None
      obtain sg w where v: "verify_cross_org_request_v2 (xc_crypto call) (xc_settings call) (xc_redis call) (xc_lucky call)
          (xo_signing x) (py_source y) (py_target y) (uuid_str (py_source_org y)) (uuid_str (py_target_org y))
          (xc_headers call) (xc_raw_body call) ''POST'' ''/api/v1/cross-org/authorize'' = (sg, w)" by force
      have "x' = x\<lparr>xo_signing := sg\<rparr>"
        using auth Inr None v by (auto simp: authorize_cross_organization_action_def Let_def Inl
            split: sum.splits option.splits prod.splits)
      then show ?thesis using verify_cross_db [OF v] by (simp add: xo_db_def)
    qed (use auth Inr in \<open>simp add: authorize_cross_organization_action_def Let_def\<close>)
  qed (use auth in \<open>simp add: authorize_cross_organization_action_def\<close>)
  then show ?thesis using xrequests_inv_same [OF inv, of x'] by simp
qed

lemma xrequest_step_evolves:
  assumes inv: "xrequests_inv x" and "xrequest_step x x'"
  shows "xrequests_inv x' \<and> xrequests_evolve x x'"
  using assms(2)
proof cases
  case (authorize call p r)
  then show ?thesis by (rule authorize_inv [OF inv])
next
  case (decide request_id user org approve reason r)
  then show ?thesis by (rule decide_inv [OF inv])
next
  case environment
  then show ?thesis by (rule xrequests_inv_same [OF inv])
qed

interpretation xrequests: transition_system "\<lambda>x. xo_requests x = [] \<and> xo_approvals x = []" xrequest_step xrequests_inv
proof
  show "xrequests_inv x" if "xo_requests x = [] \<and> xo_approvals x = []" for x
    using that by (simp add: xrequests_inv_def rows_ok_def)
qed (use xrequest_step_evolves in blast)

text \<open>
  C9. A request between organizations is approved only by everybody who has to. In every reachable
  state an approved request has no approval that is open or refused, a pending one has an open
  approval and no refused one, every decided approval names who decided it, and each approval
  belongs to the organization of its stage. Along any further steps a request keeps its parties,
  action, amount and expiry, and once approved or rejected it never changes.
\<close>

theorem cross_org_request_approvals:
  assumes "xo_requests x0 = []" "xo_approvals x0 = []" "xrequest_step\<^sup>*\<^sup>* x0 x" "r \<in> set (xo_requests x)"
  shows "(xr_status r = CQ_APPROVED \<longrightarrow> (\<forall>a \<in> approvals_of x r. xa_status a = AP_APPROVED)) \<and>
    (xr_status r = CQ_PENDING \<longrightarrow> (\<exists>a \<in> approvals_of x r. xa_status a = AP_PENDING) \<and>
       (\<forall>a \<in> approvals_of x r. xa_status a \<noteq> AP_REJECTED)) \<and>
    (\<forall>a \<in> approvals_of x r. xa_organization_id a = stage_org r (xa_approval_stage a) \<and>
       (xa_status a \<noteq> AP_PENDING \<longrightarrow> xa_decided_by_user_id a \<noteq> None)) \<and>
    (\<forall>x'. xrequest_step\<^sup>*\<^sup>* x x' \<longrightarrow>
       (\<exists>r' \<in> set (xo_requests x'). xr_id r' = xr_id r \<and> xr_amount r' = xr_amount r \<and>
          xr_source_agent_id r' = xr_source_agent_id r \<and> xr_target_agent_id r' = xr_target_agent_id r \<and>
          xr_action r' = xr_action r \<and> xr_resource r' = xr_resource r \<and> xr_expires_at r' = xr_expires_at r \<and>
          (xr_status r \<noteq> CQ_PENDING \<longrightarrow> r' = r)))"
proof -
  have inv: "xrequests_inv x" using xrequests.inv_reachable [OF _ assms(3)] assms(1,2) by simp
  have steps: "xrequests_evolve x x'" if "xrequest_step\<^sup>*\<^sup>* x x'" for x'
    using that
  proof (induction rule: rtranclp_induct)
    case base
    show ?case using inv by (intro xreq_rows.evolve_refl) (simp_all add: xrequests_inv_def)
  next
    case (step y z)
    then have "xrequests_inv y" using xrequests.inv_steps inv by blast
    with step show ?case using xrequest_step_evolves xreq_rows.evolve_trans by blast
  qed
  have keep: "\<exists>r' \<in> set (xo_requests x'). xrequest_evolves r r'" if "xrequest_step\<^sup>*\<^sup>* x x'" for x'
    using rows_evolve_fwd [OF steps [OF that] assms(4)] .
  have fields: "xr_id r' = xr_id r \<and> xr_amount r' = xr_amount r \<and>
      xr_source_agent_id r' = xr_source_agent_id r \<and> xr_target_agent_id r' = xr_target_agent_id r \<and>
      xr_action r' = xr_action r \<and> xr_resource r' = xr_resource r \<and> xr_expires_at r' = xr_expires_at r \<and>
      (xr_status r \<noteq> CQ_PENDING \<longrightarrow> r' = r)" if "xrequest_evolves r r'" for r'
    using that by (cases r; cases r') (auto simp: xrequest_evolves_def)
  have "approvals_agree (xr_status r) (approvals_of x r) \<and>
      (\<forall>a \<in> approvals_of x r. xa_organization_id a = stage_org r (xa_approval_stage a) \<and> decided_by a)"
    using inv assms(4) by (auto simp: xrequests_inv_def approvals_of_def)
  then show ?thesis using keep fields unfolding approvals_agree_def decided_by_def by blast
qed

section \<open>Revocation\<close>

lemma find_update_key:
  "distinct (map key rs) \<Longrightarrow> find P rs = Some r \<Longrightarrow> P r' \<Longrightarrow> key r' = key r \<Longrightarrow>
     find P (update_where (\<lambda>q. key q = key r) (\<lambda>_. r') rs) = Some r'"
  by (induction rs) (auto split: if_splits dest!: find_SomeD)

definition at_time :: "xorg \<Rightarrow> datetime \<Rightarrow> xorg" where
  "at_time x t = with_db x ((xo_db x)\<lparr>clock := t\<rparr>)"

lemma at_time_simps [simp]:
  "xo_requests (at_time x t) = xo_requests x" "xo_approvals (at_time x t) = xo_approvals x"
  "xo_trusts (at_time x t) = xo_trusts x" "clock (xo_db (at_time x t)) = t"
  by (simp_all add: at_time_def)

lemma decide_last_approval:
  assumes "find (\<lambda>r. xr_request_id r = request_id) (xo_requests x) = Some r" "xr_status r = CQ_PENDING"
    "find (\<lambda>a. xa_cross_org_request_id a = xr_id r \<and> xa_organization_id a = org) (xo_approvals x) = Some a"
    "xa_status a = AP_PENDING"
    "\<forall>b \<in> set (xo_approvals x). xa_cross_org_request_id b = xr_id r \<and> xa_status b = AP_PENDING \<longrightarrow> xa_id b = xa_id a"
  shows "\<exists>x' r'. decide_cross_org_approval x request_id user org True reason = Inr (x', r') \<and>
    xr_id r' = xr_id r \<and> xr_status r' = CQ_APPROVED"
proof -
  have "\<not> list_ex (\<lambda>b. xa_cross_org_request_id b = xr_id r \<and> xa_status b = AP_PENDING)
      (update_where (\<lambda>b. xa_id b = xa_id a) (\<lambda>_. a\<lparr>xa_status := AP_APPROVED, xa_decided_by_user_id := Some user,
         xa_decided_at := Some (clock (xo_db x)), xa_reason := reason\<rparr>) (xo_approvals x))"
    using assms(5) by (auto simp: list_ex_iff set_update_where)
  then show ?thesis by (simp add: decide_cross_org_approval_def assms(1-4) Let_def)
qed

lemma revoke_trust_Inr:
  assumes "revoke_trust_relationship x trust_id user org reason = Inr (x', tr')"
  obtains tr where "find_trust x trust_id = Some tr" "party tr org"
    "tr' = tr\<lparr>ot_status := TS_REVOKED, ot_revoked_at := Some (clock (xo_db x)), ot_revocation_reason := Some reason,
       ot_updated_at := clock (xo_db x)\<rparr>"
    "xo_trusts x' = update_where (\<lambda>r. ot_id r = ot_id tr) (\<lambda>_. tr') (xo_trusts x)"
    "\<forall>c \<in> set (xo_connections x'). ec_trust_relationship_id c = ot_id tr \<longrightarrow> ec_status c \<noteq> ''ACTIVE''"
    "xo_requests x' = xo_requests x" "xo_approvals x' = xo_approvals x" "clock (xo_db x') = clock (xo_db x)"
proof -
  from assms obtain tr where tr: "find_trust x trust_id = Some tr" "party tr org"
    by (auto simp: revoke_trust_relationship_def Let_def split: option.splits if_splits)
  with assms show thesis
    by (intro that [OF tr]) (auto simp: revoke_trust_relationship_def Let_def store_trust_def set_update_where)
qed

text \<open>
  C28. What revoking a relationship stops and what it does not. After
  \<open>revoke_trust_relationship\<close> no connection under the relationship is active and no new request
  between the two organizations gets past the check of the relationship; but a request that was
  already waiting is approved by its last approval as before, at any later time, so also after the
  24 hours stored as its expiry, because \<open>decide_cross_org_approval\<close> looks at neither.
\<close>

theorem revoked_trust_leaves_pending_requests:
  assumes "revoke_trust_relationship x trust_id user org reason = Inr (x', tr')" "find_trust x trust_id = Some tr"
    and keys: "distinct (map ot_id (xo_trusts x))"
      "find_pair x (ot_source_organization_id tr) (ot_target_organization_id tr) = Some tr"
  shows "(\<forall>c \<in> set (xo_connections x'). ec_trust_relationship_id c = ot_id tr \<longrightarrow> ec_status c \<noteq> ''ACTIVE'') \<and>
    (\<forall>y p t. py_source_org y = ot_source_organization_id tr \<and> py_target_org y = ot_target_organization_id tr \<longrightarrow>
       (\<exists>ob. evaluate_grounds (at_time x' t) y p = Inl ob)) \<and>
    (\<forall>request_id r a approver caller t why.
       find (\<lambda>r. xr_request_id r = request_id) (xo_requests x) = Some r \<and> xr_trust_relationship_id r = ot_id tr \<and>
       xr_status r = CQ_PENDING \<and>
       find (\<lambda>a. xa_cross_org_request_id a = xr_id r \<and> xa_organization_id a = caller) (xo_approvals x) = Some a \<and>
       xa_status a = AP_PENDING \<and>
       (\<forall>b \<in> set (xo_approvals x). xa_cross_org_request_id b = xr_id r \<and> xa_status b = AP_PENDING \<longrightarrow> xa_id b = xa_id a) \<longrightarrow>
       (\<exists>x'' r'. decide_cross_org_approval (at_time x' t) request_id approver caller True why = Inr (x'', r') \<and>
          xr_id r' = xr_id r \<and> xr_status r' = CQ_APPROVED))"
proof -
  from revoke_trust_Inr [OF assms(1)] assms(2) have
    rev: "tr' = tr\<lparr>ot_status := TS_REVOKED, ot_revoked_at := Some (clock (xo_db x)), ot_revocation_reason := Some reason,
       ot_updated_at := clock (xo_db x)\<rparr>"
    "xo_trusts x' = update_where (\<lambda>r. ot_id r = ot_id tr) (\<lambda>_. tr') (xo_trusts x)"
    "\<forall>c \<in> set (xo_connections x'). ec_trust_relationship_id c = ot_id tr \<longrightarrow> ec_status c \<noteq> ''ACTIVE''"
    "xo_requests x' = xo_requests x" "xo_approvals x' = xo_approvals x"
    by auto
  have pair: "find_pair (at_time x' t) (ot_source_organization_id tr) (ot_target_organization_id tr) = Some tr'" for t
    unfolding find_pair_def at_time_simps rev(2)
    by (rule find_update_key [OF keys(1) keys(2) [unfolded find_pair_def]]) (simp_all add: rev(1))
  have "\<exists>ob. evaluate_grounds (at_time x' t) y p = Inl ob"
    if "py_source_org y = ot_source_organization_id tr" "py_target_org y = ot_target_organization_id tr" for y p t
  proof (cases "evaluate_grounds (at_time x' t) y p")
    case (Inr g)
    with evaluate_grounds_Inr(1,2) [OF Inr] pair that have "ot_status tr' = TS_ACTIVE" by simp
    then show ?thesis by (simp add: rev(1))
  qed blast
  moreover have "\<exists>x'' r'. decide_cross_org_approval (at_time x' t) request_id approver caller True why = Inr (x'', r') \<and>
      xr_id r' = xr_id r \<and> xr_status r' = CQ_APPROVED"
    if "find (\<lambda>r. xr_request_id r = request_id) (xo_requests x) = Some r" "xr_status r = CQ_PENDING"
      "find (\<lambda>a. xa_cross_org_request_id a = xr_id r \<and> xa_organization_id a = caller) (xo_approvals x) = Some a"
      "xa_status a = AP_PENDING"
      "\<forall>b \<in> set (xo_approvals x). xa_cross_org_request_id b = xr_id r \<and> xa_status b = AP_PENDING \<longrightarrow> xa_id b = xa_id a"
    for request_id r a approver caller t why
    using decide_last_approval [of request_id "at_time x' t" r caller a approver why] that by (simp add: rev)
  ultimately show ?thesis using rev(3) by blast
qed

text \<open>
  A delegation never carries a request to another organization. Whatever
  \<open>verify_delegation_chain\<close> says of the chain the source agent presents, without a stored usable
  permission of its own the request is refused, because the call passes keywords that function does
  not have; and a stored permission limits neither a request without an amount nor one in another
  currency.
\<close>

theorem cross_org_source_authority_defects:
  "(\<forall>x y p did meta. cp_delegation_id p = Some did \<and> did \<noteq> [] \<and>
      verify_delegation_chain (xo_db x) did (cp_action p) (cp_resource p) (map_option dec_val (cp_amount p)) (cp_currency p)
        (Some (clock (xo_db x))) (Some (ag_id (py_source y))) (Some (py_source_org y)) = Inr meta \<and>
      (\<forall>m \<in> set (permissions (xo_db x)). pm_agent_id m = ag_id (py_source y) \<longrightarrow> \<not> permission_is_usable m (clock (xo_db x)))
      \<longrightarrow> evaluate_grounds x y p = Inl (''SOURCE_PERMISSION_DENIED: Invalid delegation chain'', None, None)) \<and>
   (\<forall>p m l. pm_maximum_amount m = Some l \<and> cp_amount p = None \<longrightarrow> source_limit_denied p (Some m) = None) \<and>
   (\<forall>p m l a. pm_maximum_amount m = Some l \<and> cp_amount p = Some a \<and> dec_val a \<le> l \<longrightarrow>
      source_limit_denied p (Some m) = None)"
proof (intro conjI allI impI)
  fix x :: xorg and y :: parties and p :: CrossOrgAuthorizePayload and did meta
  assume a: "cp_delegation_id p = Some did \<and> did \<noteq> [] \<and>
      verify_delegation_chain (xo_db x) did (cp_action p) (cp_resource p) (map_option dec_val (cp_amount p)) (cp_currency p)
        (Some (clock (xo_db x))) (Some (ag_id (py_source y))) (Some (py_source_org y)) = Inr meta \<and>
      (\<forall>m \<in> set (permissions (xo_db x)). pm_agent_id m = ag_id (py_source y) \<longrightarrow> \<not> permission_is_usable m (clock (xo_db x)))"
  have "\<not> permission_is_usable m (clock (xo_db x))" if "source_permission x y p = Some m" for m
    using that a by (auto simp: source_permission_def dest!: find_SomeD)
  then have "source_denied x y p = Some ''SOURCE_PERMISSION_DENIED: Invalid delegation chain''"
    using a by (auto simp: source_denied_def given_text_def delegation_call_raises split: option.splits)
  then show "evaluate_grounds x y p = Inl (''SOURCE_PERMISSION_DENIED: Invalid delegation chain'', None, None)"
    by (simp add: evaluate_grounds_def)
qed (auto simp: source_limit_denied_def)

section \<open>Relationships\<close>

definition trust_keeps :: "OrganizationTrustRelationship \<Rightarrow> OrganizationTrustRelationship \<Rightarrow> bool" where
  "trust_keeps tr tr' =
     (ot_id tr' = ot_id tr \<and> ot_trust_id tr' = ot_trust_id tr \<and> ot_created_at tr' = ot_created_at tr \<and>
      ot_source_organization_id tr' = ot_source_organization_id tr \<and>
      ot_target_organization_id tr' = ot_target_organization_id tr)"

interpretation trust_rows: keyed_rows ot_id trust_keeps
  by unfold_locales (auto simp: trust_keeps_def)

inductive trust_step :: "xorg \<Rightarrow> xorg \<Rightarrow> bool" where
  request: "create_trust_request x so to user e = Inr (x', tr) \<Longrightarrow> trust_step x x'"
| accept: "accept_trust_request x trust_id user org = (x', r) \<Longrightarrow> trust_step x x'"
| reject: "reject_trust_request x trust_id user org reason = Inr (x', tr) \<Longrightarrow> trust_step x x'"
| revoke: "revoke_trust_relationship x trust_id user org why = Inr (x', tr) \<Longrightarrow> trust_step x x'"
| environment: "xo_trusts x' = xo_trusts x \<Longrightarrow> next_id (xo_db x) \<le> next_id (xo_db x') \<Longrightarrow>
    clock (xo_db x) \<le> clock (xo_db x') \<Longrightarrow> trust_step x x'"

definition trust_wf :: "datetime \<Rightarrow> OrganizationTrustRelationship \<Rightarrow> bool" where
  "trust_wf now tr =
     (ot_source_organization_id tr \<noteq> ot_target_organization_id tr \<and>
      (ot_status tr = TS_ACTIVE \<longrightarrow> ot_accepted_by_user_id tr \<noteq> None \<and>
         (\<exists>t. ot_accepted_at tr = Some t \<and> t \<le> now \<and> (\<forall>e. ot_expires_at tr = Some e \<longrightarrow> t < e))) \<and>
      (ot_status tr = TS_REVOKED \<longrightarrow> ot_revoked_at tr \<noteq> None))"

definition trust_pair :: "OrganizationTrustRelationship \<Rightarrow> uuid \<times> uuid" where
  "trust_pair tr = (ot_source_organization_id tr, ot_target_organization_id tr)"

definition trusts_inv :: "xorg \<Rightarrow> bool" where
  "trusts_inv x = (rows_ok ot_id (next_id (xo_db x)) (xo_trusts x) \<and> distinct (map trust_pair (xo_trusts x)) \<and>
     (\<forall>tr \<in> set (xo_trusts x). trust_wf (clock (xo_db x)) tr))"

text \<open>A step leaves the table, adds a pending row or replaces one row that keeps its names.\<close>

definition trusts_move :: "xorg \<Rightarrow> xorg \<Rightarrow> (OrganizationTrustRelationship \<Rightarrow> OrganizationTrustRelationship \<Rightarrow> bool) \<Rightarrow> bool" where
  "trusts_move x x' R =
     (next_id (xo_db x) \<le> next_id (xo_db x') \<and> clock (xo_db x) \<le> clock (xo_db x') \<and>
      (xo_trusts x' = xo_trusts x \<or>
       (\<exists>tr. xo_trusts x' = xo_trusts x @ [tr] \<and> ot_status tr = TS_PENDING \<and> next_id (xo_db x) \<le> ot_id tr \<and>
          ot_id tr < next_id (xo_db x') \<and> trust_pair tr \<notin> trust_pair ` set (xo_trusts x) \<and>
          ot_source_organization_id tr \<noteq> ot_target_organization_id tr) \<or>
       (\<exists>tr tr'. tr \<in> set (xo_trusts x) \<and> trust_keeps tr tr' \<and> R tr tr' \<and>
          xo_trusts x' = update_where (\<lambda>r. ot_id r = ot_id tr) (\<lambda>_. tr') (xo_trusts x))))"

lemma trusts_move_inv:
  assumes inv: "trusts_inv x" and move: "trusts_move x x' R"
    and R: "\<And>tr tr'. trust_wf (clock (xo_db x)) tr \<Longrightarrow> R tr tr' \<Longrightarrow> trust_keeps tr tr' \<Longrightarrow> trust_wf (clock (xo_db x')) tr'"
  shows "trusts_inv x'"
proof -
  let ?n = "next_id (xo_db x)" and ?n' = "next_id (xo_db x')" and ?t = "clock (xo_db x)" and ?t' = "clock (xo_db x')"
  have ok: "rows_ok ot_id ?n (xo_trusts x)" "distinct (map trust_pair (xo_trusts x))"
    and wf: "tr \<in> set (xo_trusts x) \<Longrightarrow> trust_wf ?t tr" for tr
    using inv by (auto simp: trusts_inv_def)
  have le: "?n \<le> ?n'" "?t \<le> ?t'" using move by (auto simp: trusts_move_def)
  have later: "trust_wf ?t tr \<Longrightarrow> trust_wf ?t' tr" for tr using le(2) by (force simp: trust_wf_def)
  from move consider "xo_trusts x' = xo_trusts x"
    | tr where "xo_trusts x' = xo_trusts x @ [tr]" "ot_status tr = TS_PENDING" "?n \<le> ot_id tr" "ot_id tr < ?n'"
        "trust_pair tr \<notin> trust_pair ` set (xo_trusts x)" "ot_source_organization_id tr \<noteq> ot_target_organization_id tr"
    | tr tr' where "tr \<in> set (xo_trusts x)" "trust_keeps tr tr'" "R tr tr'"
        "xo_trusts x' = update_where (\<lambda>r. ot_id r = ot_id tr) (\<lambda>_. tr') (xo_trusts x)"
    by (auto simp: trusts_move_def)
  then show ?thesis
  proof cases
    case 1
    then show ?thesis using ok wf later le by (auto simp: trusts_inv_def intro: rows_ok_mono)
  next
    case (2 tr)
    moreover have "trust_wf ?t' tr" using 2 by (simp add: trust_wf_def)
    ultimately show ?thesis
      using ok wf later by (auto simp: trusts_inv_def intro!: rows_ok_snoc)
  next
    case (3 tr tr')
    have new: "trust_wf ?t' tr'" using R [OF wf [OF 3(1)] 3(3,2)] .
    have same: "r = tr" if "r \<in> set (xo_trusts x)" "ot_id r = ot_id tr" for r
      using rows_ok_same_key [OF ok(1) that(1) 3(1) that(2)] .
    have "rows_ok ot_id ?n' (xo_trusts x')"
      unfolding 3(4) using 3(2) rows_ok_mono [OF ok(1) le(1)] by (subst rows_ok_update_where) (simp_all add: trust_keeps_def)
    moreover have "map trust_pair (xo_trusts x') = map trust_pair (xo_trusts x)"
      unfolding 3(4) using same 3(2) by (intro map_update_where_same) (auto simp: trust_pair_def trust_keeps_def)
    moreover have "\<forall>r \<in> set (xo_trusts x'). trust_wf ?t' r"
      using new wf later by (auto simp: 3(4) set_update_where)
    ultimately show ?thesis using ok(2) by (simp add: trusts_inv_def)
  qed
qed

lemma pending_trust_Inr:
  "pending_trust x trust_id verb org = Inr tr \<longleftrightarrow>
     find_trust x trust_id = Some tr \<and> ot_target_organization_id tr = org \<and> ot_status tr = TS_PENDING"
  by (auto simp: pending_trust_def split: option.splits)

lemma find_trust_in: "find_trust x trust_id = Some tr \<Longrightarrow> tr \<in> set (xo_trusts x) \<and> ot_trust_id tr = trust_id"
  by (auto simp: find_trust_def dest: find_SomeD)

text \<open>How each operation changes a row.\<close>

definition row_change :: "xorg \<Rightarrow> xorg \<Rightarrow> OrganizationTrustRelationship \<Rightarrow> OrganizationTrustRelationship \<Rightarrow> bool" where
  "row_change x x' tr tr' =
     (ot_status tr' \<in> {TS_PENDING, TS_REJECTED, TS_EXPIRED} \<or> ot_status tr' = TS_REVOKED \<and> ot_revoked_at tr' \<noteq> None \<or>
      (\<exists>user. accept_trust_request x (ot_trust_id tr) user (ot_target_organization_id tr) = (x', Inr tr') \<and>
         ot_status tr = TS_PENDING \<and> ot_status tr' = TS_ACTIVE \<and> ot_accepted_by_user_id tr' \<noteq> None \<and>
         ot_accepted_at tr' = Some (clock (xo_db x)) \<and>
         ot_expires_at tr' = ot_expires_at tr \<and> (\<forall>e. ot_expires_at tr = Some e \<longrightarrow> clock (xo_db x) < e)))"

lemma trusts_moveI:
  "tr \<in> set (xo_trusts x) \<Longrightarrow> xo_trusts x' = update_where (\<lambda>r. ot_id r = ot_id tr) (\<lambda>_. tr') (xo_trusts x) \<Longrightarrow>
     trust_keeps tr tr' \<Longrightarrow> R tr tr' \<Longrightarrow> next_id (xo_db x') = next_id (xo_db x) \<Longrightarrow>
     clock (xo_db x') = clock (xo_db x) \<Longrightarrow> trusts_move x x' R"
  by (auto simp: trusts_move_def)

lemma trust_step_moves:
  assumes "trust_step x x'"
  shows "trusts_move x x' (row_change x x')"
  using assms
proof cases
  case (request so to user e tr)
  show ?thesis
  proof (cases "find_pair x so to")
    case None
    with request have "xo_trusts x' = xo_trusts x @ [tr]" "ot_status tr = TS_PENDING" "ot_id tr = next_id (xo_db x)"
      "trust_pair tr = (so, to)" "so \<noteq> to" "next_id (xo_db x') = Suc (Suc (Suc (next_id (xo_db x))))"
      "clock (xo_db x') = clock (xo_db x)"
      by (auto simp: create_trust_request_def fresh_def Let_def trust_pair_def split: if_splits)
    moreover have "(so, to) \<notin> trust_pair ` set (xo_trusts x)"
      using None by (auto simp: find_pair_def find_None trust_pair_def)
    ultimately show ?thesis
      by (auto simp: trusts_move_def trust_pair_def)
  next
    case (Some q)
    with request have "q \<in> set (xo_trusts x)"
      "xo_trusts x' = update_where (\<lambda>r. ot_id r = ot_id q) (\<lambda>_. tr) (xo_trusts x)" "trust_keeps q tr"
      "ot_status tr = TS_PENDING" "clock (xo_db x') = clock (xo_db x)" "next_id (xo_db x') = next_id (xo_db x)"
      by (auto simp: create_trust_request_def find_pair_def Let_def store_trust_def trust_keeps_def
          split: if_splits dest: find_SomeD)
    then show ?thesis by (intro trusts_moveI [of q _ _ tr]) (simp_all add: row_change_def)
  qed
next
  case (accept trust_id user org r)
  show ?thesis
  proof (cases "pending_trust x trust_id ''accept'' org")
    case (Inl e)
    with accept show ?thesis by (simp add: accept_trust_request_def trusts_move_def)
  next
    case (Inr tr)
    then have tr: "tr \<in> set (xo_trusts x)" "ot_trust_id tr = trust_id" "ot_target_organization_id tr = org"
      "ot_status tr = TS_PENDING"
      using find_trust_in by (auto simp: pending_trust_Inr)
    show ?thesis
    proof (cases "case ot_expires_at tr of None \<Rightarrow> False | Some e \<Rightarrow> e \<le> clock (xo_db x)")
      case True
      with accept Inr have "xo_trusts x' = update_where (\<lambda>r. ot_id r = ot_id tr) (\<lambda>_. tr\<lparr>ot_status := TS_EXPIRED\<rparr>) (xo_trusts x)"
        "xo_db x' = xo_db x"
        by (auto simp: accept_trust_request_def Let_def store_trust_def)
      with tr(1) show ?thesis
        by (intro trusts_moveI [of tr _ _ "tr\<lparr>ot_status := TS_EXPIRED\<rparr>"]) (simp_all add: trust_keeps_def row_change_def)
    next
      case False
      define tr' where "tr' = tr\<lparr>ot_status := TS_ACTIVE, ot_accepted_by_user_id := Some user,
        ot_accepted_at := Some (clock (xo_db x)), ot_updated_at := clock (xo_db x)\<rparr>"
      have acc: "accept_trust_request x trust_id user org = (x', Inr tr')"
        "xo_trusts x' = update_where (\<lambda>r. ot_id r = ot_id tr) (\<lambda>_. tr') (xo_trusts x)"
        "next_id (xo_db x') = next_id (xo_db x)" "clock (xo_db x') = clock (xo_db x)"
        using accept Inr False by (auto simp: accept_trust_request_def Let_def store_trust_def tr'_def)
      moreover have "\<forall>e. ot_expires_at tr = Some e \<longrightarrow> clock (xo_db x) < e" using False by (auto split: option.splits)
      ultimately show ?thesis
        using tr by (intro trusts_moveI [of tr _ _ tr']) (auto simp: trust_keeps_def row_change_def tr'_def)
    qed
  qed
next
  case (reject trust_id user org reason tr')
  then obtain tr where "pending_trust x trust_id ''reject'' org = Inr tr"
    by (auto simp: reject_trust_request_def Let_def split: sum.splits)
  moreover from this have "tr \<in> set (xo_trusts x)" using find_trust_in by (auto simp: pending_trust_Inr)
  ultimately show ?thesis using reject
    by (intro trusts_moveI [of tr _ _ tr'])
      (auto simp: reject_trust_request_def Let_def store_trust_def trust_keeps_def row_change_def)
next
  case (revoke trust_id user org why tr')
  then obtain tr where "find_trust x trust_id = Some tr" "party tr org"
    by (auto simp: revoke_trust_relationship_def Let_def split: option.splits if_splits)
  moreover from this have "tr \<in> set (xo_trusts x)" using find_trust_in by auto
  ultimately show ?thesis using revoke
    by (intro trusts_moveI [of tr _ _ tr'])
      (auto simp: revoke_trust_relationship_def Let_def store_trust_def trust_keeps_def row_change_def)
qed (simp add: trusts_move_def)

lemma trust_step_inv:
  assumes inv: "trusts_inv x" and step: "trust_step x x'"
  shows "trusts_inv x'"
proof (rule trusts_move_inv [OF inv trust_step_moves [OF step]])
  have le: "clock (xo_db x) \<le> clock (xo_db x')" using trust_step_moves [OF step] by (simp add: trusts_move_def)
  fix tr tr' assume "trust_wf (clock (xo_db x)) tr" "row_change x x' tr tr'" "trust_keeps tr tr'"
  with le show "trust_wf (clock (xo_db x')) tr'"
    by (cases "ot_status tr'") (auto simp: trust_wf_def row_change_def trust_keeps_def)
qed

interpretation trusts: transition_system "\<lambda>x. xo_trusts x = []" trust_step trusts_inv
proof
  show "trusts_inv x" if "xo_trusts x = []" for x using that by (simp add: trusts_inv_def rows_ok_def)
qed (rule trust_step_inv)

text \<open>
  C10. Trust needs the acceptance of the other side. In every reachable state two organizations have
  at most one relationship in a direction, never with themselves; an active one was accepted by
  somebody before its expiry and a revoked one says when. A step that makes a relationship active
  is the acceptance of a pending request by the target organization before its expiry.
\<close>

theorem trust_needs_acceptance:
  assumes "xo_trusts x0 = []" "trust_step\<^sup>*\<^sup>* x0 x"
  shows "distinct (map trust_pair (xo_trusts x)) \<and>
    (\<forall>tr \<in> set (xo_trusts x). ot_source_organization_id tr \<noteq> ot_target_organization_id tr \<and>
       (ot_status tr = TS_ACTIVE \<longrightarrow> ot_accepted_by_user_id tr \<noteq> None \<and>
          (\<exists>t. ot_accepted_at tr = Some t \<and> t \<le> clock (xo_db x) \<and> (\<forall>e. ot_expires_at tr = Some e \<longrightarrow> t < e))) \<and>
       (ot_status tr = TS_REVOKED \<longrightarrow> ot_revoked_at tr \<noteq> None)) \<and>
    (\<forall>x' tr tr'. trust_step x x' \<and> tr \<in> set (xo_trusts x) \<and> tr' \<in> set (xo_trusts x') \<and> ot_id tr' = ot_id tr \<and>
       ot_status tr \<noteq> TS_ACTIVE \<and> ot_status tr' = TS_ACTIVE \<longrightarrow>
       ot_status tr = TS_PENDING \<and> (\<forall>e. ot_expires_at tr = Some e \<longrightarrow> clock (xo_db x) < e) \<and>
       (\<exists>user. accept_trust_request x (ot_trust_id tr) user (ot_target_organization_id tr) = (x', Inr tr')))"
proof (intro conjI allI impI)
  have inv: "trusts_inv x" using trusts.inv_reachable assms by blast
  then show "distinct (map trust_pair (xo_trusts x))"
    and "\<forall>tr \<in> set (xo_trusts x). ot_source_organization_id tr \<noteq> ot_target_organization_id tr \<and>
       (ot_status tr = TS_ACTIVE \<longrightarrow> ot_accepted_by_user_id tr \<noteq> None \<and>
          (\<exists>t. ot_accepted_at tr = Some t \<and> t \<le> clock (xo_db x) \<and> (\<forall>e. ot_expires_at tr = Some e \<longrightarrow> t < e))) \<and>
       (ot_status tr = TS_REVOKED \<longrightarrow> ot_revoked_at tr \<noteq> None)"
    by (auto simp: trusts_inv_def trust_wf_def)
  fix x' tr tr'
  assume a: "trust_step x x' \<and> tr \<in> set (xo_trusts x) \<and> tr' \<in> set (xo_trusts x') \<and> ot_id tr' = ot_id tr \<and>
    ot_status tr \<noteq> TS_ACTIVE \<and> ot_status tr' = TS_ACTIVE"
  have ok: "rows_ok ot_id (next_id (xo_db x)) (xo_trusts x)" using inv by (simp add: trusts_inv_def)
  have same: "r = tr" if "r \<in> set (xo_trusts x)" "ot_id r = ot_id tr" for r
    using rows_ok_same_key [OF ok that(1) _ that(2)] a by blast
  have new: "tr' \<notin> set (xo_trusts x)" using same [of tr'] a by auto
  from trust_step_moves [of x x'] a obtain t t' where t: "t \<in> set (xo_trusts x)" "trust_keeps t t'" "row_change x x' t t'"
    "xo_trusts x' = update_where (\<lambda>r. ot_id r = ot_id t) (\<lambda>_. t') (xo_trusts x)"
    using new unfolding trusts_move_def by fastforce
  then have "tr' = t'" using a new by (auto simp: set_update_where)
  moreover from this have "t = tr" using same [OF t(1)] t(2) a by (simp add: trust_keeps_def)
  ultimately have "row_change x x' tr tr'" using t(3) by simp
  then show "ot_status tr = TS_PENDING" "\<And>e. ot_expires_at tr = Some e \<Longrightarrow> clock (xo_db x) < e"
    "\<exists>user. accept_trust_request x (ot_trust_id tr) user (ot_target_organization_id tr) = (x', Inr tr')"
    using a by (auto simp: row_change_def)
qed

section \<open>An example\<close>

definition demo_target :: Agent where
  "demo_target = (demo_agent 30 ''hotel'')\<lparr>ag_organization_id := Some 8\<rparr>"

definition demo_trust_row :: OrganizationTrustRelationship where
  "demo_trust_row = \<lparr>ot_id = 40, ot_trust_id = ''trust_1'', ot_source_organization_id = 7, ot_target_organization_id = 8,
     ot_status = TS_ACTIVE, ot_created_by_user_id = 1, ot_accepted_by_user_id = Some 2, ot_created_at = 0,
     ot_accepted_at = Some 0, ot_expires_at = None, ot_revoked_at = None, ot_revocation_reason = None, ot_updated_at = 0\<rparr>"

definition demo_connection :: ExternalAgentConnection where
  "demo_connection = \<lparr>ec_id = 41, ec_connection_id = ''eac_1'', ec_trust_relationship_id = 40, ec_source_agent_id = 10,
     ec_target_agent_id = 30, ec_status = ''ACTIVE'', ec_expires_at = None, ec_revoked_at = None,
     ec_revocation_reason = None, ec_created_at = 0\<rparr>"

definition demo_policy :: OrganizationTrustPolicy where
  "demo_policy = policy_row (default_trust_policy\<lparr>tp_require_human_approval := True\<rparr>) 42 40"

definition demo_xorg :: xorg where
  "demo_xorg = \<lparr>xo_signing = demo_signing\<lparr>sg_db := demo_db\<lparr>agents := [demo_agent 10 ''buyer'', demo_target]\<rparr>\<rparr>,
     xo_organizations = [\<lparr>or_id = 7, or_name = ''Acme'', or_is_active = True\<rparr>, \<lparr>or_id = 8, or_name = ''Inn'', or_is_active = True\<rparr>],
     xo_trusts = [demo_trust_row], xo_policies = [demo_policy], xo_target_policies = [], xo_connections = [demo_connection],
     xo_requests = [], xo_approvals = [], xo_profiles = []\<rparr>"

definition demo_request :: CrossOrgAuthorizePayload where
  "demo_request = \<lparr>cp_target_organization_id = 8, cp_source_agent_id = ''agt_buyer'', cp_target_agent_id = ''agt_hotel'',
     cp_action = ''purchase'', cp_resource = ''books'', cp_amount = None, cp_currency = None, cp_delegation_id = None\<rparr>"

definition demo_call :: xorg_call where
  "demo_call = \<lparr>xc_crypto = demo_crypto, xc_settings = demo_settings, xc_redis = None, xc_lucky = False,
     xc_headers = demo_headers(''X-Agent-Signature-Version'' \<mapsto> ''v2''), xc_raw_body = ''{}'',
     xc_caller_org_id = Some 7, xc_idempotency_key = None\<rparr>"

lemma demo_uuids: "parse_uuid ''agt_buyer'' = None" "parse_uuid ''agt_hotel'' = None"
  by code_simp+

definition demo_parties :: parties where
  "demo_parties = \<lparr>py_source = demo_agent 10 ''buyer'', py_target = demo_target, py_source_org = 7, py_target_org = 8\<rparr>"

lemmas demo_xorg_defs = demo_xorg_def demo_request_def demo_call_def demo_parties_def demo_target_def demo_trust_row_def
  demo_connection_def demo_policy_def xo_db_def demo_defs

lemma demo_resolve: "resolve_parties demo_xorg demo_request (Some 7) = Inr demo_parties"
  by (simp add: resolve_parties_def find_agent_def demo_xorg_defs demo_uuids)

lemma demo_cross_values:
  "header_values (xc_headers demo_call) = Some [''agt_buyer'', sk_key_id demo_key, ''1970-01-01T00:01:00Z'',
     demo_nonce, replicate 64 CHR ''s'', SIGNATURE_VERSION_V2]"
  by (simp add: demo_call_def header_values_def SIGNED_HEADERS_def demo_headers_def SIGNATURE_VERSION_V2_def demo_nonce_def
      demo_key_def)

lemma demo_key_values: "sk_agent_id demo_key = 10" "sk_organization_id demo_key = Some 7" "sk_status demo_key = SK_ACTIVE"
  "sk_expires_at demo_key = None" "sk_algorithm demo_key = ''Ed25519''"
  by (simp_all add: demo_key_def)

lemma demo_signing_values: "sg_keys (xo_signing demo_xorg) = [demo_key]" "sg_nonces (xo_signing demo_xorg) = []"
  "clock (sg_db (xo_signing demo_xorg)) = 0"
  by (simp_all add: demo_xorg_def demo_signing_def demo_db_def empty_db_def)

lemma demo_accept_signed:
  "\<exists>sg v. accept_signed demo_crypto demo_settings None False (xo_signing demo_xorg) (py_source demo_parties) version
     (sk_key_id demo_key) nonce (replicate 64 CHR ''s'') message = (sg, Inr v)"
  by (simp add: accept_signed_def check_key_def demo_signing_values demo_key_values demo_parties_def demo_agent_def
      signature_valid_def demo_crypto_def accept_nonce_def redis_accepts_def demo_redis)

lemma demo_cross_verified:
  "\<exists>sg v. verify_cross_org_request_v2 demo_crypto demo_settings None False (xo_signing demo_xorg) (py_source demo_parties)
     (py_target demo_parties) o1 o2 (xc_headers demo_call) body verb path = (sg, Inr v)"
  unfolding verify_cross_org_request_v2_def demo_cross_values
  using demo_accept_signed
  by (simp add: demo_shapes demo_signing_values demo_parties_def demo_agent_def)

lemma demo_grounds:
  assumes "sg_db sg = xo_db demo_xorg"
  shows "evaluate_grounds (demo_xorg\<lparr>xo_signing := sg\<rparr>) demo_parties demo_request =
     Inr \<lparr>gr_trust = demo_trust_row, gr_connection = demo_connection,
       gr_permission = Some (demo_permission 20 10 (Some 500)), gr_trust_policy = Some demo_policy, gr_target_policy = None\<rparr>"
  using assms
  by (simp add: evaluate_grounds_def source_denied_def source_permission_def permission_is_usable_def trust_denied_def
      find_pair_def find_connection_def connection_is_usable_def window_usable_def first_some_def trust_policy_denied_def
      source_limit_denied_def over_limit_def policy_row_def default_trust_policy_def TrustPolicyUpdate.defs demo_xorg_defs)

lemma demo_checked: "check_parties (demo_xorg\<lparr>xo_signing := sg\<rparr>) demo_parties = None"
  by (simp add: check_parties_def org_active_def demo_xorg_defs)

lemma demo_policy_values: "tp_require_human_approval demo_policy" "tp_approval_threshold demo_policy = None"
  "tp_approval_type demo_policy = ''TARGET_APPROVAL''"
  by (simp_all add: demo_policy_def policy_row_def default_trust_policy_def TrustPolicyUpdate.defs)

lemma demo_stages: "approval_stages demo_request (Some (demo_permission 20 10 (Some 500))) (Some demo_policy) None = [STAGE_TARGET]"
  by (simp add: approval_stages_def reaches_def demo_policy_values demo_permission_def)

lemma demo_granted:
  "\<exists>x' r q. authorize_cross_organization_action demo_xorg demo_call demo_request = (x', Inr r) \<and> ca_status r = CQ_PENDING \<and>
     xo_requests x' = [q] \<and> xr_status q = CQ_PENDING"
proof -
  obtain sg v where v: "verify_cross_org_request_v2 demo_crypto demo_settings None False (xo_signing demo_xorg)
     (py_source demo_parties) (py_target demo_parties) (uuid_str (py_source_org demo_parties))
     (uuid_str (py_target_org demo_parties)) (xc_headers demo_call) (xc_raw_body demo_call) ''POST''
     ''/api/v1/cross-org/authorize'' = (sg, Inr v)" using demo_cross_verified by blast
  have db: "sg_db sg = xo_db demo_xorg" using verify_cross_db [OF v] by (simp add: xo_db_def)
  have call: "xc_crypto demo_call = demo_crypto" "xc_settings demo_call = demo_settings" "xc_redis demo_call = None"
    "xc_lucky demo_call = False" "xc_caller_org_id demo_call = Some 7" "xc_idempotency_key demo_call = None"
    by (simp_all add: demo_call_def)
  let ?g = "\<lparr>gr_trust = demo_trust_row, gr_connection = demo_connection,
       gr_permission = Some (demo_permission 20 10 (Some 500)), gr_trust_policy = Some demo_policy, gr_target_policy = None\<rparr>"
  let ?hash = "compute_payload_hash demo_crypto demo_request"
  obtain x' r where r: "record_request (demo_xorg\<lparr>xo_signing := sg\<rparr>) demo_parties demo_request ?g None ?hash = (x', r)"
    by fastforce
  have "authorize_cross_organization_action demo_xorg demo_call demo_request = (x', Inr r)"
    by (simp add: authorize_cross_organization_action_def call demo_resolve idempotent_answer_def Let_def v demo_checked
        demo_grounds [OF db] r)
  moreover have "ca_status r = CQ_PENDING" using record_request_effect(1) [OF r] by (simp add: demo_stages)
  moreover have "\<exists>q. xo_requests x' = [q] \<and> xr_status q = ca_status r"
    using record_request_effect(3) [OF r] by (auto simp: demo_xorg_def)
  ultimately show ?thesis by auto
qed

theorem cross_org_granted_sound_witness:
  "\<exists>x' r y m. authorize_cross_organization_action demo_xorg demo_call demo_request = (x', Inr r) \<and>
     ca_status r = CQ_PENDING \<and> resolve_parties demo_xorg demo_request (Some 7) = Inr y \<and>
     m \<in> set (permissions (xo_db demo_xorg)) \<and> pm_agent_id m = ag_id (py_source y) \<and> ca_pending_approvals r \<noteq> []"
proof -
  obtain x' r where r: "authorize_cross_organization_action demo_xorg demo_call demo_request = (x', Inr r)"
    "ca_status r = CQ_PENDING" using demo_granted by blast
  have "xc_caller_org_id demo_call = Some 7" "xo_requests demo_xorg = []" by (simp_all add: demo_call_def demo_xorg_def)
  with cross_org_granted_sound [OF r(1)] r show ?thesis by (auto split: if_splits)
qed

theorem cross_org_request_approvals_witness:
  "\<exists>x' r. xrequest_step\<^sup>*\<^sup>* demo_xorg x' \<and> r \<in> set (xo_requests x') \<and> xr_status r = CQ_PENDING \<and>
     (\<exists>a \<in> approvals_of x' r. xa_status a = AP_PENDING \<and> xa_organization_id a = stage_org r (xa_approval_stage a))"
proof -
  obtain x' r q where q: "authorize_cross_organization_action demo_xorg demo_call demo_request = (x', Inr r)"
    "xo_requests x' = [q]" "xr_status q = CQ_PENDING" using demo_granted by blast
  have "xrequest_step\<^sup>*\<^sup>* demo_xorg x'" using xrequest_step.authorize [OF q(1)] by blast
  moreover have "xo_requests demo_xorg = []" "xo_approvals demo_xorg = []" "q \<in> set (xo_requests x')"
    by (simp_all add: demo_xorg_def q(2))
  ultimately show ?thesis using cross_org_request_approvals [of demo_xorg x' q] q(3) by blast
qed

text \<open>A request that waits for the target.\<close>

definition demo_waiting :: xorg where
  "demo_waiting = demo_xorg\<lparr>xo_requests := [request_row 60 61 demo_parties demo_request 40 (Some 41) CQ_PENDING ''waits'' None
       ''h'' (Some (hours 24)) None], xo_approvals := [approval_row demo_parties 60 62 STAGE_TARGET]\<rparr>"

lemma demo_waiting_pair: "find_pair demo_waiting 7 8 = Some demo_trust_row" "distinct (map ot_id (xo_trusts demo_waiting))"
  "find_trust demo_waiting ''trust_1'' = Some demo_trust_row"
  by (simp_all add: find_pair_def find_trust_def demo_waiting_def demo_xorg_def demo_trust_row_def)

theorem revoked_trust_leaves_pending_requests_witness:
  "\<exists>x' tr'. revoke_trust_relationship demo_waiting ''trust_1'' 1 7 ''breach'' = Inr (x', tr') \<and>
     (\<exists>x'' r'. decide_cross_org_approval (at_time x' (hours 48)) (generate_cross_org_request_id 61) 3 8 True None = Inr (x'', r') \<and>
        xr_status r' = CQ_APPROVED)"
proof -
  have "\<exists>x' tr'. revoke_trust_relationship demo_waiting ''trust_1'' 1 7 ''breach'' = Inr (x', tr')"
    by (simp add: revoke_trust_relationship_def demo_waiting_pair Let_def party_def) (simp add: demo_trust_row_def)
  then obtain x' tr' where rev: "revoke_trust_relationship demo_waiting ''trust_1'' 1 7 ''breach'' = Inr (x', tr')" by blast
  have row: "ot_source_organization_id demo_trust_row = 7" "ot_target_organization_id demo_trust_row = 8" "ot_id demo_trust_row = 40"
    by (simp_all add: demo_trust_row_def)
  let ?r = "request_row 60 61 demo_parties demo_request 40 (Some 41) CQ_PENDING ''waits'' None ''h'' (Some (hours 24)) None"
  let ?a = "approval_row demo_parties 60 62 STAGE_TARGET"
  have waits: "find (\<lambda>r. xr_request_id r = generate_cross_org_request_id 61) (xo_requests demo_waiting) = Some ?r \<and>
    xr_trust_relationship_id ?r = ot_id demo_trust_row \<and> xr_status ?r = CQ_PENDING \<and>
    find (\<lambda>a. xa_cross_org_request_id a = xr_id ?r \<and> xa_organization_id a = 8) (xo_approvals demo_waiting) = Some ?a \<and>
    xa_status ?a = AP_PENDING \<and>
    (\<forall>b \<in> set (xo_approvals demo_waiting). xa_cross_org_request_id b = xr_id ?r \<and> xa_status b = AP_PENDING \<longrightarrow> xa_id b = xa_id ?a)"
    by (simp add: demo_waiting_def request_row_def approval_row_def demo_parties_def row)
  have pair: "find_pair demo_waiting (ot_source_organization_id demo_trust_row) (ot_target_organization_id demo_trust_row) =
    Some demo_trust_row" by (simp add: row demo_waiting_pair)
  from revoked_trust_leaves_pending_requests [OF rev demo_waiting_pair(3,2) pair, THEN conjunct2, THEN conjunct2, rule_format,
      OF waits, of "hours 48" 3 None] rev
  show ?thesis by blast
qed

text \<open>The helper presents the delegation it was given.\<close>

definition demo_helper :: "xorg \<times> parties \<times> CrossOrgAuthorizePayload" where
  "demo_helper = (demo_xorg\<lparr>xo_signing := demo_signing\<lparr>sg_db := (fst demo_delegated)\<lparr>clock := 5\<rparr>\<rparr>\<rparr>,
     demo_parties\<lparr>py_source := demo_agent 11 ''helper''\<rparr>,
     demo_request\<lparr>cp_source_agent_id := ''agt_helper'', cp_delegation_id := Some (dg_delegation_id (snd demo_delegated))\<rparr>)"

lemma demo_helper_verify:
  "\<exists>meta. verify_delegation_chain (xo_db (fst demo_helper)) (dg_delegation_id (snd demo_delegated)) ''purchase'' ''books''
     None None (Some 5) (Some 11) (Some 7) = Inr meta"
proof -
  have "isl (verify_delegation_chain (xo_db (fst demo_helper)) (dg_delegation_id (snd demo_delegated)) ''purchase'' ''books''
     None None (Some 5) (Some 11) (Some 7)) = False" by code_simp
  then show ?thesis by (auto simp: isl_def) (metis sum.exhaust)
qed

theorem cross_org_source_authority_defects_witness:
  "\<exists>meta. verify_delegation_chain (xo_db (fst demo_helper)) (dg_delegation_id (snd demo_delegated)) ''purchase'' ''books''
     None None (Some 5) (Some 11) (Some 7) = Inr meta \<and>
   evaluate_grounds (fst demo_helper) (fst (snd demo_helper)) (snd (snd demo_helper)) =
     Inl (''SOURCE_PERMISSION_DENIED: Invalid delegation chain'', None, None)"
proof -
  obtain meta where meta: "verify_delegation_chain (xo_db (fst demo_helper)) (dg_delegation_id (snd demo_delegated))
     ''purchase'' ''books'' None None (Some 5) (Some 11) (Some 7) = Inr meta" using demo_helper_verify by blast
  have "clock (xo_db (fst demo_helper)) = 5" "ag_id (py_source (fst (snd demo_helper))) = 11"
    "py_source_org (fst (snd demo_helper)) = 7" "cp_action (snd (snd demo_helper)) = ''purchase''"
    "cp_resource (snd (snd demo_helper)) = ''books''" "cp_amount (snd (snd demo_helper)) = None"
    "cp_currency (snd (snd demo_helper)) = None"
    "cp_delegation_id (snd (snd demo_helper)) = Some (dg_delegation_id (snd demo_delegated))"
    by (simp_all add: demo_helper_def demo_parties_def demo_request_def demo_agent_def xo_db_def)
  moreover have "\<forall>m \<in> set (permissions (xo_db (fst demo_helper))). pm_agent_id m = 11 \<longrightarrow> \<not> permission_is_usable m 5"
    by code_simp
  moreover have "dg_delegation_id (snd demo_delegated) \<noteq> []" by code_simp
  ultimately show ?thesis
    using cross_org_source_authority_defects [THEN conjunct1, THEN spec, of "fst demo_helper", THEN spec,
      of "fst (snd demo_helper)", THEN spec, of "snd (snd demo_helper)", THEN spec, of "dg_delegation_id (snd demo_delegated)",
      THEN spec, of meta] meta by simp
qed

definition demo_apart :: xorg where
  "demo_apart = demo_xorg\<lparr>xo_trusts := [], xo_policies := [], xo_connections := []\<rparr>"

lemma demo_requested:
  "\<exists>x tr. create_trust_request demo_apart 7 8 1 None = Inr (x, tr) \<and> xo_trusts x = [tr] \<and> ot_status tr = TS_PENDING \<and>
     ot_target_organization_id tr = 8 \<and> ot_expires_at tr = None"
  by (simp add: create_trust_request_def demo_apart_def demo_xorg_def find_pair_def Let_def fresh_def)

theorem trust_needs_acceptance_witness:
  "\<exists>x x' tr tr'. trust_step\<^sup>*\<^sup>* demo_apart x \<and> trust_step x x' \<and> xo_trusts x = [tr] \<and> xo_trusts x' = [tr'] \<and>
     ot_status tr = TS_PENDING \<and> ot_status tr' = TS_ACTIVE \<and>
     (\<exists>user. accept_trust_request x (ot_trust_id tr) user (ot_target_organization_id tr) = (x', Inr tr'))"
proof -
  obtain x tr where x: "create_trust_request demo_apart 7 8 1 None = Inr (x, tr)" "xo_trusts x = [tr]" "ot_status tr = TS_PENDING"
     "ot_target_organization_id tr = 8" "ot_expires_at tr = None"
    using demo_requested by blast
  have "\<exists>x' tr'. accept_trust_request x (ot_trust_id tr) 2 8 = (x', Inr tr') \<and> xo_trusts x' = [tr'] \<and> ot_status tr' = TS_ACTIVE \<and> ot_id tr' = ot_id tr"
    using x by (simp add: accept_trust_request_def pending_trust_def find_trust_def Let_def store_trust_def)
  then obtain x' tr' where acc: "accept_trust_request x (ot_trust_id tr) 2 8 = (x', Inr tr')" "xo_trusts x' = [tr']"
    "ot_status tr' = TS_ACTIVE" "ot_id tr' = ot_id tr" by blast
  have steps: "trust_step\<^sup>*\<^sup>* demo_apart x" "trust_step x x'"
    using trust_step.request [OF x(1)] trust_step.accept [OF acc(1)] by blast+
  moreover have "xo_trusts demo_apart = []" by (simp add: demo_apart_def)
  note sound = trust_needs_acceptance [OF this steps(1), THEN conjunct2, THEN conjunct2, rule_format, of x' tr tr']
  have "\<exists>user. accept_trust_request x (ot_trust_id tr) user (ot_target_organization_id tr) = (x', Inr tr')"
    using sound steps(2) x(2,3) acc(2-4) by simp
  ultimately show ?thesis using x(2,3) acc(2,3) by blast
qed

end
