(* ===== verification/Gateway_Safety.thy ===== *)
theory Gateway_Safety
  imports GatewayPipeline CrossOrg_Safety
begin

text \<open>
  What the gateway guarantees: what a delivered message rests on, how its record and its deliveries
  develop, how often an endpoint is called; and where the checks can be got round.
\<close>

section \<open>Deliveries\<close>

definition message_keeps :: "ATPMessageRecord \<Rightarrow> ATPMessageRecord \<Rightarrow> bool" where
  "message_keeps m m' =
     (\<exists>st reason att t. m' = m\<lparr>mr_status := st, mr_decision_reason := reason, mr_attestation_id := att, mr_completed_at := t\<rparr>)"

lemma message_keeps_update: "message_keeps m (m\<lparr>mr_status := st, mr_decision_reason := r, mr_completed_at := t\<rparr>)"
  "message_keeps m (m\<lparr>mr_attestation_id := att\<rparr>)" "message_keeps m m"
  "message_keeps m (m\<lparr>mr_attestation_id := att, mr_status := st, mr_decision_reason := r, mr_completed_at := t\<rparr>)"
  by (cases m, force simp: message_keeps_def)+

lemma message_keepsD:
  "message_keeps m m' \<Longrightarrow> mr_message_id m' = mr_message_id m \<and> mr_id m' = mr_id m \<and> mr_capability m' = mr_capability m \<and>
     mr_source_agent_id m' = mr_source_agent_id m \<and> mr_payload_summary m' = mr_payload_summary m"
  by (auto simp: message_keeps_def)

text \<open>The deliveries of a call: one row for each of its first attempts, all but the last one retried.\<close>

definition attempts_ok :: "string \<Rightarrow> nat list \<Rightarrow> ATPMessageDelivery list \<Rightarrow> bool \<Rightarrow> bool" where
  "attempts_ok mid attempts ds ok =
     ((\<forall>d \<in> set ds. md_message_id d = mid) \<and> map md_attempt_count ds = take (length ds) attempts \<and>
      length ds \<le> length attempts \<and> (\<forall>d \<in> set (butlast ds). md_status d = ''RETRYING'') \<and>
      (if ok then ds \<noteq> [] \<and> md_status (last ds) = ''DELIVERED'' else (\<forall>d \<in> set ds. md_status d \<noteq> ''DELIVERED'')))"

lemma attempts_ok_Nil [simp]: "attempts_ok mid attempts [] ok \<longleftrightarrow> \<not> ok"
  by (simp add: attempts_ok_def)

lemma attempts_ok_retry:
  "attempts_ok mid rest ds ok \<Longrightarrow> md_message_id d = mid \<Longrightarrow> md_attempt_count d = a \<Longrightarrow> md_status d = ''RETRYING'' \<Longrightarrow>
     attempts_ok mid (a # rest) (d # ds) ok"
  by (auto simp: attempts_ok_def)

lemma attempts_ok_single:
  "md_message_id d = mid \<Longrightarrow> md_attempt_count d = a \<Longrightarrow> (md_status d = ''DELIVERED'') = ok \<Longrightarrow>
     attempts_ok mid (a # rest) [d] ok"
  by (simp add: attempts_ok_def)

lemma gw_now_update [simp]: "gw_now (g\<lparr>gw_deliveries := ds\<rparr>) = gw_now g" "gw_now (g\<lparr>gw_messages := ms\<rparr>) = gw_now g"
  by (simp_all add: gw_now_def gw_db_def)

text \<open>The effect of the attempts: the rows, and the final status of the message.\<close>

definition finished :: "string \<Rightarrow> nat list \<Rightarrow> gateway \<Rightarrow> gateway \<Rightarrow> bool \<Rightarrow> bool" where
  "finished mid attempts g g' ok =
     (\<exists>ds reason. attempts_ok mid attempts ds ok \<and>
        g' = finish_message (g\<lparr>gw_deliveries := gw_deliveries g @ ds\<rparr>) mid (if ok then ''DELIVERED'' else ''FAILED'') reason)"

lemma finished_retry:
  assumes "finished mid rest (add_message_delivery g d) g' ok" "md_message_id d = mid" "md_attempt_count d = a" "md_status d = ''RETRYING''"
  shows "finished mid (a # rest) g g' ok"
proof -
  from assms(1) obtain ds reason where ds: "attempts_ok mid rest ds ok"
    "g' = finish_message (g\<lparr>gw_deliveries := gw_deliveries g @ d # ds\<rparr>) mid (if ok then ''DELIVERED'' else ''FAILED'') reason"
    by (auto simp: finished_def add_message_delivery_def)
  then show ?thesis using attempts_ok_retry [OF ds(1) assms(2-4)] unfolding finished_def by blast
qed

lemma finished_now:
  assumes "md_message_id d = mid" "md_attempt_count d = a" "(md_status d = ''DELIVERED'') = ok"
  shows "finished mid (a # rest) g (finish_message (add_message_delivery g d) mid (if ok then ''DELIVERED'' else ''FAILED'') reason) ok"
  using attempts_ok_single [OF assms] unfolding finished_def add_message_delivery_def by blast

lemma finished_never: "finished mid attempts g (finish_message g mid ''FAILED'' reason) False"
  unfolding finished_def by (intro exI [of _ "[]"] exI [of _ reason]) simp

lemma dispatch_attempts_effect:
  "dispatch_attempts post ep mid attempts err g = (g', r) \<Longrightarrow>
     finished mid attempts g g' (\<not> isl r) \<and> (\<forall>x. r = Inl x \<longrightarrow> (\<exists>c. x = ATPRoutingError c))"
proof (induction post ep mid attempts err g rule: dispatch_attempts.induct)
  case (1 post ep mid err g)
  then show ?case using finished_never by fastforce
next
  case (2 post ep mid attempt rest err g)
  show ?case
  proof (cases "post attempt")
    case (RequestError e)
    let ?row = "(delivery_row g mid (Some ep) attempt ''DELIVERING'')\<lparr>md_status := (if attempt \<le> MAX_RETRIES then ''RETRYING'' else ''FAILED''),
        md_error_message := Some (''Network error: '' @ e), md_completed_at := (if attempt \<le> MAX_RETRIES then None else Some (gw_now g))\<rparr>"
    from 2(3) RequestError have d: "dispatch_attempts post ep mid (if attempt \<le> MAX_RETRIES then rest else []) e (add_message_delivery g ?row) = (g', r)"
      by (simp add: Let_def)
    have row: "md_message_id ?row = mid" "md_attempt_count ?row = attempt" by (simp_all add: delivery_row_def)
    show ?thesis
    proof (cases "attempt \<le> MAX_RETRIES")
      case True
      from 2(1) [OF refl refl RequestError refl] d
      have "finished mid rest (add_message_delivery g ?row) g' (\<not> isl r) \<and> (\<forall>x. r = Inl x \<longrightarrow> (\<exists>c. x = ATPRoutingError c))"
        using True by (simp cong: if_cong)
      then show ?thesis using finished_retry [OF _ row] True by simp
    next
      case False
      with d have "g' = finish_message (add_message_delivery g ?row) mid ''FAILED'' (''ENDPOINT_UNREACHABLE: '' @ e)"
        "r = Inl (ATPRoutingError 504)" by (simp_all del: append.simps)
      then show ?thesis using finished_now [OF row, of False rest g] False by simp
    qed
  next
    case (Response code t body)
    show ?thesis
    proof (cases "code \<in> {502, 503, 504} \<and> attempt \<le> MAX_RETRIES")
      case True
      let ?row = "(delivery_row g mid (Some ep) attempt ''DELIVERING'')\<lparr>md_http_status := Some code, md_status := ''RETRYING'',
                    md_error_message := Some (''Transient HTTP '' @ str_of_int code)\<rparr>"
      from 2(3) Response True have d: "dispatch_attempts post ep mid rest err (add_message_delivery g ?row) = (g', r)" by (simp add: Let_def)
      have row: "md_message_id ?row = mid" "md_attempt_count ?row = attempt" "md_status ?row = ''RETRYING''" by (simp_all add: delivery_row_def)
      from 2(2) [OF refl refl Response True d] show ?thesis using finished_retry [OF _ row] by simp
    next
      case False
      show ?thesis
      proof (cases "code \<ge> 400")
        case True
        let ?row = "(delivery_row g mid (Some ep) attempt ''DELIVERING'')\<lparr>md_http_status := Some code, md_status := ''FAILED'',
                    md_error_message := Some (''HTTP '' @ str_of_int code @ '': '' @ take 500 t), md_completed_at := Some (gw_now g)\<rparr>"
        have row: "md_message_id ?row = mid" "md_attempt_count ?row = attempt" "(md_status ?row = ''DELIVERED'') = False" by (simp_all add: delivery_row_def)
        from 2(3) Response False True have "g' = finish_message (add_message_delivery g ?row) mid ''FAILED'' (''Target error: HTTP '' @ str_of_int code)"
          "r = Inl (ATPRoutingError code)" by (auto simp: Let_def)
        then show ?thesis using finished_now [OF row] by simp
      next
        case small: False
        let ?row = "(delivery_row g mid (Some ep) attempt ''DELIVERING'')\<lparr>md_http_status := Some code, md_status := ''DELIVERED'',
          md_completed_at := Some (gw_now g), md_response_payload := (case body of Some (PDict d) \<Rightarrow> dict_get d ''payload'' PNone | Some v \<Rightarrow> v
                   | None \<Rightarrow> PNone)\<rparr>"
        have row: "md_message_id ?row = mid" "md_attempt_count ?row = attempt" "(md_status ?row = ''DELIVERED'') = True" by (simp_all add: delivery_row_def)
        from 2(3) Response False small have "g' = finish_message (add_message_delivery g ?row) mid ''DELIVERED'' ''Successfully delivered to target endpoint.''"
          "\<not> isl r" by (auto simp: Let_def)
        then show ?thesis using finished_now [OF row] by auto
      qed
    qed
  qed
qed

section \<open>Routing\<close>

text \<open>What routing the message \<open>mid\<close> changes, with success or without.\<close>

definition routing :: "string \<Rightarrow> gateway \<Rightarrow> gateway \<Rightarrow> bool \<Rightarrow> bool" where
  "routing mid g g' ok =
     (\<exists>f ds. g' = g\<lparr>gw_messages := update_where (\<lambda>m. mr_message_id m = mid) f (gw_messages g),
          gw_deliveries := gw_deliveries g @ ds\<rparr> \<and>
        (\<forall>m. message_keeps m (f m)) \<and> attempts_ok mid [1, 2, 3] ds ok \<and>
        ((\<forall>m. mr_status (f m) = (if ok then ''DELIVERED'' else ''FAILED'')) \<or> \<not> ok \<and> ds = [] \<and> f = id))"

lemma routing_none: "routing mid g g False"
proof -
  have "update_where P id xs = xs" for P and xs :: "ATPMessageRecord list" by (induction xs) auto
  then show ?thesis by (auto simp: routing_def message_keeps_update(3) intro!: exI [of _ id] exI [of _ "[]"])
qed

lemma update_where_twice:
  "(\<And>x. P x \<Longrightarrow> P (f x)) \<Longrightarrow> update_where P h (update_where P f xs) = update_where P (h \<circ> f) xs"
  by (induction xs) auto

lemma routing_finished:
  assumes fin: "finished mid [1, 2, 3] (update_message g mid h) g' ok" and h: "h = id \<or> (\<exists>att. h = (\<lambda>m. m\<lparr>mr_attestation_id := att\<rparr>))"
  shows "routing mid g g' ok"
proof -
  from fin obtain ds reason where ds: "attempts_ok mid [1, 2, 3] ds ok"
    and g': "g' = finish_message ((update_message g mid h)\<lparr>gw_deliveries := gw_deliveries g @ ds\<rparr>) mid
      (if ok then ''DELIVERED'' else ''FAILED'') reason"
    by (auto simp: finished_def update_message_def)
  define k where "k = (\<lambda>m :: ATPMessageRecord. m\<lparr>mr_status := (if ok then ''DELIVERED'' else ''FAILED''), mr_decision_reason := Some reason,
      mr_completed_at := Some (gw_now g)\<rparr>)"
  have same: "mr_message_id (h m) = mr_message_id m" for m using h by auto
  have "g' = g\<lparr>gw_messages := update_where (\<lambda>m. mr_message_id m = mid) (k \<circ> h) (gw_messages g),
          gw_deliveries := gw_deliveries g @ ds\<rparr>"
    by (simp add: g' finish_message_def update_message_def k_def update_where_twice same)
  moreover have "message_keeps m ((k \<circ> h) m)" for m
    using h message_keeps_update by (auto simp: k_def)
  moreover have "mr_status ((k \<circ> h) m) = (if ok then ''DELIVERED'' else ''FAILED'')" for m by (simp add: k_def)
  ultimately show ?thesis using ds unfolding routing_def by blast
qed

lemma route_routing:
  assumes "route_atp_message env g m endpoint = (g', r)"
  shows "routing (mr_message_id m) g g' (\<not> isl r)"
proof -
  have id: "update_message g mid id = g" for mid
  proof -
    have "update_where P id xs = xs" for P and xs :: "ATPMessageRecord list" by (induction xs) auto
    then show ?thesis by (simp add: update_message_def)
  qed
  show ?thesis
  proof (cases "is_sandbox_mock_agent (mr_target_address m) \<or> (case endpoint of Some e \<Rightarrow> ep_status e = ''MOCK'' | None \<Rightarrow> False)")
    case True
    show ?thesis
    proof (cases "execute_sandbox_mock_agent env (gw_now g) (mr_target_address m) (mr_capability m) (mr_payload_summary m)
               (mr_source_address m) (mr_message_id m)")
      case (Inl e)
      with assms True show ?thesis using routing_none by (auto simp: route_atp_message_def Let_def)
    next
      case (Inr answer)
      let ?row = "(delivery_row g (mr_message_id m) (map_option ep_id endpoint) 1 ''DELIVERED'')\<lparr>md_http_status := Some 200,
                  md_completed_at := Some (gw_now g), md_response_payload := dict_get answer ''payload'' PNone\<rparr>"
      have g': "g' = finish_message (add_message_delivery g ?row) (mr_message_id m) ''DELIVERED'' ''Delivered to Sandbox Mock Agent.''"
        "\<not> isl r"
        using assms True Inr by (auto simp: route_atp_message_def Let_def)
      have "finished (mr_message_id m) [1, 2, 3] g g' True"
        unfolding g'(1) using finished_now [of ?row "mr_message_id m" 1 True "[2, 3]" g] by (simp add: delivery_row_def)
      then show ?thesis using routing_finished [of "mr_message_id m" g id g' True] id g'(2) by simp
    qed
  next
    case not_mock: False
    show ?thesis
    proof (cases endpoint)
      case None
      with assms not_mock show ?thesis using routing_none by (auto simp: route_atp_message_def Let_def)
    next
      case (Some e)
      show ?thesis
      proof (cases "resolve_and_validate_endpoint_url (ge_resolve env) (ep_endpoint_url e) (ge_allow_private_ips env)
                (ge_enforce_https env)")
        case (Inl x)
        show ?thesis
        proof (cases x)
          case (SSRFValidationError code)
          with assms not_mock Some Inl have "g' = finish_message g (mr_message_id m) ''FAILED'' (''SSRF_BLOCKED: '' @ code)" "isl r"
            by (auto simp: route_atp_message_def Let_def)
          then show ?thesis using routing_finished [of "mr_message_id m" g id g' False] id finished_never by simp
        next
          case (PyRaised y)
          with assms not_mock Some Inl show ?thesis using routing_none by (auto simp: route_atp_message_def Let_def)
        qed
      next
        case (Inr _)
        let ?token = "message_attestation env (gw_now g) m"
        let ?g = "update_message g (mr_message_id m) (\<lambda>r. r\<lparr>mr_attestation_id := Some (take 64 ?token)\<rparr>)"
        have three: "[1..<MAX_RETRIES + 2] = [1, 2, 3]" by (simp add: MAX_RETRIES_def upt_rec)
        from assms not_mock Some Inr have
          "dispatch_attempts (\<lambda>n. ge_post env n (ep_endpoint_url e) (outbound_body m ?token) (outbound_headers m ?token))
             (ep_id e) (mr_message_id m) [1..<MAX_RETRIES + 2] ''None'' ?g = (g', r)"
          by (auto simp: route_atp_message_def Let_def simp del: upt_Suc)
        from dispatch_attempts_effect [OF this [unfolded three]] show ?thesis by (intro routing_finished) auto
      qed
    qed
  qed
qed

section \<open>The stages\<close>

lemma with_nonces_simps [simp]:
  "gw_messages (with_nonces g ns) = gw_messages g" "gw_deliveries (with_nonces g ns) = gw_deliveries g"
  "gw_endpoints (with_nonces g ns) = gw_endpoints g" "gateway_nonces (with_nonces g ns) = ns"
  "gw_db (with_nonces g ns) = gw_db g" "gw_now (with_nonces g ns) = gw_now g"
  "sg_keys (xo_signing (gw_xorg (with_nonces g ns))) = sg_keys (xo_signing (gw_xorg g))"
  "xo_organizations (gw_xorg (with_nonces g ns)) = xo_organizations (gw_xorg g)"
  "xo_trusts (gw_xorg (with_nonces g ns)) = xo_trusts (gw_xorg g)"
  "xo_target_policies (gw_xorg (with_nonces g ns)) = xo_target_policies (gw_xorg g)"
  "xo_db (gw_xorg (with_nonces g ns)) = xo_db (gw_xorg g)"
  by (simp_all add: with_nonces_def gateway_nonces_def gw_now_def gw_db_def xo_db_def)

lemma resolve_frame:
  "agents (xo_db x') = agents (xo_db x) \<Longrightarrow> xo_organizations x' = xo_organizations x \<Longrightarrow>
     resolve_agent_and_org x' o1 a = resolve_agent_and_org x o1 a"
  by (simp add: resolve_agent_and_org_def lookup_agent_def lookup_organization_def get_agent_def cong: option.case_cong)

lemma accept_gateway_nonce_Inr:
  "accept_gateway_nonce env g key_id nonce = Inr g1 \<longleftrightarrow>
     list_all (\<lambda>x. (of_char x :: nat) < 128) nonce \<and>
     (\<forall>n \<in> set (gateway_nonces g). \<not> (an_key_id n = key_id \<and> an_nonce_hash n = sha256_hex (ge_crypto env) nonce)) \<and>
     g1 = with_nonces g (gateway_nonces g @ [\<lparr>an_key_id = key_id, an_nonce_hash = sha256_hex (ge_crypto env) nonce,
       an_expires_at = gw_now g + seconds 300\<rparr>])"
  by (auto simp: accept_gateway_nonce_def Let_def list_ex_iff)

lemma stage_message_Inr:
  assumes "stage_message g e v = Inr (g2, m, hold)"
  shows "hold_reason (en_payload e) (en_capability e) = Inr hold" "mr_message_id m = en_message_id e"
    "\<forall>q \<in> set (gw_messages g). mr_message_id q \<noteq> en_message_id e" "mr_source_address m = vm_source_address v"
    "mr_target_address m = vm_target_address v" "mr_capability m = en_capability e"
    "mr_payload_sha256 m = vm_payload_sha256 v" "mr_source_agent_id m = ag_id (vm_agent v)"
    "\<exists>row d. g2 = g\<lparr>gw_xorg := with_db (gw_xorg g) ((gw_db g)\<lparr>next_id := Suc (next_id (gw_db g))\<rparr>),
         gw_messages := gw_messages g @ [row]\<rparr> \<and> mr_message_id row = en_message_id e \<and> mr_id row = next_id (gw_db g) \<and>
       mr_status row = (if hold \<noteq> None then ''PENDING_APPROVAL'' else ''PENDING'')"
  using assms
  by (auto simp: stage_message_def rbind_Inr_iff Let_def fresh_def list_ex_iff ATPMessageRecord.defs split: sum.splits if_splits prod.splits)

lemma process_cases [consumes 1, case_names same event held sent]:
  assumes "process_atp_message env g e creds = (g', r)"
  obtains (same) "g' = g" "isl r \<or> (\<exists>a. known_message g (en_message_id e) = Some a \<and> r = Inr a)"
  | (event) v g1 ev where "verify_message env g e = Inr v"
      "accept_gateway_nonce env g (sg_key_id (en_signature e)) (en_nonce e) = Inr g1" "g' = log_event g1 ev" "isl r"
  | (held) v g1 m reason where "known_message g (en_message_id e) = None" "verify_message env g e = Inr v"
      "accept_gateway_nonce env g (sg_key_id (en_signature e)) (en_nonce e) = Inr g1"
      "check_presented env g1 v (en_capability e) creds = Inr ()" "check_trust g1 v = Inr ()"
      "stage_message g1 e v = Inr (g', m, Some reason)" "r = Inr (held_response (en_message_id e) reason)"
  | (sent) v g1 g2 m where "known_message g (en_message_id e) = None" "verify_message env g e = Inr v"
      "accept_gateway_nonce env g (sg_key_id (en_signature e)) (en_nonce e) = Inr g1"
      "check_presented env g1 v (en_capability e) creds = Inr ()" "check_trust g1 v = Inr ()"
      "stage_message g1 e v = Inr (g2, m, None)" "deliver_message env g2 v m = (g', r)"
proof (cases "known_message g (en_message_id e)")
  case (Some a)
  with assms show thesis by (intro same) (auto simp: process_atp_message_def split: if_splits)
next
  case None
  show thesis
  proof (cases "verify_message env g e")
    case (Inl x)
    with None assms show thesis by (intro same) (auto simp: process_atp_message_def split: if_splits)
  next
    case (Inr v)
    show thesis
    proof (cases "en_protocol e \<noteq> PROTOCOL_VERSION \<or> en_message_id e = []")
      case True
      with assms show thesis by (intro same) (auto simp: process_atp_message_def split: if_splits)
    next
      case False
      with assms None Inr have h: "handle_verified env g e creds v = (g', r)" by (simp add: process_atp_message_def)
      show thesis
      proof (cases "accept_gateway_nonce env g (sg_key_id (en_signature e)) (en_nonce e)")
        case (Inl x)
        with h show thesis by (intro same) (auto simp: handle_verified_def)
      next
        case acc: (Inr g1)
        show thesis
        proof (cases "check_presented env g1 v (en_capability e) creds")
          case (Inl a)
          show thesis
          proof (cases "fst a")
            case None
            with h acc Inl show thesis by (intro same) (auto simp: handle_verified_def split: prod.splits)
          next
            case (Some ev)
            with h acc Inl show thesis by (intro event [OF Inr acc, of ev]) (auto simp: handle_verified_def split: prod.splits)
          qed
        next
          case pres: (Inr _)
          show thesis
          proof (cases "rbind (check_trust g1 v) (\<lambda>_. stage_message g1 e v)")
            case (Inl x)
            with h acc pres show thesis by (intro same) (auto simp: handle_verified_def)
          next
            case (Inr s)
            obtain g2 m hold where s: "s = (g2, m, hold)" by (cases s)
            with Inr have st: "check_trust g1 v = Inr ()" "stage_message g1 e v = Inr (g2, m, hold)"
              by (auto simp: rbind_Inr_iff)
            have p: "check_presented env g1 v (en_capability e) creds = Inr ()" using pres by simp
            note h' = h [unfolded handle_verified_def acc sum.case p Inr s prod.case]
            show thesis
            proof (cases hold)
              case None
              with h' have "deliver_message env g2 v m = (g', r)" by simp
              with sent [OF \<open>known_message g (en_message_id e) = None\<close> \<open>verify_message env g e = Inr v\<close> acc p st(1)] st(2) None
              show thesis by blast
            next
              case (Some reason)
              with h' have "g2 = g'" "r = Inr (held_response (en_message_id e) reason)" by simp_all
              with held [OF \<open>known_message g (en_message_id e) = None\<close> \<open>verify_message env g e = Inr v\<close> acc p st(1)] st(2) Some
              show thesis by blast
            qed
          qed
        qed
      qed
    qed
  qed
qed

section \<open>Delivered messages\<close>

text \<open>
  What the signature of a message was checked against: the agent and the organization are those that
  the source of the message resolves to, the target is the one it names.
\<close>

definition signed_by_source :: "gateway_env \<Rightarrow> gateway \<Rightarrow> ATPMessageEnvelope \<Rightarrow> verified_message \<Rightarrow> bool" where
  "signed_by_source env g e v =
     (\<exists>source_org source_agent k.
        address_of ''INVALID_SOURCE'' (en_source e) = Inr (vm_source_address v, source_org, source_agent) \<and>
        address_of ''INVALID_TARGET'' (en_target e) = Inr (vm_target_address v, vm_target_org_id v, vm_target_agent_id v) \<and>
        resolve_agent_and_org (gw_xorg g) source_org source_agent = Inr (vm_org v, Some (vm_agent v)) \<and>
        lookup_agent (gw_xorg g) source_agent = Some (vm_agent v) \<and> ag_status (vm_agent v) = AG_ACTIVE \<and>
        k \<in> set (sg_keys (xo_signing (gw_xorg g))) \<and> sk_agent_id k = ag_id (vm_agent v) \<and>
        sk_key_id k = sg_key_id (en_signature e) \<and> sk_status k = SK_ACTIVE \<and>
        (\<forall>t. sk_expires_at k = Some t \<longrightarrow> gw_now g \<le> t) \<and>
        vm_payload_sha256 v = compute_payload_sha256 (sha256_hex (ge_crypto env)) (json_loads (ge_crypto env)) (en_payload e) \<and>
        atp_signature_valid (ge_crypto env) k (sg_value (en_signature e))
          (message_text e source_org source_agent (vm_target_org_id v) (vm_target_agent_id v) (vm_payload_sha256 v)))"

lemma gateway_key_Inr:
  "gateway_key g a key_id = Inr k \<Longrightarrow>
     k \<in> set (sg_keys (xo_signing (gw_xorg g))) \<and> sk_agent_id k = ag_id a \<and> sk_key_id k = key_id \<and> sk_status k = SK_ACTIVE \<and>
     (\<forall>t. sk_expires_at k = Some t \<longrightarrow> gw_now g \<le> t)"
  by (auto simp: gateway_key_def find_Some_iff in_set_conv_nth split: option.splits if_splits)

lemma active_source_Inr: "active_source agent = Inr a \<longleftrightarrow> agent = Some a \<and> ag_status a = AG_ACTIVE"
  by (auto simp: active_source_def split: option.splits)

lemma resolve_Inr: "resolve_agent_and_org x o1 a = Inr (org, agent) \<Longrightarrow> agent = lookup_agent x a"
  by (auto simp: resolve_agent_and_org_def Let_def split: option.splits sum.splits)

lemma message_digest_Inr:
  "message_digest env e = Inr d \<Longrightarrow> d = compute_payload_sha256 (sha256_hex (ge_crypto env)) (json_loads (ge_crypto env)) (en_payload e)"
  by (simp add: message_digest_def Let_def split: if_splits)

lemma within_window_Inr:
  "within_window env now ts = Inr () \<longleftrightarrow> (\<exists>t. parse_timestamp_iso (ge_crypto env) ts = Inr t \<and> \<bar>now - t\<bar> \<le> seconds 300)"
  by (cases "parse_timestamp_iso (ge_crypto env) ts") (auto simp: within_window_def)

lemma verify_message_Inr:
  assumes "verify_message env g e = Inr v"
  shows "signed_by_source env g e v" "within_window env (gw_now g) (en_timestamp e) = Inr ()"
proof -
  obtain sa so si ta "to" ti org agent k d where st:
    "address_of ''INVALID_SOURCE'' (en_source e) = Inr (sa, so, si)" "address_of ''INVALID_TARGET'' (en_target e) = Inr (ta, to, ti)"
    "resolve_agent_and_org (gw_xorg g) so si = Inr (org, agent)" "active_source agent = Inr (vm_agent v)"
    "gateway_key g (vm_agent v) (sg_key_id (en_signature e)) = Inr k" "message_digest env e = Inr d"
    "atp_signature_valid (ge_crypto env) k (sg_value (en_signature e)) (message_text e so si to ti d)"
    "within_window env (gw_now g) (en_timestamp e) = Inr ()"
    and v: "vm_source_address v = sa" "vm_target_address v = ta" "vm_target_org_id v = to" "vm_target_agent_id v = ti"
      "vm_payload_sha256 v = d" "vm_org v = org"
    using assms by (auto simp: verify_message_def rbind_Inr_iff split: if_splits)
  show "within_window env (gw_now g) (en_timestamp e) = Inr ()" by (rule st)
  show "signed_by_source env g e v"
    unfolding signed_by_source_def v message_digest_Inr [OF st(6), symmetric]
    using st(1-4,7) resolve_Inr [OF st(3)] gateway_key_Inr [OF st(5)] by (auto simp: active_source_Inr intro!: exI [of _ k])
qed

text \<open>Organizations that are not the same exchange messages under an active relationship.\<close>

definition trusted_parties :: "gateway \<Rightarrow> verified_message \<Rightarrow> bool" where
  "trusted_parties g v =
     (is_sandbox_mock_agent (vm_target_address v) \<or>
      (\<forall>src dst a. vm_org v = Some src \<longrightarrow>
         resolve_agent_and_org (gw_xorg g) (vm_target_org_id v) (vm_target_agent_id v) = Inr (Some dst, a) \<longrightarrow>
         or_id dst = or_id src \<or>
         (\<exists>t \<in> set (xo_trusts (gw_xorg g)). ot_source_organization_id t = or_id src \<and>
            ot_target_organization_id t = or_id dst \<and> ot_status t = TS_ACTIVE)))"

lemma check_trust_Inr:
  assumes "check_trust g v = Inr ()"
  shows "trusted_parties g v"
proof -
  {
    fix src dst a
    assume org: "vm_org v = Some src" "resolve_agent_and_org (gw_xorg g) (vm_target_org_id v) (vm_target_agent_id v) = Inr (Some dst, a)"
      and other: "\<not> is_sandbox_mock_agent (vm_target_address v)" "or_id dst \<noteq> or_id src"
    with assms obtain t where "find_pair (gw_xorg g) (or_id src) (or_id dst) = Some t" "ot_status t = TS_ACTIVE"
      by (auto simp: check_trust_def split: option.splits if_splits)
    then have "\<exists>t \<in> set (xo_trusts (gw_xorg g)). ot_source_organization_id t = or_id src \<and>
            ot_target_organization_id t = or_id dst \<and> ot_status t = TS_ACTIVE"
      unfolding find_pair_def by (blast dest: find_SomeD)
  }
  then show ?thesis unfolding trusted_parties_def by blast
qed

text \<open>
  The credentials a target asks for are all presented, and every credential that is presented verifies
  in production and is bound to the source agent.
\<close>

definition credentials_hold :: "gateway_env \<Rightarrow> gateway \<Rightarrow> verified_message \<Rightarrow> string \<Rightarrow> pyval list \<Rightarrow> bool" where
  "credentials_hold env g v capability creds =
     ((\<forall>dst a p ty. resolve_agent_and_org (gw_xorg g) (vm_target_org_id v) (vm_target_agent_id v) = Inr (Some dst, a) \<longrightarrow>
         find (\<lambda>p. gp_organization_id p = or_id dst) (xo_target_policies (gw_xorg g)) = Some p \<longrightarrow>
         ty \<in> set (gp_required_credential_types p) \<longrightarrow> has_type creds ty) \<and>
      (\<forall>d. PDict d \<in> set creds \<longrightarrow>
         (\<exists>x. verify_agent_credential (ge_crypto env) (gw_trust g) d ''production'' True = Inr x) \<and>
         check_binding (vm_agent v) (vm_org v) capability d = Inr () \<and> check_capability_claim (vm_org v) capability d = Inr ()))"

lemma check_credentials_Inr:
  "check_credentials env g a org capability creds = Inr u \<Longrightarrow> c \<in> set creds \<Longrightarrow> check_credential env g a org capability c = Inr ()"
  by (induction creds) (auto simp: rbind_Inr_iff)

lemma check_credential_Inr:
  "check_credential env g a org capability (PDict d) = Inr () \<Longrightarrow>
     (\<exists>x. verify_agent_credential (ge_crypto env) (gw_trust g) d ''production'' True = Inr x) \<and>
     check_binding a org capability d = Inr () \<and> check_capability_claim org capability d = Inr ()"
  by (auto simp: check_credential_def rbind_Inr_iff split: sum.splits credential_error.splits)

lemma check_presented_Inr:
  assumes "check_presented env g v capability creds = Inr ()"
  shows "credentials_hold env g v capability creds"
proof -
  obtain dst a where dst: "resolve_agent_and_org (gw_xorg g) (vm_target_org_id v) (vm_target_agent_id v) = Inr (dst, a)"
    using assms by (auto simp: check_presented_def split: sum.splits)
  let ?p = "Option.bind dst (\<lambda>o1. find (\<lambda>p. gp_organization_id p = or_id o1) (xo_target_policies (gw_xorg g)))"
  have types: "list_all (has_type creds) (case ?p of Some p \<Rightarrow> gp_required_credential_types p | None \<Rightarrow> [])"
    and creds: "check_credentials env g (vm_agent v) (vm_org v) capability creds = Inr ()"
    using assms by (simp_all add: check_presented_def dst Let_def split: if_splits)
  have "has_type creds ty"
    if "dst = Some o1" "find (\<lambda>p. gp_organization_id p = or_id o1) (xo_target_policies (gw_xorg g)) = Some p"
      "ty \<in> set (gp_required_credential_types p)" for o1 p ty
    using types that by (simp add: list_all_iff)
  moreover have "check_credential env g (vm_agent v) (vm_org v) capability (PDict d) = Inr ()" if "PDict d \<in> set creds" for d
    using check_credentials_Inr [OF creds that] .
  ultimately show ?thesis unfolding credentials_hold_def dst using check_credential_Inr by blast
qed

lemma with_nonces_credentials: "credentials_hold env (with_nonces g ns) v capability creds = credentials_hold env g v capability creds"
proof -
  have "resolve_agent_and_org (gw_xorg (with_nonces g ns)) o1 a = resolve_agent_and_org (gw_xorg g) o1 a" for o1 a
    by (rule resolve_frame) simp_all
  moreover have "gw_trust (with_nonces g ns) = gw_trust g" by (simp add: gw_trust_def) (simp add: with_nonces_def)
  ultimately show ?thesis by (simp add: credentials_hold_def)
qed

lemma with_nonces_parties: "trusted_parties (with_nonces g ns) v = trusted_parties g v"
proof -
  have "resolve_agent_and_org (gw_xorg (with_nonces g ns)) o1 a = resolve_agent_and_org (gw_xorg g) o1 a" for o1 a
    by (rule resolve_frame) simp_all
  then show ?thesis by (simp add: trusted_parties_def)
qed

lemma deliver_message_Inr:
  assumes "deliver_message env g v m = (g', Inr r)"
  shows "dr_status r = ''DELIVERED'' \<and> dr_idempotent r = None \<and> dr_message_id r = mr_message_id m"
  using assms by (auto simp: deliver_message_def dispatch_response_def split: sum.splits prod.splits gateway_error.splits)

lemma deliver_message_routing:
  assumes "deliver_message env g v m = (g', r)"
  shows "routing (mr_message_id m) g g' (\<not> isl r)"
proof (cases "active_endpoint g v")
  case (Inl x)
  with assms routing_none show ?thesis by (auto simp: deliver_message_def)
next
  case (Inr ep)
  obtain g'' r' where rt: "route_atp_message env g m ep = (g'', r')" by fastforce
  have "g'' = g' \<and> isl r = isl r'"
    using assms Inr rt by (auto simp: deliver_message_def split: sum.splits gateway_error.splits)
  with route_routing [OF rt] show ?thesis by simp
qed

lemma routing_fresh:
  assumes "routing mid (g\<lparr>gw_xorg := x, gw_messages := ms @ [row]\<rparr>) g' ok" and "\<forall>q \<in> set ms. mr_message_id q \<noteq> mid"
    and "mr_message_id row = mid"
  shows "\<exists>m ds. gw_messages g' = ms @ [m] \<and> message_keeps row m \<and> gw_deliveries g' = gw_deliveries g @ ds \<and>
     attempts_ok mid [1, 2, 3] ds ok \<and> gw_xorg g' = x \<and> gw_endpoints g' = gw_endpoints g \<and>
     (mr_status m = (if ok then ''DELIVERED'' else ''FAILED'') \<or> \<not> ok \<and> m = row \<and> ds = [])"
proof -
  have "update_where (\<lambda>m. mr_message_id m = mid) f (ms @ [row]) = ms @ [f row]" for f
    using assms(2,3) by (induction ms) auto
  then show ?thesis using assms(1) by (auto simp: routing_def)
qed

lemma update_other: "\<forall>q \<in> set ms. \<not> P q \<Longrightarrow> update_where P f ms = ms"
  by (induction ms) auto

lemma stage_source: "stage_message g e v = Inr (g2, m, hold) \<Longrightarrow>
    \<exists>row d. g2 = g\<lparr>gw_xorg := with_db (gw_xorg g) d, gw_messages := gw_messages g @ [row]\<rparr> \<and>
      d = (gw_db g)\<lparr>next_id := Suc (next_id (gw_db g))\<rparr> \<and>
      mr_message_id row = en_message_id e \<and> mr_source_agent_id row = ag_id (vm_agent v) \<and> mr_capability row = en_capability e \<and>
      mr_payload_summary row = (case en_payload e of PDict p \<Rightarrow> p | x \<Rightarrow> [(''data'', x)]) \<and> mr_id row = next_id (gw_db g) \<and>
      mr_status row = (if hold \<noteq> None then ''PENDING_APPROVAL'' else ''PENDING'')"
  by (auto simp: stage_message_def rbind_Inr_iff Let_def fresh_def split: sum.splits if_splits prod.splits)

lemma delivered_effect:
  assumes "accept_gateway_nonce env g k n = Inr g1" "stage_message g1 e v = Inr (g2, m, None)" "deliver_message env g2 v m = (g', r)"
  shows "\<exists>q ds. gw_messages g' = gw_messages g @ [q] \<and> gw_deliveries g' = gw_deliveries g @ ds \<and>
     mr_message_id q = en_message_id e \<and> mr_source_agent_id q = ag_id (vm_agent v) \<and> mr_capability q = en_capability e \<and>
     mr_payload_summary q = (case en_payload e of PDict p \<Rightarrow> p | x \<Rightarrow> [(''data'', x)]) \<and>
     attempts_ok (en_message_id e) [1, 2, 3] ds (\<not> isl r) \<and>
     mr_status q = (if isl r then mr_status q else ''DELIVERED'') \<and>
     (isl r \<longrightarrow> mr_status q = ''FAILED'' \<or> mr_status q = ''PENDING'' \<and> ds = []) \<and>
     gateway_nonces g' = gateway_nonces g1 \<and> gw_endpoints g' = gw_endpoints g"
proof -
  obtain row d where g2: "g2 = g1\<lparr>gw_xorg := with_db (gw_xorg g1) d, gw_messages := gw_messages g1 @ [row]\<rparr>"
    and row: "mr_message_id row = en_message_id e" "mr_source_agent_id row = ag_id (vm_agent v)" "mr_capability row = en_capability e"
      "mr_payload_summary row = (case en_payload e of PDict p \<Rightarrow> p | x \<Rightarrow> [(''data'', x)])" "mr_status row = ''PENDING''"
    using stage_source [OF assms(2)] by auto
  note m = stage_message_Inr(2,3) [OF assms(2)]
  have g1: "gw_messages g1 = gw_messages g" "gw_deliveries g1 = gw_deliveries g" "gw_endpoints g1 = gw_endpoints g"
    using assms(1) by (auto simp: accept_gateway_nonce_Inr)
  have "routing (en_message_id e) (g1\<lparr>gw_xorg := with_db (gw_xorg g1) d, gw_messages := gw_messages g1 @ [row]\<rparr>) g' (\<not> isl r)"
    using deliver_message_routing [OF assms(3)] m(1) by (simp add: g2)
  from routing_fresh [OF this m(2) row(1)]
  obtain q ds where q: "gw_messages g' = gw_messages g1 @ [q]" "message_keeps row q" "gw_deliveries g' = gw_deliveries g1 @ ds"
    "attempts_ok (en_message_id e) [1, 2, 3] ds (\<not> isl r)" "gw_xorg g' = with_db (gw_xorg g1) d" "gw_endpoints g' = gw_endpoints g1"
    "mr_status q = (if \<not> isl r then ''DELIVERED'' else ''FAILED'') \<or> \<not> \<not> isl r \<and> q = row \<and> ds = []"
    by blast
  have "gateway_nonces g' = gateway_nonces g1"
    by (simp add: gateway_nonces_def q(5) with_db_def)
  moreover have "mr_message_id q = en_message_id e \<and> mr_source_agent_id q = ag_id (vm_agent v) \<and> mr_capability q = en_capability e \<and>
     mr_payload_summary q = (case en_payload e of PDict p \<Rightarrow> p | x \<Rightarrow> [(''data'', x)])"
    using message_keepsD [OF q(2)] row by simp
  ultimately show ?thesis using q(1,3,4,6,7) g1 row(5) by (auto split: if_splits)
qed

text \<open>
  C25. An answer that reports a delivery (and is no repetition of one) rests on every check: the source
  of the message resolves to an organization and an active agent, and the message is signed with an
  active, unexpired key of this agent, over the text that is built from the message itself; its time
  is within five minutes of the clock; its nonce had not been used with this key and is spent; the
  credentials its target requires are presented, and every presented object verifies for the source agent;
  the organization of the source has an active relationship with that of the target, unless the target
  is a simulated agent, the two are the same, or one of them is not resolved; it is not held back; its
  identifier is new. Exactly one record is written for it, which is now delivered, and its last
  delivery is the one that succeeded.
\<close>

theorem delivered_message_sound:
  assumes "process_atp_message env g e creds = (g', Inr r)" and "dr_status r = ''DELIVERED''" and "dr_idempotent r = None"
  shows "(\<exists>v m ds. verify_message env g e = Inr v \<and> signed_by_source env g e v \<and> trusted_parties g v \<and>
       credentials_hold env g v (en_capability e) creds \<and>
       gw_messages g' = gw_messages g @ [m] \<and> mr_message_id m = en_message_id e \<and> mr_source_agent_id m = ag_id (vm_agent v) \<and>
       mr_capability m = en_capability e \<and> mr_status m = ''DELIVERED'' \<and> gw_deliveries g' = gw_deliveries g @ ds \<and> ds \<noteq> [] \<and>
       md_status (last ds) = ''DELIVERED'' \<and> (\<forall>d \<in> set ds. md_message_id d = en_message_id e)) \<and>
     (\<exists>t. parse_timestamp_iso (ge_crypto env) (en_timestamp e) = Inr t \<and> \<bar>gw_now g - t\<bar> \<le> seconds 300) \<and>
     (\<forall>n \<in> set (gateway_nonces g). \<not> (an_key_id n = sg_key_id (en_signature e) \<and>
         an_nonce_hash n = sha256_hex (ge_crypto env) (en_nonce e))) \<and>
     (\<exists>n \<in> set (gateway_nonces g'). an_key_id n = sg_key_id (en_signature e) \<and>
         an_nonce_hash n = sha256_hex (ge_crypto env) (en_nonce e)) \<and>
     hold_reason (en_payload e) (en_capability e) = Inr None \<and>
     (\<forall>q \<in> set (gw_messages g). mr_message_id q \<noteq> en_message_id e)"
  using assms(1)
proof (cases rule: process_cases)
  case same
  with assms(2,3) show ?thesis
    by (auto simp: known_message_def bind_eq_Some_conv dispatch_response_def split: if_splits)
next
  case (event v g1 ev)
  then show ?thesis by simp
next
  case (held v g1 m reason)
  with assms(2) show ?thesis by (simp add: held_response_def dispatch_response_def)
next
  case (sent v g1 g2 m)
  have g1: "g1 = with_nonces g (gateway_nonces g @ [\<lparr>an_key_id = sg_key_id (en_signature e),
       an_nonce_hash = sha256_hex (ge_crypto env) (en_nonce e), an_expires_at = gw_now g + seconds 300\<rparr>])"
    and new: "\<forall>n \<in> set (gateway_nonces g). \<not> (an_key_id n = sg_key_id (en_signature e) \<and>
         an_nonce_hash n = sha256_hex (ge_crypto env) (en_nonce e))"
    using sent(3) by (simp_all add: accept_gateway_nonce_Inr)
  have "trusted_parties g v" using check_trust_Inr [OF sent(5)] by (simp add: g1 with_nonces_parties)
  moreover have "credentials_hold env g v (en_capability e) creds"
    using check_presented_Inr [OF sent(4)] by (simp add: g1 with_nonces_credentials)
  moreover have "\<forall>q \<in> set (gw_messages g). mr_message_id q \<noteq> en_message_id e"
    using stage_message_Inr(3) [OF sent(6)] by (simp add: g1)
  moreover from delivered_effect [OF sent(3,6,7)] obtain q ds where q: "gw_messages g' = gw_messages g @ [q]"
    "gw_deliveries g' = gw_deliveries g @ ds" "mr_message_id q = en_message_id e" "mr_source_agent_id q = ag_id (vm_agent v)"
    "mr_capability q = en_capability e" "attempts_ok (en_message_id e) [1, 2, 3] ds True" "mr_status q = ''DELIVERED''"
    "gateway_nonces g' = gateway_nonces g1" by auto
  moreover have "ds \<noteq> [] \<and> md_status (last ds) = ''DELIVERED'' \<and> (\<forall>d \<in> set ds. md_message_id d = en_message_id e)"
    using q(6) by (simp add: attempts_ok_def)
  moreover have "gateway_nonces g' = gateway_nonces g @ [\<lparr>an_key_id = sg_key_id (en_signature e),
       an_nonce_hash = sha256_hex (ge_crypto env) (en_nonce e), an_expires_at = gw_now g + seconds 300\<rparr>]"
    by (simp add: q(8) g1)
  then have "\<exists>n \<in> set (gateway_nonces g'). an_key_id n = sg_key_id (en_signature e) \<and>
         an_nonce_hash n = sha256_hex (ge_crypto env) (en_nonce e)" by auto
  ultimately show ?thesis
    using verify_message_Inr [OF sent(2)] sent(2) within_window_Inr stage_message_Inr(1) [OF sent(6)] new by blast
qed

section \<open>Message records\<close>

text \<open>
  A step of the gateway: a message is handled, an endpoint registered or removed, or anything else
  happens (keys, agents, trust and the clock change) that leaves messages and deliveries alone.
\<close>

inductive gateway_step :: "gateway \<Rightarrow> gateway \<Rightarrow> bool" where
  process: "process_atp_message env g e creds = (g', r) \<Longrightarrow> gateway_step g g'"
| register: "register_agent_endpoint env g can_manage org agent_id url = Inr (g', p) \<Longrightarrow> gateway_step g g'"
| delete: "delete_agent_endpoint g can_manage org endpoint_id = Inr g' \<Longrightarrow> gateway_step g g'"
| environment: "gw_messages g' = gw_messages g \<Longrightarrow> gw_deliveries g' = gw_deliveries g \<Longrightarrow> gateway_step g g'"

definition deliveries_of :: "gateway \<Rightarrow> string \<Rightarrow> ATPMessageDelivery list" where
  "deliveries_of g mid = filter (\<lambda>d. md_message_id d = mid) (gw_deliveries g)"

definition message_state :: "ATPMessageRecord \<Rightarrow> ATPMessageDelivery list \<Rightarrow> bool" where
  "message_state m ds =
     (mr_status m \<in> {''PENDING'', ''PENDING_APPROVAL''} \<and> ds = [] \<or>
      mr_status m \<in> {''DELIVERED'', ''FAILED''} \<and> attempts_ok (mr_message_id m) [1, 2, 3] ds (mr_status m = ''DELIVERED''))"

definition gateway_ok :: "gateway \<Rightarrow> bool" where
  "gateway_ok g =
     (distinct (map mr_message_id (gw_messages g)) \<and>
      (\<forall>m \<in> set (gw_messages g). message_state m (deliveries_of g (mr_message_id m))) \<and>
      (\<forall>d \<in> set (gw_deliveries g). md_message_id d \<in> mr_message_id ` set (gw_messages g)))"

lemma gateway_ok_same:
  "gw_messages g' = gw_messages g \<Longrightarrow> gw_deliveries g' = gw_deliveries g \<Longrightarrow> gateway_ok g' = gateway_ok g"
  by (simp add: gateway_ok_def deliveries_of_def)

lemma gateway_ok_append:
  assumes ok: "gateway_ok g" and ms: "gw_messages g' = gw_messages g @ [q]" and ds: "gw_deliveries g' = gw_deliveries g @ ds"
    and new: "\<forall>m \<in> set (gw_messages g). mr_message_id m \<noteq> mr_message_id q"
    and own: "\<forall>d \<in> set ds. md_message_id d = mr_message_id q" and st: "message_state q ds"
  shows "gateway_ok g'"
proof -
  have "deliveries_of g' (mr_message_id m) = deliveries_of g (mr_message_id m)" if "m \<in> set (gw_messages g)" for m
  proof -
    have "filter (\<lambda>d. md_message_id d = mr_message_id m) ds = []" using own new that by (auto simp: filter_empty_conv)
    then show ?thesis by (simp add: deliveries_of_def ds)
  qed
  moreover have "deliveries_of g' (mr_message_id q) = ds"
  proof -
    have "filter (\<lambda>d. md_message_id d = mr_message_id q) (gw_deliveries g) = []"
      using ok new by (fastforce simp: gateway_ok_def filter_empty_conv)
    moreover have "filter (\<lambda>d. md_message_id d = mr_message_id q) ds = ds" using own by (simp add: filter_id_conv)
    ultimately show ?thesis by (simp add: deliveries_of_def ds)
  qed
  ultimately show ?thesis using ok new st own by (auto simp: gateway_ok_def ms ds image_iff)
qed

lemma process_effect:
  assumes "process_atp_message env g e creds = (g', r)"
  shows "gw_messages g' = gw_messages g \<and> gw_deliveries g' = gw_deliveries g \<or>
    (\<exists>q ds. gw_messages g' = gw_messages g @ [q] \<and> gw_deliveries g' = gw_deliveries g @ ds \<and>
       (\<forall>m \<in> set (gw_messages g). mr_message_id m \<noteq> mr_message_id q) \<and> (\<forall>d \<in> set ds. md_message_id d = mr_message_id q) \<and>
       message_state q ds)"
  using assms
proof (cases rule: process_cases)
  case (event v g1 ev)
  then show ?thesis by (auto simp: log_event_def accept_gateway_nonce_Inr)
next
  case (held v g1 m reason)
  from stage_source [OF held(6)] held(3) stage_message_Inr(3) [OF held(6)] show ?thesis
    by (auto simp: accept_gateway_nonce_Inr message_state_def)
next
  case (sent v g1 g2 m)
  from delivered_effect [OF sent(3,6,7)] obtain q ds where q: "gw_messages g' = gw_messages g @ [q]"
    "gw_deliveries g' = gw_deliveries g @ ds" "mr_message_id q = en_message_id e"
    "attempts_ok (en_message_id e) [1, 2, 3] ds (\<not> isl r)" "mr_status q = (if isl r then mr_status q else ''DELIVERED'')"
    "isl r \<longrightarrow> mr_status q = ''FAILED'' \<or> mr_status q = ''PENDING'' \<and> ds = []" by auto
  have "gw_messages g1 = gw_messages g" using sent(3) by (auto simp: accept_gateway_nonce_Inr)
  moreover have "message_state q ds" using q(3-6) by (cases "isl r") (auto simp: message_state_def)
  moreover have "\<forall>d \<in> set ds. md_message_id d = mr_message_id q" using q(3,4) by (simp add: attempts_ok_def)
  ultimately show ?thesis using q(1-3) stage_message_Inr(3) [OF sent(6)] by (intro disjI2 exI [of _ q] exI [of _ ds]) simp
qed simp

lemma register_same:
  "register_agent_endpoint env g can_manage org agent_id url = Inr (g', p) \<Longrightarrow>
     gw_messages g' = gw_messages g \<and> gw_deliveries g' = gw_deliveries g"
  by (auto simp: register_agent_endpoint_def Let_def fresh_def split: if_splits sum.splits ssrf_error.splits option.splits)

lemma attempts_ok_map:
  "(\<And>d. md_message_id (f d) = md_message_id d \<and> md_attempt_count (f d) = md_attempt_count d \<and> md_status (f d) = md_status d) \<Longrightarrow>
     attempts_ok mid as (map f ds) ok = attempts_ok mid as ds ok"
  by (auto simp: attempts_ok_def o_def last_map simp flip: map_butlast)

lemma gateway_ok_relabel:
  assumes ok: "gateway_ok g" and ms: "gw_messages g' = gw_messages g" and ds: "gw_deliveries g' = map f (gw_deliveries g)"
    and f: "\<And>d. md_message_id (f d) = md_message_id d \<and> md_attempt_count (f d) = md_attempt_count d \<and> md_status (f d) = md_status d"
  shows "gateway_ok g'"
proof -
  have "deliveries_of g' mid = map f (deliveries_of g mid)" for mid
    by (simp add: deliveries_of_def ds filter_map o_def f)
  then show ?thesis using ok attempts_ok_map [of f, OF f] by (simp add: gateway_ok_def ms ds message_state_def f)
qed

lemma delete_relabels:
  assumes "delete_agent_endpoint g can_manage org endpoint_id = Inr g'"
  shows "gw_messages g' = gw_messages g \<and> (gateway_ok g \<longrightarrow> gateway_ok g')"
proof -
  let ?f = "\<lambda>(p :: AgentEndpoint) (d :: ATPMessageDelivery). if md_target_endpoint_id d = Some (ep_id p) then d\<lparr>md_target_endpoint_id := None\<rparr> else d"
  from assms have "\<exists>p. g' = g\<lparr>gw_endpoints := filter (\<lambda>q. ep_id q \<noteq> ep_id p) (gw_endpoints g),
      gw_deliveries := map (?f p) (gw_deliveries g)\<rparr>"
    by (simp add: delete_agent_endpoint_def update_where_def split: if_splits option.splits) blast
  then obtain p where "g' = g\<lparr>gw_endpoints := filter (\<lambda>q. ep_id q \<noteq> ep_id p) (gw_endpoints g),
      gw_deliveries := map (?f p) (gw_deliveries g)\<rparr>" by blast
  then have p: "gw_messages g' = gw_messages g" "gw_deliveries g' = map (?f p) (gw_deliveries g)" by simp_all
  then show ?thesis using gateway_ok_relabel [OF _ p] by simp
qed

lemma gateway_step_ok: "gateway_step g g' \<Longrightarrow> gateway_ok g \<Longrightarrow> gateway_ok g'"
proof (induction rule: gateway_step.induct)
  case (process env g e creds g' r)
  from process_effect [OF process(1)] process(2) show ?case using gateway_ok_same gateway_ok_append by blast
next
  case (register env g can_manage org agent_id url g' p)
  then show ?case using register_same gateway_ok_same by blast
next
  case (delete g can_manage org endpoint_id g')
  then show ?case using delete_relabels by blast
next
  case (environment g' g)
  then show ?case using gateway_ok_same by blast
qed

interpretation gateway_sys: transition_system "\<lambda>g. gw_messages g = [] \<and> gw_deliveries g = []" gateway_step gateway_ok
  by unfold_locales (simp add: gateway_ok_def, rule gateway_step_ok)

lemma gateway_step_appends: "gateway_step g g' \<Longrightarrow> \<exists>ms. gw_messages g' = gw_messages g @ ms"
proof (induction rule: gateway_step.induct)
  case (process env g e creds g' r)
  from process_effect [OF process] show ?case by auto
next
  case (register env g can_manage org agent_id url g' p)
  then show ?case using register_same by fastforce
next
  case (delete g can_manage org endpoint_id g')
  then show ?case using delete_relabels by fastforce
qed simp

lemma gateway_steps_append: "gateway_step\<^sup>*\<^sup>* g g' \<Longrightarrow> \<exists>ms. gw_messages g' = gw_messages g @ ms"
  by (induction rule: rtranclp_induct) (use gateway_step_appends in fastforce)+

text \<open>
  C26. Records are only ever added: whatever happens after, a record is never changed, so that a message
  that is held back stays so, is never delivered, and is answered as pending whoever asks. No two
  records have the same identifier.
\<close>

theorem message_records_final:
  assumes "gw_messages g0 = []" and "gw_deliveries g0 = []" and "gateway_step\<^sup>*\<^sup>* g0 g" and "gateway_step\<^sup>*\<^sup>* g g'"
  shows "(\<exists>ms. gw_messages g' = gw_messages g @ ms) \<and> distinct (map mr_message_id (gw_messages g')) \<and>
    (\<forall>m \<in> set (gw_messages g). mr_status m \<in> {''PENDING'', ''PENDING_APPROVAL'', ''DELIVERED'', ''FAILED''} \<and>
       (mr_status m \<in> {''PENDING'', ''PENDING_APPROVAL''} \<longrightarrow> deliveries_of g' (mr_message_id m) = []) \<and>
       (mr_status m = ''PENDING_APPROVAL'' \<longrightarrow>
          (\<forall>env e creds. en_protocol e = PROTOCOL_VERSION \<and> en_message_id e = mr_message_id m \<and> en_message_id e \<noteq> [] \<longrightarrow>
             process_atp_message env g' e creds =
               (g', Inr ((dispatch_response (mr_message_id m) ''PENDING_APPROVAL'')\<lparr>dr_idempotent := Some True\<rparr>)))))"
proof -
  have ok: "gateway_ok g'" using gateway_sys.inv_reachable [of g0 g'] assms(1,2) rtranclp_trans [OF assms(3,4)] by simp
  obtain ms where ms: "gw_messages g' = gw_messages g @ ms" using gateway_steps_append [OF assms(4)] by blast
  have dist: "distinct (map mr_message_id (gw_messages g'))" using ok by (simp add: gateway_ok_def)
  {
    fix m assume m: "m \<in> set (gw_messages g)"
    then have in': "m \<in> set (gw_messages g')" by (simp add: ms)
    then have "message_state m (deliveries_of g' (mr_message_id m))" using ok by (simp add: gateway_ok_def)
    moreover have "find (\<lambda>q. mr_message_id q = mr_message_id m) (gw_messages g') = Some m"
      using find_distinct_key [OF dist in'] .
    ultimately have "mr_status m \<in> {''PENDING'', ''PENDING_APPROVAL'', ''DELIVERED'', ''FAILED''} \<and>
       (mr_status m \<in> {''PENDING'', ''PENDING_APPROVAL''} \<longrightarrow> deliveries_of g' (mr_message_id m) = []) \<and>
       (mr_status m = ''PENDING_APPROVAL'' \<longrightarrow>
          (\<forall>env e creds. en_protocol e = PROTOCOL_VERSION \<and> en_message_id e = mr_message_id m \<and> en_message_id e \<noteq> [] \<longrightarrow>
             process_atp_message env g' e creds =
               (g', Inr ((dispatch_response (mr_message_id m) ''PENDING_APPROVAL'')\<lparr>dr_idempotent := Some True\<rparr>))))"
      by (auto simp: message_state_def process_atp_message_def known_message_def)
  }
  then show ?thesis using ms dist by blast
qed

text \<open>
  The endpoint of a message is called at most three times: the deliveries of a message are numbered
  from one, every one but the last was to be tried again, and the message counts as delivered exactly
  when its last delivery does.
\<close>

theorem delivery_attempts_bounded:
  assumes "gw_messages g0 = []" and "gw_deliveries g0 = []" and "gateway_step\<^sup>*\<^sup>* g0 g" and "m \<in> set (gw_messages g)"
    and "ds = deliveries_of g (mr_message_id m)"
  shows "length ds \<le> 3 \<and> map md_attempt_count ds = take (length ds) [1, 2, 3] \<and>
    (\<forall>d \<in> set (butlast ds). md_status d = ''RETRYING'') \<and>
    (mr_status m = ''DELIVERED'' \<longleftrightarrow> ds \<noteq> [] \<and> md_status (last ds) = ''DELIVERED'')"
proof -
  have "gateway_ok g" using gateway_sys.inv_reachable [of g0 g] assms by simp
  then have "message_state m ds" using assms(4) unfolding assms(5) by (simp add: gateway_ok_def)
  then show ?thesis by (auto simp: message_state_def attempts_ok_def split: if_splits)
qed

section \<open>Gaps\<close>

text \<open>The tables the checks of a message read, and those among them that say who signed it.\<close>

definition same_parties :: "gateway \<Rightarrow> gateway \<Rightarrow> bool" where
  "same_parties g g' =
     (agents (gw_db g') = agents (gw_db g) \<and> xo_organizations (gw_xorg g') = xo_organizations (gw_xorg g) \<and>
      sg_keys (xo_signing (gw_xorg g')) = sg_keys (xo_signing (gw_xorg g)) \<and> gw_now g' = gw_now g)"

definition same_base :: "gateway \<Rightarrow> gateway \<Rightarrow> bool" where
  "same_base g g' =
     (same_parties g g' \<and> xo_target_policies (gw_xorg g') = xo_target_policies (gw_xorg g) \<and>
      xo_trusts (gw_xorg g') = xo_trusts (gw_xorg g))"

lemma same_parties_resolve:
  "same_parties g g' \<Longrightarrow> resolve_agent_and_org (gw_xorg g') = resolve_agent_and_org (gw_xorg g)"
  by (intro ext resolve_frame) (simp_all add: same_parties_def gw_db_def)

lemma same_base_resolve: "same_base g g' \<Longrightarrow> resolve_agent_and_org (gw_xorg g') = resolve_agent_and_org (gw_xorg g)"
  by (simp add: same_base_def same_parties_resolve)

lemma verify_frame:
  assumes "same_parties g g'"
  shows "verify_message env g' e = verify_message env g e"
proof -
  have now: "gw_now g' = gw_now g" and keys: "sg_keys (xo_signing (gw_xorg g')) = sg_keys (xo_signing (gw_xorg g))"
    using assms by (simp_all add: same_parties_def)
  have "gateway_key g' = gateway_key g" by (intro ext) (unfold gateway_key_def now keys, rule refl)
  then show ?thesis by (simp add: verify_message_def now same_parties_resolve [OF assms])
qed

lemma check_presented_frame:
  assumes "same_base g g'"
  shows "check_presented env g' v capability [] = check_presented env g v capability []"
proof -
  have pol: "xo_target_policies (gw_xorg g') = xo_target_policies (gw_xorg g)" using assms by (simp add: same_base_def)
  show ?thesis unfolding check_presented_def same_base_resolve [OF assms] pol check_credentials.simps(1) by (rule refl)
qed

lemma check_trust_frame:
  assumes "same_base g g'"
  shows "check_trust g' v = check_trust g v"
proof -
  have tr: "xo_trusts (gw_xorg g') = xo_trusts (gw_xorg g)" using assms by (simp add: same_base_def)
  show ?thesis unfolding check_trust_def same_base_resolve [OF assms] find_pair_def tr by (rule refl)
qed

lemma stage_message_again:
  assumes "stage_message g e v = Inr (g2, m, None)" "same_base g g'" "e' = e\<lparr>en_message_id := mid, en_nonce := nonce\<rparr>"
    "\<forall>q \<in> set (gw_messages g'). mr_message_id q \<noteq> mid"
  shows "\<exists>g2 m. stage_message g' e' v = Inr (g2, m, None) \<and> mr_message_id m = mid"
proof -
  have new: "list_ex (\<lambda>q. mr_message_id q = mid) (gw_messages g') = False" using assms(4) by (simp add: list_ex_iff)
  have "\<exists>g2 m. stage_message g' e' v = Inr (g2, m, None)"
    using assms(1) unfolding stage_message_def same_base_resolve [OF assms(2)]
    by (auto simp: rbind_Inr_iff Let_def fresh_def assms(3) new split: sum.splits if_splits prod.splits)
  then show ?thesis using stage_message_Inr(2) by (fastforce simp: assms(3))
qed

lemma active_endpoint_frame:
  assumes "same_parties g g'" "gw_endpoints g' = gw_endpoints g"
  shows "active_endpoint g' v = active_endpoint g v"
  unfolding active_endpoint_def same_parties_resolve [OF assms(1)] assms(2) by (rule refl)

lemma address_of_identified:
  assumes "given_text (st_organization_id p)" "given_text (st_agent_id p)" "parse_agent_address (PStr a) = Inr ids" "a \<noteq> []"
  shows "address_of code (p\<lparr>st_address := Some a\<rparr>) = Inr (a, the (st_organization_id p), the (st_agent_id p))"
  using assms by (cases ids) (auto simp: address_of_def given_text_def text_or_def split: option.splits)

lemma address_of_given:
  assumes "address_of code p = Inr (a, o1, i)" "given_text (st_organization_id p)" "given_text (st_agent_id p)"
  shows "o1 = the (st_organization_id p) \<and> i = the (st_agent_id p)"
  using assms by (auto simp: address_of_def given_text_def text_or_def split: option.splits if_splits sum.splits)

text \<open>
  The address of the source is not signed. Where the message also gives the organization and the
  agent, these two decide who signed it, and the address may be any other, of any agent: the message
  still verifies, and that address is what the gateway attests and names to the target.
\<close>

theorem gateway_attests_unverified_source:
  assumes "verify_message env g e = Inr v" and "given_text (st_organization_id (en_source e))"
    and "given_text (st_agent_id (en_source e))" and "parse_agent_address (PStr a) = Inr ids"
    and "e' = e\<lparr>en_source := (en_source e)\<lparr>st_address := Some a\<rparr>\<rparr>"
  shows "verify_message env g e' = Inr (v\<lparr>vm_source_address := a\<rparr>) \<and>
    (\<forall>g1 g2 m hold token. stage_message g1 e' (v\<lparr>vm_source_address := a\<rparr>) = Inr (g2, m, hold) \<longrightarrow>
       (''X-ATP-Source'', a) \<in> set (outbound_headers m token) \<and>
       message_attestation env t m = create_gateway_attestation (ge_crypto env) (t div seconds 1)
         \<lparr>at_source_address = a, at_target_address = vm_target_address v, at_capability = en_capability e,
          at_message_id = en_message_id e, at_payload_sha256 = vm_payload_sha256 v\<rparr> 60 [])"
proof
  have a: "a \<noteq> []" using assms(4) by (auto simp: parse_agent_address_def)
  obtain sa so si where src: "address_of ''INVALID_SOURCE'' (en_source e) = Inr (sa, so, si)"
    using assms(1) by (auto simp: verify_message_def rbind_Inr_iff)
  note ids = address_of_given [OF src assms(2,3)]
  have src': "address_of ''INVALID_SOURCE'' (en_source e') = Inr (a, so, si)"
    using address_of_identified [OF assms(2,3,4) a] ids by (simp add: assms(5))
  have e': "check_fields e' = check_fields e" "message_digest env e' = message_digest env e"
    "message_text e' = message_text e" "en_target e' = en_target e" "en_signature e' = en_signature e"
    "en_timestamp e' = en_timestamp e"
    by (simp_all add: assms(5) check_fields_def message_digest_def message_text_def fun_eq_iff)
  show "verify_message env g e' = Inr (v\<lparr>vm_source_address := a\<rparr>)"
    using assms(1) by (auto simp: verify_message_def src src' e' rbind_Inr_iff split: if_splits)
  show "\<forall>g1 g2 m hold token. stage_message g1 e' (v\<lparr>vm_source_address := a\<rparr>) = Inr (g2, m, hold) \<longrightarrow>
       (''X-ATP-Source'', a) \<in> set (outbound_headers m token) \<and>
       message_attestation env t m = create_gateway_attestation (ge_crypto env) (t div seconds 1)
         \<lparr>at_source_address = a, at_target_address = vm_target_address v, at_capability = en_capability e,
          at_message_id = en_message_id e, at_payload_sha256 = vm_payload_sha256 v\<rparr> 60 []"
    using stage_message_Inr(2,4-7) by (fastforce simp: outbound_headers_def message_attestation_def assms(5))
qed


text \<open>
  Whether an attempt to deliver succeeds depends on what the network answers, not on the identifier of
  the message, when the network does not look at what it is sent.
\<close>

definition answers_alike :: "gateway_env \<Rightarrow> bool" where
  "answers_alike env = (\<forall>n url body headers body' headers'. ge_post env n url body headers = ge_post env n url body' headers')"

lemma dispatch_attempts_alike:
  "isl (snd (dispatch_attempts post ep mid ns err g)) = isl (snd (dispatch_attempts post ep mid' ns err' g'))"
proof (induction post ep mid ns err g arbitrary: err' g' rule: dispatch_attempts.induct)
  case (2 post ep mid n ns err g)
  show ?case
  proof (cases "post n")
    case (RequestError x)
    show ?thesis
      using 2(1) [OF refl refl RequestError refl]
      by (simp add: RequestError Let_def split del: if_split)
  next
    case (Response code t body)
    show ?thesis
    proof (cases "code \<in> {502, 503, 504} \<and> n \<le> MAX_RETRIES")
      case True
      then show ?thesis using 2(2) [OF refl refl Response True] by (simp add: Response Let_def)
    next
      case False
      then show ?thesis by (auto simp: Response Let_def)
    qed
  qed
qed simp

lemma mock_answers_alike:
  "isl (execute_sandbox_mock_agent env now target capability payload source mid) =
   isl (execute_sandbox_mock_agent env now' target capability payload' source mid')"
  by (auto simp: execute_sandbox_mock_agent_def Let_def split: option.splits sum.splits)

lemma route_alike:
  assumes "answers_alike env" "mr_target_address m' = mr_target_address m" "mr_source_address m' = mr_source_address m"
    "mr_capability m' = mr_capability m"
  shows "isl (snd (route_atp_message env g' m' ep)) = isl (snd (route_atp_message env g m ep))"
proof (cases "is_sandbox_mock_agent (mr_target_address m) \<or> (case ep of Some e \<Rightarrow> ep_status e = ''MOCK'' | None \<Rightarrow> False)")
  case True
  then show ?thesis
    using mock_answers_alike [of env "gw_now g'" "mr_target_address m" "mr_capability m" "mr_payload_summary m'" "mr_source_address m"
        "mr_message_id m'" "gw_now g" "mr_payload_summary m" "mr_message_id m"]
    by (auto simp: route_atp_message_def Let_def assms(2-4) split: sum.splits)
next
  case not_mock: False
  show ?thesis
  proof (cases ep)
    case None
    with not_mock show ?thesis by (simp add: route_atp_message_def assms(2))
  next
    case (Some e)
    have post: "(\<lambda>n. ge_post env n url b' h') = (\<lambda>n. ge_post env n url b h)" for url b h b' h'
      using assms(1) unfolding answers_alike_def by blast
    show ?thesis
    proof (cases "resolve_and_validate_endpoint_url (ge_resolve env) (ep_endpoint_url e) (ge_allow_private_ips env) (ge_enforce_https env)")
      case (Inl x)
      with not_mock Some show ?thesis by (simp add: route_atp_message_def assms(2) Let_def split: ssrf_error.splits)
    next
      case (Inr x)
      let ?o = "\<lambda>g m. dispatch_attempts (\<lambda>n. ge_post env n (ep_endpoint_url e) (outbound_body m (message_attestation env (gw_now g) m))
          (outbound_headers m (message_attestation env (gw_now g) m))) (ep_id e) (mr_message_id m) [1..<MAX_RETRIES + 2] ''None''
          (update_message g (mr_message_id m) (\<lambda>r. r\<lparr>mr_attestation_id := Some (take 64 (message_attestation env (gw_now g) m))\<rparr>))"
      have "route_atp_message env g' m' ep = ?o g' m'" "route_atp_message env g m ep = ?o g m"
        using not_mock Some Inr by (auto simp: route_atp_message_def assms(2) Let_def simp del: upt_Suc)
      moreover have "isl (snd (?o g' m')) = isl (snd (?o g m))"
        unfolding post [of _ "outbound_body m' _" "outbound_headers m' _" "outbound_body m (message_attestation env (gw_now g) m)"
          "outbound_headers m (message_attestation env (gw_now g) m)"]
        by (rule dispatch_attempts_alike)
      ultimately show ?thesis by simp
    qed
  qed
qed

lemma deliver_alike:
  assumes "deliver_message env g v m = (h, Inr r)" "active_endpoint g' v = active_endpoint g v" "answers_alike env"
    "mr_target_address m' = mr_target_address m" "mr_source_address m' = mr_source_address m" "mr_capability m' = mr_capability m"
  shows "\<exists>h' r'. deliver_message env g' v m' = (h', Inr r')"
proof -
  obtain ep where ep: "active_endpoint g v = Inr ep" using assms(1) by (auto simp: deliver_message_def split: sum.splits)
  have "\<not> isl (snd (route_atp_message env g m ep))"
    using assms(1) ep by (auto simp: deliver_message_def split: sum.splits prod.splits gateway_error.splits)
  then have "\<not> isl (snd (route_atp_message env g' m' ep))" using route_alike [OF assms(3-6)] by blast
  then obtain h' x where "route_atp_message env g' m' ep = (h', Inr x)" by (metis sum.disc(1) sumE prod.collapse)
  then show ?thesis by (simp add: deliver_message_def assms(2) ep)
qed

text \<open>
  A copy of a delivered message, with blanks around its identifier and its nonce, passes every check
  once more and reaches the same endpoint.
\<close>

lemma replay_reaches_delivery:
  assumes v: "verify_message env g e = Inr v" and acc: "accept_gateway_nonce env g (sg_key_id (en_signature e)) (en_nonce e) = Inr g1"
    and checks: "check_presented env g1 v (en_capability e) [] = Inr ()" "check_trust g1 v = Inr ()"
    and stage: "stage_message g1 e v = Inr (g2, m, None)" and sent: "deliver_message env g2 v m = (g', Inr r)"
    and prot: "en_protocol e = PROTOCOL_VERSION" and e': "e' = e\<lparr>en_message_id := mid, en_nonce := nonce\<rparr>"
    and mid: "py_strip mid = py_strip (en_message_id e)" "mid \<noteq> en_message_id e" "mid \<noteq> []" "\<forall>q \<in> set (gw_messages g). mr_message_id q \<noteq> mid"
    and nonce: "py_strip nonce = py_strip (en_nonce e)" "nonce \<noteq> []" "list_all (\<lambda>c. (of_char c :: nat) < 128) nonce"
      "sha256_hex (ge_crypto env) nonce \<noteq> sha256_hex (ge_crypto env) (en_nonce e)"
      "\<forall>n \<in> set (gateway_nonces g). \<not> (an_key_id n = sg_key_id (en_signature e) \<and> an_nonce_hash n = sha256_hex (ge_crypto env) nonce)"
  shows "verify_message env g' e' = Inr v \<and> (\<exists>h1 h2 m'. accept_gateway_nonce env g' (sg_key_id (en_signature e)) nonce = Inr h1 \<and>
    stage_message h1 e' v = Inr (h2, m', None) \<and> dispatch_atp_message env g' e' = deliver_message env h2 v m' \<and>
    active_endpoint h2 v = active_endpoint g2 v)"
proof -
  have g1: "g1 = with_nonces g (gateway_nonces g @ [\<lparr>an_key_id = sg_key_id (en_signature e),
       an_nonce_hash = sha256_hex (ge_crypto env) (en_nonce e), an_expires_at = gw_now g + seconds 300\<rparr>])"
    using acc by (simp add: accept_gateway_nonce_Inr)
  from delivered_effect [OF acc stage sent] obtain q where q: "gw_messages g' = gw_messages g @ [q]"
    "mr_message_id q = en_message_id e" "gateway_nonces g' = gateway_nonces g1" "gw_endpoints g' = gw_endpoints g" by auto
  have x: "gw_xorg g' = gw_xorg g2" using deliver_message_routing [OF sent] by (auto simp: routing_def)
  have base: "same_base g1 g'"
    using stage_source [OF stage] x by (auto simp: same_base_def same_parties_def gw_now_def gw_db_def with_db_def xo_db_def)
  have parties: "same_parties g g'" using base by (simp add: same_base_def same_parties_def g1)
  let ?h1 = "with_nonces g' (gateway_nonces g' @ [\<lparr>an_key_id = sg_key_id (en_signature e),
       an_nonce_hash = sha256_hex (ge_crypto env) nonce, an_expires_at = gw_now g' + seconds 300\<rparr>])"
  have base': "same_base g1 ?h1" using base by (simp add: same_base_def same_parties_def)
  have acc': "accept_gateway_nonce env g' (sg_key_id (en_signature e)) nonce = Inr ?h1"
    using nonce(3-5) by (auto simp: accept_gateway_nonce_Inr q(3) g1)
  have "en_nonce e \<noteq> []" using v by (auto simp: verify_message_def rbind_Inr_iff check_fields_def split: if_splits)
  then have same: "check_fields e' = check_fields e" "message_digest env e' = message_digest env e" "message_text e' = message_text e"
      "en_source e' = en_source e" "en_target e' = en_target e" "en_signature e' = en_signature e" "en_timestamp e' = en_timestamp e"
      "en_capability e' = en_capability e" "en_protocol e' = en_protocol e" "en_message_id e' = mid" "en_nonce e' = nonce"
    using mid(1) nonce(1,2)
    by (simp_all add: e' check_fields_def message_digest_def message_text_def build_canonical_request_ascii_def fun_eq_iff)
  have v': "verify_message env g' e' = Inr v"
    using v unfolding verify_frame [OF parties] by (simp add: verify_message_def same)
  from stage_message_again [OF stage base' e'] mid(2,4) q(1,2) obtain h2 m' where st: "stage_message ?h1 e' v = Inr (h2, m', None)" by auto
  have "find (\<lambda>m. mr_message_id m = mid) (gw_messages g') = None" using mid(2,4) q(1,2) by (auto simp: find_None)
  then have "known_message g' mid = None" by (simp add: known_message_def)
  then have "dispatch_atp_message env g' e' = deliver_message env h2 v m'"
    using checks acc' st
    by (simp add: dispatch_atp_message_def process_atp_message_def same prot mid(3) v' handle_verified_def
        check_presented_frame [OF base'] check_trust_frame [OF base'])
  moreover have "active_endpoint h2 v = active_endpoint g2 v"
  proof (rule active_endpoint_frame)
    have "same_parties g2 g'" by (simp add: same_parties_def gw_now_def gw_db_def x)
    moreover from stage_source [OF st] have "same_parties g' h2"
      by (auto simp: same_parties_def gw_now_def gw_db_def with_db_def xo_db_def with_nonces_def)
    ultimately show "same_parties g2 h2" by (simp add: same_parties_def)
    show "gw_endpoints h2 = gw_endpoints g2"
      using stage_source [OF st] stage_source [OF stage] q(4) by (auto simp: g1)
  qed
  ultimately show ?thesis using v' acc' st by blast
qed

text \<open>
  C40. Blanks around the identifier and the nonce are not signed, but count for the checks against
  repetition: a message that was delivered is delivered once more, without a new signature, when its
  identifier and its nonce get blanks. The repetition passes the same verification, is answered as a
  first delivery, and adds a second record with the same content and a second successful delivery, if
  the network answers it as it answered the first.
\<close>

theorem gateway_replay_by_padding:
  assumes "dispatch_atp_message env g e = (g', Inr r)" and "dr_status r = ''DELIVERED''" and "dr_idempotent r = None"
    and "e' = e\<lparr>en_message_id := mid, en_nonce := nonce\<rparr>"
    and "py_strip mid = py_strip (en_message_id e)" and "mid \<noteq> en_message_id e" and "mid \<noteq> []"
    and "\<forall>q \<in> set (gw_messages g). mr_message_id q \<noteq> mid"
    and "py_strip nonce = py_strip (en_nonce e)" and "nonce \<noteq> []" and "list_all (\<lambda>c. (of_char c :: nat) < 128) nonce"
    and "sha256_hex (ge_crypto env) nonce \<noteq> sha256_hex (ge_crypto env) (en_nonce e)"
    and "\<forall>n \<in> set (gateway_nonces g). \<not> (an_key_id n = sg_key_id (en_signature e) \<and>
           an_nonce_hash n = sha256_hex (ge_crypto env) nonce)"
    and "answers_alike env"
  shows "\<exists>v g'' r' q ds. verify_message env g e = Inr v \<and> verify_message env g' e' = Inr v \<and> en_signature e' = en_signature e \<and>
    dispatch_atp_message env g' e' = (g'', Inr r') \<and> dr_status r' = ''DELIVERED'' \<and> dr_idempotent r' = None \<and>
    dr_message_id r' = mid \<and> gw_messages g'' = gw_messages g' @ [q] \<and> mr_message_id q = mid \<and> mr_status q = ''DELIVERED'' \<and>
    mr_source_agent_id q = ag_id (vm_agent v) \<and> mr_capability q = en_capability e \<and>
    mr_payload_summary q = (case en_payload e of PDict p \<Rightarrow> p | x \<Rightarrow> [(''data'', x)]) \<and>
    gw_deliveries g'' = gw_deliveries g' @ ds \<and> ds \<noteq> [] \<and> md_status (last ds) = ''DELIVERED'' \<and>
    (\<forall>d \<in> set ds. md_message_id d = mid)"
proof -
  have "process_atp_message env g e [] = (g', Inr r)" using assms(1) by (simp add: dispatch_atp_message_def)
  then show ?thesis
  proof (cases rule: process_cases)
    case same
    with assms(2,3) show ?thesis
      by (auto simp: known_message_def bind_eq_Some_conv dispatch_response_def split: if_splits)
  next
    case (event v g1 ev)
    then show ?thesis by simp
  next
    case (held v g1 m reason)
    with assms(2) show ?thesis by (simp add: held_response_def dispatch_response_def)
  next
    case (sent v g1 g2 m)
    have prot: "en_protocol e = PROTOCOL_VERSION"
      using assms(1) by (auto simp: dispatch_atp_message_def process_atp_message_def split: if_splits)
    from replay_reaches_delivery [OF sent(2-7) prot assms(4-13)]
    obtain h1 h2 m' where v: "verify_message env g' e' = Inr v" and acc: "accept_gateway_nonce env g' (sg_key_id (en_signature e)) nonce = Inr h1"
      and st: "stage_message h1 e' v = Inr (h2, m', None)" and again: "dispatch_atp_message env g' e' = deliver_message env h2 v m'"
      and ep: "active_endpoint h2 v = active_endpoint g2 v" by blast
    have same: "en_signature e' = en_signature e" "en_capability e' = en_capability e" "en_message_id e' = mid" "en_payload e' = en_payload e"
      by (simp_all add: assms(4))
    from deliver_alike [OF sent(7) ep assms(14), of m'] stage_message_Inr(4-6) [OF sent(6)] stage_message_Inr(4-6) [OF st]
    obtain g'' r' where dm: "deliver_message env h2 v m' = (g'', Inr r')" by (auto simp: same)
    have answer: "dr_status r' = ''DELIVERED''" "dr_idempotent r' = None" "dr_message_id r' = mid"
      using deliver_message_Inr [OF dm] stage_message_Inr(2) [OF st] by (simp_all add: same)
    from delivered_effect [OF acc st dm] obtain q ds where q: "gw_messages g'' = gw_messages g' @ [q]"
      "gw_deliveries g'' = gw_deliveries g' @ ds" "mr_message_id q = mid" "mr_source_agent_id q = ag_id (vm_agent v)"
      "mr_capability q = en_capability e" "mr_payload_summary q = (case en_payload e of PDict p \<Rightarrow> p | x \<Rightarrow> [(''data'', x)])"
      "attempts_ok mid [1, 2, 3] ds True" "mr_status q = ''DELIVERED''" by (auto simp: same)
    have ds: "ds \<noteq> []" "md_status (last ds) = ''DELIVERED''" "\<forall>d \<in> set ds. md_message_id d = mid"
      using q(7) by (simp_all add: attempts_ok_def)
    show ?thesis
      by (intro exI conjI) (rule sent(2) v same(1) answer q again [unfolded dm] ds)+
  qed
qed

text \<open>
  Three rules of the gateway fall short. A target that requires credentials is never reached through
  the HTTP interface, which drops the credentials of a message. A capability whose name carries its
  version, as the registered ones do, is never held back as an administrative or deleting one. A
  relationship past its expiry still counts as trust, which cross-organization authorization denies.
\<close>

theorem gateway_policy_gaps:
  "(\<forall>env g e v dst p a. verify_message env g e = Inr v \<and>
      resolve_agent_and_org (gw_xorg g) (vm_target_org_id v) (vm_target_agent_id v) = Inr (Some dst, a) \<and>
      find (\<lambda>p. gp_organization_id p = or_id dst) (xo_target_policies (gw_xorg g)) = Some p \<and>
      gp_required_credential_types p \<noteq> [] \<and> known_message g (en_message_id e) = None \<longrightarrow>
      (\<exists>x. dispatch_atp_message env g e = (g, Inl x))) \<and>
   (\<forall>payload capability amount. payload_amount payload = Inr amount \<and> \<not> float_lt (FNum 5000) amount \<longrightarrow>
      hold_reason payload (capability @ ''@1.0'') = Inr None) \<and>
   (\<forall>g v src dst a t. vm_org v = Some src \<and>
      resolve_agent_and_org (gw_xorg g) (vm_target_org_id v) (vm_target_agent_id v) = Inr (Some dst, a) \<and>
      find_pair (gw_xorg g) (or_id src) (or_id dst) = Some t \<and> ot_status t = TS_ACTIVE \<and>
      (\<exists>e. ot_expires_at t = Some e \<and> e \<le> gw_now g) \<longrightarrow>
      check_trust g v = Inr () \<and> trust_denied (gw_now g) t = Some ''TRUST_EXPIRED: Trust relationship has expired'')"
proof (intro conjI allI impI)
  fix env g e v dst p a
  assume *: "verify_message env g e = Inr v \<and>
      resolve_agent_and_org (gw_xorg g) (vm_target_org_id v) (vm_target_agent_id v) = Inr (Some dst, a) \<and>
      find (\<lambda>p. gp_organization_id p = or_id dst) (xo_target_policies (gw_xorg g)) = Some p \<and>
      gp_required_credential_types p \<noteq> [] \<and> known_message g (en_message_id e) = None"
  have "\<not> list_all (has_type []) (gp_required_credential_types p)"
    using * by (cases "gp_required_credential_types p") (auto simp: has_type_def)
  moreover have "resolve_agent_and_org (gw_xorg (with_nonces g ns)) = resolve_agent_and_org (gw_xorg g)" for ns
    by (rule same_parties_resolve) (simp add: same_parties_def)
  ultimately have "check_presented env (with_nonces g ns) v (en_capability e) [] =
      Inl (None, GatewayPipelineError ''REQUIRED_CREDENTIAL_MISSING'' 403)" for ns
    using * by (simp add: check_presented_def)
  note refused = this
  have "\<exists>x. handle_verified env g e [] v = (g, Inl x)"
  proof (cases "accept_gateway_nonce env g (sg_key_id (en_signature e)) (en_nonce e)")
    case (Inr g1)
    then obtain ns where "g1 = with_nonces g ns" by (auto simp: accept_gateway_nonce_Inr)
    with Inr refused show ?thesis by (simp add: handle_verified_def)
  qed (simp add: handle_verified_def)
  then show "\<exists>x. dispatch_atp_message env g e = (g, Inl x)"
    using * by (auto simp: dispatch_atp_message_def process_atp_message_def)
next
  fix payload capability amount
  assume "payload_amount payload = Inr amount \<and> \<not> float_lt (FNum 5000) amount"
  moreover have "\<not> py_endswith (capability @ ''@1.0'') ''.admin''" "\<not> py_endswith (capability @ ''@1.0'') ''.delete''"
    by (simp_all add: py_endswith_def)
  ultimately show "hold_reason payload (capability @ ''@1.0'') = Inr None" by (simp add: hold_reason_def)
next
  fix g :: gateway and v :: verified_message and src dst a t
  assume "vm_org v = Some src \<and>
      resolve_agent_and_org (gw_xorg g) (vm_target_org_id v) (vm_target_agent_id v) = Inr (Some dst, a) \<and>
      find_pair (gw_xorg g) (or_id src) (or_id dst) = Some t \<and> ot_status t = TS_ACTIVE \<and>
      (\<exists>e. ot_expires_at t = Some e \<and> e \<le> gw_now g)"
  then show "check_trust g v = Inr ()" by (auto simp: check_trust_def)
next
  fix g :: gateway and v :: verified_message and src dst a t
  assume "vm_org v = Some src \<and>
      resolve_agent_and_org (gw_xorg g) (vm_target_org_id v) (vm_target_agent_id v) = Inr (Some dst, a) \<and>
      find_pair (gw_xorg g) (or_id src) (or_id dst) = Some t \<and> ot_status t = TS_ACTIVE \<and>
      (\<exists>e. ot_expires_at t = Some e \<and> e \<le> gw_now g)"
  then show "trust_denied (gw_now g) t = Some ''TRUST_EXPIRED: Trust relationship has expired''" by (auto simp: trust_denied_def)
qed


section \<open>Instances\<close>

definition demo_env :: gateway_env where
  "demo_env = \<lparr>ge_crypto = demo_gateway_crypto\<lparr>fromisoformat := \<lambda>s. if s = ''t'' then Some 0 else None\<rparr>,
     ge_resolve = (\<lambda>h p. Some [''93.184.216.34'']),
     ge_post = (\<lambda>n url body headers. if n = 1 then RequestError ''timeout'' else Response 200 '''' (Some (PDict [(''payload'', PInt 1)]))),
     ge_uuid_hex = (\<lambda>n. ''0''), ge_mock_sign = (\<lambda>k m. m), ge_allow_private_ips = False, ge_enforce_https = True\<rparr>"

definition demo_gateway :: gateway where
  "demo_gateway = \<lparr>gw_xorg = demo_xorg, gw_issuers = [], gw_issuer_keys = [],
     gw_endpoints = [\<lparr>ep_id = 80, ep_organization_id = 8, ep_agent_id = 30, ep_endpoint_url = ''https://hook.example/in'',
       ep_status = ''VERIFIED''\<rparr>], gw_messages = [], gw_deliveries = []\<rparr>"

definition demo_party :: "string \<Rightarrow> string \<Rightarrow> ATPSourceTarget" where
  "demo_party org agent = \<lparr>st_organization_id = Some org, st_agent_id = Some agent, st_address = None\<rparr>"

definition demo_message :: ATPMessageEnvelope where
  "demo_message = \<lparr>en_protocol = PROTOCOL_VERSION, en_message_id = ''m1'', en_message_type = ''request'',
     en_source = demo_party ''Acme'' ''agt_buyer'', en_target = demo_party ''Inn'' ''agt_hotel'', en_capability = ''rooms'',
     en_timestamp = ''t'', en_nonce = ''n1'', en_payload = PDict [(''amount'', PFloat (FNum 400))], en_payload_sha256 = None,
     en_signature = \<lparr>sg_version = SIGNING_VERSION, sg_key_id = sk_key_id demo_key, sg_value = ''s''\<rparr>\<rparr>"

definition demo_delivery :: "gateway \<times> (gateway_error + ATPGatewayDispatchResponse)" where
  "demo_delivery = process_atp_message demo_env demo_gateway demo_message []"

lemma demo_strips: "py_strip ''Acme'' = ''Acme''" "py_strip ''Inn'' = ''Inn''" "py_strip ''agt_buyer'' = ''agt_buyer''"
  "py_strip ''agt_hotel'' = ''agt_hotel''" "py_strip ''atp://Inn/agt_hotel'' = ''atp://Inn/agt_hotel''"
  by code_simp+

lemma demo_addressed:
  "address_of ''INVALID_SOURCE'' (demo_party ''Acme'' ''agt_buyer'') = Inr (''atp://Acme/agt_buyer'', ''Acme'', ''agt_buyer'')"
  "address_of ''INVALID_TARGET'' (demo_party ''Inn'' ''agt_hotel'') = Inr (''atp://Inn/agt_hotel'', ''Inn'', ''agt_hotel'')"
  "is_sandbox_mock_agent ''atp://Inn/agt_hotel'' = False"
  by (simp_all add: address_of_def demo_party_def given_text_def format_agent_address_def demo_strips is_sandbox_mock_agent_def MOCK_AGENTS_def)

lemma demo_gateway_values: "gw_xorg demo_gateway = demo_xorg" "gw_now demo_gateway = 0" "gateway_nonces demo_gateway = []"
  "gw_messages demo_gateway = []" "gw_deliveries demo_gateway = []" "xo_target_policies demo_xorg = []"
  "gw_endpoints demo_gateway = [\<lparr>ep_id = 80, ep_organization_id = 8, ep_agent_id = 30, ep_endpoint_url = ''https://hook.example/in'',
       ep_status = ''VERIFIED''\<rparr>]" "xo_trusts demo_xorg = [demo_trust_row]"
  by (simp_all add: demo_gateway_def gw_now_def gw_db_def gateway_nonces_def demo_signing_values xo_db_def)
     (simp_all add: demo_xorg_def demo_signing_def demo_db_def empty_db_def)

lemma demo_held: "hold_reason (PDict [(''amount'', PFloat (FNum 400))]) ''rooms'' = Inr None"
  by (simp add: hold_reason_def payload_amount_def py_or_def dict_get_def py_endswith_def)

lemma demo_resolved:
  "resolve_agent_and_org demo_xorg org ''agt_buyer'' = Inr (Some \<lparr>or_id = 7, or_name = ''Acme'', or_is_active = True\<rparr>, Some (demo_agent 10 ''buyer''))"
  "resolve_agent_and_org demo_xorg org ''agt_hotel'' = Inr (Some \<lparr>or_id = 8, or_name = ''Inn'', or_is_active = True\<rparr>, Some demo_target)"
  by (simp_all add: resolve_agent_and_org_def lookup_agent_def lookup_organization_def demo_uuids demo_xorg_defs)

lemma demo_times: "parse_timestamp_iso (demo_gateway_crypto\<lparr>fromisoformat := \<lambda>s. if s = ''t'' then Some 0 else None\<rparr>) ''t'' = Inr 0"
  by code_simp

definition demo_verified :: verified_message where
  "demo_verified = \<lparr>vm_source_address = ''atp://Acme/agt_buyer'', vm_target_address = ''atp://Inn/agt_hotel'', vm_target_org_id = ''Inn'',
     vm_target_agent_id = ''agt_hotel'', vm_agent = demo_agent 10 ''buyer'',
     vm_org = Some \<lparr>or_id = 7, or_name = ''Acme'', or_is_active = True\<rparr>,
     vm_payload_sha256 = compute_payload_sha256 (sha256_hex (ge_crypto demo_env)) (json_loads (ge_crypto demo_env))
        (PDict [(''amount'', PFloat (FNum 400))])\<rparr>"

lemma demo_verifies: "verify_message demo_env demo_gateway demo_message = Inr demo_verified"
proof -
  have "active_source (Some (demo_agent 10 ''buyer'')) = Inr (demo_agent 10 ''buyer'')" by (simp add: active_source_def demo_agent_def)
  moreover have "within_window demo_env 0 ''t'' = Inr ()"
    by (simp add: within_window_def demo_env_def demo_times seconds_def)
  moreover have "gateway_key demo_gateway (demo_agent 10 ''buyer'') (sk_key_id demo_key) = Inr demo_key"
    by (simp add: gateway_key_def demo_gateway_values demo_signing_values demo_key_values demo_agent_def)
  moreover have "atp_signature_valid (ge_crypto demo_env) demo_key ''s'' msg" for msg
    by (simp add: atp_signature_valid_def demo_env_def demo_gateway_crypto_def)
  ultimately show ?thesis
    by (simp add: verify_message_def demo_message_def check_fields_def demo_addressed check_signature_fields_def demo_resolved
        message_digest_def Let_def given_text_def demo_verified_def demo_gateway_values) (simp add: demo_key_def)
qed

lemma demo_delivered:
  "\<exists>g' r m. process_atp_message demo_env demo_gateway demo_message [] = (g', Inr r) \<and> dr_status r = ''DELIVERED'' \<and>
     dr_idempotent r = None \<and> gw_messages g' = [m] \<and> mr_status m = ''DELIVERED'' \<and> mr_message_id m = ''m1''"
proof -
  let ?g1 = "with_nonces demo_gateway [\<lparr>an_key_id = sk_key_id demo_key, an_nonce_hash = ''n1'', an_expires_at = seconds 300\<rparr>]"
  have acc: "accept_gateway_nonce demo_env demo_gateway (sk_key_id demo_key) ''n1'' = Inr ?g1"
    by (simp add: accept_gateway_nonce_Inr demo_gateway_values demo_env_def demo_gateway_crypto_def)
  have res: "resolve_agent_and_org (gw_xorg ?g1) o1 a = resolve_agent_and_org demo_xorg o1 a" for o1 a
    by (rule resolve_frame) (simp_all add: demo_gateway_values)
  have cp: "check_presented demo_env ?g1 demo_verified ''rooms'' [] = Inr ()"
    by (simp add: check_presented_def res demo_verified_def demo_resolved demo_gateway_values)
  have ct: "check_trust ?g1 demo_verified = Inr ()"
    by (simp add: check_trust_def res demo_verified_def demo_addressed demo_resolved find_pair_def demo_gateway_values demo_trust_row_def)
  obtain g2 m where st: "stage_message ?g1 demo_message demo_verified = Inr (g2, m, None)"
    by (simp add: stage_message_def res demo_verified_def demo_addressed demo_resolved demo_message_def demo_held Let_def
        fresh_def demo_gateway_values)
  let ?ep = "\<lparr>ep_id = 80, ep_organization_id = 8, ep_agent_id = 30, ep_endpoint_url = ''https://hook.example/in'', ep_status = ''VERIFIED''\<rparr>"
  have "active_endpoint g2 demo_verified = Inr (Some ?ep)"
  proof -
    obtain row d where g2: "g2 = ?g1\<lparr>gw_xorg := with_db (gw_xorg ?g1) d, gw_messages := gw_messages ?g1 @ [row]\<rparr>"
      "d = (gw_db ?g1)\<lparr>next_id := Suc (next_id (gw_db ?g1))\<rparr>" using stage_source [OF st] by auto
    have "resolve_agent_and_org (gw_xorg g2) o1 a = resolve_agent_and_org demo_xorg o1 a" for o1 a
      by (rule resolve_frame) (simp_all add: g2 gw_db_def demo_gateway_values)
    then show ?thesis
      by (simp add: active_endpoint_def demo_verified_def demo_addressed demo_resolved g2 demo_gateway_values demo_target_def
          demo_agent_def one_or_none_def)
  qed
  moreover have "resolve_and_validate_endpoint_url (ge_resolve demo_env) ''https://hook.example/in'' (ge_allow_private_ips demo_env)
      (ge_enforce_https demo_env) = Inr (''https://hook.example/in'', [IPv4Address 0x5DB8D822])"
    using demo_endpoint by (simp add: demo_env_def)
  moreover have "mr_target_address m = ''atp://Inn/agt_hotel''"
    using stage_message_Inr(5) [OF st] by (simp add: demo_verified_def)
  moreover have "ge_post demo_env n u b h = (if n = 1 then RequestError ''timeout'' else Response 200 [] (Some (PDict [(''payload'', PInt 1)])))"
    for n u b h by (simp add: demo_env_def)
  ultimately have "\<exists>g' r. deliver_message demo_env g2 demo_verified m = (g', Inr r)"
    by (simp add: deliver_message_def route_atp_message_def demo_addressed Let_def MAX_RETRIES_def upt_rec)
  then obtain g' r where dm: "deliver_message demo_env g2 demo_verified m = (g', Inr r)" by blast
  have e: "en_message_id demo_message = ''m1''" "en_protocol demo_message = PROTOCOL_VERSION" "en_nonce demo_message = ''n1''"
    "sg_key_id (en_signature demo_message) = sk_key_id demo_key" "en_capability demo_message = ''rooms''"
    by (simp_all add: demo_message_def)
  have "process_atp_message demo_env demo_gateway demo_message [] = (g', Inr r)"
    by (simp add: process_atp_message_def e known_message_def demo_gateway_values demo_verifies handle_verified_def acc cp ct st dm)
  moreover from delivered_effect [OF acc st dm] obtain q where "gw_messages g' = gw_messages demo_gateway @ [q]"
    "mr_status q = ''DELIVERED''" "mr_message_id q = ''m1''" by (auto simp: e)
  ultimately show ?thesis using deliver_message_Inr [OF dm] by (auto simp: demo_gateway_values)
qed

theorem delivered_message_sound_witness:
  "\<exists>g' r m. process_atp_message demo_env demo_gateway demo_message [] = (g', Inr r) \<and> gw_messages g' = [m] \<and>
     mr_status m = ''DELIVERED'' \<and> mr_message_id m = ''m1'' \<and> gw_deliveries g' \<noteq> []"
proof -
  obtain g' r where r: "process_atp_message demo_env demo_gateway demo_message [] = (g', Inr r)" "dr_status r = ''DELIVERED''"
    "dr_idempotent r = None" using demo_delivered by blast
  from delivered_message_sound [OF this] r(1) show ?thesis by (auto simp: demo_gateway_values demo_message_def)
qed

definition demo_held_message :: ATPMessageEnvelope where
  "demo_held_message = demo_message\<lparr>en_message_id := ''m2'', en_capability := ''rooms.delete''\<rparr>"

theorem message_records_final_witness:
  "\<exists>g m. gateway_step\<^sup>*\<^sup>* demo_gateway g \<and> m \<in> set (gw_messages g) \<and> mr_status m = ''DELIVERED'' \<and>
     distinct (map mr_message_id (gw_messages g))"
proof -
  obtain g' r m where r: "process_atp_message demo_env demo_gateway demo_message [] = (g', Inr r)" "gw_messages g' = [m]"
    "mr_status m = ''DELIVERED''" using demo_delivered by blast
  then have "gateway_step\<^sup>*\<^sup>* demo_gateway g'" using gateway_step.process by blast
  from message_records_final [OF _ _ this rtranclp.rtrancl_refl] this r(2,3) show ?thesis
    by (auto simp: demo_gateway_values)
qed

theorem delivery_attempts_bounded_witness:
  "\<exists>g m. gateway_step\<^sup>*\<^sup>* demo_gateway g \<and> m \<in> set (gw_messages g) \<and>
     md_status (last (deliveries_of g (mr_message_id m))) = ''DELIVERED''"
proof -
  obtain g' r m where r: "process_atp_message demo_env demo_gateway demo_message [] = (g', Inr r)" "gw_messages g' = [m]"
    "mr_status m = ''DELIVERED''" using demo_delivered by blast
  then have "gateway_step\<^sup>*\<^sup>* demo_gateway g'" using gateway_step.process by blast
  moreover have m: "m \<in> set (gw_messages g')" by (simp add: r(2))
  ultimately show ?thesis
    using delivery_attempts_bounded [OF demo_gateway_values(4,5) _ m refl] r(3) by blast
qed

theorem gateway_attests_unverified_source_witness:
  "verify_message demo_env demo_gateway (demo_message\<lparr>en_source := (en_source demo_message)\<lparr>st_address := Some ''atp://bank/ceo''\<rparr>\<rparr>) =
     Inr (demo_verified\<lparr>vm_source_address := ''atp://bank/ceo''\<rparr>)"
proof -
  have "parse_agent_address (PStr ''atp://bank/ceo'') = Inr (''bank'', ''ceo'')" by code_simp
  moreover have "given_text (st_organization_id (en_source demo_message))" "given_text (st_agent_id (en_source demo_message))"
    by (simp_all add: demo_message_def demo_party_def given_text_def)
  ultimately show ?thesis using gateway_attests_unverified_source [OF demo_verifies] by blast
qed

theorem gateway_replay_by_padding_witness:
  "\<exists>g' r g'' r'. dispatch_atp_message demo_env demo_gateway demo_message = (g', Inr r) \<and>
     dispatch_atp_message demo_env g' (demo_message\<lparr>en_message_id := ''m1 '', en_nonce := ''n1 ''\<rparr>) = (g'', Inr r') \<and>
     dr_status r' = ''DELIVERED'' \<and> dr_idempotent r' = None \<and> map mr_message_id (gw_messages g'') = [''m1'', ''m1 '']"
proof -
  obtain g' r m where r: "dispatch_atp_message demo_env demo_gateway demo_message = (g', Inr r)" "dr_status r = ''DELIVERED''"
    "dr_idempotent r = None" "gw_messages g' = [m]" "mr_message_id m = ''m1''"
    using demo_delivered by (auto simp: dispatch_atp_message_def)
  have strips: "py_strip ''m1 '' = py_strip ''m1''" "py_strip ''n1 '' = py_strip ''n1''" by code_simp+
  have e: "en_message_id demo_message = ''m1''" "en_nonce demo_message = ''n1''" by (simp_all add: demo_message_def)
  have hash: "sha256_hex (ge_crypto demo_env) s = s" for s by (simp add: demo_env_def demo_gateway_crypto_def)
  have "answers_alike demo_env" by (simp add: answers_alike_def demo_env_def)
  then have "\<exists>g'' r' q. dispatch_atp_message demo_env g' (demo_message\<lparr>en_message_id := ''m1 '', en_nonce := ''n1 ''\<rparr>) = (g'', Inr r') \<and>
      dr_status r' = ''DELIVERED'' \<and> dr_idempotent r' = None \<and> gw_messages g'' = gw_messages g' @ [q] \<and> mr_message_id q = ''m1 ''"
    using gateway_replay_by_padding [OF r(1-3) refl, of "''m1 ''" "''n1 ''"] by (simp add: strips e hash demo_gateway_values) blast
  with r(1,4,5) show ?thesis by fastforce
qed

text \<open>The target requires a credential, and the relationship is past its expiry.\<close>

definition demo_strict :: gateway where
  "demo_strict = demo_gateway\<lparr>gw_xorg := demo_xorg\<lparr>xo_trusts := [demo_trust_row\<lparr>ot_expires_at := Some (- 1)\<rparr>],
     xo_target_policies := [TargetOrganizationPolicyUpdate.extend default_target_policy
       \<lparr>gp_id = 90, gp_organization_id = 8, gp_required_credential_types = [''KYC'']\<rparr>]\<rparr>\<rparr>"

theorem gateway_policy_gaps_witness:
  "hold_reason (PDict [(''amount'', PFloat (FNum 400))]) (''rooms.delete'' @ ''@1.0'') = Inr None \<and>
   check_trust demo_strict demo_verified = Inr () \<and>
   (\<exists>x. dispatch_atp_message demo_env demo_strict demo_message = (demo_strict, Inl x))"
proof -
  have amount: "payload_amount (PDict [(''amount'', PFloat (FNum 400))]) = Inr (FNum 400)" "\<not> float_lt (FNum 5000) (FNum 400)"
    by (simp_all add: payload_amount_def py_or_def dict_get_def)
  have same: "same_parties demo_gateway demo_strict"
    by (simp add: same_parties_def demo_strict_def demo_gateway_def gw_now_def gw_db_def xo_db_def)
  have v: "verify_message demo_env demo_strict demo_message = Inr demo_verified"
    using verify_frame [OF same] demo_verifies by simp
  have dst: "resolve_agent_and_org (gw_xorg demo_strict) (vm_target_org_id demo_verified) (vm_target_agent_id demo_verified) =
      Inr (Some \<lparr>or_id = 8, or_name = ''Inn'', or_is_active = True\<rparr>, Some demo_target)"
    using same_parties_resolve [OF same] by (simp add: demo_gateway_values demo_verified_def demo_resolved)
  have now: "gw_now demo_strict = 0" using same by (simp add: same_parties_def demo_gateway_values)
  have pol: "find (\<lambda>p. gp_organization_id p = 8) (xo_target_policies (gw_xorg demo_strict)) =
      Some (TargetOrganizationPolicyUpdate.extend default_target_policy
       \<lparr>gp_id = 90, gp_organization_id = 8, gp_required_credential_types = [''KYC'']\<rparr>)"
    by (simp add: demo_strict_def TargetOrganizationPolicyUpdate.defs)
  have pair: "find_pair (gw_xorg demo_strict) 7 8 = Some (demo_trust_row\<lparr>ot_expires_at := Some (- 1)\<rparr>)"
    "vm_org demo_verified = Some \<lparr>or_id = 7, or_name = ''Acme'', or_is_active = True\<rparr>" "known_message demo_strict mid = None" for mid
    by (simp_all add: find_pair_def demo_strict_def demo_trust_row_def demo_verified_def known_message_def demo_gateway_values)
  have row: "ot_status demo_trust_row = TS_ACTIVE" by (simp add: demo_trust_row_def)
  note gaps = gateway_policy_gaps
  have "hold_reason (PDict [(''amount'', PFloat (FNum 400))]) (''rooms.delete'' @ ''@1.0'') = Inr None"
    using gaps amount by blast
  moreover have "check_trust demo_strict demo_verified = Inr ()"
    using gaps [THEN conjunct2, THEN conjunct2, rule_format, of demo_verified _ demo_strict] dst pair row now by fastforce
  moreover have "\<exists>x. dispatch_atp_message demo_env demo_strict demo_message = (demo_strict, Inl x)"
    using gaps [THEN conjunct1, rule_format, of demo_env demo_strict demo_message demo_verified] v dst pol pair(3)
    by (fastforce simp: TargetOrganizationPolicyUpdate.defs)
  ultimately show ?thesis by blast
qed

end
