(* ===== verification/Sidecar.thy ===== *)
theory Sidecar
  imports Credentials
begin

text \<open>
  The sidecar, a proxy beside an agent that decides requests from a cached configuration
  (\<open>src/sidecar\<close>): its runtime state (\<open>state.py\<close>) and the local evaluator (\<open>evaluator.py\<close>). The state
  holds the two clocks (\<open>time.monotonic()\<close> counts microseconds) and the content of the cache file. An
  operation finds the lock of the state free, except where the lock itself is modelled. A value in
  a set or used as a key is a number, a text or \<open>None\<close>.
\<close>

section \<open>Configuration and state\<close>

record SidecarConfig =
  sc_control_plane_url :: string
  sc_secondary_control_plane_url :: "string option"
  sc_gateway_id :: "string option"
  sc_offline_policy :: string
  sc_allow_private_ips :: bool

record sidecar_metrics =
  total_requests :: int
  approved_requests :: int
  rejected_requests :: int
  offline_requests :: int
  error_count :: int

record SidecarState =
  ss_now :: datetime
  ss_monotonic :: int
  ss_gateway_id :: "string option"
  ss_status :: string
  ss_version :: string
  ss_applied_config_version :: pyval
  ss_active_config :: pyval
  ss_config_expires_at :: "datetime option"
  ss_control_plane_public_key :: "string option"
  ss_control_plane_reachable :: bool
  ss_last_sync_time :: "datetime option"
  ss_last_heartbeat_time :: "datetime option"
  ss_processed_nonces :: "(string \<times> int) list"
  ss_config_cache :: "pyval option"
  ss_metrics :: sidecar_metrics

definition initial_config :: pyval where
  "initial_config = PDict [(''policies'', PList []), (''trusted_issuers'', PList []), (''credential_requirements'', PList []),
     (''revocations'', PList []), (''routing'', PDict [(''allowed_peer_gateways'', PList [PStr ''*'']),
       (''privacy_mode'', PStr ''DIRECT_PRIVATE'')])]"

definition SidecarState_init :: "datetime \<Rightarrow> int \<Rightarrow> SidecarState" where
  "SidecarState_init now monotonic =
     \<lparr>ss_now = now, ss_monotonic = monotonic, ss_gateway_id = None, ss_status = ''ENROLLING'', ss_version = ''1.0.0'',
      ss_applied_config_version = PInt 0, ss_active_config = initial_config, ss_config_expires_at = None,
      ss_control_plane_public_key = None, ss_control_plane_reachable = True, ss_last_sync_time = None,
      ss_last_heartbeat_time = None, ss_processed_nonces = [], ss_config_cache = None,
      ss_metrics = \<lparr>total_requests = 0, approved_requests = 0, rejected_requests = 0, offline_requests = 0, error_count = 0\<rparr>\<rparr>"

definition update_config :: "SidecarState \<Rightarrow> pyval \<Rightarrow> pyval \<Rightarrow> datetime \<Rightarrow> SidecarState" where
  "update_config s new_version config_bundle expires_at =
     s\<lparr>ss_applied_config_version := new_version, ss_active_config := config_bundle, ss_config_expires_at := Some expires_at,
       ss_last_sync_time := Some (ss_now s)\<rparr>"

definition is_config_expired :: "SidecarState \<Rightarrow> bool" where
  "is_config_expired s = (case ss_config_expires_at s of None \<Rightarrow> True | Some t \<Rightarrow> t < ss_now s)"

definition count_request :: "string \<Rightarrow> bool \<Rightarrow> sidecar_metrics \<Rightarrow> sidecar_metrics" where
  "count_request result was_offline m =
     (let m1 = m\<lparr>total_requests := total_requests m + 1\<rparr>;
          m2 = (if was_offline then m1\<lparr>offline_requests := offline_requests m1 + 1\<rparr> else m1)
      in if result \<in> {''LOCAL_APPROVED'', ''APPROVED''} then m2\<lparr>approved_requests := approved_requests m2 + 1\<rparr>
         else if result \<in> {''REJECTED'', ''FAIL_CLOSED''} then m2\<lparr>rejected_requests := rejected_requests m2 + 1\<rparr>
         else if result = ''ERROR'' then m2\<lparr>error_count := error_count m2 + 1\<rparr>
         else m2)"

definition record_local_request :: "SidecarState \<Rightarrow> string \<Rightarrow> bool \<Rightarrow> SidecarState" where
  "record_local_request s result was_offline = s\<lparr>ss_metrics := count_request result was_offline (ss_metrics s)\<rparr>"

text \<open>
  The lock, with the operations that nest: \<open>threading.Lock\<close> is not reentrant, so a thread that holds it
  and enters it again waits for ever (None). The Boolean says whether the lock is held.
\<close>

type_synonym 'a locked = "bool \<Rightarrow> 'a option"

definition with_lock :: "'a locked \<Rightarrow> 'a locked" where
  "with_lock body held = (if held then None else body True)"

definition is_config_expired_locked :: "SidecarState \<Rightarrow> bool locked" where
  "is_config_expired_locked s = with_lock (\<lambda>_. Some (is_config_expired s))"

record health_summary =
  hs_gateway_id :: "string option"
  hs_config_version :: pyval
  hs_config_expired :: bool
  hs_control_plane_reachable :: bool
  hs_metrics :: sidecar_metrics

definition get_health_summary :: "SidecarState \<Rightarrow> health_summary locked" where
  "get_health_summary s =
     with_lock (\<lambda>held. map_option (\<lambda>expired.
       \<lparr>hs_gateway_id = ss_gateway_id s, hs_config_version = ss_applied_config_version s, hs_config_expired = expired,
        hs_control_plane_reachable = ss_control_plane_reachable s, hs_metrics = ss_metrics s\<rparr>)
       (is_config_expired_locked s held))"

section \<open>The local evaluator\<close>

record local_request =
  lr_action :: string
  lr_resource :: string
  lr_agent_id :: string
  lr_amount :: pyfloat
  lr_credentials :: "(string \<times> pyval) list list"
  lr_nonce :: "string option"
  lr_force_offline :: bool

record local_result =
  lo_decision :: string
  lo_code :: string
  lo_reason :: string

definition is_offline :: "SidecarState \<Rightarrow> local_request \<Rightarrow> bool" where
  "is_offline s q = (lr_force_offline q \<or> \<not> ss_control_plane_reachable s)"

text \<open>The texts of the decisions.\<close>

definition in_quotes :: "string \<Rightarrow> string" where "in_quotes t = [CHR 0x27] @ t @ [CHR 0x27]"

definition locally_rejected :: "string \<Rightarrow> string \<Rightarrow> local_result" where
  "locally_rejected code reason = \<lparr>lo_decision = ''REJECTED'', lo_code = code, lo_reason = reason\<rparr>"

definition central_check :: "string \<Rightarrow> string \<Rightarrow> local_result" where
  "central_check code reason = \<lparr>lo_decision = ''CENTRAL_CHECK_REQUIRED'', lo_code = code, lo_reason = reason\<rparr>"

definition pending :: "string \<Rightarrow> string \<Rightarrow> local_result" where
  "pending code reason = \<lparr>lo_decision = ''PENDING_HUMAN_APPROVAL'', lo_code = code, lo_reason = reason\<rparr>"

definition locally_approved :: local_result where
  "locally_approved = \<lparr>lo_decision = ''LOCAL_APPROVED'', lo_code = ''AUTHORIZED'',
     lo_reason = ''Request successfully verified and authorized by local Data Plane.''\<rparr>"

text \<open>1. Nonces: what has expired is dropped first; a nonce that is not ASCII raises.\<close>

definition live_nonces :: "SidecarState \<Rightarrow> (string \<times> int) list" where
  "live_nonces s = filter (\<lambda>(k, expires). ss_monotonic s < expires) (ss_processed_nonces s)"

definition use_nonce ::
    "'a crypto_scheme \<Rightarrow> SidecarState \<Rightarrow> string \<Rightarrow> SidecarState \<times> (pyexn + local_result option)" where
  "use_nonce c s nonce =
     (let s1 = s\<lparr>ss_processed_nonces := live_nonces s\<rparr>; h = sha256_hex c nonce in
      if \<not> list_all (\<lambda>x. (of_char x :: nat) < 128) nonce then (s1, Inl ValueError)
      else if h \<in> set (map fst (live_nonces s))
      then (s1, Inr (Some (locally_rejected ''REPLAY_ATTACK_DETECTED'' (''Nonce '' @ in_quotes nonce @ '' has already been processed.''))))
      else (s1\<lparr>ss_processed_nonces := live_nonces s @ [(h, ss_monotonic s + seconds 300)]\<rparr>, Inr None))"

text \<open>3. What is decided without the control plane.\<close>

definition administrative :: "string \<Rightarrow> bool" where
  "administrative action = (py_endswith action ''.admin'' \<or> py_endswith action ''.delete'')"

definition offline_check :: "string \<Rightarrow> local_request \<Rightarrow> local_result option" where
  "offline_check policy q =
     (if policy = ''FAIL_CLOSED''
      then Some (locally_rejected ''OFFLINE_FAIL_CLOSED'' ''Control Plane is offline and gateway policy is FAIL_CLOSED.'')
      else if policy = ''LIMITED_OFFLINE'' then
        (if float_lt (FNum 5000) (lr_amount q)
         then Some (central_check ''OFFLINE_HIGH_RISK_BLOCKED''
                (''High monetary value ('' @ float_repr (lr_amount q) @ '' USD) requires central Control Plane verification.''))
         else if administrative (lr_action q)
         then Some (central_check ''OFFLINE_ADMIN_BLOCKED''
                (''Administrative action '' @ in_quotes (lr_action q) @ '' requires central Control Plane verification.''))
         else None)
      else Some (locally_rejected ''INVALID_OFFLINE_POLICY''
             (''Unknown offline policy '' @ in_quotes policy @ ''. Failing closed.'')))"

text \<open>4. Credentials and revocations in the cached configuration.\<close>

definition list_of :: "pyval \<Rightarrow> pyval" where "list_of v = py_or v (PList [])"

definition field_or_empty :: "pyval \<Rightarrow> string \<Rightarrow> pyexn + pyval list" where
  "field_or_empty cfg k = rbind (val_get cfg k PNone) (\<lambda>v. py_iter (list_of v))"

definition required_type :: "pyval \<Rightarrow> pyexn + pyval" where
  "required_type item = (if is_str item then Inr item else val_get item ''type'' PNone)"

definition presents_type :: "(string \<times> pyval) list list \<Rightarrow> pyval \<Rightarrow> bool" where
  "presents_type creds ty = list_ex (\<lambda>c. py_eq (dict_get c ''credential_type'' PNone) ty) creds"

fun check_required :: "(string \<times> pyval) list list \<Rightarrow> pyval list \<Rightarrow> pyexn + local_result option" where
  "check_required creds [] = Inr None"
| "check_required creds (item # items) =
     rbind (required_type item) (\<lambda>ty.
       if py_truthy ty \<and> \<not> presents_type creds ty
       then Inr (Some (locally_rejected ''REQUIRED_CREDENTIAL_MISSING''
              (''Required credential type '' @ in_quotes (py_str ty) @ '' not presented.'')))
       else check_required creds items)"

fun is_hashable :: "pyval \<Rightarrow> bool" where
  "is_hashable (PList xs) = False"
| "is_hashable (PDict d) = False"
| "is_hashable _ = True"

text \<open>\<open>{r.get("id") for r in revocations if r.get("type") == kind}\<close>\<close>

fun revoked_ids :: "string \<Rightarrow> pyval list \<Rightarrow> pyexn + pyval list" where
  "revoked_ids kind [] = Inr []"
| "revoked_ids kind (r # rs) =
     rbind (val_get r ''type'' PNone) (\<lambda>ty.
       if py_eq ty (PStr kind)
       then rbind (val_get r ''id'' PNone) (\<lambda>i.
              if is_hashable i then rbind (revoked_ids kind rs) (\<lambda>ids. Inr (i # ids)) else Inl TypeError)
       else revoked_ids kind rs)"

fun check_revoked :: "pyval list \<Rightarrow> (string \<times> pyval) list list \<Rightarrow> pyexn + local_result option" where
  "check_revoked ids [] = Inr None"
| "check_revoked ids (c # cs) =
     (let cid = dict_get c ''credential_id'' PNone in
      if py_truthy cid \<and> \<not> is_hashable cid then Inl TypeError
      else if py_truthy cid \<and> py_in_list cid ids
      then Inr (Some (locally_rejected ''CREDENTIAL_REVOKED'' (''Presented credential '' @ in_quotes (py_str cid) @ '' has been revoked.'')))
      else check_revoked ids cs)"

definition first_result :: "(pyexn + local_result option) list \<Rightarrow> pyexn + local_result option" where
  "first_result rs = foldr (\<lambda>r rest. rbind r (\<lambda>v. case v of Some d \<Rightarrow> Inr (Some d) | None \<Rightarrow> rest)) rs (Inr None)"

definition credential_check :: "pyval \<Rightarrow> local_request \<Rightarrow> pyexn + local_result option" where
  "credential_check cfg q =
     first_result
       [rbind (field_or_empty cfg ''credential_requirements'') (check_required (lr_credentials q)),
        rbind (field_or_empty cfg ''revocations'') (\<lambda>rs. rbind (revoked_ids ''credential'' rs) (\<lambda>ids.
          check_revoked ids (lr_credentials q))),
        rbind (field_or_empty cfg ''revocations'') (\<lambda>rs. rbind (revoked_ids ''agent'' rs) (\<lambda>ids. Inr (
          if py_in_list (PStr (lr_agent_id q)) ids
          then Some (locally_rejected ''AGENT_SUSPENDED'' (''Agent '' @ in_quotes (lr_agent_id q) @ '' is suspended or retired.''))
          else None)))]"

text \<open>5. Risk.\<close>

definition risk_check :: "local_request \<Rightarrow> local_result option" where
  "risk_check q =
     (if float_lt (FNum 5000) (lr_amount q)
      then Some (pending ''HIGH_VALUE_TRANSACTION''
             (''Transaction amount ('' @ float_repr (lr_amount q) @ '' USD) exceeds autonomous approval limit of $5,000.''))
      else if administrative (lr_action q)
      then Some (pending ''HIGH_RISK_CAPABILITY''
             (''Administrative action '' @ in_quotes (lr_action q) @ '' requires explicit human approval.''))
      else None)"

text \<open>6. The rules of cached APL policies.\<close>

definition local_apl_context :: "local_request \<Rightarrow> (string \<times> pyval) list" where
  "local_apl_context q =
     [(''agent'', PDict [(''id'', PStr (lr_agent_id q))]), (''agent.id'', PStr (lr_agent_id q)), (''action'', PStr (lr_action q)),
      (''resource'', PStr (lr_resource q)), (''input'', PDict [(''amount'', PFloat (lr_amount q))]),
      (''input.amount'', PFloat (lr_amount q))]"

definition context_value :: "local_request \<Rightarrow> pyval \<Rightarrow> pyexn + pyval" where
  "context_value q f =
     (if \<not> is_hashable f then Inl TypeError
      else let actual = (case f of PStr k \<Rightarrow> dict_get (local_apl_context q) k PNone | _ \<Rightarrow> PNone) in
        if \<not> py_truthy f then Inr actual
        else (case f of
            PStr k \<Rightarrow>
              if py_startswith k ''input.'' \<and> actual = PNone
              then Inr (dict_get [(''amount'', PFloat (lr_amount q))] (drop 6 k) PNone)
              else Inr actual
          | _ \<Rightarrow> Inl AttributeError))"

definition compare_py_floats :: "(pyfloat \<Rightarrow> pyfloat \<Rightarrow> bool) \<Rightarrow> pyval \<Rightarrow> pyval \<Rightarrow> pyexn + bool" where
  "compare_py_floats rel actual expected =
     (if actual = PNone \<or> expected = PNone then Inr False
      else rbind (py_float actual) (\<lambda>x. rbind (py_float expected) (\<lambda>y. Inr (rel x y))))"

definition operator_holds :: "string \<Rightarrow> pyval \<Rightarrow> pyval \<Rightarrow> pyexn + bool" where
  "operator_holds op actual expected =
     (if op = ''eq'' then Inr (py_eq actual expected)
      else if op = ''gt'' then compare_py_floats (\<lambda>x y. float_lt y x) actual expected
      else if op = ''gte'' then compare_py_floats (\<lambda>x y. float_le y x) actual expected
      else if op = ''lt'' then compare_py_floats float_lt actual expected
      else if op = ''lte'' then compare_py_floats float_le actual expected
      else if op = ''in'' then Inr (case expected of PList xs \<Rightarrow> py_in_list actual xs | _ \<Rightarrow> False)
      else if op = ''starts_with'' then Inr (actual \<noteq> PNone \<and> py_startswith (py_str actual) (py_str expected))
      else Inr (op = ''exists'' \<and> actual \<noteq> PNone))"

definition condition_holds :: "local_request \<Rightarrow> pyval \<Rightarrow> pyexn + bool" where
  "condition_holds q cond =
     rbind (val_get cond ''field'' PNone) (\<lambda>f.
     rbind (val_get cond ''operator'' (PStr ''eq'')) (\<lambda>op.
     rbind (val_get cond ''value'' PNone) (\<lambda>expected.
     rbind (context_value q f) (\<lambda>actual.
       operator_holds (case op of PStr name \<Rightarrow> name | _ \<Rightarrow> []) actual expected))))"

fun all_hold :: "local_request \<Rightarrow> pyval list \<Rightarrow> pyexn + bool" where
  "all_hold q [] = Inr True"
| "all_hold q (c # cs) = rbind (condition_holds q c) (\<lambda>m. if m then all_hold q cs else Inr False)"

text \<open>\<open>when.get("all", [when] if "field" in when else [])\<close>: the other connectives are not looked at.\<close>

definition rule_matches :: "local_request \<Rightarrow> pyval \<Rightarrow> pyexn + bool" where
  "rule_matches q r =
     rbind (val_get r ''when'' PNone) (\<lambda>w.
     rbind (if py_truthy w then Inr w else val_get r ''conditions'' PNone) (\<lambda>when.
       if \<not> py_truthy when then Inr True
       else (case when of
           PDict d \<Rightarrow>
             rbind (py_iter (dict_get d ''all'' (PList (if ''field'' \<in> set (map fst d) then [when] else [])))) (all_hold q)
         | _ \<Rightarrow> Inl AttributeError)))"

definition rule_text :: "string \<Rightarrow> (string \<times> pyval) list \<Rightarrow> string \<Rightarrow> string" where
  "rule_text verb d dflt =
     verb @ '' by APL/1.0 policy rule '' @ in_quotes (py_str (dict_get d ''id'' PNone)) @ '': ''
       @ py_str (dict_get d ''description'' (PStr dflt))"

definition rule_decision :: "local_request \<Rightarrow> pyval \<Rightarrow> pyexn + local_result option" where
  "rule_decision q r =
     rbind (rule_matches q r) (\<lambda>matched.
       if \<not> matched then Inr None
       else (case r of
           PDict d \<Rightarrow>
             let effect = py_upper (py_str (dict_get d ''effect'' (PStr []))) in
             Inr (if effect = ''DENY'' then Some (locally_rejected ''APL_POLICY_DENY'' (rule_text ''Denied'' d ''Policy Deny''))
                  else if effect = ''REQUIRE_APPROVAL''
                  then Some (pending ''APL_POLICY_REQUIRE_APPROVAL'' (rule_text ''Approval required'' d ''Policy Approval Required''))
                  else None)
         | _ \<Rightarrow> Inl AttributeError))"

definition policy_decision :: "local_request \<Rightarrow> pyval \<Rightarrow> pyexn + local_result option" where
  "policy_decision q ast =
     rbind (val_get ast ''rules'' (PList [])) (\<lambda>rules. rbind (py_iter rules) (\<lambda>rs. first_result (map (rule_decision q) rs)))"

definition is_apl :: "pyval \<Rightarrow> bool" where
  "is_apl p = (case p of PDict d \<Rightarrow> py_eq (dict_get d ''version'' PNone) (PStr ''APL/1.0'') | _ \<Rightarrow> False)"

definition apl_policies :: "pyval \<Rightarrow> pyexn + pyval" where
  "apl_policies cfg =
     rbind (val_get cfg ''apl_policies'' PNone) (\<lambda>given.
       if py_truthy given then Inr given
       else rbind (val_get cfg ''policies'' (PList [])) (\<lambda>ps. rbind (py_iter ps) (\<lambda>xs. Inr (PList (filter is_apl xs)))))"

definition apl_check :: "pyval \<Rightarrow> local_request \<Rightarrow> pyexn + local_result option" where
  "apl_check apl q =
     (if py_truthy apl then rbind (py_iter apl) (\<lambda>asts. first_result (map (policy_decision q) asts)) else Inr None)"

text \<open>The other policies: lists of prefixes of actions and resources.\<close>

definition contains_star :: "pyval \<Rightarrow> pyexn + bool" where
  "contains_star v =
     (case v of
        PList xs \<Rightarrow> Inr (py_in_list (PStr ''*'') xs)
      | PStr s \<Rightarrow> Inr (py_contains s ''*'')
      | PDict d \<Rightarrow> Inr (''*'' \<in> set (map fst d))
      | _ \<Rightarrow> Inl TypeError)"

definition without_stars :: "string \<Rightarrow> string" where "without_stars s = filter (\<lambda>c. c \<noteq> CHR ''*'') s"

fun any_prefix :: "string \<Rightarrow> pyval list \<Rightarrow> pyexn + bool" where
  "any_prefix t [] = Inr False"
| "any_prefix t (p # ps) =
     (case p of
        PStr s \<Rightarrow> if py_startswith t (without_stars s) then Inr True else any_prefix t ps
      | _ \<Rightarrow> Inl AttributeError)"

definition allows :: "pyval \<Rightarrow> string \<Rightarrow> pyexn + bool" where
  "allows v t =
     rbind (contains_star v) (\<lambda>star. if star then Inr True else rbind (py_iter v) (any_prefix t))"

definition policy_allows :: "local_request \<Rightarrow> pyval \<Rightarrow> pyexn + bool" where
  "policy_allows q pol =
     rbind (val_get pol ''allowed_actions'' PNone) (\<lambda>acts.
     rbind (val_get pol ''allowed_resources'' PNone) (\<lambda>ress.
     rbind (allows (list_of acts) (lr_action q)) (\<lambda>a.
     rbind (allows (list_of ress) (lr_resource q)) (\<lambda>r. Inr (a \<and> r)))))"

fun any_allows :: "local_request \<Rightarrow> pyval list \<Rightarrow> pyexn + bool" where
  "any_allows q [] = Inr False"
| "any_allows q (p # ps) = rbind (policy_allows q p) (\<lambda>ok. if ok then Inr True else any_allows q ps)"

definition plain_policies :: "pyval \<Rightarrow> pyexn + pyval list" where
  "plain_policies cfg = rbind (field_or_empty cfg ''policies'') (\<lambda>ps. Inr (filter (\<lambda>p. is_dict p \<and> \<not> is_apl p) ps))"

definition final_check :: "pyval \<Rightarrow> local_request \<Rightarrow> pyexn + local_result" where
  "final_check cfg q =
     rbind (plain_policies cfg) (\<lambda>ps.
     rbind (if ps = [] then Inr True else any_allows q ps) (\<lambda>allowed.
       Inr (if allowed then locally_approved
            else locally_rejected ''PERMISSION_DENIED''
              (''Action '' @ in_quotes (lr_action q) @ '' on resource '' @ in_quotes (lr_resource q)
                 @ '' not permitted by local policy.''))))"

definition evaluate_config :: "pyval \<Rightarrow> local_request \<Rightarrow> pyexn + local_result" where
  "evaluate_config cfg q =
     rbind (credential_check cfg q) (\<lambda>c.
       case c of Some d \<Rightarrow> Inr d
       | None \<Rightarrow>
         (case risk_check q of Some d \<Rightarrow> Inr d
          | None \<Rightarrow>
            rbind (apl_policies cfg) (\<lambda>apl.
            rbind (apl_check apl q) (\<lambda>a.
              case a of Some d \<Rightarrow> Inr d | None \<Rightarrow> final_check cfg q))))"

definition evaluate_local_request ::
    "'a crypto_scheme \<Rightarrow> SidecarConfig \<Rightarrow> SidecarState \<Rightarrow> local_request \<Rightarrow> SidecarState \<times> (pyexn + local_result)" where
  "evaluate_local_request c config s q =
     (let offline = is_offline s q;
          (s1, replay) = (case lr_nonce q of Some (x # xs) \<Rightarrow> use_nonce c s (x # xs) | _ \<Rightarrow> (s, Inr None));
          outcome = rbind replay (\<lambda>v. case v of Some d \<Rightarrow> Inr d
            | None \<Rightarrow>
              if is_config_expired s1
              then Inr (locally_rejected ''CONFIG_EXPIRED'' ''Cached configuration bundle has expired. Control Plane synchronization required.'')
              else (case (if offline then offline_check (sc_offline_policy config) q else None) of
                  Some d \<Rightarrow> Inr d
                | None \<Rightarrow> evaluate_config (ss_active_config s1) q))
      in case outcome of
           Inl e \<Rightarrow> (s1, Inl e)
         | Inr d \<Rightarrow> (record_local_request s1 (lo_decision d) offline, Inr d))"

end
