(* ===== verification/SidecarSync.thy ===== *)
theory SidecarSync
  imports Sidecar Ssrf
begin

text \<open>
  The sidecar and the control plane: signatures (\<open>sidecar/crypto.py\<close>), the cache file (\<open>storage.py\<close>),
  synchronization and heartbeats (\<open>sync.py\<close>), direct delivery of messages (\<open>router.py\<close>) and the service
  (\<open>main.py\<close>). HTTP answers, the resolver, the local key and whether the disk can be written are
  parameters. The version of a configuration is a number or a text.
\<close>

datatype fetched = NotModified | FetchFailed | Fetched pyval

record sidecar_env =
  sv_crypto :: issuer_crypto
  sv_local_public :: string
  sv_local_sign :: "string \<Rightarrow> string"
  sv_fetch :: "string \<Rightarrow> fetched"
  sv_beat :: "string \<Rightarrow> pyval \<Rightarrow> pyval option"
  sv_send :: "string \<Rightarrow> pyval \<Rightarrow> (string \<times> string) list \<Rightarrow> string + pyval"
  sv_resolve :: "string \<Rightarrow> string list option"
  sv_disk_ok :: bool

section \<open>Signatures\<close>

definition CONFIG_SIGNING_VERSION :: string where "CONFIG_SIGNING_VERSION = ''AGENTTRUST-CONFIG/1''"
definition HEARTBEAT_SIGNING_VERSION :: string where "HEARTBEAT_SIGNING_VERSION = ''AGENTTRUST-HEARTBEAT/1''"

definition ended_lines :: "string list \<Rightarrow> string" where
  "ended_lines ts = concat (map (\<lambda>t. t @ [CHR 0x0A]) ts)"

definition heartbeat_text :: "string \<Rightarrow> string \<Rightarrow> string \<Rightarrow> string" where
  "heartbeat_text gateway_id config_version timestamp =
     ended_lines [HEARTBEAT_SIGNING_VERSION, gateway_id, config_version, timestamp]"

definition sign_heartbeat :: "sidecar_env \<Rightarrow> string \<Rightarrow> pyval \<Rightarrow> string \<Rightarrow> string" where
  "sign_heartbeat env gateway_id config_version timestamp =
     b64encode (sv_crypto env) (sv_local_sign env (heartbeat_text gateway_id (py_str config_version) timestamp))"

definition config_text :: "pyval list \<Rightarrow> string" where
  "config_text pieces = ended_lines (CONFIG_SIGNING_VERSION # map py_str pieces)"

definition compute_bundle_sha256 :: "'a crypto_scheme \<Rightarrow> pyval \<Rightarrow> string" where
  "compute_bundle_sha256 c bundle = sha256_hex c (canonical_json bundle)"

definition text_verifies :: "'a issuer_crypto_scheme \<Rightarrow> string \<Rightarrow> pyval \<Rightarrow> string \<Rightarrow> bool" where
  "text_verifies c key_b64 sig_b64 text =
     (case (b64decode_lax c key_b64, sig_b64) of
        (Some pub, PStr s) \<Rightarrow> ed25519_key c pub \<and>
          (case b64decode_lax c s of Some sig \<Rightarrow> ed25519_verify c pub sig text | None \<Rightarrow> False)
      | _ \<Rightarrow> False)"

definition verify_control_plane_config :: "'a issuer_crypto_scheme \<Rightarrow> pyval \<Rightarrow> string \<Rightarrow> pyexn + bool" where
  "verify_control_plane_config c data key_b64 =
     (case data of
        PDict d \<Rightarrow>
          let get = (\<lambda>k. dict_get d k PNone);
              pieces = map get [''config_version'', ''organization_id'', ''environment'', ''issued_at'', ''expires_at'', ''bundle_sha256''];
              bundle = py_or (get ''bundle'') (PDict [])
          in Inr (list_all py_truthy (pieces @ [get ''signature'']) \<and>
               py_eq (PStr (compute_bundle_sha256 c bundle)) (get ''bundle_sha256'') \<and>
               text_verifies c key_b64 (get ''signature'') (config_text pieces))
      | _ \<Rightarrow> Inl AttributeError)"

section \<open>Synchronization\<close>

definition present :: "string option \<Rightarrow> bool" where "present v = (v \<noteq> None \<and> v \<noteq> Some [])"

definition endpoints_of :: "SidecarConfig \<Rightarrow> string list" where
  "endpoints_of config =
     sc_control_plane_url config #
       (if present (sc_secondary_control_plane_url config) then [the (sc_secondary_control_plane_url config)] else [])"

definition rstrip_slash :: "string \<Rightarrow> string" where
  "rstrip_slash s = rev (dropWhile (\<lambda>c. c = CHR ''/'') (rev s))"

definition gateway_url :: "string \<Rightarrow> SidecarState \<Rightarrow> string \<Rightarrow> string" where
  "gateway_url base s rest = rstrip_slash base @ ''/v1/gateways/'' @ the (ss_gateway_id s) @ rest"

text \<open>\<open>a <= b\<close> and \<open>a > 0\<close> on versions.\<close>

definition py_le :: "pyval \<Rightarrow> pyval \<Rightarrow> pyexn + bool" where
  "py_le a b =
     (case (num_of a, num_of b) of
        (Some x, Some y) \<Rightarrow> Inr (float_le x y)
      | _ \<Rightarrow> (case (a, b) of (PStr s, PStr t) \<Rightarrow> Inr (s \<le> t) | _ \<Rightarrow> Inl TypeError))"

definition is_rollback :: "pyval \<Rightarrow> pyval \<Rightarrow> pyexn + bool" where
  "is_rollback new applied =
     rbind (py_le new applied) (\<lambda>le. if \<not> le then Inr False
       else rbind (py_le applied (PInt 0)) (\<lambda>z. Inr (\<not> z)))"

definition parse_expiry :: "'a issuer_crypto_scheme \<Rightarrow> pyval \<Rightarrow> pyexn + datetime" where
  "parse_expiry c v =
     (case v of
        PStr t \<Rightarrow>
          (case fromisoformat c (if py_endswith t ''Z'' then take (length t - 1) t @ ''+00:00'' else t) of
             Some x \<Rightarrow> Inr x
           | None \<Rightarrow> Inl ValueError)
      | _ \<Rightarrow> Inl AttributeError)"

definition signature_accepted :: "sidecar_env \<Rightarrow> SidecarState \<Rightarrow> pyval \<Rightarrow> pyexn + bool" where
  "signature_accepted env s data =
     (if present (ss_control_plane_public_key s)
      then verify_control_plane_config (sv_crypto env) data (the (ss_control_plane_public_key s))
      else Inr True)"

text \<open>What is activated: a version, a bundle and its expiry; None if it is refused.\<close>

definition check_bundle :: "sidecar_env \<Rightarrow> SidecarState \<Rightarrow> pyval \<Rightarrow> pyexn + (pyval \<times> pyval \<times> datetime) option" where
  "check_bundle env s data =
     rbind (signature_accepted env s data) (\<lambda>ok. if \<not> ok then Inr None else
     rbind (val_get data ''config_version'' (PInt 0)) (\<lambda>v.
     rbind (is_rollback v (ss_applied_config_version s)) (\<lambda>old. if old then Inr None else
     rbind (val_get data ''expires_at'' (PStr [])) (\<lambda>e.
     rbind (parse_expiry (sv_crypto env) e) (\<lambda>t.
     rbind (val_get data ''bundle'' (PDict [])) (\<lambda>b. Inr (Some (v, b, t))))))))"

definition save_config_cache :: "SidecarState \<Rightarrow> pyval \<Rightarrow> SidecarState" where
  "save_config_cache s data = s\<lparr>ss_config_cache := Some data\<rparr>"

text \<open>An exception (None) is caught by the caller, which goes on with the next endpoint.\<close>

definition apply_bundle :: "sidecar_env \<Rightarrow> SidecarState \<Rightarrow> pyval \<Rightarrow> SidecarState \<times> bool option" where
  "apply_bundle env s data =
     (case check_bundle env s data of
        Inl e \<Rightarrow> (s, None)
      | Inr None \<Rightarrow> (s, Some False)
      | Inr (Some (v, b, t)) \<Rightarrow>
          let s1 = update_config s v b t
          in if sv_disk_ok env then (save_config_cache s1 data, Some True) else (s1, None))"

fun sync_endpoints :: "sidecar_env \<Rightarrow> string list \<Rightarrow> SidecarState \<Rightarrow> SidecarState \<times> bool" where
  "sync_endpoints env [] s = (s\<lparr>ss_control_plane_reachable := False\<rparr>, False)"
| "sync_endpoints env (base # rest) s =
     (case sv_fetch env (gateway_url base s (''/config?client_version='' @ py_str (ss_applied_config_version s))) of
        NotModified \<Rightarrow> (s\<lparr>ss_control_plane_reachable := True, ss_last_sync_time := Some (ss_now s)\<rparr>, False)
      | FetchFailed \<Rightarrow> sync_endpoints env rest s
      | Fetched data \<Rightarrow>
          (case apply_bundle env (s\<lparr>ss_control_plane_reachable := True\<rparr>) data of
             (s1, Some updated) \<Rightarrow> (s1, updated)
           | (s1, None) \<Rightarrow> sync_endpoints env rest s1))"

definition sync_configuration_sync :: "SidecarConfig \<Rightarrow> sidecar_env \<Rightarrow> SidecarState \<Rightarrow> SidecarState \<times> bool" where
  "sync_configuration_sync config env s =
     (if \<not> present (ss_gateway_id s) then (s, False) else sync_endpoints env (endpoints_of config) s)"

definition heartbeat_payload :: "sidecar_env \<Rightarrow> SidecarState \<Rightarrow> pyval" where
  "heartbeat_payload env s =
     (let ts = utc_text (ss_now s); m = ss_metrics s in
      PDict [(''version'', PStr (ss_version s)), (''config_version'', ss_applied_config_version s),
        (''health'', PDict [(''cpu_percent'', PFloat (float_of_rat (12 / 10))), (''memory_percent'', PFloat (float_of_rat (45 / 10))),
           (''total_requests'', PInt (total_requests m)), (''error_count'', PInt (error_count m)),
           (''config_version'', ss_applied_config_version s)]),
        (''timestamp'', PStr ts),
        (''signature'', PStr (sign_heartbeat env (the (ss_gateway_id s)) (ss_applied_config_version s) ts))])"

fun beat_endpoints :: "SidecarConfig \<Rightarrow> sidecar_env \<Rightarrow> pyval \<Rightarrow> string list \<Rightarrow> SidecarState \<Rightarrow> SidecarState \<times> bool" where
  "beat_endpoints config env payload [] s = (s\<lparr>ss_control_plane_reachable := False\<rparr>, False)"
| "beat_endpoints config env payload (base # rest) s =
     (case sv_beat env (gateway_url base s ''/heartbeat'') payload of
        None \<Rightarrow> beat_endpoints config env payload rest s
      | Some reply \<Rightarrow>
          let s1 = s\<lparr>ss_control_plane_reachable := True, ss_last_heartbeat_time := Some (ss_now s)\<rparr> in
          (case val_get reply ''sync_required'' PNone of
             Inl e \<Rightarrow> beat_endpoints config env payload rest s1
           | Inr v \<Rightarrow> (if py_truthy v then fst (sync_configuration_sync config env s1) else s1, True)))"

definition send_heartbeat_sync :: "SidecarConfig \<Rightarrow> sidecar_env \<Rightarrow> SidecarState \<Rightarrow> SidecarState \<times> bool" where
  "send_heartbeat_sync config env s =
     (if \<not> present (ss_gateway_id s) then (s, False)
      else beat_endpoints config env (heartbeat_payload env s) (endpoints_of config) s)"

section \<open>The cache file\<close>

definition read_cache :: "sidecar_env \<Rightarrow> SidecarState \<Rightarrow> pyval \<Rightarrow> pyexn + (pyval \<times> pyval \<times> datetime) option" where
  "read_cache env s data =
     rbind (signature_accepted env s data) (\<lambda>ok. if \<not> ok then Inr None else
     rbind (val_get data ''config_version'' (PInt 0)) (\<lambda>v.
     rbind (val_get data ''expires_at'' PNone) (\<lambda>e. if \<not> py_truthy e then Inr None else
     rbind (parse_expiry (sv_crypto env) e) (\<lambda>t.
     rbind (val_get data ''bundle'' (PDict [])) (\<lambda>b. Inr (Some (v, b, t)))))))"

definition load_config_cache :: "sidecar_env \<Rightarrow> SidecarState \<Rightarrow> SidecarState \<times> bool" where
  "load_config_cache env s =
     (case ss_config_cache s of
        None \<Rightarrow> (s, False)
      | Some data \<Rightarrow>
          (case read_cache env s data of
             Inr (Some (v, b, t)) \<Rightarrow> (update_config s v b t, True)
           | _ \<Rightarrow> (s, False)))"

section \<open>Direct delivery\<close>

text \<open>\<open>int(text)\<close>: a sign, digits with single underscores between them, blanks around.\<close>

definition py_int :: "string \<Rightarrow> int option" where
  "py_int s =
     (let (neg, u) = split_sign (py_strip s); groups = py_split (CHR ''_'') u in
      if list_ex (\<lambda>g. g = [] \<or> \<not> list_all is_digit g) groups then None
      else Some (if neg then - int_text 10 (concat groups) else int_text 10 (concat groups)))"

definition ip_to_int :: "string \<Rightarrow> int option" where
  "ip_to_int ip =
     (let parts = map py_int (py_split (CHR ''.'') ip) in
      if None \<in> set parts \<or> length parts < 4 then None
      else case map the parts of
          (a # b # c # d # _) \<Rightarrow> Some (push_bit 24 a + push_bit 16 b + push_bit 8 c + d)
        | _ \<Rightarrow> None)"

definition BLOCKED_RANGES :: "(string \<times> string) list" where
  "BLOCKED_RANGES = [(''127.0.0.0'', ''255.0.0.0''), (''169.254.0.0'', ''255.255.0.0''), (''0.0.0.0'', ''255.0.0.0'')]"

definition rfc1918 :: "(string \<times> string) list" where
  "rfc1918 = [(''10.0.0.0'', ''255.0.0.0''), (''172.16.0.0'', ''255.240.0.0''), (''192.168.0.0'', ''255.255.0.0'')]"

definition in_range :: "int \<Rightarrow> string \<times> string \<Rightarrow> bool" where
  "in_range ip r = (Some (and ip (the (ip_to_int (snd r)))) = ip_to_int (fst r))"

definition is_safe_ip :: "string \<Rightarrow> bool \<Rightarrow> bool" where
  "is_safe_ip ip_str allow_private_ips =
     (case ip_to_int ip_str of
        None \<Rightarrow> False
      | Some ip \<Rightarrow> \<not> list_ex (in_range ip) BLOCKED_RANGES \<and> (allow_private_ips \<or> \<not> list_ex (in_range ip) rfc1918))"

definition forbidden_hosts :: "string list" where
  "forbidden_hosts = [''localhost'', ''127.0.0.1'', ''::1'', ''metadata.google.internal'']"

text \<open>The reason of a refusal is left out; a URL that cannot be parsed raises.\<close>

definition validate_destination_url :: "sidecar_env \<Rightarrow> string \<Rightarrow> bool \<Rightarrow> pyexn + bool" where
  "validate_destination_url env url allow_private_ips =
     rbind (urlparse (py_strip url)) (\<lambda>parsed.
       Inr (url_scheme parsed \<in> {''http'', ''https''} \<and> url_hostname parsed \<noteq> [] \<and>
            py_lower (url_hostname parsed) \<notin> set forbidden_hosts \<and>
            (case sv_resolve env (url_hostname parsed) of
               None \<Rightarrow> False
             | Some ips \<Rightarrow> list_all (\<lambda>ip. is_safe_ip ip allow_private_ips) ips)))"

text \<open>\<open>json.dumps(v)\<close>: the order of insertion, blanks after the separators.\<close>

fun json_dumps_plain :: "pyval \<Rightarrow> string" where
  "json_dumps_plain (PList xs) = ''['' @ py_join '', '' (map json_dumps_plain xs) @ '']''"
| "json_dumps_plain (PDict d) =
     ''{'' @ py_join '', '' (map (\<lambda>(k, v). json_str k @ '': '' @ json_dumps_plain v) d) @ ''}''"
| "json_dumps_plain v = json_dumps '', '' '': '' v"

definition generate_local_gateway_attestation ::
    "sidecar_env \<Rightarrow> SidecarState \<Rightarrow> pyval \<Rightarrow> pyval \<Rightarrow> pyval \<Rightarrow> pyval \<Rightarrow> string" where
  "generate_local_gateway_attestation env s message_id source_addr target_addr capability =
     (let c = sv_crypto env;
          payload = PDict [(''gateway_id'', PStr (if present (ss_gateway_id s) then the (ss_gateway_id s) else ''gw_sidecar'')),
            (''message_id'', message_id), (''source'', source_addr), (''target'', target_addr), (''capability'', capability),
            (''timestamp'', PStr (utc_text (ss_now s))), (''fingerprint'', PStr (sha256_hex c (sv_local_public env)))];
          sig = b64encode c (sv_local_sign env (canonical_json payload))
      in b64encode c (json_dumps_plain (PDict [(''attestation'', payload), (''signature'', PStr sig)])))"

definition party_address :: "pyval \<Rightarrow> pyexn + pyval" where
  "party_address v =
     (let p = py_or v (PDict []) in
      rbind (val_get p ''address'' PNone) (\<lambda>a. if py_truthy a then Inr a
        else rbind (val_get p ''organization_id'' PNone) (\<lambda>o1. rbind (val_get p ''agent_id'' PNone) (\<lambda>i.
          Inr (PStr (''atp://'' @ py_str o1 @ ''/'' @ py_str i))))))"

record direct_result =
  di_status :: string
  di_error :: "string option"
  di_target :: "pyval option"
  di_attestation :: "string option"
  di_response :: "pyval option"

definition delivered_directly :: "pyval \<Rightarrow> string \<Rightarrow> pyval \<Rightarrow> direct_result" where
  "delivered_directly target attestation response =
     \<lparr>di_status = ''DELIVERED'', di_error = None, di_target = Some target, di_attestation = Some attestation,
      di_response = Some response\<rparr>"

definition direct_failure :: "string \<Rightarrow> direct_result" where
  "direct_failure error =
     \<lparr>di_status = ''FAILED'', di_error = Some error, di_target = None, di_attestation = None, di_response = None\<rparr>"

definition route_atp_message_direct ::
    "sidecar_env \<Rightarrow> SidecarState \<Rightarrow> (string \<times> pyval) list \<Rightarrow> string option \<Rightarrow> bool \<Rightarrow> pyexn + direct_result" where
  "route_atp_message_direct env s envelope target_endpoint_url allow_private_ips =
     rbind (party_address (dict_get envelope ''target'' PNone)) (\<lambda>target_addr.
     rbind (party_address (dict_get envelope ''source'' PNone)) (\<lambda>source_addr.
       let attestation = generate_local_gateway_attestation env s (dict_get envelope ''message_id'' (PStr []))
             source_addr target_addr (dict_get envelope ''capability'' (PStr []))
       in if \<not> present target_endpoint_url
          then Inr (delivered_directly target_addr attestation (PDict [(''ack'', PBool True),
                 (''message'', PStr ''Message delivered locally in DIRECT_PRIVATE mode.'')]))
          else
            rbind (validate_destination_url env (the target_endpoint_url) allow_private_ips) (\<lambda>safe.
              Inr (if \<not> safe then direct_failure ''SSRF_BLOCKED''
                else (case sv_send env (the target_endpoint_url) (PDict envelope)
                       [(''Content-Type'', ''application/json''), (''X-ATP-Gateway-Attestation'', attestation),
                        (''X-ATP-Protocol'', ''ATP/1.0'')] of
                    Inl e \<Rightarrow> direct_failure ''DELIVERY_ERROR''
                  | Inr response \<Rightarrow> delivered_directly target_addr attestation response)))))"

section \<open>The service\<close>

text \<open>The request model: \<open>amount or 0.0\<close> and \<open>credentials or []\<close>; its time stamp is not read.\<close>

definition local_authorize ::
    "'a crypto_scheme \<Rightarrow> SidecarConfig \<Rightarrow> SidecarState \<Rightarrow> string \<Rightarrow> string \<Rightarrow> string \<Rightarrow> pyfloat option
       \<Rightarrow> (string \<times> pyval) list list option \<Rightarrow> string option \<Rightarrow> bool option \<Rightarrow> SidecarState \<times> (pyexn + local_result)" where
  "local_authorize c config s action resource agent_id amount creds nonce force_offline =
     evaluate_local_request c config s
       \<lparr>lr_action = action, lr_resource = resource, lr_agent_id = agent_id,
        lr_amount = (case amount of Some a \<Rightarrow> a | None \<Rightarrow> FNum 0),
        lr_credentials = (case creds of Some cs \<Rightarrow> cs | None \<Rightarrow> []), lr_nonce = nonce,
        lr_force_offline = (force_offline = Some True)\<rparr>"

definition start_sidecar :: "SidecarConfig \<Rightarrow> sidecar_env \<Rightarrow> SidecarState \<Rightarrow> SidecarState" where
  "start_sidecar config env s =
     (let s1 = fst (load_config_cache env s) in
      if present (sc_gateway_id config)
      then let s2 = s1\<lparr>ss_gateway_id := sc_gateway_id config, ss_status := ''ACTIVE''\<rparr>
           in fst (send_heartbeat_sync config env (fst (sync_configuration_sync config env s2)))
      else s1)"

definition background_sync :: "SidecarConfig \<Rightarrow> sidecar_env \<Rightarrow> SidecarState \<Rightarrow> SidecarState" where
  "background_sync config env s =
     fst (sync_configuration_sync config env (fst (send_heartbeat_sync config env s)))"

definition trigger_manual_sync :: "SidecarConfig \<Rightarrow> sidecar_env \<Rightarrow> SidecarState \<Rightarrow> SidecarState \<times> bool \<times> bool" where
  "trigger_manual_sync config env s =
     (let (s1, updated) = sync_configuration_sync config env s; (s2, hb) = send_heartbeat_sync config env s1
      in (s2, updated, hb))"

definition health_check :: "SidecarState \<Rightarrow> health_summary option" where
  "health_check s = get_health_summary s False"

definition readiness_check :: "SidecarConfig \<Rightarrow> SidecarState \<Rightarrow> bool option" where
  "readiness_check config s =
     map_option (\<lambda>h. \<not> (hs_config_expired h \<and> sc_offline_policy config = ''FAIL_CLOSED'')) (get_health_summary s False)"

end
