(* ===== verification/Sidecar_Safety.thy ===== *)
theory Sidecar_Safety
  imports SidecarSync
begin

text \<open>
  Properties of the sidecar: what a local approval rests on, replay, the order of the versions it
  applies, signatures, metrics and probes. The steps are those of \<open>sidecar_step\<close>; the locale \<open>sync_kept\<close>
  states once what a synchronization keeps.
\<close>

section \<open>What an approval rests on\<close>

named_theorems refuses

lemma first_result_None: "first_result rs = Inr None \<longleftrightarrow> (\<forall>r\<in>set rs. r = Inr None)"
  by (induction rs) (auto simp: first_result_def rbind_Inr_iff split: option.splits)

lemma first_result_Some: "first_result rs = Inr (Some d) \<Longrightarrow> Inr (Some d) \<in> set rs"
  by (induction rs) (auto simp: first_result_def rbind_Inr_iff split: option.splits)

lemma not_approved [simp]:
  "lo_decision (locally_rejected code t) = ''REJECTED''" "lo_decision (central_check code t) = ''CENTRAL_CHECK_REQUIRED''"
  "lo_decision (pending code t) = ''PENDING_HUMAN_APPROVAL''" "lo_decision locally_approved = ''LOCAL_APPROVED''"
  by (simp_all add: locally_rejected_def central_check_def pending_def locally_approved_def)

lemma use_nonce_refuses [refuses]: "use_nonce c s n = (s1, Inr (Some d)) \<Longrightarrow> lo_decision d = ''REJECTED''"
  by (auto simp: use_nonce_def Let_def split: if_splits)

lemma offline_check_refuses [refuses]: "offline_check p q = Some d \<Longrightarrow> lo_decision d \<in> {''REJECTED'', ''CENTRAL_CHECK_REQUIRED''}"
  by (auto simp: offline_check_def split: if_splits)

lemma check_required_None:
  "check_required creds items = Inr None \<longleftrightarrow>
    (\<forall>i\<in>set items. \<exists>ty. required_type i = Inr ty \<and> (py_truthy ty \<longrightarrow> presents_type creds ty))"
  by (induction items) (auto simp: rbind_Inr_iff split: if_splits)

lemma check_required_refuses [refuses]: "check_required creds items = Inr (Some d) \<Longrightarrow> lo_decision d = ''REJECTED''"
  by (induction items) (auto simp: rbind_Inr_iff split: if_splits)

lemma check_revoked_None:
  "check_revoked ids cs = Inr None \<Longrightarrow> \<forall>cr\<in>set cs. py_truthy (dict_get cr ''credential_id'' PNone) \<longrightarrow>
     \<not> py_in_list (dict_get cr ''credential_id'' PNone) ids"
  by (induction cs) (auto simp: Let_def split: if_splits)

lemma check_revoked_refuses [refuses]: "check_revoked ids cs = Inr (Some d) \<Longrightarrow> lo_decision d = ''REJECTED''"
  by (induction cs) (auto simp: Let_def split: if_splits)

lemma credential_check_refuses [refuses]: "credential_check cfg q = Inr (Some d) \<Longrightarrow> lo_decision d = ''REJECTED''"
  unfolding credential_check_def
  by (drule first_result_Some) (auto simp: rbind_Inr_iff eq_commute [where a = "Inr (Some d)"] check_required_refuses check_revoked_refuses split: if_splits)

lemma risk_check_refuses [refuses]: "risk_check q = Some d \<Longrightarrow> lo_decision d = ''PENDING_HUMAN_APPROVAL''"
  by (auto simp: risk_check_def split: if_splits)

lemma rule_decision_refuses:
  "rule_decision q r = Inr (Some d) \<Longrightarrow> lo_decision d \<in> {''REJECTED'', ''PENDING_HUMAN_APPROVAL''}"
  by (auto simp: rule_decision_def Let_def rbind_Inr_iff split: if_splits pyval.splits)

lemma apl_check_refuses [refuses]:
  "apl_check apl q = Inr (Some d) \<Longrightarrow> lo_decision d \<in> {''REJECTED'', ''PENDING_HUMAN_APPROVAL''}"
  by (auto simp: apl_check_def policy_decision_def rbind_Inr_iff eq_commute [where a = "Inr (Some d)"] split: if_splits
      dest!: first_result_Some rule_decision_refuses)

lemma any_allows_True: "any_allows q ps = Inr True \<Longrightarrow> \<exists>p\<in>set ps. policy_allows q p = Inr True"
  by (induction ps) (auto simp: rbind_Inr_iff split: if_splits)

lemma final_check_allows:
  "final_check cfg q = Inr d \<Longrightarrow> lo_decision d = ''LOCAL_APPROVED'' \<Longrightarrow>
     \<exists>ps. plain_policies cfg = Inr ps \<and> (ps = [] \<or> (\<exists>p\<in>set ps. policy_allows q p = Inr True))"
  by (auto simp: final_check_def rbind_Inr_iff split: if_splits dest: any_allows_True)

lemma revoked_ids_mem:
  "revoked_ids kind rs = Inr ids \<Longrightarrow> PDict d \<in> set rs \<Longrightarrow> py_eq (dict_get d ''type'' PNone) (PStr kind) \<Longrightarrow>
     dict_get d ''id'' PNone \<in> set ids"
  by (induction rs arbitrary: ids) (auto simp: rbind_Inr_iff split: if_splits)

definition nonce_recorded :: "'a crypto_scheme \<Rightarrow> SidecarState \<Rightarrow> SidecarState \<Rightarrow> string option \<Rightarrow> bool" where
  "nonce_recorded c s s' n =
     (case n of
        Some (x # xs) \<Rightarrow> sha256_hex c (x # xs) \<notin> set (map fst (live_nonces s)) \<and>
          ss_processed_nonces s' = live_nonces s @ [(sha256_hex c (x # xs), ss_monotonic s + seconds 300)]
      | _ \<Rightarrow> ss_processed_nonces s' = ss_processed_nonces s)"

definition presented_as_required :: "pyval \<Rightarrow> local_request \<Rightarrow> bool" where
  "presented_as_required cfg q =
     (case field_or_empty cfg ''credential_requirements'' of
        Inr items \<Rightarrow> list_all (\<lambda>i. case required_type i of
            Inr ty \<Rightarrow> py_truthy ty \<longrightarrow> presents_type (lr_credentials q) ty | Inl e \<Rightarrow> False) items
      | Inl e \<Rightarrow> False)"

definition revocation_hits :: "local_request \<Rightarrow> (string \<times> pyval) list \<Rightarrow> bool" where
  "revocation_hits q d =
     (let i = dict_get d ''id'' PNone in
      dict_get d ''type'' PNone = PStr ''credential'' \<and>
        list_ex (\<lambda>cr. py_truthy (dict_get cr ''credential_id'' PNone) \<and> py_eq (dict_get cr ''credential_id'' PNone) i) (lr_credentials q)
      \<or> dict_get d ''type'' PNone = PStr ''agent'' \<and> i = PStr (lr_agent_id q))"

lemma py_eq_text [simp]: "py_eq (PStr a) (PStr b) \<longleftrightarrow> a = b"
  by (simp add: py_eq.simps)

lemma py_in_list_text: "PStr a \<in> set xs \<Longrightarrow> py_in_list (PStr a) xs"
  by (induction xs) (auto simp: py_in_list_def)

lemma credential_check_sound:
  assumes "credential_check cfg q = Inr None"
  shows "presented_as_required cfg q"
    and "\<exists>rs. field_or_empty cfg ''revocations'' = Inr rs \<and> (\<forall>d. PDict d \<in> set rs \<longrightarrow> \<not> revocation_hits q d)"
proof -
  have parts: "rbind (field_or_empty cfg ''credential_requirements'') (check_required (lr_credentials q)) = Inr None"
    "\<exists>rs. field_or_empty cfg ''revocations'' = Inr rs \<and>
      (\<exists>ids. revoked_ids ''credential'' rs = Inr ids \<and> check_revoked ids (lr_credentials q) = Inr None) \<and>
      (\<exists>ids. revoked_ids ''agent'' rs = Inr ids \<and> \<not> py_in_list (PStr (lr_agent_id q)) ids)"
    using assms by (auto simp: credential_check_def first_result_None rbind_Inr_iff split: if_splits)
  show "presented_as_required cfg q"
    using parts(1) by (fastforce simp: presented_as_required_def rbind_Inr_iff check_required_None list_all_iff split: sum.splits)
  from parts(2) obtain rs ci ai where rs: "field_or_empty cfg ''revocations'' = Inr rs"
    and ci: "revoked_ids ''credential'' rs = Inr ci" "check_revoked ci (lr_credentials q) = Inr None"
    and ai: "revoked_ids ''agent'' rs = Inr ai" "\<not> py_in_list (PStr (lr_agent_id q)) ai" by blast
  have "\<not> revocation_hits q d" if d: "PDict d \<in> set rs" for d
    using revoked_ids_mem [OF ci(1) d] revoked_ids_mem [OF ai(1) d] check_revoked_None [OF ci(2)] ai(2)
    py_in_list_text [of "lr_agent_id q" ai] by (auto simp: revocation_hits_def Let_def list_ex_iff py_in_list_def)
  with rs show "\<exists>rs. field_or_empty cfg ''revocations'' = Inr rs \<and> (\<forall>d. PDict d \<in> set rs \<longrightarrow> \<not> revocation_hits q d)"
    by blast
qed

text \<open>What \<open>evaluate_local_request\<close> goes through.\<close>

lemma use_nonce_parts:
  assumes "(case n of Some (x # xs) \<Rightarrow> use_nonce c s (x # xs) | _ \<Rightarrow> (s, Inr None)) = (s1, v)"
  shows "ss_active_config s1 = ss_active_config s" "ss_config_expires_at s1 = ss_config_expires_at s" "ss_now s1 = ss_now s"
    and "v = Inr None \<Longrightarrow> nonce_recorded c s s1 n"
    and "v = Inr (Some d) \<Longrightarrow> lo_decision d = ''REJECTED''"
  using assms by (auto simp: use_nonce_def nonce_recorded_def Let_def split: option.splits list.splits if_splits)

lemma nonce_recorded_record [simp]: "nonce_recorded c s (record_local_request s1 d off) n = nonce_recorded c s s1 n"
  by (simp add: nonce_recorded_def record_local_request_def cong: option.case_cong list.case_cong)

lemma approval_parts:
  assumes "evaluate_local_request c config s q = (s', Inr d)" and "lo_decision d = ''LOCAL_APPROVED''"
  shows "nonce_recorded c s s' (lr_nonce q)" "\<not> is_config_expired s"
    and "is_offline s q \<longrightarrow> offline_check (sc_offline_policy config) q = None"
    and "evaluate_config (ss_active_config s) q = Inr d"
proof -
  obtain s1 v where n: "(case lr_nonce q of Some (x # xs) \<Rightarrow> use_nonce c s (x # xs) | _ \<Rightarrow> (s, Inr None)) = (s1, v)"
    by fastforce
  note k = use_nonce_parts [OF n]
  have e: "is_config_expired s1 = is_config_expired s" by (simp add: is_config_expired_def k cong: option.case_cong)
  have off: "is_offline s q \<Longrightarrow> offline_check (sc_offline_policy config) q \<noteq> Some d"
    using offline_check_refuses assms(2) by fastforce
  have "v \<noteq> Inr (Some d)" using k(5) assms(2) by auto
  then show "nonce_recorded c s s' (lr_nonce q)" "\<not> is_config_expired s"
    "is_offline s q \<longrightarrow> offline_check (sc_offline_policy config) q = None"
    "evaluate_config (ss_active_config s) q = Inr d"
    using assms off k(4) unfolding evaluate_local_request_def n Let_def
    by (auto simp: rbind_Inr_iff e k(1) split: sum.splits option.splits if_splits) (metis not_None_eq)+
qed

lemma evaluate_config_parts:
  assumes "evaluate_config cfg q = Inr d" "lo_decision d = ''LOCAL_APPROVED''"
  shows "credential_check cfg q = Inr None" "risk_check q = None"
    and "\<exists>apl. apl_policies cfg = Inr apl \<and> apl_check apl q = Inr None"
    and "final_check cfg q = Inr d"
proof -
  have "credential_check cfg q \<noteq> Inr (Some d)" "risk_check q \<noteq> Some d" "apl_check apl q \<noteq> Inr (Some d)" for apl
    using assms(2) credential_check_refuses risk_check_refuses apl_check_refuses by fastforce+
  then show "credential_check cfg q = Inr None" "risk_check q = None"
    "\<exists>apl. apl_policies cfg = Inr apl \<and> apl_check apl q = Inr None" "final_check cfg q = Inr d"
    using assms(1) by (auto simp: evaluate_config_def rbind_Inr_iff split: option.splits) (metis not_None_eq)+
qed

definition rules_of :: "pyval \<Rightarrow> pyexn + pyval list" where
  "rules_of ast = rbind (val_get ast ''rules'' (PList [])) py_iter"

lemma apl_check_None:
  assumes "apl_check apl q = Inr None" "py_truthy apl"
  shows "\<exists>asts. py_iter apl = Inr asts \<and> (\<forall>ast\<in>set asts. \<exists>rs. rules_of ast = Inr rs \<and> (\<forall>r\<in>set rs. rule_decision q r = Inr None))"
  using assms by (fastforce simp: apl_check_def policy_decision_def rules_of_def first_result_None rbind_Inr_iff)

text \<open>
  C11. What a local approval rests on. Whoever gets \<open>LOCAL_APPROVED\<close> came with a nonce not seen in the
  last 300 seconds, which is recorded (or with none), while the configuration had not expired; without the
  control plane the policy was \<open>LIMITED_OFFLINE\<close>; the amount is not greater than 5000 (a NaN is not) and
  the action is not administrative; every credential type the configuration requires was presented; no
  entry of its revocations names the agent or a presented credential; no rule of its APL policies, if it
  has any, that matched denies or asks for approval; and one of the other policies allows the action on
  the resource, or there are none of these, in which case the code allows by default.
\<close>

theorem sidecar_approval_sound:
  assumes "evaluate_local_request c config s q = (s', Inr d)" and "lo_decision d = ''LOCAL_APPROVED''"
  shows "nonce_recorded c s s' (lr_nonce q) \<and> \<not> is_config_expired s
    \<and> (is_offline s q \<longrightarrow> sc_offline_policy config = ''LIMITED_OFFLINE'')
    \<and> \<not> float_lt (FNum 5000) (lr_amount q) \<and> \<not> administrative (lr_action q)
    \<and> presented_as_required (ss_active_config s) q
    \<and> (\<exists>rs. field_or_empty (ss_active_config s) ''revocations'' = Inr rs \<and> (\<forall>e. PDict e \<in> set rs \<longrightarrow> \<not> revocation_hits q e))
    \<and> (\<exists>apl. apl_policies (ss_active_config s) = Inr apl \<and> (py_truthy apl \<longrightarrow> (\<exists>asts. py_iter apl = Inr asts \<and>
           (\<forall>ast\<in>set asts. \<exists>rs. rules_of ast = Inr rs \<and> (\<forall>r\<in>set rs. rule_decision q r = Inr None)))))
    \<and> (\<exists>ps. plain_policies (ss_active_config s) = Inr ps \<and> (ps = [] \<or> (\<exists>p\<in>set ps. policy_allows q p = Inr True)))"
proof -
  note a = approval_parts [OF assms]
  note b = evaluate_config_parts [OF a(4) assms(2)]
  have "is_offline s q \<longrightarrow> sc_offline_policy config = ''LIMITED_OFFLINE''"
    using a(3) by (auto simp: offline_check_def split: if_splits)
  moreover have "\<not> float_lt (FNum 5000) (lr_amount q)" "\<not> administrative (lr_action q)"
    using b(2) by (auto simp: risk_check_def split: if_splits)
  moreover have "\<exists>apl. apl_policies (ss_active_config s) = Inr apl \<and> (py_truthy apl \<longrightarrow> (\<exists>asts. py_iter apl = Inr asts \<and>
           (\<forall>ast\<in>set asts. \<exists>rs. rules_of ast = Inr rs \<and> (\<forall>r\<in>set rs. rule_decision q r = Inr None))))"
    using b(3) apl_check_None by blast
  ultimately show ?thesis
    using a(1,2) credential_check_sound [OF b(1)] final_check_allows [OF b(4) assms(2)] by blast
qed

text \<open>A sidecar without network: a request for a hotel within a policy of prefixes, and one of an APL rule.\<close>

definition demo_sidecar_config :: SidecarConfig where
  "demo_sidecar_config = \<lparr>sc_control_plane_url = ''https://cp/'', sc_secondary_control_plane_url = None,
     sc_gateway_id = Some ''gw_1'', sc_offline_policy = ''LIMITED_OFFLINE'', sc_allow_private_ips = False\<rparr>"

definition demo_bundle :: "pyval list \<Rightarrow> pyval" where
  "demo_bundle ps = PDict [(''policies'', PList ps), (''credential_requirements'', PList [PStr ''Badge'']),
     (''revocations'', PList [PDict [(''type'', PStr ''agent''), (''id'', PStr ''agt_bad'')]])]"

definition demo_plain_policy :: pyval where
  "demo_plain_policy = PDict [(''allowed_actions'', PList [PStr ''hotel.*'']), (''allowed_resources'', PList [PStr ''*''])]"

definition demo_sidecar :: "pyval list \<Rightarrow> SidecarState" where
  "demo_sidecar ps = (SidecarState_init 0 0)\<lparr>ss_gateway_id := Some ''gw_1'', ss_applied_config_version := PInt 3,
     ss_active_config := demo_bundle ps, ss_config_expires_at := Some (hours 1), ss_control_plane_reachable := False\<rparr>"

definition demo_local :: "string \<Rightarrow> local_request" where
  "demo_local action = \<lparr>lr_action = action, lr_resource = ''room'', lr_agent_id = ''agt_1'', lr_amount = FNum 120,
     lr_credentials = [[(''credential_type'', PStr ''Badge''), (''credential_id'', PStr ''cred_1'')]],
     lr_nonce = Some ''n1'', lr_force_offline = False\<rparr>"

definition demo_sidecar_crypto :: issuer_crypto where
  "demo_sidecar_crypto = \<lparr>sha256_hex = (\<lambda>s. s), b64decode = Some, b64encode = (\<lambda>s. s), ed25519_key = (\<lambda>_. True),
     ed25519_verify = (\<lambda>pub sig msg. sig = ''s''), b64decode_lax = Some, public_bytes = (\<lambda>s. s),
     private_sign = (\<lambda>k s. Some s), json_loads = (\<lambda>s. None), fromisoformat = (\<lambda>s. None)\<rparr>"

lemma demo_local_approved:
  "snd (evaluate_local_request demo_sidecar_crypto demo_sidecar_config (demo_sidecar [demo_plain_policy]) (demo_local ''hotel.reserve'')) =
     Inr locally_approved"
  by code_simp

lemma demo_local_approved_state:
  "evaluate_local_request demo_sidecar_crypto demo_sidecar_config (demo_sidecar [demo_plain_policy]) (demo_local ''hotel.reserve'') =
     (fst (evaluate_local_request demo_sidecar_crypto demo_sidecar_config (demo_sidecar [demo_plain_policy]) (demo_local ''hotel.reserve'')),
      Inr locally_approved)"
  by (metis demo_local_approved prod.collapse)

theorem sidecar_approval_sound_witness:
  "is_offline (demo_sidecar [demo_plain_policy]) (demo_local ''hotel.reserve'') \<and>
   presented_as_required (ss_active_config (demo_sidecar [demo_plain_policy])) (demo_local ''hotel.reserve'') \<and>
   \<not> administrative ''hotel.reserve'' \<and> \<not> float_lt (FNum 5000) (lr_amount (demo_local ''hotel.reserve''))"
  using sidecar_approval_sound [OF demo_local_approved_state]
  by (simp add: is_offline_def demo_sidecar_def demo_local_def)

section \<open>Steps of a sidecar\<close>

text \<open>
  Requests, synchronizations with an environment of a class (its crypto is fixed) and time, in any
  order; the wall clock may jump, the monotonic one does not go back.
\<close>

inductive sidecar_step :: "issuer_crypto \<Rightarrow> SidecarConfig \<Rightarrow> (sidecar_env \<Rightarrow> bool) \<Rightarrow> SidecarState \<Rightarrow> SidecarState \<Rightarrow> bool"
  for c config E where
  authorize: "sidecar_step c config E s (fst (evaluate_local_request c config s q))"
| background: "E env \<Longrightarrow> sidecar_step c config E s (background_sync config env s)"
| manual: "E env \<Longrightarrow> sidecar_step c config E s (fst (trigger_manual_sync config env s))"
| time: "ss_monotonic s \<le> m \<Longrightarrow> sidecar_step c config E s (s\<lparr>ss_now := t, ss_monotonic := m\<rparr>)"

lemma fst_manual_sync:
  "fst (trigger_manual_sync config env s) = fst (send_heartbeat_sync config env (fst (sync_configuration_sync config env s)))"
  by (simp add: trigger_manual_sync_def case_prod_beta Let_def)

text \<open>
  What no synchronization touches, and what it does to the version: a relation that \<open>update_config\<close> with
  an accepted bundle and the changes of the other fields keep is kept by the whole synchronization.
\<close>

locale sync_kept =
  fixes R :: "SidecarState \<Rightarrow> SidecarState \<Rightarrow> bool" and E :: "sidecar_env \<Rightarrow> bool"
  assumes refl: "R s s"
    and trans: "R s t \<Longrightarrow> R t u \<Longrightarrow> R s u"
    and marks: "R s (s\<lparr>ss_control_plane_reachable := r, ss_last_sync_time := l, ss_last_heartbeat_time := h,
        ss_config_cache := k\<rparr>)"
    and activation: "E env \<Longrightarrow> check_bundle env s data = Inr (Some (v, b, x)) \<Longrightarrow> sv_fetch env url = Fetched data \<Longrightarrow>
        R s (update_config s v b x)"
begin

lemma mark:
  "R s (s\<lparr>ss_control_plane_reachable := r\<rparr>)"
  "R s (s\<lparr>ss_control_plane_reachable := r, ss_last_sync_time := l\<rparr>)"
  "R s (s\<lparr>ss_control_plane_reachable := r, ss_last_heartbeat_time := h\<rparr>)"
  "R s (s\<lparr>ss_config_cache := k\<rparr>)"
  using marks [where s = s and r = r and l = "ss_last_sync_time s" and h = "ss_last_heartbeat_time s" and k = "ss_config_cache s"]
    marks [where s = s and r = r and l = l and h = "ss_last_heartbeat_time s" and k = "ss_config_cache s"]
    marks [where s = s and r = r and l = "ss_last_sync_time s" and h = h and k = "ss_config_cache s"]
    marks [where s = s and r = "ss_control_plane_reachable s" and l = "ss_last_sync_time s" and h = "ss_last_heartbeat_time s"
      and k = k] by simp_all

lemma apply_kept: "E env \<Longrightarrow> sv_fetch env url = Fetched data \<Longrightarrow> R s (fst (apply_bundle env s data))"
  using activation refl trans mark(4)
  by (auto simp: apply_bundle_def save_config_cache_def Let_def split: sum.splits option.splits)
    (blast intro: trans activation mark)+

lemma endpoints_kept: "E env \<Longrightarrow> R s (fst (sync_endpoints env us s))"
proof (induction us arbitrary: s)
  case Nil
  then show ?case by (simp add: mark)
next
  case (Cons u us)
  show ?case
  proof (cases "sv_fetch env (gateway_url u s (''/config?client_version='' @ py_str (ss_applied_config_version s)))")
    case (Fetched data)
    have "R s (fst (apply_bundle env (s\<lparr>ss_control_plane_reachable := True\<rparr>) data))"
      using trans [OF mark(1) apply_kept [OF Cons.prems Fetched]] .
    then show ?thesis
      using Fetched trans [OF _ Cons.IH [OF Cons.prems]] by (auto split: prod.splits option.splits)
  qed (use Cons mark in auto)
qed

lemma sync_kept: "E env \<Longrightarrow> R s (fst (sync_configuration_sync config env s))"
  by (simp add: sync_configuration_sync_def refl endpoints_kept)

lemma beat_kept: "E env \<Longrightarrow> R s (fst (beat_endpoints config env p us s))"
proof (induction us arbitrary: s)
  case Nil
  then show ?case by (simp add: mark)
next
  case (Cons u us)
  show ?case
  proof (cases "sv_beat env (gateway_url u s ''/heartbeat'') p")
    case None
    then show ?thesis using Cons by simp
  next
    case (Some reply)
    let ?s1 = "s\<lparr>ss_control_plane_reachable := True, ss_last_heartbeat_time := Some (ss_now s)\<rparr>"
    have m: "R s ?s1" by (rule mark)
    show ?thesis
    proof (cases "val_get reply ''sync_required'' PNone")
      case (Inl e)
      then show ?thesis using Some trans [OF m Cons.IH [OF Cons.prems]] by simp
    next
      case (Inr v)
      then show ?thesis using Some m trans [OF m sync_kept [OF Cons.prems]] by (simp add: Let_def)
    qed
  qed
qed

lemma heartbeat_kept: "E env \<Longrightarrow> R s (fst (send_heartbeat_sync config env s))"
  by (simp add: send_heartbeat_sync_def refl beat_kept)

lemma background_kept: "E env \<Longrightarrow> R s (background_sync config env s)"
  by (simp add: background_sync_def) (blast intro: trans heartbeat_kept sync_kept)

lemma manual_kept: "E env \<Longrightarrow> R s (fst (trigger_manual_sync config env s))"
  unfolding fst_manual_sync by (blast intro: trans heartbeat_kept sync_kept)

end

definition version_forward :: "SidecarState \<Rightarrow> SidecarState \<Rightarrow> bool" where
  "version_forward s t \<longleftrightarrow>
     (\<forall>x. num_of (ss_applied_config_version s) = Some x \<and> float_lt (FNum 0) x \<longrightarrow>
        (\<exists>y. num_of (ss_applied_config_version t) = Some y \<and> float_le x y))"

definition ordered_versions :: "sidecar_env \<Rightarrow> bool" where
  "ordered_versions env \<longleftrightarrow>
     (\<forall>url d. sv_fetch env url = Fetched (PDict d) \<longrightarrow> num_of (dict_get d ''config_version'' (PInt 0)) \<noteq> Some FNaN)"

definition runtime_kept :: "SidecarState \<Rightarrow> SidecarState \<Rightarrow> bool" where
  "runtime_kept s t \<longleftrightarrow>
     ss_processed_nonces t = ss_processed_nonces s \<and> ss_monotonic t = ss_monotonic s \<and> ss_now t = ss_now s \<and>
     ss_metrics t = ss_metrics s \<and> ss_control_plane_public_key t = ss_control_plane_public_key s \<and>
     ss_gateway_id t = ss_gateway_id s"

lemma val_get_Inr: "val_get v k x = Inr w \<longleftrightarrow> (\<exists>d. v = PDict d \<and> w = dict_get d k x)"
  by (cases v) auto

lemma float_positive_trans:
  "float_lt (FNum 0) x \<Longrightarrow> float_le x y \<Longrightarrow> float_lt (FNum 0) y"
  by (cases x; cases y) (auto simp: float_le_def float_eq_def)

lemma float_le_trans: "float_le x y \<Longrightarrow> float_le y z \<Longrightarrow> float_le x z"
  by (cases x; cases y; cases z) (auto simp: float_le_def float_eq_def)

lemma float_le_positive: "float_lt (FNum 0) x \<Longrightarrow> float_le x x"
  by (cases x) (auto simp: float_le_def float_eq_def)

lemma float_le_linear: "float_lt (FNum 0) x \<Longrightarrow> y \<noteq> FNaN \<Longrightarrow> \<not> float_le y x \<Longrightarrow> float_le x y"
  by (cases x; cases y) (auto simp: float_le_def float_eq_def)

lemma py_le_number:
  assumes "num_of a = Some x"
  shows "py_le v a = (case num_of v of Some y \<Rightarrow> Inr (float_le y x) | None \<Rightarrow> Inl TypeError)"
proof -
  have "a \<noteq> PStr t" for t using assms by auto
  then show ?thesis using assms by (auto simp: py_le_def split: pyval.split option.split)
qed

lemma not_rollback_forward:
  assumes "is_rollback v a = Inr False" "num_of a = Some x" "float_lt (FNum 0) x" "num_of v \<noteq> Some FNaN"
  shows "\<exists>y. num_of v = Some y \<and> float_le x y"
proof -
  have pos: "\<not> float_le x (FNum 0)" using assms(3) by (cases x) (auto simp: float_le_def float_eq_def)
  have zero: "py_le a (PInt 0) = Inr (float_le x (FNum 0))"
    using assms(2) by (simp add: py_le_number [where x = "FNum 0"])
  have "\<exists>y. num_of v = Some y \<and> \<not> float_le y x"
    using assms(1) pos by (cases "num_of v") (auto simp: is_rollback_def zero py_le_number [OF assms(2)] split: if_splits)
  then show ?thesis using assms(3,4) float_le_linear by auto
qed

lemma check_bundle_Some:
  "check_bundle env s data = Inr (Some (v, b, x)) \<longleftrightarrow>
    (\<exists>d. data = PDict d \<and> signature_accepted env s data = Inr True \<and> v = dict_get d ''config_version'' (PInt 0) \<and>
      is_rollback v (ss_applied_config_version s) = Inr False \<and>
      parse_expiry (sv_crypto env) (dict_get d ''expires_at'' (PStr [])) = Inr x \<and> b = dict_get d ''bundle'' (PDict []))"
proof (cases data)
  case (PDict d)
  then show ?thesis
    by (cases "signature_accepted env s data"; cases "is_rollback (dict_get d ''config_version'' (PInt 0)) (ss_applied_config_version s)";
        cases "parse_expiry (sv_crypto env) (dict_get d ''expires_at'' (PStr []))")
      (auto simp: check_bundle_def)
qed (cases "signature_accepted env s data"; simp add: check_bundle_def)+

interpretation forward: sync_kept version_forward ordered_versions
proof
  fix s t u :: SidecarState
  show "version_forward s s" by (auto simp: version_forward_def float_le_positive)
  show "version_forward s t \<Longrightarrow> version_forward t u \<Longrightarrow> version_forward s u"
    unfolding version_forward_def using float_positive_trans float_le_trans by blast
next
  fix s r l h k
  show "version_forward s (s\<lparr>ss_control_plane_reachable := r, ss_last_sync_time := l, ss_last_heartbeat_time := h,
        ss_config_cache := k\<rparr>)" by (auto simp: version_forward_def float_le_positive)
next
  fix env s data v b x url
  assume o: "ordered_versions env" and c: "check_bundle env s data = Inr (Some (v, b, x))" and f: "sv_fetch env url = Fetched data"
  from c obtain d where d: "data = PDict d" "v = dict_get d ''config_version'' (PInt 0)"
    "is_rollback v (ss_applied_config_version s) = Inr False" by (auto simp: check_bundle_Some)
  have n: "num_of v \<noteq> Some FNaN" using o f unfolding ordered_versions_def d(1,2) by blast
  show "version_forward s (update_config s v b x)"
    unfolding version_forward_def update_config_def using not_rollback_forward [OF d(3) _ _ n] by simp
qed

interpretation runtime: sync_kept runtime_kept "\<lambda>_. True"
  by unfold_locales (auto simp: runtime_kept_def update_config_def)

lemma use_nonce_frame:
  assumes "(case n of Some (x # xs) \<Rightarrow> use_nonce c s (x # xs) | _ \<Rightarrow> (s, Inr None)) = (s1, v)"
  shows "s1 = s\<lparr>ss_processed_nonces := ss_processed_nonces s1\<rparr>"
    and "(h, e) \<in> set (ss_processed_nonces s) \<Longrightarrow> ss_monotonic s < e \<Longrightarrow> (h, e) \<in> set (ss_processed_nonces s1)"
  using assms by (auto simp: use_nonce_def live_nonces_def Let_def split: option.splits list.splits if_splits)

lemma evaluate_frame:
  fixes c config s q
  defines "s' \<equiv> fst (evaluate_local_request c config s q)"
  shows "s' = s\<lparr>ss_processed_nonces := ss_processed_nonces s', ss_metrics := ss_metrics s'\<rparr>"
    and "(h, e) \<in> set (ss_processed_nonces s) \<Longrightarrow> ss_monotonic s < e \<Longrightarrow> (h, e) \<in> set (ss_processed_nonces s')"
    and "ss_metrics s' = ss_metrics s \<or> (\<exists>r off. ss_metrics s' = count_request r off (ss_metrics s))"
proof -
  obtain s1 v where n: "(case lr_nonce q of Some (x # xs) \<Rightarrow> use_nonce c s (x # xs) | _ \<Rightarrow> (s, Inr None)) = (s1, v)"
    by fastforce
  note k = use_nonce_frame [OF n]
  have m: "ss_metrics s1 = ss_metrics s" by (subst k(1)) simp
  have "s' = s1 \<or> (\<exists>r off. s' = record_local_request s1 r off)"
    unfolding s'_def evaluate_local_request_def n Let_def by (auto split: sum.splits)
  then show "s' = s\<lparr>ss_processed_nonces := ss_processed_nonces s', ss_metrics := ss_metrics s'\<rparr>"
    "(h, e) \<in> set (ss_processed_nonces s) \<Longrightarrow> ss_monotonic s < e \<Longrightarrow> (h, e) \<in> set (ss_processed_nonces s')"
    "ss_metrics s' = ss_metrics s \<or> (\<exists>r off. ss_metrics s' = count_request r off (ss_metrics s))"
    using k m by (auto simp: record_local_request_def) (metis SidecarState.unfold_congs(13,15))+
qed

lemma evaluate_fields [simp]:
  "ss_applied_config_version (fst (evaluate_local_request c config s q)) = ss_applied_config_version s"
  "ss_control_plane_public_key (fst (evaluate_local_request c config s q)) = ss_control_plane_public_key s"
  "ss_monotonic (fst (evaluate_local_request c config s q)) = ss_monotonic s"
  "ss_gateway_id (fst (evaluate_local_request c config s q)) = ss_gateway_id s"
  by (subst evaluate_frame(1), simp)+

section \<open>Replay\<close>

definition replay_refusal :: "string \<Rightarrow> local_result" where
  "replay_refusal n = locally_rejected ''REPLAY_ATTACK_DETECTED'' (''Nonce '' @ in_quotes n @ '' has already been processed.'')"

definition usable_nonce :: "string \<Rightarrow> bool" where
  "usable_nonce n = (n \<noteq> [] \<and> list_all (\<lambda>x. (of_char x :: nat) < 128) n)"

lemma evaluate_nonce:
  assumes "lr_nonce q = Some n" "usable_nonce n"
  shows "sha256_hex c n \<in> set (map fst (live_nonces s)) \<Longrightarrow> snd (evaluate_local_request c config s q) = Inr (replay_refusal n)"
    and "sha256_hex c n \<notin> set (map fst (live_nonces s)) \<Longrightarrow>
      (sha256_hex c n, ss_monotonic s + seconds 300) \<in> set (ss_processed_nonces (fst (evaluate_local_request c config s q)))"
proof -
  have n: "(case lr_nonce q of Some (x # xs) \<Rightarrow> use_nonce c s (x # xs) | _ \<Rightarrow> (s, Inr None)) = use_nonce c s n"
    using assms by (auto simp: usable_nonce_def neq_Nil_conv)
  show "snd (evaluate_local_request c config s q) = Inr (replay_refusal n)" if "sha256_hex c n \<in> set (map fst (live_nonces s))"
    using that assms(2) unfolding evaluate_local_request_def n Let_def
    by (simp add: use_nonce_def usable_nonce_def replay_refusal_def Let_def)
  assume "sha256_hex c n \<notin> set (map fst (live_nonces s))"
  then have u: "use_nonce c s n =
      (s\<lparr>ss_processed_nonces := live_nonces s @ [(sha256_hex c n, ss_monotonic s + seconds 300)]\<rparr>, Inr None)"
    using assms(2) by (simp add: use_nonce_def usable_nonce_def Let_def)
  show "(sha256_hex c n, ss_monotonic s + seconds 300) \<in> set (ss_processed_nonces (fst (evaluate_local_request c config s q)))"
    unfolding evaluate_local_request_def n u Let_def by (simp add: record_local_request_def split: sum.split)
qed

lemma sidecar_step_nonces:
  assumes "sidecar_step c config E s t"
  shows "ss_monotonic s \<le> ss_monotonic t \<and>
    (\<forall>h e. (h, e) \<in> set (ss_processed_nonces s) \<and> ss_monotonic s < e \<longrightarrow> (h, e) \<in> set (ss_processed_nonces t))"
  using assms
proof cases
  case (background env)
  then show ?thesis using runtime.background_kept [OF TrueI, of s config env] by (simp add: runtime_kept_def)
next
  case (manual env)
  then show ?thesis using runtime.manual_kept [OF TrueI, of s config env] by (simp add: runtime_kept_def)
qed (auto simp: evaluate_frame(2))

lemma sidecar_steps_nonces:
  "(sidecar_step c config E)\<^sup>*\<^sup>* s t \<Longrightarrow> (h, e) \<in> set (ss_processed_nonces s) \<Longrightarrow> ss_monotonic t < e \<Longrightarrow>
     ss_monotonic s \<le> ss_monotonic t \<and> (h, e) \<in> set (ss_processed_nonces t)"
proof (induction rule: rtranclp_induct)
  case (step t u)
  then show ?case using sidecar_step_nonces [OF step.hyps(2)] by fastforce
qed simp

text \<open>
  C18. A nonce serves once. After a request that was not itself refused as a replay, whatever was
  decided, each later request with the same nonce is refused as a replay until 300 seconds of the
  monotonic clock have passed, however many requests, synchronizations and jumps of the wall clock lie
  between and whatever the request asks for.
\<close>

theorem sidecar_replay_refused:
  assumes "lr_nonce q = Some n" "usable_nonce n"
    and "snd (evaluate_local_request c config s q) \<noteq> Inr (replay_refusal n)"
    and "(sidecar_step c config E)\<^sup>*\<^sup>* (fst (evaluate_local_request c config s q)) t"
    and "ss_monotonic t < ss_monotonic s + seconds 300"
    and "lr_nonce q' = Some n"
  shows "snd (evaluate_local_request c config' t q') = Inr (replay_refusal n)"
proof (rule evaluate_nonce(1) [OF assms(6,2)])
  have "(sha256_hex c n, ss_monotonic s + seconds 300) \<in> set (ss_processed_nonces t)"
    using sidecar_steps_nonces [OF assms(4) evaluate_nonce(2) [OF assms(1,2)] assms(5)] evaluate_nonce(1) [OF assms(1,2)] assms(3)
    by blast
  then show "sha256_hex c n \<in> set (map fst (live_nonces t))"
    using assms(5) by (force simp: live_nonces_def)
qed

theorem sidecar_replay_refused_witness:
  "snd (evaluate_local_request demo_sidecar_crypto demo_sidecar_config
     ((fst (evaluate_local_request demo_sidecar_crypto demo_sidecar_config (demo_sidecar []) (demo_local ''hotel.reserve'')))
        \<lparr>ss_now := hours 2, ss_monotonic := seconds 299\<rparr>) (demo_local ''hotel.cancel'')) = Inr (replay_refusal ''n1'')"
proof (rule sidecar_replay_refused [where E = "\<lambda>_. False"])
  show "lr_nonce (demo_local ''hotel.reserve'') = Some ''n1''" "lr_nonce (demo_local ''hotel.cancel'') = Some ''n1''"
    "usable_nonce ''n1''" by (simp_all add: demo_local_def usable_nonce_def)
  show "snd (evaluate_local_request demo_sidecar_crypto demo_sidecar_config (demo_sidecar []) (demo_local ''hotel.reserve''))
      \<noteq> Inr (replay_refusal ''n1'')" by code_simp
  show "(sidecar_step demo_sidecar_crypto demo_sidecar_config (\<lambda>_. False))\<^sup>*\<^sup>*
      (fst (evaluate_local_request demo_sidecar_crypto demo_sidecar_config (demo_sidecar []) (demo_local ''hotel.reserve'')))
      ((fst (evaluate_local_request demo_sidecar_crypto demo_sidecar_config (demo_sidecar []) (demo_local ''hotel.reserve'')))
        \<lparr>ss_now := hours 2, ss_monotonic := seconds 299\<rparr>)"
    by (rule r_into_rtranclp, rule sidecar_step.time)
      (simp add: demo_sidecar_def SidecarState_init_def seconds_def)
qed (simp add: demo_sidecar_def SidecarState_init_def seconds_def)

section \<open>Versions and signatures\<close>

text \<open>
  C19. Synchronization never goes back. While a positive version is applied, requests, synchronizations
  and time only replace it by a version at least as large, provided no answer of the control plane has the
  JSON number \<open>NaN\<close> as its version.
\<close>

theorem sidecar_no_rollback:
  assumes "(sidecar_step c config E)\<^sup>*\<^sup>* s t" and "\<And>env. E env \<Longrightarrow> ordered_versions env"
    and "num_of (ss_applied_config_version s) = Some x" "float_lt (FNum 0) x"
  shows "\<exists>y. num_of (ss_applied_config_version t) = Some y \<and> float_le x y"
proof -
  have "version_forward s t"
    using assms(1)
  proof (induction rule: rtranclp_induct)
    case base
    show ?case by (rule forward.refl)
  next
    case (step t u)
    have "version_forward t u"
      using step.hyps(2)
    proof cases
      case (authorize q)
      then show ?thesis using forward.refl [of t] by (simp add: version_forward_def)
    next
      case (time m x)
      then show ?thesis using forward.refl [of t] by (simp add: version_forward_def)
    qed (use forward.background_kept forward.manual_kept assms(2) in auto)
    then show ?case by (rule forward.trans [OF step.IH])
  qed
  then show ?thesis using assms(3,4) by (simp add: version_forward_def)
qed

definition demo_sidecar_env :: "fetched \<Rightarrow> sidecar_env" where
  "demo_sidecar_env answer = \<lparr>sv_crypto = demo_sidecar_crypto\<lparr>fromisoformat := (\<lambda>t. Some (days 1))\<rparr>, sv_local_public = ''pk'',
     sv_local_sign = (\<lambda>m. ''s''), sv_fetch = (\<lambda>url. answer), sv_beat = (\<lambda>url p. None), sv_send = (\<lambda>url v h. Inl ''refused''),
     sv_resolve = (\<lambda>h. Some [''93.184.216.34'']), sv_disk_ok = True\<rparr>"

definition demo_answer :: "pyval \<Rightarrow> fetched" where
  "demo_answer version = Fetched (PDict [(''config_version'', version), (''expires_at'', PStr ''2026-01-02T00:00:00Z''),
     (''bundle'', PDict []), (''signature'', PStr ''forged'')])"

theorem sidecar_no_rollback_witness:
  "\<exists>y. num_of (ss_applied_config_version
     (background_sync demo_sidecar_config (demo_sidecar_env (demo_answer (PInt 2))) (demo_sidecar []))) = Some y \<and> float_le (FNum 3) y"
proof (rule sidecar_no_rollback [where s = "demo_sidecar []" and E = "\<lambda>e. e = demo_sidecar_env (demo_answer (PInt 2))"])
  show "(sidecar_step c demo_sidecar_config (\<lambda>e. e = demo_sidecar_env (demo_answer (PInt 2))))\<^sup>*\<^sup>* (demo_sidecar [])
      (background_sync demo_sidecar_config (demo_sidecar_env (demo_answer (PInt 2))) (demo_sidecar []))" for c
    by (rule r_into_rtranclp, rule sidecar_step.background) simp
  show "ordered_versions env" if "env = demo_sidecar_env (demo_answer (PInt 2))" for env
    using that by (simp add: ordered_versions_def demo_sidecar_env_def demo_answer_def)
  show "num_of (ss_applied_config_version (demo_sidecar [])) = Some (FNum 3)" by (simp add: demo_sidecar_def)
qed simp

lemma load_config_cache_frame:
  "ss_control_plane_public_key (fst (load_config_cache env s)) = ss_control_plane_public_key s"
  "ss_metrics (fst (load_config_cache env s)) = ss_metrics s"
  by (simp_all add: load_config_cache_def update_config_def split: option.split sum.split prod.split)

lemma start_sidecar_frame:
  "ss_control_plane_public_key (start_sidecar config env s) = ss_control_plane_public_key s"
  "ss_metrics (start_sidecar config env s) = ss_metrics s"
  using runtime.sync_kept [OF TrueI] runtime.heartbeat_kept [OF TrueI] load_config_cache_frame
  by (simp_all add: start_sidecar_def Let_def runtime_kept_def)

lemma steps_public_key:
  "(sidecar_step c config E)\<^sup>*\<^sup>* s t \<Longrightarrow> ss_control_plane_public_key t = ss_control_plane_public_key s"
proof (induction rule: rtranclp_induct)
  case (step t u)
  have "ss_control_plane_public_key u = ss_control_plane_public_key t"
    using step.hyps(2) by cases (use runtime.background_kept [OF TrueI] runtime.manual_kept [OF TrueI] in \<open>auto simp: runtime_kept_def\<close>)
  then show ?case using step.IH by simp
qed simp

text \<open>
  C20. No signature is ever verified. A sidecar started from its initial state, whatever is in the cache
  file, never learns the key of the control plane, so in each state it reaches it activates every answer
  that is a JSON object with a newer version and an expiry that can be parsed, whatever signature, hash and organization
  it has; and the next start activates whatever the cache file holds, with any version, an older one or an
  expired one included.
\<close>

theorem unsigned_config_accepted:
  assumes "(sidecar_step c config E)\<^sup>*\<^sup>* (start_sidecar config env ((SidecarState_init now monotonic)\<lparr>ss_config_cache := k\<rparr>)) t"
    and "parse_expiry (sv_crypto env') (dict_get d ''expires_at'' (PStr [])) = Inr x"
    and "py_truthy (dict_get d ''expires_at'' PNone)"
  shows "ss_control_plane_public_key t = None
    \<and> (is_rollback (dict_get d ''config_version'' (PInt 0)) (ss_applied_config_version t) = Inr False \<longrightarrow>
         check_bundle env' t (PDict d) = Inr (Some (dict_get d ''config_version'' (PInt 0), dict_get d ''bundle'' (PDict []), x)))
    \<and> load_config_cache env' ((SidecarState_init now' monotonic')\<lparr>ss_config_cache := Some (PDict d)\<rparr>) =
        (update_config ((SidecarState_init now' monotonic')\<lparr>ss_config_cache := Some (PDict d)\<rparr>)
           (dict_get d ''config_version'' (PInt 0)) (dict_get d ''bundle'' (PDict [])) x, True)"
proof -
  have k: "ss_control_plane_public_key t = None"
    using steps_public_key [OF assms(1)] by (simp add: start_sidecar_frame SidecarState_init_def)
  have e: "dict_get d ''expires_at'' PNone = dict_get d ''expires_at'' (PStr [])"
    using assms(3) by (simp add: dict_get_def split: option.splits)
  show ?thesis
    using assms(2,3) k
    by (simp add: check_bundle_Some signature_accepted_def present_def load_config_cache_def read_cache_def SidecarState_init_def e)
qed

theorem unsigned_config_accepted_witness:
  "check_bundle (demo_sidecar_env NotModified) (start_sidecar demo_sidecar_config (demo_sidecar_env NotModified)
      ((SidecarState_init 0 0)\<lparr>ss_config_cache := None\<rparr>))
     (PDict [(''config_version'', PInt 9), (''expires_at'', PStr ''2026-01-02T00:00:00Z''), (''signature'', PStr ''forged'')]) =
     Inr (Some (PInt 9, PDict [], days 1))"
proof -
  let ?d = "[(''config_version'', PInt 9), (''expires_at'', PStr ''2026-01-02T00:00:00Z''), (''signature'', PStr ''forged'')]"
  let ?e = "demo_sidecar_env NotModified" and ?s = "(SidecarState_init 0 0)\<lparr>ss_config_cache := None\<rparr>"
  have p: "parse_expiry (sv_crypto ?e) (dict_get ?d ''expires_at'' (PStr [])) = Inr (days 1)" "py_truthy (dict_get ?d ''expires_at'' PNone)"
    by (simp_all add: parse_expiry_def demo_sidecar_env_def)
  have v: "is_rollback (dict_get ?d ''config_version'' (PInt 0)) (ss_applied_config_version (start_sidecar demo_sidecar_config ?e ?s)) = Inr False"
    by (simp add: start_sidecar_def load_config_cache_def sync_configuration_sync_def send_heartbeat_sync_def endpoints_of_def
        present_def demo_sidecar_config_def demo_sidecar_env_def SidecarState_init_def is_rollback_def py_le_def float_le_def
        float_eq_def)
  show ?thesis
    using unsigned_config_accepted [where c = demo_sidecar_crypto and E = "\<lambda>_. False" and config = demo_sidecar_config
      and env = ?e and now = 0 and monotonic = 0 and k = None, OF rtranclp.rtrancl_refl p] v by simp
qed

section \<open>Metrics\<close>

definition metrics_sound :: "sidecar_metrics \<Rightarrow> bool" where
  "metrics_sound m \<longleftrightarrow> 0 \<le> approved_requests m \<and> 0 \<le> rejected_requests m \<and> 0 \<le> offline_requests m \<and>
     approved_requests m + rejected_requests m \<le> total_requests m \<and> offline_requests m \<le> total_requests m \<and> error_count m = 0"

lemma lo_decision_cases:
  assumes "evaluate_local_request c config s q = (s', Inr d)"
  shows "lo_decision d \<noteq> ''ERROR''"
proof -
  obtain s1 v where n: "(case lr_nonce q of Some (x # xs) \<Rightarrow> use_nonce c s (x # xs) | _ \<Rightarrow> (s, Inr None)) = (s1, v)"
    by fastforce
  note k = use_nonce_parts(5) [OF n]
  have "final_check cfg q = Inr d \<Longrightarrow> lo_decision d \<noteq> ''ERROR''" for cfg
    by (auto simp: final_check_def rbind_Inr_iff split: if_splits)
  moreover have "credential_check cfg q = Inr (Some d) \<Longrightarrow> lo_decision d \<noteq> ''ERROR''"
    "risk_check q = Some d \<Longrightarrow> lo_decision d \<noteq> ''ERROR''" "apl_check apl q = Inr (Some d) \<Longrightarrow> lo_decision d \<noteq> ''ERROR''"
    "offline_check p q = Some d \<Longrightarrow> lo_decision d \<noteq> ''ERROR''" for cfg apl p
    by (auto dest: refuses)
  ultimately have "evaluate_config cfg q = Inr d \<Longrightarrow> lo_decision d \<noteq> ''ERROR''" for cfg
    by (auto simp: evaluate_config_def rbind_Inr_iff split: option.splits)
  then show ?thesis
    using assms k \<open>\<And>p. offline_check p q = Some d \<Longrightarrow> lo_decision d \<noteq> ''ERROR''\<close> unfolding evaluate_local_request_def n Let_def
    by (auto simp: rbind_Inr_iff split: sum.splits option.splits if_splits)
qed

lemma record_outcome:
  "(case out of Inl e \<Rightarrow> (s1, Inl e) | Inr d \<Rightarrow> (record_local_request s1 (lo_decision d) off, Inr d)) = (s', w) \<Longrightarrow>
     s' = s1 \<or> (\<exists>d. w = Inr d \<and> s' = record_local_request s1 (lo_decision d) off)"
  by (cases out) auto

lemma evaluate_metrics:
  "ss_metrics (fst (evaluate_local_request c config s q)) = ss_metrics s \<or>
   (\<exists>r off. r \<noteq> ''ERROR'' \<and> ss_metrics (fst (evaluate_local_request c config s q)) = count_request r off (ss_metrics s))"
proof -
  obtain s1 v where n: "(case lr_nonce q of Some (x # xs) \<Rightarrow> use_nonce c s (x # xs) | _ \<Rightarrow> (s, Inr None)) = (s1, v)"
    by fastforce
  have m: "ss_metrics s1 = ss_metrics s" by (subst use_nonce_frame(1) [OF n]) simp
  obtain s' w where e: "evaluate_local_request c config s q = (s', w)" by fastforce
  have "s' = s1 \<or> (\<exists>d. w = Inr d \<and> s' = record_local_request s1 (lo_decision d) (is_offline s q))"
    using e unfolding evaluate_local_request_def n Let_def prod.case by (rule record_outcome)
  then show ?thesis
  proof
    assume "\<exists>d. w = Inr d \<and> s' = record_local_request s1 (lo_decision d) (is_offline s q)"
    then obtain d where d: "w = Inr d" "s' = record_local_request s1 (lo_decision d) (is_offline s q)" by blast
    have "lo_decision d \<noteq> ''ERROR''" using lo_decision_cases e d(1) by blast
    moreover have "ss_metrics s' = count_request (lo_decision d) (is_offline s q) (ss_metrics s)"
      by (simp add: d(2) record_local_request_def m)
    ultimately show ?thesis unfolding e fst_conv by blast
  qed (simp add: e m)
qed

text \<open>
  The metrics add up. In every state a sidecar reaches from its start, no counter is negative, the approved
  and the rejected requests together and the offline ones are at most all that were counted (requests sent to
  the control plane or to a person count in neither), and the error count, which every heartbeat reports,
  is 0: no decision is \<open>ERROR\<close>, and a request whose evaluation raises is not counted at all.
\<close>

theorem sidecar_metrics_sound:
  assumes "(sidecar_step c config E)\<^sup>*\<^sup>* (start_sidecar config env ((SidecarState_init now monotonic)\<lparr>ss_config_cache := k\<rparr>)) t"
  shows "metrics_sound (ss_metrics t)"
  using assms
proof (induction rule: rtranclp_induct)
  case base
  show ?case by (simp add: start_sidecar_frame SidecarState_init_def metrics_sound_def)
next
  case (step t u)
  show ?case
    using step.hyps(2)
  proof cases
    case (authorize q)
    then show ?thesis
      using step.IH evaluate_metrics [of c config t q] by (auto simp: metrics_sound_def count_request_def Let_def)
  qed (use step.IH runtime.background_kept [OF TrueI] runtime.manual_kept [OF TrueI] in \<open>auto simp: runtime_kept_def\<close>)
qed

theorem sidecar_metrics_sound_witness:
  "metrics_sound (ss_metrics (start_sidecar demo_sidecar_config (demo_sidecar_env NotModified) ((SidecarState_init 5 5)\<lparr>ss_config_cache := None\<rparr>)))"
  by (rule sidecar_metrics_sound [OF rtranclp.rtrancl_refl])

section \<open>The probes\<close>

text \<open>
  The probes never answer. \<open>get_health_summary\<close> takes the lock and calls \<open>is_config_expired\<close>, which
  takes it again; the lock is not reentrant, so whatever the state is neither \<open>/health\<close> nor \<open>/ready\<close> returns,
  while the expiry alone can be asked for.
\<close>

theorem sidecar_probes_block:
  "health_check s = None \<and> readiness_check config s = None \<and> is_config_expired_locked s False = Some (is_config_expired s)"
  by (simp add: health_check_def readiness_check_def get_health_summary_def is_config_expired_locked_def with_lock_def)

end
