(* ===== verification/Sidecar_Checks.thy ===== *)
theory Sidecar_Checks
  imports Sidecar_Safety APL_Evaluator Ssrf
begin

text \<open>
  How the sidecar's reading of APL rules compares with the control plane's (\<open>APL_Evaluator\<close>), and which
  addresses its delivery may reach compared with the gateway's (\<open>Ssrf\<close>).
\<close>

section \<open>Conditions both evaluators read alike\<close>

definition local_context :: "local_request \<Rightarrow> pyval" where
  "local_context q = PDict (local_apl_context q)"

definition shared_fields :: "string list" where
  "shared_fields = [''agent'', ''agent.id'', ''action'', ''resource'', ''input'', ''input.amount'']"

definition shared_operators :: "string list" where
  "shared_operators = [''eq'', ''gt'', ''gte'', ''lt'', ''lte'', ''in'', ''starts_with'', ''exists'']"

text \<open>An atom on a known field, with a common operator and, for an order, values that are numbers.\<close>

definition shared_atom :: "local_request \<Rightarrow> pyval \<Rightarrow> bool" where
  "shared_atom q cond =
     (case cond of
        PDict d \<Rightarrow>
          (case (dict_get d ''field'' (PStr []), dict_get d ''operator'' (PStr ''eq'')) of
             (PStr f, PStr op) \<Rightarrow>
               f \<in> set shared_fields \<and> op \<in> set shared_operators \<and> list_all (\<lambda>k. k \<notin> fst ` set d) [''all'', ''any'', ''not'']
               \<and> (op \<in> {''gt'', ''gte'', ''lt'', ''lte''} \<longrightarrow>
                    \<not> raises (py_float (dict_get (local_apl_context q) f PNone)) \<and> \<not> raises (py_float (dict_get d ''value'' PNone)))
           | _ \<Rightarrow> False)
      | _ \<Rightarrow> False)"

definition atom_value :: "local_request \<Rightarrow> pyval \<Rightarrow> bool" where
  "atom_value q cond = (case condition_holds q cond of Inr m \<Rightarrow> m | Inl e \<Rightarrow> False)"

lemma shared_field_values:
  assumes "f \<in> set shared_fields"
  shows "context_value q (PStr f) = Inr (dict_get (local_apl_context q) f PNone)"
    and "resolve_field_value (local_context q) (PStr f) = Inr (dict_get (local_apl_context q) f PNone)"
    and "dict_get (local_apl_context q) f PNone \<noteq> PNone" and "f \<noteq> []"
  using assms by (auto simp: shared_fields_def context_value_def resolve_field_value_def local_context_def local_apl_context_def)

lemma shared_operator_match:
  assumes "op \<in> set shared_operators" "a \<noteq> PNone"
    and "op \<in> {''gt'', ''gte'', ''lt'', ''lte''} \<longrightarrow> \<not> raises (py_float a) \<and> \<not> raises (py_float e)"
  shows "\<exists>b. operator_holds op a e = Inr b \<and> atomic_match (py_strip (py_lower op)) a e = Inr b"
proof -
  have "list_all (\<lambda>op. py_strip (py_lower op) = op) shared_operators" by code_simp
  then have low: "py_strip (py_lower op) = op" using assms(1) by (simp add: list_all_iff)
  have "op \<in> {''eq'', ''in'', ''starts_with'', ''exists''} \<or> op \<in> {''gt'', ''gte'', ''lt'', ''lte''}"
    using assms(1) by (auto simp: shared_operators_def)
  then show ?thesis
  proof
    assume "op \<in> {''eq'', ''in'', ''starts_with'', ''exists''}"
    then show ?thesis
      unfolding low by (elim insertE emptyE) (auto simp: operator_holds_def atomic_match_def assms(2) string_condition_def split: pyval.split)
  next
    assume o1: "op \<in> {''gt'', ''gte'', ''lt'', ''lte''}"
    with assms(3) obtain x y where xy: "py_float a = Inr x" "py_float e = Inr y" by (auto simp: not_raises_iff)
    have "e \<noteq> PNone" using xy(2) by auto
    with o1 show ?thesis
      unfolding low by (elim insertE emptyE)
        (simp_all add: operator_holds_def atomic_match_def assms(2) compare_py_floats_def numeric_condition_def compare_floats_def xy)
  qed
qed

lemma shared_atom_value:
  assumes "shared_atom q c"
  shows "condition_holds q c = Inr (atom_value q c)"
    and "\<exists>t. evaluate_condition_node c (local_context q) path = Inr (atom_value q c, [t])"
proof -
  from assms obtain d f op where c: "c = PDict d" and f: "dict_get d ''field'' (PStr []) = PStr f" "f \<in> set shared_fields"
    and op: "dict_get d ''operator'' (PStr ''eq'') = PStr op" "op \<in> set shared_operators"
    and keys: "map_of d ''all'' = None" "map_of d ''any'' = None" "map_of d ''not'' = None"
    and num: "op \<in> {''gt'', ''gte'', ''lt'', ''lte''} \<longrightarrow>
        \<not> raises (py_float (dict_get (local_apl_context q) f PNone)) \<and> \<not> raises (py_float (dict_get d ''value'' PNone))"
    by (auto simp: shared_atom_def map_of_eq_None_iff split: pyval.splits)
  note v = shared_field_values(1-3) [OF f(2), of q] shared_field_values(4) [OF f(2)]
  have f': "dict_get d ''field'' PNone = PStr f"
    using f(1) v(4) by (auto simp: dict_get_def split: option.splits)
  from shared_operator_match [OF op(2) v(3) num] obtain b
    where b: "operator_holds op (dict_get (local_apl_context q) f PNone) (dict_get d ''value'' PNone) = Inr b"
      "atomic_match (py_strip (py_lower op)) (dict_get (local_apl_context q) f PNone) (dict_get d ''value'' PNone) = Inr b" by blast
  have h: "condition_holds q c = Inr b"
    by (simp add: condition_holds_def c f' op(1) v(1) b(1))
  then show "condition_holds q c = Inr (atom_value q c)" by (simp add: atom_value_def)
  show "\<exists>t. evaluate_condition_node c (local_context q) path = Inr (atom_value q c, [t])"
    using h b(2) by (simp add: evaluate_condition_node.simps c keys f(1) op(1) evaluate_atomic_condition_def v(2) atom_value_def Let_def)
qed

lemma shared_all_hold:
  "list_all (shared_atom q) cs \<Longrightarrow> all_hold q cs = Inr (list_all (atom_value q) cs)"
  by (induction cs) (auto simp: shared_atom_value(1))

lemma shared_children:
  "list_all (shared_atom q) cs \<Longrightarrow>
     \<exists>ts. evaluate_children cs (local_context q) path i = Inr (map (atom_value q) cs, ts)"
proof (induction cs arbitrary: i)
  case (Cons c cs)
  obtain t where "evaluate_condition_node c (local_context q) (path @ ''['' @ str_of_nat i @ '']'') = Inr (atom_value q c, [t])"
    using Cons.prems shared_atom_value(2) by fastforce
  moreover obtain ts where "evaluate_children cs (local_context q) path (Suc i) = Inr (map (atom_value q) cs, ts)"
    using Cons by fastforce
  ultimately show ?case by simp
qed simp

text \<open>
  C22. Where the sidecar reads a rule as the control plane does. Take a rule whose condition is a non-empty list
  \<open>all\<close> of atoms on the six fields of the request, with one of the eight operators both evaluators know and,
  for the four orders, operands that convert to numbers. The sidecar matches it exactly when the central
  evaluator matches it on the same data, and neither raises.
\<close>

theorem sidecar_rule_agreement:
  assumes "dict_get d ''when'' PNone = PDict [(''all'', PList cs)]" "cs \<noteq> []" "list_all (shared_atom q) cs"
  shows "\<exists>m t. rule_matches q (PDict d) = Inr m \<and> evaluate_rule (local_context q) (i, PDict d) = Inr t \<and> rt_matched t = m"
proof -
  have w: "py_truthy (PDict [(''all'', PList cs)])" by simp
  have s: "rule_matches q (PDict d) = Inr (list_all (atom_value q) cs)"
    using shared_all_hold [OF assms(3)] by (simp add: rule_matches_def assms(1))
  have c: "rule_condition d = PDict [(''all'', PList cs)]" by (simp add: rule_condition_def assms(1) w)
  obtain ts where ts: "evaluate_children cs (local_context q) ((''rules['' @ py_str (dict_get d ''id'' (default_rule_id i)) @ ''].when'') @ ''.all'') 0
      = Inr (map (atom_value q) cs, ts)" using shared_children [OF assms(3)] by blast
  have "evaluate_condition_node (PDict [(''all'', PList cs)]) (local_context q)
      (''rules['' @ py_str (dict_get d ''id'' (default_rule_id i)) @ ''].when'') = Inr (list_all id (map (atom_value q) cs), ts)"
    using assms(2) ts by (subst evaluate_condition_node.simps) simp
  then show ?thesis
    using s by (simp add: evaluate_rule_def c Let_def list_all_iff)
qed

definition apl_rule_document :: "string \<Rightarrow> string \<Rightarrow> pyval \<Rightarrow> (string \<times> pyval) list" where
  "apl_rule_document i effect condition = [(''id'', PStr i), (''effect'', PStr effect), (''when'', condition)]"

definition atom_document :: "string \<Rightarrow> string \<Rightarrow> pyval \<Rightarrow> pyval" where
  "atom_document f op v = PDict [(''field'', PStr f), (''operator'', PStr op), (''value'', v)]"

theorem sidecar_rule_agreement_witness:
  "\<exists>m t. rule_matches (demo_local ''hotel.reserve'') (PDict (apl_rule_document ''r'' ''DENY''
       (PDict [(''all'', PList [atom_document ''input.amount'' ''gt'' (PInt 100), atom_document ''action'' ''starts_with'' (PStr ''hotel'')])]))) = Inr m \<and>
     evaluate_rule (local_context (demo_local ''hotel.reserve'')) (0, PDict (apl_rule_document ''r'' ''DENY''
       (PDict [(''all'', PList [atom_document ''input.amount'' ''gt'' (PInt 100), atom_document ''action'' ''starts_with'' (PStr ''hotel'')])]))) = Inr t \<and>
     rt_matched t = m"
  by (rule sidecar_rule_agreement [where cs = "[atom_document ''input.amount'' ''gt'' (PInt 100), atom_document ''action'' ''starts_with'' (PStr ''hotel'')]"])
    (simp_all add: apl_rule_document_def atom_document_def shared_atom_def shared_fields_def shared_operators_def demo_local_def
      local_apl_context_def float_of_int_exact)

text \<open>
  The operators the sidecar does not know, as the control plane reads them: \<open>not_in\<close> holds of every
  operand that is no list, the two on texts compare the printed values.
\<close>

definition central_operators :: "string list" where
  "central_operators = [''neq'', ''not_in'', ''not_exists'', ''ends_with'', ''contains'']"

definition central_holds :: "string \<Rightarrow> pyval \<Rightarrow> pyval \<Rightarrow> bool" where
  "central_holds op a e =
     (if op = ''neq'' then \<not> py_eq a e
      else if op = ''not_in'' then (case e of PList es \<Rightarrow> \<not> py_in_list a es | _ \<Rightarrow> True)
      else if op = ''ends_with'' then py_endswith (py_str a) (py_str e)
      else op = ''contains'' \<and> py_contains (py_str a) (py_str e))"

text \<open>A policy of one rule that denies, and otherwise allows.\<close>

definition denial_policy :: "string \<Rightarrow> pyval \<Rightarrow> (string \<times> pyval) list" where
  "denial_policy i condition =
     [(''rules'', PList [PDict (apl_rule_document i ''DENY'' condition)]), (''default_effect'', PStr ''ALLOW'')]"

lemma effect_uppers: "py_upper ''REQUIRE_APPROVAL'' = ''REQUIRE_APPROVAL''" "py_upper ''DENY'' = ''DENY''" "py_upper ''ALLOW'' = ''ALLOW''"
  by code_simp+

lemma denial_policy_central:
  assumes "evaluate_condition_node condition ctx (''rules['' @ i @ ''].when'') = Inr (m, ts)" "py_truthy condition"
  shows "\<exists>e. evaluate_apl_policy (denial_policy i condition) ctx = Inr e \<and> decision e = (if m then ''DENY'' else ''ALLOW'')"
proof -
  have "condition \<noteq> PNone" using assms(2) by auto
  then show ?thesis
    using assms by (simp add: evaluate_apl_policy_def denial_policy_def apl_rule_document_def evaluate_rule_def rule_condition_def
        rule_effect_def effect_uppers decide_def matched_with_def join_ids_def policy_default_def Let_def)
qed

lemma central_operator_match:
  assumes "op \<in> set central_operators" "a \<noteq> PNone"
  shows "atomic_match (py_strip (py_lower op)) a e = Inr (central_holds op a e)"
proof -
  have "list_all (\<lambda>op. py_strip (py_lower op) = op) central_operators" by code_simp
  then have low: "py_strip (py_lower op) = op" using assms(1) by (simp add: list_all_iff)
  have "op \<in> {''neq'', ''not_in'', ''not_exists'', ''ends_with'', ''contains''}"
    using assms(1) by (auto simp: central_operators_def)
  then show ?thesis
    unfolding low by (elim insertE emptyE)
      (auto simp: atomic_match_def central_holds_def assms(2) string_condition_def split: pyval.split)
qed

lemma central_operator_diverges:
  assumes "op \<in> set central_operators" "f \<in> set shared_fields" "c = PDict [(''all'', PList [atom_document f op v])]"
  shows "policy_decision q (PDict (denial_policy i c)) = Inr None \<and>
    (\<exists>e. evaluate_apl_policy (denial_policy i c) (local_context q) = Inr e \<and>
       decision e = (if central_holds op (dict_get (local_apl_context q) f PNone) v then ''DENY'' else ''ALLOW''))"
proof
  note val = shared_field_values(1-3) [OF assms(2), of q]
  have "op \<in> {''neq'', ''not_in'', ''not_exists'', ''ends_with'', ''contains''}"
    using assms(1) by (auto simp: central_operators_def)
  then have "operator_holds op a v = Inr False" for a by (auto simp: operator_holds_def)
  then have "condition_holds q (atom_document f op v) = Inr False"
    by (simp add: condition_holds_def atom_document_def val(1))
  then show "policy_decision q (PDict (denial_policy i c)) = Inr None"
    by (simp add: policy_decision_def denial_policy_def first_result_def rule_decision_def rule_matches_def apl_rule_document_def assms(3))
  let ?m = "central_holds op (dict_get (local_apl_context q) f PNone) v"
  have "\<exists>t. evaluate_condition_node (atom_document f op v) (local_context q) path = Inr (?m, [t])" for path
    by (simp add: evaluate_condition_node.simps atom_document_def evaluate_atomic_condition_def val(2) Let_def
        central_operator_match [OF assms(1) val(3)])
  then obtain t where t: "evaluate_condition_node (atom_document f op v) (local_context q)
      (((''rules['' @ i @ ''].when'') @ ''.all'') @ ''['' @ str_of_nat 0 @ '']'') = Inr (?m, [t])" by blast
  have "evaluate_condition_node c (local_context q) (''rules['' @ i @ ''].when'') = Inr (?m, [t])"
    using t by (subst evaluate_condition_node.simps) (simp add: assms(3))
  from denial_policy_central [OF this] show "\<exists>e. evaluate_apl_policy (denial_policy i c) (local_context q) = Inr e \<and>
      decision e = (if ?m then ''DENY'' else ''ALLOW'')" by (simp add: assms(3))
qed

lemma connectives_central:
  assumes "cs \<noteq> []" "list_all (shared_atom q) cs" "shared_atom q c"
  shows "\<exists>e. evaluate_apl_policy (denial_policy i (PDict [(''any'', PList cs)])) (local_context q) = Inr e \<and>
      decision e = (if list_ex (atom_value q) cs then ''DENY'' else ''ALLOW'')"
    and "\<exists>e. evaluate_apl_policy (denial_policy i (PDict [(''not'', c)])) (local_context q) = Inr e \<and>
      decision e = (if atom_value q c then ''ALLOW'' else ''DENY'')"
proof -
  let ?p = "''rules['' @ i @ ''].when''"
  obtain ts where "evaluate_children cs (local_context q) (?p @ ''.any'') 0 = Inr (map (atom_value q) cs, ts)"
    using shared_children [OF assms(2)] by blast
  then have "evaluate_condition_node (PDict [(''any'', PList cs)]) (local_context q) ?p = Inr (list_ex (atom_value q) cs, ts)"
    using assms(1) by (subst evaluate_condition_node.simps) (simp add: list_ex_iff)
  from denial_policy_central [OF this] show "\<exists>e. evaluate_apl_policy (denial_policy i (PDict [(''any'', PList cs)])) (local_context q) = Inr e \<and>
      decision e = (if list_ex (atom_value q) cs then ''DENY'' else ''ALLOW'')" by simp
  obtain t where "evaluate_condition_node c (local_context q) (?p @ ''.not'') = Inr (atom_value q c, [t])"
    using shared_atom_value(2) [OF assms(3)] by blast
  then have "evaluate_condition_node (PDict [(''not'', c)]) (local_context q) ?p = Inr (\<not> atom_value q c, [t])"
    by (subst evaluate_condition_node.simps) simp
  from denial_policy_central [OF this] show "\<exists>e. evaluate_apl_policy (denial_policy i (PDict [(''not'', c)])) (local_context q) = Inr e \<and>
      decision e = (if atom_value q c then ''ALLOW'' else ''DENY'')" by (cases "atom_value q c") simp_all
qed

text \<open>
  C23. Where the sidecar reads policies differently, for a policy of one rule that denies and otherwise allows.
  A condition \<open>any\<close> or \<open>not\<close> always counts as fulfilled, so the sidecar always rejects, while the control plane
  denies exactly when one of the atoms of \<open>any\<close> holds (never when there are none), or when the atom under \<open>not\<close>
  does not (for atoms both read alike). An atom on a field of the request with one of the operators \<open>neq\<close>,
  \<open>not_in\<close>, \<open>not_exists\<close>, \<open>ends_with\<close> and \<open>contains\<close> never holds, so the sidecar lets pass, while the control plane
  denies exactly when it holds, which of these only \<open>not_exists\<close> never does. Besides, an earlier rule that asks
  for approval hides a later one that denies, which for the control plane takes precedence; and a policy
  without a matching rule decides nothing, where the control plane applies its default effect, \<open>DENY\<close> unless
  stated.
\<close>

theorem sidecar_policy_divergence:
  assumes "cs \<noteq> []" "list_all (shared_atom q) cs" "shared_atom q c"
  shows "(\<exists>r. policy_decision q (PDict (denial_policy i (PDict [(''any'', PList xs)]))) = Inr (Some r) \<and> lo_decision r = ''REJECTED'')
   \<and> (\<exists>r. policy_decision q (PDict (denial_policy i (PDict [(''not'', x)]))) = Inr (Some r) \<and> lo_decision r = ''REJECTED'')
   \<and> (\<exists>e. evaluate_apl_policy (denial_policy i (PDict [(''any'', PList [])])) (local_context q) = Inr e \<and> decision e = ''ALLOW'')
   \<and> (\<exists>e. evaluate_apl_policy (denial_policy i (PDict [(''any'', PList cs)])) (local_context q) = Inr e \<and>
        decision e = (if list_ex (atom_value q) cs then ''DENY'' else ''ALLOW''))
   \<and> (\<exists>e. evaluate_apl_policy (denial_policy i (PDict [(''not'', c)])) (local_context q) = Inr e \<and>
        decision e = (if atom_value q c then ''ALLOW'' else ''DENY''))
   \<and> list_all (\<lambda>op. list_all (\<lambda>f.
        policy_decision q (PDict (denial_policy i (PDict [(''all'', PList [atom_document f op v])]))) = Inr None \<and>
        (\<exists>e. evaluate_apl_policy (denial_policy i (PDict [(''all'', PList [atom_document f op v])])) (local_context q) = Inr e \<and>
           decision e = (if central_holds op (dict_get (local_apl_context q) f PNone) v then ''DENY'' else ''ALLOW'')))
        shared_fields) central_operators
   \<and> (\<exists>r. policy_decision q (PDict [(''rules'', PList [PDict [(''id'', PStr i), (''effect'', PStr ''REQUIRE_APPROVAL'')],
              PDict [(''id'', PStr j), (''effect'', PStr ''DENY'')]])]) = Inr (Some r) \<and> lo_decision r = ''PENDING_HUMAN_APPROVAL'')
   \<and> (\<exists>e. evaluate_apl_policy [(''rules'', PList [PDict [(''id'', PStr i), (''effect'', PStr ''REQUIRE_APPROVAL'')],
              PDict [(''id'', PStr j), (''effect'', PStr ''DENY'')]])] (local_context q) = Inr e \<and> decision e = ''DENY'')
   \<and> policy_decision q (PDict [(''rules'', PList [])]) = Inr None
   \<and> (\<exists>e. evaluate_apl_policy [(''rules'', PList [])] (local_context q) = Inr e \<and> decision e = ''DENY'')"
proof (intro conjI)
  show "list_all (\<lambda>op. list_all (\<lambda>f.
        policy_decision q (PDict (denial_policy i (PDict [(''all'', PList [atom_document f op v])]))) = Inr None \<and>
        (\<exists>e. evaluate_apl_policy (denial_policy i (PDict [(''all'', PList [atom_document f op v])])) (local_context q) = Inr e \<and>
           decision e = (if central_holds op (dict_get (local_apl_context q) f PNone) v then ''DENY'' else ''ALLOW'')))
        shared_fields) central_operators"
    using central_operator_diverges [OF _ _ refl] unfolding list_all_iff by blast
  show "\<exists>r. policy_decision q (PDict [(''rules'', PList [PDict [(''id'', PStr i), (''effect'', PStr ''REQUIRE_APPROVAL'')],
              PDict [(''id'', PStr j), (''effect'', PStr ''DENY'')]])]) = Inr (Some r) \<and> lo_decision r = ''PENDING_HUMAN_APPROVAL''"
    by (simp add: policy_decision_def first_result_def rule_decision_def rule_matches_def effect_uppers Let_def)
  show "\<exists>e. evaluate_apl_policy [(''rules'', PList [PDict [(''id'', PStr i), (''effect'', PStr ''REQUIRE_APPROVAL'')],
              PDict [(''id'', PStr j), (''effect'', PStr ''DENY'')]])] (local_context q) = Inr e \<and> decision e = ''DENY''"
    by (simp add: evaluate_apl_policy_def evaluate_rule_def rule_condition_def rule_effect_def effect_uppers decide_def matched_with_def
        join_ids_def Let_def)
  show "\<exists>e. evaluate_apl_policy [(''rules'', PList [])] (local_context q) = Inr e \<and> decision e = ''DENY''"
    by (simp add: evaluate_apl_policy_def decide_def matched_with_def policy_default_def effect_uppers Let_def)
  show "\<exists>e. evaluate_apl_policy (denial_policy i (PDict [(''any'', PList [])])) (local_context q) = Inr e \<and> decision e = ''ALLOW''"
    using denial_policy_central [of "PDict [(''any'', PList [])]" "local_context q" i False "[]"]
    by (simp add: evaluate_condition_node.simps)
qed (use connectives_central [OF assms] in \<open>simp_all add: rule_matches_def rule_decision_def apl_rule_document_def denial_policy_def
    policy_decision_def first_result_def effect_uppers Let_def locally_rejected_def\<close>)

theorem sidecar_policy_divergence_witness:
  "policy_decision (demo_local ''hotel.reserve'') (PDict (denial_policy ''r'' (PDict [(''all'', PList
       [atom_document ''action'' ''neq'' (PStr ''pay'')])]))) = Inr None \<and>
   (\<exists>e. evaluate_apl_policy (denial_policy ''r'' (PDict [(''all'', PList [atom_document ''action'' ''neq'' (PStr ''pay'')])]))
       (local_context (demo_local ''hotel.reserve'')) = Inr e \<and> decision e = ''DENY'')"
proof -
  let ?q = "demo_local ''hotel.reserve''" and ?c = "atom_document ''input.amount'' ''gt'' (PInt 100)"
  have c: "shared_atom ?q ?c"
    by (simp add: atom_document_def shared_atom_def shared_fields_def shared_operators_def demo_local_def local_apl_context_def float_of_int_exact)
  then have cs: "list_all (shared_atom ?q) [?c]" by simp
  have "''neq'' \<in> set central_operators" "''action'' \<in> set shared_fields" by (simp_all add: central_operators_def shared_fields_def)
  moreover have "central_holds ''neq'' (dict_get (local_apl_context ?q) ''action'' PNone) (PStr ''pay'')"
    by (simp add: central_holds_def local_apl_context_def demo_local_def)
  ultimately show ?thesis
    using sidecar_policy_divergence [OF _ cs c, where i = "''r''" and v = "PStr ''pay''" and xs = "[]" and x = PNone and j = "[]"]
    unfolding list_all_iff by fastforce
qed

section \<open>Addresses\<close>

definition dotted :: "nat list \<Rightarrow> string" where
  "dotted ns = py_join ''.'' (map str_of_nat ns)"

definition address_value :: "nat \<Rightarrow> nat \<Rightarrow> nat \<Rightarrow> nat \<Rightarrow> nat" where
  "address_value a b c d = ((a * 256 + b) * 256 + c) * 256 + d"

lemma digit_char_value:
  assumes "d < 10"
  shows "is_digit (digit_char d)" "digit_value (digit_char d) = int d"
proof -
  have "list_all (\<lambda>d. is_digit (digit_char d) \<and> digit_value (digit_char d) = int d) [0..<10]" by code_simp
  then show "is_digit (digit_char d)" "digit_value (digit_char d) = int d" using assms by (simp_all add: list_all_iff)
qed

lemma str_of_pos_text:
  "0 \<le> n \<Longrightarrow> str_of_pos n \<noteq> [] \<and> list_all is_digit (str_of_pos n) \<and> int_text 10 (str_of_pos n) = n"
proof (induction n rule: str_of_pos.induct)
  case (1 n)
  show ?case
  proof (cases "n < 10")
    case True
    then have "nat n < 10" using 1 by linarith
    then show ?thesis
      using True 1 by (subst (1 2 3) str_of_pos.simps) (simp add: digit_char_value int_text_def)
  next
    case False
    have "nat (n mod 10) < 10" by simp
    moreover have "int_text 10 (xs @ [x]) = 10 * int_text 10 xs + digit_value x" for xs x by (simp add: int_text_def)
    ultimately show ?thesis
      using False 1 by (subst (1 2 3) str_of_pos.simps) (simp add: digit_char_value)
  qed
qed

lemma py_int_digits:
  assumes "t \<noteq> []" "list_all is_digit t"
  shows "py_int t = Some (int_text 10 t)"
proof -
  have d: "\<not> is_digit (CHR ''_'')" "\<not> is_digit (CHR ''-'')" "\<not> is_digit (CHR ''+'')" by code_simp+
  have sp: "is_digit c \<Longrightarrow> \<not> is_space c" for c by (auto simp: is_digit_def is_space_def Let_def)
  have "list_all (\<lambda>c. \<not> is_space c) t" using assms(2) by (auto simp: list_all_iff sp)
  then have st: "py_strip t = t" by (rule strip_no_space)
  obtain c cs where t: "t = c # cs" using assms(1) by (cases t) auto
  have "c \<noteq> CHR ''-''" "c \<noteq> CHR ''+''" using assms(2) d t by auto
  then have sg: "split_sign t = (False, t)" by (simp add: split_sign_def t)
  have "py_split (CHR ''_'') t = [t]" using assms(2) d(1) by (intro py_split_no_sep) (auto simp: list_all_iff)
  then show ?thesis using assms by (simp add: py_int_def st sg Let_def)
qed

lemma octet_texts: "py_int (str_of_nat n) = Some (int n)" "CHR ''.'' \<notin> set (str_of_nat n)"
proof -
  have d: "\<not> is_digit (CHR ''.'')" by code_simp
  have n: "str_of_nat n = str_of_pos (int n)" by (simp add: str_of_nat_def str_of_int_def)
  show "py_int (str_of_nat n) = Some (int n)" using str_of_pos_text [of "int n"] by (simp add: n py_int_digits)
  show "CHR ''.'' \<notin> set (str_of_nat n)" using str_of_pos_text [of "int n"] d by (auto simp: n list_all_iff)
qed

lemma ip_to_int_dotted:
  assumes "a < 256" "b < 256" "c < 256" "d < 256"
  shows "ip_to_int (dotted [a, b, c, d]) = Some (int (address_value a b c d))"
proof -
  have "py_split (CHR ''.'') (dotted [a, b, c, d]) = map str_of_nat [a, b, c, d]"
    using octet_texts(2) assms by (simp add: dotted_def py_split_append py_split_no_sep)
  then show ?thesis
    using assms by (simp add: ip_to_int_def Let_def octet_texts(1) push_bit_eq_mult address_value_def)
qed

lemma and_high_bits:
  fixes v :: int
  assumes "0 \<le> v" "v < 2 ^ 32"
  shows "and v (push_bit k (mask (32 - k))) = push_bit k (v div 2 ^ k)"
proof (rule bit_eqI)
  fix i
  have "v = take_bit 32 v" using assms by (simp add: take_bit_int_eq_self)
  then have "bit v i \<Longrightarrow> i < 32" by (metis bit_take_bit_iff)
  then show "bit (and v (push_bit k (mask (32 - k)))) i \<longleftrightarrow> bit (push_bit k (v div 2 ^ k)) i"
    by (auto simp: bit_simps simp flip: drop_bit_eq_div)
qed

lemma range_texts:
  "ip_to_int ''255.0.0.0'' = Some 4278190080" "ip_to_int ''255.255.0.0'' = Some 4294901760"
  "ip_to_int ''255.240.0.0'' = Some 4293918720" "ip_to_int ''127.0.0.0'' = Some 2130706432"
  "ip_to_int ''169.254.0.0'' = Some 2851995648" "ip_to_int ''0.0.0.0'' = Some 0" "ip_to_int ''10.0.0.0'' = Some 167772160"
  "ip_to_int ''172.16.0.0'' = Some 2886729728" "ip_to_int ''192.168.0.0'' = Some 3232235520"
  by code_simp+

lemma is_safe_ip_value:
  assumes "ip_to_int t = Some v" "0 \<le> v" "v < 2 ^ 32"
  shows "is_safe_ip t allow \<longleftrightarrow> v div 2 ^ 24 \<notin> {0, 127} \<and> v div 2 ^ 16 \<noteq> 43518 \<and>
    (allow \<or> v div 2 ^ 24 \<noteq> 10 \<and> v div 2 ^ 20 \<noteq> 2753 \<and> v div 2 ^ 16 \<noteq> 49320)"
proof -
  have m: "and v 4278190080 = v div 2 ^ 24 * 2 ^ 24" "and v 4294901760 = v div 2 ^ 16 * 2 ^ 16"
    "and v 4293918720 = v div 2 ^ 20 * 2 ^ 20"
    using and_high_bits [OF assms(2,3), of 24] and_high_bits [OF assms(2,3), of 16] and_high_bits [OF assms(2,3), of 20]
    by (simp_all add: push_bit_eq_mult mask_eq_exp_minus_1)
  have r: "in_range v (net, msk) \<longleftrightarrow> (\<exists>n k. ip_to_int net = Some n \<and> ip_to_int msk = Some k \<and> and v k = n)"
    if "ip_to_int msk \<noteq> None" "ip_to_int net \<noteq> None" for net msk
    using that by (auto simp: in_range_def)
  show ?thesis
    by (auto simp: is_safe_ip_def assms(1) BLOCKED_RANGES_def rfc1918_def r range_texts m)
qed

lemma digits_inject:
  fixes a b m n k :: nat
  assumes "b < k" "n < k"
  shows "a * k + b = m * k + n \<longleftrightarrow> a = m \<and> b = n"
proof
  assume "a * k + b = m * k + n"
  then have "(a * k + b) div k = (m * k + n) div k" "(a * k + b) mod k = (m * k + n) mod k" by simp_all
  then show "a = m \<and> b = n" using assms by simp
qed simp

lemma octet_ranges:
  assumes "b < (256 :: nat)"
  shows "a * 256 + b = 43518 \<longleftrightarrow> a = 169 \<and> b = 254" "a * 256 + b = 49320 \<longleftrightarrow> a = 192 \<and> b = 168"
    "a * 16 + b div 16 = 2753 \<longleftrightarrow> a = 172 \<and> 16 \<le> b \<and> b < 32"
proof -
  show "a * 256 + b = 43518 \<longleftrightarrow> a = 169 \<and> b = 254" "a * 256 + b = 49320 \<longleftrightarrow> a = 192 \<and> b = 168"
    using digits_inject [of b 256 254 a 169] digits_inject [of b 256 168 a 192] assms by simp_all
  have "b div 16 = 1 \<longleftrightarrow> 16 \<le> b \<and> b < 32" by linarith
  then show "a * 16 + b div 16 = 2753 \<longleftrightarrow> a = 172 \<and> 16 \<le> b \<and> b < 32"
    using digits_inject [of "b div 16" 16 1 a 172] assms by simp
qed

lemma network_octets:
  assumes "p \<le> 32" "n AND netmask p = n" "k = 32 - p" "v < 2 ^ 32"
  shows "in_network (of_nat v :: 32 word) (n, p) \<longleftrightarrow> v div 2 ^ k = unat n div 2 ^ k"
proof -
  have "in_network (of_nat v :: 32 word) (n, p) \<longleftrightarrow> drop_bit k (of_nat v :: 32 word) = drop_bit k n"
    using in_network_drop [of p n "of_nat v"] assms(1-3) by simp
  also have "\<dots> \<longleftrightarrow> unat (drop_bit k (of_nat v :: 32 word)) = unat (drop_bit k n)" by (simp add: word_unat_eq_iff)
  also have "\<dots> \<longleftrightarrow> v div 2 ^ k = unat n div 2 ^ k"
    unfolding unat_drop_bit_eq using assms(4) by (simp add: drop_bit_eq_div unat_of_nat)
  finally show ?thesis .
qed

text \<open>
  C24. Which addresses a sidecar delivers to. A dotted address passes exactly when its first octet is neither 0 nor
  127, it is not in 169.254/16 and, unless private addresses are allowed, not in 10/8, 172.16/12 or
  192.168/16. So whatever the gateway's check permits passes, but not conversely: shared address space, multicast
  and the reserved networks, which the gateway refuses, pass here.
\<close>

theorem sidecar_safe_addresses:
  assumes "a < 256" "b < 256" "c < 256" "d < 256"
  shows "(is_safe_ip (dotted [a, b, c, d]) allow \<longleftrightarrow>
      a \<noteq> 0 \<and> a \<noteq> 127 \<and> \<not> (a = 169 \<and> b = 254) \<and>
      (allow \<or> a \<noteq> 10 \<and> \<not> (a = 172 \<and> 16 \<le> b \<and> b < 32) \<and> \<not> (a = 192 \<and> b = 168))) \<and>
    (is_ip_prohibited (IPv4Address (of_nat (address_value a b c d))) = None \<longrightarrow> is_safe_ip (dotted [a, b, c, d]) allow) \<and>
    list_all (\<lambda>(x, y). is_safe_ip (dotted [x, y, 0, 1]) False \<and>
        is_ip_prohibited (IPv4Address (of_nat (address_value x y 0 1))) \<noteq> None) [(100, 64), (224, 0), (240, 0), (198, 18)]"
proof -
  have exact: "is_safe_ip (dotted [a, b, c, d]) allow \<longleftrightarrow>
      a \<noteq> 0 \<and> a \<noteq> 127 \<and> \<not> (a = 169 \<and> b = 254) \<and>
      (allow \<or> a \<noteq> 10 \<and> \<not> (a = 172 \<and> 16 \<le> b \<and> b < 32) \<and> \<not> (a = 192 \<and> b = 168))"
    if "a < 256" "b < 256" "c < 256" "d < 256" for a b c d allow
  proof -
    let ?v = "address_value a b c d"
    have v: "?v < 2 ^ 32" "?v div 2 ^ 24 = a" "?v div 2 ^ 16 = a * 256 + b" "?v div 2 ^ 20 = a * 16 + b div 16"
      using that by (simp_all add: address_value_def)
    have i: "int ?v div 2 ^ 24 = int a" "int ?v div 2 ^ 16 = int (a * 256 + b)" "int ?v div 2 ^ 20 = int (a * 16 + b div 16)"
      using v(2-4) by (metis of_nat_numeral of_nat_power zdiv_int)+
    have r: "int ?v < 2 ^ 32" using v(1) by simp
    have j: "int (a * 256 + b) = 43518 \<longleftrightarrow> a = 169 \<and> b = 254" "int (a * 256 + b) = 49320 \<longleftrightarrow> a = 192 \<and> b = 168"
      "int (a * 16 + b div 16) = 2753 \<longleftrightarrow> a = 172 \<and> 16 \<le> b \<and> b < 32"
      unfolding octet_ranges [OF that(2), of a, symmetric] by linarith+
    show ?thesis
      unfolding is_safe_ip_value [OF ip_to_int_dotted [OF that] of_nat_0_le_iff r] i j by auto
  qed
  have net: "is_ip_prohibited (IPv4Address (of_nat (address_value x y z w))) = None \<Longrightarrow> x \<noteq> 0 \<and> x \<noteq> 127 \<and> x \<noteq> 10 \<and>
      \<not> (x = 169 \<and> y = 254) \<and> \<not> (x = 172 \<and> 16 \<le> y \<and> y < 32) \<and> \<not> (x = 192 \<and> y = 168)"
    if "x < 256" "y < 256" "z < 256" "w < 256" for x y z w
  proof -
    let ?v = "address_value x y z w"
    have v: "?v < 2 ^ 32" "?v div 2 ^ 24 = x" "?v div 2 ^ 16 = x * 256 + y" "?v div 2 ^ 20 = x * 16 + y div 16"
      using that by (simp_all add: address_value_def)
    have m8: "n AND netmask 8 = n \<Longrightarrow> in_network (of_nat ?v :: 32 word) (n, 8) \<longleftrightarrow> x = unat n div 2 ^ 24" for n
      using network_octets [of 8 n 24 ?v] v(1,2) by simp
    have m16: "n AND netmask 16 = n \<Longrightarrow> in_network (of_nat ?v :: 32 word) (n, 16) \<longleftrightarrow> x * 256 + y = unat n div 2 ^ 16" for n
      using network_octets [of 16 n 16 ?v] v(1,3) by simp
    have m12: "n AND netmask 12 = n \<Longrightarrow> in_network (of_nat ?v :: 32 word) (n, 12) \<longleftrightarrow> x * 16 + y div 16 = unat n div 2 ^ 20" for n
      using network_octets [of 12 n 20 ?v] v(1,4) by simp
    have nm: "(netmask 8 :: 32 word) = 0xFF000000" "(netmask 16 :: 32 word) = 0xFFFF0000" "(netmask 12 :: 32 word) = 0xFFF00000"
      by (simp_all add: netmask_def mask_eq_exp_minus_1)
    assume "is_ip_prohibited (IPv4Address (of_nat ?v)) = None"
    then have "\<not> in_any (of_nat ?v :: 32 word) PROHIBITED_IPV4_NETWORKS" unfolding ip4_exact .
    then have "\<not> in_network (of_nat ?v :: 32 word) (0, 8)" "\<not> in_network (of_nat ?v :: 32 word) (0x7F000000, 8)"
      "\<not> in_network (of_nat ?v :: 32 word) (0x0A000000, 8)" "\<not> in_network (of_nat ?v :: 32 word) (0xA9FE0000, 16)"
      "\<not> in_network (of_nat ?v :: 32 word) (0xAC100000, 12)" "\<not> in_network (of_nat ?v :: 32 word) (0xC0A80000, 16)"
      by (simp_all add: in_any_def PROHIBITED_IPV4_NETWORKS_def)
    then have "x \<noteq> 0" "x \<noteq> 127" "x \<noteq> 10" "x * 256 + y \<noteq> 43518" "x * 16 + y div 16 \<noteq> 2753" "x * 256 + y \<noteq> 49320"
      by (simp_all add: m8 m16 m12 nm)
    then show ?thesis using octet_ranges [OF that(2), of x] by blast
  qed
  have refused: "is_ip_prohibited (IPv4Address 1681915905) \<noteq> None" "is_ip_prohibited (IPv4Address 3758096385) \<noteq> None"
    "is_ip_prohibited (IPv4Address 4026531841) \<noteq> None" "is_ip_prohibited (IPv4Address 3323068417) \<noteq> None"
    unfolding ip4_exact
    by (simp_all add: in_any_def PROHIBITED_IPV4_NETWORKS_def in_network_def netmask_def mask_eq_exp_minus_1)
  have weaker: "list_all (\<lambda>(x, y). is_safe_ip (dotted [x, y, 0, 1]) False \<and>
        is_ip_prohibited (IPv4Address (of_nat (address_value x y 0 1))) \<noteq> None) [(100, 64), (224, 0), (240, 0), (198, 18)]"
    using refused by (simp add: exact address_value_def)
  show ?thesis using exact [OF assms] net [OF assms] weaker by blast
qed

theorem sidecar_safe_addresses_witness:
  "is_safe_ip (dotted [100, 64, 0, 1]) False \<and> \<not> is_safe_ip (dotted [172, 31, 255, 1]) False"
  using sidecar_safe_addresses [of 100 64 0 1 False] sidecar_safe_addresses [of 172 31 255 1 False] by simp

end
