(* ===== verification/GatewayControl.thy ===== *)
theory GatewayControl
  imports CrossOrg
begin

text \<open>
  The control plane of self-hosted gateways and sidecars (\<open>services/gateway_control_service.py\<close>,
  \<open>models/enterprise_gateway.py\<close>, \<open>api/enterprise_gateways.py\<close>): enrolment with a one-time token,
  heartbeats, and signed configurations with increasing versions. The control plane's key pair is a
  parameter. An error carries its code and status; widths of columns are not enforced.
\<close>

section \<open>Rows and requests\<close>

datatype GatewayStatus = GS_ENROLLING | GS_ACTIVE | GS_DEGRADED | GS_OFFLINE | GS_SUSPENDED | GS_REVOKED | GS_UPGRADE_REQUIRED

fun GatewayStatus_value :: "GatewayStatus \<Rightarrow> string" where
  "GatewayStatus_value GS_ENROLLING = ''ENROLLING''"
| "GatewayStatus_value GS_ACTIVE = ''ACTIVE''"
| "GatewayStatus_value GS_DEGRADED = ''DEGRADED''"
| "GatewayStatus_value GS_OFFLINE = ''OFFLINE''"
| "GatewayStatus_value GS_SUSPENDED = ''SUSPENDED''"
| "GatewayStatus_value GS_REVOKED = ''REVOKED''"
| "GatewayStatus_value GS_UPGRADE_REQUIRED = ''UPGRADE_REQUIRED''"

record EnterpriseGateway =
  eg_id :: uuid
  eg_gateway_id :: string
  eg_organization_id :: uuid
  eg_name :: string
  eg_deployment_type :: string
  eg_environment :: string
  eg_status :: GatewayStatus
  eg_version :: string
  eg_public_key :: "string option"
  eg_fingerprint :: "string option"
  eg_enrollment_token_hash :: "string option"
  eg_enrollment_token_expires_at :: "datetime option"
  eg_config_version :: int
  eg_labels :: "(string \<times> pyval) list"
  eg_offline_policy :: string
  eg_last_seen_at :: "datetime option"
  eg_last_heartbeat_data :: "(string \<times> pyval) list option"
  eg_created_at :: datetime
  eg_revoked_at :: "datetime option"
  eg_suspended_at :: "datetime option"

record GatewayConfigBundle =
  gb_id :: uuid
  gb_organization_id :: uuid
  gb_environment :: string
  gb_config_version :: int
  gb_bundle_json :: "(string \<times> pyval) list"
  gb_bundle_sha256 :: string
  gb_signature :: string
  gb_signing_key_id :: string
  gb_published_by_user_id :: "uuid option"
  gb_created_at :: datetime
  gb_expires_at :: datetime

record control =
  co_xorg :: xorg
  co_issuers :: "CredentialIssuer list"
  co_issuer_keys :: "IssuerSigningKey list"
  co_gateways :: "EnterpriseGateway list"
  co_bundles :: "GatewayConfigBundle list"

record control_crypto = issuer_crypto +
  control_public :: string
  control_sign :: "string \<Rightarrow> string"

record GatewayRegistrationRequest =
  gq_name :: string
  gq_deployment_type :: string
  gq_environment :: string
  gq_offline_policy :: string
  gq_labels :: "(string \<times> pyval) list"

record GatewayEnrollRequest =
  ee_enrollment_token :: string
  ee_public_key :: string
  ee_version :: "string option"
  ee_labels :: "(string \<times> pyval) list option"

record GatewayHeartbeatRequest =
  hb_version :: string
  hb_config_version :: int
  hb_health :: "(string \<times> pyval) list"
  hb_timestamp :: string
  hb_signature :: string

record GatewayPublishConfigRequest =
  pc_environment :: string
  pc_policies :: "pyval list option"
  pc_trusted_issuers :: "pyval list option"
  pc_credential_requirements :: "pyval list option"
  pc_revocations :: "pyval list option"
  pc_routing :: "(string \<times> pyval) list option"
  pc_validity_hours :: "int option"

datatype control_error =
    GatewayControlError string int
  | ControlIntegrityError
  | ControlRaised pyexn

definition co_db :: "control \<Rightarrow> db" where "co_db s = xo_db (co_xorg s)"
definition co_now :: "control \<Rightarrow> datetime" where "co_now s = clock (co_db s)"

definition co_with_db :: "control \<Rightarrow> db \<Rightarrow> control" where
  "co_with_db s d = s\<lparr>co_xorg := with_db (co_xorg s) d\<rparr>"

definition co_fresh :: "control \<Rightarrow> nat \<times> control" where
  "co_fresh s = (let (n, d) = fresh (co_db s) in (n, co_with_db s d))"

definition add_gateway_event :: "uuid \<Rightarrow> string \<Rightarrow> string \<Rightarrow> (string \<times> pyval) list \<Rightarrow> control \<Rightarrow> control" where
  "add_gateway_event org type severity details s =
     co_with_db s ((co_db s)\<lparr>security_events := security_events (co_db s) @
       [\<lparr>se_organization_id = Some org, se_actor_user_id = None, se_target_user_id = None, se_event_type = type,
         se_category = None, se_severity = severity, se_description = None, se_details = details\<rparr>]\<rparr>)"

definition update_gateway :: "string \<Rightarrow> (EnterpriseGateway \<Rightarrow> EnterpriseGateway) \<Rightarrow> control \<Rightarrow> control" where
  "update_gateway g f s = s\<lparr>co_gateways := update_where (\<lambda>w. eg_gateway_id w = g) f (co_gateways s)\<rparr>"

definition find_gateway :: "control \<Rightarrow> string \<Rightarrow> EnterpriseGateway option" where
  "find_gateway s g = find (\<lambda>w. eg_gateway_id w = g) (co_gateways s)"

section \<open>Registration and enrolment\<close>

definition generate_gateway_id :: "nat \<Rightarrow> string" where "generate_gateway_id n = ''gw_'' @ hex_digits 16 n"
definition generate_enrollment_token :: "nat \<Rightarrow> string" where "generate_enrollment_token n = ''gw_tok_'' @ hex_digits 48 n"

definition enrollment_command :: "EnterpriseGateway \<Rightarrow> string \<Rightarrow> string" where
  "enrollment_command w token =
     ''agenttrust gateway enroll --gateway-id '' @ eg_gateway_id w @ '' --token '' @ token @ '' --environment '' @ eg_environment w"

definition register_enterprise_gateway ::
    "'a issuer_crypto_scheme \<Rightarrow> control \<Rightarrow> uuid \<Rightarrow> GatewayRegistrationRequest
       \<Rightarrow> control \<times> (control_error + EnterpriseGateway \<times> string \<times> string)" where
  "register_enterprise_gateway c s org_id req =
     (case find (\<lambda>o1. or_id o1 = org_id) (xo_organizations (co_xorg s)) of
        None \<Rightarrow> (s, Inl (GatewayControlError ''ORGANIZATION_NOT_FOUND'' 404))
      | Some org \<Rightarrow>
          if \<not> or_is_active org then (s, Inl (GatewayControlError ''ORGANIZATION_NOT_FOUND'' 404))
          else
            let (n1, s1) = co_fresh s; (n2, s2) = co_fresh s1; (n3, s3) = co_fresh s2;
                token = generate_enrollment_token n1;
                w = \<lparr>eg_id = n3, eg_gateway_id = generate_gateway_id n2, eg_organization_id = org_id,
                  eg_name = py_strip (gq_name req), eg_deployment_type = gq_deployment_type req,
                  eg_environment = gq_environment req, eg_status = GS_ENROLLING, eg_version = ''1.0.0'', eg_public_key = None,
                  eg_fingerprint = None, eg_enrollment_token_hash = Some (sha256_hex c token),
                  eg_enrollment_token_expires_at = Some (co_now s + minutes 15), eg_config_version = 0,
                  eg_labels = gq_labels req, eg_offline_policy = gq_offline_policy req, eg_last_seen_at = None,
                  eg_last_heartbeat_data = None, eg_created_at = co_now s, eg_revoked_at = None, eg_suspended_at = None\<rparr>
            in if list_ex (\<lambda>v. eg_gateway_id v = eg_gateway_id w) (co_gateways s) then (s, Inl ControlIntegrityError)
               else (add_gateway_event org_id ''gateway_registered'' ''info''
                       [(''gateway_id'', PStr (eg_gateway_id w)), (''deployment_type'', PStr (eg_deployment_type w))]
                       (s3\<lparr>co_gateways := co_gateways s3 @ [w]\<rparr>),
                     Inr (w, token, enrollment_command w token)))"

definition key_and_fingerprint :: "'a issuer_crypto_scheme \<Rightarrow> string \<Rightarrow> string option" where
  "key_and_fingerprint c public_key =
     (case b64decode_lax c public_key of
        Some raw \<Rightarrow> if length raw = 32 \<and> ed25519_key c raw then Some (sha256_hex c raw) else None
      | None \<Rightarrow> None)"

fun dict_update :: "(string \<times> pyval) list \<Rightarrow> (string \<times> pyval) list \<Rightarrow> (string \<times> pyval) list" where
  "dict_update d [] = d"
| "dict_update d ((k, v) # e) = dict_update (dict_put d k v) e"

definition activate_gateway :: "datetime \<Rightarrow> string \<Rightarrow> GatewayEnrollRequest \<Rightarrow> EnterpriseGateway \<Rightarrow> EnterpriseGateway" where
  "activate_gateway now fp req w =
     w\<lparr>eg_public_key := Some (py_strip (ee_public_key req)), eg_fingerprint := Some fp, eg_status := GS_ACTIVE,
       eg_version := (case ee_version req of Some (x # xs) \<Rightarrow> x # xs | _ \<Rightarrow> eg_version w),
       eg_enrollment_token_hash := None, eg_enrollment_token_expires_at := None, eg_last_seen_at := Some now,
       eg_labels := (case ee_labels req of Some (p # ps) \<Rightarrow> dict_update (eg_labels w) (p # ps) | _ \<Rightarrow> eg_labels w)\<rparr>"

text \<open>The newest configuration of an organization's environment.\<close>

fun newest_bundle :: "GatewayConfigBundle list \<Rightarrow> GatewayConfigBundle option" where
  "newest_bundle [] = None"
| "newest_bundle (b # bs) =
     (case newest_bundle bs of
        Some b' \<Rightarrow> if gb_config_version b < gb_config_version b' then Some b' else Some b
      | None \<Rightarrow> Some b)"

definition latest_bundle :: "control \<Rightarrow> uuid \<Rightarrow> string \<Rightarrow> GatewayConfigBundle option" where
  "latest_bundle s org env =
     newest_bundle (filter (\<lambda>b. gb_organization_id b = org \<and> gb_environment b = env) (co_bundles s))"

definition latest_version :: "control \<Rightarrow> uuid \<Rightarrow> string \<Rightarrow> int" where
  "latest_version s org env = (case latest_bundle s org env of Some b \<Rightarrow> gb_config_version b | None \<Rightarrow> 0)"

definition CONTROL_PLANE_KEY_ID :: string where "CONTROL_PLANE_KEY_ID = ''cp_key_primary''"

record GatewayEnrollResponse =
  er_status :: string
  er_gateway_id :: string
  er_organization_id :: string
  er_environment :: string
  er_control_plane_public_key :: string
  er_control_plane_signing_key_id :: string
  er_initial_config_version :: int

text \<open>What \<open>enroll_enterprise_gateway\<close> asks of the row before it looks at the token.\<close>

definition check_enrollable :: "datetime \<Rightarrow> EnterpriseGateway \<Rightarrow> control_error + string" where
  "check_enrollable now w =
     (if eg_status w \<in> {GS_REVOKED, GS_SUSPENDED} then Inl (GatewayControlError ''GATEWAY_REVOKED'' 403)
      else (case (eg_enrollment_token_hash w, eg_enrollment_token_expires_at w) of
          (Some (x # xs), Some expires) \<Rightarrow>
            if expires < now then Inl (GatewayControlError ''ENROLLMENT_TOKEN_EXPIRED'' 401) else Inr (x # xs)
        | _ \<Rightarrow> Inl (GatewayControlError ''ENROLLMENT_TOKEN_INVALID'' 401)))"

definition is_ascii :: "string \<Rightarrow> bool" where
  "is_ascii t = list_all (\<lambda>x. (of_char x :: nat) < 128) t"

definition enroll_enterprise_gateway ::
    "'a control_crypto_scheme \<Rightarrow> control \<Rightarrow> string \<Rightarrow> GatewayEnrollRequest \<Rightarrow> control \<times> (control_error + GatewayEnrollResponse)"
where
  "enroll_enterprise_gateway c s g req =
     (case find_gateway s g of
        None \<Rightarrow> (s, Inl (GatewayControlError ''GATEWAY_NOT_FOUND'' 404))
      | Some w \<Rightarrow>
     (case check_enrollable (co_now s) w of
        Inl e \<Rightarrow> (s, Inl e)
      | Inr hash \<Rightarrow>
     if \<not> is_ascii (py_strip (ee_enrollment_token req)) then (s, Inl (ControlRaised ValueError))
     else if sha256_hex c (py_strip (ee_enrollment_token req)) \<noteq> hash
     then (add_gateway_event (eg_organization_id w) ''gateway_enrollment_failed'' ''warning'' [(''gateway_id'', PStr g)] s,
           Inl (GatewayControlError ''ENROLLMENT_TOKEN_INVALID'' 401))
     else (case key_and_fingerprint c (py_strip (ee_public_key req)) of
        None \<Rightarrow> (s, Inl (GatewayControlError ''INVALID_PUBLIC_KEY'' 400))
      | Some fp \<Rightarrow>
          (add_gateway_event (eg_organization_id w) ''gateway_enrolled'' ''info''
             [(''gateway_id'', PStr g), (''fingerprint'', PStr fp)] (update_gateway g (activate_gateway (co_now s) fp req) s),
           Inr \<lparr>er_status = ''ACTIVE'', er_gateway_id = eg_gateway_id w, er_organization_id = uuid_str (eg_organization_id w),
             er_environment = eg_environment w, er_control_plane_public_key = b64encode c (control_public c),
             er_control_plane_signing_key_id = CONTROL_PLANE_KEY_ID,
             er_initial_config_version = latest_version s (eg_organization_id w) (py_lower (eg_environment w))\<rparr>))))"

section \<open>Heartbeats\<close>

record GatewayHeartbeatResponse =
  hr_status :: string
  hr_latest_config_version :: int
  hr_sync_required :: bool
  hr_control_plane_time :: string

definition check_beating :: "EnterpriseGateway \<Rightarrow> control_error + string" where
  "check_beating w =
     (if eg_status w = GS_REVOKED then Inl (GatewayControlError ''GATEWAY_REVOKED'' 403)
      else if eg_status w = GS_SUSPENDED then Inl (GatewayControlError ''GATEWAY_SUSPENDED'' 403)
      else (case eg_public_key w of
          Some (x # xs) \<Rightarrow> Inr (x # xs)
        | _ \<Rightarrow> Inl (GatewayControlError ''GATEWAY_NOT_ENROLLED'' 400)))"

definition heartbeat_time_ok :: "'a issuer_crypto_scheme \<Rightarrow> datetime \<Rightarrow> string \<Rightarrow> bool" where
  "heartbeat_time_ok c now timestamp =
     (case parse_timestamp c (PStr timestamp) of Some t \<Rightarrow> abs (now - t) \<le> seconds 300 | None \<Rightarrow> False)"

definition heartbeat_canon :: "string \<Rightarrow> GatewayHeartbeatRequest \<Rightarrow> string" where
  "heartbeat_canon g req =
     ''AGENTTRUST-HEARTBEAT/1'' @ [CHR 0x0A] @ g @ [CHR 0x0A] @ str_of_int (hb_config_version req) @ [CHR 0x0A]
       @ hb_timestamp req @ [CHR 0x0A]"

definition signature_ok :: "'a issuer_crypto_scheme \<Rightarrow> string \<Rightarrow> string \<Rightarrow> string \<Rightarrow> bool" where
  "signature_ok c key_b64 sig_b64 text =
     (case (b64decode_lax c key_b64, b64decode_lax c sig_b64) of
        (Some pub, Some sig) \<Rightarrow> ed25519_key c pub \<and> ed25519_verify c pub sig text
      | _ \<Rightarrow> False)"

definition beat_gateway :: "datetime \<Rightarrow> GatewayHeartbeatRequest \<Rightarrow> EnterpriseGateway \<Rightarrow> EnterpriseGateway" where
  "beat_gateway now req w =
     w\<lparr>eg_last_seen_at := Some now, eg_last_heartbeat_data := Some (hb_health req), eg_config_version := hb_config_version req,
       eg_version := hb_version req,
       eg_status := (if eg_status w \<in> {GS_OFFLINE, GS_DEGRADED} then GS_ACTIVE else eg_status w)\<rparr>"

definition verify_gateway_heartbeat ::
    "'a issuer_crypto_scheme \<Rightarrow> control \<Rightarrow> string \<Rightarrow> GatewayHeartbeatRequest \<Rightarrow> control \<times> (control_error + GatewayHeartbeatResponse)"
where
  "verify_gateway_heartbeat c s g req =
     (case find_gateway s g of
        None \<Rightarrow> (s, Inl (GatewayControlError ''GATEWAY_NOT_FOUND'' 404))
      | Some w \<Rightarrow>
     (case check_beating w of
        Inl e \<Rightarrow> (s, Inl e)
      | Inr key \<Rightarrow>
     if \<not> heartbeat_time_ok c (co_now s) (hb_timestamp req) then (s, Inl (GatewayControlError ''INVALID_TIMESTAMP'' 400))
     else if \<not> signature_ok c key (hb_signature req) (heartbeat_canon g req)
     then (add_gateway_event (eg_organization_id w) ''gateway_heartbeat_signature_invalid'' ''warning''
             [(''gateway_id'', PStr g)] s, Inl (GatewayControlError ''INVALID_SIGNATURE'' 401))
     else
       let latest = latest_version s (eg_organization_id w) (py_lower (eg_environment w))
       in (update_gateway g (beat_gateway (co_now s) req) s,
           Inr \<lparr>hr_status = GatewayStatus_value (eg_status (beat_gateway (co_now s) req w)), hr_latest_config_version = latest,
             hr_sync_required = (hb_config_version req < latest), hr_control_plane_time = utc_text (co_now s)\<rparr>)))"

section \<open>Configurations\<close>

text \<open>\<open>req.field or []\<close>, filled from the database when it is empty.\<close>

definition items_or :: "pyval list option \<Rightarrow> pyval list \<Rightarrow> pyval list" where
  "items_or v dflt = (case v of Some (x # xs) \<Rightarrow> x # xs | _ \<Rightarrow> dflt)"

text \<open>
  \<open>PolicyVersion.is_active\<close>, which the query of the published policies reads, does not exist: the query
  raises before it runs and the exception is dropped.
\<close>

definition published_policies :: "pyexn + pyval list" where
  "published_policies = (if ''is_active'' \<in> set PolicyVersion_columns then Inr [] else Inl AttributeError)"

definition default_policies :: "control \<Rightarrow> uuid \<Rightarrow> pyval list" where
  "default_policies s org =
     (case find (\<lambda>p. gp_organization_id p = org) (xo_target_policies (co_xorg s)) of
        Some p \<Rightarrow> [PDict [(''allowed_actions'', PList (map PStr (gp_allowed_actions p))),
            (''allowed_resources'', PList (map PStr (gp_allowed_resources p))),
            (''required_credential_types'', PList (map PStr (gp_required_credential_types p)))]]
      | None \<Rightarrow> [])
     @ (case published_policies of Inr ps \<Rightarrow> ps | Inl e \<Rightarrow> [])"

definition default_issuers :: "control \<Rightarrow> uuid \<Rightarrow> pyval list" where
  "default_issuers s org =
     map (\<lambda>i. PDict [(''issuer_id'', PStr (is_issuer_id i)), (''name'', PStr (is_name i)),
         (''signing_keys'', PList (map (\<lambda>k. PDict [(''key_id'', PStr (ik_key_id k)), (''algorithm'', PStr ''Ed25519''),
             (''public_key'', PStr (ik_public_key k)), (''fingerprint'', PStr (ik_fingerprint k))])
           (filter (active_issuer_key (is_id i)) (co_issuer_keys s))))])
       (filter (\<lambda>i. is_organization_id i = org \<and> is_status i = IS_ACTIVE) (co_issuers s))"

definition default_revocations :: "control \<Rightarrow> uuid \<Rightarrow> pyval list" where
  "default_revocations s org =
     map (\<lambda>r. PDict [(''type'', PStr ''credential''), (''id'', PStr (cr_credential_id r))])
       (filter (\<lambda>r. cr_organization_id r = org \<and> cr_status r = CR_REVOKED) (credentials (co_db s)))
     @ map (\<lambda>a. PDict [(''type'', PStr ''agent''), (''id'', PStr (ag_agent_identifier a))])
       (filter (\<lambda>a. ag_organization_id a = Some org \<and> ag_status a \<in> {AG_SUSPENDED, AG_RETIRED, AG_REVOKED}) (agents (co_db s)))"

definition default_routing :: "(string \<times> pyval) list" where
  "default_routing = [(''allowed_peer_gateways'', PList [PStr ''*'']), (''privacy_mode'', PStr ''DIRECT_PRIVATE'')]"

definition config_bundle :: "control \<Rightarrow> uuid \<Rightarrow> GatewayPublishConfigRequest \<Rightarrow> (string \<times> pyval) list" where
  "config_bundle s org req =
     [(''policies'', PList (items_or (pc_policies req) (default_policies s org))),
      (''trusted_issuers'', PList (items_or (pc_trusted_issuers req) (default_issuers s org))),
      (''credential_requirements'', PList (items_or (pc_credential_requirements req) [])),
      (''revocations'', PList (items_or (pc_revocations req) (default_revocations s org))),
      (''routing'', PDict (case pc_routing req of Some (p # ps) \<Rightarrow> p # ps | _ \<Rightarrow> default_routing))]"

definition config_canon :: "int \<Rightarrow> uuid \<Rightarrow> string \<Rightarrow> datetime \<Rightarrow> datetime \<Rightarrow> string \<Rightarrow> string" where
  "config_canon version org env issued_at expires_at sha =
     ''AGENTTRUST-CONFIG/1'' @ [CHR 0x0A] @ str_of_int version @ [CHR 0x0A] @ uuid_str org @ [CHR 0x0A] @ env @ [CHR 0x0A]
       @ utc_text issued_at @ [CHR 0x0A] @ utc_text expires_at @ [CHR 0x0A] @ sha @ [CHR 0x0A]"

definition build_and_publish_config ::
    "'a control_crypto_scheme \<Rightarrow> control \<Rightarrow> uuid \<Rightarrow> GatewayPublishConfigRequest \<Rightarrow> uuid option
       \<Rightarrow> control \<times> (control_error + GatewayConfigBundle)" where
  "build_and_publish_config c s org req user =
     (let env = py_lower (pc_environment req); now = co_now s;
          validity = (case pc_validity_hours req of Some h \<Rightarrow> if h = 0 then 24 else h | None \<Rightarrow> 24);
          expires = now + hours validity;
          version = (case latest_bundle s org env of Some b \<Rightarrow> gb_config_version b + 1 | None \<Rightarrow> 1);
          bundle = config_bundle s org req;
          sha = sha256_hex c (canonical_json (PDict bundle));
          sig = b64encode c (control_sign c (config_canon version org env now expires sha));
          (n, s1) = co_fresh s;
          row = \<lparr>gb_id = n, gb_organization_id = org, gb_environment = env, gb_config_version = version,
            gb_bundle_json = bundle, gb_bundle_sha256 = sha, gb_signature = sig, gb_signing_key_id = CONTROL_PLANE_KEY_ID,
            gb_published_by_user_id = user, gb_created_at = now, gb_expires_at = expires\<rparr>
      in if list_ex (\<lambda>b. gb_organization_id b = org \<and> gb_config_version b = version) (co_bundles s)
         then (s, Inl ControlIntegrityError)
         else (add_gateway_event org ''gateway_config_published'' ''info''
                 [(''config_version'', PInt version), (''bundle_sha256'', PStr sha)] (s1\<lparr>co_bundles := co_bundles s1 @ [row]\<rparr>),
               Inr row))"

definition bundle_items :: "(string \<times> pyval) list \<Rightarrow> string \<Rightarrow> pyval list option" where
  "bundle_items d k = (case dict_get d k PNone of PList xs \<Rightarrow> Some xs | _ \<Rightarrow> None)"

text \<open>The request that publishes an earlier bundle again.\<close>

definition republish_request :: "GatewayConfigBundle \<Rightarrow> GatewayPublishConfigRequest" where
  "republish_request b =
     (let d = gb_bundle_json b in
      \<lparr>pc_environment = gb_environment b, pc_policies = bundle_items d ''policies'',
       pc_trusted_issuers = bundle_items d ''trusted_issuers'', pc_credential_requirements = bundle_items d ''credential_requirements'',
       pc_revocations = bundle_items d ''revocations'',
       pc_routing = (case dict_get d ''routing'' PNone of PDict r \<Rightarrow> Some r | _ \<Rightarrow> None), pc_validity_hours = Some 24\<rparr>)"

definition rollback_gateway_config ::
    "'a control_crypto_scheme \<Rightarrow> control \<Rightarrow> uuid \<Rightarrow> int \<Rightarrow> uuid option \<Rightarrow> control \<times> (control_error + GatewayConfigBundle)" where
  "rollback_gateway_config c s org target_version user =
     (case find (\<lambda>b. gb_organization_id b = org \<and> gb_config_version b = target_version) (co_bundles s) of
        None \<Rightarrow> (s, Inl (GatewayControlError ''CONFIG_VERSION_NOT_FOUND'' 404))
      | Some b \<Rightarrow>
          (case build_and_publish_config c s org (republish_request b) user of
             (s1, Inl e) \<Rightarrow> (s1, Inl e)
           | (s1, Inr new) \<Rightarrow>
               (add_gateway_event org ''gateway_config_rolled_back'' ''warning''
                  [(''source_version'', PInt target_version), (''new_version'', PInt (gb_config_version new))] s1, Inr new)))"

definition config_response :: "GatewayConfigBundle \<Rightarrow> (string \<times> pyval) list" where
  "config_response b =
     [(''config_version'', PInt (gb_config_version b)), (''organization_id'', PStr (uuid_str (gb_organization_id b))),
      (''environment'', PStr (gb_environment b)), (''issued_at'', PStr (utc_text (gb_created_at b))),
      (''expires_at'', PStr (utc_text (gb_expires_at b))), (''bundle'', PDict (gb_bundle_json b)),
      (''bundle_sha256'', PStr (gb_bundle_sha256 b)), (''signature'', PStr (gb_signature b)),
      (''signing_key_id'', PStr (gb_signing_key_id b))]"

definition empty_publish_request :: "string \<Rightarrow> GatewayPublishConfigRequest" where
  "empty_publish_request env =
     \<lparr>pc_environment = env, pc_policies = None, pc_trusted_issuers = None, pc_credential_requirements = None,
      pc_revocations = None, pc_routing = None, pc_validity_hours = Some 24\<rparr>"

definition get_signed_config_bundle ::
    "'a control_crypto_scheme \<Rightarrow> control \<Rightarrow> string \<Rightarrow> int option
       \<Rightarrow> control \<times> (control_error + (string \<times> pyval) list option)" where
  "get_signed_config_bundle c s g client_version =
     (case find_gateway s g of
        None \<Rightarrow> (s, Inl (GatewayControlError ''GATEWAY_NOT_FOUND'' 404))
      | Some w \<Rightarrow>
          if eg_status w \<in> {GS_REVOKED, GS_SUSPENDED} then (s, Inl (GatewayControlError ''GATEWAY_REVOKED'' 403))
          else
            let env = py_lower (eg_environment w);
                (s1, latest) = (case latest_bundle s (eg_organization_id w) env of
                    Some b \<Rightarrow> (s, Inr b)
                  | None \<Rightarrow> build_and_publish_config c s (eg_organization_id w) (empty_publish_request env) None)
            in (s1, rbind latest (\<lambda>b. Inr (
                  if (case client_version of Some v \<Rightarrow> gb_config_version b \<le> v | None \<Rightarrow> False) then None
                  else Some (config_response b)))))"

section \<open>Suspension, revocation and views\<close>

definition find_own_gateway :: "control \<Rightarrow> string \<Rightarrow> uuid \<Rightarrow> EnterpriseGateway option" where
  "find_own_gateway s g org = find (\<lambda>w. eg_gateway_id w = g \<and> eg_organization_id w = org) (co_gateways s)"

definition suspend_gateway_row :: "datetime \<Rightarrow> EnterpriseGateway \<Rightarrow> EnterpriseGateway" where
  "suspend_gateway_row now w = w\<lparr>eg_status := GS_SUSPENDED, eg_suspended_at := Some now\<rparr>"

definition revoke_gateway_row :: "datetime \<Rightarrow> EnterpriseGateway \<Rightarrow> EnterpriseGateway" where
  "revoke_gateway_row now w =
     w\<lparr>eg_status := GS_REVOKED, eg_revoked_at := Some now, eg_public_key := None, eg_enrollment_token_hash := None\<rparr>"

definition suspend_enterprise_gateway ::
    "control \<Rightarrow> string \<Rightarrow> uuid \<Rightarrow> control \<times> (control_error + EnterpriseGateway)" where
  "suspend_enterprise_gateway s g org =
     (case find_own_gateway s g org of
        None \<Rightarrow> (s, Inl (GatewayControlError ''GATEWAY_NOT_FOUND'' 404))
      | Some w \<Rightarrow>
          (add_gateway_event org ''gateway_suspended'' ''warning'' [(''gateway_id'', PStr g)]
             (update_gateway g (suspend_gateway_row (co_now s)) s), Inr (suspend_gateway_row (co_now s) w)))"

definition revoke_enterprise_gateway ::
    "control \<Rightarrow> string \<Rightarrow> uuid \<Rightarrow> control \<times> (control_error + EnterpriseGateway)" where
  "revoke_enterprise_gateway s g org =
     (case find_own_gateway s g org of
        None \<Rightarrow> (s, Inl (GatewayControlError ''GATEWAY_NOT_FOUND'' 404))
      | Some w \<Rightarrow>
          (add_gateway_event org ''gateway_revoked'' ''critical'' [(''gateway_id'', PStr g)]
             (update_gateway g (revoke_gateway_row (co_now s)) s), Inr (revoke_gateway_row (co_now s) w)))"

definition list_gateways :: "control \<Rightarrow> uuid \<Rightarrow> string option \<Rightarrow> string option \<Rightarrow> EnterpriseGateway list" where
  "list_gateways s org environment status_filter =
     sort_key (\<lambda>w. - eg_created_at w) (filter (\<lambda>w. eg_organization_id w = org
       \<and> (case environment of Some (x # xs) \<Rightarrow> eg_environment w = py_upper (x # xs) | _ \<Rightarrow> True)
       \<and> (case status_filter of Some (x # xs) \<Rightarrow> GatewayStatus_value (eg_status w) = py_upper (x # xs) | _ \<Rightarrow> True))
       (co_gateways s))"

definition get_gateway :: "control \<Rightarrow> uuid \<Rightarrow> string \<Rightarrow> control_error + EnterpriseGateway" where
  "get_gateway s org g =
     (case find_own_gateway s g org of
        None \<Rightarrow> Inl (GatewayControlError ''Gateway not found.'' 404)
      | Some w \<Rightarrow> Inr w)"

definition get_config_history :: "control \<Rightarrow> uuid \<Rightarrow> string \<Rightarrow> GatewayConfigBundle list" where
  "get_config_history s org environment =
     take 50 (sort_key (\<lambda>b. - gb_config_version b)
       (filter (\<lambda>b. gb_organization_id b = org \<and> gb_environment b = py_lower environment) (co_bundles s)))"

end
