(* ===== verification/GatewayControl_Safety.thy ===== *)
theory GatewayControl_Safety
  imports GatewayControl
begin

text \<open>
  Properties of the control plane of gateways over the steps \<open>control_step\<close>: who stays barred, that a token
  enrols once, and the order of the published versions.
\<close>

section \<open>Steps of the control plane\<close>

text \<open>Requests in any order; between them other services and time change the rest of the database.\<close>

inductive control_step :: "control_crypto \<Rightarrow> control \<Rightarrow> control \<Rightarrow> bool" for c where
  register: "control_step c s (fst (register_enterprise_gateway c s org rq))"
| enroll: "control_step c s (fst (enroll_enterprise_gateway c s g eq))"
| heartbeat: "control_step c s (fst (verify_gateway_heartbeat c s g hq))"
| publish: "control_step c s (fst (build_and_publish_config c s org pq user))"
| rollback: "control_step c s (fst (rollback_gateway_config c s org v user))"
| download: "control_step c s (fst (get_signed_config_bundle c s g cv))"
| suspend: "control_step c s (fst (suspend_enterprise_gateway s g org))"
| revoke: "control_step c s (fst (revoke_enterprise_gateway s g org))"
| other: "co_gateways t = co_gateways s \<Longrightarrow> co_bundles t = co_bundles s \<Longrightarrow> control_step c s t"

lemma co_frames [simp]:
  "co_gateways (co_with_db s d) = co_gateways s" "co_bundles (co_with_db s d) = co_bundles s"
  "co_gateways (add_gateway_event org ty sev det s) = co_gateways s" "co_bundles (add_gateway_event org ty sev det s) = co_bundles s"
  "co_bundles (update_gateway g f s) = co_bundles s"
  by (simp_all add: co_with_db_def add_gateway_event_def update_gateway_def)

lemma co_fresh_frames: "co_fresh s = (n, s') \<Longrightarrow> co_gateways s' = co_gateways s \<and> co_bundles s' = co_bundles s"
  by (auto simp: co_fresh_def split: prod.splits)

lemma publish_cases:
  "(\<exists>e. build_and_publish_config c s org req user = (s, Inl e)) \<or>
   (\<exists>t row. build_and_publish_config c s org req user = (t, Inr row) \<and> co_gateways t = co_gateways s \<and> co_bundles t = co_bundles s @ [row] \<and>
      gb_organization_id row = org \<and> gb_environment row = py_lower (pc_environment req) \<and>
      gb_config_version row = (case latest_bundle s org (py_lower (pc_environment req)) of Some b \<Rightarrow> gb_config_version b + 1 | None \<Rightarrow> 1) \<and>
      \<not> list_ex (\<lambda>b. gb_organization_id b = org \<and> gb_config_version b = gb_config_version row) (co_bundles s))"
  by (cases "co_fresh s") (auto simp: build_and_publish_config_def Let_def dest: co_fresh_frames)

lemma download_state:
  "fst (get_signed_config_bundle c s g cv) = s \<or>
   (\<exists>org env. fst (get_signed_config_bundle c s g cv) = fst (build_and_publish_config c s org (empty_publish_request env) None))"
  by (auto simp: get_signed_config_bundle_def Let_def split: option.splits prod.splits) (metis fst_conv)

lemma rollback_state:
  "fst (rollback_gateway_config c s org v user) = s \<or>
   (\<exists>b. co_gateways (fst (rollback_gateway_config c s org v user)) = co_gateways (fst (build_and_publish_config c s org (republish_request b) user)) \<and>
      co_bundles (fst (rollback_gateway_config c s org v user)) = co_bundles (fst (build_and_publish_config c s org (republish_request b) user)))"
proof (cases "find (\<lambda>b. gb_organization_id b = org \<and> gb_config_version b = v) (co_bundles s)")
  case (Some b)
  then show ?thesis
    by (intro disjI2 exI [of _ b]; cases "build_and_publish_config c s org (republish_request b) user")
      (auto simp: rollback_gateway_config_def split: sum.split)
qed (simp add: rollback_gateway_config_def)

section \<open>Gateways\<close>

text \<open>How a row may change.\<close>

definition gateway_move :: "EnterpriseGateway \<Rightarrow> EnterpriseGateway \<Rightarrow> bool" where
  "gateway_move w w' \<longleftrightarrow>
     w' = w \<or> (\<exists>now later fp req hash. check_enrollable now w = Inr hash \<and> w' = activate_gateway later fp req w) \<or>
     (\<exists>now req key. check_beating w = Inr key \<and> w' = beat_gateway now req w) \<or>
     (\<exists>now. w' = suspend_gateway_row now w) \<or> (\<exists>now. w' = revoke_gateway_row now w)"

lemma move_rows [simp]:
  "eg_gateway_id (activate_gateway now fp req w) = eg_gateway_id w" "eg_gateway_id (beat_gateway now hq w) = eg_gateway_id w"
  "eg_gateway_id (suspend_gateway_row now w) = eg_gateway_id w" "eg_gateway_id (revoke_gateway_row now w) = eg_gateway_id w"
  by (simp_all add: activate_gateway_def beat_gateway_def suspend_gateway_row_def revoke_gateway_row_def)

lemma find_gateway_frames:
  "find_gateway (add_gateway_event org ty sev det s) g = find_gateway s g"
  "(\<And>w. eg_gateway_id (f w) = eg_gateway_id w) \<Longrightarrow>
     find_gateway (update_gateway h f s) g = map_option (\<lambda>w. if g = h then f w else w) (find_gateway s g)"
proof -
  show "find_gateway (add_gateway_event org ty sev det s) g = find_gateway s g" by (simp add: find_gateway_def)
  assume f: "\<And>w. eg_gateway_id (f w) = eg_gateway_id w"
  have "find (\<lambda>w. eg_gateway_id w = g) (update_where (\<lambda>w. eg_gateway_id w = h) f ws) =
      map_option (\<lambda>w. if g = h then f w else w) (find (\<lambda>w. eg_gateway_id w = g) ws)" for ws
    by (induction ws) (auto simp: f)
  then show "find_gateway (update_gateway h f s) g = map_option (\<lambda>w. if g = h then f w else w) (find_gateway s g)"
    by (simp add: find_gateway_def update_gateway_def)
qed

lemma gateway_step_move:
  assumes "control_step c s t" and "find_gateway s g = Some w"
  shows "\<exists>w'. find_gateway t g = Some w' \<and> gateway_move w w'"
proof -
  have same: "co_gateways t' = co_gateways s \<Longrightarrow> \<exists>w'. find_gateway t' g = Some w' \<and> gateway_move w w'" for t'
    using assms(2) by (simp add: find_gateway_def gateway_move_def)
  have build: "co_gateways (fst (build_and_publish_config c s org req user)) = co_gateways s" for org req user
    using publish_cases [of c s org req user] by auto
  show ?thesis
    using assms(1)
  proof cases
    case (register org rq)
    obtain n1 s1 n2 s2 n3 s3 where f: "co_fresh s = (n1, s1)" "co_fresh s1 = (n2, s2)" "co_fresh s2 = (n3, s3)" by fastforce
    have "co_gateways s3 = co_gateways s" using f [THEN co_fresh_frames] by simp
    then have "find_gateway t g = find_gateway s g \<or> find_gateway s g = None"
      unfolding register by (auto simp: register_enterprise_gateway_def f Let_def find_gateway_def find_append split: option.split)
    then show ?thesis using assms(2) by (auto simp: gateway_move_def)
  next
    case (enroll h eq)
    show ?thesis
    proof (cases "g = h \<and> snd (enroll_enterprise_gateway c s h eq) \<noteq> Inl (ControlRaised ValueError)")
      case True
      then show ?thesis
        unfolding enroll using assms(2)
        by (auto simp: enroll_enterprise_gateway_def find_gateway_frames gateway_move_def split: sum.split option.split) blast+
    next
      case False
      then show ?thesis
        unfolding enroll using assms(2)
        by (auto simp: enroll_enterprise_gateway_def find_gateway_frames gateway_move_def split: sum.split option.split)
    qed
  next
    case (heartbeat h hq)
    show ?thesis
      unfolding heartbeat using assms(2)
      by (cases "g = h") (auto simp: verify_gateway_heartbeat_def find_gateway_frames gateway_move_def Let_def split: sum.split option.split)
  next
    case (publish org pq user)
    then show ?thesis using same build by simp
  next
    case (rollback org v user)
    then show ?thesis using same build rollback_state [of c s org v user] by auto
  next
    case (download h cv)
    then show ?thesis using same build download_state [of c s h cv] by auto
  next
    case (suspend h org)
    then show ?thesis
      using assms(2) by (auto simp: suspend_enterprise_gateway_def find_gateway_frames gateway_move_def split: option.split)
  next
    case (revoke h org)
    then show ?thesis
      using assms(2) by (auto simp: revoke_enterprise_gateway_def find_gateway_frames gateway_move_def split: option.split)
  next
    case other
    then show ?thesis using same by simp
  qed
qed

lemma gateway_steps_keep:
  assumes "(control_step c)\<^sup>*\<^sup>* s t" "find_gateway s g = Some w" "P w" "\<And>v v'. P v \<Longrightarrow> gateway_move v v' \<Longrightarrow> P v'"
  shows "\<exists>w'. find_gateway t g = Some w' \<and> P w'"
  using assms(1)
proof (induction rule: rtranclp_induct)
  case base
  show ?case using assms(2,3) by blast
next
  case (step t u)
  then show ?case using gateway_step_move assms(4) by blast
qed

definition barred :: "EnterpriseGateway \<Rightarrow> bool" where
  "barred w \<longleftrightarrow> eg_status w \<in> {GS_SUSPENDED, GS_REVOKED}"

lemma barred_move: "barred v \<Longrightarrow> gateway_move v v' \<Longrightarrow> barred v'"
  by (auto simp: gateway_move_def barred_def check_enrollable_def check_beating_def suspend_gateway_row_def revoke_gateway_row_def)

lemma consumed_move: "eg_enrollment_token_hash v = None \<Longrightarrow> gateway_move v v' \<Longrightarrow> eg_enrollment_token_hash v' = None"
  by (auto simp: gateway_move_def check_enrollable_def beat_gateway_def suspend_gateway_row_def revoke_gateway_row_def split: if_splits)

lemma keyless_move:
  "barred v \<and> eg_public_key v = None \<Longrightarrow> gateway_move v v' \<Longrightarrow> barred v' \<and> eg_public_key v' = None"
  using barred_move [of v v']
  by (auto simp: gateway_move_def check_enrollable_def check_beating_def suspend_gateway_row_def revoke_gateway_row_def barred_def)

text \<open>
  C12. A barred gateway stays out. Once a gateway is suspended or revoked, in every later state it is suspended or
  revoked, its enrolments, heartbeats and downloads are refused with 403 and change nothing; after a revocation it
  never has a key again. Nothing lifts a suspension.
\<close>

theorem gateway_stays_barred:
  assumes "find_gateway s g = Some w" "barred w" "(control_step c)\<^sup>*\<^sup>* s t"
  shows "\<exists>w'. find_gateway t g = Some w' \<and> barred w' \<and> (eg_public_key w = None \<longrightarrow> eg_public_key w' = None)
    \<and> enroll_enterprise_gateway c t g eq = (t, Inl (GatewayControlError ''GATEWAY_REVOKED'' 403))
    \<and> (\<exists>code. verify_gateway_heartbeat c t g hq = (t, Inl (GatewayControlError code 403)))
    \<and> get_signed_config_bundle c t g cv = (t, Inl (GatewayControlError ''GATEWAY_REVOKED'' 403))"
proof -
  obtain w' where w': "find_gateway t g = Some w'" "barred w'"
    using gateway_steps_keep [OF assms(3,1), of barred] assms(2) barred_move by blast
  have "eg_public_key w' = None" if "eg_public_key w = None"
  proof -
    have "\<exists>v. find_gateway t g = Some v \<and> (barred v \<and> eg_public_key v = None)"
      by (rule gateway_steps_keep [OF assms(3,1), where P = "\<lambda>v. barred v \<and> eg_public_key v = None"])
        (use assms(2) that keyless_move in blast)+
    then show ?thesis using w'(1) by simp
  qed
  then show ?thesis
    using w' by (auto simp: barred_def enroll_enterprise_gateway_def check_enrollable_def verify_gateway_heartbeat_def check_beating_def
        get_signed_config_bundle_def)
qed

text \<open>
  C13. A token enrols once. If an enrolment succeeds, the token's hash was that of the row, which was neither barred nor
  had its token expired; from then on every enrolment of this gateway is refused, whatever token and key it brings
  and whatever has happened in between.
\<close>

theorem enrollment_token_once:
  assumes "enroll_enterprise_gateway c s g eq = (s1, Inr r)" "(control_step c)\<^sup>*\<^sup>* s1 t"
  shows "(\<exists>w. find_gateway s g = Some w \<and> \<not> barred w \<and>
      eg_enrollment_token_hash w = Some (sha256_hex c (py_strip (ee_enrollment_token eq))) \<and>
      (\<exists>x. eg_enrollment_token_expires_at w = Some x \<and> co_now s \<le> x))
    \<and> (\<exists>e. enroll_enterprise_gateway c t g eq' = (t, Inl e))"
proof -
  obtain w where f: "find_gateway s g = Some w"
    using assms(1) by (cases "find_gateway s g") (simp_all add: enroll_enterprise_gateway_def)
  obtain hash where h: "check_enrollable (co_now s) w = Inr hash"
    using assms(1) by (cases "check_enrollable (co_now s) w") (simp_all add: enroll_enterprise_gateway_def f)
  obtain fp where k: "key_and_fingerprint c (py_strip (ee_public_key eq)) = Some fp"
    using assms(1)
    by (cases "key_and_fingerprint c (py_strip (ee_public_key eq))") (simp_all add: enroll_enterprise_gateway_def f h split: if_splits)
  have w: "find_gateway s g = Some w" "check_enrollable (co_now s) w = Inr hash"
    "sha256_hex c (py_strip (ee_enrollment_token eq)) = hash" "find_gateway s1 g = Some (activate_gateway (co_now s) fp eq w)"
    using assms(1) f h by (auto simp: enroll_enterprise_gateway_def k find_gateway_frames split: if_splits)
  have "eg_enrollment_token_hash (activate_gateway (co_now s) fp eq w) = None" by (simp add: activate_gateway_def)
  then obtain w' where "find_gateway t g = Some w'" "eg_enrollment_token_hash w' = None"
    using gateway_steps_keep [OF assms(2) w(4), of "\<lambda>v. eg_enrollment_token_hash v = None"] consumed_move by blast
  then have "\<exists>e. enroll_enterprise_gateway c t g eq' = (t, Inl e)"
    by (auto simp: enroll_enterprise_gateway_def check_enrollable_def)
  then show ?thesis
    using w(1-3) by (auto simp: check_enrollable_def barred_def split: if_splits option.splits list.splits)
qed

section \<open>Published versions\<close>

lemma control_step_bundles:
  assumes "control_step c s t"
  shows "co_bundles t = co_bundles s \<or>
    (\<exists>org req user t' row. build_and_publish_config c s org req user = (t', Inr row) \<and> co_bundles t = co_bundles s @ [row])"
proof -
  have build: "co_bundles (fst (build_and_publish_config c s org req user)) = co_bundles s \<or>
      (\<exists>t' row. build_and_publish_config c s org req user = (t', Inr row) \<and>
        co_bundles (fst (build_and_publish_config c s org req user)) = co_bundles s @ [row])" for org req user
    using publish_cases [of c s org req user] by auto
  show ?thesis
    using assms
  proof cases
    case (register org rq)
    obtain n1 s1 n2 s2 n3 s3 where f: "co_fresh s = (n1, s1)" "co_fresh s1 = (n2, s2)" "co_fresh s2 = (n3, s3)" by fastforce
    have "co_bundles s3 = co_bundles s" using f [THEN co_fresh_frames] by simp
    then show ?thesis
      unfolding register by (auto simp: register_enterprise_gateway_def f Let_def split: option.split)
  next
    case (publish org pq user)
    then show ?thesis using build by blast
  next
    case (rollback org v user)
    then show ?thesis using build rollback_state [of c s org v user] by metis
  next
    case (download h cv)
    then show ?thesis using build download_state [of c s h cv] by metis
  qed (auto simp: enroll_enterprise_gateway_def verify_gateway_heartbeat_def suspend_enterprise_gateway_def
      revoke_enterprise_gateway_def Let_def split: option.split sum.split)
qed

lemma newest_bundle_max:
  "newest_bundle bs = Some b \<Longrightarrow> b \<in> set bs \<and> (\<forall>b'\<in>set bs. gb_config_version b' \<le> gb_config_version b)"
proof (induction bs arbitrary: b)
  case (Cons a bs)
  show ?case
  proof (cases "newest_bundle bs")
    case None
    then have "bs = []" by (cases bs) (auto split: option.splits if_splits)
    then show ?thesis using Cons.prems by simp
  next
    case (Some b')
    then show ?thesis using Cons.IH [OF Some] Cons.prems by (fastforce split: if_splits)
  qed
qed simp

lemma newest_bundle_None: "newest_bundle bs = None \<longleftrightarrow> bs = []"
  by (cases bs) (auto split: option.splits)

definition org_bundles :: "control \<Rightarrow> uuid \<Rightarrow> GatewayConfigBundle list" where
  "org_bundles s org = filter (\<lambda>b. gb_organization_id b = org) (co_bundles s)"

definition numbered :: "control \<Rightarrow> bool" where
  "numbered s \<longleftrightarrow> (\<forall>org. map gb_config_version (org_bundles s org) = [1..int (length (org_bundles s org))] \<and>
     (\<forall>b\<in>set (org_bundles s org). \<forall>b'\<in>set (org_bundles s org). gb_environment b = gb_environment b'))"

lemma numbered_latest:
  assumes "numbered s" "org_bundles s org \<noteq> []"
  shows "latest_bundle s org env = None \<longleftrightarrow> (\<forall>b\<in>set (org_bundles s org). gb_environment b \<noteq> env)"
    and "latest_bundle s org env = Some b \<Longrightarrow> gb_config_version b = int (length (org_bundles s org)) \<and> b \<in> set (org_bundles s org)
      \<and> gb_environment b = env"
    and "\<exists>b\<in>set (org_bundles s org). gb_config_version b = 1"
proof -
  let ?bs = "org_bundles s org"
  have l: "latest_bundle s org env = newest_bundle (filter (\<lambda>b. gb_environment b = env) ?bs)"
    by (simp add: latest_bundle_def org_bundles_def conj_commute)
  have v: "gb_config_version ` set ?bs = {1..int (length ?bs)}"
    using assms(1) by (metis numbered_def set_map set_upto)
  show "latest_bundle s org env = None \<longleftrightarrow> (\<forall>b\<in>set ?bs. gb_environment b \<noteq> env)"
    by (simp add: l newest_bundle_None filter_empty_conv)
  show "\<exists>b\<in>set ?bs. gb_config_version b = 1"
  proof -
    have "1 \<in> gb_config_version ` set ?bs" using assms(2) unfolding v by (cases ?bs) auto
    then show ?thesis by auto
  qed
  assume "latest_bundle s org env = Some b"
  then have b: "b \<in> set ?bs" "gb_environment b = env"
    "\<And>b'. b' \<in> set ?bs \<Longrightarrow> gb_environment b' = env \<Longrightarrow> gb_config_version b' \<le> gb_config_version b"
    using newest_bundle_max unfolding l by fastforce+
  have "int (length ?bs) \<in> gb_config_version ` set ?bs" using assms(2) unfolding v by (cases ?bs) auto
  then obtain m where m: "m \<in> set ?bs" "gb_config_version m = int (length ?bs)" by auto
  have "gb_environment m = env" using assms(1) m(1) b(1,2) unfolding numbered_def by blast
  then have "int (length ?bs) \<le> gb_config_version b" using b(3) m by fastforce
  moreover have "gb_config_version b \<le> int (length ?bs)" using b(1) v by fastforce
  ultimately show "gb_config_version b = int (length ?bs) \<and> b \<in> set ?bs \<and> gb_environment b = env" using b by simp
qed

lemma publish_numbered:
  assumes "numbered s"
  shows "org_bundles s org \<noteq> [] \<Longrightarrow> \<forall>b\<in>set (org_bundles s org). gb_environment b \<noteq> py_lower (pc_environment req) \<Longrightarrow>
      build_and_publish_config c s org req user = (s, Inl ControlIntegrityError)"
    and "org_bundles s org = [] \<or> (\<exists>b\<in>set (org_bundles s org). gb_environment b = py_lower (pc_environment req)) \<Longrightarrow>
      \<exists>t row. build_and_publish_config c s org req user = (t, Inr row) \<and> co_bundles t = co_bundles s @ [row] \<and>
        gb_organization_id row = org \<and> gb_environment row = py_lower (pc_environment req) \<and>
        gb_config_version row = int (length (org_bundles s org)) + 1"
proof -
  let ?bs = "org_bundles s org" and ?env = "py_lower (pc_environment req)"
  have mem: "b \<in> set ?bs \<longleftrightarrow> b \<in> set (co_bundles s) \<and> gb_organization_id b = org" for b by (auto simp: org_bundles_def)
  {
    assume ne: "?bs \<noteq> []" and env: "\<forall>b\<in>set ?bs. gb_environment b \<noteq> ?env"
    then have "latest_bundle s org ?env = None" using numbered_latest(1) [OF assms ne] by blast
    moreover have "list_ex (\<lambda>b. gb_organization_id b = org \<and> gb_config_version b = 1) (co_bundles s)"
      using numbered_latest(3) [OF assms ne] mem by (auto simp: list_ex_iff)
    ultimately show "build_and_publish_config c s org req user = (s, Inl ControlIntegrityError)"
      by (simp add: build_and_publish_config_def Let_def split: prod.split)
  }
  assume ok: "?bs = [] \<or> (\<exists>b\<in>set ?bs. gb_environment b = ?env)"
  have v: "b \<in> set ?bs \<Longrightarrow> gb_config_version b \<le> int (length ?bs)" for b
    using assms unfolding numbered_def by (metis atLeastAtMost_iff imageI set_map set_upto)
  have latest: "(case latest_bundle s org ?env of Some b \<Rightarrow> gb_config_version b + 1 | None \<Rightarrow> 1) = int (length ?bs) + 1"
  proof (cases "?bs = []")
    case True
    then have "latest_bundle s org ?env = None" using mem by (auto simp: latest_bundle_def newest_bundle_None filter_empty_conv)
    then show ?thesis using True by simp
  next
    case False
    then obtain b where "latest_bundle s org ?env = Some b" using ok numbered_latest(1) [OF assms False, of ?env] by fastforce
    then show ?thesis using numbered_latest(2) [OF assms False] by simp
  qed
  moreover have "\<not> list_ex (\<lambda>b. gb_organization_id b = org \<and> gb_config_version b = int (length ?bs) + 1) (co_bundles s)"
    using v mem by (fastforce simp: list_ex_iff)
  ultimately have "\<nexists>e. build_and_publish_config c s org req user = (s, Inl e)"
    by (simp add: build_and_publish_config_def Let_def split: prod.split)
  then show "\<exists>t row. build_and_publish_config c s org req user = (t, Inr row) \<and> co_bundles t = co_bundles s @ [row] \<and>
        gb_organization_id row = org \<and> gb_environment row = ?env \<and> gb_config_version row = int (length ?bs) + 1"
    using publish_cases [of c s org req user] latest by auto
qed

lemma numbered_step:
  assumes "control_step c s t" "numbered s"
  shows "numbered t"
  using control_step_bundles [OF assms(1)]
proof
  assume "co_bundles t = co_bundles s"
  then have "org_bundles t org = org_bundles s org" for org by (simp add: org_bundles_def)
  then show ?thesis using assms(2) unfolding numbered_def by presburger
next
  assume "\<exists>org req user t' row. build_and_publish_config c s org req user = (t', Inr row) \<and> co_bundles t = co_bundles s @ [row]"
  then obtain org req user t' row where b: "build_and_publish_config c s org req user = (t', Inr row)" "co_bundles t = co_bundles s @ [row]"
    by blast
  let ?env = "py_lower (pc_environment req)"
  have ok: "org_bundles s org = [] \<or> (\<exists>b\<in>set (org_bundles s org). gb_environment b = ?env)"
  proof (rule ccontr)
    assume "\<not> ?thesis"
    then show False using publish_numbered(1) [OF assms(2), of org req c user] b(1) by auto
  qed
  have row: "gb_organization_id row = org" "gb_environment row = ?env" "gb_config_version row = int (length (org_bundles s org)) + 1"
    using publish_numbered(2) [OF assms(2) ok, of c user] b(1) by auto
  have o1: "org_bundles t org = org_bundles s org @ [row]" and o2: "o' \<noteq> org \<Longrightarrow> org_bundles t o' = org_bundles s o'" for o'
    using row(1) b(2) by (auto simp: org_bundles_def)
  show ?thesis
    unfolding numbered_def
  proof (intro allI conjI)
    fix o'
    show "map gb_config_version (org_bundles t o') = [1..int (length (org_bundles t o'))]"
    proof (cases "o' = org")
      case True
      have "[1..int (length (org_bundles s org)) + 1] = [1..int (length (org_bundles s org))] @ [int (length (org_bundles s org)) + 1]"
        using upto_rec2 [of 1 "int (length (org_bundles s org)) + 1"] by simp
      moreover have "map gb_config_version (org_bundles s org) = [1..int (length (org_bundles s org))]"
        using assms(2) unfolding numbered_def by blast
      ultimately show ?thesis by (simp add: True o1 row(3) add.commute)
    next
      case False
      show ?thesis using assms(2) unfolding numbered_def o2 [OF False] by blast
    qed
    show "\<forall>b\<in>set (org_bundles t o'). \<forall>b'\<in>set (org_bundles t o'). gb_environment b = gb_environment b'"
    proof (cases "o' = org")
      case True
      have same: "\<forall>b\<in>set (org_bundles s org). \<forall>b'\<in>set (org_bundles s org). gb_environment b = gb_environment b'"
        using assms(2) unfolding numbered_def by blast
      have e: "gb_environment b = ?env" if "b \<in> set (org_bundles s org)" for b
        using ok
      proof
        assume "\<exists>b'\<in>set (org_bundles s org). gb_environment b' = ?env"
        then obtain b' where "b' \<in> set (org_bundles s org)" "gb_environment b' = ?env" by blast
        then show ?thesis using same that by metis
      qed (use that in simp)
      show ?thesis unfolding True o1 using e row(2) by simp
    next
      case False
      show ?thesis using assms(2) unfolding numbered_def o2 [OF False] by blast
    qed
  qed
qed

interpretation versions: transition_system "\<lambda>s. co_bundles s = []" "control_step c" numbered for c
proof unfold_locales
  show "co_bundles s = [] \<Longrightarrow> numbered s" for s by (simp add: numbered_def org_bundles_def)
qed (rule numbered_step)

text \<open>
  C14. Versions count up. From a state without configurations, in every later state the configurations of an organization
  carry the versions 1 to \<open>n\<close> in the order they were published, and all of them are for one environment; publishing, and
  so rolling back, takes \<open>n + 1\<close>, above every version published before, or changes nothing.
\<close>

theorem config_versions_sequential:
  assumes "co_bundles s = []" "(control_step c)\<^sup>*\<^sup>* s t"
  shows "map gb_config_version (org_bundles t org) = [1..int (length (org_bundles t org))]
    \<and> (\<forall>b\<in>set (org_bundles t org). \<forall>b'\<in>set (org_bundles t org). gb_environment b = gb_environment b')
    \<and> (build_and_publish_config c t org req user = (t, Inl ControlIntegrityError) \<or>
        (\<exists>t' row. build_and_publish_config c t org req user = (t', Inr row) \<and> org_bundles t' org = org_bundles t org @ [row] \<and>
          (\<forall>b\<in>set (org_bundles t org). gb_config_version b < gb_config_version row)))"
proof -
  have n: "numbered t" using versions.inv_reachable assms by blast
  have v: "b \<in> set (org_bundles t org) \<Longrightarrow> gb_config_version b \<le> int (length (org_bundles t org))" for b
    using n unfolding numbered_def by (metis atLeastAtMost_iff imageI set_map set_upto)
  have "build_and_publish_config c t org req user = (t, Inl ControlIntegrityError) \<or>
      (\<exists>t' row. build_and_publish_config c t org req user = (t', Inr row) \<and> org_bundles t' org = org_bundles t org @ [row] \<and>
        gb_config_version row = int (length (org_bundles t org)) + 1)"
  proof (cases "org_bundles t org = [] \<or> (\<exists>b\<in>set (org_bundles t org). gb_environment b = py_lower (pc_environment req))")
    case True
    then obtain t' row where r: "build_and_publish_config c t org req user = (t', Inr row)" "co_bundles t' = co_bundles t @ [row]"
      "gb_organization_id row = org" "gb_config_version row = int (length (org_bundles t org)) + 1"
      using publish_numbered(2) [OF n True, of c user] by blast
    then have "org_bundles t' org = org_bundles t org @ [row]" by (simp add: org_bundles_def)
    then show ?thesis using r by blast
  next
    case False
    then show ?thesis using publish_numbered(1) [OF n] by blast
  qed
  then show ?thesis using n v unfolding numbered_def by (metis zle_add1_eq_le)
qed

lemma py_lower_idem: "py_lower (py_lower t) = py_lower t"
proof -
  have "\<not> is_upper (char_of (of_char c + 32 :: nat))" if "is_upper c" for c
    using that by (auto simp: is_upper_def Let_def)
  then show ?thesis by (induction t) (auto simp: py_lower_def lower_char_def)
qed

text \<open>
  C21. An organization has one environment. Versions are numbered per organization and environment, but the table wants
  them unique per organization: once a configuration exists, the first one of another environment takes version 1 again and fails with
  an integrity error, whether it is published or made for the first download of a gateway of that environment,
  which so never gets a configuration.
\<close>

theorem second_environment_refused:
  assumes "co_bundles s = []" "(control_step c)\<^sup>*\<^sup>* s t" "b \<in> set (co_bundles t)"
    and "py_lower (pc_environment req) \<noteq> gb_environment b"
    and "find_gateway t g = Some w" "\<not> barred w" "eg_organization_id w = gb_organization_id b"
      "py_lower (eg_environment w) \<noteq> gb_environment b"
  shows "build_and_publish_config c t (gb_organization_id b) req user = (t, Inl ControlIntegrityError)
    \<and> get_signed_config_bundle c t g cv = (t, Inl ControlIntegrityError)"
proof -
  let ?org = "gb_organization_id b"
  have n: "numbered t" using versions.inv_reachable assms(1,2) by blast
  have b: "b \<in> set (org_bundles t ?org)" using assms(3) by (simp add: org_bundles_def)
  have e: "b' \<in> set (org_bundles t ?org) \<Longrightarrow> gb_environment b' = gb_environment b" for b'
    using n b unfolding numbered_def by blast
  have fails: "build_and_publish_config c t ?org rq u = (t, Inl ControlIntegrityError)" if "py_lower (pc_environment rq) \<noteq> gb_environment b" for rq u
  proof (rule publish_numbered(1) [OF n])
    show "org_bundles t ?org \<noteq> []" using b by auto
    show "\<forall>b'\<in>set (org_bundles t ?org). gb_environment b' \<noteq> py_lower (pc_environment rq)" using e that by auto
  qed
  have "latest_bundle t ?org (py_lower (eg_environment w)) = None"
    using numbered_latest(1) [OF n, of ?org] b e assms(8) by (metis empty_iff list.set(1))
  then have "get_signed_config_bundle c t g cv = (t, Inl ControlIntegrityError)"
    using assms(5-8) fails [of "empty_publish_request (py_lower (eg_environment w))" None]
    by (simp add: get_signed_config_bundle_def barred_def Let_def empty_publish_request_def py_lower_idem)
  then show ?thesis using fails assms(4) by blast
qed

section \<open>An example\<close>

definition demo_control_crypto :: control_crypto where
  "demo_control_crypto = \<lparr>sha256_hex = (\<lambda>s. s), b64decode = Some, b64encode = (\<lambda>s. s), ed25519_key = (\<lambda>_. True),
     ed25519_verify = (\<lambda>pub sig message. sig = ''s'' @ pub @ message), b64decode_lax = Some, public_bytes = (\<lambda>k. k),
     private_sign = (\<lambda>k message. Some (''s'' @ k @ message)), json_loads = (\<lambda>_. None),
     fromisoformat = (\<lambda>t. parse_utc (take (length t - 6) t @ ''Z'')), control_public = ''cp'',
     control_sign = (\<lambda>message. ''scp'' @ message)\<rparr>"

definition demo_gateway :: "GatewayStatus \<Rightarrow> EnterpriseGateway" where
  "demo_gateway st = \<lparr>eg_id = 1, eg_gateway_id = ''gw_1'', eg_organization_id = 7, eg_name = ''edge'', eg_deployment_type = ''SIDECAR'',
     eg_environment = ''PRODUCTION'', eg_status = st, eg_version = ''1.0.0'', eg_public_key = None, eg_fingerprint = None,
     eg_enrollment_token_hash = Some ''token'', eg_enrollment_token_expires_at = Some (minutes 15), eg_config_version = 0,
     eg_labels = [], eg_offline_policy = ''FAIL_CLOSED'', eg_last_seen_at = None, eg_last_heartbeat_data = None,
     eg_created_at = 0, eg_revoked_at = None, eg_suspended_at = None\<rparr>"

definition demo_control :: "EnterpriseGateway \<Rightarrow> control" where
  "demo_control w = \<lparr>co_xorg = \<lparr>xo_signing = \<lparr>sg_db = demo_db, sg_keys = [], sg_nonces = []\<rparr>,
       xo_organizations = [\<lparr>or_id = 7, or_name = ''Acme'', or_is_active = True\<rparr>], xo_trusts = [], xo_policies = [],
       xo_target_policies = [], xo_connections = [], xo_requests = [], xo_approvals = [], xo_profiles = []\<rparr>,
     co_issuers = [], co_issuer_keys = [], co_gateways = [w], co_bundles = []\<rparr>"

lemma demo_find [simp]: "find_gateway (demo_control w) g = (if g = eg_gateway_id w then Some w else None)"
  by (simp add: find_gateway_def demo_control_def)

lemma demo_fields [simp]:
  "eg_gateway_id (demo_gateway st) = ''gw_1''" "eg_status (demo_gateway st) = st" "eg_organization_id (demo_gateway st) = 7"
  "eg_environment (demo_gateway st) = ''PRODUCTION''" "co_bundles (demo_control w) = []"
  by (simp_all add: demo_gateway_def demo_control_def)

definition demo_enrolment :: GatewayEnrollRequest where
  "demo_enrolment = \<lparr>ee_enrollment_token = ''token '', ee_public_key = replicate 32 (CHR ''k''), ee_version = None, ee_labels = None\<rparr>"

definition demo_heartbeat :: GatewayHeartbeatRequest where
  "demo_heartbeat = \<lparr>hb_version = ''1'', hb_config_version = 0, hb_health = [], hb_timestamp = ''t'', hb_signature = ''s''\<rparr>"

theorem gateway_stays_barred_witness:
  "\<exists>code. verify_gateway_heartbeat demo_control_crypto (fst (suspend_enterprise_gateway (demo_control (demo_gateway GS_REVOKED)) ''gw_1'' 7)) ''gw_1''
     demo_heartbeat = (fst (suspend_enterprise_gateway (demo_control (demo_gateway GS_REVOKED)) ''gw_1'' 7), Inl (GatewayControlError code 403))"
  using gateway_stays_barred [where s = "demo_control (demo_gateway GS_REVOKED)" and g = "''gw_1''" and w = "demo_gateway GS_REVOKED"
      and c = demo_control_crypto and t = "fst (suspend_enterprise_gateway (demo_control (demo_gateway GS_REVOKED)) ''gw_1'' 7)"
      and hq = demo_heartbeat and eq = demo_enrolment and cv = None]
    control_step.suspend [where c = demo_control_crypto and s = "demo_control (demo_gateway GS_REVOKED)" and g = "''gw_1''" and org = 7]
  by (auto simp: barred_def)

lemma demo_enrolled:
  "\<exists>r. enroll_enterprise_gateway demo_control_crypto (demo_control (demo_gateway GS_ENROLLING)) ''gw_1'' demo_enrolment =
     (fst (enroll_enterprise_gateway demo_control_crypto (demo_control (demo_gateway GS_ENROLLING)) ''gw_1'' demo_enrolment), Inr r)"
proof -
  have "\<not> isl (snd (enroll_enterprise_gateway demo_control_crypto (demo_control (demo_gateway GS_ENROLLING)) ''gw_1'' demo_enrolment))"
    by code_simp
  then show ?thesis by (metis prod.collapse sum.collapse(2))
qed

theorem enrollment_token_once_witness:
  "\<exists>e. enroll_enterprise_gateway demo_control_crypto
     (fst (enroll_enterprise_gateway demo_control_crypto (demo_control (demo_gateway GS_ENROLLING)) ''gw_1'' demo_enrolment)) ''gw_1'' demo_enrolment =
     (fst (enroll_enterprise_gateway demo_control_crypto (demo_control (demo_gateway GS_ENROLLING)) ''gw_1'' demo_enrolment), Inl e)"
  using demo_enrolled enrollment_token_once [OF _ rtranclp.rtrancl_refl] by metis

definition published_state :: control where
  "published_state = fst (build_and_publish_config demo_control_crypto (demo_control (demo_gateway GS_ACTIVE)) 7 (empty_publish_request ''sandbox'') None)"

lemma publish_find_gateway: "find_gateway (fst (build_and_publish_config c s org req user)) g = find_gateway s g"
  using publish_cases [of c s org req user] by (auto simp: find_gateway_def)

lemma published_reached: "(control_step demo_control_crypto)\<^sup>*\<^sup>* (demo_control (demo_gateway GS_ACTIVE)) published_state"
  unfolding published_state_def by (rule r_into_rtranclp) (rule control_step.publish)

theorem config_versions_sequential_witness:
  "map gb_config_version (org_bundles published_state 7) = [1..int (length (org_bundles published_state 7))]"
  using config_versions_sequential [OF _ published_reached, of 7] by simp

theorem second_environment_refused_witness:
  "get_signed_config_bundle demo_control_crypto published_state ''gw_1'' None = (published_state, Inl ControlIntegrityError)"
proof -
  have b: "map (\<lambda>b. (gb_organization_id b, gb_environment b)) (co_bundles published_state) = [(7, ''sandbox'')]"
    "py_lower ''PRODUCTION'' = ''production''" by code_simp+
  have f: "find_gateway published_state ''gw_1'' = Some (demo_gateway GS_ACTIVE)"
    by (simp add: published_state_def publish_find_gateway)
  from b(1) obtain row where r: "row \<in> set (co_bundles published_state)" "gb_organization_id row = 7" "gb_environment row = ''sandbox''"
    by (cases "co_bundles published_state") auto
  show ?thesis
    using second_environment_refused [OF _ published_reached r(1), where req = "empty_publish_request ''PRODUCTION''" and g = "''gw_1''"] b f r(2,3)
    by (simp add: empty_publish_request_def barred_def)
qed

end
