(* ===== verification/SidecarControl_Safety.thy ===== *)
theory SidecarControl_Safety
  imports GatewayControl_Safety Sidecar_Safety
begin

text \<open>
  The sidecar and the control plane together: what one side signs and sends, the other accepts.
\<close>

section \<open>Configurations\<close>

text \<open>The key pair of the control plane and the codecs fit together.\<close>

definition control_keys_ok :: "control_crypto \<Rightarrow> bool" where
  "control_keys_ok c \<longleftrightarrow>
     b64decode_lax c (b64encode c (control_public c)) = Some (control_public c) \<and> ed25519_key c (control_public c) \<and>
     (\<forall>m. b64decode_lax c (b64encode c (control_sign c m)) = Some (control_sign c m) \<and> b64encode c (control_sign c m) \<noteq> [] \<and>
        ed25519_verify c (control_public c) (control_sign c m) m \<and> sha256_hex c m \<noteq> [])"

lemma config_canon_text:
  "config_text [PInt version, PStr (uuid_str org), PStr env, PStr (utc_text issued), PStr (utc_text expires), PStr sha] =
     config_canon version org env issued expires sha"
  by (simp add: config_text_def ended_lines_def config_canon_def CONFIG_SIGNING_VERSION_def py_str_def)

lemma texts_nonempty: "uuid_str u \<noteq> []" "utc_text t \<noteq> []"
  by (simp_all add: uuid_str_def utc_text_def Let_def)

definition signed_bundle :: "control_crypto \<Rightarrow> GatewayConfigBundle \<Rightarrow> bool" where
  "signed_bundle c b \<longleftrightarrow> gb_bundle_sha256 b = sha256_hex c (canonical_json (PDict (gb_bundle_json b))) \<and> gb_bundle_json b \<noteq> [] \<and>
     gb_signature b = b64encode c (control_sign c (config_canon (gb_config_version b) (gb_organization_id b) (gb_environment b)
       (gb_created_at b) (gb_expires_at b) (gb_bundle_sha256 b)))"

lemma publish_signs: "build_and_publish_config c s org req user = (t, Inr b) \<Longrightarrow> signed_bundle c b"
  by (auto simp: build_and_publish_config_def signed_bundle_def config_bundle_def Let_def split: prod.splits if_splits)

lemma signed_bundle_verifies:
  assumes "control_keys_ok c" "signed_bundle c b" "gb_config_version b \<noteq> 0" "gb_environment b \<noteq> []"
  shows "verify_control_plane_config c (PDict (config_response b)) (b64encode c (control_public c)) = Inr True"
proof -
  let ?sha = "sha256_hex c (canonical_json (PDict (gb_bundle_json b)))"
  have k: "?sha \<noteq> []" "gb_signature b \<noteq> []" using assms(1,2) by (auto simp: control_keys_ok_def signed_bundle_def)
  have "text_verifies c (b64encode c (control_public c)) (PStr (gb_signature b))
      (config_text [PInt (gb_config_version b), PStr (uuid_str (gb_organization_id b)), PStr (gb_environment b),
         PStr (utc_text (gb_created_at b)), PStr (utc_text (gb_expires_at b)), PStr (gb_bundle_sha256 b)])"
    using assms(1,2) unfolding config_canon_text by (simp add: text_verifies_def control_keys_ok_def signed_bundle_def)
  then show ?thesis
    using assms(2-4) k
    by (simp add: verify_control_plane_config_def config_response_def compute_bundle_sha256_def signed_bundle_def texts_nonempty Let_def)
qed

text \<open>
  C16. What the control plane publishes verifies. With a key pair and codecs that fit, the answer made of a bundle the
  control plane has just published for a named environment passes the sidecar's verification under the control
  plane's key; and whatever passes that verification carries a signature under the key over its version, organization, environment, times and the
  hash of its bundle.
\<close>

theorem published_config_verifies:
  assumes "control_keys_ok c" "build_and_publish_config c s org req user = (t, Inr b)" "pc_environment req \<noteq> []"
    and "co_bundles s0 = []" "(control_step c)\<^sup>*\<^sup>* s0 s"
  shows "verify_control_plane_config c (PDict (config_response b)) (b64encode c (control_public c)) = Inr True
    \<and> (verify_control_plane_config c (PDict d) key = Inr True \<longrightarrow>
        (\<exists>pub t sig. b64decode_lax c key = Some pub \<and> dict_get d ''signature'' PNone = PStr t \<and> b64decode_lax c t = Some sig \<and>
          ed25519_verify c pub sig (config_text (map (\<lambda>k. dict_get d k PNone)
            [''config_version'', ''organization_id'', ''environment'', ''issued_at'', ''expires_at'', ''bundle_sha256''])) \<and>
          dict_get d ''bundle_sha256'' PNone = PStr (compute_bundle_sha256 c (py_or (dict_get d ''bundle'' PNone) (PDict [])))))"
proof -
  have n: "numbered s" using versions.inv_reachable assms(4,5) by blast
  have v: "gb_config_version b \<noteq> 0" "gb_environment b \<noteq> []"
    using publish_numbered [OF n, of org req c user] assms(2,3)
    by (cases "org_bundles s org = [] \<or> (\<exists>b\<in>set (org_bundles s org). gb_environment b = py_lower (pc_environment req))"; force simp: py_lower_def)+
  have str: "py_eq (PStr a) v \<Longrightarrow> v = PStr a" for a v by (cases v) (auto simp: py_eq.simps)
  have "\<exists>pub t sig. b64decode_lax c key = Some pub \<and> dict_get d ''signature'' PNone = PStr t \<and> b64decode_lax c t = Some sig \<and>
          ed25519_verify c pub sig (config_text (map (\<lambda>k. dict_get d k PNone)
            [''config_version'', ''organization_id'', ''environment'', ''issued_at'', ''expires_at'', ''bundle_sha256''])) \<and>
          dict_get d ''bundle_sha256'' PNone = PStr (compute_bundle_sha256 c (py_or (dict_get d ''bundle'' PNone) (PDict [])))"
    if "verify_control_plane_config c (PDict d) key = Inr True"
    using that str
    by (auto simp: verify_control_plane_config_def text_verifies_def Let_def split: option.splits pyval.splits)
  then show ?thesis using signed_bundle_verifies [OF assms(1) publish_signs [OF assms(2)] v] by blast
qed

lemma first_publish:
  assumes "co_bundles s = []"
  shows "build_and_publish_config c s org req user =
    (fst (build_and_publish_config c s org req user), Inr (hd (co_bundles (fst (build_and_publish_config c s org req user)))))"
proof -
  have "numbered s" by (rule versions.inv_init) (rule assms)
  moreover have "org_bundles s org = []" by (simp add: org_bundles_def assms)
  ultimately obtain t row where "build_and_publish_config c s org req user = (t, Inr row)" "co_bundles t = [row]"
    using publish_numbered(2) [of s org req c user] assms by auto
  then show ?thesis by simp
qed

section \<open>Heartbeats\<close>

text \<open>The fields the schema of a heartbeat reads.\<close>

definition parse_heartbeat :: "pyval \<Rightarrow> GatewayHeartbeatRequest option" where
  "parse_heartbeat v =
     (case v of
        PDict d \<Rightarrow>
          (case (dict_get d ''version'' PNone, dict_get d ''config_version'' PNone, dict_get d ''health'' PNone,
                 dict_get d ''timestamp'' PNone, dict_get d ''signature'' PNone) of
             (PStr a, PInt n, PDict h, PStr t, PStr sig) \<Rightarrow>
               Some \<lparr>hb_version = a, hb_config_version = n, hb_health = h, hb_timestamp = t, hb_signature = sig\<rparr>
           | _ \<Rightarrow> None)
      | _ \<Rightarrow> None)"

text \<open>The sidecar's key pair fits the control plane's library.\<close>

definition local_keys_ok :: "control_crypto \<Rightarrow> sidecar_env \<Rightarrow> bool" where
  "local_keys_ok c env \<longleftrightarrow>
     b64decode_lax c (b64encode c (sv_local_public env)) = Some (sv_local_public env) \<and> ed25519_key c (sv_local_public env) \<and>
     b64encode (sv_crypto env) = b64encode c \<and>
     (\<forall>m. b64decode_lax c (b64encode c (sv_local_sign env m)) = Some (sv_local_sign env m) \<and>
        ed25519_verify c (sv_local_public env) (sv_local_sign env m) m)"

text \<open>
  C17. A sidecar's heartbeat is accepted. If the control plane holds the sidecar's key for a gateway that is not barred, the
  clocks differ by at most 300 seconds and the key pair and codecs fit, the heartbeat the sidecar sends is parsed and
  accepted, its health is stored, and it is told to synchronize exactly when a newer version than its own has been published.
\<close>

theorem sidecar_heartbeat_accepted:
  assumes "ss_gateway_id s = Some g" "ss_applied_config_version s = PInt n" "local_keys_ok c env"
    and "find_gateway t g = Some w" "\<not> barred w" "eg_public_key w = Some (b64encode c (sv_local_public env))"
      "b64encode c (sv_local_public env) \<noteq> []"
    and "iso_reads c (ss_now s)" "\<bar>co_now t - (ss_now s - ss_now s mod seconds 1)\<bar> \<le> seconds 300"
  shows "\<exists>hq r. parse_heartbeat (heartbeat_payload env s) = Some hq
    \<and> verify_gateway_heartbeat c t g hq = (update_gateway g (beat_gateway (co_now t) hq) t, Inr r)
    \<and> hb_config_version hq = n
    \<and> (hr_sync_required r \<longleftrightarrow> n < latest_version t (eg_organization_id w) (py_lower (eg_environment w)))"
proof -
  let ?hq = "the (parse_heartbeat (heartbeat_payload env s))"
  have p: "parse_heartbeat (heartbeat_payload env s) = Some ?hq"
    and f: "hb_config_version ?hq = n" "hb_timestamp ?hq = utc_text (ss_now s)"
      "hb_signature ?hq = b64encode c (sv_local_sign env (heartbeat_canon g ?hq))"
    using assms(1-3)
    by (simp_all add: parse_heartbeat_def heartbeat_payload_def sign_heartbeat_def local_keys_ok_def heartbeat_text_def
        ended_lines_def HEARTBEAT_SIGNING_VERSION_def heartbeat_canon_def py_str_def Let_def)
  have b: "check_beating w = Inr (b64encode c (sv_local_public env))"
    using assms(5-7) by (auto simp: check_beating_def barred_def split: list.split)
  have time: "heartbeat_time_ok c (co_now t) (hb_timestamp ?hq)"
    using assms(9) by (simp add: heartbeat_time_ok_def f(2) parse_timestamp_utc_text [OF assms(8)])
  have sig: "signature_ok c (b64encode c (sv_local_public env)) (hb_signature ?hq) (heartbeat_canon g ?hq)"
    using assms(3) by (simp add: signature_ok_def local_keys_ok_def f(3))
  show ?thesis
    using p f(1) by (intro exI [of _ ?hq]) (simp add: verify_gateway_heartbeat_def assms(4) b time sig Let_def)
qed

section \<open>Delivery\<close>

definition all_signed :: "control_crypto \<Rightarrow> control \<Rightarrow> bool" where
  "all_signed c s \<longleftrightarrow> (\<forall>b\<in>set (co_bundles s). signed_bundle c b)"

lemma all_signed_step: "control_step c s t \<Longrightarrow> all_signed c s \<Longrightarrow> all_signed c t"
  using control_step_bundles [of c s t] publish_signs [of c] by (fastforce simp: all_signed_def)

interpretation signed: transition_system "\<lambda>s. co_bundles s = []" "control_step c" "all_signed c" for c
proof unfold_locales
  show "co_bundles s = [] \<Longrightarrow> all_signed c s" for s by (simp add: all_signed_def)
qed (rule all_signed_step)

text \<open>What the control plane answers to a request for the configuration.\<close>

definition served :: "control_crypto \<Rightarrow> control \<Rightarrow> string \<Rightarrow> int \<Rightarrow> fetched" where
  "served c t g n =
     (case snd (get_signed_config_bundle c t g (Some n)) of
        Inr (Some d) \<Rightarrow> Fetched (PDict d)
      | Inr None \<Rightarrow> NotModified
      | Inl e \<Rightarrow> FetchFailed)"

lemma parse_served_expiry:
  "iso_reads c t \<Longrightarrow> parse_expiry c (PStr (utc_text t)) = Inr (t - t mod seconds 1)"
  by (simp add: parse_expiry_def utc_text_def py_endswith_def iso_reads_def)

lemma newer_is_no_rollback: "n < m \<Longrightarrow> is_rollback (PInt m) (PInt n) = Inr False"
  by (simp add: is_rollback_def py_le_def float_le_def float_eq_def)

text \<open>
  C15. Published configurations arrive. When the first address of the control plane answers a sidecar whose gateway is not barred, and the
  newest configuration \<open>b\<close> of the gateway's environment is newer than the one applied, a synchronization applies exactly
  \<open>b\<close>, its bundle and its expiry (in whole seconds), whether the sidecar knows no key or the control plane's; when it
  is not newer, nothing but the marks of a successful contact changes.
\<close>

theorem sidecar_receives_config:
  assumes "co_bundles t0 = []" "(control_step c)\<^sup>*\<^sup>* t0 t" "control_keys_ok c"
    and "find_gateway t g = Some w" "\<not> barred w" "eg_environment w \<noteq> []"
    and "latest_bundle t (eg_organization_id w) (py_lower (eg_environment w)) = Some b" "iso_reads c (gb_expires_at b)"
    and "ss_gateway_id s = Some g" "g \<noteq> []" "ss_applied_config_version s = PInt n"
      "ss_control_plane_public_key s \<in> {None, Some (b64encode c (control_public c))}"
    and "sv_crypto env = issuer_crypto.truncate c" "sv_disk_ok env"
      "sv_fetch env (gateway_url (sc_control_plane_url config) s (''/config?client_version='' @ py_str (PInt n))) = served c t g n"
  shows "sync_configuration_sync config env s =
    (if n < gb_config_version b
     then (save_config_cache (update_config (s\<lparr>ss_control_plane_reachable := True\<rparr>) (PInt (gb_config_version b)) (PDict (gb_bundle_json b))
             (gb_expires_at b - gb_expires_at b mod seconds 1)) (PDict (config_response b)), True)
     else (s\<lparr>ss_control_plane_reachable := True, ss_last_sync_time := Some (ss_now s)\<rparr>, False))"
proof -
  have n: "numbered t" using versions.inv_reachable assms(1,2) by blast
  have mem: "b \<in> set (co_bundles t)" "gb_environment b = py_lower (eg_environment w)" "gb_organization_id b = eg_organization_id w"
    using newest_bundle_max [OF assms(7) [unfolded latest_bundle_def]] by simp_all
  have ver: "gb_config_version b \<noteq> 0"
  proof -
    have "org_bundles t (eg_organization_id w) \<noteq> []" using mem by (auto simp: org_bundles_def filter_empty_conv)
    then show ?thesis using numbered_latest(2) [OF n _ assms(7)] by simp
  qed
  have env: "gb_environment b \<noteq> []" using mem(2) assms(6) by (simp add: py_lower_def)
  have "signed_bundle c b" using signed.inv_reachable [OF assms(1,2)] mem(1) by (simp add: all_signed_def)
  then have verified: "verify_control_plane_config c (PDict (config_response b)) (b64encode c (control_public c)) = Inr True"
    using signed_bundle_verifies assms(3) ver env by blast
  have fields: "b64decode_lax (issuer_crypto.truncate c) = b64decode_lax c" "ed25519_key (issuer_crypto.truncate c) = ed25519_key c"
    "ed25519_verify (issuer_crypto.truncate c) = ed25519_verify c" "sha256_hex (issuer_crypto.truncate c) = sha256_hex c"
    by (simp_all add: issuer_crypto.truncate_def)
  have trunc: "verify_control_plane_config (issuer_crypto.truncate c) d k = verify_control_plane_config c d k" for d k
    unfolding verify_control_plane_config_def text_verifies_def compute_bundle_sha256_def fields by (rule refl)
  have accepted: "signature_accepted env (s\<lparr>ss_control_plane_reachable := True\<rparr>) (PDict (config_response b)) = Inr True"
    using assms(12,13) verified by (auto simp: signature_accepted_def present_def trunc)
  have dl: "served c t g n = (if gb_config_version b \<le> n then NotModified else Fetched (PDict (config_response b)))"
    using assms(4,5,7) by (simp add: served_def get_signed_config_bundle_def barred_def Let_def)
  have expiry: "parse_expiry (sv_crypto env) (PStr (utc_text (gb_expires_at b))) = Inr (gb_expires_at b - gb_expires_at b mod seconds 1)"
    using parse_served_expiry [OF assms(8)] by (simp add: assms(13) parse_expiry_def issuer_crypto.truncate_def)
  have good: "check_bundle env (s\<lparr>ss_control_plane_reachable := True\<rparr>) (PDict (config_response b)) =
      Inr (Some (PInt (gb_config_version b), PDict (gb_bundle_json b), gb_expires_at b - gb_expires_at b mod seconds 1))"
    if "n < gb_config_version b"
    using accepted expiry newer_is_no_rollback [OF that] assms(11) by (simp add: check_bundle_Some) (simp add: config_response_def)
  show ?thesis
  proof (cases "n < gb_config_version b")
    case True
    then show ?thesis
      using assms(9-11,14,15) dl good
      by (simp add: sync_configuration_sync_def present_def endpoints_of_def apply_bundle_def Let_def)
  next
    case False
    then show ?thesis
      using assms(9-11,15) dl by (simp add: sync_configuration_sync_def present_def endpoints_of_def)
  qed
qed

section \<open>An example\<close>

definition demo_keys :: control_crypto where
  "demo_keys = demo_control_crypto\<lparr>sha256_hex := (\<lambda>m. ''h'')\<rparr>"

definition demo_serving :: control where
  "demo_serving = fst (build_and_publish_config demo_keys (demo_control ((demo_gateway GS_ACTIVE)\<lparr>eg_public_key := Some ''pk''\<rparr>)) 7
     (empty_publish_request ''production'') None)"

lemma demo_serving_reached:
  "(control_step demo_keys)\<^sup>*\<^sup>* (demo_control ((demo_gateway GS_ACTIVE)\<lparr>eg_public_key := Some ''pk''\<rparr>)) demo_serving"
  unfolding demo_serving_def by (rule r_into_rtranclp) (rule control_step.publish)

definition demo_bundle_row :: GatewayConfigBundle where
  "demo_bundle_row = the (latest_bundle demo_serving 7 ''production'')"

lemma demo_serving_gateway:
  "find_gateway demo_serving ''gw_1'' = Some ((demo_gateway GS_ACTIVE)\<lparr>eg_public_key := Some ''pk''\<rparr>)"
  by (simp add: demo_serving_def publish_find_gateway)

lemma demo_serving_facts:
  "latest_bundle demo_serving 7 ''production'' = Some demo_bundle_row" "gb_config_version demo_bundle_row = 1"
  "gb_expires_at demo_bundle_row = days 1" "py_lower ''PRODUCTION'' = ''production''" "iso_reads demo_keys (days 1)"
  "co_now demo_serving = 0" "iso_reads demo_keys 0"
  by code_simp+

lemma demo_keys_ok: "control_keys_ok demo_keys"
  by (simp add: control_keys_ok_def demo_keys_def demo_control_crypto_def)

theorem published_config_verifies_witness:
  "verify_control_plane_config demo_keys (PDict (config_response (hd (co_bundles demo_serving)))) (b64encode demo_keys (control_public demo_keys)) =
     Inr True"
  using published_config_verifies [OF demo_keys_ok first_publish _ _ rtranclp.rtrancl_refl,
      of "demo_control ((demo_gateway GS_ACTIVE)\<lparr>eg_public_key := Some ''pk''\<rparr>)" "empty_publish_request ''production''" 7 None]
  by (simp add: demo_serving_def empty_publish_request_def)

definition demo_served_env :: sidecar_env where
  "demo_served_env = (demo_sidecar_env (served demo_keys demo_serving ''gw_1'' 0))\<lparr>sv_crypto := issuer_crypto.truncate demo_keys,
     sv_local_sign := (\<lambda>m. ''spk'' @ m)\<rparr>"

definition demo_active :: SidecarState where
  "demo_active = (SidecarState_init 0 0)\<lparr>ss_gateway_id := Some ''gw_1'', ss_control_plane_public_key := Some ''cp''\<rparr>"

theorem sidecar_heartbeat_accepted_witness:
  "\<exists>hq r. parse_heartbeat (heartbeat_payload demo_served_env demo_active) = Some hq
    \<and> verify_gateway_heartbeat demo_keys demo_serving ''gw_1'' hq =
        (update_gateway ''gw_1'' (beat_gateway (co_now demo_serving) hq) demo_serving, Inr r)
    \<and> hb_config_version hq = 0 \<and> hr_sync_required r"
proof -
  have k: "local_keys_ok demo_keys demo_served_env"
    by (simp add: local_keys_ok_def demo_served_env_def demo_sidecar_env_def demo_keys_def demo_control_crypto_def issuer_crypto.truncate_def)
  have w: "ss_gateway_id demo_active = Some ''gw_1''" "ss_applied_config_version demo_active = PInt 0" "ss_now demo_active = 0"
    "b64encode demo_keys (sv_local_public demo_served_env) = ''pk''"
    by (simp_all add: demo_active_def SidecarState_init_def demo_keys_def demo_control_crypto_def demo_served_env_def demo_sidecar_env_def)
  have l: "0 < latest_version demo_serving 7 ''production''" by (simp add: latest_version_def demo_serving_facts)
  show ?thesis
    using sidecar_heartbeat_accepted [OF w(1,2) k demo_serving_gateway, unfolded w(3,4)] l demo_serving_facts(4,6,7)
    by (simp add: barred_def seconds_def)
qed

theorem sidecar_receives_config_witness:
  "snd (sync_configuration_sync demo_sidecar_config demo_served_env demo_active)
   \<and> ss_applied_config_version (fst (sync_configuration_sync demo_sidecar_config demo_served_env demo_active)) = PInt 1"
proof -
  have w: "ss_gateway_id demo_active = Some ''gw_1''" "ss_applied_config_version demo_active = PInt 0"
    "ss_control_plane_public_key demo_active \<in> {None, Some (b64encode demo_keys (control_public demo_keys))}"
    by (simp_all add: demo_active_def SidecarState_init_def demo_keys_def demo_control_crypto_def)
  have e: "sv_crypto demo_served_env = issuer_crypto.truncate demo_keys" "sv_disk_ok demo_served_env"
    "sv_fetch demo_served_env url = served demo_keys demo_serving ''gw_1'' 0" for url
    by (simp_all add: demo_served_env_def demo_sidecar_env_def)
  have "sync_configuration_sync demo_sidecar_config demo_served_env demo_active =
    (if 0 < gb_config_version demo_bundle_row
     then (save_config_cache (update_config (demo_active\<lparr>ss_control_plane_reachable := True\<rparr>) (PInt (gb_config_version demo_bundle_row))
             (PDict (gb_bundle_json demo_bundle_row)) (gb_expires_at demo_bundle_row - gb_expires_at demo_bundle_row mod seconds 1))
             (PDict (config_response demo_bundle_row)), True)
     else (demo_active\<lparr>ss_control_plane_reachable := True, ss_last_sync_time := Some (ss_now demo_active)\<rparr>, False))"
    by (rule sidecar_receives_config [OF _ demo_serving_reached demo_keys_ok demo_serving_gateway _ _ _ _ w(1) _ w(2,3) e(1,2) e(3)])
      (simp_all add: demo_serving_facts barred_def)
  then show ?thesis by (simp add: demo_serving_facts(2) save_config_cache_def update_config_def)
qed

end
