(* ===== verification/Spec2Isabelle.thy ===== *)
theory Spec2Isabelle
  imports APL_Validator APL_Diff AuthorizationRequests_Safety Lifecycle_Safety RiskEngine_Safety
    Notifications_Safety PlanLimits Gateway_Safety Sidecar_Checks SidecarControl_Safety
begin

text \<open>
  A model of the decision core of AgentTrust (\<open>src/backend/app\<close>): who may do what on behalf of
  whom, for how long, up to which amount, and who has to agree. An authorization request names an
  agent, an action, a resource and possibly an amount and a delegation; the service looks for a
  permission or verifies the delegation chain, scores the risk, applies the rules of the
  organization and its policies, and records an approval, a rejection or a request that waits for
  a human decision.

  \<^bold>\<open>Conventions.\<close> The database is the record \<open>db\<close> (theory \<open>Models\<close>): one list of rows per table, in
  insertion order, a clock and a supply of fresh identifiers. A service function takes the state
  and returns the new one; \<open>db.get\<close> and \<open>db.scalar(select ...)\<close> are \<^const>\<open>find\<close>, an update of the
  rows that satisfy a condition is \<open>update_where\<close>. Exceptions are the left values of a sum.
  Integers are unbounded as in Python; a datetime counts microseconds; amounts are rational
  numbers (\<open>Numeric(19, 4)\<close> columns) or \<open>Decimal\<close> values where the text of a number matters;
  a float is a rational rounded to 53 bits (theory \<open>PyValues\<close>).

  \<^bold>\<open>Theories.\<close>
  \<^item> \<open>Prelude\<close>: computations that may raise, tables of rows with a key (locale \<open>keyed_rows\<close>) and
    guarded transition systems (locale \<open>transition_system\<close>).
  \<^item> \<open>PyValues\<close>: Python values, strings, floats, \<open>str\<close>, \<open>repr\<close> and JSON text.
  \<^item> \<open>APL_Schema\<close>, \<open>APL_Evaluator\<close>, \<open>APL_Validator\<close>: the policy language
    (\<open>services/apl/schema.py\<close>, \<open>evaluator.py\<close>, \<open>validator.py\<close>); condition semantics against a
    Boolean reference, precedence of effects, what acceptance by the validator guarantees.
  \<^item> \<open>APL_Diff\<close>: \<open>services/apl/diff.py\<close>; what a change that is not reported can and cannot do.
  \<^item> \<open>Models\<close>: the rows (\<open>models/*.py\<close>). \<open>Permissions\<close>: \<open>services/permissions.py\<close>.
  \<^item> \<open>Delegation\<close>, \<open>Delegation_Safety\<close>: \<open>services/agent_delegation.py\<close>; attenuation, soundness of the
    verification, the cascade as a refinement of reachability, termination of the chain view.
  \<^item> \<open>Notifications\<close>, \<open>Notifications_Safety\<close>: \<open>services/notification_service.py\<close> and the security
    event it writes; deduplication, and two defects of device registration.
  \<^item> \<open>RiskEngine\<close>, \<open>RiskEngine_Safety\<close>: \<open>services/risk_engine.py\<close>, \<open>services/organization_policy.py\<close>;
    range, bands and monotonicity of the score.
  \<^item> \<open>Authorization\<close>, \<open>Authorization_Safety\<close>: \<open>services/authorization.py\<close>; a decision has grounds, is
    recorded once, and combines its stages in one direction.
  \<^item> \<open>AuthorizationRequests\<close>, \<open>AuthorizationRequests_Safety\<close>:
    \<open>services/authorization_requests.py\<close>; a request is decided once and checked again on approval.
  \<^item> \<open>Lifecycle\<close>, \<open>Lifecycle_Safety\<close>: \<open>services/agent_lifecycle.py\<close>; the transition matrix, what a
    transition guarantees, what retirement revokes.
  \<^item> \<open>RateLimit\<close>: \<open>services/rate_limit.py\<close>; the locale \<open>quota\<close> is the contract of an admission
    counter, kept by the sliding window and by the monthly quota. The counter of Redis is a
    parameter that may fail, and so is the digest of a key.
  \<^item> \<open>PlanLimits\<close>: \<open>services/plan_limits.py\<close> on the record \<open>billing\<close>, the database with the tables of
    \<open>models/billing.py\<close>; the monthly quota is exact. \<open>Dates\<close>: the calendar arithmetic.
  \<^item> \<open>Canonical\<close>: \<open>services/atp_canonical.py\<close>, \<open>services/atc_canonical.py\<close>; addresses and the texts that
    are signed, which determine their fields.
  \<^item> \<open>Signing\<close>: \<open>services/agent_signing.py\<close> on the record \<open>signing\<close>; an accepted signature has
    grounds and is accepted once, because a stored nonce outlives the window of its timestamp.
    SHA-256, Base64, Ed25519 and Redis are parameters (record \<open>crypto\<close>).
  \<^item> \<open>Credentials\<close>: \<open>services/credential_service.py\<close> on the record \<open>trust\<close>; what a verified
    credential is backed by, and how white space evades its revocation.
  \<^item> \<open>CrossOrg\<close>: \<open>services/cross_organization_trust.py\<close> on the record \<open>xorg\<close>, which adds relationships,
    policies, connections, requests, approvals and profiles to the signing state;
    \<open>CrossOrgAuthorization\<close>: \<open>services/cross_org_authorization.py\<close>; \<open>CrossOrg_Safety\<close>: what a granted request
    rests on, who approves it, how a relationship becomes active, and what its revocation misses.
  \<^item> \<open>Ssrf\<close>: \<open>services/ssrf_protection.py\<close> with the parts of \<open>ipaddress\<close> and \<open>urllib.parse\<close> it uses, on
    words of 32 and 128 bits; which addresses are refused, and which slip through.
    \<open>GatewayIdentity\<close>: \<open>services/gateway_identity.py\<close>; attestations can be read back.
  \<^item> \<open>AtpRouter\<close>: \<open>services/atp_router.py\<close>, \<open>services/sandbox_mock_agents.py\<close> and the rows of
    \<open>models/agenttrust_protocol.py\<close> on the record \<open>gateway\<close>, which adds endpoints, messages and
    deliveries; \<open>GatewayPipeline\<close>: \<open>services/gateway_pipeline.py\<close> and \<open>api/atp_gateway.py\<close>;
    \<open>Gateway_Safety\<close>: what a delivered message rests on, that records are final and attempts bounded,
    and four ways around the checks. The resolver, HTTP answers and random identifiers are parameters
    (record \<open>gateway_env\<close>).
  \<^item> \<open>GatewayControl\<close>: \<open>services/gateway_control_service.py\<close>, the rows of \<open>models/enterprise_gateway.py\<close> and
    the lists of \<open>api/enterprise_gateways.py\<close> on the record \<open>control\<close>; \<open>GatewayControl_Safety\<close>: barred
    gateways, tokens, and the order of published versions, which admits one environment per organization.
  \<^item> \<open>Sidecar\<close>: \<open>src/sidecar/state.py\<close> and \<open>evaluator.py\<close>; \<open>SidecarSync\<close>: \<open>crypto.py\<close>, \<open>sync.py\<close>,
    \<open>storage.py\<close>, \<open>router.py\<close> and \<open>main.py\<close> on the record \<open>SidecarState\<close>, with HTTP answers, the local key and
    the disk in the record \<open>sidecar_env\<close>. \<open>Sidecar_Safety\<close>: what a local approval rests on, replay, versions,
    metrics, and three defects (the locale \<open>sync_kept\<close> is the contract of what a synchronization keeps);
    \<open>Sidecar_Checks\<close>: its rules against those of the control plane, its addresses against those of the gateway;
    \<open>SidecarControl_Safety\<close>: the sidecar and the control plane accept what the other signs and sends.

  \<^bold>\<open>Termination.\<close> Every loop of the modelled code is a total function, by structural recursion or
  with a measure (unvisited rows, active rows), except the chain view, whose loop has no guard in
  the code: it is a partial function whose termination is a theorem about reachable states.

  \<^bold>\<open>Not modelled.\<close> The HTTP routers and their schemas, accounts and sessions, delivery over mail,
  push and webhooks, discovery, the command
  line and the clients in other languages. Row locks and concurrent transactions are left out: an
  operation runs alone on the state. Metrics counters and descriptive columns are left out.
\<close>

end
